(* ===== verification/Prelude.thy ===== *)
theory Prelude
  imports Main "HOL-Library.Word" "HOL-Library.Monad_Syntax"
begin

text \<open>
  Shared types and lemmas of the development.

  A Go function that may panic (a nil dereference, an index or a slice out of range) or that
  may fail to return is modelled with result type \<open>'a option\<close>: \<open>None\<close> is the panic, and every
  later step is skipped, as the unwinding of the goroutine does. The predicate \<open>ok m Q\<close> says
  that \<open>m\<close> returns and that its result satisfies \<open>Q\<close>; its rules are collected in \<open>ok_rules\<close>.

  \<open>encoding/binary\<close> in network byte order is \<open>put_uint\<close> and \<open>get_uint\<close>; byte strings are lists
  of \<open>8 word\<close>.
\<close>

unbundle bit_operations_syntax

named_theorems ok_rules "rules for computations that return a result with a property"

type_synonym byte = "8 word"
type_synonym bytes = "byte list"

section \<open>Computations that may panic\<close>

definition ok :: "'a option \<Rightarrow> ('a \<Rightarrow> bool) \<Rightarrow> bool" where
  "ok m Q \<longleftrightarrow> (case m of None \<Rightarrow> False | Some x \<Rightarrow> Q x)"

lemma ok_Some [ok_rules, simp]: "ok (Some x) Q = Q x"
  by (simp add: ok_def)

lemma ok_None [ok_rules, simp]: "ok None Q = False"
  by (simp add: ok_def)

lemma ok_bind [ok_rules]: "ok (m \<bind> f) Q = ok m (\<lambda>x. ok (f x) Q)"
  by (cases m) auto

lemma ok_if [ok_rules]: "ok (if b then m else n) Q = ((b \<longrightarrow> ok m Q) \<and> (\<not> b \<longrightarrow> ok n Q))"
  by simp

lemma ok_mono: "ok m P \<Longrightarrow> (\<And>x. P x \<Longrightarrow> Q x) \<Longrightarrow> ok m Q"
  by (cases m) auto

lemma ok_seq: "ok m P \<Longrightarrow> (\<And>x. P x \<Longrightarrow> ok (f x) Q) \<Longrightarrow> ok (m \<bind> f) Q"
  by (cases m) auto

lemma ok_iff: "ok m Q \<longleftrightarrow> (\<exists>x. m = Some x \<and> Q x)"
  by (cases m) auto

section \<open>Dispatch on a value\<close>

text \<open>
  A Go \<open>switch\<close> over constants is a list of cases tried in order and a default.
\<close>

fun switch :: "'a \<Rightarrow> ('a list \<times> 'b) list \<Rightarrow> 'b \<Rightarrow> 'b" where
  "switch x [] d = d"
| "switch x ((ks, b) # cs) d = (if x \<in> set ks then b else switch x cs d)"

lemma switch_cases:
  assumes "list_all (\<lambda>(ks, b). \<forall>k \<in> set ks. x = k \<longrightarrow> P b) cs" and "P d"
  shows "P (switch x cs d)"
  using assms by (induction x cs d rule: switch.induct) auto

section \<open>Slices\<close>

text \<open>Reading and writing a slice at an \<open>int\<close> index; out of range it panics.\<close>

definition list_at :: "'a list \<Rightarrow> int \<Rightarrow> 'a option" where
  "list_at xs i = (if 0 \<le> i \<and> i < int (length xs) then Some (xs ! nat i) else None)"

definition list_put :: "'a list \<Rightarrow> int \<Rightarrow> 'a \<Rightarrow> 'a list option" where
  "list_put xs i v = (if 0 \<le> i \<and> i < int (length xs) then Some (xs[nat i := v]) else None)"

lemma ok_list_at [ok_rules]:
  "0 \<le> i \<Longrightarrow> i < int (length xs) \<Longrightarrow> ok (list_at xs i) Q = Q (xs ! nat i)"
  by (simp add: list_at_def)

lemma ok_list_put [ok_rules]:
  "0 \<le> i \<Longrightarrow> i < int (length xs) \<Longrightarrow> ok (list_put xs i v) Q = Q (xs[nat i := v])"
  by (simp add: list_put_def)

lemma list_at_last: "list_at xs (int (length xs) - 1) = (if xs = [] then None else Some (last xs))"
  by (cases xs rule: rev_cases) (auto simp: list_at_def nat_diff_distrib)

lemma list_at_first: "list_at xs 0 = (if xs = [] then None else Some (hd xs))"
  by (cases xs) (auto simp: list_at_def)

lemma list_at_nth: "list_at xs (int i) = (if i < length xs then Some (xs ! i) else None)"
  by (simp add: list_at_def)

text \<open>\<open>xs[i:j]\<close>.\<close>

definition slice :: "'a list \<Rightarrow> int \<Rightarrow> int \<Rightarrow> 'a list option" where
  "slice xs i j =
     (if 0 \<le> i \<and> i \<le> j \<and> j \<le> int (length xs) then Some (drop (nat i) (take (nat j) xs)) else None)"

section \<open>Strings\<close>

text \<open>\<open>strings.Index\<close> for a one byte separator.\<close>

fun index_from :: "int \<Rightarrow> char \<Rightarrow> string \<Rightarrow> int" where
  "index_from i c [] = - 1"
| "index_from i c (x # xs) = (if x = c then i else index_from (i + 1) c xs)"

definition has_prefix :: "string \<Rightarrow> string \<Rightarrow> bool" where
  "has_prefix s pre \<longleftrightarrow> take (length pre) s = pre"

text \<open>
  \<open>strconv.Atoi\<close> on a 64 bit platform: an optional sign, at least one digit, and a value in the
  range of \<open>int\<close>.
\<close>

definition is_digit :: "char \<Rightarrow> bool" where
  "is_digit c \<longleftrightarrow> 48 \<le> (of_char c :: nat) \<and> (of_char c :: nat) \<le> 57"

definition digits_value :: "string \<Rightarrow> int" where
  "digits_value s = foldl (\<lambda>acc c. acc * 10 + (of_char c - 48)) 0 s"

definition Atoi :: "string \<Rightarrow> int option" where
  "Atoi s =
     (let neg = has_prefix s ''-'';
          ds = (if neg \<or> has_prefix s ''+'' then drop 1 s else s);
          v = (if neg then - digits_value ds else digits_value ds)
      in if ds \<noteq> [] \<and> list_all is_digit ds \<and> - (2 ^ 63) \<le> v \<and> v < 2 ^ 63 then Some v else None)"

text \<open>The verb \<open>%d\<close> of \<open>fmt\<close>.\<close>

fun decimal :: "nat \<Rightarrow> string" where
  "decimal n =
     (if n < 10 then [char_of (48 + n)] else decimal (n div 10) @ [char_of (48 + n mod 10)])"

declare decimal.simps [simp del]

definition fmt_d :: "int \<Rightarrow> string" where
  "fmt_d i = (if i < 0 then CHR ''-'' # decimal (nat (- i)) else decimal (nat i))"

lemma decimal_digits: "list_all is_digit (decimal n) \<and> decimal n \<noteq> []"
proof (induction n rule: decimal.induct)
  case (1 n)
  have "is_digit (char_of (48 + n))" if "n < 10" for n :: nat using that by (simp add: is_digit_def)
  then show ?case using 1 by (subst (1 2) decimal.simps) simp
qed

lemma decimal_value: "digits_value (decimal n) = int n"
proof (induction n rule: decimal.induct)
  case (1 n)
  have "of_char (char_of (48 + k) :: char) = (48 + int k)" if "k < 10" for k :: nat
  proof -
    have "of_char (char_of (48 + k) :: char) = (48 + k :: nat)" using that by simp
    then show ?thesis by (metis of_nat_of_char of_nat_add of_nat_numeral)
  qed
  moreover have "int (n div 10) * 10 + int (n mod 10) = int n" by presburger
  ultimately show ?case using 1 by (subst decimal.simps) (auto simp: digits_value_def)
qed

section \<open>Bytes in network order\<close>

definition put_uint :: "nat \<Rightarrow> 'a::len word \<Rightarrow> bytes" where
  "put_uint n w = map (\<lambda>k. ucast (drop_bit (8 * (n - 1 - k)) w)) [0..<n]"

definition get_uint :: "bytes \<Rightarrow> 'a::len word" where
  "get_uint bs = foldl (\<lambda>acc b. push_bit 8 acc OR ucast b) 0 bs"

lemma length_put_uint [simp]: "length (put_uint n w) = n"
  by (simp add: put_uint_def)

lemma get_uint_snoc: "get_uint (bs @ [b]) = push_bit 8 (get_uint bs) OR ucast b"
  by (simp add: get_uint_def)

lemma bit_get_uint:
  "bit (get_uint bs :: 'a::len word) i \<longleftrightarrow>
    i < LENGTH('a) \<and> i div 8 < length bs \<and> bit (bs ! (length bs - 1 - i div 8)) (i mod 8)"
proof (induction bs arbitrary: i rule: rev_induct)
  case Nil
  then show ?case by (simp add: get_uint_def)
next
  case (snoc b bs)
  show ?case
  proof (cases "i < 8")
    case True
    then show ?thesis
      by (auto simp: get_uint_snoc bit_or_iff bit_push_bit_iff bit_ucast_iff nth_append)
  next
    case False
    then have "\<not> bit b i"
      using bit_imp_le_length [of b i] by auto
    moreover have "length bs - Suc ((i - 8) div 8) = length bs - i div 8"
      using False by (simp add: le_div_geq)
    ultimately show ?thesis
      using False snoc [of "i - 8"]
      by (auto simp: get_uint_snoc bit_or_iff bit_push_bit_iff bit_ucast_iff nth_append
          le_div_geq le_mod_geq)
  qed
qed

lemma get_put_uint:
  assumes "LENGTH('a) = 8 * n"
  shows "get_uint (put_uint n w) = (w :: 'a::len word)"
proof (rule bit_word_eqI)
  fix i assume i: "i < LENGTH('a)"
  then have "i div 8 < n" using assms by linarith
  then have "8 * (n - Suc (n - Suc (i div 8))) + i mod 8 = i" by simp
  then show "bit (get_uint (put_uint n w) :: 'a word) i = bit w i"
    using i assms \<open>i div 8 < n\<close>
    by (simp add: bit_get_uint put_uint_def bit_ucast_iff bit_drop_bit_eq)
qed

section \<open>Sorting one more element in\<close>

lemma sort_key_insert_into_filter:
  assumes "sorted (map f xs)" and "distinct (map f xs)" and "x \<in> set xs" and "x \<notin> S"
  shows "sort_key f (filter (\<lambda>y. y \<in> S) xs @ [x]) = filter (\<lambda>y. y \<in> insert x S) xs"
proof (rule map_sorted_distinct_set_unique [where f = f])
  have inj: "inj_on f (set xs)" using assms(2) by (simp add: distinct_map)
  have "distinct xs" using assms(2) by (simp add: distinct_map)
  let ?l = "sort_key f (filter (\<lambda>y. y \<in> S) xs @ [x])" and ?r = "filter (\<lambda>y. y \<in> insert x S) xs"
  show set: "set ?l = set ?r" using assms(3) by auto
  show "inj_on f (set ?l \<union> set ?r)"
    using inj by (rule inj_on_subset) (use assms(3) in auto)
  show "sorted (map f ?l)" by simp
  show "sorted (map f ?r)" using assms(1) by (rule sorted_filter)
  show "distinct (map f ?r)" using assms(2) by (rule distinct_map_filter)
  have "distinct ?l" using \<open>distinct xs\<close> assms(4) by simp
  moreover have "inj_on f (set ?l)"
    using inj by (rule inj_on_subset) (use assms(3) in auto)
  ultimately show "distinct (map f ?l)" by (simp only: distinct_map)
qed

lemma filter_eq_single: "distinct xs \<Longrightarrow> x \<in> set xs \<Longrightarrow> filter (\<lambda>y. y = x) xs = [x]"
  by (induction xs) (auto simp: filter_empty_conv)

end
