(* ===== verification/Fragment.thy ===== *)
theory Fragment
  imports Prelude
begin

text \<open>
  \<open>network/fragment.go\<close> and \<open>network/compressor.go\<close>: an instruction is marshalled, compressed,
  cut into fragments of at most an MTU, and put together again by the receiver, whatever the
  order in which UDP delivers the fragments.

  Parameters stand for code outside the repository: \<open>marshal\<close> and \<open>unmarshal\<close> for
  \<open>proto.Marshal\<close> and \<open>proto.Unmarshal\<close>, \<open>zwrite\<close> for everything a \<open>zlib.Writer\<close> has written
  when it is closed, \<open>zread\<close> for the outcome of the first \<open>Read\<close> of a \<open>zlib.Reader\<close> (\<open>None\<close>
  when \<open>NewReader\<close> reports an error).
\<close>

section \<open>Data\<close>

record fragment =
  fr_contents :: bytes
  fr_id :: "64 word"
  fr_num :: "16 word"
  fr_final :: bool
  fr_initialized :: bool

text \<open>\<open>pb.Instruction\<close>; the optional byte fields are lists, an unset one being empty.\<close>

record instruction =
  in_protocolVersion :: "32 word"
  in_oldNum :: "64 word"
  in_newNum :: "64 word"
  in_ackNum :: "64 word"
  in_throwawayNum :: "64 word"
  in_diff :: bytes
  in_chaff :: bytes

definition NewFragment :: "64 word \<Rightarrow> 16 word \<Rightarrow> bool \<Rightarrow> bytes \<Rightarrow> fragment" where
  "NewFragment i n fin c =
     \<lparr>fr_contents = c, fr_id = i, fr_num = n, fr_final = fin, fr_initialized = True\<rparr>"

section \<open>Wire format of a fragment\<close>

text \<open>\<open>unsafe.Sizeof(f.id) + unsafe.Sizeof(f.fragmentNum)\<close>.\<close>

definition fragHeaderLen :: nat where
  "fragHeaderLen = 8 + 2"

text \<open>The nil pointer returned for a short string is \<open>None\<close>.\<close>

definition NewFragmentFrom :: "bytes \<Rightarrow> fragment option" where
  "NewFragmentFrom x =
     (if length x < fragHeaderLen then None
      else
        let combo = get_uint (take 2 (drop 8 x)) :: 16 word
        in Some \<lparr>fr_contents = drop fragHeaderLen x,
                 fr_id = get_uint (take 8 x),
                 fr_num = combo AND 0x7fff,
                 fr_final = (combo AND 0x8000 > 0),
                 fr_initialized = True\<rparr>)"

definition Fragment_String :: "fragment \<Rightarrow> bytes" where
  "Fragment_String f =
     (if \<not> fr_initialized f then []
      else
        let combo = (if fr_final f then fr_num f OR 0x8000 else fr_num f)
        in put_uint 8 (fr_id f) @ put_uint 2 combo @ fr_contents f)"

section \<open>Compressor\<close>

datatype read_err = Read_ok | Read_eof | Read_failed

definition bufSize :: nat where
  "bufSize = 2048 * 2048"

definition Compress :: "(bytes \<Rightarrow> bytes) \<Rightarrow> bytes \<Rightarrow> bytes" where
  "Compress zwrite input = zwrite input"

text \<open>
  \<open>Uncompress\<close> reads once. It returns the data only when that single read also reports the end
  of the stream; a read that stops early without an error gives \<open>nil, nil\<close>, here an empty result.
\<close>

definition Uncompress :: "(bytes \<Rightarrow> (bytes \<times> read_err) option) \<Rightarrow> bytes \<Rightarrow> bytes option" where
  "Uncompress zread input =
     (case zread input of
        None \<Rightarrow> None
      | Some (out, err) \<Rightarrow>
          if err = Read_eof \<and> length out < bufSize then Some out
          else if err = Read_ok then Some [] else None)"

section \<open>Assembly\<close>

record assembly =
  fa_fragments :: "fragment list"
  fa_currentId :: "64 word"
  fa_arrived :: int
  fa_total :: int

definition NewFragmentAssembly :: assembly where
  "NewFragmentAssembly =
     \<lparr>fa_fragments = [], fa_currentId = - 1, fa_arrived = 0, fa_total = - 1\<rparr>"

text \<open>The loop of \<open>has\<close>: the first fragment with the same number, and its index.\<close>

fun has_from :: "fragment list \<Rightarrow> fragment \<Rightarrow> int \<Rightarrow> bool \<times> int" where
  "has_from [] frag i = (False, - 1)"
| "has_from (fs # rest) frag i =
     (if fr_num fs = fr_num frag then (True, i) else has_from rest frag (i + 1))"

definition has :: "assembly \<Rightarrow> fragment \<Rightarrow> bool \<times> int" where
  "has a frag = has_from (fa_fragments a) frag 0"

text \<open>
  \<open>addFragment\<close> dereferences its argument, so the nil fragment of a short datagram panics.
  \<open>sort.SliceStable\<close> by fragment number is \<open>sort_key\<close>.
\<close>

definition addFragment :: "fragment option \<Rightarrow> assembly \<Rightarrow> (bool \<times> assembly) option" where
  "addFragment fp a = do {
     frag \<leftarrow> fp;
     let a1 =
       (if fa_currentId a \<noteq> fr_id frag then
          a\<lparr>fa_fragments := [frag], fa_arrived := 1, fa_total := - 1, fa_currentId := fr_id frag\<rparr>
        else if \<not> fst (has a frag) then
          a\<lparr>fa_fragments := sort_key (\<lambda>f. unat (fr_num f)) (fa_fragments a @ [frag]),
            fa_arrived := fa_arrived a + 1\<rparr>
        else a);
     let a2 = (if fr_final frag then a1\<lparr>fa_total := int (unat (fr_num frag)) + 1\<rparr> else a1);
     Some (fa_arrived a2 = fa_total a2, a2)
   }"

text \<open>
  \<open>getAssembly\<close> indexes the first \<open>fragmentsTotal\<close> fragments (a panic when there are fewer); an
  error of the decompressor or of the unmarshaller returns nil and leaves the assembly alone.
\<close>

definition getAssembly ::
  "(bytes \<Rightarrow> (bytes \<times> read_err) option) \<Rightarrow> (bytes \<Rightarrow> instruction option) \<Rightarrow> assembly
     \<Rightarrow> (instruction option \<times> assembly) option" where
  "getAssembly zread unmarshal a =
     (if int (length (fa_fragments a)) < fa_total a then None
      else
        let encoded = concat (map fr_contents (take (nat (fa_total a)) (fa_fragments a)))
        in case Uncompress zread encoded of
             None \<Rightarrow> Some (None, a)
           | Some b \<Rightarrow>
               (case unmarshal b of
                  None \<Rightarrow> Some (None, a)
                | Some inst \<Rightarrow>
                    Some (Some inst, a\<lparr>fa_fragments := [], fa_arrived := 0, fa_total := - 1\<rparr>)))"

section \<open>Fragmenter\<close>

record fragmenter =
  fm_lastInstruction :: instruction
  fm_nextInstructionId :: "64 word"
  fm_lastMTU :: int

definition NewFragmenter :: fragmenter where
  "NewFragmenter =
     \<lparr>fm_lastInstruction =
        \<lparr>in_protocolVersion = 0, in_oldNum = - 1, in_newNum = - 1, in_ackNum = 0,
         in_throwawayNum = 0, in_diff = [], in_chaff = []\<rparr>,
      fm_nextInstructionId = 0,
      fm_lastMTU = 2 ^ 63 - 1\<rparr>"

definition lastAckSent :: "fragmenter \<Rightarrow> 64 word" where
  "lastAckSent f = in_ackNum (fm_lastInstruction f)"

text \<open>
  The loop of \<open>makeFragments\<close> on what is left of the payload. With an \<open>mtu\<close> that is not
  positive a non-empty rest never gets shorter (0) or is sliced out of range (negative): \<open>None\<close>.
  The counter is a \<open>uint16\<close>.
\<close>

function fragment_loop :: "64 word \<Rightarrow> int \<Rightarrow> 16 word \<Rightarrow> bytes \<Rightarrow> fragment list option" where
  "fragment_loop i mtu n rest =
     (if int (length rest) > mtu then
        (if mtu \<le> 0 then None
         else do {
           fs \<leftarrow> fragment_loop i mtu (n + 1) (drop (nat mtu) rest);
           Some (NewFragment i n False (take (nat mtu) rest) # fs)
         })
      else Some [NewFragment i n True rest])"
  by pat_completeness auto
termination
  by (relation "measure (\<lambda>(i, mtu, n, rest). length rest)") auto

declare fragment_loop.simps [simp del]

text \<open>
  \<open>proto.Equal\<close> compares the instruction with the last one. A nil payload (an empty buffer of the
  compressor) gives no fragment.
\<close>

definition makeFragments ::
  "(instruction \<Rightarrow> bytes) \<Rightarrow> (bytes \<Rightarrow> bytes) \<Rightarrow> instruction \<Rightarrow> int \<Rightarrow> fragmenter
     \<Rightarrow> (fragment list \<times> fragmenter) option" where
  "makeFragments marshal zwrite inst mtu0 f = do {
     let mtu = mtu0 - int fragHeaderLen;
     let i = (if inst \<noteq> fm_lastInstruction f \<or> fm_lastMTU f \<noteq> mtu
              then fm_nextInstructionId f + 1 else fm_nextInstructionId f);
     let f' = f\<lparr>fm_nextInstructionId := i, fm_lastInstruction := inst, fm_lastMTU := mtu\<rparr>;
     let payload = Compress zwrite (marshal inst);
     fs \<leftarrow> (if payload = [] then Some [] else fragment_loop i mtu 0 payload);
     Some (fs, f')
   }"

section \<open>Lemmas on the wire format\<close>

lemma or_and_final_bit:
  assumes "unat (w :: 16 word) < 2 ^ 15"
  shows "(w OR 0x8000) AND 0x7fff = w" and "(w OR 0x8000) AND 0x8000 = 0x8000"
    and "w AND 0x7fff = w" and "w AND 0x8000 = 0"
proof -
  have hi: "\<not> bit w n" if "15 \<le> n" for n
  proof -
    have "w < 2 ^ 15" using assms by (simp add: word_less_nat_alt)
    then have "w = take_bit 15 w"
      by (simp only: take_bit_eq_mask less_mask_eq)
    then show ?thesis using that by (metis bit_take_bit_iff not_less)
  qed
  have lo: "n < 15" if "bit w n" for n
    using that hi [of n] by (rule_tac ccontr) simp
  have m: "bit (0x7fff :: 16 word) n \<longleftrightarrow> n < 15" for n
  proof -
    have "(0x7fff :: 16 word) = mask 15" by (simp add: mask_eq_exp_minus_1)
    then show ?thesis by (simp only: bit_mask_iff) auto
  qed
  have b: "bit (0x8000 :: 16 word) n \<longleftrightarrow> n = 15" for n
  proof -
    have "(0x8000 :: 16 word) = push_bit 15 1" by (simp add: push_bit_eq_mult)
    then show ?thesis by (simp only: bit_push_bit_iff bit_1_iff) auto
  qed
  show "(w OR 0x8000) AND 0x7fff = w" and "(w OR 0x8000) AND 0x8000 = 0x8000"
    and "w AND 0x7fff = w"
    by (rule bit_word_eqI; use m b lo in \<open>auto simp only: bit_and_iff bit_or_iff\<close>; fail)+
  show "w AND 0x8000 = 0"
  proof (rule bit_word_eqI)
    fix n
    have "\<not> bit (w AND 0x8000) n" using lo [of n] b [of n] by (auto simp only: bit_and_iff)
    then show "bit (w AND 0x8000) n = bit 0 n" by simp
  qed
qed

lemma Fragment_wire:
  assumes "fr_initialized f" and "unat (fr_num f) < 2 ^ 15"
  shows "NewFragmentFrom (Fragment_String f) = Some f"
  using assms
  by (simp add: NewFragmentFrom_def Fragment_String_def fragHeaderLen_def Let_def
      get_put_uint [where n = 8] get_put_uint [where n = 2] or_and_final_bit)

lemma Fragment_wire_length:
  "fr_initialized f \<Longrightarrow> length (Fragment_String f) = fragHeaderLen + length (fr_contents f)"
  by (simp add: Fragment_String_def Let_def fragHeaderLen_def)

section \<open>Lemmas on the fragmenter\<close>

text \<open>
  What \<open>makeFragments\<close> promises: consecutive numbers from \<open>n\<close>, one identifier, the payload cut
  in pieces of at most \<open>mtu\<close> bytes, the last one marked final.
\<close>

definition fragments_of :: "64 word \<Rightarrow> nat \<Rightarrow> int \<Rightarrow> bytes \<Rightarrow> fragment list \<Rightarrow> bool" where
  "fragments_of i n mtu payload fs \<longleftrightarrow>
     fs \<noteq> [] \<and> concat (map fr_contents fs) = payload \<and>
     (\<forall>k < length fs. fr_id (fs ! k) = i \<and> fr_num (fs ! k) = of_nat (n + k) \<and>
        fr_initialized (fs ! k) \<and> int (length (fr_contents (fs ! k))) \<le> mtu \<and>
        (fr_final (fs ! k) \<longleftrightarrow> k = length fs - 1))"

lemma fragment_loop_fragments:
  assumes "0 < mtu"
  shows "\<exists>fs. fragment_loop i mtu (of_nat n) payload = Some fs \<and> fragments_of i n mtu payload fs"
proof (induction "length payload" arbitrary: n payload rule: less_induct)
  case less
  show ?case
  proof (cases "int (length payload) > mtu")
    case False
    then show ?thesis
      by (subst fragment_loop.simps) (simp add: fragments_of_def NewFragment_def)
  next
    case True
    let ?rest = "drop (nat mtu) payload"
    have "length ?rest < length payload" using True assms by auto
    from less [OF this, of "Suc n"] obtain fs where
      fs: "fragment_loop i mtu (of_nat (Suc n)) ?rest = Some fs" "fragments_of i (Suc n) mtu ?rest fs"
      by blast
    let ?f = "NewFragment i (of_nat n) False (take (nat mtu) payload)"
    have "fragment_loop i mtu (of_nat n) payload = Some (?f # fs)"
      using True assms fs(1) by (subst fragment_loop.simps) (simp add: add.commute)
    moreover have "fragments_of i n mtu payload (?f # fs)"
      using fs(2) assms by (auto simp: fragments_of_def NewFragment_def nth_Cons' Suc_diff_Suc)
    ultimately show ?thesis by blast
  qed
qed

section \<open>Lemmas on the assembly\<close>

text \<open>The assembly holds the fragments \<open>S\<close> of the list \<open>fs\<close>, in order of their numbers.\<close>

lemma has_fst: "fst (has_from fs x i) \<longleftrightarrow> (\<exists>f \<in> set fs. fr_num f = fr_num x)"
  by (induction fs x i rule: has_from.induct) auto

definition holds_part :: "fragment list \<Rightarrow> fragment set \<Rightarrow> assembly \<Rightarrow> bool" where
  "holds_part fs S a \<longleftrightarrow>
     fa_currentId a = fr_id (hd fs) \<and> fa_fragments a = filter (\<lambda>f. f \<in> S) fs \<and>
     fa_arrived a = int (length (fa_fragments a)) \<and>
     fa_total a = (if last fs \<in> S then int (length fs) else - 1)"

lemma fragments_of_keys:
  assumes "fragments_of i 0 mtu payload fs" and "length fs \<le> 2 ^ 15"
  shows "map (\<lambda>f. unat (fr_num f)) fs = [0..<length fs]"
proof (rule nth_equalityI)
  fix k assume "k < length (map (\<lambda>f. unat (fr_num f)) fs)"
  then show "map (\<lambda>f. unat (fr_num f)) fs ! k = [0..<length fs] ! k"
    using assms by (simp add: fragments_of_def unat_of_nat)
qed simp

lemma fragments_of_final:
  assumes "fragments_of i n mtu payload fs" and "x \<in> set fs" and "distinct fs"
  shows "fr_final x \<longleftrightarrow> x = last fs"
proof -
  obtain k where "k < length fs" "x = fs ! k" using assms(2) by (auto simp: in_set_conv_nth)
  moreover have "last fs = fs ! (length fs - 1)" "fs \<noteq> []"
    using assms(1) by (auto simp: fragments_of_def last_conv_nth)
  ultimately show ?thesis
    using assms(1,3) by (auto simp: fragments_of_def nth_eq_iff_index_eq)
qed

lemma addFragment_part:
  assumes fs: "fragments_of i 0 mtu payload fs" "length fs \<le> 2 ^ 15"
    and x: "x \<in> set fs"
    and a: "holds_part fs S a \<or> (S = {} \<and> fa_currentId a \<noteq> i)"
  shows "\<exists>a'. addFragment (Some x) a = Some (set fs \<subseteq> insert x S, a') \<and> holds_part fs (insert x S) a'"
proof -
  let ?key = "\<lambda>f. unat (fr_num f)"
  have keys: "map ?key fs = [0..<length fs]" using fs by (rule fragments_of_keys)
  then have dist: "distinct (map ?key fs)" and sorted: "sorted (map ?key fs)" by simp_all
  then have d: "distinct fs" and inj: "inj_on ?key (set fs)" by (simp_all add: distinct_map)
  have ids: "fr_id f = i" if "f \<in> set fs" for f
    using fs(1) that by (auto simp: fragments_of_def in_set_conv_nth)
  have ne: "fs \<noteq> []" using fs(1) by (simp add: fragments_of_def)
  have fin: "fr_final x \<longleftrightarrow> x = last fs" using fs(1) x d by (rule fragments_of_final)
  have tot: "uint (fr_num x) + 1 = int (length fs)" if "x = last fs"
  proof -
    have "int (unat (fr_num x)) + 1 = int (length fs)"
      using that ne arg_cong [OF keys, of last] by (cases fs rule: rev_cases) (auto simp: last_map)
    then show ?thesis by simp
  qed
  have l: "last fs \<in> T" if "set fs \<subseteq> T" for T
    using that last_in_set [OF ne] by blast
  have full: "length (filter (\<lambda>f. f \<in> T) fs) = length fs \<longleftrightarrow> set fs \<subseteq> T" for T
    by (metis filter_True length_filter_less order_less_irrefl subset_code(1))
  let ?T = "insert x S"
  have has: "fst (has a x) \<longleftrightarrow> x \<in> S" if "holds_part fs S a"
    using that x inj by (auto simp: has_def has_fst holds_part_def) (metis inj_onD)
  consider (fresh) "S = {}" "fa_currentId a \<noteq> i" | (dup) "holds_part fs S a" "x \<in> S"
    | (more) "holds_part fs S a" "x \<notin> S" using a by blast
  then show ?thesis
  proof cases
    case fresh
    have "x = last fs" if "set fs \<subseteq> {x}" using l [OF that] by simp
    then have c: "set fs \<subseteq> {x} \<longleftrightarrow> x = last fs \<and> length fs = 1"
      using full [of "{x}"] filter_eq_single [OF d x] by auto
    have "fr_id (hd fs) = i" using ids ne by simp
    moreover have "addFragment (Some x) a = Some (set fs \<subseteq> {x},
        a\<lparr>fa_fragments := [x], fa_arrived := 1,
          fa_total := (if x = last fs then int (length fs) else - 1), fa_currentId := i\<rparr>)"
      unfolding c using fresh(2) fin tot ids [OF x] by (simp add: addFragment_def)
    ultimately show ?thesis
      using fresh(1) filter_eq_single [OF d x] by (auto simp: holds_part_def)
  next
    case dup
    then have id: "fa_currentId a = fr_id x" and h: "fst (has a x)" and S: "insert x S = S"
      using ids x ne has by (auto simp: holds_part_def)
    have t: "x = last fs \<Longrightarrow> fa_total a = int (length fs)"
      using dup by (simp add: holds_part_def)
    have "fa_arrived a = fa_total a \<longleftrightarrow> set fs \<subseteq> S"
      using dup l [of S] full [of S] by (auto simp: holds_part_def)
    moreover have "(if fr_final x then a\<lparr>fa_total := int (unat (fr_num x)) + 1\<rparr> else a) = a"
      using t fin tot by simp
    ultimately have "addFragment (Some x) a = Some (set fs \<subseteq> S, a)"
      using id h by (simp add: addFragment_def)
    then show ?thesis using dup(1) S by simp
  next
    case more
    then have id: "fa_currentId a = fr_id x" and h: "\<not> fst (has a x)"
      using ids x ne has by (auto simp: holds_part_def)
    let ?l = "\<lambda>T. length (filter (\<lambda>f. f \<in> T) fs)"
    let ?t = "if last fs \<in> ?T then int (length fs) else - 1"
    have s: "sort_key ?key (fa_fragments a @ [x]) = filter (\<lambda>f. f \<in> ?T) fs"
      using more sort_key_insert_into_filter [OF sorted dist x] by (simp add: holds_part_def)
    then have n: "?l ?T = Suc (?l S)"
      using more by (metis holds_part_def length_append_singleton length_sort)
    have t: "(if fr_final x then int (unat (fr_num x)) + 1 else fa_total a) = ?t"
      using more(1) fin tot by (auto simp: holds_part_def)
    have c: "int (?l S) + 1 = ?t \<longleftrightarrow> set fs \<subseteq> ?T"
    proof (cases "last fs \<in> ?T")
      case True
      have "int (?l S) + 1 = int (length fs) \<longleftrightarrow> ?l ?T = length fs" using n by linarith
      then show ?thesis using True full [of ?T] by simp
    next
      case False
      then show ?thesis using l [of ?T] by auto
    qed
    have "addFragment (Some x) a = Some (fa_arrived a + 1 = ?t,
        a\<lparr>fa_fragments := filter (\<lambda>f. f \<in> ?T) fs, fa_arrived := fa_arrived a + 1, fa_total := ?t\<rparr>)"
      using id h t by (cases "fr_final x") (simp_all add: addFragment_def s)
    then show ?thesis
      using more(1) c n id by (auto simp: holds_part_def)
  qed
qed

fun receive_all :: "bytes list \<Rightarrow> assembly \<Rightarrow> (bool list \<times> assembly) option" where
  "receive_all [] a = Some ([], a)"
| "receive_all (d # ds) a = do {
     (r, a1) \<leftarrow> addFragment (NewFragmentFrom d) a;
     (rs, a2) \<leftarrow> receive_all ds a1;
     Some (r # rs, a2)
   }"

lemma fragments_of_wire:
  assumes "fragments_of i 0 mtu payload fs" and "length fs \<le> 2 ^ 15" and "x \<in> set fs"
  shows "NewFragmentFrom (Fragment_String x) = Some x"
proof -
  obtain k where "k < length fs" "x = fs ! k" using assms(3) by (auto simp: in_set_conv_nth)
  then show ?thesis
    using assms(1,2) by (intro Fragment_wire) (simp_all add: fragments_of_def unat_of_nat)
qed

lemma receive_all_part:
  assumes fs: "fragments_of i 0 mtu payload fs" "length fs \<le> 2 ^ 15"
    and a: "holds_part fs S a \<or> (S = {} \<and> fa_currentId a \<noteq> i)"
    and xs: "set xs \<subseteq> set fs" "\<not> set fs \<subseteq> set (butlast xs) \<union> S" "xs \<noteq> []"
  shows "\<exists>a'. receive_all (map Fragment_String xs) a
           = Some (replicate (length xs - 1) False @ [set fs \<subseteq> set xs \<union> S], a')
         \<and> holds_part fs (set xs \<union> S) a'"
  using a xs
proof (induction xs arbitrary: a S)
  case Nil
  then show ?case by simp
next
  case (Cons x xs)
  then have x: "x \<in> set fs" by simp
  obtain a1 where a1: "addFragment (Some x) a = Some (set fs \<subseteq> insert x S, a1)"
    "holds_part fs (insert x S) a1"
    using addFragment_part [OF fs x Cons.prems(1)] by blast
  show ?case
  proof (cases "xs = []")
    case True
    then show ?thesis using a1 fragments_of_wire [OF fs x] by simp
  next
    case False
    moreover have "\<not> set fs \<subseteq> set (butlast xs) \<union> insert x S"
      using Cons.prems(3) False by auto
    moreover have "\<not> set fs \<subseteq> insert x S" using calculation by blast
    ultimately show ?thesis
      using Cons.IH [of "insert x S" a1] Cons.prems a1 fragments_of_wire [OF fs x]
      by (auto simp: neq_Nil_conv Suc_diff_le)
  qed
qed


section \<open>Properties\<close>

text \<open>
  C20. An instruction that is cut into fragments is recovered by the receiver for every order of
  arrival and with any number of duplicates: while a fragment is missing \<open>addFragment\<close> answers
  false, with the last missing one it answers true, and then \<open>getAssembly\<close> gives the instruction
  back and resets the assembly. The hypotheses on \<open>zread\<close> and \<open>unmarshal\<close> are the documented
  behaviour of zlib (one read returns a short stream with its end) and of protobuf.
\<close>

theorem fragments_any_order:
  assumes "makeFragments marshal zwrite inst mtu f = Some (fs, f')"
    and "int fragHeaderLen < mtu" and "length fs \<le> 2 ^ 15"
    and "zwrite (marshal inst) \<noteq> []"
    and "zread (zwrite (marshal inst)) = Some (marshal inst, Read_eof)"
    and "length (marshal inst) < bufSize" and "unmarshal (marshal inst) = Some inst"
    and "fa_currentId a \<noteq> fm_nextInstructionId f'"
    and "set (xs @ [x]) = set fs" and "x \<notin> set xs"
  shows "\<exists>a'. receive_all (map Fragment_String (xs @ [x])) a = Some (replicate (length xs) False @ [True], a')
    \<and> getAssembly zread unmarshal a' =
        Some (Some inst, a'\<lparr>fa_fragments := [], fa_arrived := 0, fa_total := - 1\<rparr>)"
proof -
  let ?i = "fm_nextInstructionId f'" and ?p = "zwrite (marshal inst)"
  have fs: "fragments_of ?i 0 (mtu - int fragHeaderLen) ?p fs"
    using assms(1,2,4) fragment_loop_fragments [of "mtu - int fragHeaderLen" ?i 0 ?p]
    by (auto simp: makeFragments_def Let_def Compress_def bind_eq_Some_conv)
  obtain a' where a': "receive_all (map Fragment_String (xs @ [x])) a =
      Some (replicate (length xs) False @ [True], a')" "holds_part fs (set fs) a'"
    using receive_all_part [OF fs assms(3), of "{}" a "xs @ [x]"] assms(8-10) by auto
  have "fs \<noteq> []" "concat (map fr_contents fs) = ?p" using fs by (auto simp: fragments_of_def)
  then show ?thesis
    using a' assms(5-7) by (auto simp: getAssembly_def holds_part_def Let_def Uncompress_def)
qed

definition sample_instruction :: instruction where
  "sample_instruction =
     \<lparr>in_protocolVersion = 2, in_oldNum = 0, in_newNum = 1, in_ackNum = 0, in_throwawayNum = 0,
      in_diff = [1, 2, 3], in_chaff = []\<rparr>"

definition sample_fragments :: "fragment list" where
  "sample_fragments = [NewFragment 1 0 False [1, 2], NewFragment 1 1 True [3]]"

lemma sample_makeFragments:
  "makeFragments in_diff (\<lambda>b. b) sample_instruction 12 NewFragmenter = Some (sample_fragments,
      NewFragmenter\<lparr>fm_nextInstructionId := 1, fm_lastInstruction := sample_instruction,
        fm_lastMTU := 2\<rparr>)"
  by (simp add: makeFragments_def Let_def Compress_def fragHeaderLen_def NewFragmenter_def
      sample_instruction_def sample_fragments_def fragment_loop.simps)

lemma fragments_any_order_witness:
  "let f0 = sample_fragments ! 0; f1 = sample_fragments ! 1 in
   \<exists>a'. receive_all (map Fragment_String ([f1, f1] @ [f0])) NewFragmentAssembly
       = Some (replicate (length [f1, f1]) False @ [True], a') \<and>
     getAssembly (\<lambda>b. Some (b, Read_eof)) (\<lambda>b. Some sample_instruction) a' =
       Some (Some sample_instruction, a'\<lparr>fa_fragments := [], fa_arrived := 0, fa_total := - 1\<rparr>)"
  unfolding Let_def
  by (rule fragments_any_order [OF sample_makeFragments])
    (auto simp: fragHeaderLen_def sample_fragments_def sample_instruction_def bufSize_def
      NewFragmentAssembly_def NewFragmenter_def NewFragment_def)

text \<open>
  C32. Every fragment fits the MTU on the wire, and the receiver reads it back from there.
\<close>

theorem fragments_fit_mtu:
  assumes "makeFragments marshal zwrite inst mtu f = Some (fs, f')"
    and "int fragHeaderLen < mtu" and "length fs \<le> 2 ^ 15" and "x \<in> set fs"
  shows "int (length (Fragment_String x)) \<le> mtu \<and> NewFragmentFrom (Fragment_String x) = Some x"
proof -
  let ?i = "fm_nextInstructionId f'" and ?p = "zwrite (marshal inst)"
  have "?p \<noteq> []"
    using assms(1,4) by (auto simp: makeFragments_def Let_def Compress_def)
  then have fs: "fragments_of ?i 0 (mtu - int fragHeaderLen) ?p fs"
    using assms(1,2) fragment_loop_fragments [of "mtu - int fragHeaderLen" ?i 0 ?p]
    by (auto simp: makeFragments_def Let_def Compress_def bind_eq_Some_conv)
  then have "fr_initialized x" "int (length (fr_contents x)) \<le> mtu - int fragHeaderLen"
    using assms(4) by (auto simp: fragments_of_def in_set_conv_nth)
  then show ?thesis
    using Fragment_wire_length [of x] fragments_of_wire [OF fs assms(3,4)] by simp
qed

lemma fragments_fit_mtu_witness:
  "int (length (Fragment_String (NewFragment 1 1 True [3]))) \<le> 12 \<and>
    NewFragmentFrom (Fragment_String (NewFragment 1 1 True [3])) = Some (NewFragment 1 1 True [3])"
  by (rule fragments_fit_mtu [OF sample_makeFragments])
    (simp_all add: fragHeaderLen_def sample_fragments_def)

text \<open>
  A datagram shorter than a fragment header gives a nil fragment, on which \<open>addFragment\<close> panics
  in every state of the assembly.
\<close>

theorem short_datagram_panics:
  "length d < fragHeaderLen \<Longrightarrow> addFragment (NewFragmentFrom d) a = None"
  by (simp add: NewFragmentFrom_def addFragment_def)

lemma short_datagram_panics_witness: "addFragment (NewFragmentFrom [1, 2, 3]) NewFragmentAssembly = None"
  by (rule short_datagram_panics) (simp add: fragHeaderLen_def)

end
