(* ===== verification/ParserState.thy ===== *)
theory ParserState
  imports Prelude
begin

text \<open>
  \<open>terminal/parser.go\<close>, first part: the state of the parser and the methods that work on it.

  A rune is a natural number, a Go string a list of characters that holds the UTF-8 bytes.
  Every method that indexes a slice has result type \<open>option\<close>; \<open>None\<close> is the panic. What the code
  only logs is left out.
\<close>

type_synonym rune = nat

section \<open>Runes and strings\<close>

text \<open>\<open>strings.Builder.WriteRune\<close>: a surrogate or a value beyond Unicode is written as U+FFFD.\<close>

definition utf8 :: "rune \<Rightarrow> string" where
  "utf8 r0 =
     (let r = (if 0xD800 \<le> r0 \<and> r0 \<le> 0xDFFF \<or> r0 > 0x10FFFF then 0xFFFD else r0)
      in map char_of
          (if r < 0x80 then [r]
           else if r < 0x800 then [0xC0 + r div 64, 0x80 + r mod 64]
           else if r < 0x10000 then [0xE0 + r div 4096, 0x80 + r div 64 mod 64, 0x80 + r mod 64]
           else [0xF0 + r div 262144, 0x80 + r div 4096 mod 64, 0x80 + r div 64 mod 64,
                 0x80 + r mod 64]))"

definition rune_in :: "rune \<Rightarrow> string \<Rightarrow> bool" where
  "rune_in r cs \<longleftrightarrow> r \<in> set (map of_char cs)"

text \<open>A \<open>switch\<close> on a rune: cases with their labels, tried in order, and the default.\<close>

fun rune_switch :: "rune \<Rightarrow> (string \<times> 'b) list \<Rightarrow> 'b \<Rightarrow> 'b" where
  "rune_switch r [] d = d"
| "rune_switch r ((ks, b) # cs) d = (if rune_in r ks then b else rune_switch r cs d)"

lemma rune_switch_cases:
  assumes "list_all (\<lambda>(ks, b). rune_in r ks \<longrightarrow> P b) cs" and "P d"
  shows "P (rune_switch r cs d)"
  using assms by (induction r cs d rule: rune_switch.induct) auto

section \<open>State\<close>

datatype inputState =
  InputState_Normal | InputState_Escape | InputState_Escape_VT52 | InputState_Esc_Space
| InputState_Esc_Hash | InputState_Esc_Pct | InputState_Select_Charset | InputState_CSI
| InputState_CSI_Priv | InputState_CSI_Quote | InputState_CSI_DblQuote | InputState_CSI_Bang
| InputState_CSI_SPC | InputState_CSI_GT | InputState_CSI_LT | InputState_CSI_Equal
| InputState_DCS | InputState_DCS_Esc | InputState_OSC | InputState_OSC_Esc
| InputState_VT52_CUP_Arg1 | InputState_VT52_CUP_Arg2

datatype compatLevel =
  CompatLevel_Unused | CompatLevel_VT52 | CompatLevel_VT100 | CompatLevel_VT400

record parser =
  ps_history :: "rune list"
  ps_argBuf :: string
  ps_lastChs :: "rune list"
  ps_inputOps :: "int list"
  ps_inputSep :: "rune list"
  ps_chs :: "rune list"
  ps_inputState :: inputState
  ps_nInputOps :: int
  ps_maxEscOps :: int
  ps_ch :: rune
  ps_scsDst :: rune
  ps_scsMod :: rune
  ps_handleReady :: bool
  ps_compatLevel :: compatLevel
  ps_vtMode :: bool
  ps_logTrace :: bool

definition parser_reset :: "parser \<Rightarrow> parser" where
  "parser_reset p =
     p\<lparr>ps_inputState := InputState_Normal, ps_ch := 0, ps_chs := [], ps_lastChs := [],
       ps_handleReady := False, ps_maxEscOps := 16, ps_inputOps := replicate 16 0,
       ps_inputSep := replicate 16 0, ps_nInputOps := 0, ps_argBuf := [], ps_history := [],
       ps_scsDst := 0, ps_scsMod := 0, ps_vtMode := False, ps_logTrace := False,
       ps_compatLevel := CompatLevel_VT400\<rparr>"

definition NewParser :: parser where
  "NewParser = parser_reset
     \<lparr>ps_history = [], ps_argBuf = [], ps_lastChs = [], ps_inputOps = [], ps_inputSep = [],
      ps_chs = [], ps_inputState = InputState_Normal, ps_nInputOps = 0, ps_maxEscOps = 0,
      ps_ch = 0, ps_scsDst = 0, ps_scsMod = 0, ps_handleReady = False,
      ps_compatLevel = CompatLevel_Unused, ps_vtMode = False, ps_logTrace = False\<rparr>"

definition ResetInput :: "parser \<Rightarrow> parser" where
  "ResetInput p = parser_reset p"

definition getState :: "parser \<Rightarrow> inputState" where
  "getState p = ps_inputState p"

section \<open>History\<close>

definition appendToHistory :: "rune \<Rightarrow> parser \<Rightarrow> parser" where
  "appendToHistory r p =
     (if length (ps_history p) < 4097 then p\<lparr>ps_history := ps_history p @ [r]\<rparr> else p)"

definition resetHistory :: "parser \<Rightarrow> parser" where
  "resetHistory p = p\<lparr>ps_history := []\<rparr>"

definition replaceHistory :: "rune list \<Rightarrow> parser \<Rightarrow> parser" where
  "replaceHistory chs p = fold appendToHistory chs (resetHistory p)"

definition historyString :: "parser \<Rightarrow> string" where
  "historyString p = concat (map utf8 (ps_history p))"

text \<open>The walk from the back of the list leaves it (a nil element) when it is too short.\<close>

definition getHistoryAt :: "nat \<Rightarrow> parser \<Rightarrow> rune option" where
  "getHistoryAt reverseIdx p =
     (if reverseIdx \<ge> 5 then Some 0
      else if reverseIdx < length (ps_history p) then Some (rev (ps_history p) ! reverseIdx)
      else None)"

section \<open>State changes and parameters\<close>

definition setState :: "inputState \<Rightarrow> parser \<Rightarrow> parser option" where
  "setState newState p =
     (if newState = ps_inputState p then Some p
      else if newState = InputState_Normal then do {
        ops \<leftarrow> list_put (ps_inputOps p) 0 0;
        Some (p\<lparr>ps_nInputOps := 0, ps_inputOps := ops, ps_inputState := newState\<rparr>)
      }
      else Some (p\<lparr>ps_inputState := newState\<rparr>))"

definition collectNumericParameters :: "rune \<Rightarrow> parser \<Rightarrow> (bool \<times> parser) option" where
  "collectNumericParameters ch p =
     (if 48 \<le> ch \<and> ch \<le> 57 then do {
        v \<leftarrow> list_at (ps_inputOps p) (ps_nInputOps p - 1);
        let v' = v * 10 + int (ch - 48);
        ops \<leftarrow> list_put (ps_inputOps p) (ps_nInputOps p - 1) v';
        let p1 = p\<lparr>ps_inputOps := ops\<rparr>;
        p2 \<leftarrow> (if v' \<ge> 65535 then setState InputState_Normal p1 else Some p1);
        Some (True, p2)
      }
      else if rune_in ch '';:'' then
        (if ps_nInputOps p < ps_maxEscOps p then do {
           sep \<leftarrow> list_put (ps_inputSep p) (ps_nInputOps p - 1) ch;
           ops \<leftarrow> list_put (ps_inputOps p) (ps_nInputOps p) 0;
           Some (True, p\<lparr>ps_inputSep := sep, ps_inputOps := ops,
                         ps_nInputOps := ps_nInputOps p + 1\<rparr>)
         }
         else do {
           p1 \<leftarrow> setState InputState_Normal p;
           Some (True, p1)
         })
      else Some (False, p))"

definition getPs :: "int \<Rightarrow> int \<Rightarrow> parser \<Rightarrow> int option" where
  "getPs n defaultVal p = do {
     ret \<leftarrow> (if n < ps_nInputOps p then list_at (ps_inputOps p) n else Some defaultVal);
     Some (if ret < 1 then defaultVal else ret)
   }"

definition getArg :: "parser \<Rightarrow> string" where
  "getArg p = ps_argBuf p"

text \<open>
  \<open>make([]int, n)\<close> with a negative \<open>n\<close> panics; \<open>copy\<close> takes what both slices have. The nil slice
  is \<open>None\<close> in the result.
\<close>

definition make_copy :: "int \<Rightarrow> 'a \<Rightarrow> 'a list \<Rightarrow> 'a list option" where
  "make_copy n z xs =
     (if n < 0 then None else Some (take (nat n) xs @ replicate (nat n - length xs) z))"

definition copyArgs :: "parser \<Rightarrow> int list option option" where
  "copyArgs p = do {
     first \<leftarrow> (if ps_nInputOps p = 1 then list_at (ps_inputOps p) 0 else Some 1);
     if first = 0 then Some None
     else do {
       args \<leftarrow> make_copy (ps_nInputOps p) 0 (ps_inputOps p);
       Some (Some args)
     }
   }"

definition copySeps :: "parser \<Rightarrow> rune list option" where
  "copySeps p = do {
     first \<leftarrow> (if ps_nInputOps p = 1 then list_at (ps_inputSep p) 0 else Some 1);
     if first = 0 then Some [] else make_copy (ps_nInputOps p) 0 (ps_inputSep p)
   }"

definition setCompatLevel :: "compatLevel \<Rightarrow> int list \<Rightarrow> parser \<Rightarrow> parser" where
  "setCompatLevel cl params p =
     (if params = [] then
        (if ps_compatLevel p \<noteq> cl \<and> cl \<noteq> CompatLevel_Unused then p\<lparr>ps_compatLevel := cl\<rparr> else p)
      else if list_ex (\<lambda>v. v = 2) params then p\<lparr>ps_compatLevel := cl\<rparr> else p)"

text \<open>\<open>sclCompatLevel\<close> of \<open>terminal/handler.go\<close>.\<close>

definition sclCompatLevel :: "int \<Rightarrow> compatLevel" where
  "sclCompatLevel Pl =
     switch Pl [([61], CompatLevel_VT100), ([62, 63, 64, 65], CompatLevel_VT400)]
       CompatLevel_Unused"

end
