(* ===== verification/UserStream.thy ===== *)
theory UserStream
  imports ParserState "HOL-Library.Sublist"
begin

text \<open>
  \<open>statesync/user.go\<close>: the stream of user events that the client synchronizes to the server, and
  the interface \<open>State\<close> of \<open>network/state.go\<close> that it implements.

  Parameters: \<open>marshal\<close> and \<open>unmarshal\<close> for \<open>proto.Marshal\<close> and \<open>proto.Unmarshal\<close> of a
  \<open>UserMessage\<close>, \<open>graphemes\<close> for \<open>uniseg\<close> (the clusters of a string with the position where each
  ends). The methods of the interface do not change their arguments, so a state is a value and
  \<open>Clone\<close> the identity on its contents.
\<close>

section \<open>The interface\<close>

text \<open>
  One field per method of \<open>State\<close>. \<open>DiffFrom\<close> takes the receiver first, then its argument;
  \<open>ApplyString\<close> returns the new state and whether it reports an error.
\<close>

record 's state_ops =
  so_Subtract :: "'s \<Rightarrow> 's \<Rightarrow> 's"
  so_DiffFrom :: "'s \<Rightarrow> 's \<Rightarrow> bytes"
  so_InitDiff :: "'s \<Rightarrow> bytes"
  so_ApplyString :: "bytes \<Rightarrow> 's \<Rightarrow> 's \<times> bool"
  so_Equal :: "'s \<Rightarrow> 's \<Rightarrow> bool"
  so_ResetInput :: "'s \<Rightarrow> 's"
  so_Reset :: "'s \<Rightarrow> 's"
  so_InitSize :: "int \<Rightarrow> int \<Rightarrow> 's \<Rightarrow> 's"
  so_Clone :: "'s \<Rightarrow> 's"

section \<open>User events\<close>

datatype user_event =
  UserByteType "rune list"
| ResizeType int int

type_synonym user_stream = "user_event list"

definition NewUserEvent :: "rune list \<Rightarrow> user_event" where
  "NewUserEvent userByte = UserByteType userByte"

definition NewUserEventResize :: "int \<Rightarrow> int \<Rightarrow> user_event" where
  "NewUserEventResize width height = ResizeType width height"

definition PushBack :: "rune list \<Rightarrow> user_stream \<Rightarrow> user_stream" where
  "PushBack x u = u @ [NewUserEvent x]"

definition PushBackResize :: "int \<Rightarrow> int \<Rightarrow> user_stream \<Rightarrow> user_stream" where
  "PushBackResize width height u = u @ [NewUserEventResize width height]"

definition UserStream_Empty :: "user_stream \<Rightarrow> bool" where
  "UserStream_Empty u \<longleftrightarrow> length u = 0"

definition UserStream_Size :: "user_stream \<Rightarrow> nat" where
  "UserStream_Size u = length u"

text \<open>nil for an index out of range.\<close>

definition GetAction :: "int \<Rightarrow> user_stream \<Rightarrow> user_event option" where
  "GetAction i u = (if 0 \<le> i \<and> i < int (length u) then Some (u ! nat i) else None)"

definition UserStream_Equal :: "user_stream \<Rightarrow> user_stream \<Rightarrow> bool" where
  "UserStream_Equal u x \<longleftrightarrow> (length u = 0 \<and> length x = 0) \<or> u = x"

text \<open>The loop of \<open>Subtract\<close>: one step per event of the prefix, until the first that differs.\<close>

fun subtract_loop :: "user_stream \<Rightarrow> user_stream \<Rightarrow> user_stream" where
  "subtract_loop u [] = u"
| "subtract_loop u (e # es) = (if length u > 0 \<and> hd u = e then subtract_loop (tl u) es else u)"

definition UserStream_Subtract :: "user_stream \<Rightarrow> user_stream \<Rightarrow> user_stream" where
  "UserStream_Subtract u pre = (if UserStream_Equal u pre then [] else subtract_loop u pre)"

section \<open>Differences\<close>

text \<open>\<open>pb.Instruction\<close> of \<open>userInput.proto\<close>; an unset message is \<open>None\<close>.\<close>

record user_inst =
  ui_keystroke :: "string option"
  ui_resize :: "(32 word \<times> 32 word) option"

text \<open>The position where the existing part ends.\<close>

fun skip_existing :: "user_stream \<Rightarrow> user_stream \<Rightarrow> nat \<Rightarrow> nat" where
  "skip_existing u [] pos = pos"
| "skip_existing u (e # existing) pos =
     (if length (drop pos u) > 0 \<and> u ! pos = e then skip_existing u existing (pos + 1) else pos)"

text \<open>
  One round of the loop that builds the message. A keystroke that does not follow a keystroke
  replaces the whole list of instructions (\<open>make([]*pb.Instruction, 0)\<close>) by its own.
\<close>

definition diff_event :: "user_inst list \<Rightarrow> user_event \<Rightarrow> user_inst list" where
  "diff_event um ue =
     (case ue of
        UserByteType chs \<Rightarrow>
          let keys = concat (map utf8 chs)
          in if um \<noteq> [] \<and> ui_keystroke (last um) \<noteq> None
             then butlast um @ [(last um)\<lparr>ui_keystroke := Some (the (ui_keystroke (last um)) @ keys)\<rparr>]
             else [\<lparr>ui_keystroke = Some keys, ui_resize = None\<rparr>]
      | ResizeType w h \<Rightarrow>
          um @ [\<lparr>ui_keystroke = None, ui_resize = Some (word_of_int w, word_of_int h)\<rparr>])"

definition UserStream_DiffFrom ::
  "(user_inst list \<Rightarrow> bytes) \<Rightarrow> user_stream \<Rightarrow> user_stream \<Rightarrow> bytes" where
  "UserStream_DiffFrom marshal u existing =
     marshal (foldl diff_event [] (drop (skip_existing u existing 0) u))"

definition UserStream_InitDiff :: "user_stream \<Rightarrow> bytes" where
  "UserStream_InitDiff u = []"

definition apply_inst ::
  "(string \<Rightarrow> (rune list \<times> nat) list) \<Rightarrow> user_stream \<Rightarrow> user_inst \<Rightarrow> user_stream" where
  "apply_inst graphemes u i =
     (case ui_keystroke i of
        Some keys \<Rightarrow> u @ map (\<lambda>(chs, _). NewUserEvent chs) (graphemes keys)
      | None \<Rightarrow>
          (case ui_resize i of
             Some (w, h) \<Rightarrow> u @ [NewUserEventResize (sint w) (sint h)]
           | None \<Rightarrow> u))"

definition UserStream_ApplyString ::
  "(bytes \<Rightarrow> user_inst list option) \<Rightarrow> (string \<Rightarrow> (rune list \<times> nat) list) \<Rightarrow> bytes
     \<Rightarrow> user_stream \<Rightarrow> user_stream \<times> bool" where
  "UserStream_ApplyString unmarshal graphemes diff u =
     (case unmarshal diff of
        None \<Rightarrow> (u, True)
      | Some input \<Rightarrow> (foldl (apply_inst graphemes) u input, False))"

definition UserStream_ResetInput :: "user_stream \<Rightarrow> user_stream" where
  "UserStream_ResetInput u = u"

definition UserStream_Reset :: "user_stream \<Rightarrow> user_stream" where
  "UserStream_Reset u = u"

definition UserStream_InitSize :: "int \<Rightarrow> int \<Rightarrow> user_stream \<Rightarrow> user_stream" where
  "UserStream_InitSize nCols nRows u = u"

text \<open>The events are copied one by one; a keystroke gets a new slice of runes.\<close>

definition UserStream_Clone :: "user_stream \<Rightarrow> user_stream" where
  "UserStream_Clone u =
     map (\<lambda>e. case e of UserByteType chs \<Rightarrow> UserByteType chs | ResizeType w h \<Rightarrow> ResizeType w h) u"

definition user_ops ::
  "(user_inst list \<Rightarrow> bytes) \<Rightarrow> (bytes \<Rightarrow> user_inst list option)
     \<Rightarrow> (string \<Rightarrow> (rune list \<times> nat) list) \<Rightarrow> user_stream state_ops" where
  "user_ops marshal unmarshal graphemes =
     \<lparr>so_Subtract = UserStream_Subtract,
      so_DiffFrom = UserStream_DiffFrom marshal,
      so_InitDiff = UserStream_InitDiff,
      so_ApplyString = UserStream_ApplyString unmarshal graphemes,
      so_Equal = UserStream_Equal,
      so_ResetInput = UserStream_ResetInput,
      so_Reset = UserStream_Reset,
      so_InitSize = UserStream_InitSize,
      so_Clone = UserStream_Clone\<rparr>"

section \<open>Lemmas on the operations\<close>

lemma subtract_loop_append [simp]: "subtract_loop (p @ s) p = s"
  by (induction p) auto

lemma skip_existing_prefix: "skip_existing (p @ k @ s) k (length p) = length p + length k"
proof (induction k arbitrary: p)
  case (Cons e k)
  have "skip_existing (p @ (e # k) @ s) (e # k) (length p) =
      skip_existing ((p @ [e]) @ k @ s) k (length (p @ [e]))"
    by (simp add: nth_append)
  also have "\<dots> = length p + length (e # k)" by (subst Cons.IH) simp
  finally show ?case .
qed simp

lemma skip_existing_shift:
  "skip_existing (p @ s) k (length p + n) = length p + skip_existing s k n"
  by (induction s k n rule: skip_existing.induct) (auto simp: nth_append)

lemma skip_existing_cat:
  "skip_existing (p @ s) (p @ k) 0 = length p + skip_existing s k 0"
proof -
  have "skip_existing (q @ p @ s) (p @ k) (length q) = length (q @ p) + skip_existing s k 0" for q
  proof (induction p arbitrary: q)
    case Nil
    then show ?case using skip_existing_shift [of q s k 0] by simp
  next
    case (Cons e p)
    have "skip_existing (q @ (e # p) @ s) ((e # p) @ k) (length q) =
        skip_existing ((q @ [e]) @ p @ s) (p @ k) (length (q @ [e]))"
      by (simp add: nth_append)
    also have "\<dots> = length (q @ e # p) + skip_existing s k 0" by (subst Cons.IH) simp
    finally show ?case .
  qed
  from this [of "[]"] show ?thesis by simp
qed

text \<open>
  The streams that a difference carries without loss: keystrokes first, then changes of the window
  size that fit 32 bits; the clusters that \<open>uniseg\<close> finds in the concatenated keystrokes are the
  keystrokes themselves.
\<close>

definition in_int32 :: "int \<Rightarrow> bool" where
  "in_int32 w \<longleftrightarrow> - (2 ^ 31) \<le> w \<and> w < 2 ^ 31"

definition stable_input :: "(string \<Rightarrow> (rune list \<times> nat) list) \<Rightarrow> user_stream \<Rightarrow> bool" where
  "stable_input graphemes s \<longleftrightarrow>
     (\<exists>kss rs. s = map UserByteType kss @ map (\<lambda>(w, h). ResizeType w h) rs \<and>
        (kss \<noteq> [] \<longrightarrow> map fst (graphemes (concat (map utf8 (concat kss)))) = kss) \<and>
        list_all (\<lambda>(w, h). in_int32 w \<and> in_int32 h) rs)"

text \<open>What protobuf promises: an empty message has no bytes, and unmarshalling gives the message back.\<close>

definition codec_law :: "(user_inst list \<Rightarrow> bytes) \<Rightarrow> (bytes \<Rightarrow> user_inst list option) \<Rightarrow> bool" where
  "codec_law marshal unmarshal \<longleftrightarrow> marshal [] = [] \<and> (\<forall>um. unmarshal (marshal um) = Some um)"

lemma diff_keystrokes:
  "foldl diff_event [\<lparr>ui_keystroke = Some k, ui_resize = None\<rparr>] (map UserByteType kss)
   = [\<lparr>ui_keystroke = Some (k @ concat (map utf8 (concat kss))), ui_resize = None\<rparr>]"
  by (induction kss arbitrary: k) (auto simp: diff_event_def)

lemma diff_keystrokes_nil:
  "kss \<noteq> [] \<Longrightarrow> foldl diff_event [] (map UserByteType kss)
   = [\<lparr>ui_keystroke = Some (concat (map utf8 (concat kss))), ui_resize = None\<rparr>]"
  by (cases kss) (auto simp: diff_event_def diff_keystrokes)

lemma diff_resizes:
  "foldl diff_event um (map (\<lambda>(w, h). ResizeType w h) rs)
   = um @ map (\<lambda>(w, h). \<lparr>ui_keystroke = None, ui_resize = Some (word_of_int w, word_of_int h)\<rparr>) rs"
  by (induction rs arbitrary: um) (auto simp: diff_event_def)

lemma sint_int32: "in_int32 w \<Longrightarrow> sint (word_of_int w :: 32 word) = w"
  by (simp add: in_int32_def signed_of_int signed_take_bit_int_eq_self)

lemma apply_resizes:
  "list_all (\<lambda>(w, h). in_int32 w \<and> in_int32 h) rs \<Longrightarrow>
   foldl (apply_inst graphemes) u
     (map (\<lambda>(w, h). \<lparr>ui_keystroke = None, ui_resize = Some (word_of_int w, word_of_int h)\<rparr>) rs)
   = u @ map (\<lambda>(w, h). ResizeType w h) rs"
  by (induction rs arbitrary: u) (auto simp: apply_inst_def NewUserEventResize_def sint_int32)

lemma apply_diff_stable:
  assumes "stable_input graphemes s"
  shows "foldl (apply_inst graphemes) q (foldl diff_event [] s) = q @ s"
proof -
  obtain kss rs where s: "s = map UserByteType kss @ map (\<lambda>(w, h). ResizeType w h) rs"
    "kss \<noteq> [] \<Longrightarrow> map fst (graphemes (concat (map utf8 (concat kss)))) = kss"
    "list_all (\<lambda>(w, h). in_int32 w \<and> in_int32 h) rs"
    using assms by (auto simp: stable_input_def)
  have m: "map (\<lambda>(chs, _). NewUserEvent chs) gs = map UserByteType (map fst gs)" for gs :: "(rune list \<times> nat) list"
    by (induction gs) (auto simp: NewUserEvent_def)
  show ?thesis
    using s by (cases "kss = []")
      (auto simp: diff_resizes apply_resizes diff_keystrokes_nil apply_inst_def m)
qed

section \<open>The contract of a synchronized state\<close>

text \<open>
  What the sender and the transport rely on. A state is the continuation of an earlier one:
  \<open>cat p s\<close> is the state \<open>p\<close> followed by \<open>s\<close>. Cutting a common prefix off both states does not
  change their difference, and a difference takes any copy of the old state to the same copy of
  the new one, wherever that copy was cut.
\<close>

locale net_state =
  fixes ops :: "'s state_ops"
    and cat :: "'s \<Rightarrow> 's \<Rightarrow> 's"
    and stable :: "'s \<Rightarrow> bool"
  assumes subtract_cat: "so_Subtract ops (cat p s) p = s"
    and diff_cat: "so_DiffFrom ops (cat p s) (cat p k) = so_DiffFrom ops s k"
    and apply_diff: "stable s \<Longrightarrow> so_ApplyString ops (so_DiffFrom ops (cat k s) k) q = (cat q s, False)"
    and equal_iff: "so_Equal ops s t \<longleftrightarrow> s = t"
    and clone: "so_Clone ops s = s"
    and reset: "so_Reset ops s = s"

lemma user_net_state:
  assumes "codec_law marshal unmarshal"
  shows "net_state (user_ops marshal unmarshal graphemes) (@) (stable_input graphemes)"
proof unfold_locales
  fix p s k q t :: user_stream
  show "so_Subtract (user_ops marshal unmarshal graphemes) (p @ s) p = s"
    by (auto simp: user_ops_def UserStream_Subtract_def UserStream_Equal_def)
  show "so_DiffFrom (user_ops marshal unmarshal graphemes) (p @ s) (p @ k)
      = so_DiffFrom (user_ops marshal unmarshal graphemes) s k"
    by (simp add: user_ops_def UserStream_DiffFrom_def skip_existing_cat)
  show "so_ApplyString (user_ops marshal unmarshal graphemes)
      (so_DiffFrom (user_ops marshal unmarshal graphemes) (k @ s) k) q = (q @ s, False)"
    if "stable_input graphemes s"
    using that assms skip_existing_prefix [of "[]" k s]
    by (simp add: user_ops_def UserStream_DiffFrom_def UserStream_ApplyString_def codec_law_def
        apply_diff_stable)
  show "so_Equal (user_ops marshal unmarshal graphemes) s t \<longleftrightarrow> s = t"
    by (auto simp: user_ops_def UserStream_Equal_def)
  have "UserStream_Clone s = s"
    unfolding UserStream_Clone_def by (induction s) (auto split: user_event.split)
  then show "so_Clone (user_ops marshal unmarshal graphemes) s = s"
    by (simp add: user_ops_def)
  show "so_Reset (user_ops marshal unmarshal graphemes) s = s"
    by (simp add: user_ops_def UserStream_Reset_def)
qed


section \<open>A codec\<close>

text \<open>One codec that satisfies the law, to evaluate the model with.\<close>

fun put_string :: "string \<Rightarrow> bytes" where
  "put_string [] = [0]"
| "put_string (c # cs) = 1 # of_nat (of_char c) # put_string cs"

fun get_string :: "bytes \<Rightarrow> (string \<times> bytes) option" where
  "get_string (t # bs) =
     (if t = 0 then Some ([], bs)
      else case bs of
        [] \<Rightarrow> None
      | b # bs' \<Rightarrow> map_option (\<lambda>(cs, r). (char_of (unat b) # cs, r)) (get_string bs'))"
| "get_string [] = None"

definition put_inst :: "user_inst \<Rightarrow> bytes" where
  "put_inst i =
     (case ui_keystroke i of None \<Rightarrow> [0] | Some k \<Rightarrow> 1 # put_string k) @
     (case ui_resize i of None \<Rightarrow> [0] | Some (w, h) \<Rightarrow> 1 # put_uint 4 w @ put_uint 4 h)"

definition get_inst :: "bytes \<Rightarrow> (user_inst \<times> bytes) option" where
  "get_inst bs = do {
     (k, r) \<leftarrow> (case bs of
        [] \<Rightarrow> None
      | t # bs' \<Rightarrow> if t = 0 then Some (None, bs')
                   else map_option (\<lambda>(k, r). (Some k, r)) (get_string bs'));
     case r of
       [] \<Rightarrow> None
     | t # r' \<Rightarrow>
         Some (if t = 0 then (\<lparr>ui_keystroke = k, ui_resize = None\<rparr>, r')
               else (\<lparr>ui_keystroke = k,
                      ui_resize = Some (get_uint (take 4 r'), get_uint (take 4 (drop 4 r')))\<rparr>,
                     drop 8 r'))
   }"

fun get_insts :: "nat \<Rightarrow> bytes \<Rightarrow> user_inst list option" where
  "get_insts n [] = Some []"
| "get_insts 0 (b # bs) = None"
| "get_insts (Suc n) (b # bs) = do {
     (i, r) \<leftarrow> get_inst (b # bs);
     is \<leftarrow> get_insts n r;
     Some (i # is)
   }"

definition plain_marshal :: "user_inst list \<Rightarrow> bytes" where
  "plain_marshal um = concat (map put_inst um)"

definition plain_unmarshal :: "bytes \<Rightarrow> user_inst list option" where
  "plain_unmarshal bs = get_insts (length bs) bs"

lemma get_put_string: "get_string (put_string cs @ r) = Some (cs, r)"
proof (induction cs)
  case (Cons c cs)
  have "(of_char c :: nat) < 256" by (rule nat_of_char_less_256)
  then have "char_of (unat (of_nat (of_char c) :: byte)) = c"
    by (simp add: unat_of_nat)
  then show ?case using Cons by simp
qed simp

lemma get_put_inst: "get_inst (put_inst i @ r) = Some (i, r)"
  by (cases i)
    (auto simp: get_inst_def put_inst_def get_put_string get_put_uint [where n = 4] split: option.split)

lemma get_put_insts: "length um \<le> n \<Longrightarrow> get_insts n (concat (map put_inst um)) = Some um"
proof (induction um arbitrary: n)
  case (Cons i um)
  obtain b bs where b: "put_inst i @ concat (map put_inst um) = b # bs"
    by (cases "put_inst i @ concat (map put_inst um)") (auto simp: put_inst_def split: option.splits)
  obtain m where "n = Suc m" "length um \<le> m" using Cons.prems by (cases n) auto
  moreover have "get_inst (b # bs) = Some (i, concat (map put_inst um))"
    using get_put_inst [of i "concat (map put_inst um)"] b by simp
  ultimately show ?case using Cons.IH [of m] b by simp
qed simp

lemma plain_codec: "codec_law plain_marshal plain_unmarshal"
proof -
  have "length um \<le> length (concat (map put_inst um))" for um
  proof (induction um)
    case (Cons i um)
    have "put_inst i \<noteq> []" by (auto simp: put_inst_def split: option.split)
    then have "1 \<le> length (put_inst i)" by (cases "put_inst i") auto
    then show ?case using Cons by simp
  qed simp
  then show ?thesis
    by (simp add: codec_law_def plain_marshal_def plain_unmarshal_def get_put_insts)
qed

section \<open>The user stream is a synchronized state\<close>

text \<open>For every codec with the law, and in particular for the one above.\<close>

locale user_codec =
  fixes marshal :: "user_inst list \<Rightarrow> bytes"
    and unmarshal :: "bytes \<Rightarrow> user_inst list option"
    and graphemes :: "string \<Rightarrow> (rune list \<times> nat) list"
  assumes codec: "codec_law marshal unmarshal"

sublocale user_codec \<subseteq> stream: net_state "user_ops marshal unmarshal graphemes" "(@)" "stable_input graphemes"
  by (rule user_net_state [OF codec])

definition letters :: "string \<Rightarrow> (rune list \<times> nat) list" where
  "letters s = map (\<lambda>i. ([of_char (s ! i)], Suc i)) [0..<length s]"

interpretation plain: user_codec plain_marshal plain_unmarshal letters
  by unfold_locales (rule plain_codec)

section \<open>Properties\<close>

lemma subtract_loop_eq: "subtract_loop u p = drop (length (longest_common_prefix u p)) u"
proof (induction u p rule: subtract_loop.induct)
  case (2 u e es)
  then show ?case by (cases u) auto
qed simp

lemma longest_common_prefix_same: "longest_common_prefix u u = u"
  by (induction u) auto

text \<open>
  \<open>Subtract\<close> removes exactly the longest common prefix of the two streams.
\<close>

theorem Subtract_longest_prefix:
  "UserStream_Subtract u p = drop (length (longest_common_prefix u p)) u"
  by (auto simp: UserStream_Subtract_def UserStream_Equal_def subtract_loop_eq
      longest_common_prefix_same)

text \<open>
  C21. The difference of a stream from an earlier part of it, applied to any copy of that part, appends exactly the
  new events, when a difference can carry them: first keystrokes, which are the clusters that \<open>uniseg\<close> finds in
  their text, then changes of the window size that fit into 32 bits. A keystroke behind a change of the size is
  excluded: \<open>diff_drops_events\<close> shows that the difference loses events then.
\<close>

theorem diff_apply_roundtrip:
  assumes "codec_law marshal unmarshal" and "stable_input graphemes s"
  shows "UserStream_ApplyString unmarshal graphemes (UserStream_DiffFrom marshal (p @ k @ s) (p @ k)) q
    = (q @ s, False)"
  using net_state.apply_diff [OF user_net_state [OF assms(1)] assms(2), of "p @ k" q]
  by (simp add: user_ops_def)

lemma diff_apply_roundtrip_witness:
  "UserStream_ApplyString plain_unmarshal letters
     (UserStream_DiffFrom plain_marshal
       ([UserByteType [104]] @ [] @ [UserByteType [105], ResizeType 80 24]) ([UserByteType [104]] @ []))
     [ResizeType 1 1]
   = ([ResizeType 1 1] @ [UserByteType [105], ResizeType 80 24], False)"
proof (rule diff_apply_roundtrip [OF plain_codec])
  show "stable_input letters [UserByteType [105], ResizeType 80 24]"
    unfolding stable_input_def
    by (rule exI [of _ "[[105]]"], rule exI [of _ "[(80, 24)]"])
      (simp add: letters_def utf8_def in_int32_def char_of_def bit_0)
qed

text \<open>
  A keystroke after a change of the window size: the difference no longer holds anything that
  came before it, neither the change of the size nor the earlier keystrokes.
\<close>

theorem diff_drops_events:
  "UserStream_DiffFrom marshal (s @ [ResizeType w h, UserByteType chs]) []
   = UserStream_DiffFrom marshal [UserByteType chs] []"
  by (simp add: UserStream_DiffFrom_def diff_event_def)

end
