(* ===== verification/Connection.thy ===== *)
theory Connection
  imports Complex_Main Prelude
begin

text \<open>
  \<open>network/network.go\<close> and the message format of \<open>encrypt/encrypt.go\<close>: packets with their
  timestamps, the round trip estimate, the retransmission timeout, the choice of the peer, and the
  sockets of a client that hops ports.

  Parameters: \<open>seal\<close> and \<open>aopen\<close> for AES-GCM, \<open>bindp\<close> for resolving and binding an address, and the
  outcome of a write on a socket. A socket and an address are of any type. Every reading of the
  clock is an argument (milliseconds). Floating point numbers are rationals: rounding of
  \<open>float64\<close> is not modelled.
\<close>

section \<open>Messages\<close>

record message =
  ms_nonce :: bytes
  ms_text :: bytes

definition NONCE_LEN :: nat where
  "NONCE_LEN = 12"

definition NewMessage :: "64 word \<Rightarrow> bytes \<Rightarrow> message" where
  "NewMessage seqNonce payload =
     \<lparr>ms_nonce = put_uint 4 (0 :: 32 word) @ put_uint 8 seqNonce, ms_text = payload\<rparr>"

definition NonceVal :: "message \<Rightarrow> 64 word" where
  "NonceVal m = get_uint (take 8 (drop 4 (ms_nonce m)))"

text \<open>The slices of a short text panic.\<close>

definition GetTimestamp :: "message \<Rightarrow> 16 word option" where
  "GetTimestamp m = map_option get_uint (slice (ms_text m) 0 2)"

definition GetTimestampReply :: "message \<Rightarrow> 16 word option" where
  "GetTimestampReply m = map_option get_uint (slice (ms_text m) 2 4)"

definition GetPayload :: "message \<Rightarrow> bytes option" where
  "GetPayload m = slice (ms_text m) 4 (int (length (ms_text m)))"

definition Encrypt :: "(bytes \<Rightarrow> bytes \<Rightarrow> bytes) \<Rightarrow> message \<Rightarrow> bytes" where
  "Encrypt seal plainText = ms_nonce plainText @ seal (ms_nonce plainText) (ms_text plainText)"

text \<open>
  \<open>text[ns:]\<close> panics for a text shorter than the nonce (outer \<open>None\<close>); a text that does not
  authenticate is an error (inner \<open>None\<close>).
\<close>

definition Decrypt :: "(bytes \<Rightarrow> bytes \<Rightarrow> bytes option) \<Rightarrow> bytes \<Rightarrow> message option option" where
  "Decrypt aopen text = do {
     cipherText \<leftarrow> slice text (int NONCE_LEN) (int (length text));
     let nonce = take NONCE_LEN text;
     Some (map_option (\<lambda>plain. \<lparr>ms_nonce = nonce, ms_text = plain\<rparr>) (aopen nonce cipherText))
   }"

section \<open>Timestamps and packets\<close>

datatype direction = TO_SERVER | TO_CLIENT

definition DIRECTION_MASK :: "64 word" where
  "DIRECTION_MASK = push_bit 63 1"

definition SEQUENCE_MASK :: "64 word" where
  "SEQUENCE_MASK = NOT DIRECTION_MASK"

definition timestamp16 :: "int \<Rightarrow> 16 word" where
  "timestamp16 now = word_of_int (now mod 65535)"

definition timestampDiff :: "16 word \<Rightarrow> 16 word \<Rightarrow> 16 word" where
  "timestampDiff tsnew tsold =
     (let diff = uint tsnew - uint tsold;
          diff = (if diff < 0 then diff + 65536 else diff)
      in word_of_int diff)"

record packet =
  pk_payload :: bytes
  pk_seq :: "64 word"
  pk_direction :: direction
  pk_timestamp :: "16 word"
  pk_timestampReply :: "16 word"

definition NewPacketFrom :: "message \<Rightarrow> packet option" where
  "NewPacketFrom m = do {
     ts \<leftarrow> GetTimestamp m;
     tsr \<leftarrow> GetTimestampReply m;
     payload \<leftarrow> GetPayload m;
     Some \<lparr>pk_payload = payload, pk_seq = NonceVal m AND SEQUENCE_MASK,
           pk_direction = (if NonceVal m AND DIRECTION_MASK > 0 then TO_CLIENT else TO_SERVER),
           pk_timestamp = ts, pk_timestampReply = tsr\<rparr>
   }"

definition timestampBytes :: "packet \<Rightarrow> bytes" where
  "timestampBytes p = put_uint 2 (pk_timestamp p) @ put_uint 2 (pk_timestampReply p)"

definition toMessage :: "packet \<Rightarrow> message" where
  "toMessage p =
     (let seqNonce = (if pk_direction p = TO_CLIENT
                      then DIRECTION_MASK OR (pk_seq p AND SEQUENCE_MASK)
                      else pk_seq p AND SEQUENCE_MASK)
      in NewMessage seqNonce (timestampBytes p @ pk_payload p))"

section \<open>The connection\<close>

record ('sock, 'addr) connection =
  cn_remoteAddr :: "'addr option"
  cn_socks :: "'sock list"
  cn_lastPortChoice :: int
  cn_SRTT :: rat
  cn_direction :: direction
  cn_mtu :: int
  cn_savedTimestampReceivedAt :: int
  cn_expectedReceiverSeq :: "64 word"
  cn_lastHeard :: int
  cn_RTTVAR :: rat
  cn_lastRoundtripSuccess :: int
  cn_savedTimestamp :: "16 word"
  cn_RTTHit :: bool
  cn_hasRemoteAddr :: bool
  cn_server :: bool

definition MaxInt64 :: int where
  "MaxInt64 = 2 ^ 63 - 1"

text \<open>The fields that both constructors set, before a socket is opened.\<close>

definition connection_init :: "bool \<Rightarrow> ('sock, 'addr) connection" where
  "connection_init server =
     \<lparr>cn_remoteAddr = None, cn_socks = [], cn_lastPortChoice = MaxInt64, cn_SRTT = 1000,
      cn_direction = (if server then TO_CLIENT else TO_SERVER), cn_mtu = 500,
      cn_savedTimestampReceivedAt = 0, cn_expectedReceiverSeq = 0, cn_lastHeard = MaxInt64,
      cn_RTTVAR = 500, cn_lastRoundtripSuccess = MaxInt64, cn_savedTimestamp = 0x7fff,
      cn_RTTHit = False, cn_hasRemoteAddr = False, cn_server = server\<rparr>"

definition conn_setup :: "int \<Rightarrow> ('sock, 'addr) connection \<Rightarrow> ('sock, 'addr) connection" where
  "conn_setup now c = c\<lparr>cn_lastPortChoice := now\<rparr>"

text \<open>A recent timestamp of the peer is sent back, advanced by the time it was held.\<close>

definition newPacket ::
  "64 word \<Rightarrow> int \<Rightarrow> int \<Rightarrow> bytes \<Rightarrow> ('sock, 'addr) connection
     \<Rightarrow> packet \<times> ('sock, 'addr) connection" where
  "newPacket unique now now16 payload c =
     (let recent = now - cn_savedTimestampReceivedAt c < 1000;
          reply = (if recent
                   then cn_savedTimestamp c + word_of_int (now - cn_savedTimestampReceivedAt c)
                   else 0);
          c' = (if recent then c\<lparr>cn_savedTimestamp := 0x7fff, cn_savedTimestampReceivedAt := 0\<rparr> else c)
      in (\<lparr>pk_payload = payload, pk_seq = unique, pk_direction = cn_direction c,
           pk_timestamp = timestamp16 now16, pk_timestampReply = reply\<rparr>, c'))"

text \<open>\<open>setMTU\<close>: 16 byte addresses are IPv6.\<close>

definition setMTU :: "bool \<Rightarrow> ('sock, 'addr) connection \<Rightarrow> ('sock, 'addr) connection" where
  "setMTU is6 c = c\<lparr>cn_mtu := (if is6 then 1280 - (40 + 16 + 8) else 1280 - (20 + 8))\<rparr>"

definition getMTU :: "('sock, 'addr) connection \<Rightarrow> int" where
  "getMTU c = cn_mtu c"

definition getSRTT :: "('sock, 'addr) connection \<Rightarrow> rat" where
  "getSRTT c = cn_SRTT c"

definition getHasRemoteAddr :: "('sock, 'addr) connection \<Rightarrow> bool" where
  "getHasRemoteAddr c = cn_hasRemoteAddr c"

definition getRemoteAddr :: "('sock, 'addr) connection \<Rightarrow> 'addr option" where
  "getRemoteAddr c = cn_remoteAddr c"

definition setLastRoundtripSuccess :: "int \<Rightarrow> ('sock, 'addr) connection \<Rightarrow> ('sock, 'addr) connection" where
  "setLastRoundtripSuccess success c = c\<lparr>cn_lastRoundtripSuccess := success\<rparr>"

definition timeout :: "('sock, 'addr) connection \<Rightarrow> int" where
  "timeout c =
     (let RTO = \<lceil>cn_SRTT c + 4 * cn_RTTVAR c\<rceil>
      in if RTO < 50 then 50 else if RTO > 1000 then 1000 else RTO)"

section \<open>Sockets\<close>

text \<open>The newest socket is the last one; indexing an empty list panics.\<close>

definition sock :: "('sock, 'addr) connection \<Rightarrow> 'sock option" where
  "sock c = list_at (cn_socks c) (int (length (cn_socks c)) - 1)"

definition cleanSocks :: "int \<Rightarrow> ('sock, 'addr) connection \<Rightarrow> ('sock, 'addr) connection option" where
  "cleanSocks numToKill c = do {
     socks \<leftarrow> slice (cn_socks c) numToKill (int (length (cn_socks c)));
     Some (c\<lparr>cn_socks := socks\<rparr>)
   }"

definition MAX_PORTS_OPEN :: int where
  "MAX_PORTS_OPEN = 10"

definition pruneSockets :: "int \<Rightarrow> ('sock, 'addr) connection \<Rightarrow> ('sock, 'addr) connection option" where
  "pruneSockets now c =
     (if length (cn_socks c) > 1 then do {
        c1 \<leftarrow> (if now - cn_lastPortChoice c > 60000
              then cleanSocks (int (length (cn_socks c)) - 1) c else Some c);
        if int (length (cn_socks c1)) > MAX_PORTS_OPEN then cleanSocks MAX_PORTS_OPEN c1 else Some c1
      }
      else Some c)"

text \<open>A new socket from \<open>dialUDP\<close>; \<open>None\<close> for a failure of the dial.\<close>

definition dialUDP ::
  "('sock \<times> 'addr) option \<Rightarrow> ('sock, 'addr) connection \<Rightarrow> bool \<times> ('sock, 'addr) connection" where
  "dialUDP dial c =
     (case dial of
        None \<Rightarrow> (False, c)
      | Some (s, a) \<Rightarrow>
          (True, c\<lparr>cn_remoteAddr := Some a, cn_socks := cn_socks c @ [s], cn_hasRemoteAddr := True\<rparr>))"

definition hopPort ::
  "int \<Rightarrow> int \<Rightarrow> ('sock \<times> 'addr) option \<Rightarrow> ('sock, 'addr) connection
     \<Rightarrow> ('sock, 'addr) connection option" where
  "hopPort now now' dial c =
     (let (dialled, c1) = dialUDP dial (conn_setup now c)
      in if \<not> dialled then Some c1 else pruneSockets now' c1)"

section \<open>Receiving and sending\<close>

datatype recv_error =
  Read_deadline | Read_blocked | Read_error | Recv_length | Recv_oversize | Control_error | Decrypt_error | Direction_to_server | Direction_to_client

text \<open>The round trip estimate of RFC 2988.\<close>

definition measure_rtt :: "16 word \<Rightarrow> 16 word \<Rightarrow> ('sock, 'addr) connection \<Rightarrow> ('sock, 'addr) connection" where
  "measure_rtt now16 reply c =
     (let R = (of_int (uint (timestampDiff now16 reply)) :: rat)
      in if R < 5000 then
           (if \<not> cn_RTTHit c then c\<lparr>cn_SRTT := R, cn_RTTVAR := R / 2, cn_RTTHit := True\<rparr>
            else c\<lparr>cn_RTTVAR := (1 - 1/4) * cn_RTTVAR c + 1/4 * \<bar>cn_SRTT c - R\<bar>,
                   cn_SRTT := (1 - 1/8) * cn_SRTT c + 1/8 * R\<rparr>)
         else c)"

text \<open>An authentic packet with a new sequence number: timestamps, round trip time and peer.\<close>

definition accept_packet ::
  "int \<Rightarrow> int \<Rightarrow> int \<Rightarrow> bool \<Rightarrow> 'addr \<Rightarrow> packet \<Rightarrow> ('sock, 'addr) connection
     \<Rightarrow> ('sock, 'addr) connection" where
  "accept_packet now now16 now' congestion raddr p c =
     (let c1 = c\<lparr>cn_expectedReceiverSeq := pk_seq p + 1\<rparr>;
          c2 = (if pk_timestamp p \<noteq> 0xffff then
                  c1\<lparr>cn_savedTimestamp :=
                       (if congestion then pk_timestamp p - 500 else pk_timestamp p),
                     cn_savedTimestampReceivedAt := now\<rparr>
                else c1);
          c3 = (if pk_timestampReply p \<noteq> 0xffff
                then measure_rtt (timestamp16 now16) (pk_timestampReply p) c2 else c2);
          c4 = c3\<lparr>cn_hasRemoteAddr := True, cn_lastHeard := now'\<rparr>
      in if cn_server c4 \<and> Some raddr \<noteq> cn_remoteAddr c4
         then c4\<lparr>cn_remoteAddr := Some raddr\<rparr> else c4)"

text \<open>
  \<open>recvOne\<close> after \<open>ReadMsgUDP\<close> has put \<open>n\<close> bytes into \<open>data\<close>: \<open>truncated\<close> is its flag, \<open>raddr\<close> the sender of the
  datagram, and \<open>ctrl\<close> tells whether the ancillary data report congestion, \<open>None\<close> when it cannot be parsed.
\<close>

definition recvOne ::
  "(bytes \<Rightarrow> bytes \<Rightarrow> bytes option) \<Rightarrow> int \<Rightarrow> int \<Rightarrow> int \<Rightarrow> int \<Rightarrow> bytes \<Rightarrow> bool \<Rightarrow> bool option \<Rightarrow> 'addr
     \<Rightarrow> ('sock, 'addr) connection \<Rightarrow> ((recv_error + bytes) \<times> ('sock, 'addr) connection) option" where
  "recvOne aopen now now16 now' n data truncated ctrl raddr c =
     (if n < 0 then Some (Inl Recv_length, c)
      else if truncated then Some (Inl Recv_oversize, c)
      else case ctrl of
        None \<Rightarrow> Some (Inl Control_error, c)
      | Some congestion \<Rightarrow> do {
        dec \<leftarrow> Decrypt aopen (take (nat n) data);
        (case dec of
           None \<Rightarrow> Some (Inl Decrypt_error, c)
         | Some msg \<Rightarrow> do {
             p \<leftarrow> NewPacketFrom msg;
             if cn_server c \<and> pk_direction p \<noteq> TO_SERVER then Some (Inl Direction_to_server, c)
             else if \<not> cn_server c \<and> pk_direction p \<noteq> TO_CLIENT then Some (Inl Direction_to_client, c)
             else if pk_seq p < cn_expectedReceiverSeq c then Some (Inr (pk_payload p), c)
             else Some (Inr (pk_payload p), accept_packet now now16 now' congestion raddr p c)
           })
      })"

text \<open>
  \<open>Recv\<close>: the sockets in order, until one delivers a payload or fails. A read that times out or
  would block is skipped, and its error is the result when it was the last one; without sockets the
  result is the empty payload and no error. The remote address that is also returned is
  \<open>cn_remoteAddr\<close> of the result.
\<close>

datatype 'addr read_outcome =
  Deadline_exceeded | Would_block | Read_fails | Datagram int bytes bool "bool option" 'addr

definition recv_socket ::
  "(bytes \<Rightarrow> bytes \<Rightarrow> bytes option) \<Rightarrow> int \<Rightarrow> int \<Rightarrow> int \<Rightarrow> 'addr read_outcome
     \<Rightarrow> ('sock, 'addr) connection \<Rightarrow> ((recv_error + bytes) \<times> ('sock, 'addr) connection) option" where
  "recv_socket aopen now now16 now' r c =
     (case r of
        Deadline_exceeded \<Rightarrow> Some (Inl Read_deadline, c)
      | Would_block \<Rightarrow> Some (Inl Read_blocked, c)
      | Read_fails \<Rightarrow> Some (Inl Read_error, c)
      | Datagram n data truncated ctrl raddr \<Rightarrow>
          recvOne aopen now now16 now' n data truncated ctrl raddr c)"

fun recv_loop ::
  "('sock \<Rightarrow> ('sock, 'addr) connection \<Rightarrow> ((recv_error + bytes) \<times> ('sock, 'addr) connection) option)
     \<Rightarrow> int \<Rightarrow> 'sock list \<Rightarrow> recv_error + bytes \<Rightarrow> ('sock, 'addr) connection
     \<Rightarrow> ((recv_error + bytes) \<times> ('sock, 'addr) connection) option" where
  "recv_loop recv now [] last_result c = Some (last_result, c)"
| "recv_loop recv now (s # socks) last_result c = do {
     (r, c1) \<leftarrow> recv s c;
     (case r of
        Inl e \<Rightarrow>
          if e = Read_deadline \<or> e = Read_blocked then recv_loop recv now socks (Inl e) c1
          else Some (Inl e, c1)
      | Inr payload \<Rightarrow> do {
          c2 \<leftarrow> pruneSockets now c1;
          Some (Inr payload, c2)
        })
   }"

definition Recv ::
  "(bytes \<Rightarrow> bytes \<Rightarrow> bytes option) \<Rightarrow> int \<Rightarrow> int \<Rightarrow> int \<Rightarrow> int \<Rightarrow> ('sock \<Rightarrow> 'addr read_outcome)
     \<Rightarrow> ('sock, 'addr) connection \<Rightarrow> ((recv_error + bytes) \<times> ('sock, 'addr) connection) option" where
  "Recv aopen now now16 now' nowp rd c =
     recv_loop (\<lambda>s. recv_socket aopen now now16 now' (rd s)) nowp (cn_socks c) (Inr []) c"

text \<open>
  \<open>send\<close>: nothing is written while the peer is unknown. \<open>write\<close> is the number of bytes written, or
  \<open>None\<close> for an error of the socket. The results are the datagram, whether an error is returned,
  and the connection.
\<close>

definition conn_send ::
  "(bytes \<Rightarrow> bytes \<Rightarrow> bytes) \<Rightarrow> 64 word \<Rightarrow> int \<Rightarrow> int \<Rightarrow> int \<Rightarrow> int option \<Rightarrow> int \<Rightarrow> int
     \<Rightarrow> ('sock \<times> 'addr) option \<Rightarrow> bytes \<Rightarrow> bool \<Rightarrow> ('sock, 'addr) connection
     \<Rightarrow> (bytes option \<times> bool \<times> ('sock, 'addr) connection) option" where
  "conn_send seal unique now now16 now' written hop hop' dial s awaken c = do {
     conn \<leftarrow> sock c;
     if \<not> cn_hasRemoteAddr c then Some (None, False, c)
     else
       let (px, c1) = newPacket unique now now16 s c;
           p = Encrypt seal (toMessage px)
       in case written of
            None \<Rightarrow> Some (Some p, True, c1)
          | Some n \<Rightarrow>
              let short = (n \<noteq> int (length p));
                  c2 = (if short then c1\<lparr>cn_mtu := 500\<rparr> else c1)
              in do {
                   c3 \<leftarrow> (if cn_server c2 then
                           Some (if \<not> awaken \<and> now' - cn_lastHeard c2 > 40000
                                 then c2\<lparr>cn_hasRemoteAddr := False\<rparr> else c2)
                         else if \<not> awaken \<and> now' - cn_lastPortChoice c2 > 10000 \<and>
                                 now' - cn_lastRoundtripSuccess c2 > 10000
                         then hopPort hop hop' dial c2 else Some c2);
                   Some (Some p, short, c3)
                 }
   }"

section \<open>Ports\<close>

text \<open>The result of \<open>parsePort\<close> and \<open>ParsePortRange\<close> is \<open>None\<close> when \<open>ok\<close> is false.\<close>

definition parsePort :: "string \<Rightarrow> int option" where
  "parsePort portStr =
     (case Atoi portStr of
        None \<Rightarrow> None
      | Some value \<Rightarrow> if value < 0 \<or> value > 65535 then None else Some value)"

fun split_colon :: "string \<Rightarrow> string list" where
  "split_colon [] = [[]]"
| "split_colon (c # cs) =
     (if c = CHR '':'' then [] # split_colon cs
      else (c # hd (split_colon cs)) # tl (split_colon cs))"

definition ParsePortRange :: "string \<Rightarrow> (int \<times> int) option" where
  "ParsePortRange desiredPort =
     (let all = split_colon desiredPort
      in if length all = 2 then do {
           low \<leftarrow> parsePort (all ! 0);
           high \<leftarrow> parsePort (all ! 1);
           if low > high then None else Some (low, high)
         }
         else do {
           low \<leftarrow> parsePort (all ! 0);
           Some (low, low)
         })"

text \<open>
  The search of \<open>tryBind\<close> from port \<open>i\<close> to port \<open>high\<close>: \<open>bindp\<close> gives \<open>None\<close> when the address does
  not resolve and \<open>Some None\<close> when the port is taken.
\<close>

function try_ports :: "(int \<Rightarrow> 'sock option option) \<Rightarrow> int \<Rightarrow> int \<Rightarrow> (int \<times> 'sock) option" where
  "try_ports bindp i high =
     (if i > high then None
      else case bindp i of
             None \<Rightarrow> None
           | Some None \<Rightarrow> try_ports bindp (i + 1) high
           | Some (Some s) \<Rightarrow> Some (i, s))"
  by pat_completeness auto
termination
  by (relation "measure (\<lambda>(b, i, high). nat (high + 1 - i))") auto

declare try_ports.simps [simp del]

definition tryBind ::
  "(int \<Rightarrow> 'sock option option) \<Rightarrow> bool \<Rightarrow> int \<Rightarrow> int \<Rightarrow> ('sock, 'addr) connection
     \<Rightarrow> bool \<times> ('sock, 'addr) connection" where
  "tryBind bindp is6 portLow portHigh c =
     (let searchLow = (if portLow \<noteq> - 1 then portLow else 60001);
          searchHigh = (if portHigh \<noteq> - 1 then portHigh else 60999)
      in case try_ports bindp searchLow searchHigh of
           None \<Rightarrow> (False, c)
         | Some (i, s) \<Rightarrow> (True, setMTU is6 (c\<lparr>cn_socks := cn_socks c @ [s]\<rparr>)))"

section \<open>Constructors\<close>

text \<open>
  The server: \<open>None\<close> is the nil pointer for an invalid port range or when no port can be bound.
\<close>

definition NewConnection ::
  "int \<Rightarrow> (int \<Rightarrow> 'sock option option) \<Rightarrow> bool \<Rightarrow> string \<Rightarrow> ('sock, 'addr) connection option" where
  "NewConnection now bindp is6 desiredPort =
     (let c = conn_setup now (connection_init True)
      in case (if length desiredPort > 0 then ParsePortRange desiredPort else Some (- 1, - 1)) of
           None \<Rightarrow> None
         | Some (desiredPortLow, desiredPortHigh) \<Rightarrow>
             (case tryBind bindp is6 desiredPortLow desiredPortHigh c of
                (bound, c1) \<Rightarrow> if bound then Some c1 else None))"

text \<open>The client: \<open>key\<close> is the outcome of \<open>NewBase64Key2\<close>, \<open>dial\<close> the one of the dial.\<close>

definition NewConnectionClient ::
  "bytes option \<Rightarrow> int \<Rightarrow> ('sock \<times> 'addr) option \<Rightarrow> bool \<Rightarrow> ('sock, 'addr) connection option" where
  "NewConnectionClient key now dial is6 =
     (case key of
        None \<Rightarrow> None
      | Some k \<Rightarrow>
          (case dialUDP dial (conn_setup now (connection_init False)) of
             (dialled, c) \<Rightarrow> if dialled then Some (setMTU is6 c) else None))"

section \<open>Properties\<close>

text \<open>
  \<open>timestampDiff\<close>, written with a conditional correction, is subtraction modulo 2 to the 16.
\<close>

theorem timestampDiff_minus: "timestampDiff a b = a - b"
proof -
  have "word_of_int (uint a - uint b + 65536) = (a - b :: 16 word)"
    by (simp add: word_of_int_hom_syms)
  then show ?thesis by (simp add: timestampDiff_def Let_def)
qed

lemma mask_bits:
  "bit DIRECTION_MASK n \<longleftrightarrow> n = 63" "bit SEQUENCE_MASK n \<longleftrightarrow> n < 63"
proof -
  show d: "bit DIRECTION_MASK n \<longleftrightarrow> n = 63" for n
    unfolding DIRECTION_MASK_def by (simp only: bit_push_bit_iff bit_1_iff) auto
  show "bit SEQUENCE_MASK n \<longleftrightarrow> n < 63"
    unfolding SEQUENCE_MASK_def by (simp only: bit_not_iff d) auto
qed

lemma NonceVal_NewMessage: "NonceVal (NewMessage s x) = s"
  by (simp add: NonceVal_def NewMessage_def get_put_uint [where n = 8])

lemma nonce_fields:
  assumes "unat s < 2 ^ 63"
  shows "(DIRECTION_MASK OR (s AND SEQUENCE_MASK)) AND SEQUENCE_MASK = s"
    and "(DIRECTION_MASK OR (s AND SEQUENCE_MASK)) AND DIRECTION_MASK > 0"
    and "s AND SEQUENCE_MASK AND SEQUENCE_MASK = s"
    and "s AND SEQUENCE_MASK AND DIRECTION_MASK = 0" and "s AND SEQUENCE_MASK = s"
    and "s AND DIRECTION_MASK = 0"
proof -
  have hi: "\<not> bit s n" if "63 \<le> n" for n
  proof -
    have "s < 2 ^ 63" using assms by (simp add: word_less_nat_alt)
    then have "s = take_bit 63 s" by (simp only: take_bit_eq_mask less_mask_eq)
    then show ?thesis using that by (metis bit_take_bit_iff not_less)
  qed
  then have lo: "n < 63" if "bit s n" for n using that by (meson not_less)
  show "(DIRECTION_MASK OR (s AND SEQUENCE_MASK)) AND SEQUENCE_MASK = s"
    by (rule bit_word_eqI) (use lo in \<open>auto simp: bit_and_iff bit_or_iff mask_bits\<close>)
  show "s AND SEQUENCE_MASK AND SEQUENCE_MASK = s"
    by (rule bit_word_eqI) (use lo in \<open>auto simp: bit_and_iff bit_or_iff mask_bits\<close>)
  show "s AND SEQUENCE_MASK AND DIRECTION_MASK = 0"
    by (rule bit_word_eqI) (auto simp: bit_and_iff mask_bits)
  show "s AND SEQUENCE_MASK = s"
    by (rule bit_word_eqI) (use lo in \<open>auto simp: bit_and_iff mask_bits\<close>)
  show "s AND DIRECTION_MASK = 0"
  proof (rule bit_word_eqI)
    fix n
    show "bit (s AND DIRECTION_MASK) n = bit 0 n"
      using lo [of n] by (auto simp: bit_and_iff mask_bits)
  qed
  have "bit ((DIRECTION_MASK OR (s AND SEQUENCE_MASK)) AND DIRECTION_MASK) 63"
    by (auto simp: bit_and_iff bit_or_iff mask_bits)
  then have "(DIRECTION_MASK OR (s AND SEQUENCE_MASK)) AND DIRECTION_MASK \<noteq> 0" by force
  then show "(DIRECTION_MASK OR (s AND SEQUENCE_MASK)) AND DIRECTION_MASK > 0"
    by (simp add: word_neq_0_conv)
qed

lemma packet_codec:
  assumes "unat (pk_seq p) < 2 ^ 63"
    and "\<And>n t. aopen n (seal n t) = Some t"
  shows "Decrypt aopen (Encrypt seal (toMessage p)) = Some (Some (toMessage p)) \<and>
    NewPacketFrom (toMessage p) = Some p"
proof
  have len: "length (ms_nonce (toMessage p)) = NONCE_LEN"
    by (simp add: toMessage_def Let_def NewMessage_def NONCE_LEN_def)
  then show "Decrypt aopen (Encrypt seal (toMessage p)) = Some (Some (toMessage p))"
    using assms(2) by (simp add: Decrypt_def Encrypt_def slice_def)
  show "NewPacketFrom (toMessage p) = Some p"
    using nonce_fields [OF assms(1)]
    by (cases "pk_direction p")
      (simp_all add: NewPacketFrom_def toMessage_def Let_def NonceVal_NewMessage GetTimestamp_def
        GetTimestampReply_def GetPayload_def slice_def timestampBytes_def get_put_uint [where n = 2],
       simp_all add: NewMessage_def slice_def timestampBytes_def get_put_uint [where n = 2])
qed

text \<open>
  C37. A packet survives the way to the peer: sealing and opening give the message back, and its
  sequence number, direction, timestamps and payload are read from it, for sequence numbers that
  leave the direction bit alone.
\<close>

theorem packet_roundtrip:
  assumes "unat (pk_seq p) < 2 ^ 63"
    and "\<And>n t. aopen n (seal n t) = Some t"
  shows "Decrypt aopen (Encrypt seal (toMessage p)) = Some (Some (toMessage p)) \<and>
    NewPacketFrom (toMessage p) = Some p"
  using assms by (rule packet_codec)

definition sample_packet :: packet where
  "sample_packet = \<lparr>pk_payload = [7], pk_seq = 5, pk_direction = TO_SERVER, pk_timestamp = 3,
     pk_timestampReply = 2\<rparr>"

lemma packet_roundtrip_witness:
  "Decrypt (\<lambda>n. Some) (Encrypt (\<lambda>n t. t) (toMessage sample_packet)) =
     Some (Some (toMessage sample_packet)) \<and>
   NewPacketFrom (toMessage sample_packet) = Some sample_packet"
  by (rule packet_roundtrip) (simp_all add: sample_packet_def)

text \<open>
  The retransmission timeout is between 50 and 1000 milliseconds.
\<close>

theorem timeout_bounds: "50 \<le> timeout c \<and> timeout c \<le> 1000"
  by (simp add: timeout_def Let_def)

text \<open>The round trip estimate stays below the largest sample that is accepted.\<close>

definition rtt_inv :: "('sock, 'addr) connection \<Rightarrow> bool" where
  "rtt_inv c \<longleftrightarrow> 0 \<le> cn_SRTT c \<and> cn_SRTT c < 5000 \<and> 0 \<le> cn_RTTVAR c \<and> cn_RTTVAR c < 5000"

text \<open>
  A measurement keeps the smoothed round trip time and its variation between 0 and 5000
  milliseconds, whatever timestamp the peer sends.
\<close>

theorem measure_rtt_inv:
  assumes "rtt_inv c"
  shows "rtt_inv (measure_rtt now16 reply c)"
proof -
  obtain R :: rat where R: "of_int (uint (timestampDiff now16 reply)) = R" "0 \<le> R"
    by (metis of_int_0_le_iff uint_ge_0)
  show ?thesis
    using assms R(2)
    unfolding rtt_inv_def measure_rtt_def Let_def R(1) by (auto simp: abs_if field_simps)
qed

lemma measure_rtt_inv_witness:
  "rtt_inv (measure_rtt 7 3 (connection_init True :: (nat, nat) connection))"
  by (rule measure_rtt_inv) (simp add: rtt_inv_def connection_init_def)

text \<open>
  A datagram shorter than the nonce makes \<open>Decrypt\<close> panic before anything is authenticated.
\<close>

theorem short_datagram_Decrypt: "length data < NONCE_LEN \<Longrightarrow> Decrypt aopen data = None"
  by (simp add: Decrypt_def slice_def)

lemma short_datagram_Decrypt_witness: "Decrypt (\<lambda>n. Some) [1, 2, 3] = None"
  by (rule short_datagram_Decrypt) (simp add: NONCE_LEN_def)

text \<open>
  Pruning old sockets never panics and keeps the newest one, through which the client sends.
\<close>

theorem pruneSockets_keeps_newest:
  "\<exists>c'. pruneSockets now c = Some c' \<and> sock c' = sock c"
  by (auto simp: pruneSockets_def cleanSocks_def slice_def sock_def list_at_def MAX_PORTS_OPEN_def
      Let_def nat_diff_distrib)

text \<open>
  One socket over the limit of ten closes ten of the eleven, and not one.
\<close>

theorem pruneSockets_too_many:
  "pruneSockets 0 (connection_init False\<lparr>cn_socks := [1, 2, 3, 4, 5, 6, 7, 8, 9, 10, 11 :: nat]\<rparr>)
   = Some (connection_init False\<lparr>cn_socks := [11]\<rparr> :: (nat, nat) connection)"
  by (simp add: pruneSockets_def cleanSocks_def slice_def connection_init_def MAX_PORTS_OPEN_def MaxInt64_def)

lemma accept_packet_fields:
  "cn_expectedReceiverSeq (accept_packet now now16 now' congestion raddr p c) = pk_seq p + 1"
  "cn_remoteAddr (accept_packet now now16 now' congestion raddr p c) = cn_remoteAddr c \<or>
   cn_server c \<and> cn_remoteAddr (accept_packet now now16 now' congestion raddr p c) = Some raddr"
  by (simp_all add: accept_packet_def Let_def measure_rtt_def)

text \<open>
  C38. Only a datagram that authenticates, goes in the right direction and has a new sequence number
  changes the connection; the next expected number is then one more, so a replay changes nothing,
  and only a server takes the sender of such a datagram as its peer.
\<close>

theorem recvOne_authentic:
  assumes "recvOne aopen now now16 now' n data truncated ctrl raddr c = Some (r, c')"
    and "c' \<noteq> c"
  shows "\<exists>msg p. Decrypt aopen (take (nat n) data) = Some (Some msg) \<and> NewPacketFrom msg = Some p \<and>
    r = Inr (pk_payload p) \<and>
    pk_direction p = (if cn_server c then TO_SERVER else TO_CLIENT) \<and>
    cn_expectedReceiverSeq c \<le> pk_seq p \<and> cn_expectedReceiverSeq c' = pk_seq p + 1 \<and>
    (cn_remoteAddr c' = cn_remoteAddr c \<or> cn_server c \<and> cn_remoteAddr c' = Some raddr)"
  using assms accept_packet_fields [of now now16 now' "the ctrl" raddr _ c]
  by (auto simp: recvOne_def bind_eq_Some_conv split: if_splits option.splits)

lemma recvOne_authentic_witness:
  "\<exists>msg p. Decrypt (\<lambda>n. Some) (take (nat (int (length (Encrypt (\<lambda>n t. t) (toMessage sample_packet)))))
        (Encrypt (\<lambda>n t. t) (toMessage sample_packet))) = Some (Some msg) \<and>
    NewPacketFrom msg = Some p \<and> (Inr [7] :: recv_error + bytes) = Inr (pk_payload p) \<and>
    pk_direction p = (if cn_server (connection_init True :: (nat, nat) connection)
                      then TO_SERVER else TO_CLIENT) \<and>
    cn_expectedReceiverSeq (connection_init True :: (nat, nat) connection) \<le> pk_seq p \<and>
    cn_expectedReceiverSeq (accept_packet 0 0 0 False 9 sample_packet
      (connection_init True :: (nat, nat) connection)) = pk_seq p + 1 \<and>
    (cn_remoteAddr (accept_packet 0 0 0 False 9 sample_packet
        (connection_init True :: (nat, nat) connection)) =
       cn_remoteAddr (connection_init True :: (nat, nat) connection) \<or>
     cn_server (connection_init True :: (nat, nat) connection) \<and>
     cn_remoteAddr (accept_packet 0 0 0 False 9 sample_packet
        (connection_init True :: (nat, nat) connection)) = Some 9)"
proof (rule recvOne_authentic [where truncated = False])
  show "recvOne (\<lambda>n. Some) 0 0 0 (int (length (Encrypt (\<lambda>n t. t) (toMessage sample_packet))))
      (Encrypt (\<lambda>n t. t) (toMessage sample_packet)) False (Some False) 9
      (connection_init True :: (nat, nat) connection) =
    Some (Inr [7], accept_packet 0 0 0 False 9 sample_packet (connection_init True))"
    using packet_codec [of sample_packet "\<lambda>n. Some" "\<lambda>n t. t"]
    by (simp add: recvOne_def) (simp add: sample_packet_def connection_init_def)
  have "cn_expectedReceiverSeq (accept_packet 0 0 0 False 9 sample_packet
      (connection_init True :: (nat, nat) connection)) = 6"
    by (simp add: accept_packet_fields sample_packet_def)
  then show "accept_packet 0 0 0 False 9 sample_packet (connection_init True) \<noteq>
      (connection_init True :: (nat, nat) connection)"
    by (auto simp: connection_init_def)
qed

text \<open>
  Without a recent timestamp of the peer a packet carries the reply 0, which the receiver does
  not take for "no reply" (that is 65535): its own clock becomes a round trip time, the first one
  even the smoothed value.
\<close>

theorem newPacket_stale_reply:
  assumes "\<not> now - cn_savedTimestampReceivedAt c < 1000" and "t mod 65535 < 5000"
  shows "pk_timestampReply (fst (newPacket unique now now16 payload c)) = 0 \<and>
    (0 :: 16 word) \<noteq> 0xffff \<and>
    cn_SRTT (measure_rtt (timestamp16 t) 0 (connection_init b)) = of_int (t mod 65535)"
proof -
  have "uint (timestampDiff (timestamp16 t) 0) = t mod 65535"
  proof -
    have "0 \<le> t mod 65535" "t mod 65535 < 65536" using assms(2) by simp_all
    then have "uint (word_of_int (t mod 65535) :: 16 word) = t mod 65535"
      by (simp add: uint_word_of_int)
    then show ?thesis by (simp add: timestampDiff_def timestamp16_def Let_def)
  qed
  then show ?thesis
    using assms by (simp add: newPacket_def Let_def measure_rtt_def connection_init_def)
qed

lemma newPacket_stale_reply_witness:
  "pk_timestampReply (fst (newPacket 1 5000 5000 [] (connection_init True :: (nat, nat) connection))) = 0 \<and>
    (0 :: 16 word) \<noteq> 0xffff \<and>
    cn_SRTT (measure_rtt (timestamp16 123) 0 (connection_init False :: (nat, nat) connection)) =
      of_int (123 mod 65535)"
  by (rule newPacket_stale_reply) (simp_all add: connection_init_def)

text \<open>
  Every port range that is accepted is ordered and within the port numbers.
\<close>

theorem ParsePortRange_range:
  "ParsePortRange s = Some (low, high) \<Longrightarrow> 0 \<le> low \<and> low \<le> high \<and> high \<le> 65535"
  by (auto simp: ParsePortRange_def parsePort_def Let_def bind_eq_Some_conv split: if_splits option.splits)

lemma ParsePortRange_range_witness: "0 \<le> (7 :: int) \<and> (7 :: int) \<le> 9 \<and> (9 :: int) \<le> 65535"
  by (rule ParsePortRange_range [of "''7:9''"])
    (simp add: ParsePortRange_def parsePort_def Atoi_def has_prefix_def is_digit_def digits_value_def)

text \<open>The search binds the first free port of the range.\<close>

lemma try_ports_first:
  "try_ports bindp i high = Some (j, s) \<Longrightarrow>
    i \<le> j \<and> j \<le> high \<and> bindp j = Some (Some s) \<and> (\<forall>k. i \<le> k \<and> k < j \<longrightarrow> bindp k = Some None)"
proof (induction bindp i high rule: try_ports.induct)
  case (1 bindp i high)
  from "1.prems" have i: "i \<le> high" by (subst (asm) try_ports.simps) (simp split: if_splits)
  with "1.prems" consider "j = i" "bindp i = Some (Some s)"
    | "bindp i = Some None" "try_ports bindp (i + 1) high = Some (j, s)"
    by (subst (asm) try_ports.simps) (simp split: option.splits)
  then show ?case
  proof cases
    case 2
    then have "i + 1 \<le> j \<and> j \<le> high \<and> bindp j = Some (Some s) \<and>
        (\<forall>k. i + 1 \<le> k \<and> k < j \<longrightarrow> bindp k = Some None)"
      using "1.IH" i by simp
    then show ?thesis
      using 2(1) by (metis add1_zle_eq le_less order_less_le_trans zless_add1_eq)
  qed (use i in auto)
qed

end
