(* ===== verification/Sender.thy ===== *)
theory Sender
  imports Fragment UserStream Connection
begin

text \<open>
  \<open>network/sender.go\<close> and \<open>network/state.go\<close>: the sender keeps the states it has sent, guesses which
  of them the receiver has, and sends the difference from there to its current state.

  The state is of any type with the operations of the interface \<open>State\<close> (\<open>state_ops\<close>). The pointer
  \<open>assumedReceiverState\<close> is modelled by the element it points to: the code reads it only between the
  call of \<open>updateAssumedReceiverState\<close> and the end of the same round, and \<open>rationalizeStates\<close>
  changes the element through both paths. Each reading of the clock within a round has its own
  field of \<open>clock\<close>. Times are integers; the largest \<open>int64\<close> stands for "never".
\<close>

section \<open>States with a number\<close>

record 's timed_state =
  tm_state :: 's
  tm_timestamp :: int
  tm_num :: "64 word"

definition numEq :: "'s timed_state \<Rightarrow> 64 word \<Rightarrow> bool" where
  "numEq t v \<longleftrightarrow> tm_num t = v"

definition numLt :: "'s timed_state \<Rightarrow> 64 word \<Rightarrow> bool" where
  "numLt t v \<longleftrightarrow> tm_num t < v"

definition timed_clone :: "'s state_ops \<Rightarrow> 's timed_state \<Rightarrow> 's timed_state" where
  "timed_clone ops t = t\<lparr>tm_state := so_Clone ops (tm_state t)\<rparr>"

text \<open>
  \<open>awaken\<close> of \<open>network/transport.go\<close>: did the computer wake up from hibernation? The timestamps of
  the last two states tell. An empty list panics.
\<close>

datatype awake = KEEP_ALIVE | JUST_AWAKEN | ONE_AWAKEN | LACK_STATE | NO_RESPONSE

definition ACTIVE_GAP :: int where
  "ACTIVE_GAP = 5100"

definition awaken :: "'s timed_state list \<Rightarrow> int \<Rightarrow> (bool \<times> awake) option" where
  "awaken states now = do {
     s \<leftarrow> list_at states (int (length states) - 1);
     ak \<leftarrow> (if now - tm_timestamp s < ACTIVE_GAP then
             (if length states \<ge> 2 then do {
                prev \<leftarrow> list_at states (int (length states) - 2);
                Some (if now - tm_timestamp prev > ACTIVE_GAP * 2 then ONE_AWAKEN else KEEP_ALIVE)
              }
              else Some LACK_STATE)
           else Some (if length states \<ge> 14 then NO_RESPONSE else JUST_AWAKEN));
     Some (ak = JUST_AWAKEN \<or> ak = ONE_AWAKEN, ak)
   }"

section \<open>The sender\<close>

record 's sender =
  sd_currentState :: 's
  sd_assumed :: "'s timed_state"
  sd_fragmenter :: fragmenter
  sd_sentStates :: "'s timed_state list"
  sd_nextSendTime :: int
  sd_nextAckTime :: int
  sd_shutdownTries :: int
  sd_shutdownStart :: int
  sd_ackNum :: "64 word"
  sd_MINDELAY :: int
  sd_lastHeard :: int
  sd_mindelayClock :: int
  sd_shutdownInProgress :: bool
  sd_pendingDataAck :: bool

text \<open>\<open>math.MaxUint64\<close>, the number of the shutdown state.\<close>

definition MaxUint64 :: "64 word" where
  "MaxUint64 = - 1"

definition ACK_INTERVAL :: int where "ACK_INTERVAL = 3000"
definition ACK_DELAY :: int where "ACK_DELAY = 100"
definition SHUTDOWN_RETRIES :: int where "SHUTDOWN_RETRIES = 16"
definition ACTIVE_RETRY_TIMEOUT :: int where "ACTIVE_RETRY_TIMEOUT = 10000"

record clock =
  ck_timers :: int
  ck_assumed :: int
  ck_tick :: int
  ck_state :: int
  ck_fragment :: "nat \<Rightarrow> int"
  ck_ack :: int

text \<open>
  What a round uses from outside the sender: the codecs, \<open>Connection.send\<close> for the k-th fragment
  (the first result tells whether it returned without an error) and the random chaff.
\<close>

record ('sock, 'addr) send_env =
  se_marshal :: "instruction \<Rightarrow> bytes"
  se_zwrite :: "bytes \<Rightarrow> bytes"
  se_send :: "nat \<Rightarrow> bytes \<Rightarrow> bool \<Rightarrow> ('sock, 'addr) connection \<Rightarrow> (bool \<times> ('sock, 'addr) connection) option"
  se_chaff :: bytes

text \<open>The queue of sent states is limited to 32; the first sixteen go when it overflows.\<close>

definition addSentState ::
  "'s state_ops \<Rightarrow> int \<Rightarrow> 64 word \<Rightarrow> 's \<Rightarrow> 's sender \<Rightarrow> 's sender" where
  "addSentState ops timestamp num state ts =
     (let s = \<lparr>tm_state = so_Clone ops state, tm_timestamp = timestamp, tm_num = num\<rparr>;
          states = sd_sentStates ts @ [s]
      in ts\<lparr>sd_sentStates := (if length states > 32 then drop 16 states else states)\<rparr>)"

definition NewTransportSender :: "'s state_ops \<Rightarrow> int \<Rightarrow> 's \<Rightarrow> 's sender" where
  "NewTransportSender ops now initialState =
     (let s = \<lparr>tm_state = so_Clone ops initialState, tm_timestamp = now, tm_num = 0\<rparr>
      in \<lparr>sd_currentState = initialState, sd_assumed = s, sd_fragmenter = NewFragmenter,
          sd_sentStates = [s], sd_nextSendTime = now, sd_nextAckTime = now, sd_shutdownTries = 0,
          sd_shutdownStart = MaxInt64, sd_ackNum = 0, sd_MINDELAY = 8, sd_lastHeard = 0,
          sd_mindelayClock = MaxInt64, sd_shutdownInProgress = False, sd_pendingDataAck = False\<rparr>)"

definition sendInterval :: "('sock, 'addr) connection \<Rightarrow> int" where
  "sendInterval conn =
     (let SEND_INTERVAL = \<lceil>getSRTT conn / 2\<rceil>
      in if SEND_INTERVAL < 20 then 20 else if SEND_INTERVAL > 250 then 250 else SEND_INTERVAL)"

section \<open>Timers\<close>

text \<open>The loop of \<open>updateAssumedReceiverState\<close>: on to the next state while it was sent recently.\<close>

fun assume_recent :: "int \<Rightarrow> int \<Rightarrow> 's timed_state \<Rightarrow> 's timed_state list \<Rightarrow> 's timed_state" where
  "assume_recent now limit a [] = a"
| "assume_recent now limit a (s # states) =
     (if now - tm_timestamp s < limit then assume_recent now limit s states else a)"

definition updateAssumedReceiverState ::
  "int \<Rightarrow> ('sock, 'addr) connection \<Rightarrow> 's sender \<Rightarrow> 's sender option" where
  "updateAssumedReceiverState now conn ts =
     (case sd_sentStates ts of
        [] \<Rightarrow> None
      | s # states \<Rightarrow>
          Some (ts\<lparr>sd_assumed := assume_recent now (timeout conn + ACK_DELAY) s states\<rparr>))"

definition rationalizeStates :: "'s state_ops \<Rightarrow> 's sender \<Rightarrow> 's sender option" where
  "rationalizeStates ops ts = do {
     first \<leftarrow> list_at (sd_sentStates ts) 0;
     let known = tm_state first;
     let cut = (\<lambda>t. t\<lparr>tm_state := so_Subtract ops (tm_state t) known\<rparr>);
     Some (ts\<lparr>sd_currentState := so_Subtract ops (sd_currentState ts) known,
              sd_sentStates := map cut (sd_sentStates ts),
              sd_assumed := cut (sd_assumed ts)\<rparr>)
   }"

definition next_send_time ::
  "'s state_ops \<Rightarrow> int \<Rightarrow> ('sock, 'addr) connection \<Rightarrow> 's timed_state \<Rightarrow> 's timed_state
     \<Rightarrow> 's sender \<Rightarrow> int \<times> int" where
  "next_send_time ops now conn first back ts =
     (let active = sd_lastHeard ts + ACTIVE_RETRY_TIMEOUT > now
      in if \<not> so_Equal ops (sd_currentState ts) (tm_state back) then
           (let mindelay = (if sd_mindelayClock ts = MaxInt64 then now else sd_mindelayClock ts)
            in (mindelay, min (mindelay + sd_MINDELAY ts) (tm_timestamp back + sendInterval conn)))
         else if \<not> so_Equal ops (sd_currentState ts) (tm_state (sd_assumed ts)) \<and> active then
           (let t = tm_timestamp back + sendInterval conn
            in (sd_mindelayClock ts,
                if sd_mindelayClock ts \<noteq> MaxInt64
                then max t (sd_mindelayClock ts + sd_MINDELAY ts) else t))
         else if \<not> so_Equal ops (sd_currentState ts) (tm_state first) \<and> active then
           (sd_mindelayClock ts, tm_timestamp back + timeout conn + ACK_DELAY)
         else (sd_mindelayClock ts, MaxInt64))"

text \<open>Data from the peer is acknowledged soon; a shutdown runs at the frame rate.\<close>

definition soon_ack :: "int \<Rightarrow> 's sender \<Rightarrow> 's sender" where
  "soon_ack now ts =
     (if sd_pendingDataAck ts \<and> sd_nextAckTime ts > now + ACK_DELAY
      then ts\<lparr>sd_nextAckTime := now + ACK_DELAY\<rparr> else ts)"

definition shutdown_ack :: "('sock, 'addr) connection \<Rightarrow> 's timed_state \<Rightarrow> 's sender \<Rightarrow> 's sender" where
  "shutdown_ack conn back ts =
     (if sd_shutdownInProgress ts \<or> sd_ackNum ts = MaxUint64
      then ts\<lparr>sd_nextAckTime := tm_timestamp back + sendInterval conn\<rparr> else ts)"

definition calculateTimers ::
  "'s state_ops \<Rightarrow> clock \<Rightarrow> ('sock, 'addr) connection \<Rightarrow> 's sender \<Rightarrow> 's sender option" where
  "calculateTimers ops ck conn ts = do {
     let now = ck_timers ck;
     ts1 \<leftarrow> updateAssumedReceiverState (ck_assumed ck) conn ts;
     ts2 \<leftarrow> rationalizeStates ops ts1;
     back \<leftarrow> list_at (sd_sentStates ts2) (int (length (sd_sentStates ts2)) - 1);
     first \<leftarrow> list_at (sd_sentStates ts2) 0;
     let ts3 = soon_ack now ts2;
     let next = next_send_time ops now conn first back ts3;
     Some (shutdown_ack conn back
       (ts3\<lparr>sd_mindelayClock := fst next, sd_nextSendTime := snd next\<rparr>))
   }"

section \<open>Sending\<close>

type_synonym ('s, 'sock, 'addr) sent =
  "(bool \<times> bytes list \<times> ('sock, 'addr) connection \<times> 's sender) option"

text \<open>The fragments go out one by one until an error; the strings that were written are collected.\<close>

fun send_loop ::
  "(nat \<Rightarrow> bytes \<Rightarrow> bool \<Rightarrow> ('sock, 'addr) connection \<Rightarrow> (bool \<times> ('sock, 'addr) connection) option)
     \<Rightarrow> 's timed_state list \<Rightarrow> (nat \<Rightarrow> int) \<Rightarrow> nat \<Rightarrow> fragment list \<Rightarrow> ('sock, 'addr) connection
     \<Rightarrow> (bool \<times> bytes list \<times> ('sock, 'addr) connection) option" where
  "send_loop send states now k [] conn = Some (True, [], conn)"
| "send_loop send states now k (f # fs) conn = do {
     (ak, _) \<leftarrow> awaken states (now k);
     (sent, conn1) \<leftarrow> send k (Fragment_String f) ak conn;
     if \<not> sent then Some (False, [Fragment_String f], conn1)
     else do {
       (rest, out, conn2) \<leftarrow> send_loop send states now (k + 1) fs conn1;
       Some (rest, Fragment_String f # out, conn2)
     }
   }"

definition sendFragments ::
  "('sock, 'addr) send_env \<Rightarrow> clock \<Rightarrow> instruction \<Rightarrow> 64 word \<Rightarrow> ('sock, 'addr) connection
     \<Rightarrow> 's sender \<Rightarrow> ('s, 'sock, 'addr) sent" where
  "sendFragments env ck inst newNum conn ts = do {
     let ts1 = (if newNum = MaxUint64 then ts\<lparr>sd_shutdownTries := sd_shutdownTries ts + 1\<rparr> else ts);
     (fragments, fm) \<leftarrow> makeFragments (se_marshal env) (se_zwrite env) inst
       (getMTU conn - 12 - 16 - 90) (sd_fragmenter ts1);
     let ts2 = ts1\<lparr>sd_fragmenter := fm\<rparr>;
     (sent, out, conn1) \<leftarrow> send_loop (se_send env) (sd_sentStates ts2) (ck_fragment ck) 0 fragments conn;
     Some (sent, out, conn1, if sent then ts2\<lparr>sd_pendingDataAck := False\<rparr> else ts2)
   }"

definition sendInFragments ::
  "('sock, 'addr) send_env \<Rightarrow> clock \<Rightarrow> bytes \<Rightarrow> 64 word \<Rightarrow> ('sock, 'addr) connection
     \<Rightarrow> 's sender \<Rightarrow> ('s, 'sock, 'addr) sent" where
  "sendInFragments env ck diff newNum conn ts = do {
     first \<leftarrow> list_at (sd_sentStates ts) 0;
     let inst = \<lparr>in_protocolVersion = 3, in_oldNum = tm_num (sd_assumed ts), in_newNum = newNum,
                 in_ackNum = sd_ackNum ts, in_throwawayNum = tm_num first, in_diff = diff,
                 in_chaff = se_chaff env\<rparr>;
     sendFragments env ck inst newNum conn ts
   }"

text \<open>The number of the state to send, and the queue with that state.\<close>

definition state_num :: "'s state_ops \<Rightarrow> 's timed_state \<Rightarrow> 's sender \<Rightarrow> 64 word" where
  "state_num ops back ts =
     (let newNum = (if so_Equal ops (sd_currentState ts) (tm_state back) then tm_num back
                    else tm_num back + 1)
      in if sd_shutdownInProgress ts then MaxUint64 else newNum)"

definition record_state ::
  "'s state_ops \<Rightarrow> int \<Rightarrow> 64 word \<Rightarrow> 's timed_state \<Rightarrow> 's sender \<Rightarrow> 's sender" where
  "record_state ops now newNum back ts =
     (if newNum = tm_num back
      then ts\<lparr>sd_sentStates := butlast (sd_sentStates ts) @ [back\<lparr>tm_timestamp := now\<rparr>]\<rparr>
      else addSentState ops now newNum (sd_currentState ts) ts)"

definition sendToReceiver ::
  "'s state_ops \<Rightarrow> ('sock, 'addr) send_env \<Rightarrow> clock \<Rightarrow> bytes \<Rightarrow> ('sock, 'addr) connection
     \<Rightarrow> 's sender \<Rightarrow> ('s, 'sock, 'addr) sent" where
  "sendToReceiver ops env ck diff conn ts = do {
     back \<leftarrow> list_at (sd_sentStates ts) (int (length (sd_sentStates ts)) - 1);
     let newNum = state_num ops back ts;
     (sent, out, conn1, ts2) \<leftarrow> sendInFragments env ck diff newNum conn
       (record_state ops (ck_state ck) newNum back ts);
     if \<not> sent then Some (False, out, conn1, ts2)
     else do {
       last_state \<leftarrow> list_at (sd_sentStates ts2) (int (length (sd_sentStates ts2)) - 1);
       Some (True, out, conn1,
         ts2\<lparr>sd_assumed := last_state, sd_nextAckTime := ck_ack ck + ACK_INTERVAL,
             sd_nextSendTime := MaxInt64\<rparr>)
     }
   }"

definition sendEmptyAck ::
  "'s state_ops \<Rightarrow> ('sock, 'addr) send_env \<Rightarrow> clock \<Rightarrow> ('sock, 'addr) connection
     \<Rightarrow> 's sender \<Rightarrow> ('s, 'sock, 'addr) sent" where
  "sendEmptyAck ops env ck conn ts = do {
     let now = ck_state ck;
     back \<leftarrow> list_at (sd_sentStates ts) (int (length (sd_sentStates ts)) - 1);
     let newNum = (if sd_shutdownInProgress ts then MaxUint64 else tm_num back + 1);
     let ts1 = addSentState ops now newNum (sd_currentState ts) ts;
     (sent, out, conn1, ts2) \<leftarrow> sendInFragments env ck [] newNum conn ts1;
     Some (sent, out, conn1,
       if sent then ts2\<lparr>sd_nextAckTime := now + ACK_INTERVAL, sd_nextSendTime := MaxInt64\<rparr> else ts2)
   }"

text \<open>The two ends of a round: without and with a difference. An error leaves the clocks alone.\<close>

definition tick_ack ::
  "'s state_ops \<Rightarrow> ('sock, 'addr) send_env \<Rightarrow> clock \<Rightarrow> ('sock, 'addr) connection
     \<Rightarrow> 's sender \<Rightarrow> ('s, 'sock, 'addr) sent" where
  "tick_ack ops env ck conn ts = do {
     let now = ck_tick ck;
     (sent, out, conn1, ts1) \<leftarrow>
       (if now \<ge> sd_nextAckTime ts then sendEmptyAck ops env ck conn ts
        else Some (True, [], conn, ts));
     let ts2 = (if sent \<and> now \<ge> sd_nextAckTime ts
                then ts1\<lparr>sd_mindelayClock := MaxInt64\<rparr> else ts1);
     Some (sent, out, conn1,
       if sent \<and> now \<ge> sd_nextSendTime ts2
       then ts2\<lparr>sd_nextSendTime := MaxInt64, sd_mindelayClock := MaxInt64\<rparr> else ts2)
   }"

definition tick_diff ::
  "'s state_ops \<Rightarrow> ('sock, 'addr) send_env \<Rightarrow> clock \<Rightarrow> bytes \<Rightarrow> ('sock, 'addr) connection
     \<Rightarrow> 's sender \<Rightarrow> ('s, 'sock, 'addr) sent" where
  "tick_diff ops env ck diff conn ts =
     (let now = ck_tick ck
      in if now \<ge> sd_nextSendTime ts \<or> now \<ge> sd_nextAckTime ts then do {
           (sent, out, conn1, ts1) \<leftarrow> sendToReceiver ops env ck diff conn ts;
           Some (sent, out, conn1, if sent then ts1\<lparr>sd_mindelayClock := MaxInt64\<rparr> else ts1)
         }
         else Some (True, [], conn, ts))"

text \<open>
  One round. The check of the difference when \<open>verbose\<close> is set works on a clone and only logs.
\<close>

definition tick ::
  "'s state_ops \<Rightarrow> ('sock, 'addr) send_env \<Rightarrow> clock \<Rightarrow> ('sock, 'addr) connection
     \<Rightarrow> 's sender \<Rightarrow> ('s, 'sock, 'addr) sent" where
  "tick ops env ck conn ts = do {
     ts1 \<leftarrow> calculateTimers ops ck conn ts;
     let now = ck_tick ck;
     if \<not> getHasRemoteAddr conn then Some (True, [], conn, ts1)
     else if now < sd_nextAckTime ts1 \<and> now < sd_nextSendTime ts1 then Some (True, [], conn, ts1)
     else
       let diff = so_DiffFrom ops (sd_currentState ts1) (tm_state (sd_assumed ts1));
           ts2 = ts1\<lparr>sd_currentState := so_Reset ops (sd_currentState ts1)\<rparr>
       in if diff = [] then tick_ack ops env ck conn ts2 else tick_diff ops env ck diff conn ts2
   }"

definition waitTime ::
  "'s state_ops \<Rightarrow> clock \<Rightarrow> ('sock, 'addr) connection \<Rightarrow> 's sender \<Rightarrow> (int \<times> 's sender) option" where
  "waitTime ops ck conn ts = do {
     ts1 \<leftarrow> calculateTimers ops ck conn ts;
     let nextWakeup = (if sd_nextSendTime ts1 < sd_nextAckTime ts1
                       then sd_nextSendTime ts1 else sd_nextAckTime ts1);
     let now = ck_tick ck;
     Some (if \<not> getHasRemoteAddr conn then 2 ^ 63 - 1
           else if nextWakeup > now then nextWakeup - now else 0, ts1)
   }"

section \<open>Receipts, shutdown and getters\<close>

definition processAcknowledgmentThrough :: "64 word \<Rightarrow> 's sender \<Rightarrow> 's sender" where
  "processAcknowledgmentThrough ackNum ts =
     (if list_ex (\<lambda>s. numEq s ackNum) (sd_sentStates ts)
      then ts\<lparr>sd_sentStates := filter (\<lambda>s. \<not> numLt s ackNum) (sd_sentStates ts)\<rparr>
      else ts)"

definition setAckNum :: "64 word \<Rightarrow> 's sender \<Rightarrow> 's sender" where
  "setAckNum ackNum ts = ts\<lparr>sd_ackNum := ackNum\<rparr>"

definition setDataAck :: "'s sender \<Rightarrow> 's sender" where
  "setDataAck ts = ts\<lparr>sd_pendingDataAck := True\<rparr>"

definition remoteHeard :: "int \<Rightarrow> 's sender \<Rightarrow> 's sender" where
  "remoteHeard x ts = ts\<lparr>sd_lastHeard := x\<rparr>"

definition startShutdown :: "int \<Rightarrow> 's sender \<Rightarrow> 's sender" where
  "startShutdown now ts =
     (if \<not> sd_shutdownInProgress ts
      then ts\<lparr>sd_shutdownStart := now, sd_shutdownInProgress := True\<rparr> else ts)"

definition setCurrentState :: "'s state_ops \<Rightarrow> 's \<Rightarrow> 's sender \<Rightarrow> 's sender" where
  "setCurrentState ops x ts = ts\<lparr>sd_currentState := so_ResetInput ops x\<rparr>"

definition getSentStateAcked :: "'s sender \<Rightarrow> 64 word option" where
  "getSentStateAcked ts = map_option tm_num (list_at (sd_sentStates ts) 0)"

definition getSentStateLast :: "'s sender \<Rightarrow> 64 word option" where
  "getSentStateLast ts =
     map_option tm_num (list_at (sd_sentStates ts) (int (length (sd_sentStates ts)) - 1))"

definition getSentStateAckedTimestamp :: "'s sender \<Rightarrow> int option" where
  "getSentStateAckedTimestamp ts = map_option tm_timestamp (list_at (sd_sentStates ts) 0)"

definition getSentStateLastTimestamp :: "'s sender \<Rightarrow> int option" where
  "getSentStateLastTimestamp ts =
     map_option tm_timestamp (list_at (sd_sentStates ts) (int (length (sd_sentStates ts)) - 1))"

definition setSendDelay :: "int \<Rightarrow> 's sender \<Rightarrow> 's sender" where
  "setSendDelay delay ts = ts\<lparr>sd_MINDELAY := delay\<rparr>"

definition getShutdownAcknowledged :: "'s sender \<Rightarrow> bool option" where
  "getShutdownAcknowledged ts = map_option (\<lambda>s. tm_num s = MaxUint64) (list_at (sd_sentStates ts) 0)"

definition getCounterpartyShutdownAcknowledged :: "'s sender \<Rightarrow> bool" where
  "getCounterpartyShutdownAcknowledged ts \<longleftrightarrow> lastAckSent (sd_fragmenter ts) = MaxUint64"

definition shutdownAckTimedout :: "int \<Rightarrow> 's sender \<Rightarrow> bool" where
  "shutdownAckTimedout now ts \<longleftrightarrow>
     sd_shutdownInProgress ts \<and>
     (sd_shutdownTries ts > SHUTDOWN_RETRIES \<or> now - sd_shutdownStart ts \<ge> ACTIVE_RETRY_TIMEOUT)"

end
