(* ===== verification/Transport.thy ===== *)
theory Transport
  imports Sender
begin

text \<open>
  \<open>network/transport.go\<close>: the receiver's side. Fragments are put together to an instruction, an
  instruction is applied to the state it names, and the new state enters the queue of received
  states.

  The received states are pointers, shared by the queue and \<open>lastReceiverState\<close>, so they live in an
  explicit store (a list indexed by address; a clone is appended). The queue itself is a slice, and
  two operations write to the array under it: the loops that do are modelled on the array.
\<close>

section \<open>The transport\<close>

record ('s, 'sock, 'addr, 'r) transport =
  tr_store :: "'r list"
  tr_lastReceiverState :: nat
  tr_connection :: "('sock, 'addr) connection"
  tr_sender :: "'s sender"
  tr_fragments :: assembly
  tr_port :: string
  tr_receivedState :: "nat timed_state list"
  tr_receiverQuenchTimer :: int

text \<open>
  Both constructors, given the connection that they open: the received states start with a clone of
  the initial state under the number 0. A client has no port.
\<close>

definition new_transport ::
  "'s state_ops \<Rightarrow> 'r state_ops \<Rightarrow> int \<Rightarrow> int \<Rightarrow> 's \<Rightarrow> 'r \<Rightarrow> ('sock, 'addr) connection \<Rightarrow> string
     \<Rightarrow> ('s, 'sock, 'addr, 'r) transport" where
  "new_transport sops rops now now' initialState initialRemote conn port =
     \<lparr>tr_store = [so_Clone rops initialRemote], tr_lastReceiverState = 0, tr_connection = conn,
      tr_sender = NewTransportSender sops now initialState, tr_fragments = NewFragmentAssembly,
      tr_port = port,
      tr_receivedState = [\<lparr>tm_state = 0, tm_timestamp = now', tm_num = 0\<rparr>],
      tr_receiverQuenchTimer = 0\<rparr>"

section \<open>Loops on the array of the queue\<close>

text \<open>
  \<open>processThrowawayUntil\<close> appends the states to keep to \<open>t.receivedState[:0]\<close>, that is, it writes
  them to the front of the same array. The result is the array and the new length of the queue.
\<close>

fun throwaway_loop ::
  "64 word \<Rightarrow> nat list \<Rightarrow> nat \<Rightarrow> nat timed_state list \<Rightarrow> nat timed_state list \<times> nat" where
  "throwaway_loop throwawayNum [] j arr = (arr, j)"
| "throwaway_loop throwawayNum (i # is) j arr =
     (if tm_num (arr ! i) \<ge> throwawayNum
      then throwaway_loop throwawayNum is (Suc j) (arr[j := arr ! i])
      else throwaway_loop throwawayNum is j arr)"

definition processThrowawayUntil ::
  "64 word \<Rightarrow> nat timed_state list \<Rightarrow> nat timed_state list \<times> nat" where
  "processThrowawayUntil throwawayNum arr =
     throwaway_loop throwawayNum [0..<length arr] 0 arr"

text \<open>
  The insertion in sorted place writes to the same array too: the new state first overwrites the
  element that should follow it, and then the rest of the array from that index on is appended.
  \<open>None\<close> when the loop runs through, and the queue is unchanged.
\<close>

fun insert_loop ::
  "nat timed_state \<Rightarrow> nat list \<Rightarrow> nat timed_state list \<Rightarrow> nat timed_state list option" where
  "insert_loop newState [] arr = None"
| "insert_loop newState (i # is) arr =
     (if tm_num (arr ! i) > tm_num newState then
        let arr1 = arr[i := newState] in Some (take (Suc i) arr1 @ drop i arr1)
      else insert_loop newState is (arr[i := arr ! i]))"

section \<open>Receiving an instruction\<close>

datatype payload_error = Payload_ok | Version_mismatch | Reference_missing

text \<open>The new state: a clone of the reference, with the difference applied when there is one.\<close>

definition build_state ::
  "'r state_ops \<Rightarrow> instruction \<Rightarrow> 'r list \<Rightarrow> nat timed_state \<Rightarrow> 'r list option" where
  "build_state ops inst store ref = do {
     old \<leftarrow> list_at store (int (tm_state ref));
     let new = so_Clone ops old;
     Some (store @ [if length (in_diff inst) > 0 then fst (so_ApplyString ops (in_diff inst) new) else new])
   }"

text \<open>
  Only a state at the end of the queue is acknowledged, and only then the sender hears of the peer.
\<close>

definition insert_state ::
  "instruction \<Rightarrow> nat timed_state \<Rightarrow> ('s, 'sock, 'addr, 'r) transport
     \<Rightarrow> ('s, 'sock, 'addr, 'r) transport" where
  "insert_state inst newState t =
     (case insert_loop newState [0..<length (tr_receivedState t)] (tr_receivedState t) of
        Some rs \<Rightarrow> t\<lparr>tr_receivedState := rs\<rparr>
      | None \<Rightarrow>
          let sd = remoteHeard (tm_timestamp newState) (setAckNum (tm_num newState) (tr_sender t))
          in t\<lparr>tr_receivedState := tr_receivedState t @ [newState],
               tr_sender := (if length (in_diff inst) > 0 then setDataAck sd else sd)\<rparr>)"

text \<open>
  From \<open>processThrowawayUntil\<close> on. \<open>refState\<close> is a pointer into the array of the queue, to the
  index \<open>k\<close>, and is read after the array was written. \<open>nq\<close> and \<open>nn\<close> are the readings of the clock.
\<close>

definition accept_state ::
  "'r state_ops \<Rightarrow> int \<Rightarrow> int \<Rightarrow> instruction \<Rightarrow> nat \<Rightarrow> ('s, 'sock, 'addr, 'r) transport
     \<Rightarrow> ('s, 'sock, 'addr, 'r) transport option" where
  "accept_state ops nq nn inst k t =
     (let (arr, n) = processThrowawayUntil (in_throwawayNum inst) (tr_receivedState t);
          t1 = t\<lparr>tr_receivedState := take n arr\<rparr>
      in if n > 1024 \<and> nq < tr_receiverQuenchTimer t then Some t1
         else do {
           let t2 = (if n > 1024 then t1\<lparr>tr_receiverQuenchTimer := nq + 15000\<rparr> else t1);
           refState \<leftarrow> list_at arr (int k);
           store \<leftarrow> build_state ops inst (tr_store t2) refState;
           Some (insert_state inst
             \<lparr>tm_state = length (tr_store t2), tm_timestamp = nn, tm_num = in_newNum inst\<rparr>
             (t2\<lparr>tr_store := store\<rparr>))
         })"

text \<open>The first received state with a number.\<close>

fun find_num :: "64 word \<Rightarrow> nat timed_state list \<Rightarrow> nat option" where
  "find_num n [] = None"
| "find_num n (s # states) = (if n = tm_num s then Some 0 else map_option Suc (find_num n states))"

definition process_instruction ::
  "'r state_ops \<Rightarrow> int \<Rightarrow> int \<Rightarrow> instruction \<Rightarrow> ('s, 'sock, 'addr, 'r) transport
     \<Rightarrow> (payload_error \<times> ('s, 'sock, 'addr, 'r) transport) option" where
  "process_instruction ops nq nn inst t =
     (if in_protocolVersion inst \<noteq> 3 then Some (Version_mismatch, t)
      else do {
        let sd = processAcknowledgmentThrough (in_ackNum inst) (tr_sender t);
        acked \<leftarrow> getSentStateAckedTimestamp sd;
        let t1 = t\<lparr>tr_sender := sd,
                   tr_connection := setLastRoundtripSuccess acked (tr_connection t)\<rparr>;
        if list_ex (\<lambda>s. in_newNum inst = tm_num s) (tr_receivedState t1) then Some (Payload_ok, t1)
        else (case find_num (in_oldNum inst) (tr_receivedState t1) of
                None \<Rightarrow> Some (Reference_missing, t1)
              | Some k \<Rightarrow> map_option (Pair Payload_ok) (accept_state ops nq nn inst k t1))
      })"

text \<open>
  A payload that does not complete an instruction only changes the assembly. \<open>getAssembly\<close> returns
  nil for a payload that does not decompress or unmarshal, and its field is read at once: a panic.
\<close>

definition ProcessPayload ::
  "(bytes \<Rightarrow> (bytes \<times> read_err) option) \<Rightarrow> (bytes \<Rightarrow> instruction option) \<Rightarrow> 'r state_ops
     \<Rightarrow> int \<Rightarrow> int \<Rightarrow> bytes \<Rightarrow> ('s, 'sock, 'addr, 'r) transport
     \<Rightarrow> (payload_error \<times> ('s, 'sock, 'addr, 'r) transport) option" where
  "ProcessPayload zread unmarshal ops nq nn s t = do {
     (complete, fa) \<leftarrow> addFragment (NewFragmentFrom s) (tr_fragments t);
     if \<not> complete then Some (Payload_ok, t\<lparr>tr_fragments := fa\<rparr>)
     else do {
       (instp, fa') \<leftarrow> getAssembly zread unmarshal fa;
       inst \<leftarrow> instp;
       process_instruction ops nq nn inst (t\<lparr>tr_fragments := fa'\<rparr>)
     }
   }"

text \<open>\<open>Recv\<close>, with the outcome of \<open>Connection.Recv\<close> as an argument.\<close>

definition transport_Recv ::
  "(bytes \<Rightarrow> (bytes \<times> read_err) option) \<Rightarrow> (bytes \<Rightarrow> instruction option) \<Rightarrow> 'r state_ops
     \<Rightarrow> int \<Rightarrow> int
     \<Rightarrow> (('sock, 'addr) connection \<Rightarrow> ((recv_error + bytes) \<times> ('sock, 'addr) connection) option)
     \<Rightarrow> ('s, 'sock, 'addr, 'r) transport
     \<Rightarrow> ((recv_error + payload_error) \<times> ('s, 'sock, 'addr, 'r) transport) option" where
  "transport_Recv zread unmarshal ops nq nn recv t = do {
     (r, conn) \<leftarrow> recv (tr_connection t);
     let t1 = t\<lparr>tr_connection := conn\<rparr>;
     (case r of
        Inl e \<Rightarrow> Some (Inl e, t1)
      | Inr s \<Rightarrow> do {
          (e, t2) \<leftarrow> ProcessPayload zread unmarshal ops nq nn s t1;
          Some (Inr e, t2)
        })
   }"

section \<open>Reading the remote state\<close>

text \<open>
  The loop of \<open>GetRemoteDiff\<close>, from the newest state to the oldest: each state is cut by the state
  that \<open>oldest\<close> points to at that moment.
\<close>

fun subtract_all :: "'r state_ops \<Rightarrow> nat \<Rightarrow> nat list \<Rightarrow> 'r list \<Rightarrow> 'r list option" where
  "subtract_all ops oldest [] store = Some store"
| "subtract_all ops oldest (a # as) store = do {
     s \<leftarrow> list_at store (int a);
     k \<leftarrow> list_at store (int oldest);
     subtract_all ops oldest as (store[a := so_Subtract ops s k])
   }"

definition GetRemoteDiff ::
  "'r state_ops \<Rightarrow> ('s, 'sock, 'addr, 'r) transport
     \<Rightarrow> (bytes \<times> ('s, 'sock, 'addr, 'r) transport) option" where
  "GetRemoteDiff ops t = do {
     back \<leftarrow> list_at (tr_receivedState t) (int (length (tr_receivedState t)) - 1);
     new \<leftarrow> list_at (tr_store t) (int (tm_state back));
     last_seen \<leftarrow> list_at (tr_store t) (int (tr_lastReceiverState t));
     first \<leftarrow> list_at (tr_receivedState t) 0;
     store \<leftarrow> subtract_all ops (tm_state first) (rev (map tm_state (tr_receivedState t))) (tr_store t);
     Some (so_DiffFrom ops new last_seen,
           t\<lparr>tr_store := store, tr_lastReceiverState := tm_state back\<rparr>)
   }"

definition GetLatestRemoteState ::
  "('s, 'sock, 'addr, 'r) transport \<Rightarrow> nat timed_state option" where
  "GetLatestRemoteState t =
     list_at (tr_receivedState t) (int (length (tr_receivedState t)) - 1)"

definition GetRemoteStateNum :: "('s, 'sock, 'addr, 'r) transport \<Rightarrow> 64 word option" where
  "GetRemoteStateNum t = map_option tm_num (GetLatestRemoteState t)"

section \<open>The sender's side\<close>

definition Tick ::
  "'s state_ops \<Rightarrow> ('sock, 'addr) send_env \<Rightarrow> clock \<Rightarrow> ('s, 'sock, 'addr, 'r) transport
     \<Rightarrow> (bool \<times> bytes list \<times> ('s, 'sock, 'addr, 'r) transport) option" where
  "Tick ops env ck t = do {
     (sent, out, conn, sd) \<leftarrow> tick ops env ck (tr_connection t) (tr_sender t);
     Some (sent, out, t\<lparr>tr_connection := conn, tr_sender := sd\<rparr>)
   }"

definition WaitTime ::
  "'s state_ops \<Rightarrow> clock \<Rightarrow> ('s, 'sock, 'addr, 'r) transport
     \<Rightarrow> (int \<times> ('s, 'sock, 'addr, 'r) transport) option" where
  "WaitTime ops ck t = do {
     (wait, sd) \<leftarrow> waitTime ops ck (tr_connection t) (tr_sender t);
     Some (wait, t\<lparr>tr_sender := sd\<rparr>)
   }"

definition StartShutdown ::
  "int \<Rightarrow> ('s, 'sock, 'addr, 'r) transport \<Rightarrow> ('s, 'sock, 'addr, 'r) transport" where
  "StartShutdown now t = t\<lparr>tr_sender := startShutdown now (tr_sender t)\<rparr>"

definition ShutdownInProgress :: "('s, 'sock, 'addr, 'r) transport \<Rightarrow> bool" where
  "ShutdownInProgress t \<longleftrightarrow> sd_shutdownInProgress (tr_sender t)"

definition ShutdownAcknowledged :: "('s, 'sock, 'addr, 'r) transport \<Rightarrow> bool option" where
  "ShutdownAcknowledged t = getShutdownAcknowledged (tr_sender t)"

definition ShutdownAckTimedout :: "int \<Rightarrow> ('s, 'sock, 'addr, 'r) transport \<Rightarrow> bool" where
  "ShutdownAckTimedout now t \<longleftrightarrow> shutdownAckTimedout now (tr_sender t)"

definition HasRemoteAddr :: "('s, 'sock, 'addr, 'r) transport \<Rightarrow> bool" where
  "HasRemoteAddr t \<longleftrightarrow> getHasRemoteAddr (tr_connection t)"

definition CounterpartyShutdownAckSent :: "('s, 'sock, 'addr, 'r) transport \<Rightarrow> bool" where
  "CounterpartyShutdownAckSent t \<longleftrightarrow> getCounterpartyShutdownAcknowledged (tr_sender t)"

definition SetCurrentState ::
  "'s state_ops \<Rightarrow> 's \<Rightarrow> ('s, 'sock, 'addr, 'r) transport \<Rightarrow> ('s, 'sock, 'addr, 'r) transport" where
  "SetCurrentState ops x t = t\<lparr>tr_sender := setCurrentState ops x (tr_sender t)\<rparr>"

definition SetSendDelay ::
  "int \<Rightarrow> ('s, 'sock, 'addr, 'r) transport \<Rightarrow> ('s, 'sock, 'addr, 'r) transport" where
  "SetSendDelay delay t = t\<lparr>tr_sender := setSendDelay delay (tr_sender t)\<rparr>"

text \<open>The state of the first sent element is resized in place.\<close>

definition transport_InitSize ::
  "'s state_ops \<Rightarrow> int \<Rightarrow> int \<Rightarrow> ('s, 'sock, 'addr, 'r) transport
     \<Rightarrow> ('s, 'sock, 'addr, 'r) transport option" where
  "transport_InitSize ops nCols nRows t = do {
     first \<leftarrow> list_at (sd_sentStates (tr_sender t)) 0;
     let first' = first\<lparr>tm_state := so_InitSize ops nCols nRows (tm_state first)\<rparr>;
     Some (t\<lparr>tr_sender := (tr_sender t)\<lparr>sd_sentStates := (sd_sentStates (tr_sender t))[0 := first']\<rparr>\<rparr>)
   }"

text \<open>Did the computer wake up from hibernation? Both queues must say so.\<close>

definition Awaken :: "int \<Rightarrow> ('s, 'sock, 'addr, 'r) transport \<Rightarrow> bool option" where
  "Awaken now t = do {
     (_, recvStatus) \<leftarrow> awaken (tr_receivedState t) now;
     (_, sendStatus) \<leftarrow> awaken (sd_sentStates (tr_sender t)) now;
     Some (if sendStatus = KEEP_ALIVE then False
           else (sendStatus = ONE_AWAKEN \<or> sendStatus = JUST_AWAKEN) \<and>
                (recvStatus = ONE_AWAKEN \<or> recvStatus = JUST_AWAKEN))
   }"

end
