(* ===== verification/SenderProps.thy ===== *)
theory SenderProps
  imports Sender
begin

text \<open>
  Properties of the sender of \<open>network/sender.go\<close>: the queue of sent states stays well formed, a
  round never panics and sends what the receiver is missing, acknowledgements can come in any
  order, and what an overflow of the queue loses. The lemmas on the difference are proved for every
  state that keeps the contract \<open>net_state\<close> and used for the user stream.
\<close>

section \<open>The numbers of the sent states\<close>

definition sent_nums :: "'s sender \<Rightarrow> 64 word list" where
  "sent_nums ts = map tm_num (sd_sentStates ts)"

definition nums_ok :: "64 word list \<Rightarrow> bool" where
  "nums_ok ns \<longleftrightarrow> ns \<noteq> [] \<and> length ns \<le> 32 \<and> sorted_wrt (\<lambda>a b. a < b \<or> b = MaxUint64) ns"

definition sent_inv :: "'s sender \<Rightarrow> bool" where
  "sent_inv ts \<longleftrightarrow> nums_ok (sent_nums ts) \<and>
     (sd_shutdownInProgress ts \<or> MaxUint64 \<notin> set (sent_nums ts))"

lemma sent_states_ne: "sent_inv ts \<Longrightarrow> sd_sentStates ts \<noteq> []"
  by (auto simp: sent_inv_def nums_ok_def sent_nums_def)

text \<open>A new number goes to the end of the list; of a list of 33 the last 17 stay.\<close>

definition push_num :: "64 word \<Rightarrow> 64 word list \<Rightarrow> 64 word list" where
  "push_num n ns = (if length ns \<ge> 32 then drop 16 (ns @ [n]) else ns @ [n])"

lemma sent_nums_add: "sent_nums (addSentState ops t n s ts) = push_num n (sent_nums ts)"
  by (simp add: addSentState_def Let_def sent_nums_def push_num_def drop_map [symmetric])

lemma nums_ok_push:
  assumes "nums_ok ns" and "last ns < n \<or> n = MaxUint64"
  shows "nums_ok (push_num n ns)"
proof -
  have "a < n \<or> n = MaxUint64" if "a \<in> set ns" for a
  proof (cases "a = last ns")
    case False
    have ns: "ns = butlast ns @ [last ns]" using assms(1) by (simp add: nums_ok_def)
    then have "a \<in> set (butlast ns)" using that False
      by (metis UnE empty_iff insert_iff list.set(1) list.simps(15) set_append)
    moreover have "sorted_wrt (\<lambda>a b. a < b \<or> b = MaxUint64) (butlast ns @ [last ns])"
      using assms(1) ns by (simp add: nums_ok_def)
    ultimately have "a < last ns \<or> last ns = MaxUint64"
      by (auto simp: sorted_wrt_append)
    moreover have "n \<le> MaxUint64" by (simp add: MaxUint64_def)
    ultimately show ?thesis using assms(2) by (metis order.strict_trans2 order_less_asym less_trans)
  qed (use assms(2) in simp)
  then have "sorted_wrt (\<lambda>a b. a < b \<or> b = MaxUint64) (ns @ [n])"
    using assms(1) by (simp add: nums_ok_def sorted_wrt_append)
  moreover from this have "sorted_wrt (\<lambda>a b. a < b \<or> b = MaxUint64) (drop 16 (ns @ [n]))"
    by (rule sorted_wrt_drop)
  ultimately show ?thesis
    using assms(1) by (auto simp: nums_ok_def push_num_def)
qed

lemma last_push_num: "last (push_num n ns) = n"
  by (simp add: push_num_def)

lemma set_push_num: "set (push_num n ns) \<subseteq> insert n (set ns)"
  using set_drop_subset [of 16 ns] by (auto simp: push_num_def)

lemma succ_less: "n \<noteq> MaxUint64 \<Longrightarrow> n < n + (1 :: 64 word)"
proof -
  assume "n \<noteq> MaxUint64"
  then have "1 + n \<noteq> 0" by (simp add: MaxUint64_def add_eq_0_iff)
  then show ?thesis by (simp add: word_less_nat_alt unatSuc add.commute [of n])
qed

section \<open>What a round does to the sender\<close>

lemma assume_recent_in: "assume_recent now limit a ss \<in> insert a (set ss)"
  by (induction now limit a ss rule: assume_recent.induct) auto

text \<open>The fields that the timers do not touch.\<close>

definition same_states :: "'s sender \<Rightarrow> 's sender \<Rightarrow> bool" where
  "same_states a b \<longleftrightarrow> sd_sentStates a = sd_sentStates b \<and> sd_currentState a = sd_currentState b \<and>
     sd_assumed a = sd_assumed b \<and> sd_shutdownInProgress a = sd_shutdownInProgress b \<and>
     sd_ackNum a = sd_ackNum b \<and> sd_fragmenter a = sd_fragmenter b"

lemma calculateTimers_rationalize:
  assumes "calculateTimers ops ck conn ts = Some ts'"
  obtains ts1 ts2 where "updateAssumedReceiverState (ck_assumed ck) conn ts = Some ts1"
    and "rationalizeStates ops ts1 = Some ts2" and "same_states ts' ts2"
proof -
  from assms obtain ts1 ts2 where a1: "updateAssumedReceiverState (ck_assumed ck) conn ts = Some ts1"
    and a2: "rationalizeStates ops ts1 = Some ts2"
    by (auto simp: calculateTimers_def Let_def bind_eq_Some_conv)
  have "same_states (shutdown_ack conn bk
      ((soon_ack now t)\<lparr>sd_mindelayClock := x, sd_nextSendTime := y\<rparr>)) t" for bk now t x y
    by (simp add: same_states_def shutdown_ack_def soon_ack_def)
  with assms a1 a2 have "same_states ts' ts2"
    by (auto simp: calculateTimers_def Let_def bind_eq_Some_conv)
  with a1 a2 show thesis by (rule that)
qed

lemma rationalize_fields:
  assumes "updateAssumedReceiverState now conn ts = Some ts1" and "rationalizeStates ops ts1 = Some ts2"
  defines "cutf \<equiv> (\<lambda>t. t\<lparr>tm_state := so_Subtract ops (tm_state t) (tm_state (hd (sd_sentStates ts)))\<rparr>)"
  shows "sd_sentStates ts2 = map cutf (sd_sentStates ts)"
    and "sd_currentState ts2 = so_Subtract ops (sd_currentState ts) (tm_state (hd (sd_sentStates ts)))"
    and "\<exists>a \<in> set (sd_sentStates ts). sd_assumed ts1 = a \<and> sd_assumed ts2 = cutf a"
    and "sd_shutdownInProgress ts2 = sd_shutdownInProgress ts" and "sd_ackNum ts2 = sd_ackNum ts"
    and "sd_fragmenter ts2 = sd_fragmenter ts"
proof -
  obtain s ss where s: "sd_sentStates ts = s # ss"
    "ts1 = ts\<lparr>sd_assumed := assume_recent now (timeout conn + ACK_DELAY) s ss\<rparr>"
    using assms(1) by (auto simp: updateAssumedReceiverState_def split: list.splits)
  have "ts2 = ts1\<lparr>sd_currentState := so_Subtract ops (sd_currentState ts) (tm_state s),
      sd_sentStates := map cutf (sd_sentStates ts), sd_assumed := cutf (sd_assumed ts1)\<rparr>"
    using assms(2) by (simp add: rationalizeStates_def Let_def s list_at_first cutf_def)
  then show "sd_sentStates ts2 = map cutf (sd_sentStates ts)"
    "sd_currentState ts2 = so_Subtract ops (sd_currentState ts) (tm_state (hd (sd_sentStates ts)))"
    "\<exists>a \<in> set (sd_sentStates ts). sd_assumed ts1 = a \<and> sd_assumed ts2 = cutf a"
    "sd_shutdownInProgress ts2 = sd_shutdownInProgress ts" "sd_ackNum ts2 = sd_ackNum ts"
    "sd_fragmenter ts2 = sd_fragmenter ts"
    using assume_recent_in [of now "timeout conn + ACK_DELAY" s ss] by (simp_all add: s)
qed

lemma calculateTimers_same:
  assumes "calculateTimers ops ck conn ts = Some ts'"
  shows "sent_nums ts' = sent_nums ts" and "sd_shutdownInProgress ts' = sd_shutdownInProgress ts"
    and "sd_ackNum ts' = sd_ackNum ts" and "sd_fragmenter ts' = sd_fragmenter ts"
    and "tm_num (sd_assumed ts') \<in> set (sent_nums ts)"
proof -
  obtain ts1 ts2 where t: "updateAssumedReceiverState (ck_assumed ck) conn ts = Some ts1"
    "rationalizeStates ops ts1 = Some ts2" "same_states ts' ts2"
    using assms by (rule calculateTimers_rationalize)
  note r = rationalize_fields [OF t(1,2)]
  show "sent_nums ts' = sent_nums ts" "sd_shutdownInProgress ts' = sd_shutdownInProgress ts"
    "sd_ackNum ts' = sd_ackNum ts" "sd_fragmenter ts' = sd_fragmenter ts"
    using r t(3) by (simp_all add: same_states_def sent_nums_def comp_def)
  show "tm_num (sd_assumed ts') \<in> set (sent_nums ts)"
    using r(3) t(3) by (auto simp: same_states_def sent_nums_def)
qed

lemma sendFragments_same:
  assumes "sendFragments env ck inst n conn ts = Some (b, out, conn', ts')"
  shows "sd_sentStates ts' = sd_sentStates ts"
    and "sd_shutdownInProgress ts' = sd_shutdownInProgress ts"
    and "fm_lastInstruction (sd_fragmenter ts') = inst"
  using assms
  by (auto simp: sendFragments_def makeFragments_def bind_eq_Some_conv Let_def split: prod.splits if_splits)


text \<open>What a round sends: the numbers of an instruction, seen from the sender after the round.\<close>

definition sent_instruction :: "'s sender \<Rightarrow> 's sender \<Rightarrow> bool" where
  "sent_instruction ts ts' \<longleftrightarrow>
     (let inst = fm_lastInstruction (sd_fragmenter ts')
      in in_newNum inst = last (sent_nums ts') \<and> in_throwawayNum inst = hd (sent_nums ts') \<and>
         in_oldNum inst \<in> set (sent_nums ts) \<and> in_ackNum inst = sd_ackNum ts)"

definition room_for_number :: "'s sender \<Rightarrow> bool" where
  "room_for_number ts \<longleftrightarrow> sd_shutdownInProgress ts \<or> last (sent_nums ts) < MaxUint64 - 1"

lemma next_num:
  assumes "sent_inv ts" and "room_for_number ts"
  shows "last (sent_nums ts) < (if sd_shutdownInProgress ts then MaxUint64 else last (sent_nums ts) + 1)
      \<or> (if sd_shutdownInProgress ts then MaxUint64 else last (sent_nums ts) + 1) = MaxUint64"
    and "sd_shutdownInProgress ts \<or> last (sent_nums ts) + 1 \<noteq> MaxUint64"
proof -
  have "last (sent_nums ts) + 1 \<noteq> MaxUint64 \<and> last (sent_nums ts) \<noteq> MaxUint64"
    if "\<not> sd_shutdownInProgress ts"
    using assms(2) that
    by (metis MaxUint64_def add_diff_cancel_right' order_less_irrefl room_for_number_def
        word_order.extremum leD)
  then show "last (sent_nums ts) < (if sd_shutdownInProgress ts then MaxUint64 else last (sent_nums ts) + 1)
      \<or> (if sd_shutdownInProgress ts then MaxUint64 else last (sent_nums ts) + 1) = MaxUint64"
    and "sd_shutdownInProgress ts \<or> last (sent_nums ts) + 1 \<noteq> MaxUint64"
    using succ_less [of "last (sent_nums ts)"] by auto
qed

lemma sent_inv_add:
  assumes "sent_inv ts" and "room_for_number ts"
    and "n = (if sd_shutdownInProgress ts then MaxUint64 else last (sent_nums ts) + 1)"
  shows "sent_inv (addSentState ops t n s ts)"
proof -
  have "nums_ok (push_num n (sent_nums ts))"
    using assms next_num [OF assms(1,2)] by (intro nums_ok_push) (auto simp: sent_inv_def)
  moreover have "sd_shutdownInProgress ts \<or> MaxUint64 \<notin> set (push_num n (sent_nums ts))"
    using assms next_num(2) [OF assms(1,2)] set_push_num [of n "sent_nums ts"]
    by (auto simp: sent_inv_def)
  ultimately show ?thesis
    by (simp add: sent_inv_def sent_nums_add) (simp add: addSentState_def Let_def)
qed

lemma sendInFragments_same:
  assumes "sendInFragments env ck diff n conn ts = Some (b, out, conn', ts')"
  shows "sd_sentStates ts' = sd_sentStates ts"
    and "sd_shutdownInProgress ts' = sd_shutdownInProgress ts"
    and "in_newNum (fm_lastInstruction (sd_fragmenter ts')) = n"
    and "in_throwawayNum (fm_lastInstruction (sd_fragmenter ts')) = hd (sent_nums ts)"
    and "in_oldNum (fm_lastInstruction (sd_fragmenter ts')) = tm_num (sd_assumed ts)"
    and "in_ackNum (fm_lastInstruction (sd_fragmenter ts')) = sd_ackNum ts"
    and "in_diff (fm_lastInstruction (sd_fragmenter ts')) = diff"
proof -
  obtain inst where i: "sendFragments env ck inst n conn ts = Some (b, out, conn', ts')"
    "in_newNum inst = n" "in_throwawayNum inst = hd (sent_nums ts)"
    "in_oldNum inst = tm_num (sd_assumed ts)" "in_ackNum inst = sd_ackNum ts" "in_diff inst = diff"
    using assms
    by (auto simp: sendInFragments_def list_at_first sent_nums_def hd_map bind_eq_Some_conv
        split: if_splits)
  show "sd_sentStates ts' = sd_sentStates ts" "sd_shutdownInProgress ts' = sd_shutdownInProgress ts"
    "in_newNum (fm_lastInstruction (sd_fragmenter ts')) = n"
    "in_throwawayNum (fm_lastInstruction (sd_fragmenter ts')) = hd (sent_nums ts)"
    "in_oldNum (fm_lastInstruction (sd_fragmenter ts')) = tm_num (sd_assumed ts)"
    "in_ackNum (fm_lastInstruction (sd_fragmenter ts')) = sd_ackNum ts"
    "in_diff (fm_lastInstruction (sd_fragmenter ts')) = diff"
    using i(2-) sendFragments_same [OF i(1)] by simp_all
qed

lemma sendEmptyAck_inv:
  assumes "sendEmptyAck ops env ck conn ts = Some (b, out, conn', ts')"
    and "sent_inv ts" and "room_for_number ts" and "tm_num (sd_assumed ts) \<in> set (sent_nums ts)"
  shows "sent_inv ts' \<and> sent_instruction ts ts' \<and> sd_shutdownInProgress ts' = sd_shutdownInProgress ts
    \<and> in_diff (fm_lastInstruction (sd_fragmenter ts')) = []
    \<and> in_oldNum (fm_lastInstruction (sd_fragmenter ts')) = tm_num (sd_assumed ts)"
proof -
  let ?n = "if sd_shutdownInProgress ts then MaxUint64 else last (sent_nums ts) + 1"
  let ?ts1 = "addSentState ops (ck_state ck) ?n (sd_currentState ts) ts"
  have l: "list_at (sd_sentStates ts) (int (length (sd_sentStates ts)) - 1) = Some (last (sd_sentStates ts))"
    "tm_num (last (sd_sentStates ts)) = last (sent_nums ts)"
    using sent_states_ne [OF assms(2)] by (simp_all add: list_at_last sent_nums_def last_map)
  then obtain ts2 where ts2: "sendInFragments env ck [] ?n conn ?ts1 = Some (b, out, conn', ts2)"
    "sent_nums ts' = sent_nums ts2" "sd_shutdownInProgress ts' = sd_shutdownInProgress ts2"
    "sd_fragmenter ts' = sd_fragmenter ts2"
    using assms(1) by (auto simp: sendEmptyAck_def Let_def bind_eq_Some_conv sent_nums_def split: if_splits)
  have f: "sd_shutdownInProgress ?ts1 = sd_shutdownInProgress ts" "sd_assumed ?ts1 = sd_assumed ts"
    "sd_ackNum ?ts1 = sd_ackNum ts"
    by (simp_all add: addSentState_def Let_def)
  note s = sendInFragments_same [OF ts2(1)]
  have "sent_nums ts2 = sent_nums ?ts1" using s(1) by (simp add: sent_nums_def)
  then show ?thesis
    using sent_inv_add [OF assms(2,3) refl, of ops "ck_state ck" "sd_currentState ts"] ts2 s f assms(4)
    by (simp add: sent_inv_def sent_instruction_def Let_def) (simp add: sent_nums_add last_push_num)
qed

lemma sendToReceiver_inv:
  assumes "sendToReceiver ops env ck diff conn ts = Some (b, out, conn', ts')"
    and "sent_inv ts" and "room_for_number ts" and "tm_num (sd_assumed ts) \<in> set (sent_nums ts)"
  shows "sent_inv ts' \<and> sent_instruction ts ts' \<and> sd_shutdownInProgress ts' = sd_shutdownInProgress ts
    \<and> in_diff (fm_lastInstruction (sd_fragmenter ts')) = diff
    \<and> in_oldNum (fm_lastInstruction (sd_fragmenter ts')) = tm_num (sd_assumed ts)"
proof -
  let ?bk = "last (sd_sentStates ts)"
  have ne: "sd_sentStates ts \<noteq> []" using assms(2) by (rule sent_states_ne)
  have l: "list_at (sd_sentStates ts) (int (length (sd_sentStates ts)) - 1) = Some ?bk"
    "tm_num ?bk = last (sent_nums ts)"
    using ne by (simp_all add: list_at_last sent_nums_def last_map)
  define n where "n = state_num ops ?bk ts"
  define ts1 where "ts1 = record_state ops (ck_state ck) n ?bk ts"
  have eq: "sendToReceiver ops env ck diff conn ts =
      sendInFragments env ck diff n conn ts1 \<bind> (\<lambda>(sent, out, conn1, ts2).
        if \<not> sent then Some (False, out, conn1, ts2)
        else do {
          last_state \<leftarrow> list_at (sd_sentStates ts2) (int (length (sd_sentStates ts2)) - 1);
          Some (True, out, conn1,
            ts2\<lparr>sd_assumed := last_state, sd_nextAckTime := ck_ack ck + ACK_INTERVAL,
                sd_nextSendTime := MaxInt64\<rparr>)
        })"
    by (simp add: sendToReceiver_def l(1) Let_def n_def ts1_def)
  obtain b2 out2 conn2 ts2 where s2: "sendInFragments env ck diff n conn ts1 = Some (b2, out2, conn2, ts2)"
    using assms(1) eq by (cases "sendInFragments env ck diff n conn ts1") auto
  have ts2: "sendInFragments env ck diff n conn ts1 = Some (b, out, conn', ts2)"
    "sent_nums ts' = sent_nums ts2" "sd_shutdownInProgress ts' = sd_shutdownInProgress ts2"
    "sd_fragmenter ts' = sd_fragmenter ts2"
    using assms(1) unfolding eq s2
    by (cases b2; auto simp: bind_eq_Some_conv sent_nums_def)+
  have f: "sd_shutdownInProgress ts1 = sd_shutdownInProgress ts" "sd_assumed ts1 = sd_assumed ts"
    "sd_ackNum ts1 = sd_ackNum ts"
    by (simp_all add: ts1_def record_state_def addSentState_def Let_def)
  have k: "sent_inv ts1 \<and> last (sent_nums ts1) = n"
  proof (cases "n = tm_num ?bk")
    case True
    have "map tm_num (butlast (sd_sentStates ts) @ [?bk]) = sent_nums ts"
      unfolding sent_nums_def append_butlast_last_id [OF ne] ..
    then have "sent_nums ts1 = sent_nums ts"
      using True by (simp add: ts1_def record_state_def sent_nums_def)
    then show ?thesis using assms(2) l(2) True f by (simp add: sent_inv_def)
  next
    case False
    then have "n = (if sd_shutdownInProgress ts then MaxUint64 else last (sent_nums ts) + 1)"
      using l(2) by (auto simp: n_def state_num_def Let_def split: if_splits)
    from sent_inv_add [OF assms(2,3) this] show ?thesis
      using False by (simp add: ts1_def record_state_def sent_nums_add last_push_num)
  qed
  note s = sendInFragments_same [OF ts2(1)]
  have "sent_nums ts2 = sent_nums ts1" using s(1) by (simp add: sent_nums_def)
  then show ?thesis
    using k ts2 s f assms(4) by (simp add: sent_inv_def sent_instruction_def Let_def)
qed

lemma sent_nums_clocks [simp]:
  "sent_nums (ts\<lparr>sd_mindelayClock := x\<rparr>) = sent_nums ts"
  "sent_nums (ts\<lparr>sd_nextSendTime := x\<rparr>) = sent_nums ts"
  "sent_nums (ts\<lparr>sd_currentState := s\<rparr>) = sent_nums ts"
  by (simp_all add: sent_nums_def)

lemma sent_inv_cong:
  "sent_nums a = sent_nums b \<Longrightarrow> sd_shutdownInProgress a = sd_shutdownInProgress b \<Longrightarrow>
    sent_inv a = sent_inv b"
  by (simp add: sent_inv_def)

lemma tick_ack_inv:
  assumes "tick_ack ops env ck conn ts = Some (b, out, conn', ts')"
    and "sent_inv ts" and "room_for_number ts" and "tm_num (sd_assumed ts) \<in> set (sent_nums ts)"
  shows "sent_inv ts' \<and> (out \<noteq> [] \<longrightarrow> sent_instruction ts ts' \<and>
    in_diff (fm_lastInstruction (sd_fragmenter ts')) = [] \<and>
    in_oldNum (fm_lastInstruction (sd_fragmenter ts')) = tm_num (sd_assumed ts))"
proof (cases "ck_tick ck \<ge> sd_nextAckTime ts")
  case False
  then have "out = [] \<and> sent_nums ts' = sent_nums ts \<and> sd_shutdownInProgress ts' = sd_shutdownInProgress ts"
    using assms(1) by (auto simp: tick_ack_def Let_def split: if_splits)
  then show ?thesis using assms(2) sent_inv_cong by blast
next
  case True
  then obtain ts1 where ts1: "sendEmptyAck ops env ck conn ts = Some (b, out, conn', ts1)"
    "sent_nums ts' = sent_nums ts1" "sd_shutdownInProgress ts' = sd_shutdownInProgress ts1"
    "sd_fragmenter ts' = sd_fragmenter ts1"
    using assms(1) by (auto simp: tick_ack_def Let_def bind_eq_Some_conv)
  from sendEmptyAck_inv [OF ts1(1) assms(2-)] ts1(2-) show ?thesis
    by (auto simp: sent_instruction_def sent_inv_def Let_def)
qed

lemma tick_diff_inv:
  assumes "tick_diff ops env ck diff conn ts = Some (b, out, conn', ts')"
    and "sent_inv ts" and "room_for_number ts" and "tm_num (sd_assumed ts) \<in> set (sent_nums ts)"
  shows "sent_inv ts' \<and> (out \<noteq> [] \<longrightarrow> sent_instruction ts ts' \<and>
    in_diff (fm_lastInstruction (sd_fragmenter ts')) = diff \<and>
    in_oldNum (fm_lastInstruction (sd_fragmenter ts')) = tm_num (sd_assumed ts))"
proof (cases "ck_tick ck \<ge> sd_nextSendTime ts \<or> ck_tick ck \<ge> sd_nextAckTime ts")
  case False
  then show ?thesis using assms(1,2) by (auto simp: tick_diff_def Let_def)
next
  case True
  then obtain ts1 where ts1: "sendToReceiver ops env ck diff conn ts = Some (b, out, conn', ts1)"
    "sent_nums ts' = sent_nums ts1" "sd_shutdownInProgress ts' = sd_shutdownInProgress ts1"
    "sd_fragmenter ts' = sd_fragmenter ts1"
    using assms(1) by (auto simp: tick_diff_def Let_def bind_eq_Some_conv)
  from sendToReceiver_inv [OF ts1(1) assms(2-)] ts1(2-) show ?thesis
    by (auto simp: sent_instruction_def sent_inv_def Let_def)
qed

lemma tick_sends:
  assumes "sent_inv ts" and "room_for_number ts"
    and "tick ops env ck conn ts = Some (b, out, conn', ts')"
  obtains ts1 where "calculateTimers ops ck conn ts = Some ts1" and "sent_inv ts'"
    and "out \<noteq> [] \<Longrightarrow> sent_instruction ts ts' \<and>
      in_diff (fm_lastInstruction (sd_fragmenter ts')) =
        so_DiffFrom ops (sd_currentState ts1) (tm_state (sd_assumed ts1)) \<and>
      in_oldNum (fm_lastInstruction (sd_fragmenter ts')) = tm_num (sd_assumed ts1)"
proof -
  obtain ts1 where ts1: "calculateTimers ops ck conn ts = Some ts1"
    using assms(3) by (auto simp: tick_def bind_eq_Some_conv)
  note same = calculateTimers_same [OF ts1]
  let ?ts2 = "ts1\<lparr>sd_currentState := so_Reset ops (sd_currentState ts1)\<rparr>"
  let ?diff = "so_DiffFrom ops (sd_currentState ts1) (tm_state (sd_assumed ts1))"
  have two: "sent_nums ?ts2 = sent_nums ts" "sd_shutdownInProgress ?ts2 = sd_shutdownInProgress ts"
    "sd_ackNum ?ts2 = sd_ackNum ts"
    using same by (simp_all add: sent_nums_def)
  have inv: "sent_inv ts1" "sent_inv ?ts2" "room_for_number ?ts2"
    "tm_num (sd_assumed ?ts2) \<in> set (sent_nums ?ts2)"
    using assms(1,2) same two by (simp_all add: sent_inv_def room_for_number_def)
  from assms(3) ts1 consider "out = []" "ts' = ts1"
    | "?diff = []" "tick_ack ops env ck conn ?ts2 = Some (b, out, conn', ts')"
    | "tick_diff ops env ck ?diff conn ?ts2 = Some (b, out, conn', ts')"
    by (auto simp: tick_def Let_def split: if_splits)
  then have "sent_inv ts' \<and> (out \<noteq> [] \<longrightarrow> sent_instruction ?ts2 ts' \<and>
      in_diff (fm_lastInstruction (sd_fragmenter ts')) = ?diff \<and>
      in_oldNum (fm_lastInstruction (sd_fragmenter ts')) = tm_num (sd_assumed ?ts2))"
  proof cases
    case 2
    from tick_ack_inv [OF 2(2) inv(2-)] 2(1) show ?thesis by simp
  next
    case 3
    from tick_diff_inv [OF 3 inv(2-)] show ?thesis by simp
  qed (use inv(1) in simp)
  moreover have "sent_instruction ?ts2 ts' = sent_instruction ts ts'"
    using two by (simp add: sent_instruction_def)
  ultimately show thesis using that [OF ts1] by simp
qed

section \<open>A sample round\<close>

text \<open>A client that has typed one key, half a second after its start.\<close>

definition sample_ops :: "user_stream state_ops" where
  "sample_ops = user_ops plain_marshal plain_unmarshal letters"

definition sample_conn :: "(nat, nat) connection" where
  "sample_conn = (connection_init True)\<lparr>cn_hasRemoteAddr := True\<rparr>"

definition sample_env :: "(nat, nat) send_env" where
  "sample_env = \<lparr>se_marshal = in_diff, se_zwrite = (\<lambda>b. b),
     se_send = (\<lambda>k s a c. Some (True, c)), se_chaff = []\<rparr>"

definition sample_clock :: clock where
  "sample_clock = \<lparr>ck_timers = 500, ck_assumed = 500, ck_tick = 500, ck_state = 500,
     ck_fragment = (\<lambda>k. 500), ck_ack = 500\<rparr>"

definition sample_sender :: "user_stream sender" where
  "sample_sender = (NewTransportSender sample_ops 0 [])\<lparr>sd_currentState := [UserByteType [97]]\<rparr>"

lemmas sample_defs = sample_ops_def sample_conn_def sample_env_def sample_clock_def sample_sender_def
  NewTransportSender_def user_ops_def connection_init_def NewFragmenter_def Let_def

lemma sample_timers:
  "calculateTimers sample_ops sample_clock sample_conn sample_sender =
     Some (sample_sender\<lparr>sd_mindelayClock := 500, sd_nextSendTime := 250\<rparr>)"
  by (simp add: sample_defs calculateTimers_def updateAssumedReceiverState_def rationalizeStates_def
      list_at_def soon_ack_def shutdown_ack_def next_send_time_def sendInterval_def getSRTT_def
      UserStream_Clone_def UserStream_Subtract_def UserStream_Equal_def timeout_def MaxUint64_def Let_def)

lemma sample_inv: "sent_inv sample_sender" "room_for_number sample_sender"
  by (simp_all add: sent_inv_def nums_ok_def sent_nums_def room_for_number_def sample_defs MaxUint64_def word_gt_0)

lemma sample_tick:
  obtains b out conn' ts'
  where "tick sample_ops sample_env sample_clock sample_conn sample_sender = Some (b, out, conn', ts')"
    and "out \<noteq> []"
proof -
  have "\<exists>b out conn' ts'. tick sample_ops sample_env sample_clock sample_conn sample_sender =
      Some (b, out, conn', ts') \<and> out \<noteq> []"
    unfolding tick_def sample_timers
    by (auto simp: sample_defs tick_diff_def UserStream_DiffFrom_def diff_event_def utf8_def
        plain_marshal_def put_inst_def getHasRemoteAddr_def sendToReceiver_def sendInFragments_def
        sendFragments_def makeFragments_def list_at_def Let_def Compress_def fragment_loop.simps
        getMTU_def awaken_def UserStream_Reset_def UserStream_Clone_def state_num_def
        record_state_def addSentState_def UserStream_Equal_def NewFragment_def MaxUint64_def
        ACTIVE_GAP_def fragHeaderLen_def)
  then show thesis using that by blast
qed

section \<open>Invariant of a round\<close>

text \<open>
  C19. A round keeps the queue of sent states well formed: not empty, at most 32 states, numbers
  that only grow, the shutdown number only during a shutdown. An instruction that goes out names
  the last state of the queue as the new one, the first as the one to throw away from, a state that
  was in the queue as the reference, and carries the current acknowledgement.
\<close>

theorem tick_inv:
  assumes "sent_inv ts" and "room_for_number ts"
    and "tick ops env ck conn ts = Some (b, out, conn', ts')"
  shows "sent_inv ts' \<and> (out \<noteq> [] \<longrightarrow> sent_instruction ts ts')"
  using assms by (rule tick_sends) blast

lemma tick_inv_witness:
  "\<exists>b out conn' ts'. tick sample_ops sample_env sample_clock sample_conn sample_sender =
      Some (b, out, conn', ts') \<and> out \<noteq> [] \<and>
    sent_inv ts' \<and> sent_instruction sample_sender ts'"
  using tick_inv [OF sample_inv] sample_tick by metis

lemma calculateTimers_total:
  assumes "sd_sentStates ts \<noteq> []"
  shows "\<exists>ts'. calculateTimers ops ck conn ts = Some ts' \<and> sd_sentStates ts' \<noteq> []"
proof -
  obtain s ss where "sd_sentStates ts = s # ss" using assms by (cases "sd_sentStates ts") auto
  then obtain ts1 where ts1: "updateAssumedReceiverState (ck_assumed ck) conn ts = Some ts1"
    "sd_sentStates ts1 = s # ss"
    by (simp add: updateAssumedReceiverState_def)
  then obtain ts2 where ts2: "rationalizeStates ops ts1 = Some ts2" "sd_sentStates ts2 \<noteq> []"
    by (simp add: rationalizeStates_def list_at_first Let_def)
  then have "\<exists>ts'. calculateTimers ops ck conn ts = Some ts'"
    using ts1 by (simp add: calculateTimers_def list_at_first list_at_last Let_def)
  then show ?thesis
    using calculateTimers_same(1) ts1 assms by (metis list.map_disc_iff sent_nums_def)
qed

lemma awaken_total: "states \<noteq> [] \<Longrightarrow> \<exists>r. awaken states now = Some r"
  by (cases states rule: rev_cases) (auto simp: awaken_def list_at_def bind_eq_Some_conv)

lemma send_loop_total:
  assumes "\<And>k s a c. \<exists>r. send k s a c = Some r" and "states \<noteq> []"
  shows "\<exists>r. send_loop send states now k fs conn = Some r"
proof (induction fs arbitrary: k conn)
  case (Cons f fs)
  obtain ak x where "awaken states (now k) = Some (ak, x)"
    using awaken_total [OF assms(2)] by (metis prod.exhaust)
  moreover obtain b c where "send k (Fragment_String f) ak conn = Some (b, c)"
    using assms(1) by (metis prod.exhaust)
  moreover obtain b' o' c' where "send_loop send states now (k + 1) fs c = Some (b', o', c')"
    using Cons by (metis prod.exhaust)
  ultimately show ?case by auto
qed (simp add: ex_bool_eq)

lemma makeFragments_total:
  assumes "int fragHeaderLen < mtu"
  shows "\<exists>r. makeFragments marshal zwrite inst mtu f = Some r"
  using fragment_loop_fragments [of "mtu - int fragHeaderLen" _ 0 "zwrite (marshal inst)"] assms
  by (fastforce simp: makeFragments_def Let_def Compress_def bind_eq_Some_conv)

lemma sendInFragments_total:
  assumes "sd_sentStates ts \<noteq> []" and "128 < getMTU conn"
    and "\<And>k s a c. \<exists>r. se_send env k s a c = Some r"
  shows "\<exists>b out conn' ts'. sendInFragments env ck diff n conn ts = Some (b, out, conn', ts') \<and>
    sd_sentStates ts' \<noteq> []"
proof -
  have "\<exists>r. sendFragments env ck inst n conn ts = Some r" for inst
  proof -
    let ?ts1 = "if n = MaxUint64 then ts\<lparr>sd_shutdownTries := sd_shutdownTries ts + 1\<rparr> else ts"
    obtain fs fm where fs: "makeFragments (se_marshal env) (se_zwrite env) inst
        (getMTU conn - 12 - 16 - 90) (sd_fragmenter ?ts1) = Some (fs, fm)"
      using makeFragments_total [of "getMTU conn - 12 - 16 - 90"] assms(2)
      by (fastforce simp: fragHeaderLen_def)
    obtain r where "send_loop (se_send env) (sd_sentStates ts) (ck_fragment ck) 0 fs conn = Some r"
      using send_loop_total [of "se_send env" "sd_sentStates ts" "ck_fragment ck" 0 fs conn] assms(1,3) by blast
    then show ?thesis using fs by (cases r) (auto simp: sendFragments_def Let_def)
  qed
  then have "\<exists>r. sendInFragments env ck diff n conn ts = Some r"
    using assms(1) by (simp add: sendInFragments_def list_at_first Let_def)
  then obtain b out conn' ts' where r: "sendInFragments env ck diff n conn ts = Some (b, out, conn', ts')"
    by auto
  moreover have "sd_sentStates ts' \<noteq> []" using sendInFragments_same(1) [OF r] assms(1) by simp
  ultimately show ?thesis by blast
qed

text \<open>A round returns, and what it keeps.\<close>

lemma calculateTimers_shutdown:
  assumes "calculateTimers ops ck conn ts = Some ts'"
  shows "sd_shutdownStart ts' = sd_shutdownStart ts" "sd_shutdownTries ts' = sd_shutdownTries ts"
    "\<exists>k. sd_currentState ts' = so_Subtract ops (sd_currentState ts) k"
  using assms
  by (auto simp: calculateTimers_def Let_def bind_eq_Some_conv updateAssumedReceiverState_def rationalizeStates_def
      shutdown_ack_def soon_ack_def split: list.splits)

lemma tick_returns:
  assumes "sd_sentStates ts \<noteq> []" and "128 < getMTU conn" and "\<And>k s a c. \<exists>r. se_send env k s a c = Some r"
  shows "\<exists>r. tick ops env ck conn ts = Some r"
proof -
  obtain ts1 where ts1: "calculateTimers ops ck conn ts = Some ts1" "sd_sentStates ts1 \<noteq> []"
    using calculateTimers_total [OF assms(1)] by blast
  let ?ts2 = "ts1\<lparr>sd_currentState := so_Reset ops (sd_currentState ts1)\<rparr>"
  have send: "\<exists>b out conn' ts'. sendInFragments env ck diff n conn ts = Some (b, out, conn', ts') \<and>
    sd_sentStates ts' \<noteq> []" if "sd_sentStates ts \<noteq> []" for diff n and ts :: "'a sender"
    using sendInFragments_total [OF that assms(2)] assms(3) by blast
  have add: "sd_sentStates (addSentState ops t n s ts) \<noteq> []" for t n s and ts :: "'a sender"
    by (simp add: addSentState_def Let_def)
  have ack: "\<exists>r. sendEmptyAck ops env ck conn ?ts2 = Some r"
  proof -
    let ?n = "if sd_shutdownInProgress ts1 then MaxUint64 else tm_num (last (sd_sentStates ts1)) + 1"
    obtain b out conn' ts' where "sendInFragments env ck [] ?n conn
        (addSentState ops (ck_state ck) ?n (sd_currentState ?ts2) ?ts2) = Some (b, out, conn', ts')"
      using send [OF add] by blast
    then show ?thesis using ts1(2) by (simp add: sendEmptyAck_def list_at_last Let_def)
  qed
  have data: "\<exists>r. sendToReceiver ops env ck diff conn ?ts2 = Some r" for diff
  proof -
    let ?bk = "last (sd_sentStates ts1)"
    have "sd_sentStates (record_state ops (ck_state ck) (state_num ops ?bk ?ts2) ?bk ?ts2) \<noteq> []"
      using add by (simp add: record_state_def)
    then obtain b out conn' ts' where "sendInFragments env ck diff (state_num ops ?bk ?ts2) conn
        (record_state ops (ck_state ck) (state_num ops ?bk ?ts2) ?bk ?ts2) = Some (b, out, conn', ts')"
      "sd_sentStates ts' \<noteq> []"
      using send by blast
    then show ?thesis
      using ts1(2) by (cases b) (simp_all add: sendToReceiver_def list_at_last Let_def ex_bool_eq)
  qed
  have "\<exists>r. tick_ack ops env ck conn ?ts2 = Some r"
  proof (cases "sd_nextAckTime ?ts2 \<le> ck_tick ck")
    case True
    obtain b out conn' ts' where "sendEmptyAck ops env ck conn ?ts2 = Some (b, out, conn', ts')"
      using ack by (metis prod.exhaust)
    then show ?thesis using True by (simp add: tick_ack_def Let_def)
  qed (simp add: tick_ack_def Let_def ex_bool_eq)
  moreover have "\<exists>r. tick_diff ops env ck diff conn ?ts2 = Some r" for diff
  proof -
    obtain b out conn' ts' where "sendToReceiver ops env ck diff conn ?ts2 = Some (b, out, conn', ts')"
      using data by (metis prod.exhaust)
    then show ?thesis by (simp add: tick_diff_def Let_def ex_bool_eq)
  qed
  ultimately show ?thesis using ts1(1) by (simp add: tick_def Let_def ex_bool_eq)
qed

definition send_keeps :: "('sock, 'addr) send_env \<Rightarrow> (('sock, 'addr) connection \<Rightarrow> bool) \<Rightarrow> bool" where
  "send_keeps env P \<longleftrightarrow> (\<forall>k s a c b c'. se_send env k s a c = Some (b, c') \<longrightarrow> P c \<longrightarrow> P c')"

lemma send_loop_keeps:
  assumes "send_loop (se_send env) states now k fs conn = Some (b, out, conn')" "send_keeps env P" "P conn"
  shows "P conn'"
  using assms(1,3)
proof (induction fs arbitrary: k conn b out)
  case (Cons f fs)
  from Cons.prems(1) obtain ak x sent c where
    1: "se_send env k (Fragment_String f) ak conn = Some (sent, c)"
    "(\<not> sent \<and> conn' = c) \<or> (\<exists>b out. send_loop (se_send env) states now (k + 1) fs c = Some (b, out, conn'))"
    by (fastforce simp: bind_eq_Some_conv split: if_splits)
  then have "P c" using assms(2) Cons.prems(2) by (auto simp: send_keeps_def)
  then show ?case using 1(2) Cons.IH by blast
qed simp

lemma sendFragments_keeps:
  assumes "sendFragments env ck inst n conn ts = Some (b, out, conn', ts')"
  shows "send_keeps env P \<Longrightarrow> P conn \<Longrightarrow> P conn'"
    and "sd_shutdownStart ts' = sd_shutdownStart ts" "sd_currentState ts' = sd_currentState ts"
proof -
  let ?ts1 = "if n = MaxUint64 then ts\<lparr>sd_shutdownTries := sd_shutdownTries ts + 1\<rparr> else ts"
  obtain fs fm where l: "send_loop (se_send env) (sd_sentStates ?ts1) (ck_fragment ck) 0 fs conn = Some (b, out, conn')"
    and t: "ts' = (if b then ?ts1\<lparr>sd_fragmenter := fm, sd_pendingDataAck := False\<rparr> else ?ts1\<lparr>sd_fragmenter := fm\<rparr>)"
    using assms by (auto simp: sendFragments_def bind_eq_Some_conv Let_def split: prod.splits)
  show "send_keeps env P \<Longrightarrow> P conn \<Longrightarrow> P conn'" by (rule send_loop_keeps [OF l])
  show "sd_shutdownStart ts' = sd_shutdownStart ts" "sd_currentState ts' = sd_currentState ts" by (simp_all add: t)
qed

lemma sendInFragments_keeps:
  assumes "sendInFragments env ck diff n conn ts = Some (b, out, conn', ts')"
  shows "send_keeps env P \<Longrightarrow> P conn \<Longrightarrow> P conn'"
    and "sd_shutdownStart ts' = sd_shutdownStart ts" "sd_currentState ts' = sd_currentState ts"
  using assms sendFragments_keeps by (auto simp: sendInFragments_def bind_eq_Some_conv Let_def)

lemma addSentState_keeps [simp]:
  "sd_sentStates (addSentState ops t n s ts) \<noteq> []" "sd_shutdownStart (addSentState ops t n s ts) = sd_shutdownStart ts"
  "sd_currentState (addSentState ops t n s ts) = sd_currentState ts"
  "sd_shutdownInProgress (addSentState ops t n s ts) = sd_shutdownInProgress ts"
  by (simp_all add: addSentState_def Let_def)

lemma record_state_keeps [simp]:
  "sd_sentStates (record_state ops t n s ts) \<noteq> []" "sd_shutdownStart (record_state ops t n s ts) = sd_shutdownStart ts"
  "sd_currentState (record_state ops t n s ts) = sd_currentState ts"
  "sd_shutdownInProgress (record_state ops t n s ts) = sd_shutdownInProgress ts"
  by (simp_all add: record_state_def)

definition same_session :: "'s sender \<Rightarrow> 's sender \<Rightarrow> bool" where
  "same_session ts ts' \<longleftrightarrow> sd_shutdownStart ts' = sd_shutdownStart ts \<and>
     sd_shutdownInProgress ts' = sd_shutdownInProgress ts \<and> sd_currentState ts' = sd_currentState ts \<and>
     (sd_sentStates ts \<noteq> [] \<longrightarrow> sd_sentStates ts' \<noteq> [])"

lemma sendEmptyAck_keeps:
  assumes "sendEmptyAck ops env ck conn ts = Some (b, out, conn', ts')"
  shows "send_keeps env P \<Longrightarrow> P conn \<Longrightarrow> P conn'" and "same_session ts ts'"
proof -
  obtain n ts2 now where 1: "sendInFragments env ck [] n conn (addSentState ops now n (sd_currentState ts) ts) = Some (b, out, conn', ts2)"
    and t: "ts' = (if b then ts2\<lparr>sd_nextAckTime := now + ACK_INTERVAL, sd_nextSendTime := MaxInt64\<rparr> else ts2)"
    using assms by (auto simp: sendEmptyAck_def Let_def bind_eq_Some_conv)
  show "send_keeps env P \<Longrightarrow> P conn \<Longrightarrow> P conn'" by (rule sendInFragments_keeps(1) [OF 1])
  show "same_session ts ts'"
    using sendInFragments_same(1,2) [OF 1] sendInFragments_keeps(2,3) [OF 1] by (simp add: same_session_def t)
qed

lemma sendToReceiver_keeps:
  assumes "sendToReceiver ops env ck diff conn ts = Some (b, out, conn', ts')"
  shows "send_keeps env P \<Longrightarrow> P conn \<Longrightarrow> P conn'" and "same_session ts ts'"
proof -
  obtain n bk ts2 where 1: "sendInFragments env ck diff n conn (record_state ops (ck_state ck) n bk ts) = Some (b, out, conn', ts2)"
    and t: "ts' = ts2 \<or> (\<exists>l x. ts' = ts2\<lparr>sd_assumed := l, sd_nextAckTime := x, sd_nextSendTime := MaxInt64\<rparr>)"
    using assms by (fastforce simp: sendToReceiver_def Let_def bind_eq_Some_conv split: if_splits)
  show "send_keeps env P \<Longrightarrow> P conn \<Longrightarrow> P conn'" by (rule sendInFragments_keeps(1) [OF 1])
  have "sd_sentStates ts2 \<noteq> []" using sendInFragments_same(1) [OF 1] by simp
  then show "same_session ts ts'"
    using sendInFragments_same(2) [OF 1] sendInFragments_keeps(2,3) [OF 1] t by (auto simp: same_session_def)
qed

lemma same_session_refl: "same_session ts ts"
  by (simp add: same_session_def)

lemma tick_ack_keeps:
  assumes "tick_ack ops env ck conn ts = Some (b, out, conn', ts')"
  shows "send_keeps env P \<Longrightarrow> P conn \<Longrightarrow> P conn'" and "same_session ts ts'"
proof -
  have "(send_keeps env P \<longrightarrow> P conn \<longrightarrow> P conn') \<and> same_session ts ts'"
  proof (cases "sd_nextAckTime ts \<le> ck_tick ck")
    case True
    then obtain ts1 where 1: "sendEmptyAck ops env ck conn ts = Some (b, out, conn', ts1)" "same_session ts1 ts'"
      using assms by (auto simp: tick_ack_def Let_def bind_eq_Some_conv same_session_def)
    then show ?thesis
      using sendEmptyAck_keeps(1) [OF 1(1), of P] sendEmptyAck_keeps(2) [OF 1(1)] by (simp add: same_session_def)
  next
    case False
    then show ?thesis using assms by (auto simp: tick_ack_def Let_def same_session_def split: if_splits)
  qed
  then show "send_keeps env P \<Longrightarrow> P conn \<Longrightarrow> P conn'" and "same_session ts ts'" by simp_all
qed

lemma tick_diff_keeps:
  assumes "tick_diff ops env ck diff conn ts = Some (b, out, conn', ts')"
  shows "send_keeps env P \<Longrightarrow> P conn \<Longrightarrow> P conn'" and "same_session ts ts'"
proof -
  obtain ts1 where 1: "(conn' = conn \<and> ts1 = ts) \<or> sendToReceiver ops env ck diff conn ts = Some (b, out, conn', ts1)"
    and t: "ts' = ts1 \<or> ts' = ts1\<lparr>sd_mindelayClock := MaxInt64\<rparr>"
    using assms by (fastforce simp: tick_diff_def Let_def bind_eq_Some_conv split: if_splits)
  show "send_keeps env P \<Longrightarrow> P conn \<Longrightarrow> P conn'" using 1 sendToReceiver_keeps(1) by auto
  have "same_session ts ts1" using 1 sendToReceiver_keeps(2) same_session_refl by auto
  then show "same_session ts ts'" using t by (auto simp: same_session_def)
qed

lemma tick_keeps:
  assumes "tick ops env ck conn ts = Some (b, out, conn', ts')"
  shows "send_keeps env P \<Longrightarrow> P conn \<Longrightarrow> P conn'"
    and "\<exists>ts1. calculateTimers ops ck conn ts = Some ts1 \<and>
      (same_session ts1 ts' \<or> same_session (ts1\<lparr>sd_currentState := so_Reset ops (sd_currentState ts1)\<rparr>) ts')"
proof -
  obtain ts1 where ts1: "calculateTimers ops ck conn ts = Some ts1"
    using assms by (auto simp: tick_def bind_eq_Some_conv)
  let ?ts2 = "ts1\<lparr>sd_currentState := so_Reset ops (sd_currentState ts1)\<rparr>"
  let ?diff = "so_DiffFrom ops (sd_currentState ts1) (tm_state (sd_assumed ts1))"
  consider "conn' = conn" "ts' = ts1" | "tick_ack ops env ck conn ?ts2 = Some (b, out, conn', ts')"
    | "tick_diff ops env ck ?diff conn ?ts2 = Some (b, out, conn', ts')"
    using assms ts1 by (auto simp: tick_def Let_def split: if_splits)
  then have "(send_keeps env P \<longrightarrow> P conn \<longrightarrow> P conn') \<and> (same_session ts1 ts' \<or> same_session ?ts2 ts')"
  proof cases
    case 1
    then show ?thesis by (simp add: same_session_refl)
  next
    case 2
    show ?thesis using tick_ack_keeps(1) [OF 2, of P] tick_ack_keeps(2) [OF 2] by simp
  next
    case 3
    show ?thesis using tick_diff_keeps(1) [OF 3, of P] tick_diff_keeps(2) [OF 3] by simp
  qed
  then show "send_keeps env P \<Longrightarrow> P conn \<Longrightarrow> P conn'"
    "\<exists>ts1. calculateTimers ops ck conn ts = Some ts1 \<and>
      (same_session ts1 ts' \<or> same_session (ts1\<lparr>sd_currentState := so_Reset ops (sd_currentState ts1)\<rparr>) ts')"
    using ts1 by blast+
qed

text \<open>
  A round does not panic when the queue is well formed, the MTU leaves room for a fragment and
  the connection returns from sending.
\<close>

theorem tick_total:
  assumes "sent_inv ts" and "128 < getMTU conn" and "\<forall>k s a c. \<exists>r. se_send env k s a c = Some r"
  shows "\<exists>r. tick ops env ck conn ts = Some r"
  using tick_returns [OF sent_states_ne [OF assms(1)] assms(2)] assms(3) by blast

lemma tick_total_witness: "\<exists>r. tick sample_ops sample_env sample_clock sample_conn sample_sender = Some r"
  by (rule tick_total [OF sample_inv(1)])
    (simp_all add: sample_conn_def sample_env_def connection_init_def getMTU_def ex_bool_eq)

section \<open>Acknowledgements\<close>

lemma ack_split:
  assumes "sent_inv ts" and "a \<in> set (sent_nums ts)"
  obtains k where "k < length (sd_sentStates ts)" and "tm_num (sd_sentStates ts ! k) = a"
    and "filter (\<lambda>s. \<not> numLt s a) (sd_sentStates ts) = drop k (sd_sentStates ts)"
proof -
  from assms(2) have "\<exists>s \<in> set (sd_sentStates ts). tm_num s = a" by (auto simp: sent_nums_def)
  then obtain xs s ys where s: "sd_sentStates ts = xs @ s # ys" "tm_num s = a"
    "\<forall>x \<in> set xs. tm_num x \<noteq> a"
    using split_list_first_prop [of "sd_sentStates ts" "\<lambda>s. tm_num s = a"] by auto
  have sorted: "sorted_wrt (\<lambda>a b. a < b \<or> b = MaxUint64) (map tm_num xs @ a # map tm_num ys)"
    using assms(1) s by (simp add: sent_inv_def nums_ok_def sent_nums_def)
  have max: "w < MaxUint64 \<longleftrightarrow> w \<noteq> MaxUint64" for w
    unfolding MaxUint64_def by (rule word_order.not_eq_extremum [symmetric])
  have "tm_num x < a" if "x \<in> set xs" for x
  proof -
    have "tm_num x < a \<or> a = MaxUint64" using sorted that by (auto simp: sorted_wrt_append)
    then show ?thesis using s(3) that max by blast
  qed
  moreover have "\<not> tm_num y < a" if "y \<in> set (s # ys)" for y
  proof -
    have "a < tm_num y \<or> tm_num y = MaxUint64 \<or> tm_num y = a"
      using sorted s(2) that by (auto simp: sorted_wrt_append)
    moreover have "\<not> MaxUint64 < a" using max [of a] by (cases "a = MaxUint64") auto
    ultimately show ?thesis by (metis order_less_asym order_less_irrefl)
  qed
  ultimately have "filter (\<lambda>s. \<not> numLt s a) (sd_sentStates ts) = s # ys"
    using s(1) by (auto simp: numLt_def filter_id_conv filter_empty_conv)
  with s(1,2) show thesis by (intro that [of "length xs"]) auto
qed

lemma sent_inv_drop:
  assumes "sent_inv ts" and "k < length (sd_sentStates ts)"
  shows "sent_inv (ts\<lparr>sd_sentStates := drop k (sd_sentStates ts)\<rparr>)"
proof -
  have "nums_ok (drop k (sent_nums ts))"
    using assms by (auto simp: sent_inv_def nums_ok_def sent_nums_def intro: sorted_wrt_drop)
  then show ?thesis
    using assms(1) set_drop_subset [of k "sent_nums ts"]
    by (auto simp: sent_inv_def sent_nums_def drop_map [symmetric])
qed

lemma ack_unknown: "a \<notin> set (sent_nums ts) \<Longrightarrow> processAcknowledgmentThrough a ts = ts"
  by (auto simp: processAcknowledgmentThrough_def sent_nums_def numEq_def list_ex_iff)

lemma ack_known:
  assumes "sent_inv ts" and "a \<in> set (sent_nums ts)"
  obtains k where "k < length (sd_sentStates ts)" and "tm_num (sd_sentStates ts ! k) = a"
    and "processAcknowledgmentThrough a ts = ts\<lparr>sd_sentStates := drop k (sd_sentStates ts)\<rparr>"
proof -
  obtain k where k: "k < length (sd_sentStates ts)" "tm_num (sd_sentStates ts ! k) = a"
    "filter (\<lambda>s. \<not> numLt s a) (sd_sentStates ts) = drop k (sd_sentStates ts)"
    using ack_split [OF assms] by blast
  have "processAcknowledgmentThrough a ts = ts\<lparr>sd_sentStates := drop k (sd_sentStates ts)\<rparr>"
    using assms(2) k(3) by (auto simp: processAcknowledgmentThrough_def sent_nums_def numEq_def list_ex_iff)
  with k(1,2) show thesis by (rule that)
qed

lemma sent_inv_ack: "sent_inv ts \<Longrightarrow> sent_inv (processAcknowledgmentThrough a ts)"
  by (cases "a \<in> set (sent_nums ts)") (metis ack_known sent_inv_drop, simp add: ack_unknown)

text \<open>
  An acknowledgement of a state that is still in the queue makes it the first one and keeps
  everything after it; any other acknowledgement changes nothing.
\<close>

theorem processAcknowledgmentThrough_spec:
  fixes a :: "64 word" and ts :: "'s sender"
  assumes "sent_inv ts"
  defines "ts' \<equiv> processAcknowledgmentThrough a ts"
  shows "(a \<in> set (sent_nums ts) \<longrightarrow> sent_inv ts' \<and> hd (sent_nums ts') = a \<and>
      (\<exists>k. sd_sentStates ts' = drop k (sd_sentStates ts))) \<and>
    (a \<notin> set (sent_nums ts) \<longrightarrow> ts' = ts)"
proof (cases "a \<in> set (sent_nums ts)")
  case True
  obtain k where k: "k < length (sd_sentStates ts)" "tm_num (sd_sentStates ts ! k) = a"
    "ts' = ts\<lparr>sd_sentStates := drop k (sd_sentStates ts)\<rparr>"
    using ack_known [OF assms(1) True] unfolding ts'_def by blast
  moreover have "hd (sent_nums ts') = a"
    using k by (simp add: sent_nums_def hd_drop_conv_nth drop_map [symmetric])
  ultimately show ?thesis using sent_inv_ack [OF assms(1), of a] True by (auto simp: ts'_def)
qed (simp add: ts'_def ack_unknown)

lemma processAcknowledgmentThrough_spec_witness:
  "sent_inv (processAcknowledgmentThrough 0 sample_sender) \<and>
    hd (sent_nums (processAcknowledgmentThrough 0 sample_sender)) = 0 \<and>
    processAcknowledgmentThrough 7 sample_sender = sample_sender"
  using processAcknowledgmentThrough_spec [OF sample_inv(1), of 0]
    processAcknowledgmentThrough_spec [OF sample_inv(1), of 7]
  by (simp add: sent_nums_def sample_defs)

lemma ack_twice:
  "processAcknowledgmentThrough a (processAcknowledgmentThrough a ts) = processAcknowledgmentThrough a ts"
  by (simp add: processAcknowledgmentThrough_def)

text \<open>
  Acknowledgements that arrive late or twice have no effect: after one for a state in the queue,
  another for the same or an older state leaves the sender as it is.
\<close>

theorem stale_ack_ignored:
  assumes "a \<in> set (sent_nums ts)" and "b \<le> a"
  shows "processAcknowledgmentThrough b (processAcknowledgmentThrough a ts)
    = processAcknowledgmentThrough a ts"
proof -
  have "list_ex (\<lambda>s. numEq s a) (sd_sentStates ts)"
    using assms(1) by (auto simp: sent_nums_def numEq_def list_ex_iff)
  moreover have "filter (\<lambda>s. \<not> numLt s b) (filter (\<lambda>s. \<not> numLt s a) ss)
      = filter (\<lambda>s. \<not> numLt s a) ss" for ss :: "'a timed_state list"
    using assms(2) by (auto simp: numLt_def filter_filter intro!: filter_cong)
  ultimately show ?thesis by (simp add: processAcknowledgmentThrough_def)
qed

lemma stale_ack_ignored_witness:
  "processAcknowledgmentThrough 0 (processAcknowledgmentThrough 0 sample_sender)
    = processAcknowledgmentThrough 0 sample_sender"
  by (rule stale_ack_ignored) (simp_all add: sent_nums_def sample_defs)

section \<open>The queue overflows\<close>

text \<open>
  The comment of \<open>addSentState\<close> says that an overflow erases states from the middle of the
  queue. It erases the sixteen oldest, and with them the first one: the only state that the
  receiver is known to have.
\<close>

theorem queue_overflow:
  assumes "sent_inv ts" and "\<not> sd_shutdownInProgress ts" and "length (sd_sentStates ts) = 32"
    and "last (sent_nums ts) < n"
  shows "hd (sent_nums ts) \<notin> set (sent_nums (addSentState ops t n s ts)) \<and>
    length (sd_sentStates (addSentState ops t n s ts)) = 17"
proof
  have max: "MaxUint64 \<notin> set (sent_nums ts)" and sorted: "sorted_wrt (\<lambda>a b. a < b \<or> b = MaxUint64) (sent_nums ts)"
    using assms(1,2) by (auto simp: sent_inv_def nums_ok_def)
  obtain x xs where x: "sent_nums ts = x # xs" using assms(3) by (cases "sent_nums ts") (auto simp: sent_nums_def)
  have len: "length (sent_nums ts) = 32" using assms(3) by (simp add: sent_nums_def)
  have "x \<notin> set xs" using sorted max x by auto
  then have "x \<notin> set (drop 15 xs)" by (meson in_set_dropD)
  moreover have "last (sent_nums ts) \<in> set xs" using x len by (cases xs) auto
  then have "x < n" using sorted max x assms(4) by (auto dest: order_less_trans)
  ultimately show "hd (sent_nums ts) \<notin> set (sent_nums (addSentState ops t n s ts))"
    using len x by (simp add: sent_nums_add push_num_def)
  show "length (sd_sentStates (addSentState ops t n s ts)) = 17"
    using assms(3) by (simp add: addSentState_def Let_def)
qed

definition full_sender :: "user_stream sender" where
  "full_sender = sample_sender\<lparr>sd_sentStates :=
     map (\<lambda>n. \<lparr>tm_state = [], tm_timestamp = 0, tm_num = of_nat n\<rparr>) [0..<32]\<rparr>"

lemma full_sender_inv: "sent_inv full_sender"
proof -
  have "sent_nums full_sender = map of_nat [0..<32]"
    by (simp add: full_sender_def sent_nums_def comp_def)
  moreover have "of_nat m < (of_nat n :: 64 word)" if "m < n" "n < 32" for m n :: nat
    using that by (simp add: word_less_nat_alt unat_of_nat)
  then have "sorted_wrt (\<lambda>a b. a < b \<or> b = MaxUint64) (map (of_nat :: nat \<Rightarrow> 64 word) [0..<32])"
    by (simp add: sorted_wrt_map sorted_wrt_iff_nth_less)
  moreover have "MaxUint64 \<noteq> of_nat n" if "n < 32" for n :: nat
  proof
    assume "MaxUint64 = (of_nat n :: 64 word)"
    then have "unat (MaxUint64 :: 64 word) = unat (of_nat n :: 64 word)" by (rule arg_cong)
    then show False using that by (simp add: MaxUint64_def unat_of_nat unsigned_minus_1_eq_mask mask_eq_exp_minus_1)
  qed
  ultimately show ?thesis by (auto simp: sent_inv_def nums_ok_def)
qed

lemma queue_overflow_witness:
  "hd (sent_nums full_sender) \<notin> set (sent_nums (addSentState sample_ops 0 32 [] full_sender)) \<and>
    length (sd_sentStates (addSentState sample_ops 0 32 [] full_sender)) = 17"
  by (rule queue_overflow [OF full_sender_inv])
    (simp_all add: full_sender_def sample_defs sent_nums_def upt_conv_Cons)

section \<open>The difference that is sent\<close>

definition known_state :: "'s sender \<Rightarrow> 's" where
  "known_state ts = tm_state (hd (sd_sentStates ts))"

context net_state
begin

lemma calculateTimers_diff:
  assumes "calculateTimers ops ck conn ts = Some ts'"
    and "\<forall>st \<in> set (sd_sentStates ts). \<exists>a. tm_state st = cat (known_state ts) a"
    and "\<exists>c. sd_currentState ts = cat (known_state ts) c"
  shows "\<exists>st \<in> set (sd_sentStates ts). tm_num (sd_assumed ts') = tm_num st \<and>
    so_DiffFrom ops (sd_currentState ts') (tm_state (sd_assumed ts'))
      = so_DiffFrom ops (sd_currentState ts) (tm_state st)"
proof -
  obtain ts1 ts2 where t: "updateAssumedReceiverState (ck_assumed ck) conn ts = Some ts1"
    "rationalizeStates ops ts1 = Some ts2" "same_states ts' ts2"
    using assms(1) by (rule calculateTimers_rationalize)
  note r = rationalize_fields [OF t(1,2)]
  obtain st where st: "st \<in> set (sd_sentStates ts)"
    "sd_assumed ts2 = st\<lparr>tm_state := so_Subtract ops (tm_state st) (known_state ts)\<rparr>"
    using r(3) by (auto simp: known_state_def)
  obtain a c where ac: "tm_state st = cat (known_state ts) a" "sd_currentState ts = cat (known_state ts) c"
    using assms(2,3) st(1) by blast
  have "so_DiffFrom ops (sd_currentState ts') (tm_state (sd_assumed ts')) = so_DiffFrom ops c a"
    using t(3) r(2) st(2) ac subtract_cat by (simp add: same_states_def known_state_def)
  then show ?thesis
    using st t(3) ac diff_cat by (auto simp: same_states_def)
qed

lemma tick_diff_applies:
  assumes "sent_inv ts" and "room_for_number ts"
    and "tick ops env ck conn ts = Some (b, out, conn', ts')" and "out \<noteq> []"
    and "\<forall>st \<in> set (sd_sentStates ts). (\<exists>a. tm_state st = cat (known_state ts) a) \<and>
      (\<exists>x. stable x \<and> sd_currentState ts = cat (tm_state st) x)"
  shows "\<exists>st \<in> set (sd_sentStates ts). \<exists>x.
    in_oldNum (fm_lastInstruction (sd_fragmenter ts')) = tm_num st \<and>
    sd_currentState ts = cat (tm_state st) x \<and>
    (\<forall>q. so_ApplyString ops (in_diff (fm_lastInstruction (sd_fragmenter ts'))) q = (cat q x, False))"
proof -
  obtain ts1 where ts1: "calculateTimers ops ck conn ts = Some ts1"
    "in_diff (fm_lastInstruction (sd_fragmenter ts')) =
        so_DiffFrom ops (sd_currentState ts1) (tm_state (sd_assumed ts1))"
    "in_oldNum (fm_lastInstruction (sd_fragmenter ts')) = tm_num (sd_assumed ts1)"
    using assms(1-3) by (rule tick_sends) (use assms(4) in blast)
  have "hd (sd_sentStates ts) \<in> set (sd_sentStates ts)"
    using sent_states_ne [OF assms(1)] by simp
  then have "\<exists>c. sd_currentState ts = cat (known_state ts) c"
    using assms(5) unfolding known_state_def by blast
  from calculateTimers_diff [OF ts1(1) _ this] assms(5) obtain st where
    st: "st \<in> set (sd_sentStates ts)" "tm_num (sd_assumed ts1) = tm_num st"
    "so_DiffFrom ops (sd_currentState ts1) (tm_state (sd_assumed ts1))
      = so_DiffFrom ops (sd_currentState ts) (tm_state st)" by auto
  obtain x where "stable x" "sd_currentState ts = cat (tm_state st) x" using assms(5) st(1) by blast
  then show ?thesis using st ts1 apply_diff by auto
qed

end

text \<open>
  C18. The client sends exactly what is missing. When every sent state continues the first one and
  the current stream continues each of them by events that a difference can carry (first keystrokes, which are the
  clusters that \<open>uniseg\<close> finds in their text, then changes of the window size that fit into 32 bits; no keystroke
  follows a change of the size), the difference that goes out, applied to any copy of the state it names as its
  reference (the stream may have been cut differently at the other end), appends the events typed since then, although
  the round itself cuts the known prefix off all states.
\<close>

theorem tick_sends_missing_events:
  assumes "codec_law marshal unmarshal" and "sent_inv ts" and "room_for_number ts"
    and "tick (user_ops marshal unmarshal graphemes) env ck conn ts = Some (b, out, conn', ts')"
    and "out \<noteq> []"
    and "\<forall>st \<in> set (sd_sentStates ts). (\<exists>a. tm_state st = known_state ts @ a) \<and>
      (\<exists>x. stable_input graphemes x \<and> sd_currentState ts = tm_state st @ x)"
  shows "\<exists>st \<in> set (sd_sentStates ts). \<exists>x.
    in_oldNum (fm_lastInstruction (sd_fragmenter ts')) = tm_num st \<and>
    sd_currentState ts = tm_state st @ x \<and>
    (\<forall>q. UserStream_ApplyString unmarshal graphemes
           (in_diff (fm_lastInstruction (sd_fragmenter ts'))) q = (q @ x, False))"
  using net_state.tick_diff_applies [OF user_net_state [OF assms(1)] assms(2-)]
  by (simp add: user_ops_def)

lemma tick_sends_missing_events_witness:
  "\<exists>b out conn' ts'. tick sample_ops sample_env sample_clock sample_conn sample_sender =
      Some (b, out, conn', ts') \<and> out \<noteq> [] \<and>
    (\<exists>st \<in> set (sd_sentStates sample_sender). \<exists>x.
      in_oldNum (fm_lastInstruction (sd_fragmenter ts')) = tm_num st \<and>
      sd_currentState sample_sender = tm_state st @ x \<and>
      (\<forall>q. UserStream_ApplyString plain_unmarshal letters
           (in_diff (fm_lastInstruction (sd_fragmenter ts'))) q = (q @ x, False)))"
proof -
  obtain b out conn' ts' where t: "tick sample_ops sample_env sample_clock sample_conn sample_sender =
      Some (b, out, conn', ts')" "out \<noteq> []"
    by (rule sample_tick)
  have "stable_input letters [UserByteType [97]]"
    unfolding stable_input_def
    by (rule exI [of _ "[[97]]"], rule exI [of _ "[]"]) (simp add: letters_def utf8_def char_of_def bit_0)
  then have "\<forall>st \<in> set (sd_sentStates sample_sender). (\<exists>a. tm_state st = known_state sample_sender @ a) \<and>
      (\<exists>x. stable_input letters x \<and> sd_currentState sample_sender = tm_state st @ x)"
    by (simp add: sample_defs known_state_def UserStream_Clone_def)
  from tick_sends_missing_events [OF plain_codec sample_inv t(1) [unfolded sample_ops_def] t(2) this] t
  show ?thesis by blast
qed

end
