(* ===== verification/TransportProps.thy ===== *)
theory TransportProps
  imports Transport SenderProps
begin

text \<open>
  Properties of the transport: an instruction is applied to the state it names when nothing was
  thrown away or the reference is the newest state, and to a wrong one otherwise; what an
  instruction out of order does to the queue; the invariant, idempotence and the panics of the
  receiver; and the events that \<open>GetRemoteDiff\<close> hands over.
\<close>

section \<open>The loops on the array\<close>

lemma throwaway_loop_eq:
  assumes "i \<le> length xs"
  shows "throwaway_loop n [i..<length xs] (length (filter (\<lambda>s. n \<le> tm_num s) (take i xs)))
      (filter (\<lambda>s. n \<le> tm_num s) (take i xs) @ drop (length (filter (\<lambda>s. n \<le> tm_num s) (take i xs))) xs)
    = (filter (\<lambda>s. n \<le> tm_num s) xs @ drop (length (filter (\<lambda>s. n \<le> tm_num s) xs)) xs,
       length (filter (\<lambda>s. n \<le> tm_num s) xs))"
  using assms
proof (induction "length xs - i" arbitrary: i)
  case (Suc m)
  then have i: "i < length xs" by simp
  let ?ks = "filter (\<lambda>s. n \<le> tm_num s) (take i xs)"
  have len: "length ?ks \<le> i" by (rule le_trans [OF length_filter_le]) simp
  have take: "take (Suc i) xs = take i xs @ [xs ! i]" using i by (rule take_Suc_conv_app_nth)
  have nth: "(?ks @ drop (length ?ks) xs) ! i = xs ! i"
    using len i by (simp add: nth_append)
  have upd: "(?ks @ drop (length ?ks) xs)[length ?ks := xs ! i] = ?ks @ [xs ! i] @ drop (Suc (length ?ks)) xs"
    using len i by (simp add: list_update_append Cons_nth_drop_Suc [symmetric])
  have upt: "[i..<length xs] = i # [Suc i..<length xs]" using i by (rule upt_conv_Cons)
  have IH: "throwaway_loop n [Suc i..<length xs] (length (filter (\<lambda>s. n \<le> tm_num s) (take (Suc i) xs)))
      (filter (\<lambda>s. n \<le> tm_num s) (take (Suc i) xs) @
       drop (length (filter (\<lambda>s. n \<le> tm_num s) (take (Suc i) xs))) xs)
    = (filter (\<lambda>s. n \<le> tm_num s) xs @ drop (length (filter (\<lambda>s. n \<le> tm_num s) xs)) xs,
       length (filter (\<lambda>s. n \<le> tm_num s) xs))"
    using Suc.hyps(2) i by (intro Suc.hyps(1)) auto
  show ?case
    unfolding upt throwaway_loop.simps nth upd
    using IH unfolding take by (cases "n \<le> tm_num (xs ! i)") simp_all
qed simp

lemma processThrowawayUntil_eq:
  "processThrowawayUntil n xs =
     (filter (\<lambda>s. n \<le> tm_num s) xs @ drop (length (filter (\<lambda>s. n \<le> tm_num s) xs)) xs,
      length (filter (\<lambda>s. n \<le> tm_num s) xs))"
  using throwaway_loop_eq [of 0 xs n] by (simp add: processThrowawayUntil_def)

lemma insert_loop_eq:
  assumes "i \<le> length xs" and "\<forall>s \<in> set (take i xs). tm_num s \<le> tm_num s'"
  shows "insert_loop s' [i..<length xs] xs =
    (let k = length (takeWhile (\<lambda>s. tm_num s \<le> tm_num s') xs)
     in if k = length xs then None else Some (take k xs @ [s', s'] @ drop (Suc k) xs))"
  using assms
proof (induction "length xs - i" arbitrary: i)
  case 0
  then have "takeWhile (\<lambda>s. tm_num s \<le> tm_num s') xs = xs"
    by (subst takeWhile_eq_all_conv) simp
  then show ?case using 0 by (simp add: Let_def del: takeWhile_eq_all_conv)
next
  case (Suc m)
  then have i: "i < length xs" by simp
  show ?case
  proof (cases "tm_num (xs ! i) \<le> tm_num s'")
    case True
    then have "\<forall>s \<in> set (take (Suc i) xs). tm_num s \<le> tm_num s'"
      using Suc.prems i by (simp add: take_Suc_conv_app_nth)
    moreover have "m = length xs - Suc i" using Suc.hyps(2) i by simp
    ultimately show ?thesis
      using Suc.hyps(1) [of "Suc i"] leD [OF True] i by (simp add: upt_conv_Cons)
  next
    case False
    have "takeWhile (\<lambda>s. tm_num s \<le> tm_num s') (take i xs @ xs ! i # drop (Suc i) xs) = take i xs"
      using Suc.prems(2) False by (simp add: takeWhile_append)
    then have k: "length (takeWhile (\<lambda>s. tm_num s \<le> tm_num s') xs) = i"
      using i by (simp add: id_take_nth_drop [OF i, symmetric])
    have "take (Suc i) (xs[i := s']) @ drop i (xs[i := s']) = take i xs @ [s', s'] @ drop (Suc i) xs"
      using i by (simp add: take_Suc_conv_app_nth Cons_nth_drop_Suc [symmetric])
    then show ?thesis using i False k by (simp add: upt_conv_Cons Let_def)
  qed
qed

lemma find_num_Some:
  assumes "find_num n xs = Some k"
  shows "k < length xs \<and> tm_num (xs ! k) = n \<and> (\<forall>i < k. tm_num (xs ! i) \<noteq> n)"
  using assms
proof (induction xs arbitrary: k)
  case (Cons s xs)
  show ?case
  proof (cases "n = tm_num s")
    case False
    then obtain j where j: "find_num n xs = Some j" "k = Suc j" using Cons.prems by auto
    show ?thesis using Cons.IH [OF j(1)] j(2) False by (auto simp: nth_Cons split: nat.split)
  qed (use Cons.prems in auto)
qed simp

lemma find_num_None: "find_num n xs = None \<longleftrightarrow> n \<notin> tm_num ` set xs"
  by (induction xs) auto

section \<open>The queue of received states\<close>

definition recv_nums :: "('s, 'sock, 'addr, 'r) transport \<Rightarrow> 64 word list" where
  "recv_nums t = map tm_num (tr_receivedState t)"

text \<open>
  The numbers grow (two neighbours may be equal), every pointer points into the store, and the
  sender is well formed.
\<close>

definition recv_inv :: "('s, 'sock, 'addr, 'r) transport \<Rightarrow> bool" where
  "recv_inv t \<longleftrightarrow> tr_receivedState t \<noteq> [] \<and> sorted (recv_nums t) \<and>
     (\<forall>s \<in> set (tr_receivedState t). tm_state s < length (tr_store t)) \<and>
     tr_lastReceiverState t < length (tr_store t) \<and> sent_inv (tr_sender t)"

lemma build_state_total:
  "tm_state ref < length store \<Longrightarrow>
    build_state ops inst store ref = Some (store @ [if length (in_diff inst) > 0
      then fst (so_ApplyString ops (in_diff inst) (so_Clone ops (store ! tm_state ref)))
      else so_Clone ops (store ! tm_state ref)])"
  by (simp add: build_state_def list_at_nth Let_def)

text \<open>Where the pointer to the reference ends up.\<close>

lemma kept_sorted:
  assumes "sorted (map tm_num xs)"
  shows "filter (\<lambda>s. n \<le> tm_num s) xs = drop (length (takeWhile (\<lambda>s. tm_num s < n) xs)) xs"
  using assms
proof (induction xs)
  case (Cons x xs)
  show ?case
  proof (cases "n \<le> tm_num x")
    case True
    then have "\<forall>s \<in> set xs. n \<le> tm_num s" using Cons.prems by auto
    then show ?thesis using True by (simp add: leD)
  qed (use Cons in \<open>simp add: not_le\<close>)
qed simp

definition thrown_away :: "64 word \<Rightarrow> nat timed_state list \<Rightarrow> nat" where
  "thrown_away n xs = length (takeWhile (\<lambda>s. tm_num s < n) xs)"

lemma thrown_away_le: "thrown_away n xs \<le> length xs"
  by (simp add: thrown_away_def length_takeWhile_le)

lemma processThrowawayUntil_sorted:
  assumes "sorted (map tm_num xs)"
  shows "processThrowawayUntil n xs =
    (drop (thrown_away n xs) xs @ drop (length xs - thrown_away n xs) xs, length xs - thrown_away n xs)"
  using assms by (simp add: processThrowawayUntil_eq kept_sorted thrown_away_def)

text \<open>The index at which the code finds the reference.\<close>

definition ref_index :: "64 word \<Rightarrow> nat timed_state list \<Rightarrow> nat \<Rightarrow> nat" where
  "ref_index n xs k = (if k + thrown_away n xs < length xs then k + thrown_away n xs else k)"

lemma ref_slot:
  assumes "k < length xs"
  shows "list_at (drop (thrown_away n xs) xs @ drop (length xs - thrown_away n xs) xs) (int k)
    = Some (xs ! ref_index n xs k)"
proof -
  have r: "thrown_away n xs \<le> length xs" by (rule thrown_away_le)
  have "length (drop (thrown_away n xs) xs @ drop (length xs - thrown_away n xs) xs) = length xs"
    using r by simp
  moreover have "(drop (thrown_away n xs) xs @ drop (length xs - thrown_away n xs) xs) ! k
      = xs ! ref_index n xs k"
    using assms r by (simp add: nth_append ref_index_def add.commute)
  ultimately show ?thesis using assms by (simp add: list_at_nth)
qed

section \<open>Accepting a state\<close>

definition new_value :: "'r state_ops \<Rightarrow> instruction \<Rightarrow> 'r \<Rightarrow> 'r" where
  "new_value ops inst s =
     (if length (in_diff inst) > 0 then fst (so_ApplyString ops (in_diff inst) (so_Clone ops s))
      else so_Clone ops s)"

definition queue_kept :: "instruction \<Rightarrow> ('s, 'sock, 'addr, 'r) transport \<Rightarrow> nat timed_state list" where
  "queue_kept inst t = drop (thrown_away (in_throwawayNum inst) (tr_receivedState t)) (tr_receivedState t)"

definition full_queue :: "int \<Rightarrow> instruction \<Rightarrow> ('s, 'sock, 'addr, 'r) transport \<Rightarrow> bool" where
  "full_queue nq inst t \<longleftrightarrow> length (queue_kept inst t) > 1024 \<and> nq < tr_receiverQuenchTimer t"

lemma accept_state_eq:
  assumes "recv_inv t" and "k < length (tr_receivedState t)"
  shows "accept_state ops nq nn inst k t = Some
    (if full_queue nq inst t then t\<lparr>tr_receivedState := queue_kept inst t\<rparr>
     else insert_state inst
       \<lparr>tm_state = length (tr_store t), tm_timestamp = nn, tm_num = in_newNum inst\<rparr>
       (t\<lparr>tr_receivedState := queue_kept inst t,
          tr_receiverQuenchTimer :=
            (if length (queue_kept inst t) > 1024 then nq + 15000 else tr_receiverQuenchTimer t),
          tr_store := tr_store t @ [new_value ops inst (tr_store t ! tm_state
            (tr_receivedState t ! ref_index (in_throwawayNum inst) (tr_receivedState t) k))]\<rparr>))"
proof -
  let ?xs = "tr_receivedState t" and ?n = "in_throwawayNum inst"
  have sorted: "sorted (map tm_num ?xs)" using assms(1) by (simp add: recv_inv_def recv_nums_def)
  have i: "ref_index ?n ?xs k < length ?xs" using assms(2) by (simp add: ref_index_def)
  then have addr: "tm_state (?xs ! ref_index ?n ?xs k) < length (tr_store t)"
    using assms(1) by (simp add: recv_inv_def)
  have r: "thrown_away ?n ?xs \<le> length ?xs" by (rule thrown_away_le)
  have build: "build_state ops inst store (?xs ! ref_index ?n ?xs k) =
      Some (store @ [new_value ops inst (store ! tm_state (?xs ! ref_index ?n ?xs k))])"
    if "store = tr_store t" for store
    using build_state_total [OF addr] that by (simp add: new_value_def)
  show ?thesis
    unfolding accept_state_def processThrowawayUntil_sorted [OF sorted] Let_def prod.case
    using r by (simp add: ref_slot [OF assms(2)] build full_queue_def queue_kept_def)
qed

lemma insert_loop_queue:
  "insert_loop s' [0..<length xs] xs =
    (let k = length (takeWhile (\<lambda>s. tm_num s \<le> tm_num s') xs)
     in if k = length xs then None else Some (take k xs @ [s', s'] @ drop (Suc k) xs))"
  by (rule insert_loop_eq) simp_all

lemma insert_at_end:
  assumes "\<forall>s \<in> set xs. tm_num s \<le> tm_num s'"
  shows "insert_loop s' [0..<length xs] xs = None"
proof -
  have "takeWhile (\<lambda>s. tm_num s \<le> tm_num s') xs = xs" using assms by (subst takeWhile_eq_all_conv) simp
  then show ?thesis by (simp add: insert_loop_queue Let_def del: takeWhile_eq_all_conv)
qed

text \<open>The three ways an instruction of the right version can go.\<close>

lemma process_instruction_cases:
  assumes inv: "recv_inv t" and v: "in_protocolVersion inst = 3"
    and r: "process_instruction ops nq nn inst t = Some (e, t')"
  defines "t1 \<equiv> t\<lparr>tr_sender := processAcknowledgmentThrough (in_ackNum inst) (tr_sender t),
    tr_connection := setLastRoundtripSuccess
      (tm_timestamp (hd (sd_sentStates (processAcknowledgmentThrough (in_ackNum inst) (tr_sender t)))))
      (tr_connection t)\<rparr>"
  shows "(in_newNum inst \<in> set (recv_nums t) \<longrightarrow> e = Payload_ok \<and> t' = t1) \<and>
    (in_newNum inst \<notin> set (recv_nums t) \<longrightarrow>
      (find_num (in_oldNum inst) (tr_receivedState t) = None \<longrightarrow> e = Reference_missing \<and> t' = t1) \<and>
      (\<forall>k. find_num (in_oldNum inst) (tr_receivedState t) = Some k \<longrightarrow>
        e = Payload_ok \<and> accept_state ops nq nn inst k t1 = Some t'))"
proof -
  let ?sd = "processAcknowledgmentThrough (in_ackNum inst) (tr_sender t)"
  have "getSentStateAckedTimestamp ?sd = (if sd_sentStates ?sd = [] then None
      else Some (tm_timestamp (hd (sd_sentStates ?sd))))"
    by (simp add: getSentStateAckedTimestamp_def list_at_first)
  moreover have "list_ex (\<lambda>s. in_newNum inst = tm_num s) (tr_receivedState t) \<longleftrightarrow>
      in_newNum inst \<in> set (recv_nums t)"
    by (auto simp: list_ex_iff recv_nums_def)
  ultimately show ?thesis
    using r v by (auto simp: process_instruction_def Let_def t1_def split: if_splits option.splits)
qed

lemma recv_inv_ack:
  "recv_inv t \<Longrightarrow>
    recv_inv (t\<lparr>tr_sender := processAcknowledgmentThrough a (tr_sender t), tr_connection := c\<rparr>)"
  by (simp add: recv_inv_def recv_nums_def sent_inv_ack)

lemma queue_kept_nums: "recv_inv t \<Longrightarrow> n \<in> set (map tm_num (queue_kept inst t)) \<Longrightarrow> n \<in> set (recv_nums t)"
  by (auto simp: queue_kept_def recv_nums_def dest: in_set_dropD)

lemma accepted_in_order:
  assumes inv: "recv_inv t" and v: "in_protocolVersion inst = 3"
    and r: "process_instruction ops nq nn inst t = Some (e, t')"
    and k: "find_num (in_oldNum inst) (tr_receivedState t) = Some k"
    and new: "\<forall>n \<in> set (recv_nums t). n < in_newNum inst" and room: "\<not> full_queue nq inst t"
  defines "s \<equiv> \<lparr>tm_state = length (tr_store t), tm_timestamp = nn, tm_num = in_newNum inst\<rparr>"
  shows "e = Payload_ok \<and> tr_receivedState t' = queue_kept inst t @ [s] \<and>
    tr_store t' = tr_store t @ [new_value ops inst (tr_store t ! tm_state
      (tr_receivedState t ! ref_index (in_throwawayNum inst) (tr_receivedState t) k))] \<and>
    sd_ackNum (tr_sender t') = in_newNum inst"
proof -
  let ?sd = "processAcknowledgmentThrough (in_ackNum inst) (tr_sender t)"
  let ?t1 = "t\<lparr>tr_sender := ?sd, tr_connection := setLastRoundtripSuccess
      (tm_timestamp (hd (sd_sentStates ?sd))) (tr_connection t)\<rparr>"
  have "in_newNum inst \<notin> set (recv_nums t)" using new by blast
  then have e: "e = Payload_ok" "accept_state ops nq nn inst k ?t1 = Some t'"
    using process_instruction_cases [OF inv v r] k by auto
  have inv1: "recv_inv ?t1"
    using inv by (rule recv_inv_ack)
  have "k < length (tr_receivedState ?t1)" using find_num_Some [OF k] by simp
  note acc = accept_state_eq [OF inv1 this, of ops nq nn inst]
  have kept: "queue_kept inst ?t1 = queue_kept inst t" by (simp add: queue_kept_def)
  have "\<not> full_queue nq inst ?t1" using room by (simp add: full_queue_def kept)
  moreover have "insert_loop s [0..<length (queue_kept inst t)] (queue_kept inst t) = None"
    using new queue_kept_nums [OF inv] by (intro insert_at_end) (force simp: s_def intro: less_imp_le)
  ultimately show ?thesis
    using acc e kept by (simp add: insert_state_def s_def Let_def remoteHeard_def setAckNum_def setDataAck_def)
qed

section \<open>A sample receiver\<close>

text \<open>A server that has received the states 5, 6 and 8.\<close>

definition sample_recv :: "(user_stream, nat, nat, user_stream) transport" where
  "sample_recv = \<lparr>tr_store = [[UserByteType [97]], [UserByteType [97], UserByteType [98]],
       [UserByteType [97], UserByteType [98], UserByteType [99]]],
     tr_lastReceiverState = 0, tr_connection = sample_conn, tr_sender = sample_sender,
     tr_fragments = NewFragmentAssembly, tr_port = [],
     tr_receivedState = [\<lparr>tm_state = 0, tm_timestamp = 0, tm_num = 5\<rparr>,
       \<lparr>tm_state = 1, tm_timestamp = 0, tm_num = 6\<rparr>, \<lparr>tm_state = 2, tm_timestamp = 0, tm_num = 8\<rparr>],
     tr_receiverQuenchTimer = 0\<rparr>"

definition sample_inst :: "64 word \<Rightarrow> 64 word \<Rightarrow> 64 word \<Rightarrow> instruction" where
  "sample_inst old new throwaway = \<lparr>in_protocolVersion = 3, in_oldNum = old, in_newNum = new,
     in_ackNum = 0, in_throwawayNum = throwaway, in_diff = [], in_chaff = []\<rparr>"

lemma sample_recv_inv: "recv_inv sample_recv"
  using sample_inv(1) by (simp add: recv_inv_def recv_nums_def sample_recv_def)

lemma sample_recv_facts:
  "sorted_wrt (<) (recv_nums sample_recv)" "set (recv_nums sample_recv) = {5, 6, 8}"
  "length (tr_receivedState sample_recv) = 3" "\<not> full_queue nq inst sample_recv"
  "tm_num (tr_receivedState sample_recv ! Suc 0) = 6" "tm_num (tr_receivedState sample_recv ! 2) = 8"
  "recv_nums sample_recv = [5, 6, 8]"
  by (auto simp: recv_nums_def sample_recv_def full_queue_def queue_kept_def)

lemma process_instruction_total:
  assumes "recv_inv t" and "in_protocolVersion inst = 3"
  shows "\<exists>e t'. process_instruction ops nq nn inst t = Some (e, t')"
proof -
  let ?sd = "processAcknowledgmentThrough (in_ackNum inst) (tr_sender t)"
  let ?t1 = "\<lambda>x. t\<lparr>tr_sender := ?sd, tr_connection := setLastRoundtripSuccess x (tr_connection t)\<rparr>"
  have inv1: "recv_inv (?t1 x)" for x using assms(1) by (rule recv_inv_ack)
  then have ne: "sd_sentStates ?sd \<noteq> []" by (auto simp: recv_inv_def dest: sent_states_ne)
  have "\<exists>t'. accept_state ops nq nn inst k (?t1 x) = Some t'"
    if "find_num (in_oldNum inst) (tr_receivedState t) = Some k" for k x
    using find_num_Some [OF that] by (simp add: accept_state_eq [OF inv1])
  then show ?thesis
    using ne assms(2)
    by (fastforce simp: process_instruction_def Let_def getSentStateAckedTimestamp_def list_at_first
        split: option.split)
qed

lemma sample_process:
  obtains e t' where "process_instruction sample_ops 0 0 (sample_inst a b c) sample_recv = Some (e, t')"
  using process_instruction_total [OF sample_recv_inv, of "sample_inst a b c" sample_ops 0 0] that
  by (auto simp: sample_inst_def)

section \<open>The reference state\<close>

lemma find_num_sorted:
  assumes "sorted_wrt (<) (map tm_num xs)" and "k < length xs" and "tm_num (xs ! k) = n"
  shows "find_num n xs = Some k"
proof -
  have "find_num n xs \<noteq> None" using assms(2,3) by (auto simp: find_num_None)
  then obtain j where j: "find_num n xs = Some j" by auto
  then have "j < length xs" "tm_num (xs ! j) = n" using find_num_Some by blast+
  moreover have "tm_num (xs ! i) < tm_num (xs ! l)" if "i < l" "l < length xs" for i l
    using assms(1) that by (simp add: sorted_wrt_iff_nth_less)
  ultimately have "j = k" using assms(2,3) by (metis linorder_neqE_nat order_less_irrefl)
  with j show ?thesis by simp
qed

text \<open>
  C16. An instruction with the newest number, whose reference is the newest received state or which
  throws nothing away, puts the state it describes at the end of the queue: a clone of the reference
  with the difference applied. The number of that state is what the sender acknowledges next, and
  the states received before are untouched.
\<close>

theorem instruction_applied:
  assumes inv: "recv_inv t" and v: "in_protocolVersion inst = 3"
    and r: "process_instruction ops nq nn inst t = Some (e, t')"
    and dist: "sorted_wrt (<) (recv_nums t)"
    and k: "k < length (tr_receivedState t)" "tm_num (tr_receivedState t ! k) = in_oldNum inst"
    and safe: "k = length (tr_receivedState t) - 1 \<or>
      (\<forall>n \<in> set (recv_nums t). in_throwawayNum inst \<le> n)"
    and new: "\<forall>n \<in> set (recv_nums t). n < in_newNum inst" and room: "\<not> full_queue nq inst t"
  shows "e = Payload_ok \<and>
    (\<exists>s. tr_receivedState t' = queue_kept inst t @ [s] \<and> tm_num s = in_newNum inst \<and>
      tr_store t' ! tm_state s =
        new_value ops inst (tr_store t ! tm_state (tr_receivedState t ! k))) \<and>
    sd_ackNum (tr_sender t') = in_newNum inst \<and>
    (\<forall>a < length (tr_store t). tr_store t' ! a = tr_store t ! a)"
proof -
  have "find_num (in_oldNum inst) (tr_receivedState t) = Some k"
    using find_num_sorted dist k unfolding recv_nums_def by blast
  note acc = accepted_in_order [OF inv v r this new room]
  have "thrown_away (in_throwawayNum inst) (tr_receivedState t) = 0"
    if "\<forall>n \<in> set (recv_nums t). in_throwawayNum inst \<le> n"
    using that by (cases "tr_receivedState t") (auto simp: thrown_away_def recv_nums_def leD)
  then have "ref_index (in_throwawayNum inst) (tr_receivedState t) k = k"
    using safe by (auto simp: ref_index_def)
  with acc show ?thesis by (auto simp: nth_append)
qed

lemma instruction_applied_witness:
  "\<exists>e t'. process_instruction sample_ops 0 0 (sample_inst 8 9 6) sample_recv = Some (e, t') \<and>
    e = Payload_ok \<and>
    (\<exists>s. tr_receivedState t' = queue_kept (sample_inst 8 9 6) sample_recv @ [s] \<and> tm_num s = 9 \<and>
      tr_store t' ! tm_state s = new_value sample_ops (sample_inst 8 9 6)
        (tr_store sample_recv ! tm_state (tr_receivedState sample_recv ! 2))) \<and>
    sd_ackNum (tr_sender t') = 9 \<and>
    (\<forall>a < length (tr_store sample_recv). tr_store t' ! a = tr_store sample_recv ! a)"
proof -
  obtain e t' where r: "process_instruction sample_ops 0 0 (sample_inst 8 9 6) sample_recv = Some (e, t')"
    by (rule sample_process)
  have "in_protocolVersion (sample_inst 8 9 6) = 3" "in_newNum (sample_inst 8 9 6) = 9"
    "in_oldNum (sample_inst 8 9 6) = 8" by (simp_all add: sample_inst_def)
  with instruction_applied [OF sample_recv_inv _ r sample_recv_facts(1), of 2] r show ?thesis
    by (auto simp: sample_recv_facts)
qed

text \<open>
  Otherwise the pointer to the reference is stale: after \<open>processThrowawayUntil\<close> has moved the
  states forward in the array, it points to a newer state, and the difference is applied to that one.
\<close>

theorem wrong_reference:
  assumes inv: "recv_inv t" and v: "in_protocolVersion inst = 3"
    and r: "process_instruction ops nq nn inst t = Some (e, t')"
    and dist: "sorted_wrt (<) (recv_nums t)"
    and k: "k < length (tr_receivedState t)" "tm_num (tr_receivedState t ! k) = in_oldNum inst"
    and gone: "d = length (takeWhile (\<lambda>n. n < in_throwawayNum inst) (recv_nums t))"
      "0 < d" "k + d < length (tr_receivedState t)"
    and new: "\<forall>n \<in> set (recv_nums t). n < in_newNum inst" and room: "\<not> full_queue nq inst t"
  shows "in_oldNum inst < tm_num (tr_receivedState t ! (k + d)) \<and>
    (\<exists>s. last (tr_receivedState t') = s \<and> tm_num s = in_newNum inst \<and>
      tr_store t' ! tm_state s =
        new_value ops inst (tr_store t ! tm_state (tr_receivedState t ! (k + d))))"
proof -
  have "find_num (in_oldNum inst) (tr_receivedState t) = Some k"
    using find_num_sorted dist k unfolding recv_nums_def by blast
  note acc = accepted_in_order [OF inv v r this new room]
  have "thrown_away (in_throwawayNum inst) (tr_receivedState t) = d"
    using gone(1) by (simp add: thrown_away_def recv_nums_def takeWhile_map comp_def)
  then have "ref_index (in_throwawayNum inst) (tr_receivedState t) k = k + d"
    using gone by (simp add: ref_index_def)
  moreover have "in_oldNum inst < tm_num (tr_receivedState t ! (k + d))"
    using sorted_wrt_nth_less [OF dist, of k "k + d"] gone(2,3) k by (simp add: recv_nums_def)
  ultimately show ?thesis using acc by (auto simp: nth_append)
qed

lemma wrong_reference_witness:
  "\<exists>e t'. process_instruction sample_ops 0 0 (sample_inst 6 9 6) sample_recv = Some (e, t') \<and>
    6 < tm_num (tr_receivedState sample_recv ! 2) \<and>
    (\<exists>s. last (tr_receivedState t') = s \<and> tm_num s = 9 \<and>
      tr_store t' ! tm_state s = new_value sample_ops (sample_inst 6 9 6)
        (tr_store sample_recv ! tm_state (tr_receivedState sample_recv ! 2)))"
proof -
  obtain e t' where r: "process_instruction sample_ops 0 0 (sample_inst 6 9 6) sample_recv = Some (e, t')"
    by (rule sample_process)
  have "in_protocolVersion (sample_inst 6 9 6) = 3" "in_newNum (sample_inst 6 9 6) = 9"
    "in_oldNum (sample_inst 6 9 6) = 6" "in_throwawayNum (sample_inst 6 9 6) = 6"
    by (simp_all add: sample_inst_def)
  with wrong_reference [OF sample_recv_inv _ r sample_recv_facts(1), of 1 1, unfolded one_add_one] r show ?thesis
    by (auto simp: sample_recv_facts)
qed

text \<open>
  C34. A state that arrives out of order takes the place of the first state with a higher number and
  stands there twice: the state it should precede is lost.
\<close>

theorem out_of_order_loses_state:
  assumes inv: "recv_inv t" and v: "in_protocolVersion inst = 3"
    and r: "process_instruction ops nq nn inst t = Some (e, t')"
    and dist: "sorted_wrt (<) (recv_nums t)"
    and old: "in_oldNum inst \<in> set (recv_nums t)" and new: "in_newNum inst \<notin> set (recv_nums t)"
    and room: "\<not> full_queue nq inst t"
    and q: "queue_kept inst t = xs @ y # ys" "\<forall>x \<in> set xs. tm_num x < in_newNum inst"
      "in_newNum inst < tm_num y"
  shows "recv_nums t' = map tm_num xs @ [in_newNum inst, in_newNum inst] @ map tm_num ys \<and>
    tm_num y \<notin> set (recv_nums t')"
proof -
  let ?sd = "processAcknowledgmentThrough (in_ackNum inst) (tr_sender t)"
  let ?t1 = "t\<lparr>tr_sender := ?sd, tr_connection := setLastRoundtripSuccess
      (tm_timestamp (hd (sd_sentStates ?sd))) (tr_connection t)\<rparr>"
  let ?s = "\<lparr>tm_state = length (tr_store t), tm_timestamp = nn, tm_num = in_newNum inst\<rparr>"
  obtain k where k: "find_num (in_oldNum inst) (tr_receivedState t) = Some k"
    using old find_num_None [of "in_oldNum inst" "tr_receivedState t"] by (auto simp: recv_nums_def)
  have e: "accept_state ops nq nn inst k ?t1 = Some t'"
    using process_instruction_cases [OF inv v r] k new by auto
  have inv1: "recv_inv ?t1"
    using inv by (rule recv_inv_ack)
  have "k < length (tr_receivedState ?t1)" using find_num_Some [OF k] by simp
  note acc = accept_state_eq [OF inv1 this, of ops nq nn inst]
  have kept: "queue_kept inst ?t1 = xs @ y # ys" using q(1) by (simp add: queue_kept_def)
  have "\<not> full_queue nq inst ?t1" using room by (simp add: full_queue_def kept q(1))
  moreover have "takeWhile (\<lambda>s. tm_num s \<le> in_newNum inst) (xs @ y # ys) = xs"
    using q(2,3) by (subst takeWhile_append2) (auto simp: less_imp_le)
  then have "insert_loop ?s [0..<length (xs @ y # ys)] (xs @ y # ys) = Some (xs @ [?s, ?s] @ ys)"
    by (subst insert_loop_queue) (simp add: Let_def)
  ultimately have rec: "tr_receivedState t' = xs @ [?s, ?s] @ ys"
    using acc e kept by (simp add: insert_state_def)
  have "sorted_wrt (<) (map tm_num (xs @ y # ys))"
    using dist sorted_wrt_drop [of "(<)" "recv_nums t" "thrown_away (in_throwawayNum inst) (tr_receivedState t)"]
    by (simp add: recv_nums_def queue_kept_def q(1) [symmetric] drop_map)
  then have "tm_num y \<notin> tm_num ` set xs" "tm_num y \<notin> tm_num ` set ys"
    by (fastforce simp: sorted_wrt_append)+
  then show ?thesis using q(3) by (auto simp: recv_nums_def rec)
qed

lemma out_of_order_loses_state_witness:
  "\<exists>e t'. process_instruction sample_ops 0 0 (sample_inst 6 7 0) sample_recv = Some (e, t') \<and>
    recv_nums t' = [5, 6] @ [7, 7] @ [] \<and> 8 \<notin> set (recv_nums t')"
proof -
  obtain e t' where r: "process_instruction sample_ops 0 0 (sample_inst 6 7 0) sample_recv = Some (e, t')"
    by (rule sample_process)
  have i: "in_protocolVersion (sample_inst 6 7 0) = 3" "in_newNum (sample_inst 6 7 0) = 7"
    "in_oldNum (sample_inst 6 7 0) = 6" "in_throwawayNum (sample_inst 6 7 0) = 0"
    by (simp_all add: sample_inst_def)
  have "queue_kept (sample_inst 6 7 0) sample_recv = take 2 (tr_receivedState sample_recv) @
      tr_receivedState sample_recv ! 2 # []"
    by (simp add: queue_kept_def thrown_away_def i sample_recv_def)
  from out_of_order_loses_state [OF sample_recv_inv i(1) r sample_recv_facts(1) _ _ sample_recv_facts(4) this] r
  show ?thesis
    by (simp add: i sample_recv_facts) (simp add: sample_recv_def)
qed

section \<open>The invariant\<close>

lemma takeWhile_split:
  "k = length (takeWhile P xs) \<Longrightarrow> k < length xs \<Longrightarrow>
    xs = take k xs @ xs ! k # drop (Suc k) xs \<and> (\<forall>x \<in> set (take k xs). P x) \<and> \<not> P (xs ! k)"
  using id_take_nth_drop [of k xs]
  by (auto simp: takeWhile_eq_take [symmetric] nth_length_takeWhile dest: set_takeWhileD)

lemma recv_inv_insert:
  assumes "sorted (map tm_num (tr_receivedState t))" and "\<forall>s \<in> set (tr_receivedState t). tm_state s < length (tr_store t)"
    and "tr_lastReceiverState t < length (tr_store t)" and "sent_inv (tr_sender t)"
    and "tm_state s' < length (tr_store t)"
  shows "recv_inv (insert_state inst s' t)"
proof -
  let ?xs = "tr_receivedState t" and ?P = "\<lambda>s. tm_num s \<le> tm_num s'"
  define k where "k = length (takeWhile ?P ?xs)"
  show ?thesis
  proof (cases "k = length ?xs")
    case True
    then have all: "\<forall>s \<in> set ?xs. tm_num s \<le> tm_num s'"
      unfolding k_def by (metis takeWhile_eq_take take_all takeWhile_eq_all_conv order_refl)
    then have "insert_loop s' [0..<length ?xs] ?xs = None" by (rule insert_at_end)
    then show ?thesis
      using assms all
      by (auto simp: insert_state_def Let_def recv_inv_def recv_nums_def sorted_append sent_inv_def sent_nums_def
          remoteHeard_def setAckNum_def setDataAck_def)
  next
    case False
    then have k: "k < length ?xs" using length_takeWhile_le [of ?P ?xs] unfolding k_def by simp
    from takeWhile_split [OF k_def k]
    have split: "?xs = take k ?xs @ ?xs ! k # drop (Suc k) ?xs" "\<forall>x \<in> set (take k ?xs). ?P x"
      "\<not> ?P (?xs ! k)" by auto
    have "insert_loop s' [0..<length ?xs] ?xs = Some (take k ?xs @ [s', s'] @ drop (Suc k) ?xs)"
      using False by (subst insert_loop_queue) (simp add: Let_def k_def)
    moreover have "sorted (map tm_num (take k ?xs) @ tm_num (?xs ! k) # map tm_num (drop (Suc k) ?xs))"
      using assms(1) split(1) by (metis list.simps(9) map_append)
    then have "sorted (map tm_num (take k ?xs @ [s', s'] @ drop (Suc k) ?xs))"
      using split(2,3) by (auto simp: sorted_append intro: order.trans [OF less_imp_le])
    moreover have "\<forall>s \<in> set (take k ?xs @ [s', s'] @ drop (Suc k) ?xs). tm_state s < length (tr_store t)"
      using assms(2,5) by (auto dest: in_set_takeD in_set_dropD)
    ultimately show ?thesis
      using assms(3,4) by (simp add: insert_state_def recv_inv_def recv_nums_def)
  qed
qed

lemma queue_kept_inv:
  assumes "recv_inv t"
  shows "sorted (map tm_num (queue_kept inst t))"
    and "\<forall>s \<in> set (queue_kept inst t). tm_state s < length (tr_store t)"
  using assms by (auto simp: recv_inv_def recv_nums_def queue_kept_def drop_map [symmetric] sorted_wrt_drop
      dest: in_set_dropD)

lemma accept_state_inv:
  assumes inv: "recv_inv t" and k: "k < length (tr_receivedState t)"
    and r: "accept_state ops nq nn inst k t = Some t'"
  shows "recv_inv t'"
proof (cases "full_queue nq inst t")
  case True
  then have "queue_kept inst t \<noteq> []" by (auto simp: full_queue_def)
  then show ?thesis
    using True r inv queue_kept_inv [OF inv, of inst]
    by (auto simp: accept_state_eq [OF inv k] recv_inv_def recv_nums_def)
next
  case False
  then have "\<exists>q v. t' = insert_state inst
      \<lparr>tm_state = length (tr_store t), tm_timestamp = nn, tm_num = in_newNum inst\<rparr>
      (t\<lparr>tr_receivedState := queue_kept inst t, tr_receiverQuenchTimer := q, tr_store := tr_store t @ [v]\<rparr>)"
    using r by (auto simp: accept_state_eq [OF inv k])
  then obtain q v where t': "t' = insert_state inst
      \<lparr>tm_state = length (tr_store t), tm_timestamp = nn, tm_num = in_newNum inst\<rparr>
      (t\<lparr>tr_receivedState := queue_kept inst t, tr_receiverQuenchTimer := q, tr_store := tr_store t @ [v]\<rparr>)"
    by blast
  show ?thesis
    unfolding t'
    by (rule recv_inv_insert)
      (use inv queue_kept_inv [OF inv, of inst] in \<open>simp_all add: recv_inv_def less_SucI\<close>)
qed

lemma process_instruction_inv:
  assumes inv: "recv_inv t" and r: "process_instruction ops nq nn inst t = Some (e, t')"
  shows "recv_inv t'"
proof (cases "in_protocolVersion inst = 3")
  case True
  note cases = process_instruction_cases [OF inv True r]
  let ?sd = "processAcknowledgmentThrough (in_ackNum inst) (tr_sender t)"
  let ?t1 = "t\<lparr>tr_sender := ?sd, tr_connection := setLastRoundtripSuccess
      (tm_timestamp (hd (sd_sentStates ?sd))) (tr_connection t)\<rparr>"
  have inv1: "recv_inv ?t1" using inv by (rule recv_inv_ack)
  show ?thesis
  proof (cases "find_num (in_oldNum inst) (tr_receivedState t)")
    case None
    then show ?thesis using cases inv1 by (cases "in_newNum inst \<in> set (recv_nums t)") auto
  next
    case (Some k)
    have "k < length (tr_receivedState ?t1)" using find_num_Some [OF Some] by simp
    then show ?thesis using cases Some inv1 accept_state_inv [OF inv1]
      by (cases "in_newNum inst \<in> set (recv_nums t)") auto
  qed
qed (use assms in \<open>simp add: process_instruction_def\<close>)

text \<open>
  C17. Receiving keeps the transport well formed, whatever arrives: the queue of received states is
  not empty and sorted by number, every pointer points into the store, the sender stays well formed.
\<close>

theorem ProcessPayload_inv:
  assumes "recv_inv t" and "ProcessPayload zread unmarshal ops nq nn s t = Some (e, t')"
  shows "recv_inv t'"
proof -
  have same: "recv_inv (t\<lparr>tr_fragments := fa\<rparr>)" for fa
    using assms(1) by (simp add: recv_inv_def recv_nums_def)
  from assms(2) show ?thesis
    by (auto simp: ProcessPayload_def bind_eq_Some_conv same split: prod.splits if_splits
        intro: process_instruction_inv [OF same])
qed

lemma sample_fragment:
  "addFragment (NewFragmentFrom (Fragment_String (NewFragment 1 0 True []))) (tr_fragments sample_recv) =
    Some (True, \<lparr>fa_fragments = [NewFragment 1 0 True []], fa_currentId = 1, fa_arrived = 1, fa_total = 1\<rparr>)"
  by (subst Fragment_wire) (simp_all add: NewFragment_def addFragment_def sample_recv_def NewFragmentAssembly_def)

lemma ProcessPayload_inv_witness:
  "\<exists>e t'. ProcessPayload (\<lambda>b. Some (b, Read_eof)) (\<lambda>b. Some (sample_inst 8 9 6)) sample_ops 0 0
      (Fragment_String (NewFragment 1 0 True [])) sample_recv = Some (e, t') \<and> recv_inv t'"
proof -
  let ?fa = "\<lparr>fa_fragments = [], fa_currentId = 1, fa_arrived = 0, fa_total = - 1\<rparr> :: assembly"
  have "recv_inv (sample_recv\<lparr>tr_fragments := ?fa\<rparr>)"
    using sample_recv_inv by (simp add: recv_inv_def recv_nums_def)
  then obtain e t' where
    "process_instruction sample_ops 0 0 (sample_inst 8 9 6) (sample_recv\<lparr>tr_fragments := ?fa\<rparr>) = Some (e, t')"
    using process_instruction_total [of _ "sample_inst 8 9 6" sample_ops 0 0] by (fastforce simp: sample_inst_def)
  then have "ProcessPayload (\<lambda>b. Some (b, Read_eof)) (\<lambda>b. Some (sample_inst 8 9 6)) sample_ops 0 0
      (Fragment_String (NewFragment 1 0 True [])) sample_recv = Some (e, t')"
    by (simp add: ProcessPayload_def sample_fragment getAssembly_def Uncompress_def bufSize_def Let_def,
      simp add: NewFragment_def)
  with ProcessPayload_inv [OF sample_recv_inv this] show ?thesis by blast
qed

lemma insert_state_same:
  "sd_sentStates (tr_sender (insert_state inst s t)) = sd_sentStates (tr_sender t) \<and>
    tr_connection (insert_state inst s t) = tr_connection t"
  by (simp add: insert_state_def Let_def remoteHeard_def setAckNum_def setDataAck_def split: option.split)

lemma accept_state_same:
  assumes "recv_inv t" and "k < length (tr_receivedState t)"
    and "accept_state ops nq nn inst k t = Some t'"
  shows "sd_sentStates (tr_sender t') = sd_sentStates (tr_sender t) \<and> tr_connection t' = tr_connection t"
  using assms(3) by (auto simp: accept_state_eq [OF assms(1,2)] insert_state_same split: if_splits)

lemma ack_fixed:
  assumes "sd_sentStates x = sd_sentStates y" and "processAcknowledgmentThrough a y = y"
  shows "processAcknowledgmentThrough a x = x"
proof -
  have "sd_sentStates (processAcknowledgmentThrough a y) = sd_sentStates y" using assms(2) by simp
  then show ?thesis using assms(1) by (auto simp: processAcknowledgmentThrough_def split: if_splits)
qed

text \<open>
  C35. An instruction that was accepted or that was a duplicate changes nothing when it arrives a
  second time.
\<close>

theorem instruction_idempotent:
  assumes inv: "recv_inv t" and v: "in_protocolVersion inst = 3"
    and r: "process_instruction ops nq nn inst t = Some (Payload_ok, t')"
    and new: "in_newNum inst \<in> set (recv_nums t')"
  shows "process_instruction ops nq' nn' inst t' = Some (Payload_ok, t')"
proof -
  let ?sd = "processAcknowledgmentThrough (in_ackNum inst) (tr_sender t)"
  let ?t1 = "t\<lparr>tr_sender := ?sd, tr_connection := setLastRoundtripSuccess
      (tm_timestamp (hd (sd_sentStates ?sd))) (tr_connection t)\<rparr>"
  have inv1: "recv_inv ?t1" using inv by (rule recv_inv_ack)
  have inv': "recv_inv t'" using inv r by (rule process_instruction_inv)
  have same: "sd_sentStates (tr_sender t') = sd_sentStates ?sd \<and> tr_connection t' = tr_connection ?t1"
  proof (cases "in_newNum inst \<in> set (recv_nums t)")
    case False
    then obtain k where k: "find_num (in_oldNum inst) (tr_receivedState t) = Some k"
        "accept_state ops nq nn inst k ?t1 = Some t'"
      using process_instruction_cases [OF inv v r] by (cases "find_num (in_oldNum inst) (tr_receivedState t)") auto
    have "k < length (tr_receivedState ?t1)" using find_num_Some [OF k(1)] by simp
    from accept_state_same [OF inv1 this k(2)] show ?thesis by simp
  qed (use process_instruction_cases [OF inv v r] in simp)
  have "processAcknowledgmentThrough (in_ackNum inst) (tr_sender t') = tr_sender t'"
    by (rule ack_fixed [OF conjunct1 [OF same]]) (rule ack_twice)
  moreover have "setLastRoundtripSuccess (tm_timestamp (hd (sd_sentStates ?sd))) (tr_connection t')
      = tr_connection t'"
    using same by (simp add: setLastRoundtripSuccess_def)
  moreover have "sd_sentStates (tr_sender t') \<noteq> []"
    using inv' by (auto simp: recv_inv_def intro: sent_states_ne dest: sent_states_ne)
  moreover have "list_ex (\<lambda>s. in_newNum inst = tm_num s) (tr_receivedState t')"
    using new by (auto simp: list_ex_iff recv_nums_def)
  ultimately show ?thesis
    using v same by (simp add: process_instruction_def Let_def getSentStateAckedTimestamp_def list_at_first)
qed

lemma instruction_idempotent_witness:
  "\<exists>t'. process_instruction sample_ops 0 0 (sample_inst 6 8 6) sample_recv = Some (Payload_ok, t') \<and>
    process_instruction sample_ops 1 1 (sample_inst 6 8 6) t' = Some (Payload_ok, t')"
proof -
  obtain e t' where r: "process_instruction sample_ops 0 0 (sample_inst 6 8 6) sample_recv = Some (e, t')"
    by (rule sample_process)
  have i: "in_protocolVersion (sample_inst 6 8 6) = 3" "in_newNum (sample_inst 6 8 6) = 8"
    by (simp_all add: sample_inst_def)
  from process_instruction_cases [OF sample_recv_inv i(1) r]
  have "e = Payload_ok" "recv_nums t' = recv_nums sample_recv"
    by (simp_all add: i sample_recv_facts) (simp add: recv_nums_def sample_recv_def)
  with instruction_idempotent [OF sample_recv_inv i(1), of sample_ops 0 0 t' 1 1] r show ?thesis
    by (simp add: i sample_recv_facts)
qed

text \<open>
  An instruction whose payload does not unmarshal crashes the receiver: the nil pointer that
  \<open>getAssembly\<close> returns is dereferenced.
\<close>

theorem bad_instruction_panics:
  assumes "addFragment (NewFragmentFrom s) (tr_fragments t) = Some (True, fa)"
    and "\<forall>b. unmarshal b = None"
  shows "ProcessPayload zread unmarshal ops nq nn s t = None"
  using assms
  by (auto simp: ProcessPayload_def getAssembly_def bind_eq_None_conv Let_def split: option.splits)

lemma bad_instruction_panics_witness:
  "ProcessPayload (\<lambda>b. Some (b, Read_eof)) (\<lambda>b. None) sample_ops 0 0
    (Fragment_String (NewFragment 1 0 True [])) sample_recv = None"
  by (rule bad_instruction_panics [OF sample_fragment]) simp

section \<open>Handing over what has arrived\<close>

lemma subtract_all_store:
  assumes "distinct as" and "oldest \<notin> set as" and "\<forall>a \<in> set as. a < length store" and "oldest < length store"
  shows "\<exists>store'. subtract_all ops oldest (as @ [oldest]) store = Some store' \<and> length store' = length store \<and>
    (\<forall>a < length store. store' ! a =
      (if a \<in> insert oldest (set as) then so_Subtract ops (store ! a) (store ! oldest) else store ! a))"
  using assms
proof (induction "as" arbitrary: store)
  case Nil
  then show ?case by (auto simp: list_at_nth nth_list_update)
next
  case (Cons b bs)
  let ?st = "store[b := so_Subtract ops (store ! b) (store ! oldest)]"
  have "\<exists>store'. subtract_all ops oldest (bs @ [oldest]) ?st = Some store' \<and> length store' = length ?st \<and>
    (\<forall>a < length ?st. store' ! a =
      (if a \<in> insert oldest (set bs) then so_Subtract ops (?st ! a) (?st ! oldest) else ?st ! a))"
    using Cons.prems by (intro Cons.IH) auto
  then show ?case using Cons.prems by (auto simp: list_at_nth nth_list_update)
qed

lemma rev_addresses: "xs \<noteq> [] \<Longrightarrow> rev (map tm_state xs) = rev (map tm_state (tl xs)) @ [tm_state (hd xs)]"
  by (cases xs) simp_all

lemma GetRemoteDiff_store:
  assumes inv: "recv_inv t" and dist: "distinct (map tm_state (tr_receivedState t))"
  obtains store where
    "GetRemoteDiff ops t = Some (so_DiffFrom ops (tr_store t ! tm_state (last (tr_receivedState t)))
       (tr_store t ! tr_lastReceiverState t),
      t\<lparr>tr_store := store, tr_lastReceiverState := tm_state (last (tr_receivedState t))\<rparr>)"
    and "\<forall>s \<in> set (tr_receivedState t). store ! tm_state s =
      so_Subtract ops (tr_store t ! tm_state s) (tr_store t ! tm_state (hd (tr_receivedState t)))"
proof -
  let ?xs = "tr_receivedState t" and ?rest = "rev (map tm_state (tl (tr_receivedState t)))"
    and ?first = "tm_state (hd (tr_receivedState t))"
  have ne: "?xs \<noteq> []" and addr: "\<forall>s \<in> set ?xs. tm_state s < length (tr_store t)"
    and lastr: "tr_lastReceiverState t < length (tr_store t)"
    using inv by (auto simp: recv_inv_def)
  have "distinct ?rest" "?first \<notin> set ?rest" using ne dist by (cases ?xs; simp)+
  moreover have "\<forall>a \<in> set ?rest. a < length (tr_store t)" "?first < length (tr_store t)"
    using ne addr by (cases ?xs; auto)+
  ultimately obtain store where st:
    "subtract_all ops ?first (rev (map tm_state ?xs)) (tr_store t) = Some store"
    "\<forall>a < length (tr_store t). store ! a = (if a \<in> insert ?first (set ?rest)
      then so_Subtract ops (tr_store t ! a) (tr_store t ! ?first) else tr_store t ! a)"
    using subtract_all_store [of ?rest ?first "tr_store t" ops] unfolding rev_addresses [OF ne] by blast
  have "tm_state (last ?xs) < length (tr_store t)" using ne addr by simp
  then have "GetRemoteDiff ops t = Some (so_DiffFrom ops (tr_store t ! tm_state (last ?xs))
      (tr_store t ! tr_lastReceiverState t),
      t\<lparr>tr_store := store, tr_lastReceiverState := tm_state (last ?xs)\<rparr>)"
    using ne st(1) lastr by (simp add: GetRemoteDiff_def list_at_last list_at_first list_at_nth)
  moreover have "tm_state s \<in> insert ?first (set ?rest)" if "s \<in> set ?xs" for s
    using that by (cases ?xs) auto
  ultimately show thesis using st(2) addr by (intro that) auto
qed

text \<open>
  C36. \<open>GetRemoteDiff\<close> hands over exactly the events that arrived since it was last called, when the newest received
  state continues the one of the last call by events that a difference can carry (first keystrokes, which are the
  clusters that \<open>uniseg\<close> finds in their text, then changes of the window size that fit into 32 bits; no keystroke
  follows a change of the size), and all received states continue the oldest one: its result, applied to any
  stream, appends them. It then cuts the known prefix off every received state and remembers the newest one.
\<close>

theorem GetRemoteDiff_events:
  assumes codec: "codec_law marshal unmarshal" and inv: "recv_inv t"
    and dist: "distinct (map tm_state (tr_receivedState t))"
    and more: "tr_store t ! tm_state (last (tr_receivedState t)) = tr_store t ! tr_lastReceiverState t @ x"
      "stable_input graphemes x"
    and known: "\<forall>s \<in> set (tr_receivedState t). \<exists>y. tr_store t ! tm_state s = p @ y"
      "tr_store t ! tm_state (hd (tr_receivedState t)) = p"
  shows "\<exists>diff t'. GetRemoteDiff (user_ops marshal unmarshal graphemes) t = Some (diff, t') \<and>
    (\<forall>q. UserStream_ApplyString unmarshal graphemes diff q = (q @ x, False)) \<and>
    tr_receivedState t' = tr_receivedState t \<and>
    (\<forall>s \<in> set (tr_receivedState t). tr_store t ! tm_state s = p @ tr_store t' ! tm_state s) \<and>
    tr_lastReceiverState t' = tm_state (last (tr_receivedState t))"
proof -
  let ?ops = "user_ops marshal unmarshal graphemes"
  obtain store where st: "GetRemoteDiff ?ops t = Some (so_DiffFrom ?ops
      (tr_store t ! tm_state (last (tr_receivedState t))) (tr_store t ! tr_lastReceiverState t),
      t\<lparr>tr_store := store, tr_lastReceiverState := tm_state (last (tr_receivedState t))\<rparr>)"
    "\<forall>s \<in> set (tr_receivedState t). store ! tm_state s =
      so_Subtract ?ops (tr_store t ! tm_state s) (tr_store t ! tm_state (hd (tr_receivedState t)))"
    using inv dist by (rule GetRemoteDiff_store)
  have "so_ApplyString ?ops (so_DiffFrom ?ops (tr_store t ! tm_state (last (tr_receivedState t)))
      (tr_store t ! tr_lastReceiverState t)) q = (q @ x, False)" for q
    using net_state.apply_diff [OF user_net_state [OF codec] more(2)] more(1) by simp
  moreover have "tr_store t ! tm_state s = p @ store ! tm_state s" if s: "s \<in> set (tr_receivedState t)" for s
    using bspec [OF known(1) s] st(2) s known(2) net_state.subtract_cat [OF user_net_state [OF codec]]
    by auto
  ultimately show ?thesis using st(1) by (auto simp: user_ops_def)
qed

lemma GetRemoteDiff_events_witness:
  "\<exists>diff t'. GetRemoteDiff sample_ops sample_recv = Some (diff, t') \<and>
    (\<forall>q. UserStream_ApplyString plain_unmarshal letters diff q =
      (q @ [UserByteType [98], UserByteType [99]], False)) \<and>
    tr_receivedState t' = tr_receivedState sample_recv \<and>
    (\<forall>s \<in> set (tr_receivedState sample_recv).
      tr_store sample_recv ! tm_state s = [UserByteType [97]] @ tr_store t' ! tm_state s) \<and>
    tr_lastReceiverState t' = tm_state (last (tr_receivedState sample_recv))"
proof -
  have "stable_input letters [UserByteType [98], UserByteType [99]]"
    unfolding stable_input_def
    by (rule exI [of _ "[[98], [99]]"], rule exI [of _ "[]"]) (simp add: letters_def utf8_def char_of_def bit_0)
  then show ?thesis
    using GetRemoteDiff_events [OF plain_codec sample_recv_inv, of "[UserByteType [98], UserByteType [99]]"
        letters "[UserByteType [97]]"]
    by (simp add: sample_recv_def sample_ops_def)
qed

end
