(* ===== verification/ParserHandlers.thy ===== *)
theory ParserHandlers
  imports ParserState
begin

text \<open>
  \<open>terminal/parser.go\<close>, second part: the methods \<open>handle_X\<close>, in the order of the source. Each makes
  the handler of one control sequence from the parameters collected so far.

  A Go handler holds a closure over the emulator; the closure is a value of type \<open>call\<close>: which
  function \<open>hdl_x\<close> of \<open>terminal/handler.go\<close> it calls, with the arguments it captured. The handler
  identifier is the name of the Go constant. A nil slice of parameters is the empty list.
\<close>

section \<open>Handlers\<close>

datatype charset =
  vt_DEC_Special | vt_DEC_Supplement | vt_DEC_Technical | vt_ISO_8859_1 | vt_ISO_UK

datatype c0_call =
  Hdl_c0_bel | Hdl_c0_cr | Hdl_c0_ht | Hdl_c0_si | Hdl_c0_so

datatype cursor_call =
  Hdl_csi_cuu int | Hdl_csi_cud int | Hdl_csi_cuf int | Hdl_csi_cub int | Hdl_csi_cup int int
| Hdl_csi_cnl int | Hdl_csi_cpl int | Hdl_csi_cha int | Hdl_csi_hpa int | Hdl_csi_hpr int
| Hdl_csi_vpa int | Hdl_csi_vpr int | Hdl_csi_cht int | Hdl_csi_cbt int | Hdl_csi_tbc int

datatype edit_call =
  Hdl_csi_ich int | Hdl_csi_il int | Hdl_csi_dl int | Hdl_csi_dch int | Hdl_csi_ech int
| Hdl_csi_ed int | Hdl_csi_el int | Hdl_csi_su int | Hdl_csi_sd int
| Hdl_csi_rep int "rune list" | Hdl_csi_decic int | Hdl_csi_decdc int | Hdl_csi_ecma48_SL int
| Hdl_csi_ecma48_SR int

datatype mode_call =
  Hdl_csi_sm "int list" | Hdl_csi_rm "int list" | Hdl_csi_privSM "int list"
| Hdl_csi_privRM "int list" | Hdl_csi_decrqm "int list" | Hdl_csi_decscl "int list"
| Hdl_csi_decscusr int | Hdl_csi_decstbm "int list" | Hdl_csi_decstr
| Hdl_csi_slrm_scosc "int list" | Hdl_csi_scorc | Hdl_csi_sgr "int list" "rune list"
| Hdl_csi_xtmodkeys "int list" | Hdl_csi_u_query "int list" | Hdl_csi_u_set int int
| Hdl_csi_u_push int | Hdl_csi_u_pop int

datatype report_call =
  Hdl_csi_priDA | Hdl_csi_secDA | Hdl_csi_dsr int | Hdl_csi_xtwinops "int list" string
| Hdl_csi_focus bool | Hdl_csi_mousetrack bool "int list"

datatype esc_call =
  Hdl_esc_bi | Hdl_esc_dcs int "charset option" | Hdl_esc_decaln | Hdl_esc_decanm compatLevel
| Hdl_esc_deckpam | Hdl_esc_deckpnm | Hdl_esc_decrc | Hdl_esc_decsc | Hdl_esc_docs_iso8859_1
| Hdl_esc_docs_utf8 | Hdl_esc_fi | Hdl_esc_hts | Hdl_esc_ind | Hdl_esc_ls1r | Hdl_esc_ls2
| Hdl_esc_ls2r | Hdl_esc_ls3 | Hdl_esc_ls3r | Hdl_esc_nel | Hdl_esc_ri | Hdl_esc_ris
| Hdl_esc_ss2 | Hdl_esc_ss3

datatype string_call =
  Hdl_dcs_decrqss string | Hdl_dcs_xtgettcap string | Hdl_osc_0_1_2 int string
| Hdl_osc_10x int string | Hdl_osc_112 int string | Hdl_osc_4 int string
| Hdl_osc_52 int string | Hdl_osc_8 int string

datatype vt52_call =
  Hdl_vt52_egm | Hdl_vt52_id

datatype call =
  Hdl_graphemes "rune list" | C0 c0_call | Cursor cursor_call | Edit edit_call | Mode mode_call
| Report report_call | Esc esc_call | Str string_call | VT52 vt52_call

record handler =
  hd_call :: call
  hd_sequence :: string
  hd_id :: string
  hd_ch :: rune

text \<open>A method returns the parser and the handler, nil when there is none; it may panic.\<close>

type_synonym parsed = "(parser \<times> handler option) option"

definition mkHandler :: "string \<Rightarrow> call \<Rightarrow> parser \<Rightarrow> handler" where
  "mkHandler i c p =
     \<lparr>hd_call = c, hd_sequence = historyString p, hd_id = i, hd_ch = ps_ch p\<rparr>"

text \<open>The two ways a method ends with a handler, and the way it ends without one.\<close>

definition finish :: "string \<Rightarrow> call \<Rightarrow> parser \<Rightarrow> parsed" where
  "finish i c p = do {
     p' \<leftarrow> setState InputState_Normal p;
     Some (p', Some (mkHandler i c p))
   }"

definition stay :: "string \<Rightarrow> call \<Rightarrow> parser \<Rightarrow> parsed" where
  "stay i c p = Some (p, Some (mkHandler i c p))"

definition skip :: "parser \<Rightarrow> parsed" where
  "skip p = do {
     p' \<leftarrow> setState InputState_Normal p;
     Some (p', None)
   }"

definition nil_slice :: "'a list option \<Rightarrow> 'a list" where
  "nil_slice xs = (case xs of None \<Rightarrow> [] | Some ys \<Rightarrow> ys)"

definition unhandledInput :: "parser \<Rightarrow> parsed" where
  "unhandledInput p = skip p"

section \<open>Methods\<close>

text \<open>The current graphemes become the last ones (for \<open>REP\<close>); the state is kept.\<close>

definition handle_Graphemes :: "parser \<Rightarrow> parsed" where
  "handle_Graphemes p =
     Some (p\<lparr>ps_lastChs := ps_chs p\<rparr>, Some (mkHandler ''Graphemes'' (Hdl_graphemes (ps_chs p)) p))"

definition handle_CUU :: "parser \<Rightarrow> parsed" where
  "handle_CUU p = do {
     num \<leftarrow> getPs 0 1 p;
     finish ''CSI_CUU'' (Cursor (Hdl_csi_cuu num)) p
   }"

definition handle_CUD :: "parser \<Rightarrow> parsed" where
  "handle_CUD p = do {
     num \<leftarrow> getPs 0 1 p;
     finish ''CSI_CUD'' (Cursor (Hdl_csi_cud num)) p
   }"

definition handle_CUF :: "parser \<Rightarrow> parsed" where
  "handle_CUF p = do {
     num \<leftarrow> getPs 0 1 p;
     finish ''CSI_CUF'' (Cursor (Hdl_csi_cuf num)) p
   }"

definition handle_CUB :: "parser \<Rightarrow> parsed" where
  "handle_CUB p = do {
     num \<leftarrow> getPs 0 1 p;
     finish ''CSI_CUB'' (Cursor (Hdl_csi_cub num)) p
   }"

definition handle_CUP :: "parser \<Rightarrow> parsed" where
  "handle_CUP p = do {
     row \<leftarrow> getPs 0 1 p;
     col \<leftarrow> getPs 1 1 p;
     finish ''CSI_CUP'' (Cursor (Hdl_csi_cup row col)) p
   }"

text \<open>
  \<open>OSC Ps ; Pt\<close>. The state goes back to Normal in every branch (a deferred call), after the
  handler was made.
\<close>

definition handle_OSC :: "parser \<Rightarrow> parsed" where
  "handle_OSC p =
     (let arg = getArg p;
          pos0 = index_from 0 CHR '';'' arg;
          hasPt = (pos0 \<noteq> - 1);
          pos = (if hasPt then nat pos0 else length arg);
          pt = (if hasPt then drop (pos + 1) arg else [])
      in case Atoi (take pos arg) of
           None \<Rightarrow> skip p
         | Some cmd \<Rightarrow>
             if cmd < 0 \<or> cmd > 120 then skip p
             else switch cmd
               [([0, 1, 2], finish ''OSC_0_1_2'' (Str (Hdl_osc_0_1_2 cmd pt))),
                ([4], finish ''OSC_4'' (Str (Hdl_osc_4 cmd pt))),
                ([52], finish ''OSC_52'' (Str (Hdl_osc_52 cmd pt))),
                ([10, 11, 12, 17, 19], finish ''OSC_10_11_12_17_19'' (Str (Hdl_osc_10x cmd pt))),
                ([112], finish ''OSC_112'' (Str (Hdl_osc_112 cmd pt))),
                ([8], finish ''OSC_8'' (Str (Hdl_osc_8 cmd pt)))]
               skip p)"

definition handle_CR :: "parser \<Rightarrow> parsed" where
  "handle_CR p =
     stay ''C0_CR'' (C0 Hdl_c0_cr) p"

definition handle_IND :: "parser \<Rightarrow> parsed" where
  "handle_IND p =
     stay ''ESC_IND'' (Esc Hdl_esc_ind) p"

definition handle_HT :: "parser \<Rightarrow> parsed" where
  "handle_HT p =
     stay ''C0_HT'' (C0 Hdl_c0_ht) p"

definition handle_BEL :: "parser \<Rightarrow> parsed" where
  "handle_BEL p =
     stay ''C0_BEL'' (C0 Hdl_c0_bel) p"

definition handle_SI :: "parser \<Rightarrow> parsed" where
  "handle_SI p =
     stay ''C0_SI'' (C0 Hdl_c0_si) p"

definition handle_SO :: "parser \<Rightarrow> parsed" where
  "handle_SO p =
     stay ''C0_SO'' (C0 Hdl_c0_so) p"

definition handle_HTS :: "parser \<Rightarrow> parsed" where
  "handle_HTS p =
     finish ''ESC_HTS'' (Esc Hdl_esc_hts) p"

definition handle_Focus :: "bool \<Rightarrow> parser \<Rightarrow> parsed" where
  "handle_Focus hasFocus p =
     finish (if hasFocus then ''CSI_FocusIn'' else ''CSI_FocusOut'') (Report (Hdl_csi_focus hasFocus)) p"

text \<open>A bare \<open>ESC [ I\<close> is three bytes long: the terminal got the focus.\<close>

definition handle_CHT_Focus :: "parser \<Rightarrow> parsed" where
  "handle_CHT_Focus p =
     (if length (historyString p) = 3 then handle_Focus True p
      else do {
        count \<leftarrow> getPs 0 1 p;
        finish ''CSI_CHT'' (Cursor (Hdl_csi_cht count)) p
      })"

definition handle_CBT :: "parser \<Rightarrow> parsed" where
  "handle_CBT p = do {
     count \<leftarrow> getPs 0 1 p;
     finish ''CSI_CBT'' (Cursor (Hdl_csi_cbt count)) p
   }"

definition handle_TBC :: "parser \<Rightarrow> parsed" where
  "handle_TBC p = do {
     cmd \<leftarrow> getPs 0 0 p;
     finish ''CSI_TBC'' (Cursor (Hdl_csi_tbc cmd)) p
   }"

definition handle_ICH :: "parser \<Rightarrow> parsed" where
  "handle_ICH p = do {
     count \<leftarrow> getPs 0 1 p;
     finish ''CSI_ICH'' (Edit (Hdl_csi_ich count)) p
   }"

definition handle_HPA :: "parser \<Rightarrow> parsed" where
  "handle_HPA p = do {
     count \<leftarrow> getPs 0 1 p;
     finish ''CSI_HPA'' (Cursor (Hdl_csi_hpa count)) p
   }"

definition handle_HPR :: "parser \<Rightarrow> parsed" where
  "handle_HPR p = do {
     count \<leftarrow> getPs 0 1 p;
     finish ''CSI_HPR'' (Cursor (Hdl_csi_hpr count)) p
   }"

definition handle_CHA :: "parser \<Rightarrow> parsed" where
  "handle_CHA p = do {
     count \<leftarrow> getPs 0 1 p;
     finish ''CSI_CHA'' (Cursor (Hdl_csi_cha count)) p
   }"

definition handle_ED :: "parser \<Rightarrow> parsed" where
  "handle_ED p = do {
     cmd \<leftarrow> getPs 0 0 p;
     finish ''CSI_ED'' (Edit (Hdl_csi_ed cmd)) p
   }"

definition handle_EL :: "parser \<Rightarrow> parsed" where
  "handle_EL p = do {
     cmd \<leftarrow> getPs 0 0 p;
     finish ''CSI_EL'' (Edit (Hdl_csi_el cmd)) p
   }"

definition handle_IL :: "parser \<Rightarrow> parsed" where
  "handle_IL p = do {
     lines \<leftarrow> getPs 0 1 p;
     finish ''CSI_IL'' (Edit (Hdl_csi_il lines)) p
   }"

definition handle_DL :: "parser \<Rightarrow> parsed" where
  "handle_DL p = do {
     lines \<leftarrow> getPs 0 1 p;
     finish ''CSI_DL'' (Edit (Hdl_csi_dl lines)) p
   }"

definition handle_DCH :: "parser \<Rightarrow> parsed" where
  "handle_DCH p = do {
     cells \<leftarrow> getPs 0 1 p;
     finish ''CSI_DCH'' (Edit (Hdl_csi_dch cells)) p
   }"

definition handle_SU :: "parser \<Rightarrow> parsed" where
  "handle_SU p = do {
     lines \<leftarrow> getPs 0 1 p;
     finish ''CSI_SU'' (Edit (Hdl_csi_su lines)) p
   }"

definition handle_SD :: "parser \<Rightarrow> parsed" where
  "handle_SD p = do {
     lines \<leftarrow> getPs 0 1 p;
     finish ''CSI_SD'' (Edit (Hdl_csi_sd lines)) p
   }"

definition handle_ECH :: "parser \<Rightarrow> parsed" where
  "handle_ECH p = do {
     num \<leftarrow> getPs 0 1 p;
     finish ''CSI_ECH'' (Edit (Hdl_csi_ech num)) p
   }"

definition handle_priDA :: "parser \<Rightarrow> parsed" where
  "handle_priDA p =
     finish ''CSI_priDA'' (Report Hdl_csi_priDA) p"

definition handle_secDA :: "parser \<Rightarrow> parsed" where
  "handle_secDA p =
     finish ''CSI_secDA'' (Report Hdl_csi_secDA) p"

definition handle_VPA :: "parser \<Rightarrow> parsed" where
  "handle_VPA p = do {
     row \<leftarrow> getPs 0 1 p;
     finish ''CSI_VPA'' (Cursor (Hdl_csi_vpa row)) p
   }"

definition handle_VPR :: "parser \<Rightarrow> parsed" where
  "handle_VPR p = do {
     row \<leftarrow> getPs 0 1 p;
     finish ''CSI_VPR'' (Cursor (Hdl_csi_vpr row)) p
   }"

definition handle_SGR :: "parser \<Rightarrow> parsed" where
  "handle_SGR p = do {
     params \<leftarrow> copyArgs p;
     spes \<leftarrow> copySeps p;
     finish ''CSI_SGR'' (Mode (Hdl_csi_sgr (case params of None \<Rightarrow> [0] | Some ps \<Rightarrow> ps) spes)) p
   }"

definition handle_DSR :: "parser \<Rightarrow> parsed" where
  "handle_DSR p = do {
     cmd \<leftarrow> getPs 0 0 p;
     finish ''CSI_DSR'' (Report (Hdl_csi_dsr cmd)) p
   }"

definition handle_SS2 :: "parser \<Rightarrow> parsed" where
  "handle_SS2 p =
     finish ''ESC_SS2'' (Esc Hdl_esc_ss2) p"

definition handle_SS3 :: "parser \<Rightarrow> parsed" where
  "handle_SS3 p =
     finish ''ESC_SS3'' (Esc Hdl_esc_ss3) p"

definition handle_LS1R :: "parser \<Rightarrow> parsed" where
  "handle_LS1R p =
     finish ''ESC_LS1R'' (Esc Hdl_esc_ls1r) p"

definition handle_LS2 :: "parser \<Rightarrow> parsed" where
  "handle_LS2 p =
     finish ''ESC_LS2'' (Esc Hdl_esc_ls2) p"

definition handle_LS2R :: "parser \<Rightarrow> parsed" where
  "handle_LS2R p =
     finish ''ESC_LS2R'' (Esc Hdl_esc_ls2r) p"

definition handle_LS3 :: "parser \<Rightarrow> parsed" where
  "handle_LS3 p =
     finish ''ESC_LS3'' (Esc Hdl_esc_ls3) p"

definition handle_LS3R :: "parser \<Rightarrow> parsed" where
  "handle_LS3R p =
     finish ''ESC_LS3R'' (Esc Hdl_esc_ls3r) p"

definition handle_DOCS_UTF8 :: "parser \<Rightarrow> parsed" where
  "handle_DOCS_UTF8 p =
     finish ''ESC_DOCS_UTF8'' (Esc Hdl_esc_docs_utf8) (p\<lparr>ps_vtMode := False\<rparr>)"

definition handle_DOCS_ISO8859_1 :: "parser \<Rightarrow> parsed" where
  "handle_DOCS_ISO8859_1 p =
     finish ''ESC_DOCS_ISO8859_1'' (Esc Hdl_esc_docs_iso8859_1) (p\<lparr>ps_vtMode := True\<rparr>)"

definition handle_RI :: "parser \<Rightarrow> parsed" where
  "handle_RI p =
     finish ''ESC_RI'' (Esc Hdl_esc_ri) p"

definition handle_NEL :: "parser \<Rightarrow> parsed" where
  "handle_NEL p =
     finish ''ESC_NEL'' (Esc Hdl_esc_nel) p"

definition handle_RIS :: "parser \<Rightarrow> parsed" where
  "handle_RIS p = finish ''ESC_RIS'' (Esc Hdl_esc_ris) (setCompatLevel CompatLevel_VT400 [] p)"

definition handle_DECSC :: "parser \<Rightarrow> parsed" where
  "handle_DECSC p =
     finish ''ESC_DECSC'' (Esc Hdl_esc_decsc) p"

definition handle_DECRC :: "parser \<Rightarrow> parsed" where
  "handle_DECRC p =
     finish ''ESC_DECRC'' (Esc Hdl_esc_decrc) p"

definition handle_DECALN :: "parser \<Rightarrow> parsed" where
  "handle_DECALN p =
     finish ''ESC_DECALN'' (Esc Hdl_esc_decaln) p"

definition handle_ESC_DCS :: "parser \<Rightarrow> parsed" where
  "handle_ESC_DCS p =
     (let (index, charset96) =
            rune_switch (ps_scsDst p)
              [(''('', (0, False)), ('')'', (1, False)), (''*'', (2, False)), (''+'', (3, False)),
               (''-'', (1, True)), (''.'', (2, True)), (''/'', (3, True))]
              (0, False);
          charset =
            rune_switch (ps_ch p)
              [(''A'', if charset96 then Some vt_ISO_8859_1 else Some vt_ISO_UK),
               (''B'', None),
               (''0'', Some vt_DEC_Special),
               (''5'', if rune_in (ps_scsMod p) ''%'' then Some vt_DEC_Supplement else None),
               (''<'', Some vt_DEC_Supplement),
               (''>'', Some vt_DEC_Technical)]
              None
      in finish ''ESC_DCS'' (Esc (Hdl_esc_dcs index charset))
           (if charset \<noteq> None then p\<lparr>ps_vtMode := True\<rparr> else p))"

definition handle_SM :: "parser \<Rightarrow> parsed" where
  "handle_SM p = do {
     params \<leftarrow> copyArgs p;
     finish ''CSI_SM'' (Mode (Hdl_csi_sm (nil_slice params))) p
   }"

definition handle_RM :: "parser \<Rightarrow> parsed" where
  "handle_RM p = do {
     params \<leftarrow> copyArgs p;
     finish ''CSI_RM'' (Mode (Hdl_csi_rm (nil_slice params))) p
   }"

definition handle_privSM :: "parser \<Rightarrow> parsed" where
  "handle_privSM p = do {
     params \<leftarrow> copyArgs p;
     finish ''CSI_privSM'' (Mode (Hdl_csi_privSM (nil_slice params)))
       (setCompatLevel CompatLevel_VT400 (nil_slice params) p)
   }"

definition handle_privRM :: "parser \<Rightarrow> parsed" where
  "handle_privRM p = do {
     params \<leftarrow> copyArgs p;
     finish ''CSI_privRM'' (Mode (Hdl_csi_privRM (nil_slice params)))
       (setCompatLevel CompatLevel_VT52 (nil_slice params) p)
   }"

definition handle_DECRQM :: "parser \<Rightarrow> parsed" where
  "handle_DECRQM p = do {
     args \<leftarrow> copyArgs p;
     let params = (case args of None \<Rightarrow> [0] | Some ps \<Rightarrow> ps);
     first \<leftarrow> list_at params 0;
     if first = 2026 then finish ''CSI_DECRQM'' (Mode (Hdl_csi_decrqm params)) p else skip p
   }"

definition handle_CSI_U_query :: "parser \<Rightarrow> parsed" where
  "handle_CSI_U_query p = do {
     params \<leftarrow> copyArgs p;
     finish ''CSI_U_QUERY'' (Mode (Hdl_csi_u_query (nil_slice params))) p
   }"

definition handle_CSI_U_set :: "parser \<Rightarrow> parsed" where
  "handle_CSI_U_set p = do {
     flags \<leftarrow> getPs 0 0 p;
     mode \<leftarrow> getPs 1 1 p;
     finish ''CSI_U_SET'' (Mode (Hdl_csi_u_set flags mode)) p
   }"

definition handle_CSI_U_push :: "parser \<Rightarrow> parsed" where
  "handle_CSI_U_push p = do {
     flags \<leftarrow> getPs 0 0 p;
     finish ''CSI_U_PUSH'' (Mode (Hdl_csi_u_push flags)) p
   }"

definition handle_CSI_U_pop :: "parser \<Rightarrow> parsed" where
  "handle_CSI_U_pop p = do {
     count \<leftarrow> getPs 0 1 p;
     finish ''CSI_U_POP'' (Mode (Hdl_csi_u_pop count)) p
   }"

definition handle_DECSTBM :: "parser \<Rightarrow> parsed" where
  "handle_DECSTBM p = do {
     params \<leftarrow> copyArgs p;
     finish ''CSI_DECSTBM'' (Mode (Hdl_csi_decstbm (nil_slice params))) p
   }"

definition handle_DECSTR :: "parser \<Rightarrow> parsed" where
  "handle_DECSTR p =
     finish ''CSI_DECSTR'' (Mode Hdl_csi_decstr) p"

definition handle_DCS :: "parser \<Rightarrow> parsed" where
  "handle_DCS p =
     (let arg = getArg p
      in if has_prefix arg ''$q'' then
           finish ''DCS_DECRQSS'' (Str (Hdl_dcs_decrqss arg))
             (if arg = ''$q\"p'' then setCompatLevel CompatLevel_VT400 [] p else p)
         else if has_prefix arg ''+q'' then
           finish ''DCS_XTGETTCAP'' (Str (Hdl_dcs_xtgettcap (drop 2 arg))) p
         else skip p)"

definition handle_SLRM_SCOSC :: "parser \<Rightarrow> parsed" where
  "handle_SLRM_SCOSC p = do {
     params \<leftarrow> copyArgs p;
     finish ''CSI_SLRM_SCOSC'' (Mode (Hdl_csi_slrm_scosc (nil_slice params))) p
   }"

definition handle_SCORC :: "parser \<Rightarrow> parsed" where
  "handle_SCORC p =
     finish ''CSI_SCORC'' (Mode Hdl_csi_scorc) p"

definition handle_DECSCL :: "parser \<Rightarrow> parsed" where
  "handle_DECSCL p = do {
     params \<leftarrow> copyArgs p;
     finish ''CSI_DECSCL'' (Mode (Hdl_csi_decscl (nil_slice params)))
       (case nil_slice params of
          [] \<Rightarrow> p
        | Pl # _ \<Rightarrow> setCompatLevel (sclCompatLevel Pl) [] p)
   }"

definition handle_DECSCUSR :: "parser \<Rightarrow> parsed" where
  "handle_DECSCUSR p = do {
     arg \<leftarrow> getPs 0 1 p;
     finish ''CSI_DECSCUSR'' (Mode (Hdl_csi_decscusr arg)) p
   }"

definition handle_DECIC :: "parser \<Rightarrow> parsed" where
  "handle_DECIC p = do {
     num \<leftarrow> getPs 0 1 p;
     finish ''CSI_DECIC'' (Edit (Hdl_csi_decic num)) p
   }"

definition handle_DECDC :: "parser \<Rightarrow> parsed" where
  "handle_DECDC p = do {
     num \<leftarrow> getPs 0 1 p;
     finish ''CSI_DECDC'' (Edit (Hdl_csi_decdc num)) p
   }"

definition handle_ecma48_SL :: "parser \<Rightarrow> parsed" where
  "handle_ecma48_SL p = do {
     arg \<leftarrow> getPs 0 1 p;
     finish ''CSI_ECMA48_SL'' (Edit (Hdl_csi_ecma48_SL arg)) p
   }"

definition handle_ecma48_SR :: "parser \<Rightarrow> parsed" where
  "handle_ecma48_SR p = do {
     arg \<leftarrow> getPs 0 1 p;
     finish ''CSI_ECMA48_SR'' (Edit (Hdl_csi_ecma48_SR arg)) p
   }"

definition handle_CNL :: "parser \<Rightarrow> parsed" where
  "handle_CNL p = do {
     arg \<leftarrow> getPs 0 1 p;
     finish ''CSI_CNL'' (Cursor (Hdl_csi_cnl arg)) p
   }"

definition handle_CPL :: "parser \<Rightarrow> parsed" where
  "handle_CPL p = do {
     arg \<leftarrow> getPs 0 1 p;
     finish ''CSI_CPL'' (Cursor (Hdl_csi_cpl arg)) p
   }"

definition handle_BI :: "parser \<Rightarrow> parsed" where
  "handle_BI p =
     finish ''ESC_BI'' (Esc Hdl_esc_bi) p"

definition handle_FI :: "parser \<Rightarrow> parsed" where
  "handle_FI p =
     finish ''ESC_FI'' (Esc Hdl_esc_fi) p"

definition handle_DECKPAM :: "parser \<Rightarrow> parsed" where
  "handle_DECKPAM p =
     finish ''ESC_DECKPAM'' (Esc Hdl_esc_deckpam) p"

definition handle_DECKPNM :: "parser \<Rightarrow> parsed" where
  "handle_DECKPNM p =
     finish ''ESC_DECKPNM'' (Esc Hdl_esc_deckpnm) p"

definition handle_DECANM :: "compatLevel \<Rightarrow> parser \<Rightarrow> parsed" where
  "handle_DECANM cl p = finish ''ESC_DECANM'' (Esc (Hdl_esc_decanm cl)) (setCompatLevel cl [] p)"

definition handle_XTWINOPS :: "parser \<Rightarrow> parsed" where
  "handle_XTWINOPS p = do {
     params \<leftarrow> copyArgs p;
     finish ''CSI_XTWINOPS'' (Report (Hdl_csi_xtwinops (nil_slice params) (historyString p))) p
   }"

definition handle_XTMODKEYS :: "parser \<Rightarrow> parsed" where
  "handle_XTMODKEYS p = do {
     params \<leftarrow> copyArgs p;
     finish ''CSI_XTMODKEYS'' (Mode (Hdl_csi_xtmodkeys (nil_slice params))) p
   }"

definition handle_REP :: "parser \<Rightarrow> parsed" where
  "handle_REP p = do {
     arg \<leftarrow> getPs 0 1 p;
     finish ''CSI_REP'' (Edit (Hdl_csi_rep arg (ps_lastChs p))) p
   }"

definition handle_EGM :: "parser \<Rightarrow> parsed" where
  "handle_EGM p =
     finish ''VT52_EGM'' (VT52 Hdl_vt52_egm) p"

definition handle_ID :: "parser \<Rightarrow> parsed" where
  "handle_ID p =
     stay ''VT52_ID'' (VT52 Hdl_vt52_id) p"

definition handle_MouseTrack :: "bool \<Rightarrow> parser \<Rightarrow> parsed" where
  "handle_MouseTrack press p = do {
     params \<leftarrow> copyArgs p;
     finish ''CSI_MOUSETRACK'' (Report (Hdl_csi_mousetrack press (nil_slice params))) p
   }"

lemmas handle_defs =
  handle_Graphemes_def handle_CUU_def handle_CUD_def handle_CUF_def handle_CUB_def
  handle_CUP_def handle_OSC_def handle_CR_def handle_IND_def handle_HT_def handle_BEL_def
  handle_SI_def handle_SO_def handle_HTS_def handle_Focus_def handle_CHT_Focus_def
  handle_CBT_def handle_TBC_def handle_ICH_def handle_HPA_def handle_HPR_def handle_CHA_def
  handle_ED_def handle_EL_def handle_IL_def handle_DL_def handle_DCH_def handle_SU_def
  handle_SD_def handle_ECH_def handle_priDA_def handle_secDA_def handle_VPA_def handle_VPR_def
  handle_SGR_def handle_DSR_def handle_SS2_def handle_SS3_def handle_LS1R_def handle_LS2_def
  handle_LS2R_def handle_LS3_def handle_LS3R_def handle_DOCS_UTF8_def handle_DOCS_ISO8859_1_def
  handle_RI_def handle_NEL_def handle_RIS_def handle_DECSC_def handle_DECRC_def
  handle_DECALN_def handle_ESC_DCS_def handle_SM_def handle_RM_def handle_privSM_def
  handle_privRM_def handle_DECRQM_def handle_CSI_U_query_def handle_CSI_U_set_def
  handle_CSI_U_push_def handle_CSI_U_pop_def handle_DECSTBM_def handle_DECSTR_def
  handle_DCS_def handle_SLRM_SCOSC_def handle_SCORC_def handle_DECSCL_def handle_DECSCUSR_def
  handle_DECIC_def handle_DECDC_def handle_ecma48_SL_def handle_ecma48_SR_def handle_CNL_def
  handle_CPL_def handle_BI_def handle_FI_def handle_DECKPAM_def handle_DECKPNM_def
  handle_DECANM_def handle_XTWINOPS_def handle_XTMODKEYS_def handle_REP_def handle_EGM_def
  handle_ID_def handle_MouseTrack_def

end
