(* ===== verification/Parser.thy ===== *)
theory Parser
  imports ParserHandlers
begin

text \<open>
  \<open>terminal/parser.go\<close>, third part: \<open>ProcessInput\<close>, one definition per input state in the order
  of its switch, and \<open>ProcessStream\<close>.

  The segmentation of a string into grapheme clusters (package \<open>uniseg\<close>) is the parameter
  \<open>graphemes\<close>: the list of the clusters, each with its runes and the position where it ends.
\<close>

section \<open>One rune\<close>

text \<open>A case that only changes the parser.\<close>

definition quiet :: "(parser \<Rightarrow> parser option) \<Rightarrow> parser \<Rightarrow> parsed" where
  "quiet f p = do {
     p' \<leftarrow> f p;
     Some (p', None)
   }"

text \<open>A case that goes on to another state after the method it calls.\<close>

definition then_state :: "(parser \<Rightarrow> parsed) \<Rightarrow> inputState \<Rightarrow> parser \<Rightarrow> parsed" where
  "then_state f s p = do {
     (p', hd) \<leftarrow> f p;
     p'' \<leftarrow> setState s p';
     Some (p'', hd)
   }"

text \<open>\<open>p.inputOps[0] = 0\<close> and \<open>p.nInputOps = 1\<close>.\<close>

definition start_params :: "parser \<Rightarrow> parser option" where
  "start_params p = do {
     ops \<leftarrow> list_put (ps_inputOps p) 0 0;
     Some (p\<lparr>ps_inputOps := ops, ps_nInputOps := 1\<rparr>)
   }"

definition input_Normal :: "rune \<Rightarrow> parser \<Rightarrow> parsed" where
  "input_Normal ch p =
     rune_switch ch
       [([CHR 0x00], quiet Some),
        ([CHR 0x1B], quiet (\<lambda>p. do {
           p1 \<leftarrow> setState (if ps_compatLevel p = CompatLevel_VT52
                          then InputState_Escape_VT52 else InputState_Escape) p;
           start_params p1
         })),
        ([CHR 0x0D], handle_CR),
        ([CHR 0x0C, CHR 0x0B, CHR 0x0A], handle_IND),
        ([CHR 0x09], handle_HT),
        ([CHR 0x08], handle_CUB),
        ([CHR 0x07], handle_BEL),
        ([CHR 0x0E], handle_SO),
        ([CHR 0x0F], handle_SI),
        ([CHR 0x05], quiet Some)]
       (\<lambda>p. handle_Graphemes (replaceHistory [ch] p)) p"

definition input_Escape_VT52 :: "rune \<Rightarrow> parser \<Rightarrow> parsed" where
  "input_Escape_VT52 ch p =
     rune_switch ch
       [([CHR 0x18, CHR 0x1A], quiet (setState InputState_Normal)),
        ([CHR 0x1B], quiet start_params),
        (''='', handle_DECKPAM),
        (''>'', handle_DECKPNM),
        (''<'', handle_DECANM CompatLevel_VT100),
        (''A'', handle_CUU),
        (''B'', handle_CUD),
        (''C'', handle_CUF),
        (''D'', handle_CUB),
        (''F'', handle_EGM),
        (''G'', handle_DOCS_UTF8),
        (''H'', handle_CUP),
        (''I'', handle_RI),
        (''J'', handle_ED),
        (''K'', handle_EL),
        (''Y'', quiet (setState InputState_VT52_CUP_Arg1)),
        (''Z'', handle_ID),
        (''c'', handle_RIS)]
       unhandledInput p"

definition input_VT52_CUP_Arg1 :: "rune \<Rightarrow> parser \<Rightarrow> parsed" where
  "input_VT52_CUP_Arg1 ch =
     quiet (\<lambda>p. do {
       ops \<leftarrow> list_put (ps_inputOps p) 0 (int ch - 31);
       setState InputState_VT52_CUP_Arg2 (p\<lparr>ps_inputOps := ops\<rparr>)
     })"

definition input_VT52_CUP_Arg2 :: "rune \<Rightarrow> parser \<Rightarrow> parsed" where
  "input_VT52_CUP_Arg2 ch p = do {
     ops \<leftarrow> list_put (ps_inputOps p) 1 (int ch - 31);
     handle_CUP (p\<lparr>ps_inputOps := ops, ps_nInputOps := 2\<rparr>)
   }"

definition input_Escape :: "rune \<Rightarrow> parser \<Rightarrow> parsed" where
  "input_Escape ch p =
     rune_switch ch
       [([CHR 0x18, CHR 0x1A], quiet (setState InputState_Normal)),
        ([CHR 0x1B], quiet start_params),
        ('' '', quiet (setState InputState_Esc_Space)),
        (''#'', quiet (setState InputState_Esc_Hash)),
        (''%'', quiet (setState InputState_Esc_Pct)),
        (''['', quiet (setState InputState_CSI)),
        ('']'', quiet (\<lambda>p. setState InputState_OSC (p\<lparr>ps_argBuf := []\<rparr>))),
        (''()*+-./,$'', quiet (\<lambda>p. setState InputState_Select_Charset
           (p\<lparr>ps_scsDst := ch, ps_scsMod := 0\<rparr>))),
        (''D'', then_state handle_IND InputState_Normal),
        (''M'', handle_RI),
        (''E'', handle_NEL),
        (''H'', handle_HTS),
        (''N'', handle_SS2),
        (''O'', handle_SS3),
        (''P'', quiet (\<lambda>p. setState InputState_DCS (p\<lparr>ps_argBuf := []\<rparr>))),
        (''c'', handle_RIS),
        (''6'', handle_BI),
        (''7'', handle_DECSC),
        (''8'', handle_DECRC),
        (''9'', handle_FI),
        (''='', handle_DECKPAM),
        (''>'', handle_DECKPNM),
        (''<'', handle_DECANM CompatLevel_VT400),
        (''~'', handle_LS1R),
        (''n'', handle_LS2),
        (''}'', handle_LS2R),
        (''o'', handle_LS3),
        (''|'', handle_LS3R),
        ([CHR 0x5C], quiet (setState InputState_Normal))]
       unhandledInput p"

definition input_Esc_Space :: "rune \<Rightarrow> parser \<Rightarrow> parsed" where
  "input_Esc_Space ch p =
     rune_switch ch [(''FGLMN'', quiet (setState InputState_Normal))] unhandledInput p"

definition input_Esc_Hash :: "rune \<Rightarrow> parser \<Rightarrow> parsed" where
  "input_Esc_Hash ch p =
     rune_switch ch
       [(''3456'', quiet (setState InputState_Normal)),
        (''8'', handle_DECALN)]
       unhandledInput p"

definition input_Esc_Pct :: "rune \<Rightarrow> parser \<Rightarrow> parsed" where
  "input_Esc_Pct ch p =
     rune_switch ch
       [(''@'', handle_DOCS_ISO8859_1),
        (''G'', handle_DOCS_UTF8)]
       unhandledInput p"

definition input_Select_Charset :: "rune \<Rightarrow> parser \<Rightarrow> parsed" where
  "input_Select_Charset ch p =
     (if ch < 0x30 then Some (p\<lparr>ps_scsMod := ch\<rparr>, None) else handle_ESC_DCS p)"

text \<open>The states that collect numeric parameters first.\<close>

definition collecting :: "(rune \<Rightarrow> parser \<Rightarrow> parsed) \<Rightarrow> rune \<Rightarrow> parser \<Rightarrow> parsed" where
  "collecting f ch p = do {
     (isNumeric, p1) \<leftarrow> collectNumericParameters ch p;
     if isNumeric then Some (p1, None) else f ch p1
   }"

text \<open>Backspace inside a control sequence undoes its last character.\<close>

definition csi_undo :: "parser \<Rightarrow> parser option" where
  "csi_undo p = do {
     r \<leftarrow> getHistoryAt 1 p;
     if rune_in r '';'' then Some (p\<lparr>ps_nInputOps := ps_nInputOps p - 1\<rparr>)
     else do {
       v \<leftarrow> list_at (ps_inputOps p) (ps_nInputOps p - 1);
       ops \<leftarrow> list_put (ps_inputOps p) (ps_nInputOps p - 1) (v div 10);
       Some (p\<lparr>ps_inputOps := ops\<rparr>)
     }
   }"

definition final_CSI :: "rune \<Rightarrow> parser \<Rightarrow> parsed" where
  "final_CSI ch p =
     rune_switch ch
       [([CHR 0x1B], quiet (setState InputState_Normal)),
        (''A'', handle_CUU),
        (''B'', handle_CUD),
        (''C'', handle_CUF),
        (''D'', handle_CUB),
        (''E'', handle_CNL),
        (''F'', handle_CPL),
        (''G'', handle_CHA),
        (''H'', handle_CUP),
        (''I'', handle_CHT_Focus),
        (''J'', handle_ED),
        (''K'', handle_EL),
        (''L'', handle_IL),
        (''M'', handle_DL),
        (''O'', handle_Focus False),
        (''P'', handle_DCH),
        (''S'', handle_SU),
        (''T^'', handle_SD),
        (''X'', handle_ECH),
        (''Z'', handle_CBT),
        (''@'', handle_ICH),
        ([CHR 0x60], handle_HPA),
        (''a'', handle_HPR),
        (''b'', handle_REP),
        (''c'', handle_priDA),
        (''d'', handle_VPA),
        (''e'', handle_VPR),
        (''g'', handle_TBC),
        (''h'', handle_SM),
        (''l'', handle_RM),
        (''m'', handle_SGR),
        (''n'', handle_DSR),
        (''r'', handle_DECSTBM),
        (''s'', handle_SLRM_SCOSC),
        (''t'', handle_XTWINOPS),
        (''u'', handle_SCORC),
        ([CHR 0x27], quiet (setState InputState_CSI_Quote)),
        ([CHR 0x22], quiet (setState InputState_CSI_DblQuote)),
        (''!'', quiet (setState InputState_CSI_Bang)),
        (''?'', quiet (setState InputState_CSI_Priv)),
        ('' '', quiet (setState InputState_CSI_SPC)),
        (''>'', quiet (setState InputState_CSI_GT)),
        (''<'', quiet (setState InputState_CSI_LT)),
        (''='', quiet (setState InputState_CSI_Equal)),
        ([CHR 0x07], quiet Some),
        ([CHR 0x08], quiet csi_undo),
        ([CHR 0x09], then_state handle_HT InputState_CSI),
        ([CHR 0x0D], then_state handle_CR InputState_CSI),
        ([CHR 0x0C, CHR 0x0B], then_state handle_IND InputState_CSI)]
       unhandledInput p"

definition input_CSI :: "rune \<Rightarrow> parser \<Rightarrow> parsed" where
  "input_CSI = collecting final_CSI"

definition input_CSI_Equal :: "rune \<Rightarrow> parser \<Rightarrow> parsed" where
  "input_CSI_Equal = collecting (\<lambda>ch. rune_switch ch [(''u'', handle_CSI_U_set)] unhandledInput)"

definition input_CSI_Bang :: "rune \<Rightarrow> parser \<Rightarrow> parsed" where
  "input_CSI_Bang ch p = rune_switch ch [(''p'', handle_DECSTR)] unhandledInput p"

definition input_CSI_Quote :: "rune \<Rightarrow> parser \<Rightarrow> parsed" where
  "input_CSI_Quote ch p =
     rune_switch ch [(''}'', handle_DECIC), (''~'', handle_DECDC)] unhandledInput p"

definition input_CSI_DblQuote :: "rune \<Rightarrow> parser \<Rightarrow> parsed" where
  "input_CSI_DblQuote ch p = rune_switch ch [(''p'', handle_DECSCL)] unhandledInput p"

definition input_CSI_SPC :: "rune \<Rightarrow> parser \<Rightarrow> parsed" where
  "input_CSI_SPC ch p =
     rune_switch ch
       [(''@'', handle_ecma48_SL), (''A'', handle_ecma48_SR), (''q'', handle_DECSCUSR)]
       unhandledInput p"

definition input_CSI_GT :: "rune \<Rightarrow> parser \<Rightarrow> parsed" where
  "input_CSI_GT = collecting (\<lambda>ch. rune_switch ch
     [(''c'', handle_secDA), (''m'', handle_XTMODKEYS), (''u'', handle_CSI_U_push)] unhandledInput)"

definition input_CSI_LT :: "rune \<Rightarrow> parser \<Rightarrow> parsed" where
  "input_CSI_LT = collecting (\<lambda>ch. rune_switch ch
     [(''M'', handle_MouseTrack True), (''m'', handle_MouseTrack False), (''u'', handle_CSI_U_pop)]
     unhandledInput)"

definition WriteRune :: "rune \<Rightarrow> parser \<Rightarrow> parser" where
  "WriteRune r p = p\<lparr>ps_argBuf := ps_argBuf p @ utf8 r\<rparr>"

definition reset_arg :: "(parser \<Rightarrow> parsed) \<Rightarrow> parser \<Rightarrow> parsed" where
  "reset_arg f p = do {
     (p', hd) \<leftarrow> f p;
     Some (p'\<lparr>ps_argBuf := []\<rparr>, hd)
   }"

definition input_CSI_Priv :: "rune \<Rightarrow> parser \<Rightarrow> parsed" where
  "input_CSI_Priv = collecting (\<lambda>ch. rune_switch ch
     [([CHR 0x1B], quiet (setState InputState_Normal)),
      (''h'', handle_privSM),
      (''l'', handle_privRM),
      (''u'', handle_CSI_U_query),
      (''$'', quiet (\<lambda>p. Some (WriteRune ch p))),
      (''p'', reset_arg (\<lambda>p.
         let p1 = WriteRune ch p
         in if ps_argBuf p1 = ''$p'' then handle_DECRQM p1 else unhandledInput p1))]
     unhandledInput)"

text \<open>The default case of \<open>DCS\<close> and \<open>OSC\<close>: the argument grows up to a limit.\<close>

definition arg_rune :: "rune \<Rightarrow> parser \<Rightarrow> parser option" where
  "arg_rune ch p =
     (if length (ps_argBuf p) < 4095 then Some (WriteRune ch p)
      else setState InputState_Normal p)"

definition input_DCS :: "rune \<Rightarrow> parser \<Rightarrow> parsed" where
  "input_DCS ch p =
     rune_switch ch [([CHR 0x1B], quiet (setState InputState_DCS_Esc))] (quiet (arg_rune ch)) p"

definition input_DCS_Esc :: "rune \<Rightarrow> parser \<Rightarrow> parsed" where
  "input_DCS_Esc ch p =
     rune_switch ch
       [([CHR 0x5C], reset_arg handle_DCS)]
       (quiet (\<lambda>p. setState InputState_DCS (WriteRune ch (WriteRune 0x1B p)))) p"

definition input_OSC :: "rune \<Rightarrow> parser \<Rightarrow> parsed" where
  "input_OSC ch p =
     rune_switch ch
       [([CHR 0x07], reset_arg handle_OSC),
        ([CHR 0x1B], quiet (setState InputState_OSC_Esc))]
       (quiet (arg_rune ch)) p"

definition input_OSC_Esc :: "rune \<Rightarrow> parser \<Rightarrow> parsed" where
  "input_OSC_Esc ch p =
     rune_switch ch
       [([CHR 0x5C], reset_arg handle_OSC)]
       (quiet (\<lambda>p. setState InputState_OSC (WriteRune ch (WriteRune 0x1B p)))) p"

definition input_in :: "inputState \<Rightarrow> rune \<Rightarrow> parser \<Rightarrow> parsed" where
  "input_in s =
     (case s of
        InputState_Normal \<Rightarrow> input_Normal
      | InputState_Escape_VT52 \<Rightarrow> input_Escape_VT52
      | InputState_VT52_CUP_Arg1 \<Rightarrow> input_VT52_CUP_Arg1
      | InputState_VT52_CUP_Arg2 \<Rightarrow> input_VT52_CUP_Arg2
      | InputState_Escape \<Rightarrow> input_Escape
      | InputState_Esc_Space \<Rightarrow> input_Esc_Space
      | InputState_Esc_Hash \<Rightarrow> input_Esc_Hash
      | InputState_Esc_Pct \<Rightarrow> input_Esc_Pct
      | InputState_Select_Charset \<Rightarrow> input_Select_Charset
      | InputState_CSI \<Rightarrow> input_CSI
      | InputState_CSI_Equal \<Rightarrow> input_CSI_Equal
      | InputState_CSI_Bang \<Rightarrow> input_CSI_Bang
      | InputState_CSI_Quote \<Rightarrow> input_CSI_Quote
      | InputState_CSI_DblQuote \<Rightarrow> input_CSI_DblQuote
      | InputState_CSI_SPC \<Rightarrow> input_CSI_SPC
      | InputState_CSI_GT \<Rightarrow> input_CSI_GT
      | InputState_CSI_LT \<Rightarrow> input_CSI_LT
      | InputState_CSI_Priv \<Rightarrow> input_CSI_Priv
      | InputState_DCS \<Rightarrow> input_DCS
      | InputState_DCS_Esc \<Rightarrow> input_DCS_Esc
      | InputState_OSC \<Rightarrow> input_OSC
      | InputState_OSC_Esc \<Rightarrow> input_OSC_Esc)"

text \<open>
  Several runes are one grapheme cluster and are printed in any state; one rune is dispatched on
  the state; the deferred function marks the handler as ready.
\<close>

definition mark_ready :: "parsed \<Rightarrow> parsed" where
  "mark_ready r = do {
     (p, hd) \<leftarrow> r;
     Some (case hd of None \<Rightarrow> p | Some _ \<Rightarrow> p\<lparr>ps_handleReady := True\<rparr>, hd)
   }"

definition ProcessInput :: "rune list \<Rightarrow> parser \<Rightarrow> parsed" where
  "ProcessInput chs p =
     mark_ready (case chs of
        [] \<Rightarrow> Some (p, None)
      | [ch] \<Rightarrow>
          (let p1 = p\<lparr>ps_chs := [ch]\<rparr>;
               p2 = (if ps_handleReady p1 then resetHistory p1\<lparr>ps_handleReady := False\<rparr> else p1);
               p3 = (appendToHistory ch p2)\<lparr>ps_ch := ch\<rparr>
           in input_in (ps_inputState p3) ch p3)
      | _ \<Rightarrow> handle_Graphemes (replaceHistory chs (p\<lparr>ps_chs := chs\<rparr>)))"

section \<open>A string\<close>

definition append_handler :: "handler option list \<Rightarrow> handler option \<Rightarrow> handler option list" where
  "append_handler hds h = (case h of None \<Rightarrow> hds | Some _ \<Rightarrow> hds @ [h])"

text \<open>
  The loop over raw bytes. It ends with the last byte, or with the byte that switches to UTF-8;
  the results are the handlers, what is left of the string and the flag \<open>end\<close>.
\<close>

fun vt_bytes ::
  "string \<Rightarrow> parser \<Rightarrow> handler option list \<Rightarrow> (parser \<times> handler option list \<times> string \<times> bool) option" where
  "vt_bytes [] p hds = Some (p, hds, [], False)"
| "vt_bytes (c # str) p hds = do {
     (p1, hd) \<leftarrow> ProcessInput [of_char c] p;
     let hds1 = append_handler hds hd;
     if \<not> ps_vtMode p1 \<or> str = [] then Some (p1, hds1, str, str = [])
     else vt_bytes str p1 hds1
   }"

text \<open>
  The loop over grapheme clusters. The cluster CR LF is split, and what \<open>ProcessInput\<close> returns
  for its two runes is appended even when it is nil.
\<close>

fun utf8_clusters ::
  "string \<Rightarrow> (rune list \<times> nat) list \<Rightarrow> parser \<Rightarrow> handler option list
     \<Rightarrow> (parser \<times> handler option list \<times> string \<times> bool) option" where
  "utf8_clusters str [] p hds = Some (p, hds, str, False)"
| "utf8_clusters str ((input, to) # gs) p hds = do {
     (p1, hds1) \<leftarrow>
       (if input = [0x0D, 0x0A] then do {
          (pa, ha) \<leftarrow> ProcessInput [0x0D] p;
          (pb, hb) \<leftarrow> ProcessInput [0x0A] pa;
          Some (pb, hds @ [ha, hb])
        }
        else do {
          (pa, ha) \<leftarrow> ProcessInput input p;
          Some (pa, append_handler hds ha)
        });
     if ps_vtMode p1 then Some (p1, hds1, drop to str, to = length str)
     else if gs = [] then Some (p1, hds1, str, to = length str)
     else utf8_clusters str gs p1 hds1
   }"

text \<open>
  The outer loop runs until \<open>end\<close> is set. \<open>None\<close> also stands for a loop that never ends, as the
  one over an empty string.
\<close>

partial_function (option) processStream ::
  "(string \<Rightarrow> (rune list \<times> nat) list) \<Rightarrow> string \<Rightarrow> parser \<Rightarrow> handler option list
     \<Rightarrow> (parser \<times> handler option list) option" where
  "processStream graphemes str p hds = do {
     (p1, hds1, rest, finished) \<leftarrow>
       (if ps_vtMode p then vt_bytes str p hds else utf8_clusters str (graphemes str) p hds);
     if finished then Some (p1, hds1) else processStream graphemes rest p1 hds1
   }"

definition ProcessStream ::
  "(string \<Rightarrow> (rune list \<times> nat) list) \<Rightarrow> string \<Rightarrow> parser
     \<Rightarrow> (parser \<times> handler option list) option" where
  "ProcessStream graphemes seq p =
     (if seq = [] then Some (p, []) else processStream graphemes seq p [])"

end
