(* ===== verification/ParserInv.thy ===== *)
theory ParserInv
  imports Parser
begin

text \<open>
  The invariant of the parser of \<open>terminal/parser.go\<close>: the parameter slices keep their length, the
  number of parameters stays in range, and it is at least one in every state of an escape
  sequence. Every method keeps it and none of them panics, with one exception: a backspace inside
  a control sequence looks back into the history, which has to reach far enough (\<open>can_undo\<close>).
\<close>

named_theorems parser_good "the methods keep the well-formed parser"

definition parser_wf :: "parser \<Rightarrow> bool" where
  "parser_wf p \<longleftrightarrow>
     length (ps_inputOps p) = 16 \<and> length (ps_inputSep p) = 16 \<and> ps_maxEscOps p = 16 \<and>
     0 \<le> ps_nInputOps p \<and> ps_nInputOps p \<le> 16 \<and>
     (ps_inputState p \<noteq> InputState_Normal \<longrightarrow> 1 \<le> ps_nInputOps p) \<and>
     length (ps_history p) \<le> 4097"

definition good :: "rune \<Rightarrow> parser \<Rightarrow> parsed \<Rightarrow> bool" where
  "good ch p r \<longleftrightarrow> ok r (\<lambda>(p', h). parser_wf p' \<and>
     (h = None \<longrightarrow> ps_history p' = ps_history p \<and> ps_handleReady p' = ps_handleReady p \<and>
        (ch = 59 \<and> ps_inputState p' = InputState_CSI \<longrightarrow> 2 \<le> ps_nInputOps p')))"

lemma ok_setState:
  assumes "parser_wf p" and "s = InputState_Normal \<or> ps_inputState p \<noteq> InputState_Normal"
  shows "ok (setState s p) (\<lambda>p'. parser_wf p' \<and> ps_inputState p' = s \<and>
    ps_history p' = ps_history p \<and> ps_handleReady p' = ps_handleReady p)"
  using assms by (auto simp: setState_def parser_wf_def ok_rules)

lemma good_finish [parser_good]: "parser_wf p' \<Longrightarrow> good ch p (finish i c p')"
  using ok_setState [of p' InputState_Normal]
  by (auto simp: good_def finish_def ok_iff)

lemma good_skip [parser_good]:
  "parser_wf p' \<Longrightarrow> ps_history p' = ps_history p \<Longrightarrow> ps_handleReady p' = ps_handleReady p \<Longrightarrow>
    good ch p (skip p')"
  using ok_setState [of p' InputState_Normal]
  by (auto simp: good_def skip_def ok_iff)

lemma good_stay [parser_good]: "parser_wf p' \<Longrightarrow> good ch p (stay i c p')"
  by (simp add: good_def stay_def)

lemma good_getPs [parser_good]:
  assumes "parser_wf p'" and "0 \<le> n" and "\<And>v. good ch p (f v)"
  shows "good ch p (getPs n d p' \<bind> f)"
  using assms by (auto simp: getPs_def list_at_def parser_wf_def)

lemma good_copyArgs [parser_good]:
  assumes "parser_wf p'" and "\<And>v. v \<noteq> Some [] \<or> ps_nInputOps p' = 0 \<Longrightarrow> good ch p (f v)"
  shows "good ch p (copyArgs p' \<bind> f)"
proof -
  have "\<exists>v. copyArgs p' = Some v \<and> (v = Some [] \<longrightarrow> ps_nInputOps p' = 0)"
    using assms(1) by (auto simp: copyArgs_def list_at_def make_copy_def parser_wf_def)
  then show ?thesis using assms(2) by auto
qed

lemma good_copySeps [parser_good]:
  assumes "parser_wf p'" and "\<And>v. good ch p (f v)"
  shows "good ch p (copySeps p' \<bind> f)"
  using assms by (auto simp: copySeps_def list_at_def make_copy_def parser_wf_def)

lemma parser_wf_setCompatLevel [simp]:
  "parser_wf (setCompatLevel cl ps p) = parser_wf p"
  by (simp add: setCompatLevel_def parser_wf_def)

lemma parser_wf_updates [simp]:
  "parser_wf (p\<lparr>ps_vtMode := b\<rparr>) = parser_wf p"
  "parser_wf (p\<lparr>ps_argBuf := s\<rparr>) = parser_wf p"
  "parser_wf (p\<lparr>ps_lastChs := cs\<rparr>) = parser_wf p"
  "parser_wf (p\<lparr>ps_scsDst := r\<rparr>) = parser_wf p"
  "parser_wf (p\<lparr>ps_scsMod := r\<rparr>) = parser_wf p"
  "parser_wf (p\<lparr>ps_chs := cs\<rparr>) = parser_wf p"
  "parser_wf (p\<lparr>ps_handleReady := b\<rparr>) = parser_wf p"
  by (simp_all add: parser_wf_def)

lemma good_quiet_setState [parser_good]:
  assumes "parser_wf p'" and "ps_inputState p' \<noteq> InputState_Normal" and "s = InputState_CSI \<Longrightarrow> ch \<noteq> 59"
    and "ps_history p' = ps_history p" and "ps_handleReady p' = ps_handleReady p"
  shows "good ch p (quiet (setState s) p')"
  using assms ok_setState [of p' s] by (auto simp: good_def quiet_def ok_iff)

lemma good_quiet_Some [parser_good]:
  "parser_wf p \<Longrightarrow> ch \<noteq> 59 \<Longrightarrow> good ch p (quiet Some p)"
  by (simp add: good_def quiet_def)

lemma good_then_stay [parser_good]:
  assumes "parser_wf p'" and "ps_inputState p' \<noteq> InputState_Normal" and "\<And>q. f q = stay i c q"
  shows "good ch p (then_state f s p')"
  using assms ok_setState [of p' s]
  by (auto simp: then_state_def stay_def good_def ok_iff)

text \<open>Backspace is safe when the history reaches back to the byte it undoes.\<close>

definition undo_ok :: "parser \<Rightarrow> bool" where
  "undo_ok p \<longleftrightarrow>
     2 \<le> length (ps_history p) \<and> (rev (ps_history p) ! 1 = 59 \<longrightarrow> 2 \<le> ps_nInputOps p)"

lemma good_undo [parser_good]:
  assumes "parser_wf p" and "ps_inputState p \<noteq> InputState_Normal" and "ch \<noteq> 59" and "undo_ok p"
  shows "good ch p (quiet csi_undo p)"
  using assms
  by (auto simp: good_def quiet_def csi_undo_def getHistoryAt_def undo_ok_def rune_in_def
      parser_wf_def ok_rules)

lemma final_CSI_good:
  assumes "parser_wf p" and "ps_inputState p = InputState_CSI" and "ch \<noteq> 59"
    and "ch = 8 \<Longrightarrow> undo_ok p"
  shows "good ch p (final_CSI ch p)"
  unfolding final_CSI_def
  by (rule rune_switch_cases [where P = "\<lambda>f. good ch p (f p)"])
    (use assms in \<open>auto simp: handle_defs unhandledInput_def rune_in_def intro!: parser_good\<close>)

lemma collecting_good:
  assumes "parser_wf p" and "ps_inputState p \<noteq> InputState_Normal"
    and "ch \<noteq> 59 \<Longrightarrow> good ch p (f ch p)"
  shows "good ch p (collecting f ch p)"
proof -
  consider (digit) "48 \<le> ch \<and> ch \<le> 57" | (sep) "\<not> (48 \<le> ch \<and> ch \<le> 57)" "rune_in ch '';:''"
    | (other) "\<not> (48 \<le> ch \<and> ch \<le> 57)" "\<not> rune_in ch '';:''" by blast
  then show ?thesis
  proof cases
    case other
    then have "ch \<noteq> 59" "collectNumericParameters ch p = Some (False, p)"
      by (auto simp: rune_in_def collectNumericParameters_def)
    then show ?thesis using assms(3) by (simp add: collecting_def)
  next
    case sep
    then show ?thesis
      using assms(1,2)
      by (auto simp: collecting_def collectNumericParameters_def good_def setState_def
          parser_wf_def ok_rules)
  next
    case digit
    then show ?thesis
      using assms(1,2)
      by (auto simp: collecting_def collectNumericParameters_def good_def setState_def
          parser_wf_def Let_def ok_rules)
  qed
qed

lemma parser_wf_replaceHistory [simp]:
  "parser_wf p \<Longrightarrow> parser_wf (replaceHistory chs p)"
proof -
  have "parser_wf (fold appendToHistory chs p)" if "parser_wf p" for p chs
    using that by (induction chs arbitrary: p) (auto simp: appendToHistory_def parser_wf_def)
  moreover have "parser_wf p \<Longrightarrow> parser_wf (resetHistory p)"
    by (simp add: resetHistory_def parser_wf_def)
  ultimately show "parser_wf p \<Longrightarrow> parser_wf (replaceHistory chs p)"
    by (simp add: replaceHistory_def)
qed

lemma good_Graphemes [parser_good]: "parser_wf p' \<Longrightarrow> good ch p (handle_Graphemes p')"
  by (simp add: handle_Graphemes_def good_def)

lemma good_reset_arg [parser_good]: "good ch p (f p') \<Longrightarrow> good ch p (reset_arg f p')"
  by (auto simp: good_def reset_arg_def ok_iff)

lemma good_quiet_upd [parser_good]:
  assumes "parser_wf (g p')" and "ps_inputState (g p') \<noteq> InputState_Normal"
    and "s = InputState_CSI \<Longrightarrow> ch \<noteq> 59"
    and "ps_history (g p') = ps_history p" and "ps_handleReady (g p') = ps_handleReady p"
  shows "good ch p (quiet (\<lambda>p. setState s (g p)) p')"
  using assms ok_setState [of "g p'" s] by (auto simp: good_def quiet_def ok_iff)

lemma good_start [parser_good]:
  assumes "parser_wf p" and "ch \<noteq> 59"
  shows "good ch p (quiet start_params p)"
  using assms by (auto simp: good_def quiet_def start_params_def parser_wf_def ok_rules)

lemma input_Normal_good:
  assumes "parser_wf p"
  shows "good ch p (input_Normal ch p)"
  unfolding input_Normal_def
proof (rule rune_switch_cases [where P = "\<lambda>f. good ch p (f p)"], goal_cases)
  case 1
  have "good ch p (quiet (\<lambda>p. setState (if ps_compatLevel p = CompatLevel_VT52
      then InputState_Escape_VT52 else InputState_Escape) p \<bind> start_params) p)"
    if "rune_in ch [CHR 0x1B]"
    using assms that
    by (auto simp: good_def quiet_def start_params_def setState_def parser_wf_def rune_in_def ok_rules)
  then show ?case
    using assms
    by (auto simp: handle_defs rune_in_def intro!: parser_good)
qed (use assms in \<open>auto intro!: parser_good\<close>)

lemma input_Escape_good:
  assumes "parser_wf p" and "ps_inputState p \<noteq> InputState_Normal"
  shows "good ch p (input_Escape ch p)" and "good ch p (input_Escape_VT52 ch p)"
  unfolding input_Escape_def input_Escape_VT52_def
  by (rule rune_switch_cases [where P = "\<lambda>f. good ch p (f p)"];
      use assms in \<open>auto simp: handle_defs unhandledInput_def rune_in_def intro!: parser_good\<close>)+

lemma input_short_good:
  assumes "parser_wf p" and "ps_inputState p \<noteq> InputState_Normal"
  shows "good ch p (input_Esc_Space ch p)" and "good ch p (input_Esc_Hash ch p)"
    and "good ch p (input_Esc_Pct ch p)" and "good ch p (input_Select_Charset ch p)"
    and "good ch p (input_CSI_Bang ch p)" and "good ch p (input_CSI_Quote ch p)"
    and "good ch p (input_CSI_DblQuote ch p)" and "good ch p (input_CSI_SPC ch p)"
  unfolding input_Esc_Space_def input_Esc_Hash_def input_Esc_Pct_def input_Select_Charset_def
    input_CSI_Bang_def input_CSI_Quote_def input_CSI_DblQuote_def input_CSI_SPC_def
  by (use assms in \<open>auto simp: handle_defs unhandledInput_def rune_in_def Let_def good_def [of _ _ "Some _"]
      split: prod.split list.split intro!: parser_good\<close>; fail)+

lemma good_WriteRune [simp]:
  "parser_wf (WriteRune r p) = parser_wf p"
  "ps_history (WriteRune r p) = ps_history p" "ps_handleReady (WriteRune r p) = ps_handleReady p"
  "ps_inputState (WriteRune r p) = ps_inputState p" "ps_nInputOps (WriteRune r p) = ps_nInputOps p"
  by (simp_all add: WriteRune_def)

lemma good_DECRQM [parser_good]:
  assumes "parser_wf p'" and "ps_inputState p' \<noteq> InputState_Normal"
    and "ps_history p' = ps_history p" and "ps_handleReady p' = ps_handleReady p"
  shows "good ch p (handle_DECRQM p')"
  unfolding handle_DECRQM_def
proof (rule good_copyArgs [OF assms(1)])
  fix v :: "int list option" assume v: "v \<noteq> Some [] \<or> ps_nInputOps p' = 0"
  moreover have "1 \<le> ps_nInputOps p'" using assms by (simp add: parser_wf_def)
  ultimately have "v \<noteq> Some []" by auto
  then show "good ch p (let params = case v of None \<Rightarrow> [0] | Some ps \<Rightarrow> ps in
      list_at params 0 \<bind> (\<lambda>first. if first = 2026
        then finish ''CSI_DECRQM'' (Mode (Hdl_csi_decrqm params)) p' else skip p'))"
    using assms by (auto simp: list_at_def split: option.split intro!: parser_good)
qed

lemma good_OSC [parser_good]:
  assumes "parser_wf p"
  shows "good ch p (handle_OSC p)" and "good ch p (handle_DCS p)"
proof -
  show "good ch p (handle_OSC p)"
    unfolding handle_OSC_def Let_def
    using assms
    by (auto simp: split: option.split intro!: parser_good
        switch_cases [where P = "\<lambda>f. good ch p (f p)"])
  show "good ch p (handle_DCS p)"
    using assms by (auto simp: handle_DCS_def Let_def intro!: parser_good)
qed

lemma good_arg_rune [parser_good]:
  assumes "parser_wf p" and "ps_inputState p \<noteq> InputState_Normal" and "ps_inputState p \<noteq> InputState_CSI"
  shows "good ch p (quiet (arg_rune ch) p)"
  using assms ok_setState [of p InputState_Normal]
  by (auto simp: arg_rune_def quiet_def good_def ok_iff)

lemma good_quiet_WriteRune [parser_good]:
  "parser_wf p \<Longrightarrow> ch \<noteq> 59 \<Longrightarrow> good ch p (quiet (\<lambda>p. Some (WriteRune r p)) p)"
  by (simp add: good_def quiet_def)

lemma input_string_good:
  assumes "parser_wf p" and "ps_inputState p \<noteq> InputState_Normal" and "ps_inputState p \<noteq> InputState_CSI"
  shows "good ch p (input_DCS ch p)" and "good ch p (input_DCS_Esc ch p)"
    and "good ch p (input_OSC ch p)" and "good ch p (input_OSC_Esc ch p)"
  unfolding input_DCS_def input_DCS_Esc_def input_OSC_def input_OSC_Esc_def
  by (use assms in \<open>auto simp: rune_in_def intro!: parser_good\<close>; fail)+

lemma input_collecting_good:
  assumes "parser_wf p" and "ps_inputState p \<noteq> InputState_Normal" and "ps_inputState p \<noteq> InputState_CSI"
  shows "good ch p (input_CSI_Equal ch p)" and "good ch p (input_CSI_GT ch p)"
    and "good ch p (input_CSI_LT ch p)" and "good ch p (input_CSI_Priv ch p)"
  unfolding input_CSI_Equal_def input_CSI_GT_def input_CSI_LT_def input_CSI_Priv_def
  by (rule collecting_good;
      use assms in \<open>auto simp: handle_defs unhandledInput_def rune_in_def Let_def
        intro!: parser_good simp del: handle_DECRQM_def\<close>)+

lemma input_VT52_good:
  assumes "parser_wf p" and "ps_inputState p \<noteq> InputState_Normal" and "ps_inputState p \<noteq> InputState_CSI"
  shows "good ch p (input_VT52_CUP_Arg1 ch p)" and "good ch p (input_VT52_CUP_Arg2 ch p)"
  unfolding input_VT52_CUP_Arg1_def input_VT52_CUP_Arg2_def
proof -
  let ?p = "\<lambda>i. p\<lparr>ps_inputOps := (ps_inputOps p)[i := int ch - 31]\<rparr>"
  have wf: "parser_wf (?p i)" for i using assms(1) by (simp add: parser_wf_def)
  have put: "list_put (ps_inputOps p) (int i) v = Some ((ps_inputOps p)[i := v])" if "i < 16" for i v
    using assms(1) that by (simp add: list_put_def parser_wf_def)
  show "good ch p (quiet (\<lambda>p. do {
      ops \<leftarrow> list_put (ps_inputOps p) 0 (int ch - 31);
      setState InputState_VT52_CUP_Arg2 (p\<lparr>ps_inputOps := ops\<rparr>)}) p)"
    using put [of 0] ok_setState [OF wf [of 0], of InputState_VT52_CUP_Arg2] assms(2)
    by (auto simp: quiet_def good_def ok_iff)
  have "parser_wf ((?p 1)\<lparr>ps_nInputOps := 2\<rparr>)" using assms(1) by (simp add: parser_wf_def)
  then show "good ch p (do {
      ops \<leftarrow> list_put (ps_inputOps p) 1 (int ch - 31);
      handle_CUP (p\<lparr>ps_inputOps := ops, ps_nInputOps := 2\<rparr>)})"
    using put [of 1] by (auto simp: handle_CUP_def intro!: parser_good)
qed

lemma input_in_good:
  assumes "parser_wf p" and "ps_inputState p = InputState_CSI \<Longrightarrow> ch = 8 \<Longrightarrow> undo_ok p"
  shows "good ch p (input_in (ps_inputState p) ch p)"
  using assms
  by (cases "ps_inputState p")
    (simp_all add: input_in_def input_Normal_good input_Escape_good input_short_good
      input_string_good input_collecting_good input_VT52_good input_CSI_def collecting_good
      final_CSI_good)

definition parser_inv :: "parser \<Rightarrow> bool" where
  "parser_inv p \<longleftrightarrow> parser_wf p \<and>
     (ps_inputState p = InputState_CSI \<and> \<not> ps_handleReady p \<longrightarrow> ps_history p \<noteq> [] \<and>
        (length (ps_history p) < 4097 \<and> last (ps_history p) = 59 \<longrightarrow> 2 \<le> ps_nInputOps p))"

definition can_undo :: "rune list \<Rightarrow> parser \<Rightarrow> bool" where
  "can_undo chs p \<longleftrightarrow>
     (chs = [8] \<and> ps_inputState p = InputState_CSI \<longrightarrow>
        \<not> ps_handleReady p \<and> length (ps_history p) < 4097)"

lemma ProcessInput_one:
  assumes "parser_inv p" and "can_undo [ch] p"
  shows "ok (ProcessInput [ch] p) (\<lambda>(p', h). parser_inv p')"
proof -
  let ?p1 = "p\<lparr>ps_chs := [ch]\<rparr>"
  let ?p2 = "if ps_handleReady ?p1 then resetHistory ?p1\<lparr>ps_handleReady := False\<rparr> else ?p1"
  let ?p3 = "(appendToHistory ch ?p2)\<lparr>ps_ch := ch\<rparr>"
  have wf: "parser_wf ?p3"
    using assms(1) by (auto simp: parser_inv_def parser_wf_def appendToHistory_def resetHistory_def)
  have ready: "\<not> ps_handleReady ?p3" and st: "ps_inputState ?p3 = ps_inputState p"
    by (auto simp: appendToHistory_def resetHistory_def)
  have hist: "ps_history ?p3 \<noteq> []" "length (ps_history ?p3) < 4097 \<Longrightarrow> last (ps_history ?p3) = ch"
    using assms(1) by (auto simp: appendToHistory_def resetHistory_def)
  have "undo_ok ?p3" if "ps_inputState ?p3 = InputState_CSI" "ch = 8"
  proof -
    have "ps_inputState p = InputState_CSI" using that(1) st by simp
    then have "\<not> ps_handleReady p" "length (ps_history p) < 4097" "ps_history p \<noteq> []"
      "last (ps_history p) = 59 \<Longrightarrow> 2 \<le> ps_nInputOps p"
      using assms that(2) by (auto simp: can_undo_def parser_inv_def)
    then show ?thesis
      by (cases "ps_history p" rule: rev_cases) (auto simp: undo_ok_def appendToHistory_def)
  qed
  then have "good ch ?p3 (input_in (ps_inputState ?p3) ch ?p3)"
    by (rule input_in_good [OF wf])
  then obtain q h where q: "input_in (ps_inputState ?p3) ch ?p3 = Some (q, h)"
    and g: "good ch ?p3 (Some (q, h))"
    by (auto simp: good_def ok_iff)
  have "ProcessInput [ch] p =
      Some (case h of None \<Rightarrow> q | Some _ \<Rightarrow> q\<lparr>ps_handleReady := True\<rparr>, h)"
    using q by (simp add: ProcessInput_def mark_ready_def Let_def)
  moreover have "parser_inv (case h of None \<Rightarrow> q | Some _ \<Rightarrow> q\<lparr>ps_handleReady := True\<rparr>)"
    using g hist ready by (cases h) (auto simp: good_def parser_inv_def parser_wf_def)
  ultimately show ?thesis by simp
qed

lemma ProcessInput_ok:
  assumes "parser_inv p" and "can_undo chs p"
  shows "ok (ProcessInput chs p) (\<lambda>(p', h). parser_inv p')"
proof -
  consider "chs = []" | ch where "chs = [ch]" | c d cs where "chs = c # d # cs"
    by (metis list.exhaust)
  then show ?thesis
  proof cases
    case 1
    then show ?thesis using assms by (simp add: ProcessInput_def mark_ready_def)
  next
    case 2
    then show ?thesis using assms ProcessInput_one by simp
  next
    case 3
    then show ?thesis using assms(1)
      by (simp add: ProcessInput_def mark_ready_def handle_Graphemes_def parser_inv_def)
  qed
qed

end
