(* ===== verification/ParserProps.thy ===== *)
theory ParserProps
  imports ParserInv
begin

text \<open>
  Properties of the parser of \<open>terminal/parser.go\<close>: it returns on every input (with the exception
  of a backspace that has nothing to undo), it reads back what a terminal application prints, and
  some of its behaviours that differ from what the code means to do.
\<close>

section \<open>No panic, and every stream is processed\<close>

lemma parser_inv_New: "parser_inv NewParser"
  by (simp add: parser_inv_def parser_wf_def NewParser_def parser_reset_def)

text \<open>
  C13. In a reachable state of the parser (\<open>parser_inv\<close>, which a new parser satisfies and every call
  keeps), \<open>ProcessInput\<close> does not panic on any runes, unless the rune is a backspace inside a
  control sequence right after a handler was made or with a full history.
\<close>

theorem ProcessInput_total:
  assumes "parser_inv p" and "can_undo chs p"
  shows "\<exists>p' h. ProcessInput chs p = Some (p', h) \<and> parser_inv p'"
  using ProcessInput_ok [OF assms] by (auto simp: ok_iff)

lemma ProcessInput_total_witness:
  "\<exists>p' h. ProcessInput [0x1B] NewParser = Some (p', h) \<and> parser_inv p'"
  using ProcessInput_total [OF parser_inv_New, of "[0x1B]"] by (simp add: can_undo_def)

text \<open>
  What \<open>uniseg\<close> documents: the clusters of a non-empty string are not empty and cover it up to its
  end; a cluster has no rune that the string does not hold (stated for the backspace).
\<close>

definition graphemes_law :: "(string \<Rightarrow> (rune list \<times> nat) list) \<Rightarrow> bool" where
  "graphemes_law gs \<longleftrightarrow> (\<forall>s. s \<noteq> [] \<longrightarrow> gs s \<noteq> [] \<and> snd (last (gs s)) = length s \<and>
     (\<forall>(cl, to) \<in> set (gs s). 0 < to \<and> to \<le> length s \<and> (8 \<in> set cl \<longrightarrow> CHR 0x08 \<in> set s)))"

lemma of_char_BS: "of_char c = (8 :: nat) \<longleftrightarrow> c = CHR 0x08"
  using of_char_eq_iff [of c "CHR 0x08", where 'a = nat] by simp

lemma ProcessInput_no_BS:
  assumes "parser_inv p" and "8 \<notin> set chs"
  shows "ok (ProcessInput chs p) (\<lambda>(p', h). parser_inv p')"
  using assms by (intro ProcessInput_ok) (auto simp: can_undo_def)

lemma vt_bytes_ok:
  assumes "parser_inv p" and "CHR 0x08 \<notin> set str" and "str \<noteq> []"
  shows "ok (vt_bytes str p hds) (\<lambda>(p', hds', rest, fin). parser_inv p' \<and>
    (fin \<or> rest \<noteq> [] \<and> length rest < length str) \<and> set rest \<subseteq> set str)"
  using assms
proof (induction str p hds rule: vt_bytes.induct)
  case (2 c str p hds)
  obtain p1 h where p1: "ProcessInput [of_char c] p = Some (p1, h)" "parser_inv p1"
    using 2 ProcessInput_no_BS [of p "[of_char c]"] of_char_BS [of c] by (auto simp: ok_iff)
  show ?case
  proof (cases "ps_vtMode p1 \<and> str \<noteq> []")
    case True
    then have "ok (vt_bytes str p1 (append_handler hds h)) (\<lambda>(p', hds', rest, fin). parser_inv p' \<and>
      (fin \<or> rest \<noteq> [] \<and> length rest < length str) \<and> set rest \<subseteq> set str)"
      using 2 p1 by simp
    moreover have "vt_bytes (c # str) p hds = vt_bytes str p1 (append_handler hds h)"
      using True p1(1) by simp
    ultimately show ?thesis by (auto elim!: ok_mono)
  qed (use p1 in auto)
qed simp

lemma utf8_clusters_ok:
  assumes "parser_inv p" and "\<forall>(cl, to) \<in> set gs. 0 < to \<and> to \<le> length str \<and> 8 \<notin> set cl"
    and "gs \<noteq> []" and "snd (last gs) = length str"
  shows "ok (utf8_clusters str gs p hds) (\<lambda>(p', hds', rest, fin). parser_inv p' \<and>
    (fin \<or> rest \<noteq> [] \<and> length rest < length str) \<and> set rest \<subseteq> set str)"
  using assms
proof (induction str gs p hds rule: utf8_clusters.induct)
  case (2 str input to gs p hds)
  let ?m = "if input = [0x0D, 0x0A] then do {
        (pa, ha) \<leftarrow> ProcessInput [0x0D] p;
        (pb, hb) \<leftarrow> ProcessInput [0x0A] pa;
        Some (pb, hds @ [ha, hb])
      }
      else do {
        (pa, ha) \<leftarrow> ProcessInput input p;
        Some (pa, append_handler hds ha)
      }"
  have "ok ?m (\<lambda>(p1, hds1). parser_inv p1)"
  proof (cases "input = [0x0D, 0x0A]")
    case True
    obtain pa ha where pa: "ProcessInput [0x0D] p = Some (pa, ha)" "parser_inv pa"
      using 2(2) ProcessInput_no_BS [of p "[0x0D]"] by (auto simp: ok_iff)
    then obtain pb hb where "ProcessInput [0x0A] pa = Some (pb, hb)" "parser_inv pb"
      using ProcessInput_no_BS [of pa "[0x0A]"] by (auto simp: ok_iff)
    then show ?thesis using True pa by simp
  next
    case False
    moreover have "8 \<notin> set input" using 2(3) by simp
    then obtain pa ha where "ProcessInput input p = Some (pa, ha)" "parser_inv pa"
      using 2(2) ProcessInput_no_BS [of p input] by (auto simp: ok_iff)
    ultimately show ?thesis by simp
  qed
  then obtain p1 hds1 where p1: "?m = Some (p1, hds1)" "parser_inv p1" by (auto simp: ok_iff)
  have eq: "utf8_clusters str ((input, to) # gs) p hds =
     (if ps_vtMode p1 then Some (p1, hds1, drop to str, to = length str)
      else if gs = [] then Some (p1, hds1, str, to = length str)
      else utf8_clusters str gs p1 hds1)"
    unfolding utf8_clusters.simps p1(1) by simp
  show ?case
    unfolding eq using 2 p1 set_drop_subset [of to str] by auto
qed simp

lemma processStream_ok:
  assumes "graphemes_law gs" and "parser_inv p" and "CHR 0x08 \<notin> set str" and "str \<noteq> []"
  shows "\<exists>p' hds'. processStream gs str p hds = Some (p', hds') \<and> parser_inv p'"
  using assms(2-)
proof (induction "length str" arbitrary: str p hds rule: less_induct)
  case less
  let ?m = "if ps_vtMode p then vt_bytes str p hds else utf8_clusters str (gs str) p hds"
  have "ok ?m (\<lambda>(p', hds', rest, fin). parser_inv p' \<and>
    (fin \<or> rest \<noteq> [] \<and> length rest < length str) \<and> set rest \<subseteq> set str)"
  proof (cases "ps_vtMode p")
    case True
    then show ?thesis using less vt_bytes_ok by auto
  next
    case False
    have "gs str \<noteq> []" "snd (last (gs str)) = length str"
      "\<forall>(cl, to) \<in> set (gs str). 0 < to \<and> to \<le> length str \<and> 8 \<notin> set cl"
      using assms(1) less(3,4) by (fastforce simp: graphemes_law_def)+
    then show ?thesis using False less(2) utf8_clusters_ok by auto
  qed
  then obtain p1 hds1 rest fin where m: "?m = Some (p1, hds1, rest, fin)" "parser_inv p1"
    "fin \<or> rest \<noteq> [] \<and> length rest < length str" "set rest \<subseteq> set str"
    by (auto simp: ok_iff)
  have eq: "processStream gs str p hds =
      (if fin then Some (p1, hds1) else processStream gs rest p1 hds1)"
    by (subst processStream.simps) (simp only: m(1) bind.simps prod.case)
  show ?case
  proof (cases fin)
    case False
    then show ?thesis using m less(1) [of rest p1 hds1] less(3) eq by auto
  qed (use m eq in simp)
qed

text \<open>
  C33. \<open>ProcessStream\<close> returns on every string without a backspace, although its outer loop has no
  bound of its own and switches between bytes and grapheme clusters: each round that does not end
  the loop leaves a shorter string.
\<close>

theorem ProcessStream_total:
  assumes "graphemes_law gs" and "parser_inv p" and "CHR 0x08 \<notin> set str"
  shows "\<exists>p' hds. ProcessStream gs str p = Some (p', hds) \<and> parser_inv p'"
  using assms processStream_ok by (simp add: ProcessStream_def)

definition byte_clusters :: "string \<Rightarrow> (rune list \<times> nat) list" where
  "byte_clusters s = map (\<lambda>i. ([of_char (s ! i)], Suc i)) [0..<length s]"

lemma byte_clusters_law: "graphemes_law byte_clusters"
proof -
  have "CHR 0x08 \<in> set s" if "i < length s" "8 = (of_char (s ! i) :: nat)" for s i
    using that of_char_BS [of "s ! i"] nth_mem [of i s] by simp
  then show ?thesis
    by (auto simp: graphemes_law_def byte_clusters_def last_map)
qed

lemma ProcessStream_total_witness:
  "\<exists>p' hds. ProcessStream byte_clusters ''ls'' NewParser = Some (p', hds) \<and> parser_inv p'"
  using ProcessStream_total [OF byte_clusters_law parser_inv_New, of "''ls''"] by simp

section \<open>Runs of the parser\<close>

fun feed :: "rune list \<Rightarrow> parser \<Rightarrow> (parser \<times> handler option list) option" where
  "feed [] p = Some (p, [])"
| "feed (r # rs) p = do {
     (p1, h) \<leftarrow> ProcessInput [r] p;
     (p2, hs) \<leftarrow> feed rs p1;
     Some (p2, h # hs)
   }"

definition runes :: "string \<Rightarrow> rune list" where
  "runes s = map of_char s"

named_theorems run "evaluation of the parser on a concrete rune"

lemmas run_defs [run] =
  ProcessInput_def mark_ready_def Let_def input_in_def rune_in_def
  input_Normal_def input_Escape_def input_CSI_def final_CSI_def collecting_def input_CSI_Priv_def
  input_OSC_def input_OSC_Esc_def input_Escape_VT52_def
  collectNumericParameters_def setState_def appendToHistory_def resetHistory_def
  replaceHistory_def quiet_def then_state_def start_params_def finish_def skip_def stay_def
  unhandledInput_def csi_undo_def getHistoryAt_def list_at_def list_put_def getPs_def copyArgs_def
  make_copy_def nil_slice_def setCompatLevel_def arg_rune_def WriteRune_def reset_arg_def
  NewParser_def parser_reset_def runes_def mkHandler_def historyString_def

lemma feed_append:
  assumes "feed xs p = Some (p1, hs)" and "feed ys p1 = Some (p2, hs')"
  shows "feed (xs @ ys) p = Some (p2, hs @ hs')"
  using assms by (induction xs arbitrary: p hs) (auto simp: bind_eq_Some_conv)

lemma replicate_numeral: "replicate (numeral k) x = x # replicate (pred_numeral k) x"
  by (simp add: numeral_eq_Suc)

section \<open>Printable runes\<close>

text \<open>
  In the Normal state a rune that is no control character is printed: the handler is the one for
  graphemes, its sequence is exactly the UTF-8 form of the rune, and the rune is remembered for a
  later repetition (\<open>REP\<close>).
\<close>

theorem printable_rune:
  assumes "ps_inputState p = InputState_Normal" and "ch \<notin> {0, 5, 7, 8, 9, 10, 11, 12, 13, 14, 15, 27}"
  shows "\<exists>p' h. ProcessInput [ch] p = Some (p', Some h) \<and> hd_call h = Hdl_graphemes [ch] \<and>
    hd_sequence h = utf8 ch \<and> ps_lastChs p' = [ch] \<and> ps_inputState p' = InputState_Normal \<and>
    ps_vtMode p' = ps_vtMode p \<and> ps_handleReady p'"
  using assms by (simp add: run handle_Graphemes_def historyString_def)

lemma printable_rune_witness:
  "\<exists>p' h. ProcessInput [65] NewParser = Some (p', Some h) \<and> hd_call h = Hdl_graphemes [65] \<and>
    hd_sequence h = utf8 65 \<and> ps_lastChs p' = [65] \<and> ps_inputState p' = InputState_Normal \<and>
    ps_vtMode p' = ps_vtMode NewParser \<and> ps_handleReady p'"
  by (rule printable_rune) (simp_all add: NewParser_def parser_reset_def)

section \<open>Control sequences with numeric parameters\<close>

text \<open>
  The parameters of a control sequence as a program prints them: the first, and for every other one
  the separator before it; a parameter is a number in decimal or nothing, which counts as 0.
\<close>

definition number_text :: "nat option \<Rightarrow> rune list" where
  "number_text n = (case n of None \<Rightarrow> [] | Some k \<Rightarrow> runes (decimal k))"

definition number_value :: "nat option \<Rightarrow> int" where
  "number_value n = (case n of None \<Rightarrow> 0 | Some k \<Rightarrow> int k)"

definition params_text :: "nat option \<Rightarrow> (rune \<times> nat option) list \<Rightarrow> rune list" where
  "params_text n xs = number_text n @ concat (map (\<lambda>(s, m). s # number_text m) xs)"

definition number_ok :: "nat option \<Rightarrow> bool" where
  "number_ok n \<longleftrightarrow> (case n of None \<Rightarrow> True | Some k \<Rightarrow> k < 65535)"

text \<open>
  Inside a control sequence, \<open>h\<close> read so far, the parameters \<open>acc\<close> and between them the separators
  \<open>ss\<close> collected so far.
\<close>

definition in_csi :: "rune list \<Rightarrow> int list \<Rightarrow> rune list \<Rightarrow> parser \<Rightarrow> bool" where
  "in_csi h acc ss p \<longleftrightarrow>
     ps_inputState p = InputState_CSI \<and> \<not> ps_handleReady p \<and> ps_history p = h \<and>
     length (ps_inputOps p) = 16 \<and> length (ps_inputSep p) = 16 \<and> ps_maxEscOps p = 16 \<and>
     acc \<noteq> [] \<and> length acc \<le> 16 \<and> ps_nInputOps p = int (length acc) \<and>
     take (length acc) (ps_inputOps p) = acc \<and>
     length ss = length acc - 1 \<and> take (length acc - 1) (ps_inputSep p) = ss"

lemma in_csi_digit:
  assumes "in_csi h (acc @ [v]) ss p" and "length h < 4097" and "d < 10" and "v * 10 + int d < 65535"
  shows "\<exists>p'. ProcessInput [48 + d] p = Some (p', None) \<and>
    in_csi (h @ [48 + d]) (acc @ [v * 10 + int d]) ss p'"
proof -
  have v: "ps_inputOps p ! length acc = v"
    using assms(1) by (auto simp: in_csi_def take_Suc_conv_app_nth)
  have t: "take (Suc (length acc)) ((ps_inputOps p)[length acc := x]) = acc @ [x]" for x
    using assms(1) by (auto simp: in_csi_def take_Suc_conv_app_nth)
  show ?thesis
    using assms v t by (simp add: run in_csi_def)
qed

lemma take_put: "k < length xs \<Longrightarrow> take (Suc k) (xs[k := x]) = take k xs @ [x]"
  by (simp add: take_Suc_conv_app_nth)

lemma in_csi_sep:
  assumes "in_csi h acc ss p" and "length h < 4097" and "length acc < 16" and "s = 59 \<or> s = 58"
  shows "\<exists>p'. ProcessInput [s] p = Some (p', None) \<and> in_csi (h @ [s]) (acc @ [0]) (ss @ [s]) p'"
proof -
  obtain k where k: "length acc = Suc k" "nat (int (length acc) - 1) = k" "nat (1 + int k) = Suc k"
    using assms(1) by (cases acc) (auto simp: in_csi_def)
  have a: "take (Suc k) ((ps_inputSep p)[k := s]) = ss @ [s]"
    "take (Suc (Suc k)) ((ps_inputOps p)[Suc k := 0]) = acc @ [0]"
    using assms k by (simp_all add: in_csi_def take_put)
  show ?thesis
    using assms a k by (auto simp add: run in_csi_def nat_add_distrib)
qed

lemma decimal_bound: "n < 65535 \<Longrightarrow> length (decimal n) \<le> 5"
proof -
  have "n < 10 ^ Suc k \<Longrightarrow> length (decimal n) \<le> Suc k" for k n
  proof (induction k arbitrary: n)
    case (Suc k)
    then have "n div 10 < 10 ^ Suc k" by auto
    with Suc.IH [OF this] show ?case by (subst decimal.simps) simp
  qed (simp add: decimal.simps)
  from this [of n 4] show "n < 65535 \<Longrightarrow> length (decimal n) \<le> 5" by simp
qed

lemma number_text_bound: "number_ok n \<Longrightarrow> length (number_text n) \<le> 5"
  by (auto simp: number_ok_def number_text_def runes_def decimal_bound split: option.splits)

lemma in_csi_decimal:
  assumes "in_csi h (acc @ [0]) ss p" and "length h + 5 \<le> 4097" and "n < 65535"
  shows "\<exists>p'. feed (runes (decimal n)) p = Some (p', replicate (length (decimal n)) None) \<and>
    in_csi (h @ runes (decimal n)) (acc @ [int n]) ss p'"
proof -
  have "\<exists>p'. feed (runes (decimal m)) p = Some (p', replicate (length (decimal m)) None) \<and>
      in_csi (h @ runes (decimal m)) (acc @ [int m]) ss p'" if "m \<le> n" for m
    using that
  proof (induction m rule: decimal.induct)
    case (1 m)
    have len: "length (decimal m) \<le> 5" using 1 assms(3) by (intro decimal_bound) simp
    show ?case
    proof (cases "m < 10")
      case True
      then show ?thesis
        using in_csi_digit [OF assms(1), of m] assms(2) by (auto simp: decimal.simps runes_def)
    next
      case False
      then obtain q where q: "feed (runes (decimal (m div 10))) p =
          Some (q, replicate (length (decimal (m div 10))) None)"
        "in_csi (h @ runes (decimal (m div 10))) (acc @ [int (m div 10)]) ss q"
        using 1 by fastforce
      have dm: "runes (decimal m) = runes (decimal (m div 10)) @ [48 + m mod 10]"
        "length (decimal m) = Suc (length (decimal (m div 10)))"
        using False by (simp_all add: runes_def decimal.simps [of m])
      have "int (m div 10) * 10 + int (m mod 10) = int m" by presburger
      moreover have "length (h @ runes (decimal (m div 10))) < 4097"
        using len dm(2) assms(2) by (simp add: runes_def)
      ultimately obtain q' where "ProcessInput [48 + m mod 10] q = Some (q', None)"
        "in_csi (h @ runes (decimal m)) (acc @ [int m]) ss q'"
        using in_csi_digit [OF q(2), of "m mod 10"] 1(2) assms(3) dm by auto
      then show ?thesis
        using feed_append [OF q(1), of "[48 + m mod 10]"] dm by (simp add: replicate_append_same)
    qed
  qed
  then show ?thesis by simp
qed

lemma in_csi_number:
  assumes "in_csi h (acc @ [0]) ss p" and "length h + 5 \<le> 4097" and "number_ok n"
  shows "\<exists>p'. feed (number_text n) p = Some (p', replicate (length (number_text n)) None) \<and>
    in_csi (h @ number_text n) (acc @ [number_value n]) ss p'"
  using assms in_csi_decimal [OF assms(1,2)]
  by (cases n) (auto simp: number_text_def number_value_def number_ok_def runes_def)

lemma in_csi_more:
  assumes "in_csi h acc ss p" and "length acc + length xs \<le> 16" and "length h + 6 * length xs \<le> 4097"
    and "\<forall>(s, n) \<in> set xs. s \<in> {58, 59} \<and> number_ok n"
  defines "text \<equiv> concat (map (\<lambda>(s, m). s # number_text m) xs)"
  shows "\<exists>p'. feed text p = Some (p', replicate (length text) None) \<and>
    in_csi (h @ text) (acc @ map (\<lambda>(s, m). number_value m) xs) (ss @ map fst xs) p'"
  using assms(1-4) unfolding text_def
proof (induction xs arbitrary: h acc ss p)
  case (Cons x xs)
  obtain s n where x: "x = (s, n)" by (cases x)
  obtain q1 where q1: "ProcessInput [s] p = Some (q1, None)" "in_csi (h @ [s]) (acc @ [0]) (ss @ [s]) q1"
    using in_csi_sep [OF Cons(2)] Cons(3-) x by auto
  obtain q2 where q2: "feed (number_text n) q1 = Some (q2, replicate (length (number_text n)) None)"
    "in_csi (h @ s # number_text n) (acc @ [number_value n]) (ss @ [s]) q2"
    using in_csi_number [OF q1(2), of n] Cons(3-) x by auto
  have len: "length (number_text n) \<le> 5" using Cons(5) x by (intro number_text_bound) auto
  then obtain q3 where q3: "feed (concat (map (\<lambda>(s, m). s # number_text m) xs)) q2 =
      Some (q3, replicate (length (concat (map (\<lambda>(s, m). s # number_text m) xs))) None)"
    "in_csi (h @ concat (map (\<lambda>(s, m). s # number_text m) (x # xs)))
      (acc @ map (\<lambda>(s, m). number_value m) (x # xs)) (ss @ map fst (x # xs)) q3"
    using Cons(1) [OF q2(2)] Cons(3-) x by fastforce
  have "feed (s # number_text n) p = Some (q2, replicate (length (s # number_text n)) None)"
    using q1(1) q2(1) by simp
  from feed_append [OF this q3(1)] q3(2) x show ?case by (auto simp: replicate_add)
qed simp

lemma in_csi_params:
  assumes "in_csi h [0] [] p" and "length xs < 16" and "length h + 6 * Suc (length xs) \<le> 4097"
    and "number_ok n" and "\<forall>(s, n) \<in> set xs. s \<in> {58, 59} \<and> number_ok n"
  shows "\<exists>p'. feed (params_text n xs) p = Some (p', replicate (length (params_text n xs)) None) \<and>
    in_csi (h @ params_text n xs) (number_value n # map (\<lambda>(s, m). number_value m) xs) (map fst xs) p'"
proof -
  obtain q where q: "feed (number_text n) p = Some (q, replicate (length (number_text n)) None)"
    "in_csi (h @ number_text n) [number_value n] [] q"
    using in_csi_number [of h "[]" "[]" p n] assms by auto
  have "length (h @ number_text n) + 6 * length xs \<le> 4097"
    using number_text_bound [OF assms(4)] assms(3) by simp
  from in_csi_more [OF q(2) _ this assms(5)] assms(2) feed_append [OF q(1)]
  show ?thesis by (auto simp: params_text_def replicate_add)
qed

lemma in_csi_start:
  assumes "parser_inv p" and "ps_inputState p = InputState_Normal"
    and "ps_compatLevel p \<noteq> CompatLevel_VT52" and "ps_handleReady p \<or> ps_history p = []"
  shows "\<exists>p'. feed [0x1B, 91] p = Some (p', [None, None]) \<and> in_csi [0x1B, 91] [0] [] p'"
  using assms
  by (auto simp: parser_inv_def parser_wf_def run in_csi_def take_Suc_conv_app_nth)

lemma in_csi_SGR:
  assumes "in_csi h acc ss p" and "length h < 4097"
  shows "\<exists>p' hd seps. ProcessInput [109] p = Some (p', Some hd) \<and>
    hd_call hd = Mode (Hdl_csi_sgr acc seps) \<and>
    (length seps = length acc \<or> length acc = 1 \<and> length seps \<le> 1) \<and>
    take (length acc - 1) seps = ss \<and>
    hd_sequence hd = concat (map utf8 (h @ [109])) \<and>
    ps_inputState p' = InputState_Normal \<and> ps_handleReady p'"
proof (cases "length acc = 1")
  case True
  then obtain a where "acc = [a]" by (auto simp: length_Suc_conv)
  moreover have "ps_inputOps p ! 0 = a"
    using assms(1) calculation by (auto simp: in_csi_def take_Suc_conv_app_nth)
  ultimately show ?thesis
    using assms by (auto simp: run in_csi_def handle_SGR_def copySeps_def historyString_def)
next
  case False
  then have "2 \<le> length acc" using assms(1) by (cases acc) (auto simp: in_csi_def Suc_le_eq)
  then show ?thesis
    using assms False by (auto simp: run in_csi_def handle_SGR_def copySeps_def historyString_def)
qed
text \<open>
  Round trip of the parameters: up to sixteen numbers below 65535 or empty, printed with semicolons
  or colons between them, \<open>ESC [ p1 ; ... : pn m\<close>, give no handler before the last rune and then the
  SGR handler with exactly these parameters and separators; its sequence is the whole text, which
  the server sends on to the client, and the parser is back in the Normal state.
\<close>

lemma SGR_params:
  assumes "parser_inv p" and "ps_inputState p = InputState_Normal"
    and "ps_compatLevel p \<noteq> CompatLevel_VT52" and "ps_handleReady p \<or> ps_history p = []"
    and "length xs < 16" and "number_ok n" and "\<forall>(s, m) \<in> set xs. s \<in> {58, 59} \<and> number_ok m"
  defines "text \<equiv> [0x1B, 91] @ params_text n xs @ [109]"
  shows "\<exists>p' hd seps. feed text p = Some (p', replicate (length text - 1) None @ [Some hd]) \<and>
    hd_call hd = Mode (Hdl_csi_sgr (number_value n # map (\<lambda>(s, m). number_value m) xs) seps) \<and>
    (length seps = Suc (length xs) \<or> xs = [] \<and> length seps \<le> 1) \<and>
    take (length xs) seps = map fst xs \<and>
    hd_sequence hd = concat (map utf8 text) \<and> ps_inputState p' = InputState_Normal"
proof -
  obtain p1 where p1: "feed [0x1B, 91] p = Some (p1, [None, None])" "in_csi [0x1B, 91] [0] [] p1"
    using in_csi_start [OF assms(1-4)] by auto
  obtain p2 where p2: "feed (params_text n xs) p1 = Some (p2, replicate (length (params_text n xs)) None)"
    "in_csi ([0x1B, 91] @ params_text n xs) (number_value n # map (\<lambda>(s, m). number_value m) xs) (map fst xs) p2"
    using in_csi_params [OF p1(2) assms(5) _ assms(6,7)] assms(5) by auto
  have "length (params_text n xs) \<le> 5 + 6 * length xs"
    using assms(6,7) unfolding params_text_def
    by (induction xs) (auto dest: number_text_bound)
  then have "length ([0x1B, 91] @ params_text n xs) < 4097" using assms(5) by simp
  from in_csi_SGR [OF p2(2) this] obtain p3 hd seps where p3: "ProcessInput [109] p2 = Some (p3, Some hd)"
    "hd_call hd = Mode (Hdl_csi_sgr (number_value n # map (\<lambda>(s, m). number_value m) xs) seps)"
    "length seps = Suc (length xs) \<or> xs = [] \<and> length seps \<le> 1" "take (length xs) seps = map fst xs"
    "hd_sequence hd = concat (map utf8 text)" "ps_inputState p3 = InputState_Normal"
    by (auto simp: text_def)
  have "feed (params_text n xs @ [109]) p1 =
      Some (p3, replicate (length (params_text n xs)) None @ [Some hd])"
    using feed_append [OF p2(1), of "[109]"] p3(1) by simp
  from feed_append [OF p1(1) this]
  have "feed text p = Some (p3, replicate (length text - 1) None @ [Some hd])"
    by (simp add: text_def)
  then show ?thesis using p3 by blast
qed

section \<open>Behaviours to know about\<close>

text \<open>
  A backspace that follows a carriage return inside a control sequence panics: the handler of
  the carriage return marks the history for a reset, and the walk back from the only element that
  is left dereferences nil.
\<close>

lemma BS_panic: "feed (runes [CHR 0x1B, CHR ''['', CHR 0x0D, CHR 0x08]) NewParser = None"
  by (simp add: run handle_CR_def)

text \<open>
  A CR LF that arrives inside an operating system command, in UTF-8 mode, puts two nil handlers
  in the list that \<open>ProcessStream\<close> returns; its callers call every element.
\<close>

theorem CRLF_in_string_nil:
  assumes "ps_inputState p = InputState_OSC" and "\<not> ps_vtMode p" and "length (ps_argBuf p) < 4094"
    and "graphemes [CHR 0x0D, CHR 0x0A] = [([0x0D, 0x0A], 2)]"
  shows "\<exists>p'. ProcessStream graphemes [CHR 0x0D, CHR 0x0A] p = Some (p', [None, None])"
  using assms by (simp add: ProcessStream_def processStream.simps run utf8_def)

lemma CRLF_in_string_nil_witness:
  "\<exists>p'. ProcessStream (\<lambda>s. [([0x0D, 0x0A], 2)]) [CHR 0x0D, CHR 0x0A]
      (NewParser\<lparr>ps_inputState := InputState_OSC, ps_nInputOps := 1\<rparr>) = Some (p', [None, None])"
  by (rule CRLF_in_string_nil) (simp_all add: NewParser_def parser_reset_def)

lemma OSC_growth_step:
  assumes "ps_inputState p = InputState_OSC"
  shows "\<exists>p'. feed [0x1B, 65] p = Some (p', [None, None]) \<and> ps_inputState p' = InputState_OSC \<and>
    length (ps_argBuf p') = length (ps_argBuf p) + 2"
  using assms by (simp add: run utf8_def)

text \<open>
  The limit of 4095 bytes on the argument of an operating system command is not checked for an
  escape character that does not end the command: a stream of these makes the argument as long as
  one likes.
\<close>

theorem OSC_argument_unbounded:
  "\<exists>p' hs. feed ([0x1B, 93] @ concat (replicate n [0x1B, 65])) NewParser = Some (p', hs) \<and>
    length (ps_argBuf p') = 2 * n"
proof -
  obtain p1 where p1: "feed [0x1B, 93] NewParser = Some (p1, [None, None])"
    "ps_inputState p1 = InputState_OSC" "ps_argBuf p1 = []"
    by (simp add: run)
  have "\<exists>p' hs. feed (concat (replicate n [0x1B, 65])) p = Some (p', hs) \<and>
      length (ps_argBuf p') = length (ps_argBuf p) + 2 * n"
    if "ps_inputState p = InputState_OSC" for p n
    using that
  proof (induction n arbitrary: p)
    case (Suc n)
    obtain q where q: "feed [0x1B, 65] p = Some (q, [None, None])" "ps_inputState q = InputState_OSC"
      "length (ps_argBuf q) = length (ps_argBuf p) + 2"
      using OSC_growth_step [OF Suc.prems] by blast
    from Suc.IH [OF q(2)] obtain q' hs where
      "feed (concat (replicate n [0x1B, 65])) q = Some (q', hs)"
      "length (ps_argBuf q') = length (ps_argBuf q) + 2 * n" by blast
    then show ?case using feed_append [OF q(1)] q(3) by fastforce
  qed simp
  from this [OF p1(2), of n] show ?thesis using feed_append [OF p1(1)] p1(3) by fastforce
qed

text \<open>
  \<open>CSI ? l\<close> without a parameter switches the parser to VT52 mode (an empty parameter list means
  "just set" to \<open>setCompatLevel\<close>), while the handler it makes resets no mode in the emulator.
\<close>

lemma DECRST_default:
  "map_option (\<lambda>(p, hs). (ps_compatLevel p, map_option hd_call (last hs)))
     (feed (runes (CHR 0x1B # ''[?l'')) NewParser)
   = Some (CompatLevel_VT52, Some (Mode (Hdl_csi_privRM [])))"
  by (simp add: run handle_privRM_def)

text \<open>
  In VT52 mode the identify request \<open>ESC Z\<close> does not leave the escape state: the letter A that
  follows it moves the cursor up instead of being printed.
\<close>

lemma VT52_identify:
  "map_option (\<lambda>(p, hs). map_option hd_call (last hs))
     (feed (runes (CHR 0x1B # ''[?2l'' @ CHR 0x1B # ''ZA'')) NewParser)
   = Some (Some (Cursor (Hdl_csi_cuu 1)))"
  by (simp add: run handle_privRM_def handle_ID_def handle_CUU_def replicate_numeral)

text \<open>
  The string buffer is not cleared when a private control sequence is abandoned after its
  dollar sign: the mode request \<open>CSI ? 2026 $ p\<close> that follows is dropped, although the same request
  is answered by a fresh parser.
\<close>

lemma DECRQM_stale:
  "map_option (\<lambda>(p, hs). last hs)
     (feed (runes (CHR 0x1B # ''[?$'' @ CHR 0x1B # CHR 0x1B # ''[?2026$p'')) NewParser)
   = Some None \<and>
   map_option (\<lambda>(p, hs). map_option hd_call (last hs))
     (feed (runes (CHR 0x1B # ''[?2026$p'')) NewParser)
   = Some (Some (Mode (Hdl_csi_decrqm [2026])))"
  by (simp add: run handle_DECRQM_def utf8_def char_of_def bit_0 replicate_numeral)

end
