(* ===== verification/Renditions.thy ===== *)
theory Renditions
  imports ParserState
begin

text \<open>
  \<open>terminal/color.go\<close>, \<open>terminal/renditions.go\<close> and \<open>hdl_csi_sgr\<close> of \<open>terminal/handler.go\<close>: the
  colours, the graphic attributes of a cell, the control sequence that sets them and the handler
  of that sequence.

  \<open>Color\<close> is a 64 bit word, \<open>int32\<close> a 32 bit word, \<open>charAttribute\<close> an 8 bit word and \<open>int\<close> an
  integer. Logging is left out.
\<close>

section \<open>Colours\<close>

type_synonym color = "64 word"

definition ColorDefault :: color where "ColorDefault = 0"
definition ColorValid :: color where "ColorValid = push_bit 32 1"
definition ColorIsRGB :: color where "ColorIsRGB = push_bit 33 1"
definition ColorBlack :: color where "ColorBlack = ColorValid"

text \<open>
  \<open>ColorValues\<close>: the keys of the map are the 379 constants from \<open>ColorBlack\<close> on, which are
  consecutive, so the table holds the values alone.
\<close>

definition ColorTable :: "int list" where
  "ColorTable = [
     0x000000, 0x800000, 0x008000, 0x808000, 0x000080, 0x800080, 0x008080, 0xC0C0C0, 0x808080,
     0xFF0000, 0x00FF00, 0xFFFF00, 0x0000FF, 0xFF00FF, 0x00FFFF, 0xFFFFFF, 0x000000, 0x00005F,
     0x000087, 0x0000AF, 0x0000D7, 0x0000FF, 0x005F00, 0x005F5F, 0x005F87, 0x005FAF, 0x005FD7,
     0x005FFF, 0x008700, 0x00875F, 0x008787, 0x0087AF, 0x0087D7, 0x0087FF, 0x00AF00, 0x00AF5F,
     0x00AF87, 0x00AFAF, 0x00AFD7, 0x00AFFF, 0x00D700, 0x00D75F, 0x00D787, 0x00D7AF, 0x00D7D7,
     0x00D7FF, 0x00FF00, 0x00FF5F, 0x00FF87, 0x00FFAF, 0x00FFD7, 0x00FFFF, 0x5F0000, 0x5F005F,
     0x5F0087, 0x5F00AF, 0x5F00D7, 0x5F00FF, 0x5F5F00, 0x5F5F5F, 0x5F5F87, 0x5F5FAF, 0x5F5FD7,
     0x5F5FFF, 0x5F8700, 0x5F875F, 0x5F8787, 0x5F87AF, 0x5F87D7, 0x5F87FF, 0x5FAF00, 0x5FAF5F,
     0x5FAF87, 0x5FAFAF, 0x5FAFD7, 0x5FAFFF, 0x5FD700, 0x5FD75F, 0x5FD787, 0x5FD7AF, 0x5FD7D7,
     0x5FD7FF, 0x5FFF00, 0x5FFF5F, 0x5FFF87, 0x5FFFAF, 0x5FFFD7, 0x5FFFFF, 0x870000, 0x87005F,
     0x870087, 0x8700AF, 0x8700D7, 0x8700FF, 0x875F00, 0x875F5F, 0x875F87, 0x875FAF, 0x875FD7,
     0x875FFF, 0x878700, 0x87875F, 0x878787, 0x8787AF, 0x8787D7, 0x8787FF, 0x87AF00, 0x87AF5F,
     0x87AF87, 0x87AFAF, 0x87AFD7, 0x87AFFF, 0x87D700, 0x87D75F, 0x87D787, 0x87D7AF, 0x87D7D7,
     0x87D7FF, 0x87FF00, 0x87FF5F, 0x87FF87, 0x87FFAF, 0x87FFD7, 0x87FFFF, 0xAF0000, 0xAF005F,
     0xAF0087, 0xAF00AF, 0xAF00D7, 0xAF00FF, 0xAF5F00, 0xAF5F5F, 0xAF5F87, 0xAF5FAF, 0xAF5FD7,
     0xAF5FFF, 0xAF8700, 0xAF875F, 0xAF8787, 0xAF87AF, 0xAF87D7, 0xAF87FF, 0xAFAF00, 0xAFAF5F,
     0xAFAF87, 0xAFAFAF, 0xAFAFD7, 0xAFAFFF, 0xAFD700, 0xAFD75F, 0xAFD787, 0xAFD7AF, 0xAFD7D7,
     0xAFD7FF, 0xAFFF00, 0xAFFF5F, 0xAFFF87, 0xAFFFAF, 0xAFFFD7, 0xAFFFFF, 0xD70000, 0xD7005F,
     0xD70087, 0xD700AF, 0xD700D7, 0xD700FF, 0xD75F00, 0xD75F5F, 0xD75F87, 0xD75FAF, 0xD75FD7,
     0xD75FFF, 0xD78700, 0xD7875F, 0xD78787, 0xD787AF, 0xD787D7, 0xD787FF, 0xD7AF00, 0xD7AF5F,
     0xD7AF87, 0xD7AFAF, 0xD7AFD7, 0xD7AFFF, 0xD7D700, 0xD7D75F, 0xD7D787, 0xD7D7AF, 0xD7D7D7,
     0xD7D7FF, 0xD7FF00, 0xD7FF5F, 0xD7FF87, 0xD7FFAF, 0xD7FFD7, 0xD7FFFF, 0xFF0000, 0xFF005F,
     0xFF0087, 0xFF00AF, 0xFF00D7, 0xFF00FF, 0xFF5F00, 0xFF5F5F, 0xFF5F87, 0xFF5FAF, 0xFF5FD7,
     0xFF5FFF, 0xFF8700, 0xFF875F, 0xFF8787, 0xFF87AF, 0xFF87D7, 0xFF87FF, 0xFFAF00, 0xFFAF5F,
     0xFFAF87, 0xFFAFAF, 0xFFAFD7, 0xFFAFFF, 0xFFD700, 0xFFD75F, 0xFFD787, 0xFFD7AF, 0xFFD7D7,
     0xFFD7FF, 0xFFFF00, 0xFFFF5F, 0xFFFF87, 0xFFFFAF, 0xFFFFD7, 0xFFFFFF, 0x080808, 0x121212,
     0x1C1C1C, 0x262626, 0x303030, 0x3A3A3A, 0x444444, 0x4E4E4E, 0x585858, 0x626262, 0x6C6C6C,
     0x767676, 0x808080, 0x8A8A8A, 0x949494, 0x9E9E9E, 0xA8A8A8, 0xB2B2B2, 0xBCBCBC, 0xC6C6C6,
     0xD0D0D0, 0xDADADA, 0xE4E4E4, 0xEEEEEE, 0xF0F8FF, 0xFAEBD7, 0x7FFFD4, 0xF0FFFF, 0xF5F5DC,
     0xFFE4C4, 0xFFEBCD, 0x8A2BE2, 0xA52A2A, 0xDEB887, 0x5F9EA0, 0x7FFF00, 0xD2691E, 0xFF7F50,
     0x6495ED, 0xFFF8DC, 0xDC143C, 0x00008B, 0x008B8B, 0xB8860B, 0xA9A9A9, 0x006400, 0xBDB76B,
     0x8B008B, 0x556B2F, 0xFF8C00, 0x9932CC, 0x8B0000, 0xE9967A, 0x8FBC8F, 0x483D8B, 0x2F4F4F,
     0x00CED1, 0x9400D3, 0xFF1493, 0x00BFFF, 0x696969, 0x1E90FF, 0xB22222, 0xFFFAF0, 0x228B22,
     0xDCDCDC, 0xF8F8FF, 0xFFD700, 0xDAA520, 0xADFF2F, 0xF0FFF0, 0xFF69B4, 0xCD5C5C, 0x4B0082,
     0xFFFFF0, 0xF0E68C, 0xE6E6FA, 0xFFF0F5, 0x7CFC00, 0xFFFACD, 0xADD8E6, 0xF08080, 0xE0FFFF,
     0xFAFAD2, 0xD3D3D3, 0x90EE90, 0xFFB6C1, 0xFFA07A, 0x20B2AA, 0x87CEFA, 0x778899, 0xB0C4DE,
     0xFFFFE0, 0x32CD32, 0xFAF0E6, 0x66CDAA, 0x0000CD, 0xBA55D3, 0x9370DB, 0x3CB371, 0x7B68EE,
     0x00FA9A, 0x48D1CC, 0xC71585, 0x191970, 0xF5FFFA, 0xFFE4E1, 0xFFE4B5, 0xFFDEAD, 0xFDF5E6,
     0x6B8E23, 0xFFA500, 0xFF4500, 0xDA70D6, 0xEEE8AA, 0x98FB98, 0xAFEEEE, 0xDB7093, 0xFFEFD5,
     0xFFDAB9, 0xCD853F, 0xFFC0CB, 0xDDA0DD, 0xB0E0E6, 0x663399, 0xBC8F8F, 0x4169E1, 0x8B4513,
     0xFA8072, 0xF4A460, 0x2E8B57, 0xFFF5EE, 0xA0522D, 0x87CEEB, 0x6A5ACD, 0x708090, 0xFFFAFA,
     0x00FF7F, 0x4682B4, 0xD2B48C, 0xD8BFD8, 0xFF6347, 0x40E0D0, 0xEE82EE, 0xF5DEB3, 0xF5F5F5,
     0x9ACD32]"

definition ColorValues :: "color \<Rightarrow> int option" where
  "ColorValues c = list_at ColorTable (uint c - uint ColorBlack)"

definition Color_Valid :: "color \<Rightarrow> bool" where
  "Color_Valid c \<longleftrightarrow> c AND ColorValid \<noteq> 0"

definition IsRGB :: "color \<Rightarrow> bool" where
  "IsRGB c \<longleftrightarrow> c AND (ColorValid OR ColorIsRGB) = (ColorValid OR ColorIsRGB)"

definition Hex :: "color \<Rightarrow> int" where
  "Hex c =
     (if \<not> Color_Valid c then - 1
      else if c AND ColorIsRGB \<noteq> 0 then sint (ucast c AND 0xffffff :: 32 word)
      else case ColorValues c of Some v \<Rightarrow> v | None \<Rightarrow> - 1)"

definition RGB :: "color \<Rightarrow> int \<times> int \<times> int" where
  "RGB c =
     (let v = Hex c
      in if v < 0 then (- 1, - 1, - 1)
         else (drop_bit 16 v AND 0xff, drop_bit 8 v AND 0xff, v AND 0xff))"

definition Index :: "color \<Rightarrow> int" where
  "Index c =
     (if \<not> Color_Valid c then - 1
      else if IsRGB c then - 1
      else uint (c AND 0x0FFFFFFFF))"

definition NewHexColor :: "32 word \<Rightarrow> color" where
  "NewHexColor v = ColorIsRGB OR scast v OR ColorValid"

definition NewRGBColor :: "32 word \<Rightarrow> 32 word \<Rightarrow> 32 word \<Rightarrow> color" where
  "NewRGBColor r g b = NewHexColor (push_bit 16 (r AND 0xff) OR push_bit 8 (g AND 0xff) OR (b AND 0xff))"

definition PaletteColor :: "int \<Rightarrow> color" where
  "PaletteColor index = word_of_int index OR ColorValid"

text \<open>The verb \<open>%02x\<close>.\<close>

definition hex_digit :: "nat \<Rightarrow> char" where
  "hex_digit d = char_of (if d < 10 then 48 + d else 87 + d)"

definition fmt_02x :: "int \<Rightarrow> string" where
  "fmt_02x i = [hex_digit (nat i div 16 mod 16), hex_digit (nat i mod 16)]"

text \<open>\<open>Color.String\<close>: the colour in the notation of \<open>XParseColor\<close>.\<close>

definition Color_String :: "color \<Rightarrow> string" where
  "Color_String c0 =
     (let c = (if c0 = ColorDefault then ColorBlack else c0)
      in case RGB c of (r, g, b) \<Rightarrow>
        if r = - 1 \<and> g = - 1 \<and> b = - 1 then []
        else ''rgb:'' @ fmt_02x r @ fmt_02x r @ ''/'' @ fmt_02x g @ fmt_02x g @ ''/'' @ fmt_02x b @ fmt_02x b)"

section \<open>Renditions\<close>

type_synonym charAttribute = "8 word"

definition ULS_NONE :: charAttribute where "ULS_NONE = 0"
definition ULS_SINGLE :: charAttribute where "ULS_SINGLE = 1"

record renditions =
  re_fgColor :: color
  re_bgColor :: color
  re_ulColor :: color
  re_ulStyle :: charAttribute
  re_linkIndex :: int
  re_bold :: bool
  re_faint :: bool
  re_italic :: bool
  re_underline :: bool
  re_blink :: bool
  re_rapidBlink :: bool
  re_inverse :: bool
  re_invisible :: bool

definition Renditions0 :: renditions where
  "Renditions0 = \<lparr>re_fgColor = 0, re_bgColor = 0, re_ulColor = 0, re_ulStyle = 0, re_linkIndex = 0,
     re_bold = False, re_faint = False, re_italic = False, re_underline = False, re_blink = False,
     re_rapidBlink = False, re_inverse = False, re_invisible = False\<rparr>"

definition SetForegroundColor :: "int \<Rightarrow> renditions \<Rightarrow> renditions" where
  "SetForegroundColor index rend = rend\<lparr>re_fgColor := PaletteColor index\<rparr>"

definition SetBackgroundColor :: "int \<Rightarrow> renditions \<Rightarrow> renditions" where
  "SetBackgroundColor index rend = rend\<lparr>re_bgColor := PaletteColor index\<rparr>"

definition setUnderlineColor :: "int \<Rightarrow> renditions \<Rightarrow> renditions" where
  "setUnderlineColor index rend = rend\<lparr>re_ulColor := PaletteColor index\<rparr>"

definition setAnsiForeground :: "color \<Rightarrow> renditions \<Rightarrow> renditions" where
  "setAnsiForeground c rend = rend\<lparr>re_fgColor := c\<rparr>"

definition setAnsiBackground :: "color \<Rightarrow> renditions \<Rightarrow> renditions" where
  "setAnsiBackground c rend = rend\<lparr>re_bgColor := c\<rparr>"

definition SetFgColor :: "int \<Rightarrow> int \<Rightarrow> int \<Rightarrow> renditions \<Rightarrow> renditions" where
  "SetFgColor r g b rend =
     rend\<lparr>re_fgColor := NewRGBColor (word_of_int r) (word_of_int g) (word_of_int b)\<rparr>"

definition SetBgColor :: "int \<Rightarrow> int \<Rightarrow> int \<Rightarrow> renditions \<Rightarrow> renditions" where
  "SetBgColor r g b rend =
     rend\<lparr>re_bgColor := NewRGBColor (word_of_int r) (word_of_int g) (word_of_int b)\<rparr>"

definition setUnderlineRGBColor :: "int \<Rightarrow> int \<Rightarrow> int \<Rightarrow> renditions \<Rightarrow> renditions" where
  "setUnderlineRGBColor r g b rend =
     rend\<lparr>re_ulColor := NewRGBColor (word_of_int r) (word_of_int g) (word_of_int b)\<rparr>"

definition setUnderlineStyle :: "charAttribute \<Rightarrow> renditions \<Rightarrow> renditions" where
  "setUnderlineStyle v rend = rend\<lparr>re_ulStyle := v\<rparr>"

text \<open>
  \<open>SGR\<close>: the sequence that sets the renditions. The attributes first, then the colours; the three
  parts of the text are named.
\<close>

definition sgr_underline :: "renditions \<Rightarrow> string" where
  "sgr_underline rend =
     (if re_underline rend then
        (if re_ulStyle rend > ULS_NONE then
           (if re_ulStyle rend = ULS_SINGLE then '';4'' else '';4:'' @ fmt_d (uint (re_ulStyle rend)))
         else []) @
        (if re_ulColor rend \<noteq> ColorDefault then
           (if IsRGB (re_ulColor rend) then
              (case RGB (re_ulColor rend) of (r, g, b) \<Rightarrow>
                 '';58:2::'' @ fmt_d r @ '':'' @ fmt_d g @ '':'' @ fmt_d b)
            else '';58:5:'' @ fmt_d (Index (re_ulColor rend)))
         else [])
      else [])"

definition sgr_foreground :: "color \<Rightarrow> string" where
  "sgr_foreground c =
     (if c \<noteq> ColorDefault then
        (if IsRGB c then
           (case RGB c of (r, g, b) \<Rightarrow> '';38:2:'' @ fmt_d r @ '':'' @ fmt_d g @ '':'' @ fmt_d b)
         else if Index c < 8 then '';'' @ fmt_d (Index c + 30)
         else if Index c < 16 then '';'' @ fmt_d (Index c + 82)
         else '';38:5:'' @ fmt_d (Index c))
      else [])"

definition sgr_background :: "color \<Rightarrow> string" where
  "sgr_background c =
     (if c \<noteq> ColorDefault then
        (if IsRGB c then
           (case RGB c of (r, g, b) \<Rightarrow> '';48:2:'' @ fmt_d r @ '':'' @ fmt_d g @ '':'' @ fmt_d b)
         else if Index c < 8 then '';'' @ fmt_d (Index c + 40)
         else if Index c < 16 then '';'' @ fmt_d (Index c + 92)
         else '';48:5:'' @ fmt_d (Index c))
      else [])"

definition SGR :: "renditions \<Rightarrow> string" where
  "SGR rend =
     (if rend = Renditions0 then [CHR 0x1B] @ ''[0m''
      else [CHR 0x1B] @ ''[0'' @
        (if re_bold rend then '';1'' else []) @
        (if re_faint rend then '';2'' else []) @
        (if re_italic rend then '';3'' else []) @
        sgr_underline rend @
        (if re_blink rend then '';5'' else []) @
        (if re_rapidBlink rend then '';6'' else []) @
        (if re_inverse rend then '';7'' else []) @
        (if re_invisible rend then '';8'' else []) @
        sgr_foreground (re_fgColor rend) @
        sgr_background (re_bgColor rend) @ ''m'')"

text \<open>The attributes by number: \<open>Bold\<close> is 1, up to \<open>Invisible\<close>, 8.\<close>

definition SetAttributes :: "charAttribute \<Rightarrow> bool \<Rightarrow> renditions \<Rightarrow> renditions" where
  "SetAttributes attr value r =
     switch attr
       [([1], r\<lparr>re_bold := value\<rparr>),
        ([2], r\<lparr>re_faint := value\<rparr>),
        ([3], r\<lparr>re_italic := value\<rparr>),
        ([4], r\<lparr>re_underline := value\<rparr>),
        ([5], r\<lparr>re_blink := value\<rparr>),
        ([6], r\<lparr>re_rapidBlink := value\<rparr>),
        ([7], r\<lparr>re_inverse := value\<rparr>),
        ([8], r\<lparr>re_invisible := value\<rparr>)]
       r"

definition GetAttributes :: "charAttribute \<Rightarrow> renditions \<Rightarrow> bool option" where
  "GetAttributes attr r =
     switch attr
       [([1], Some (re_bold r)),
        ([2], Some (re_faint r)),
        ([3], Some (re_italic r)),
        ([4], Some (re_underline r)),
        ([5], Some (re_blink r)),
        ([6], Some (re_rapidBlink r)),
        ([7], Some (re_inverse r)),
        ([8], Some (re_invisible r))]
       None"

definition ClearAttributes :: "renditions \<Rightarrow> renditions" where
  "ClearAttributes rend =
     rend\<lparr>re_bold := False, re_faint := False, re_italic := False, re_underline := False,
          re_blink := False, re_rapidBlink := False, re_inverse := False, re_invisible := False,
          re_linkIndex := 0\<rparr>"

text \<open>An attribute that is not known leaves the renditions as they are; the result says so.\<close>

definition buildRendition :: "int \<Rightarrow> renditions \<Rightarrow> bool \<times> renditions" where
  "buildRendition attribute rend =
     switch attribute
       [([0], (True, setUnderlineStyle ULS_NONE
          ((setAnsiBackground ColorDefault (setAnsiForeground ColorDefault (ClearAttributes rend)))
             \<lparr>re_ulColor := ColorDefault\<rparr>))),
        ([1], (True, rend\<lparr>re_bold := True\<rparr>)),
        ([2], (True, rend\<lparr>re_faint := True\<rparr>)),
        ([3], (True, rend\<lparr>re_italic := True\<rparr>)),
        ([4], (True, rend\<lparr>re_underline := True, re_ulStyle := ULS_SINGLE\<rparr>)),
        ([5], (True, rend\<lparr>re_blink := True\<rparr>)),
        ([6], (True, rend\<lparr>re_rapidBlink := True\<rparr>)),
        ([7], (True, rend\<lparr>re_inverse := True\<rparr>)),
        ([8], (True, rend\<lparr>re_invisible := True\<rparr>)),
        ([22], (True, rend\<lparr>re_bold := False\<rparr>)),
        ([23], (True, rend\<lparr>re_italic := False\<rparr>)),
        ([24], (True, rend\<lparr>re_underline := False\<rparr>)),
        ([25], (True, rend\<lparr>re_blink := False, re_rapidBlink := False\<rparr>)),
        ([27], (True, rend\<lparr>re_inverse := False\<rparr>)),
        ([28], (True, rend\<lparr>re_invisible := False\<rparr>)),
        ([30, 31, 32, 33, 34, 35, 36, 37], (True, SetForegroundColor (attribute - 30) rend)),
        ([39], (True, setAnsiForeground ColorDefault rend)),
        ([40, 41, 42, 43, 44, 45, 46, 47], (True, SetBackgroundColor (attribute - 40) rend)),
        ([49], (True, setAnsiBackground ColorDefault rend)),
        ([90, 91, 92, 93, 94, 95, 96, 97], (True, SetForegroundColor (attribute - 82) rend)),
        ([100, 101, 102, 103, 104, 105, 106, 107], (True, SetBackgroundColor (attribute - 92) rend))]
       (False, rend)"

definition NewRenditions :: "int \<Rightarrow> renditions" where
  "NewRenditions attribute =
     (if attribute = 0 then Renditions0 else snd (buildRendition attribute Renditions0))"

section \<open>The handler of SGR\<close>

text \<open>
  The loop of \<open>hdl_csi_sgr\<close>. The code keeps the position \<open>k\<close>; here the two lists are what is left
  of the parameters and of the separators from position \<open>k\<close> on, so \<open>k >= len(params)-1\<close> is a
  rest of at most one parameter, and \<open>k += len(params) - 1 - k\<close> ends the loop. The colours of
  parameter 38 and 48 are the same code with another setter.
\<close>

definition sgr_color ::
  "(int \<Rightarrow> renditions \<Rightarrow> renditions) \<Rightarrow> (int \<Rightarrow> int \<Rightarrow> int \<Rightarrow> renditions \<Rightarrow> renditions) \<Rightarrow> nat \<Rightarrow>
    int list \<Rightarrow> renditions \<Rightarrow> nat \<times> renditions" where
  "sgr_color set_index set_rgb off ps rend =
     (if length ps \<le> 1 then (1, rend)
      else switch (ps ! 1)
        [([5], if length ps \<le> 2 then (length ps, rend) else (3, set_index (ps ! 2) rend)),
         ([2], if length ps \<le> 4 + off then (length ps, rend)
               else (5 + off, set_rgb (ps ! (2 + off)) (ps ! (3 + off)) (ps ! (4 + off)) rend))]
        (length ps, rend))"

definition sgr_style :: "int list \<Rightarrow> rune list \<Rightarrow> renditions \<Rightarrow> (nat \<times> renditions) option" where
  "sgr_style ps seps rend =
     (if 2 \<le> length seps \<and> hd seps = 58 then do {
        v \<leftarrow> list_at ps 1;
        Some (switch v
          [([0], (2, setUnderlineStyle (word_of_int v) (rend\<lparr>re_underline := False\<rparr>))),
           ([1, 2, 3, 4, 5], (2, setUnderlineStyle (word_of_int v) (rend\<lparr>re_underline := True\<rparr>)))]
          (length ps, rend))
      }
      else Some (1, setUnderlineStyle ULS_SINGLE (rend\<lparr>re_underline := True\<rparr>)))"

text \<open>One turn of the loop: how many parameters it takes, and the renditions after it.\<close>

definition sgr_step :: "int list \<Rightarrow> rune list \<Rightarrow> renditions \<Rightarrow> (nat \<times> renditions) option" where
  "sgr_step ps seps rend =
     switch (hd ps)
       [([38], Some (sgr_color SetForegroundColor SetFgColor 0 ps rend)),
        ([48], Some (sgr_color SetBackgroundColor SetBgColor 0 ps rend)),
        ([4], sgr_style ps seps rend),
        ([58], Some (sgr_color setUnderlineColor setUnderlineRGBColor 1 ps rend)),
        ([59], Some (1, rend\<lparr>re_ulColor := ColorDefault\<rparr>))]
       (Some (1, snd (buildRendition (hd ps) rend)))"

lemma sgr_step_pos: "sgr_step ps seps rend = Some (n, r) \<Longrightarrow> ps \<noteq> [] \<Longrightarrow> 0 < n"
  by (auto simp: sgr_step_def sgr_color_def sgr_style_def bind_eq_Some_conv split: if_splits)

function (sequential) sgr_loop :: "int list \<Rightarrow> rune list \<Rightarrow> renditions \<Rightarrow> renditions option" where
  "sgr_loop [] seps rend = Some rend"
| "sgr_loop (p # ps) seps rend =
     (case sgr_step (p # ps) seps rend of
        None \<Rightarrow> None
      | Some (n, rend') \<Rightarrow> sgr_loop (drop n (p # ps)) (drop n seps) rend')"
  by pat_completeness auto
termination
  by (relation "measure (\<lambda>(ps, seps, rend). length ps)") (auto dest: sgr_step_pos)

declare sgr_loop.simps [simp del]

end
