(* ===== verification/SgrProps.thy ===== *)
theory SgrProps
  imports ParserProps Renditions
begin

text \<open>
  The control sequence \<open>SGR\<close>: the text that \<open>Renditions.SGR\<close> writes, what the parser makes of it, and
  what the handler then does. The sections go from the bits of a colour over the parameters and the
  loop of the handler to the runes of the text.
\<close>

section \<open>Colours\<close>

lemma color_bits [simp]:
  "bit ColorValid n \<longleftrightarrow> n = 32" "bit ColorIsRGB n \<longleftrightarrow> n = 33"
  unfolding ColorValid_def ColorIsRGB_def bit_push_bit_iff by (auto simp: bit_1_iff)

lemma and_eq_self_iff: "(c :: 'a::len word) AND m = m \<longleftrightarrow> (\<forall>n. bit m n \<longrightarrow> bit c n)"
  by (auto simp: bit_eq_iff bit_and_iff dest: bit_imp_le_length)

lemma and_eq_0_word: "(c :: 'a::len word) AND m \<noteq> 0 \<longleftrightarrow> (\<exists>n. bit c n \<and> bit m n)"
  by (auto simp: bit_eq_iff bit_and_iff dest: bit_imp_le_length)

lemma Color_Valid_bit: "Color_Valid c \<longleftrightarrow> bit c 32"
  by (auto simp: Color_Valid_def and_eq_0_word)

lemma IsRGB_bits: "IsRGB c \<longleftrightarrow> bit c 32 \<and> bit c 33"
  by (auto simp: IsRGB_def and_eq_self_iff bit_or_iff)

lemma bit_nat_small: "n < 2 ^ 16 \<Longrightarrow> 16 \<le> k \<Longrightarrow> \<not> bit (n :: nat) k"
  using power_increasing [of 16 k "2 :: nat"] by (auto simp: bit_iff_odd_drop_bit drop_bit_eq_div)

lemma PaletteColor_facts:
  assumes "i < 2 ^ 16"
  shows "\<not> IsRGB (PaletteColor (int i))" and "Index (PaletteColor (int i)) = int i"
    and "PaletteColor (int i) \<noteq> ColorDefault"
proof -
  have b: "bit (PaletteColor (int i)) n \<longleftrightarrow> n = 32 \<or> n < 64 \<and> bit i n" for n
    by (auto simp: PaletteColor_def bit_or_iff bit_word_of_int_iff bit_of_nat_iff)
  show no: "\<not> IsRGB (PaletteColor (int i))"
    using bit_nat_small [OF assms] by (simp add: IsRGB_bits b)
  have "PaletteColor (int i) AND 0x0FFFFFFFF = word_of_int (int i)"
  proof (rule bit_word_eqI)
    fix n assume "n < LENGTH(64)"
    have m: "(0x0FFFFFFFF :: 64 word) = mask 32" by (simp add: mask_eq_exp_minus_1)
    show "bit (PaletteColor (int i) AND 0x0FFFFFFFF) n = bit (word_of_int (int i) :: 64 word) n"
      using bit_nat_small [OF assms, of n] unfolding m
      by (cases "n < 16") (auto simp: bit_and_iff b bit_mask_iff bit_word_of_int_iff bit_of_nat_iff)
  qed
  then show "Index (PaletteColor (int i)) = int i"
    using no assms
    by (simp add: Index_def Color_Valid_bit b unsigned_of_nat take_bit_nat_eq_self)
  show "PaletteColor (int i) \<noteq> ColorDefault"
    using b [of 32] by (auto simp: ColorDefault_def)
qed

lemma bit_NewRGBColor:
  "bit (NewRGBColor r g b) n \<longleftrightarrow> n = 32 \<or> n = 33 \<or>
    16 \<le> n \<and> n < 24 \<and> bit r (n - 16) \<or> 8 \<le> n \<and> n < 16 \<and> bit g (n - 8) \<or> n < 8 \<and> bit b n"
proof -
  have m: "(0xff :: 32 word) = mask 8" by (simp add: mask_eq_exp_minus_1)
  have "n < 8 \<or> 8 \<le> n \<and> n < 16 \<or> 16 \<le> n \<and> n < 24 \<or> 24 \<le> n" by linarith
  then show ?thesis
    by (auto simp: NewRGBColor_def NewHexColor_def m bit_or_iff bit_and_iff bit_push_bit_iff
        bit_signed_iff bit_mask_iff min_def)
qed

lemma RGB_NewRGBColor:
  "RGB (NewRGBColor r g b) = (uint (r AND 0xff), uint (g AND 0xff), uint (b AND 0xff))"
proof -
  let ?v = "ucast (NewRGBColor r g b) AND 0xffffff :: 32 word"
  have m: "(0xff :: 32 word) = mask 8" "(0xffffff :: 32 word) = mask 24" "(0xff :: int) = mask 8"
    by (simp_all add: mask_eq_exp_minus_1)
  have b: "bit ?v n \<longleftrightarrow> n < 24 \<and> bit (NewRGBColor r g b) n" for n
    unfolding m by (auto simp: bit_and_iff bit_ucast_iff bit_mask_iff)
  have s: "sint ?v = uint ?v"
    by (rule bit_eqI) (auto simp: bit_sint_iff bit_uint_iff b)
  have i: "NewRGBColor r g b AND ColorIsRGB \<noteq> 0"
    unfolding and_eq_0_word by (rule exI [of _ 33]) (simp add: bit_NewRGBColor)
  have h: "Hex (NewRGBColor r g b) = uint ?v"
    using i s by (simp add: Hex_def Color_Valid_bit bit_NewRGBColor)
  have "drop_bit 16 (uint ?v) AND 0xff = uint (r AND 0xff)"
    "drop_bit 8 (uint ?v) AND 0xff = uint (g AND 0xff)" "uint ?v AND 0xff = uint (b AND 0xff)"
    by (rule bit_eqI; simp add: m bit_and_iff bit_drop_bit_eq bit_mask_iff bit_uint_iff b bit_NewRGBColor
          bit_ucast_iff; fastforce)+
  then show ?thesis unfolding RGB_def h by simp
qed

lemma NewRGBColor_low:
  "NewRGBColor (word_of_int (uint (r AND 0xff))) (word_of_int (uint (g AND 0xff)))
    (word_of_int (uint (b AND 0xff))) = NewRGBColor r g b"
  by (simp add: NewRGBColor_def and.assoc)

lemma RGB_facts: "IsRGB (NewRGBColor r g b)" "NewRGBColor r g b \<noteq> ColorDefault"
proof -
  show "IsRGB (NewRGBColor r g b)" by (simp add: IsRGB_bits bit_NewRGBColor)
  then show "NewRGBColor r g b \<noteq> ColorDefault" by (auto simp: IsRGB_bits ColorDefault_def)
qed


section \<open>The parameters of the sequence\<close>

text \<open>The parameters after the leading 0, each with the separator before it.\<close>

type_synonym param = "rune \<times> nat option"

definition on :: "bool \<Rightarrow> nat \<Rightarrow> param list" where
  "on b n = (if b then [(59, Some n)] else [])"

definition rgb_params :: "nat \<Rightarrow> nat option list \<Rightarrow> color \<Rightarrow> param list" where
  "rgb_params k gap c =
     (case RGB c of (r, g, b) \<Rightarrow>
        [(59, Some k), (58, Some 2)] @ map (Pair 58) gap @
        [(58, Some (nat r)), (58, Some (nat g)), (58, Some (nat b))])"

definition color_params :: "nat \<Rightarrow> nat \<Rightarrow> nat \<Rightarrow> color \<Rightarrow> param list" where
  "color_params k low high c =
     (if c = ColorDefault then []
      else if IsRGB c then rgb_params k [] c
      else if Index c < 8 then [(59, Some (nat (Index c) + low))]
      else if Index c < 16 then [(59, Some (nat (Index c) + high))]
      else [(59, Some k), (58, Some 5), (58, Some (nat (Index c)))])"

definition style_params :: "charAttribute \<Rightarrow> param list" where
  "style_params s = (59, Some 4) # (if s = ULS_SINGLE then [] else [(58, Some (unat s))])"

definition ul_color_params :: "color \<Rightarrow> param list" where
  "ul_color_params c =
     (if c = ColorDefault then []
      else if IsRGB c then rgb_params 58 [None] c
      else [(59, Some 58), (58, Some 5), (58, Some (nat (Index c)))])"

definition sgr_params :: "renditions \<Rightarrow> param list" where
  "sgr_params r =
     on (re_bold r) 1 @ on (re_faint r) 2 @ on (re_italic r) 3 @
     (if re_underline r then style_params (re_ulStyle r) @ ul_color_params (re_ulColor r) else []) @
     on (re_blink r) 5 @ on (re_rapidBlink r) 6 @ on (re_inverse r) 7 @ on (re_invisible r) 8 @
     color_params 38 30 82 (re_fgColor r) @ color_params 48 40 92 (re_bgColor r)"

text \<open>Colours and renditions that the handlers of a control sequence can make.\<close>

definition color_ok :: "color \<Rightarrow> bool" where
  "color_ok c \<longleftrightarrow> c = ColorDefault \<or> (\<exists>i < 65535. c = PaletteColor (int i)) \<or>
     (\<exists>r g b. c = NewRGBColor r g b)"

definition renditions_ok :: "renditions \<Rightarrow> bool" where
  "renditions_ok r \<longleftrightarrow> color_ok (re_fgColor r) \<and> color_ok (re_bgColor r) \<and> color_ok (re_ulColor r) \<and>
     re_ulStyle r \<le> 5 \<and> (re_underline r \<longrightarrow> 1 \<le> re_ulStyle r)"

text \<open>
  What the sequence says of the renditions: the style and the colour of an underline only while
  there is one, and no link.
\<close>

definition shown :: "renditions \<Rightarrow> renditions" where
  "shown r =
     (let r' = r\<lparr>re_linkIndex := 0\<rparr>
      in if re_underline r then r' else r'\<lparr>re_ulStyle := ULS_NONE, re_ulColor := ColorDefault\<rparr>)"

lemma color_cases:
  assumes "color_ok c"
  obtains (default) "c = ColorDefault"
  | (palette) i where "c = PaletteColor (int i)" "i < 65535" "\<not> IsRGB c" "Index c = int i" "c \<noteq> ColorDefault"
  | (rgb) r g b where "c = NewRGBColor (word_of_int r) (word_of_int g) (word_of_int b)"
      "RGB c = (r, g, b)" "IsRGB c" "c \<noteq> ColorDefault"
      "0 \<le> r" "r < 256" "0 \<le> g" "g < 256" "0 \<le> b" "b < 256"
proof -
  have low: "uint (w AND 0xff :: 32 word) < 256" for w
  proof -
    have "(0xff :: 32 word) = mask 8" by (simp add: mask_eq_exp_minus_1)
    then show ?thesis by (simp add: unsigned_and_eq mask_eq_exp_minus_1 [symmetric])
  qed
  show thesis
    using assms unfolding color_ok_def
    apply (elim disjE exE conjE)
    subgoal by (rule default)
    subgoal for i using PaletteColor_facts [of i] by (intro palette [of i]) auto
    subgoal for r g b
      using RGB_facts [of r g b] RGB_NewRGBColor [of r g b] NewRGBColor_low [of r g b] low
      by (intro rgb [of "uint (r AND 0xff)" "uint (g AND 0xff)" "uint (b AND 0xff)"]) auto
    done
qed

section \<open>The handler on the parameters\<close>

text \<open>The loop on parameters given with the separators before them; \<open>t\<close> is what follows the last.\<close>

definition sgr_run :: "param list \<Rightarrow> rune list \<Rightarrow> renditions \<Rightarrow> renditions option" where
  "sgr_run xs t rend = sgr_loop (map (\<lambda>(s, m). number_value m) xs) (map fst (tl xs) @ t) rend"

definition semi :: "param list \<Rightarrow> rune list \<Rightarrow> bool" where
  "semi xs t \<longleftrightarrow> length t = 1 \<and> (case xs of [] \<Rightarrow> True | x # _ \<Rightarrow> fst x = 59)"

lemmas sgr_simps = sgr_step_def sgr_color_def sgr_style_def number_value_def semi_def list_at_def
  numeral_eq_Suc

definition sgr_takes :: "param list \<Rightarrow> param list \<Rightarrow> rune list \<Rightarrow> renditions \<Rightarrow> renditions \<Rightarrow> bool" where
  "sgr_takes seg xs t rend rend' \<longleftrightarrow>
     sgr_step (map (\<lambda>(s, m). number_value m) (seg @ xs)) (map fst (tl (seg @ xs)) @ t) rend =
       Some (length seg, rend')"

lemma sgr_run_Nil [simp]: "sgr_run [] t rend = Some rend"
  by (simp add: sgr_run_def sgr_loop.simps)

lemma sgr_run_takes:
  assumes "sgr_takes seg xs t rend rend'" and "seg \<noteq> []"
  shows "sgr_run (seg @ xs) t rend = sgr_run xs t rend'"
proof -
  obtain a as where seg: "seg = a # as" using assms(2) by (cases seg) auto
  have d: "drop (Suc (length as)) (map fst (as @ xs) @ t) = map fst (tl xs) @ t" if "xs \<noteq> []"
    using that by (cases xs) auto
  show ?thesis
    using assms(1) d
    by (cases "xs = []") (auto simp: sgr_takes_def sgr_run_def seg sgr_loop.simps split_beta)
qed

lemma takes_reset: "sgr_takes [(59, Some 0)] xs t rend Renditions0"
  by (simp add: sgr_takes_def sgr_simps buildRendition_def ClearAttributes_def setUnderlineStyle_def
      setAnsiForeground_def setAnsiBackground_def Renditions0_def ULS_NONE_def ColorDefault_def)

lemma takes_attr:
  "n \<notin> {38, 48, 4, 58, 59} \<Longrightarrow>
    sgr_takes [(59, Some n)] xs t rend (snd (buildRendition (int n) rend))"
  by (simp add: sgr_takes_def sgr_step_def number_value_def)

lemma takes_rgb:
  assumes "RGB c = (r, g, b)" and "0 \<le> r" and "0 \<le> g" and "0 \<le> b"
  shows "sgr_takes (rgb_params 38 [] c) xs t rend (SetFgColor r g b rend)"
    and "sgr_takes (rgb_params 48 [] c) xs t rend (SetBgColor r g b rend)"
    and "sgr_takes (rgb_params 58 [None] c) xs t rend (setUnderlineRGBColor r g b rend)"
  using assms by (simp_all add: sgr_takes_def sgr_simps rgb_params_def)

lemma takes_palette:
  shows "sgr_takes [(59, Some 38), (58, Some 5), (58, Some i)] xs t rend (SetForegroundColor (int i) rend)"
    and "sgr_takes [(59, Some 48), (58, Some 5), (58, Some i)] xs t rend (SetBackgroundColor (int i) rend)"
    and "sgr_takes [(59, Some 58), (58, Some 5), (58, Some i)] xs t rend (setUnderlineColor (int i) rend)"
  by (simp_all add: sgr_takes_def sgr_simps)

lemma takes_style:
  assumes "semi xs t" and "1 \<le> s" and "s \<le> 5"
  shows "sgr_takes (style_params s) xs t rend (rend\<lparr>re_underline := True, re_ulStyle := s\<rparr>)"
proof (cases "s = 1")
  case True
  then show ?thesis
    using assms(1) by (cases xs) (auto simp: sgr_takes_def sgr_simps style_params_def
      setUnderlineStyle_def ULS_SINGLE_def)
next
  case False
  have "unat s \<le> 5" "1 \<le> unat s"
    using assms(2,3) by (simp_all add: word_le_nat_alt)
  then consider "unat s = 1" | "unat s = 2" | "unat s = 3" | "unat s = 4" | "unat s = 5" by linarith
  moreover have "(word_of_nat (unat s) :: 8 word) = s" by simp
  moreover have "length t = 1" using assms(1) by (simp add: semi_def)
  ultimately show ?thesis
    using False by cases (simp_all add: sgr_takes_def sgr_simps style_params_def
      setUnderlineStyle_def ULS_SINGLE_def)
qed

lemma build_color:
  assumes "0 \<le> i" and "i < 8"
  shows "snd (buildRendition (i + 30) rend) = SetForegroundColor i rend"
    and "snd (buildRendition (i + 40) rend) = SetBackgroundColor i rend"
proof -
  have "i \<in> {0, 1, 2, 3, 4, 5, 6, 7}" using assms by auto
  then show "snd (buildRendition (i + 30) rend) = SetForegroundColor i rend"
    "snd (buildRendition (i + 40) rend) = SetBackgroundColor i rend"
    by (elim insertE emptyE; simp add: buildRendition_def)+
qed

lemma build_bright:
  assumes "8 \<le> i" and "i < 16"
  shows "snd (buildRendition (i + 82) rend) = SetForegroundColor i rend"
    and "snd (buildRendition (i + 92) rend) = SetBackgroundColor i rend"
proof -
  have "i \<in> {8, 9, 10, 11, 12, 13, 14, 15}" using assms by auto
  then show "snd (buildRendition (i + 82) rend) = SetForegroundColor i rend"
    "snd (buildRendition (i + 92) rend) = SetBackgroundColor i rend"
    by (elim insertE emptyE; simp add: buildRendition_def)+
qed

lemmas setters = SetForegroundColor_def SetBackgroundColor_def setUnderlineColor_def SetFgColor_def
  SetBgColor_def setUnderlineRGBColor_def

lemma run_foreground:
  assumes "color_ok c"
  shows "sgr_run (color_params 38 30 82 c @ xs) t rend =
    sgr_run xs t (if c = ColorDefault then rend else rend\<lparr>re_fgColor := c\<rparr>)"
  using assms
proof (cases rule: color_cases)
  case (palette i)
  consider "i < 8" | "8 \<le> i" "i < 16" | "16 \<le> i" by linarith
  then show ?thesis
  proof cases
    case 1
    then show ?thesis
      using palette sgr_run_takes [OF takes_attr [of "i + 30"], of xs t rend] build_color(1) [of "int i" rend]
      by (auto simp: color_params_def setters nat_add_distrib)
  next
    case 2
    then show ?thesis
      using palette sgr_run_takes [OF takes_attr [of "i + 82"], of xs t rend] build_bright(1) [of "int i" rend]
      by (auto simp: color_params_def setters nat_add_distrib)
  next
    case 3
    then show ?thesis
      using palette sgr_run_takes [OF takes_palette(1), of i xs t rend]
      by (auto simp: color_params_def setters)
  qed
next
  case (rgb r g b)
  then show ?thesis
    using sgr_run_takes [OF takes_rgb(1) [OF rgb(2)], of xs t rend]
    by (auto simp: color_params_def setters rgb_params_def)
qed (simp add: color_params_def)

lemma run_background:
  assumes "color_ok c"
  shows "sgr_run (color_params 48 40 92 c @ xs) t rend =
    sgr_run xs t (if c = ColorDefault then rend else rend\<lparr>re_bgColor := c\<rparr>)"
  using assms
proof (cases rule: color_cases)
  case (palette i)
  consider "i < 8" | "8 \<le> i" "i < 16" | "16 \<le> i" by linarith
  then show ?thesis
  proof cases
    case 1
    then show ?thesis
      using palette sgr_run_takes [OF takes_attr [of "i + 40"], of xs t rend] build_color(2) [of "int i" rend]
      by (auto simp: color_params_def setters nat_add_distrib)
  next
    case 2
    then show ?thesis
      using palette sgr_run_takes [OF takes_attr [of "i + 92"], of xs t rend] build_bright(2) [of "int i" rend]
      by (auto simp: color_params_def setters nat_add_distrib)
  next
    case 3
    then show ?thesis
      using palette sgr_run_takes [OF takes_palette(2), of i xs t rend]
      by (auto simp: color_params_def setters)
  qed
next
  case (rgb r g b)
  then show ?thesis
    using sgr_run_takes [OF takes_rgb(2) [OF rgb(2)], of xs t rend]
    by (auto simp: color_params_def setters rgb_params_def)
qed (simp add: color_params_def)

lemma run_ul_color:
  assumes "color_ok c"
  shows "sgr_run (ul_color_params c @ xs) t rend =
    sgr_run xs t (if c = ColorDefault then rend else rend\<lparr>re_ulColor := c\<rparr>)"
  using assms
proof (cases rule: color_cases)
  case (palette i)
  then show ?thesis
    using sgr_run_takes [OF takes_palette(3), of i xs t rend]
    by (auto simp: ul_color_params_def setters)
next
  case (rgb r g b)
  then show ?thesis
    using sgr_run_takes [OF takes_rgb(3) [OF rgb(2)], of xs t rend]
    by (auto simp: ul_color_params_def setters rgb_params_def)
qed (simp add: ul_color_params_def)

lemma run_on:
  assumes "n \<notin> {38, 48, 4, 58, 59}"
  shows "sgr_run (on b n @ xs) t rend =
    sgr_run xs t (if b then snd (buildRendition (int n) rend) else rend)"
  using sgr_run_takes [OF takes_attr [OF assms], of xs t rend] by (simp add: on_def)

lemma build_attributes:
  "buildRendition 1 rend = (True, rend\<lparr>re_bold := True\<rparr>)"
  "buildRendition 2 rend = (True, rend\<lparr>re_faint := True\<rparr>)"
  "buildRendition 3 rend = (True, rend\<lparr>re_italic := True\<rparr>)"
  "buildRendition 5 rend = (True, rend\<lparr>re_blink := True\<rparr>)"
  "buildRendition 6 rend = (True, rend\<lparr>re_rapidBlink := True\<rparr>)"
  "buildRendition 7 rend = (True, rend\<lparr>re_inverse := True\<rparr>)"
  "buildRendition 8 rend = (True, rend\<lparr>re_invisible := True\<rparr>)"
  by (simp_all add: buildRendition_def)

lemma renditions_same:
  "re_fgColor rend = c \<Longrightarrow> rend\<lparr>re_fgColor := c\<rparr> = rend"
  "re_bgColor rend = c \<Longrightarrow> rend\<lparr>re_bgColor := c\<rparr> = rend"
  "re_ulColor rend = c \<Longrightarrow> rend\<lparr>re_ulColor := c\<rparr> = rend"
  "re_ulStyle rend = s \<Longrightarrow> rend\<lparr>re_ulStyle := s\<rparr> = rend"
  "\<not> re_bold rend \<Longrightarrow> rend\<lparr>re_bold := False\<rparr> = rend"
  "\<not> re_faint rend \<Longrightarrow> rend\<lparr>re_faint := False\<rparr> = rend"
  "\<not> re_italic rend \<Longrightarrow> rend\<lparr>re_italic := False\<rparr> = rend"
  "\<not> re_underline rend \<Longrightarrow> rend\<lparr>re_underline := False\<rparr> = rend"
  "\<not> re_blink rend \<Longrightarrow> rend\<lparr>re_blink := False\<rparr> = rend"
  "\<not> re_rapidBlink rend \<Longrightarrow> rend\<lparr>re_rapidBlink := False\<rparr> = rend"
  "\<not> re_inverse rend \<Longrightarrow> rend\<lparr>re_inverse := False\<rparr> = rend"
  "\<not> re_invisible rend \<Longrightarrow> rend\<lparr>re_invisible := False\<rparr> = rend"
  by (cases rend; simp)+

lemma run_attributes:
  shows "\<not> re_bold rend \<Longrightarrow> sgr_run (on b 1 @ xs) t rend = sgr_run xs t (rend\<lparr>re_bold := b\<rparr>)"
    and "\<not> re_faint rend \<Longrightarrow> sgr_run (on b 2 @ xs) t rend = sgr_run xs t (rend\<lparr>re_faint := b\<rparr>)"
    and "\<not> re_italic rend \<Longrightarrow> sgr_run (on b 3 @ xs) t rend = sgr_run xs t (rend\<lparr>re_italic := b\<rparr>)"
    and "\<not> re_blink rend \<Longrightarrow> sgr_run (on b 5 @ xs) t rend = sgr_run xs t (rend\<lparr>re_blink := b\<rparr>)"
    and "\<not> re_rapidBlink rend \<Longrightarrow>
      sgr_run (on b 6 @ xs) t rend = sgr_run xs t (rend\<lparr>re_rapidBlink := b\<rparr>)"
    and "\<not> re_inverse rend \<Longrightarrow> sgr_run (on b 7 @ xs) t rend = sgr_run xs t (rend\<lparr>re_inverse := b\<rparr>)"
    and "\<not> re_invisible rend \<Longrightarrow>
      sgr_run (on b 8 @ xs) t rend = sgr_run xs t (rend\<lparr>re_invisible := b\<rparr>)"
  by (simp_all add: run_on build_attributes renditions_same)

lemma run_underline:
  assumes "semi xs t" and "color_ok c" and "s \<le> 5" and "u \<longrightarrow> 1 \<le> s"
    and "\<not> re_underline rend" and "re_ulStyle rend = 0" and "re_ulColor rend = ColorDefault"
  shows "sgr_run ((if u then style_params s @ ul_color_params c else []) @ xs) t rend =
    sgr_run xs t (rend\<lparr>re_underline := u, re_ulStyle := if u then s else 0,
      re_ulColor := if u then c else ColorDefault\<rparr>)"
proof (cases u)
  case True
  have "semi (ul_color_params c @ xs) t"
    using assms(1) by (simp add: semi_def ul_color_params_def rgb_params_def split: prod.split)
  from takes_style [OF this] True assms(3,4)
  have "sgr_run (style_params s @ ul_color_params c @ xs) t rend =
      sgr_run (ul_color_params c @ xs) t (rend\<lparr>re_underline := True, re_ulStyle := s\<rparr>)"
    by (intro sgr_run_takes) (auto simp: style_params_def)
  then show ?thesis using True assms(7)
    by (auto simp: run_ul_color [OF assms(2)] renditions_same)
qed (use assms in \<open>simp add: renditions_same\<close>)

lemma semi_append:
  assumes "semi xs t"
  shows "semi (on b n @ xs) t" and "semi (color_params k low high c @ xs) t"
  using assms by (simp_all add: semi_def on_def color_params_def rgb_params_def split: prod.split)

lemma run_params:
  assumes "renditions_ok r" and "length t = 1"
  shows "sgr_run ((59, Some 0) # sgr_params r) t rend = Some (shown r)"
proof -
  note cok = assms(1) [unfolded renditions_ok_def]
  have "semi [] t" using assms(2) by (simp add: semi_def)
  note semi = semi_append(2) [OF this, simplified]
  have fg: "re_fgColor rend' = ColorDefault \<Longrightarrow> sgr_run (color_params 38 30 82 (re_fgColor r) @ xs) t rend'
      = sgr_run xs t (rend'\<lparr>re_fgColor := re_fgColor r\<rparr>)" for rend' xs
    using cok by (auto simp: run_foreground renditions_same)
  have bg: "re_bgColor rend' = ColorDefault \<Longrightarrow> sgr_run (color_params 48 40 92 (re_bgColor r)) t rend'
      = Some (rend'\<lparr>re_bgColor := re_bgColor r\<rparr>)" for rend'
    using run_background [of "re_bgColor r" "[]" t rend'] cok by (auto simp: renditions_same)
  have "sgr_run ((59, Some 0) # sgr_params r) t rend = sgr_run (sgr_params r) t Renditions0"
    using sgr_run_takes [OF takes_reset, of "sgr_params r" t rend] by simp
  also have "\<dots> = Some (shown r)"
    using cok unfolding sgr_params_def
    by (simp add: run_attributes run_underline fg bg semi semi_append Renditions0_def ColorDefault_def
        del: One_nat_def)
      (auto simp: shown_def ULS_NONE_def ColorDefault_def)
  finally show ?thesis .
qed

section \<open>The text of the sequence\<close>

definition tail_text :: "param list \<Rightarrow> rune list" where
  "tail_text xs = concat (map (\<lambda>(s, m). s # number_text m) xs)"

lemma tail_text_simps [simp]:
  "tail_text [] = []" "tail_text (xs @ ys) = tail_text xs @ tail_text ys"
  "tail_text ((s, m) # xs) = s # number_text m @ tail_text xs"
  by (simp_all add: tail_text_def)

lemma runes_append [simp]: "runes (xs @ ys) = runes xs @ runes ys" "runes [] = []"
  "runes (c # xs) = of_char c # runes xs"
  by (simp_all add: runes_def)

lemma runes_fmt_d: "0 \<le> i \<Longrightarrow> runes (fmt_d i) = number_text (Some (nat i))"
  by (simp add: fmt_d_def number_text_def)

lemma number_text_None [simp]: "number_text None = []"
  by (simp add: number_text_def)

lemma number_text_numeral:
  "number_text (Some 1) = [49]" "number_text (Some 2) = [50]" "number_text (Some 3) = [51]"
  "number_text (Some 4) = [52]" "number_text (Some 5) = [53]" "number_text (Some 6) = [54]"
  "number_text (Some 7) = [55]" "number_text (Some 8) = [56]" "number_text (Some 0) = [48]"
  "number_text (Some 38) = [51, 56]" "number_text (Some 48) = [52, 56]"
  "number_text (Some 58) = [53, 56]"
  by (simp_all add: number_text_def decimal.simps runes_def del: One_nat_def)

lemma RGB_nonneg: "RGB c = (r, g, b) \<Longrightarrow> color_ok c \<Longrightarrow> IsRGB c \<Longrightarrow> 0 \<le> r \<and> 0 \<le> g \<and> 0 \<le> b"
  by (erule color_cases) (auto simp: IsRGB_bits ColorDefault_def)

lemma Index_nonneg: "color_ok c \<Longrightarrow> \<not> IsRGB c \<Longrightarrow> c \<noteq> ColorDefault \<Longrightarrow> 0 \<le> Index c"
  by (erule color_cases) auto

lemma runes_color:
  assumes "color_ok c"
  shows "runes (sgr_foreground c) = tail_text (color_params 38 30 82 c)"
    and "runes (sgr_background c) = tail_text (color_params 48 40 92 c)"
  using RGB_nonneg [OF _ assms] Index_nonneg [OF assms]
  by (auto simp: sgr_foreground_def sgr_background_def color_params_def rgb_params_def runes_fmt_d
      number_text_numeral nat_add_distrib split: prod.split)

lemma runes_underline:
  assumes "color_ok (re_ulColor r)" and "re_underline r \<longrightarrow> 1 \<le> re_ulStyle r"
  shows "runes (sgr_underline r) = tail_text
    (if re_underline r then style_params (re_ulStyle r) @ ul_color_params (re_ulColor r) else [])"
proof -
  have "re_underline r \<Longrightarrow> re_ulStyle r > 0"
    using assms(2) by (auto simp: word_less_nat_alt word_le_nat_alt)
  then show ?thesis
  using RGB_nonneg [OF _ assms(1)] Index_nonneg [OF assms(1)]
  by (auto simp: sgr_underline_def style_params_def ul_color_params_def rgb_params_def runes_fmt_d
      number_text_numeral ULS_NONE_def split: prod.split)
qed

lemma runes_on: "runes (if b then [c, d] else []) = tail_text (on b n)"
  if "of_char c = (59 :: nat)" and "number_text (Some n) = [of_char d]"
  using that by (simp add: on_def)

lemma runes_SGR:
  assumes "renditions_ok r"
  shows "runes (SGR r) = [0x1B, 91] @ params_text (Some 0) (sgr_params r) @ [109]"
proof (cases "r = Renditions0")
  case True
  then show ?thesis
    by (simp add: SGR_def sgr_params_def Renditions0_def on_def color_params_def ColorDefault_def
        params_text_def number_text_numeral)
next
  case False
  have "params_text (Some 0) (sgr_params r) = 48 # tail_text (sgr_params r)"
    by (simp add: params_text_def tail_text_def number_text_numeral)
  moreover note runes_color(1) [of "re_fgColor r"] runes_color(2) [of "re_bgColor r"]
    runes_underline [of r]
  ultimately show ?thesis
    using assms False
    by (simp add: SGR_def renditions_ok_def sgr_params_def on_def number_text_numeral if_distrib [of runes]
       del: One_nat_def)
qed

definition param_ok :: "param \<Rightarrow> bool" where
  "param_ok x \<longleftrightarrow> fst x \<in> {58, 59} \<and> number_ok (snd x)"

lemma param_ok_iff: "param_ok (s, m) \<longleftrightarrow> s \<in> {58, 59} \<and> number_ok m"
  by (simp add: param_ok_def)

lemma color_params_ok:
  assumes "color_ok c" and "k < 65535" and "low < 1000" and "high < 1000"
  shows "list_all param_ok (color_params k low high c)"
  using assms(1)
  by (cases rule: color_cases)
    (use assms(2-) in \<open>auto simp: color_params_def rgb_params_def param_ok_iff number_ok_def\<close>)

lemma ul_color_params_ok: "color_ok c \<Longrightarrow> list_all param_ok (ul_color_params c)"
  by (erule color_cases) (auto simp: ul_color_params_def rgb_params_def param_ok_iff number_ok_def)

lemma sgr_params_ok:
  assumes "renditions_ok r"
  shows "list_all param_ok (sgr_params r)"
proof -
  have "unat (re_ulStyle r) < 256" using unsigned_less [of "re_ulStyle r"] by simp
  moreover have "list_all param_ok (on b n)" if "n < 65535" for b n
    using that by (simp add: on_def param_ok_iff number_ok_def)
  ultimately show ?thesis
    using assms color_params_ok ul_color_params_ok
    by (simp add: sgr_params_def renditions_ok_def style_params_def param_ok_iff number_ok_def)
qed

lemma digits_text:
  assumes "c \<in> set (number_text m)"
  shows "48 \<le> c \<and> c \<le> 57"
proof -
  have "\<forall>c \<in> set (runes (decimal n)). 48 \<le> c \<and> c \<le> 57" for n
    by (induction n rule: decimal.induct) (subst decimal.simps, auto simp: runes_def)
  then show ?thesis using assms by (auto simp: number_text_def split: option.splits)
qed

definition separators :: "string \<Rightarrow> string" where
  "separators s = filter (\<lambda>c. c = CHR '';'' \<or> c = CHR '':'') s"

lemma length_separators:
  assumes "renditions_ok r"
  shows "length (separators (SGR r)) = length (sgr_params r)"
proof -
  have f: "filter (\<lambda>c. c = 59 \<or> c = 58) (number_text m) = []" for m
    using digits_text [of _ m] by (fastforce simp: filter_empty_conv)
  have t: "length (filter (\<lambda>c. c = 59 \<or> c = 58) (tail_text xs)) = length xs"
    if "list_all param_ok xs" for xs
    using that by (induction xs) (auto simp: param_ok_def f)
  have c: "(of_char c = (59 :: nat)) = (c = CHR '';'')" "(of_char c = (58 :: nat)) = (c = CHR '':'')" for c
    using of_char_eq_iff [of c "CHR '';''"] of_char_eq_iff [of c "CHR '':''"] by simp_all
  have "length (separators s) = length (filter (\<lambda>c. c = 59 \<or> c = 58) (runes s))" for s
    by (simp add: separators_def runes_def filter_map comp_def c)
  then show ?thesis
    using t [OF sgr_params_ok [OF assms]]
    by (simp add: runes_SGR [OF assms] params_text_def f tail_text_def)
qed

lemma sgr_loop_params:
  assumes "renditions_ok r" and "xs = sgr_params r"
    and "length seps = Suc (length xs) \<or> xs = [] \<and> length seps \<le> 1" and "take (length xs) seps = map fst xs"
  shows "sgr_loop (0 # map (\<lambda>(s, m). number_value m) xs) seps rend = Some (shown r)"
proof (cases "xs = []")
  case True
  then show ?thesis
    using run_params [OF assms(1), of "[0]" rend] assms(2)
    by (simp add: sgr_run_def sgr_loop.simps sgr_step_def buildRendition_def number_value_def)
next
  case False
  then have "seps = map fst xs @ [seps ! length xs]"
    using assms(3,4) by (metis lessI take_Suc_conv_app_nth take_all_iff order_refl)
  then show ?thesis
    using run_params [OF assms(1), of "[seps ! length xs]" rend] assms(2)
    by (simp add: sgr_run_def number_value_def)
qed

section \<open>Properties\<close>

text \<open>
  C15. Round trip of the renditions: the text of \<open>SGR\<close> for renditions that handlers can make gives no handler
  before its last rune; the handler it then gives sets any renditions to the ones it was made from, except for the
  index of the link, which the text does not hold, and the style and colour of an underline that is off. The text
  has fewer than sixteen separators, which is what the parser takes: with three RGB colours it has more, and
  the parser refuses it.
\<close>

theorem SGR_roundtrip:
  assumes "parser_inv p" and "ps_inputState p = InputState_Normal"
    and "ps_compatLevel p \<noteq> CompatLevel_VT52" and "ps_handleReady p \<or> ps_history p = []"
    and "renditions_ok r" and "length (separators (SGR r)) < 16"
  shows "\<exists>p' hd params seps.
    feed (runes (SGR r)) p = Some (p', replicate (length (SGR r) - 1) None @ [Some hd]) \<and>
    hd_call hd = Mode (Hdl_csi_sgr params seps) \<and> hd_sequence hd = SGR r \<and>
    sgr_loop params seps rend = Some (shown r)"
proof -
  note chars = runes_SGR [OF assms(5)]
  have u: "concat (map utf8 (runes s)) = s" if "\<forall>c \<in> set (runes s). c < 128" for s
    using that by (induction s) (auto simp: utf8_def)
  have "\<forall>c \<in> set (tail_text xs). c < 128" if "list_all param_ok xs" for xs
    using that by (induction xs) (auto simp: param_ok_def dest!: digits_text)
  then have "concat (map utf8 (runes (SGR r))) = SGR r"
    using sgr_params_ok [OF assms(5)]
    by (intro u) (auto simp: chars params_text_def tail_text_def number_text_numeral)
  moreover have "length (runes (SGR r)) = length (SGR r)" by (simp add: runes_def)
  moreover obtain p' hd seps where
    "feed (runes (SGR r)) p = Some (p', replicate (length (runes (SGR r)) - 1) None @ [Some hd])"
    "hd_call hd = Mode (Hdl_csi_sgr (0 # map (\<lambda>(s, m). number_value m) (sgr_params r)) seps)"
    "length seps = Suc (length (sgr_params r)) \<or> sgr_params r = [] \<and> length seps \<le> 1"
    "take (length (sgr_params r)) seps = map fst (sgr_params r)"
    "hd_sequence hd = concat (map utf8 (runes (SGR r)))"
    using SGR_params [OF assms(1-4), of "sgr_params r" "Some 0"] sgr_params_ok [OF assms(5)] assms(6)
    by (auto simp: length_separators [OF assms(5)] chars list_all_iff param_ok_def number_ok_def
        number_value_def split_beta)
  ultimately show ?thesis using sgr_loop_params [OF assms(5) refl] by metis
qed

definition red_on_default :: renditions where
  "red_on_default = Renditions0\<lparr>re_fgColor := PaletteColor 196, re_bold := True, re_underline := True,
     re_ulStyle := 3\<rparr>"

lemma color_ok_simps: "color_ok 0" "i < 65535 \<Longrightarrow> color_ok (PaletteColor (int i))" "color_ok (NewRGBColor r g b)"
  by (auto simp: color_ok_def ColorDefault_def)

lemma red_on_default_ok: "renditions_ok red_on_default"
  using color_ok_simps(2) [of 196]
  by (simp add: renditions_ok_def red_on_default_def Renditions0_def color_ok_simps)

lemma SGR_roundtrip_witness:
  "\<exists>p' hd params seps.
    feed (runes (SGR red_on_default)) NewParser =
      Some (p', replicate (length (SGR red_on_default) - 1) None @ [Some hd]) \<and>
    hd_call hd = Mode (Hdl_csi_sgr params seps) \<and> hd_sequence hd = SGR red_on_default \<and>
    sgr_loop params seps Renditions0 = Some (shown red_on_default)"
proof (rule SGR_roundtrip)
  show "length (separators (SGR red_on_default)) < 16"
    using PaletteColor_facts [of 196]
    by (simp add: length_separators [OF red_on_default_ok])
      (simp add: sgr_params_def red_on_default_def Renditions0_def on_def style_params_def
        ul_color_params_def color_params_def ColorDefault_def ULS_SINGLE_def)
qed (use parser_inv_New red_on_default_ok in \<open>simp_all add: NewParser_def parser_reset_def\<close>)

lemma in_csi_full:
  assumes "in_csi h acc ss p" and "length acc = 16" and "length h < 4097" and "s = 59 \<or> s = 58"
  shows "\<exists>p'. ProcessInput [s] p = Some (p', None) \<and> ps_inputState p' = InputState_Normal"
  using assms by (auto simp: run in_csi_def)

text \<open>
  The parser takes sixteen parameters, \<open>SGR\<close> can write more: an RGB foreground, background and
  underline are seventeen. The separator after the sixteenth ends the sequence without a handler, and
  what is left of the text is printed on the screen.
\<close>

theorem SGR_too_long:
  assumes "parser_inv p" and "ps_inputState p = InputState_Normal"
    and "ps_compatLevel p \<noteq> CompatLevel_VT52" and "ps_handleReady p \<or> ps_history p = []"
    and "renditions_ok r" and "16 \<le> length (separators (SGR r))"
  shows "\<exists>pre post p'. runes (SGR r) = pre @ post \<and> post \<noteq> [] \<and> (\<forall>c \<in> set post. 48 \<le> c) \<and>
    feed pre p = Some (p', replicate (length pre) None) \<and> ps_inputState p' = InputState_Normal"
proof -
  define xs where "xs = sgr_params r"
  have ok: "list_all param_ok xs" and len: "15 < length xs"
    using sgr_params_ok [OF assms(5)] assms(6) by (simp_all add: xs_def length_separators [OF assms(5)])
  obtain s m where sm: "xs ! 15 = (s, m)" by fastforce
  have split: "xs = take 15 xs @ (s, m) # drop 16 xs"
    using id_take_nth_drop [OF len] sm by simp
  have s: "s = 59 \<or> s = 58"
    using ok len sm by (auto simp: list_all_length param_ok_def dest!: spec [of _ "15 :: nat"])
  define pre where "pre = [0x1B, 91] @ params_text (Some 0) (take 15 xs)"
  define post where "post = number_text m @ tail_text (drop 16 xs) @ [109]"
  obtain p1 where p1: "feed [0x1B, 91] p = Some (p1, [None, None])" "in_csi [0x1B, 91] [0] [] p1"
    using in_csi_start [OF assms(1-4)] by auto
  have ok15: "\<forall>(s, n) \<in> set (take 15 xs). s \<in> {58, 59} \<and> number_ok n"
    using ok by (fastforce simp: list_all_iff param_ok_def dest: in_set_takeD)
  obtain p2 acc where p2: "feed (params_text (Some 0) (take 15 xs)) p1 =
      Some (p2, replicate (length (params_text (Some 0) (take 15 xs))) None)"
    "in_csi pre acc (map fst (take 15 xs)) p2" "length acc = 16"
    using in_csi_params [OF p1(2), of "take 15 xs" "Some 0"] ok15 len by (auto simp: number_ok_def pre_def)
  have "length (concat (map (\<lambda>(s, m). s # number_text m) ys)) \<le> 6 * length ys"
    if "\<forall>(s, n) \<in> set ys. s \<in> {58, 59} \<and> number_ok n" for ys
    using that by (induction ys) (auto dest: number_text_bound)
  from this [OF ok15] have "length pre < 4097"
    by (simp add: pre_def params_text_def number_text_numeral)
  from in_csi_full [OF p2(2,3) this s] obtain p3 where p3:
    "ProcessInput [s] p2 = Some (p3, None)" "ps_inputState p3 = InputState_Normal" by blast
  have "feed pre p = Some (p2, replicate (length pre) None)"
    using feed_append [OF p1(1) p2(1)] by (simp add: pre_def)
  from feed_append [OF this, of "[s]"] p3(1)
  have "feed (pre @ [s]) p = Some (p3, replicate (length (pre @ [s])) None)"
    by (simp add: replicate_append_same)
  moreover have "runes (SGR r) = (pre @ [s]) @ post"
    unfolding runes_SGR [OF assms(5)] xs_def [symmetric]
    by (subst split) (simp add: pre_def post_def params_text_def tail_text_def)
  moreover have "\<forall>c \<in> set (tail_text ys). 48 \<le> c" if "list_all param_ok ys" for ys
    using that by (induction ys) (auto simp: param_ok_def dest!: digits_text)
  then have "\<forall>c \<in> set post. 48 \<le> c"
    using ok split by (auto simp: post_def list_all_append dest!: digits_text)
      (metis append_take_drop_id list_all_append)
  ultimately show ?thesis using p3(2) by (metis append_is_Nil_conv list.discI post_def)
qed

definition all_rgb :: renditions where
  "all_rgb = Renditions0\<lparr>re_fgColor := NewRGBColor 255 0 0, re_bgColor := NewRGBColor 0 0 128,
     re_ulColor := NewRGBColor 0 255 0, re_underline := True, re_ulStyle := 1\<rparr>"

lemma SGR_too_long_witness:
  "\<exists>pre post p'. runes (SGR all_rgb) = pre @ post \<and> post \<noteq> [] \<and> (\<forall>c \<in> set post. 48 \<le> c) \<and>
    feed pre NewParser = Some (p', replicate (length pre) None) \<and> ps_inputState p' = InputState_Normal"
proof (rule SGR_too_long)
  show ok: "renditions_ok all_rgb"
    by (simp add: renditions_ok_def all_rgb_def Renditions0_def color_ok_simps)
  show "16 \<le> length (separators (SGR all_rgb))"
    using RGB_facts
    by (simp add: length_separators [OF ok])
      (simp add: sgr_params_def all_rgb_def Renditions0_def on_def style_params_def
        ul_color_params_def color_params_def rgb_params_def ULS_SINGLE_def RGB_NewRGBColor)
qed (use parser_inv_New in \<open>simp_all add: NewParser_def parser_reset_def\<close>)
end
