(* ===== verification/TermBase.thy ===== *)
theory TermBase
  imports ParserHandlers Renditions
begin

text \<open>
  The small data types of the terminal: \<open>terminal/base.go\<close> (points, rectangles, the damaged range of
  cells, searching), \<open>stack.go\<close>, \<open>links.go\<close>, \<open>charset.go\<close>, \<open>cursor.go\<close>, \<open>cell.go\<close> and the user input of
  \<open>input.go\<close>.

  \<open>int\<close> is an integer, a string the list of its bytes. A method on a pointer takes the value and
  returns it changed. Formatting for logs is left out.
\<close>

section \<open>Slices and numbers\<close>

text \<open>\<open>copy(xs[i:], ys)\<close>: as many elements as fit; the slice panics when \<open>i\<close> is out of range.\<close>

definition copy_into :: "'a list \<Rightarrow> int \<Rightarrow> 'a list \<Rightarrow> 'a list option" where
  "copy_into xs i ys =
     (if 0 \<le> i \<and> i \<le> int (length xs)
      then Some (take (nat i) xs @ take (length xs - nat i) ys @ drop (nat i + length ys) xs)
      else None)"

text \<open>\<open>make([]T, n)\<close>: a negative length panics.\<close>

definition make_slice :: "int \<Rightarrow> 'a \<Rightarrow> 'a list option" where
  "make_slice n z = (if n < 0 then None else Some (replicate (nat n) z))"

text \<open>Go's \<open>/\<close> rounds to zero.\<close>

definition go_div :: "int \<Rightarrow> int \<Rightarrow> int" where
  "go_div a b = (if 0 \<le> a then a div b else - ((- a) div b))"

text \<open>
  A \<open>for\<close> loop over a range of integers whose body may panic: \<open>for_up\<close> runs the body for the values
  \<open>a\<close>, \<open>a + 1\<close>, ... below \<open>b\<close>.
\<close>

fun for_list :: "'i list \<Rightarrow> ('i \<Rightarrow> 's \<Rightarrow> 's option) \<Rightarrow> 's \<Rightarrow> 's option" where
  "for_list [] f s = Some s"
| "for_list (i # js) f s = do { s' \<leftarrow> f i s; for_list js f s' }"

definition for_up :: "int \<Rightarrow> int \<Rightarrow> (int \<Rightarrow> 's \<Rightarrow> 's option) \<Rightarrow> 's \<Rightarrow> 's option" where
  "for_up a b f s = for_list (map (\<lambda>k. a + int k) [0..<nat (b - a)]) f s"

lemma for_list_inv:
  assumes "P s" and "\<And>i s. i \<in> set xs \<Longrightarrow> P s \<Longrightarrow> ok (f i s) P"
  shows "ok (for_list xs f s) P"
  using assms by (induction xs arbitrary: s) (auto simp: ok_bind intro: ok_mono)

lemma for_up_inv:
  assumes "P s" and "\<And>i s. a \<le> i \<Longrightarrow> i < b \<Longrightarrow> P s \<Longrightarrow> ok (f i s) P"
  shows "ok (for_up a b f s) P"
  unfolding for_up_def using assms by (intro for_list_inv) auto

section \<open>Points and rectangles\<close>

record point =
  pt_x :: int
  pt_y :: int

definition point_equal :: "point \<Rightarrow> point \<Rightarrow> bool" where
  "point_equal p rhs \<longleftrightarrow> p = rhs"

definition point_less :: "point \<Rightarrow> point \<Rightarrow> bool" where
  "point_less p rhs \<longleftrightarrow> pt_y p < pt_y rhs \<or> (pt_y p = pt_y rhs \<and> pt_x p < pt_x rhs)"

definition lessEqual :: "point \<Rightarrow> point \<Rightarrow> bool" where
  "lessEqual p rhs \<longleftrightarrow> point_less p rhs \<or> point_equal p rhs"

record rect =
  rc_tl :: point
  rc_br :: point
  rc_rectangular :: bool

definition rect_empty :: "rect \<Rightarrow> bool" where
  "rect_empty r \<longleftrightarrow> rc_tl r = rc_br r"

definition rect_null :: "rect \<Rightarrow> bool" where
  "rect_null r \<longleftrightarrow> rc_tl r = \<lparr>pt_x = - 1, pt_y = - 1\<rparr> \<and> rc_br r = \<lparr>pt_x = - 1, pt_y = - 1\<rparr>"

definition rect_mid :: "rect \<Rightarrow> point" where
  "rect_mid r = \<lparr>pt_x = go_div (pt_x (rc_tl r) + pt_x (rc_br r)) 2,
     pt_y = go_div (pt_y (rc_tl r) + pt_y (rc_br r)) 2\<rparr>"

definition rect_clear :: "rect \<Rightarrow> rect" where
  "rect_clear r = r\<lparr>rc_tl := \<lparr>pt_x = - 1, pt_y = - 1\<rparr>, rc_br := \<lparr>pt_x = - 1, pt_y = - 1\<rparr>\<rparr>"

definition toggleRectangular :: "rect \<Rightarrow> rect" where
  "toggleRectangular r = r\<lparr>rc_rectangular := \<not> rc_rectangular r\<rparr>"

definition rect0 :: rect where
  "rect0 = \<lparr>rc_tl = \<lparr>pt_x = 0, pt_y = 0\<rparr>, rc_br = \<lparr>pt_x = 0, pt_y = 0\<rparr>, rc_rectangular = False\<rparr>"

definition NewRect :: rect where
  "NewRect = rect_clear rect0"

text \<open>Both assignments go to the top left corner, as in the code.\<close>

definition NewRect4 :: "int \<Rightarrow> int \<Rightarrow> int \<Rightarrow> int \<Rightarrow> rect" where
  "NewRect4 x1 y1 x2 y2 =
     (rect0\<lparr>rc_tl := \<lparr>pt_x = x1, pt_y = y1\<rparr>\<rparr>)\<lparr>rc_tl := \<lparr>pt_x = x2, pt_y = y2\<rparr>\<rparr>"

section \<open>Damage\<close>

record damage =
  dm_start :: int
  dm_end :: int
  dm_totalCells :: int

definition damage_reset :: "damage \<Rightarrow> damage" where
  "damage_reset d = d\<lparr>dm_start := 0, dm_end := 0\<rparr>"

definition damage_expose :: "damage \<Rightarrow> damage" where
  "damage_expose d = d\<lparr>dm_start := 0, dm_end := dm_totalCells d\<rparr>"

definition damage_add :: "int \<Rightarrow> int \<Rightarrow> damage \<Rightarrow> damage" where
  "damage_add s e d =
     (let (s', e') = (if e < s then (0, dm_totalCells d) else (s, e))
      in if dm_start d = dm_end d then d\<lparr>dm_start := s', dm_end := e'\<rparr>
         else d\<lparr>dm_start := min (dm_start d) s', dm_end := max (dm_end d) e'\<rparr>)"

section \<open>Searching\<close>

text \<open>\<open>mid\<close> stays between \<open>low\<close> and \<open>high\<close>, so the index is in range.\<close>

function LowerBound_loop :: "int list \<Rightarrow> int \<Rightarrow> int \<Rightarrow> int \<Rightarrow> int" where
  "LowerBound_loop arr target low high =
     (if low \<le> high then
        let mid = (low + high) div 2
        in if arr ! nat mid \<ge> target then LowerBound_loop arr target low (mid - 1)
           else LowerBound_loop arr target (mid + 1) high
      else low)"
  by pat_completeness auto
termination
  by (relation "measure (\<lambda>(arr, target, low, high). nat (high - low + 1))") auto

declare LowerBound_loop.simps [simp del]

definition LowerBound :: "int list \<Rightarrow> int \<Rightarrow> int" where
  "LowerBound arr target = LowerBound_loop arr target 0 (int (length arr) - 1)"

definition RemoveIndex :: "'a list \<Rightarrow> int \<Rightarrow> 'a list option" where
  "RemoveIndex s index = do {
     a \<leftarrow> slice s 0 index;
     b \<leftarrow> slice s (index + 1) (int (length s));
     Some (a @ b)
   }"

text \<open>\<open>sort.SearchInts\<close> on a sorted slice: the first position whose element is not smaller.\<close>

definition SearchInts :: "int list \<Rightarrow> int \<Rightarrow> int" where
  "SearchInts a x = int (length (takeWhile (\<lambda>v. v < x) a))"

section \<open>The stack of \<open>stack.go\<close>\<close>

record 'v stack =
  st_data :: "'v list"
  st_max :: int

datatype stack_error = ErrEmptyStack | ErrLastItem

definition NewStack :: "int \<Rightarrow> 'v stack" where
  "NewStack n = \<lparr>st_data = [], st_max = n\<rparr>"

text \<open>A full stack loses its oldest entry.\<close>

definition Push :: "'v \<Rightarrow> 'v stack \<Rightarrow> 'v stack option" where
  "Push v s =
     (if int (length (st_data s)) \<ge> st_max s then do {
        rest \<leftarrow> slice (st_data s) 1 (int (length (st_data s)));
        Some (s\<lparr>st_data := rest @ [v]\<rparr>)
      }
      else Some (s\<lparr>st_data := st_data s @ [v]\<rparr>))"

definition Pop :: "'v stack \<Rightarrow> 'v option \<times> stack_error option \<times> 'v stack" where
  "Pop s =
     (if st_data s = [] then (None, Some ErrEmptyStack, s)
      else let s' = s\<lparr>st_data := butlast (st_data s)\<rparr>
        in (Some (last (st_data s)), if st_data s' = [] then Some ErrLastItem else None, s'))"

definition GetPeek :: "'v stack \<Rightarrow> 'v option" where
  "GetPeek s = list_at (st_data s) (int (length (st_data s)) - 1)"

definition UpdatePeek :: "'v \<Rightarrow> 'v stack \<Rightarrow> 'v stack option" where
  "UpdatePeek v s = do {
     d \<leftarrow> list_put (st_data s) (int (length (st_data s)) - 1) v;
     Some (s\<lparr>st_data := d\<rparr>)
   }"

definition stack_Equal :: "'v stack \<Rightarrow> 'v stack \<Rightarrow> bool" where
  "stack_Equal s c \<longleftrightarrow> st_max s = st_max c \<and> length (st_data s) = length (st_data c) \<and>
     list_all2 (=) (st_data s) (st_data c)"

section \<open>Links\<close>

record link =
  lk_url :: string
  lk_id :: string
  lk_index :: int

record linkSet =
  ls_links :: "link list"
  ls_nextIndex :: int

definition newLinks :: linkSet where
  "newLinks = \<lparr>ls_links = [], ls_nextIndex = 1\<rparr>"

definition addLink :: "string \<Rightarrow> string \<Rightarrow> linkSet \<Rightarrow> int \<times> linkSet" where
  "addLink id0 url0 x =
     (let url = (if length url0 > 2083 - 1 then take (2083 - 1) url0 else url0);
          id' = (if length id0 > 250 - 1 then take (250 - 1) id0 else id0)
      in case find (\<lambda>l. lk_url l = url \<and> lk_id l = id') (ls_links x) of
           Some l \<Rightarrow> (lk_index l, x)
         | None \<Rightarrow>
             let index = ls_nextIndex x
             in (index, x\<lparr>ls_links := ls_links x @ [\<lparr>lk_url = url, lk_id = id', lk_index = index\<rparr>],
                          ls_nextIndex := ls_nextIndex x + 1\<rparr>))"

section \<open>Character sets\<close>

definition vt_DEC_Special_table :: "(nat \<times> rune) list" where
  "vt_DEC_Special_table =
    [(0x5f, 0x00A0), (0x60, 0x25C6), (0x61, 0x2592), (0x62, 0x2409), (0x63, 0x240C), (0x64, 0x240D),
     (0x65, 0x240A), (0x66, 0x00B0), (0x67, 0x00B1), (0x68, 0x2424), (0x69, 0x240B), (0x6a, 0x2518),
     (0x6b, 0x2510), (0x6c, 0x250C), (0x6d, 0x2514), (0x6e, 0x253C), (0x6f, 0x23BA), (0x70, 0x23BB),
     (0x71, 0x2500), (0x72, 0x23BC), (0x73, 0x23BD), (0x74, 0x251C), (0x75, 0x2524), (0x76, 0x2534),
     (0x77, 0x252C), (0x78, 0x2502), (0x79, 0x2264), (0x7a, 0x2265), (0x7b, 0x03C0), (0x7c, 0x2260),
     (0x7d, 0x00A3), (0x7e, 0x00B7)]"

definition vt_DEC_Supplement_table :: "(nat \<times> rune) list" where
  "vt_DEC_Supplement_table =
    [(0xa0, 0x0020), (0xa6, 0x0026), (0xa8, 0x00a4), (0xac, 0x002c), (0xad, 0x002d), (0xae, 0x002e),
     (0xaf, 0x002f), (0xb4, 0x0034), (0xb8, 0x0038), (0xbe, 0x003e), (0xd0, 0x0050), (0xd7, 0x0152),
     (0xdd, 0x0178), (0xde, 0x005e), (0xf0, 0x0070), (0xf7, 0x0153), (0xfd, 0x00ff), (0xfe, 0x007e),
     (0xff, 0x007f)]"

definition vt_DEC_Technical_table :: "(nat \<times> rune) list" where
  "vt_DEC_Technical_table =
    [(0x20, 0x0020), (0x21, 0x23b7), (0x22, 0x250c), (0x23, 0x2500), (0x24, 0x2320), (0x25, 0x2321),
     (0x26, 0x2502), (0x27, 0x23a1), (0x28, 0x23a3), (0x29, 0x23a4), (0x2a, 0x23a6), (0x2b, 0x239b),
     (0x2c, 0x239d), (0x2d, 0x239e), (0x2e, 0x23a0), (0x2f, 0x23a8), (0x30, 0x23ac), (0x31, 0x0020),
     (0x32, 0x0020), (0x33, 0x0020), (0x34, 0x0020), (0x35, 0x0020), (0x36, 0x0020), (0x37, 0x0020),
     (0x38, 0x0020), (0x39, 0x0020), (0x3a, 0x0020), (0x3b, 0x0020), (0x3c, 0x2264), (0x3d, 0x2260),
     (0x3e, 0x2265), (0x3f, 0x222b), (0x40, 0x2234), (0x41, 0x221d), (0x42, 0x221e), (0x43, 0x00f7),
     (0x44, 0x0394), (0x45, 0x2207), (0x46, 0x03a6), (0x47, 0x0393), (0x48, 0x223c), (0x49, 0x2243),
     (0x4a, 0x0398), (0x4b, 0x00d7), (0x4c, 0x039b), (0x4d, 0x21d4), (0x4e, 0x21d2), (0x4f, 0x2261),
     (0x50, 0x03a0), (0x51, 0x03a8), (0x52, 0x0020), (0x53, 0x03a3), (0x54, 0x0020), (0x55, 0x0020),
     (0x56, 0x221a), (0x57, 0x03a9), (0x58, 0x039e), (0x59, 0x03a5), (0x5a, 0x2282), (0x5b, 0x2283),
     (0x5c, 0x2229), (0x5d, 0x222a), (0x5e, 0x2227), (0x5f, 0x2228), (0x60, 0x00ac), (0x61, 0x03b1),
     (0x62, 0x03b2), (0x63, 0x03c7), (0x64, 0x03b4), (0x65, 0x03b5), (0x66, 0x03c6), (0x67, 0x03b3),
     (0x68, 0x03b7), (0x69, 0x03b9), (0x6a, 0x03b8), (0x6b, 0x03ba), (0x6c, 0x03bb), (0x6d, 0x0020),
     (0x6e, 0x03bd), (0x6f, 0x2202), (0x70, 0x03c0), (0x71, 0x03c8), (0x72, 0x03c1), (0x73, 0x03c3),
     (0x74, 0x03c4), (0x75, 0x0020), (0x76, 0x0192), (0x77, 0x03c9), (0x78, 0x03be), (0x79, 0x03c5),
     (0x7a, 0x03b6), (0x7b, 0x2190), (0x7c, 0x2191), (0x7d, 0x2192), (0x7e, 0x2193), (0x7f, 0x007f)]"

definition vt_ISO_8859_1_table :: "(nat \<times> rune) list" where
  "vt_ISO_8859_1_table =
    [(0xa0, 0x00a0), (0xff, 0x00ff)]"

definition vt_ISO_UK_table :: "(nat \<times> rune) list" where
  "vt_ISO_UK_table =
    [(0x23, 0x00A3)]"

fun charset_table :: "charset \<Rightarrow> (nat \<times> rune) list" where
  "charset_table vt_DEC_Special = vt_DEC_Special_table"
| "charset_table vt_DEC_Supplement = vt_DEC_Supplement_table"
| "charset_table vt_DEC_Technical = vt_DEC_Technical_table"
| "charset_table vt_ISO_8859_1 = vt_ISO_8859_1_table"
| "charset_table vt_ISO_UK = vt_ISO_UK_table"

text \<open>\<open>b\<close> is a byte; nil (\<open>None\<close>) and a byte the table does not have give the byte itself.\<close>

definition lookupTable :: "charset option \<Rightarrow> nat \<Rightarrow> rune" where
  "lookupTable table b =
     (case table of
        None \<Rightarrow> b
      | Some t \<Rightarrow> (case map_of (charset_table t) b of Some chr \<Rightarrow> chr | None \<Rightarrow> b))"

record charsetState =
  cs_g :: "charset option list"
  cs_gl :: int
  cs_gr :: int
  cs_ss :: int
  cs_vtMode :: bool

definition CharsetState_Equal :: "charsetState \<Rightarrow> charsetState \<Rightarrow> bool" where
  "CharsetState_Equal cs x \<longleftrightarrow>
     \<not> (cs_vtMode cs \<noteq> cs_vtMode x \<or> cs_gl cs \<noteq> cs_gl x \<or> cs_gr cs \<noteq> cs_gr x \<or> cs_ss cs \<noteq> cs_ss x)"

text \<open>\<open>resetCharsetState\<close> of \<open>emulator.go\<close> sets every field.\<close>

definition resetCharsetState :: "charsetState \<Rightarrow> charsetState" where
  "resetCharsetState cs =
     cs\<lparr>cs_vtMode := False, cs_g := [None, None, None, None], cs_gl := 0, cs_gr := 2, cs_ss := 0\<rparr>"

section \<open>Cursor and cell\<close>

datatype cursorStyle =
  CursorStyle_Hidden | CursorStyle_FillBlock | CursorStyle_HollowBlock

text \<open>The constants of \<open>DECSCUSR\<close>; the block, \<open>CursorStyle_BlinkBlock\<close>, is the zero value.\<close>

datatype cursorShow =
  CursorStyle_BlinkBlock | CursorStyle_SteadyBlock | CursorStyle_BlinkUnderline
| CursorStyle_SteadyUnderline | CursorStyle_BlinkBar | CursorStyle_SteadyBar

record cursor =
  cu_posX :: int
  cu_posY :: int
  cu_color :: color
  cu_style :: cursorStyle
  cu_showStyle :: cursorShow

record cell =
  ce_contents :: string
  ce_renditions :: renditions
  ce_dirty :: bool
  ce_wrap :: bool
  ce_earlyWrap :: bool
  ce_dwidth :: bool
  ce_dwidthCont :: bool

definition Cell0 :: cell where
  "Cell0 = \<lparr>ce_contents = [], ce_renditions = Renditions0, ce_dirty = False, ce_wrap = False,
     ce_earlyWrap = False, ce_dwidth = False, ce_dwidthCont = False\<rparr>"

definition Cell_Empty :: "cell \<Rightarrow> bool" where
  "Cell_Empty c \<longleftrightarrow> length (ce_contents c) = 0"

definition IsBlank :: "cell \<Rightarrow> bool" where
  "IsBlank c \<longleftrightarrow> \<not> (ce_dwidth c \<or> ce_dwidthCont c) \<and>
     (Cell_Empty c \<or> ce_contents c = '' '' \<or> ce_contents c = [CHR 0xC2, CHR 0xA0])"

definition cell_full :: "cell \<Rightarrow> bool" where
  "cell_full c \<longleftrightarrow> length (ce_contents c) \<ge> 32"

definition Reset2 :: "cell \<Rightarrow> cell \<Rightarrow> cell" where
  "Reset2 attrs c =
     c\<lparr>ce_contents := ce_contents attrs, ce_renditions := ce_renditions attrs, ce_dwidth := False,
       ce_dwidthCont := False\<rparr>"

definition Cell_Clear :: "cell \<Rightarrow> cell" where
  "Cell_Clear c = c\<lparr>ce_contents := []\<rparr>"

definition ContentsMatch :: "cell \<Rightarrow> cell \<Rightarrow> bool" where
  "ContentsMatch c x \<longleftrightarrow> (IsBlank c \<and> IsBlank x) \<or> ce_contents c = ce_contents x"

definition Cell_Append :: "rune \<Rightarrow> cell \<Rightarrow> cell" where
  "Cell_Append r c =
     c\<lparr>ce_contents := ce_contents c @ (if r < 0x7f then [char_of r] else utf8 r)\<rparr>"

definition SetContents :: "rune list \<Rightarrow> cell \<Rightarrow> cell" where
  "SetContents chs c = c\<lparr>ce_contents := concat (map utf8 chs)\<rparr>"

definition SetUnderline :: "bool \<Rightarrow> cell \<Rightarrow> cell" where
  "SetUnderline u c =
     c\<lparr>ce_renditions := (ce_renditions c)\<lparr>re_underline := u, re_ulStyle := ULS_SINGLE\<rparr>\<rparr>"

definition GetWidth_cell :: "cell \<Rightarrow> int" where
  "GetWidth_cell c = (if ce_dwidthCont c then 0 else if ce_dwidth c then 2 else 1)"

definition printGrapheme :: "cell \<Rightarrow> string" where
  "printGrapheme c = (if Cell_Empty c then '' '' else ce_contents c)"

section \<open>User input\<close>

datatype cursorKeyMode = CursorKeyMode_ANSI | CursorKeyMode_Application

datatype userInput = USER_INPUT_GROUND | USER_INPUT_ESC | USER_INPUT_SS3

text \<open>What goes to the application for the runes of one keystroke; no rune at all panics.\<close>

definition UserInput_parse ::
  "rune list \<Rightarrow> cursorKeyMode \<Rightarrow> userInput \<Rightarrow> (string \<times> userInput) option" where
  "UserInput_parse chs mode u =
     (if length chs > 1 then Some ([], u)
      else do {
        r \<leftarrow> list_at chs 0;
        Some (case u of
          USER_INPUT_GROUND \<Rightarrow> (utf8 r, if r = 0x1B then USER_INPUT_ESC else u)
        | USER_INPUT_ESC \<Rightarrow>
            if r = 79 then ([], USER_INPUT_SS3) else (utf8 r, USER_INPUT_GROUND)
        | USER_INPUT_SS3 \<Rightarrow>
            (if mode = CursorKeyMode_ANSI \<and> 65 \<le> r \<and> r \<le> 68 then CHR ''['' # utf8 r
             else CHR ''O'' # utf8 r, USER_INPUT_GROUND))
      })"

end
