(* ===== verification/Framebuffer.thy ===== *)
theory Framebuffer
  imports TermBase
begin

text \<open>
  \<open>terminal/framebuffer.go\<close>: the cells of the screen and of the rows that were scrolled off, in one
  slice of \<open>nCols * (nRows + saveLines)\<close> cells. The rows of the scrolling area are a ring: row
  \<open>scrollHead\<close> is its logical top, and \<open>getPhysicalRow\<close> maps a logical row to its place.

  A method takes the frame buffer and returns it changed; \<open>None\<close> is a panic (an index or a slice out
  of range). The selected text of \<open>getSelectedUtf8\<close>, which nothing calls, and the texts for logs are
  left out.
\<close>

datatype selectSnapTo = SelectSnapTo_Char | SelectSnapTo_Word | SelectSnapTo_Line

record framebuffer =
  fb_kittyKbd :: "int stack"
  fb_cells :: "cell list"
  fb_selection :: rect
  fb_cursor :: cursor
  fb_damage :: damage
  fb_scrollHead :: int
  fb_marginBottom :: int
  fb_historyRows :: int
  fb_viewOffset :: int
  fb_marginTop :: int
  fb_nCols :: int
  fb_saveLines :: int
  fb_nRows :: int
  fb_margin :: bool
  fb_snapTo :: selectSnapTo

definition SaveLineUpperLimit :: int where "SaveLineUpperLimit = 50000"
definition KITTY_KBD_STACK_MAX :: int where "KITTY_KBD_STACK_MAX = 9"

section \<open>Rows and indexes\<close>

definition getPhysicalRow :: "int \<Rightarrow> framebuffer \<Rightarrow> int" where
  "getPhysicalRow pY0 fb =
     (if pY0 < 0 then
        (let pY1 = (if \<not> fb_margin fb then pY0 + fb_scrollHead fb else pY0)
         in if pY1 < 0 then pY1 + (fb_nRows fb + fb_saveLines fb) else pY1)
      else if fb_margin fb \<and> (pY0 < fb_marginTop fb \<or> pY0 \<ge> fb_marginBottom fb) then pY0
      else let pY1 = pY0 + (fb_scrollHead fb - fb_marginTop fb)
        in if pY1 \<ge> fb_marginBottom fb then pY1 - (fb_marginBottom fb - fb_marginTop fb) else pY1)"

definition getPhysRowIdx :: "int \<Rightarrow> framebuffer \<Rightarrow> int" where
  "getPhysRowIdx pY fb = fb_nCols fb * getPhysicalRow pY fb"

definition getViewRowIdx :: "int \<Rightarrow> framebuffer \<Rightarrow> int" where
  "getViewRowIdx pY fb = getPhysRowIdx (pY - fb_viewOffset fb) fb"

definition getIdx :: "int \<Rightarrow> int \<Rightarrow> framebuffer \<Rightarrow> int" where
  "getIdx pY pX fb = fb_nCols fb * getPhysicalRow (pY - fb_viewOffset fb) fb + pX"

definition fb_getRow :: "int \<Rightarrow> framebuffer \<Rightarrow> cell list option" where
  "fb_getRow rowY fb =
     (let start = fb_nCols fb * rowY in slice (fb_cells fb) start (start + fb_nCols fb))"

section \<open>Creation\<close>

text \<open>The cells are allocated before \<open>saveLines\<close> is limited.\<close>

definition NewFramebuffer3 :: "int \<Rightarrow> int \<Rightarrow> int \<Rightarrow> (framebuffer \<times> int \<times> int) option" where
  "NewFramebuffer3 nCols nRows saveLines = do {
     kitty \<leftarrow> Push 0 (NewStack KITTY_KBD_STACK_MAX);
     cells \<leftarrow> make_slice (nCols * (nRows + saveLines)) Cell0;
     let saveLines' = (if saveLines > SaveLineUpperLimit then SaveLineUpperLimit else saveLines);
     Some (\<lparr>fb_kittyKbd = kitty, fb_cells = cells, fb_selection = NewRect,
            fb_cursor = \<lparr>cu_posX = 0, cu_posY = 0, cu_color = ColorDefault,
              cu_style = CursorStyle_Hidden, cu_showStyle = CursorStyle_BlinkBlock\<rparr>,
            fb_damage = \<lparr>dm_start = 0, dm_end = 0, dm_totalCells = nCols * (nRows + saveLines')\<rparr>,
            fb_scrollHead = 0, fb_marginBottom = nRows + saveLines', fb_historyRows = 0,
            fb_viewOffset = 0, fb_marginTop = 0, fb_nCols = nCols, fb_saveLines = saveLines',
            fb_nRows = nRows, fb_margin = False, fb_snapTo = SelectSnapTo_Char\<rparr>, 0, nRows)
   }"

definition NewFramebuffer2 :: "int \<Rightarrow> int \<Rightarrow> framebuffer option" where
  "NewFramebuffer2 nCols nRows = map_option fst (NewFramebuffer3 nCols nRows 0)"

section \<open>Damage, cursor and selection\<close>

definition expose :: "framebuffer \<Rightarrow> framebuffer" where
  "expose fb = fb\<lparr>fb_damage := damage_expose (fb_damage fb)\<rparr>"

definition resetDamage :: "framebuffer \<Rightarrow> framebuffer" where
  "resetDamage fb = fb\<lparr>fb_damage := damage_reset (fb_damage fb)\<rparr>"

definition add_damage :: "int \<Rightarrow> int \<Rightarrow> framebuffer \<Rightarrow> framebuffer" where
  "add_damage s e fb = fb\<lparr>fb_damage := damage_add s e (fb_damage fb)\<rparr>"

definition setCursorPos :: "int \<Rightarrow> int \<Rightarrow> framebuffer \<Rightarrow> framebuffer" where
  "setCursorPos pY pX fb =
     fb\<lparr>fb_cursor := (fb_cursor fb)\<lparr>cu_posY := pY + fb_viewOffset fb, cu_posX := pX\<rparr>\<rparr>"

definition setCursorStyle :: "cursorStyle \<Rightarrow> framebuffer \<Rightarrow> framebuffer" where
  "setCursorStyle cs fb = fb\<lparr>fb_cursor := (fb_cursor fb)\<lparr>cu_style := cs\<rparr>\<rparr>"

definition setSelectSnapTo :: "selectSnapTo \<Rightarrow> framebuffer \<Rightarrow> framebuffer" where
  "setSelectSnapTo snapTo fb = fb\<lparr>fb_snapTo := snapTo\<rparr>"

fun cycleSelectSnapTo2 :: "selectSnapTo \<Rightarrow> selectSnapTo" where
  "cycleSelectSnapTo2 SelectSnapTo_Char = SelectSnapTo_Word"
| "cycleSelectSnapTo2 SelectSnapTo_Word = SelectSnapTo_Line"
| "cycleSelectSnapTo2 SelectSnapTo_Line = SelectSnapTo_Char"

definition clearSelection :: "framebuffer \<Rightarrow> framebuffer" where
  "clearSelection fb = fb\<lparr>fb_selection := rect_clear (fb_selection fb)\<rparr>"

definition invalidateSelection :: "rect \<Rightarrow> framebuffer \<Rightarrow> framebuffer" where
  "invalidateSelection dmg fb =
     (if rect_empty (fb_selection fb) then fb
      else if lessEqual (rc_br (fb_selection fb)) (rc_tl dmg) \<or>
              lessEqual (rc_br dmg) (rc_tl (fb_selection fb)) then fb
      else clearSelection fb)"

definition move_selection :: "int \<Rightarrow> framebuffer \<Rightarrow> framebuffer" where
  "move_selection d fb =
     (let sel = fb_selection fb
      in fb\<lparr>fb_selection := sel\<lparr>rc_tl := (rc_tl sel)\<lparr>pt_y := pt_y (rc_tl sel) + d\<rparr>,
                               rc_br := (rc_br sel)\<lparr>pt_y := pt_y (rc_br sel) + d\<rparr>\<rparr>\<rparr>)"

definition vscrollSelection :: "int \<Rightarrow> framebuffer \<Rightarrow> framebuffer" where
  "vscrollSelection vertOffset fb =
     (let sel = fb_selection fb;
          y1 = pt_y (rc_tl sel) + vertOffset;
          y2 = pt_y (rc_br sel) + vertOffset
      in if rect_null sel then fb
         else if (fb_margin fb \<and> y1 < fb_marginTop fb) \<or> y1 < - fb_saveLines fb \<or>
                 y2 > fb_marginBottom fb \<or> (y2 = fb_marginBottom fb \<and> pt_x (rc_br sel) > 0)
         then clearSelection fb
         else move_selection vertOffset fb)"

section \<open>Cells\<close>

definition getCell :: "int \<Rightarrow> int \<Rightarrow> framebuffer \<Rightarrow> cell option" where
  "getCell pY pX fb = list_at (fb_cells fb) (getIdx pY pX fb)"

text \<open>
  \<open>getCellPtr\<close> returns a pointer into the slice; here it takes what its caller does with the cell.
\<close>

definition getCellPtr :: "int \<Rightarrow> int \<Rightarrow> (cell \<Rightarrow> cell) \<Rightarrow> framebuffer \<Rightarrow> framebuffer option" where
  "getCellPtr pY pX f fb = do {
     let idx = getIdx pY pX fb;
     let fb1 = invalidateSelection (NewRect4 pX pY (pX + 1) pY) (add_damage idx (idx + 1) fb);
     c \<leftarrow> list_at (fb_cells fb1) idx;
     cells \<leftarrow> list_put (fb_cells fb1) idx (f c);
     Some (fb1\<lparr>fb_cells := cells\<rparr>)
   }"

definition eraseRange :: "int \<Rightarrow> int \<Rightarrow> cell \<Rightarrow> framebuffer \<Rightarrow> framebuffer option" where
  "eraseRange start end' attrs fb = do {
     range \<leftarrow> slice (fb_cells fb) start end';
     cells \<leftarrow> copy_into (fb_cells fb) start (map (Reset2 attrs) range);
     Some (add_damage start end' (fb\<lparr>fb_cells := cells\<rparr>))
   }"

text \<open>\<open>copyCells\<close> and \<open>moveCells\<close> are the same code; \<open>copy\<close> handles overlapping slices.\<close>

definition copyCells :: "int \<Rightarrow> int \<Rightarrow> int \<Rightarrow> framebuffer \<Rightarrow> framebuffer option" where
  "copyCells dstIx srcIx count fb = do {
     src \<leftarrow> slice (fb_cells fb) srcIx (srcIx + count);
     cells \<leftarrow> copy_into (fb_cells fb) dstIx src;
     Some (add_damage dstIx (dstIx + count) (fb\<lparr>fb_cells := cells\<rparr>))
   }"

definition moveCells :: "int \<Rightarrow> int \<Rightarrow> int \<Rightarrow> framebuffer \<Rightarrow> framebuffer option" where
  "moveCells dstIx srcIx count fb = do {
     src \<leftarrow> slice (fb_cells fb) srcIx (srcIx + count);
     cells \<leftarrow> copy_into (fb_cells fb) dstIx src;
     Some (add_damage dstIx (dstIx + count) (fb\<lparr>fb_cells := cells\<rparr>))
   }"

definition eraseInRow :: "int \<Rightarrow> int \<Rightarrow> int \<Rightarrow> cell \<Rightarrow> framebuffer \<Rightarrow> framebuffer option" where
  "eraseInRow pY startX count attrs fb =
     (if count = 0 then Some fb
      else do {
        let idx = getIdx pY startX fb;
        fb1 \<leftarrow> eraseRange idx (idx + count) attrs fb;
        Some (invalidateSelection (NewRect4 startX pY (startX + count) pY) fb1)
      })"

definition moveInRow :: "int \<Rightarrow> int \<Rightarrow> int \<Rightarrow> int \<Rightarrow> framebuffer \<Rightarrow> framebuffer option" where
  "moveInRow pY dstX srcX count fb =
     (if count = 0 then Some fb
      else do {
        fb1 \<leftarrow> moveCells (getIdx pY dstX fb) (getIdx pY srcX fb) count fb;
        Some (invalidateSelection (NewRect4 dstX pY (dstX + count) pY) fb1)
      })"

definition fb_copyRow :: "int \<Rightarrow> int \<Rightarrow> int \<Rightarrow> int \<Rightarrow> framebuffer \<Rightarrow> framebuffer option" where
  "fb_copyRow dstY srcY startX count fb =
     (if count = 0 then Some fb
      else do {
        fb1 \<leftarrow> copyCells (getIdx dstY startX fb) (getIdx srcY startX fb) count fb;
        Some (invalidateSelection (NewRect4 startX dstY (startX + count) dstY) fb1)
      })"

text \<open>\<open>fillCells\<close> writes every cell of the row: the prototype with the rune as its contents.\<close>

definition fillCells :: "rune \<Rightarrow> cell \<Rightarrow> framebuffer \<Rightarrow> framebuffer option" where
  "fillCells ch attrs =
     (\<lambda>fb. for_up 0 (fb_nRows fb) (\<lambda>r fb. do {
        let start = getIdx r 0 fb;
        let end' = start + fb_nCols fb;
        fb' \<leftarrow> for_up start end' (\<lambda>k fb. do {
           cells \<leftarrow> list_put (fb_cells fb) k (attrs\<lparr>ce_contents := utf8 ch\<rparr>);
           Some (fb\<lparr>fb_cells := cells\<rparr>)
         }) fb;
        Some (add_damage start end' fb')
      }) fb)"

section \<open>Copies of the screen\<close>

definition fullCopyCells :: "cell list \<Rightarrow> framebuffer \<Rightarrow> cell list option" where
  "fullCopyCells dst fb =
     for_up 0 (fb_nRows fb) (\<lambda>pY dst. do {
        let start = getViewRowIdx pY fb;
        src \<leftarrow> slice (fb_cells fb) start (start + fb_nCols fb);
        copy_into dst (fb_nCols fb * pY) src
      }) dst"

text \<open>
  \<open>damageDeltaCopy\<close> gets the slice of the destination from \<open>off\<close> on; \<open>off\<close> is added to its indexes
  here, and the loop writes the cells of the damaged part that differ.
\<close>

definition damageDeltaCopy ::
  "cell list \<Rightarrow> int \<Rightarrow> int \<Rightarrow> int \<Rightarrow> framebuffer \<Rightarrow> cell list option" where
  "damageDeltaCopy dst off start count fb =
     (let end' = start + count;
          d = fb_damage fb
      in if dm_end d \<le> start \<or> end' \<le> dm_start d then Some dst
         else
           let base = (if start < dm_start d then dm_start d - start else 0);
               start' = (if start < dm_start d then dm_start d else start);
               end'' = (if dm_end d < end' then dm_end d else end')
           in for_up start' end'' (\<lambda>j dst. do {
                let i = j - start';
                old \<leftarrow> list_at dst (off + base + i);
                new \<leftarrow> list_at (fb_cells fb) j;
                if old \<noteq> new then list_put dst (off + base + i) (new\<lparr>ce_dirty := True\<rparr>)
                else Some dst
              }) dst)"

definition deltaCopyCells :: "cell list \<Rightarrow> framebuffer \<Rightarrow> cell list option" where
  "deltaCopyCells dst fb = do {
     r \<leftarrow> for_up (- fb_viewOffset fb) (fb_nRows fb - fb_viewOffset fb) (\<lambda>pY (dst, dstIdx). do {
        _ \<leftarrow> slice dst dstIdx (int (length dst));
        dst' \<leftarrow> damageDeltaCopy dst dstIdx (fb_nCols fb * getPhysicalRow pY fb) (fb_nCols fb) fb;
        Some (dst', dstIdx + fb_nCols fb)
      }) (dst, 0);
     Some (fst r)
   }"

text \<open>Rows \<open>0\<close> to \<open>rows - 1\<close> and the history, in the layout of an unwrapped buffer.\<close>

definition copyAllCells :: "cell list \<Rightarrow> framebuffer \<Rightarrow> cell list option" where
  "copyAllCells dst fb = do {
     dst1 \<leftarrow> for_up 0 (fb_nRows fb) (\<lambda>pY dst. do {
        let start = fb_nCols fb * getPhysicalRow pY fb;
        src \<leftarrow> slice (fb_cells fb) start (start + fb_nCols fb);
        copy_into dst (fb_nCols fb * pY) src
      }) dst;
     let base = (fb_nRows fb + fb_saveLines fb - fb_historyRows fb) * fb_nCols fb;
     for_up (- fb_historyRows fb) 0 (\<lambda>pY dst. do {
        let start = fb_nCols fb * getPhysicalRow pY fb;
        src \<leftarrow> slice (fb_cells fb) start (start + fb_nCols fb);
        copy_into dst (base + fb_nCols fb * (pY + fb_historyRows fb)) src
      }) dst1
   }"

definition unwrapCellStorage :: "framebuffer \<Rightarrow> framebuffer option" where
  "unwrapCellStorage fb =
     (if fb_scrollHead fb = fb_marginTop fb then Some fb
      else do {
        newCells \<leftarrow> make_slice (fb_nCols fb * (fb_nRows fb + fb_saveLines fb)) Cell0;
        newCells' \<leftarrow> copyAllCells newCells fb;
        Some (fb\<lparr>fb_cells := newCells', fb_scrollHead := fb_marginTop fb\<rparr>)
      })"

section \<open>Size, margins and history\<close>

text \<open>A smaller buffer loses columns and rows; a larger one gets empty cells.\<close>

definition fb_resize :: "int \<Rightarrow> int \<Rightarrow> framebuffer \<Rightarrow> (framebuffer \<times> int \<times> int) option" where
  "fb_resize nCols nRows fb = do {
     newCells \<leftarrow> make_slice (nCols * (nRows + fb_saveLines fb)) Cell0;
     let rowLen = min (fb_nCols fb) nCols;
     cells1 \<leftarrow> for_up 0 (min (fb_nRows fb) nRows) (\<lambda>pY dst. do {
        let start = getPhysRowIdx pY fb;
        src \<leftarrow> slice (fb_cells fb) start (start + rowLen);
        copy_into dst (nCols * pY) src
      }) newCells;
     let base = (nRows + fb_saveLines fb - fb_historyRows fb) * nCols;
     cells2 \<leftarrow> for_up (- fb_historyRows fb) 0 (\<lambda>pY dst. do {
        let start = getPhysRowIdx pY fb;
        src \<leftarrow> slice (fb_cells fb) start (start + rowLen);
        copy_into dst (base + nCols * (pY + fb_historyRows fb)) src
      }) cells1;
     Some (fb\<lparr>fb_cells := cells2, fb_nCols := nCols, fb_nRows := nRows, fb_marginTop := 0,
              fb_scrollHead := 0, fb_marginBottom := nRows + fb_saveLines fb, fb_margin := False,
              fb_viewOffset := 0,
              fb_damage := (fb_damage fb)\<lparr>dm_totalCells := nCols * (nRows + fb_saveLines fb)\<rparr>\<rparr>,
           0, nRows)
   }"

definition dropScrollbackHistory :: "framebuffer \<Rightarrow> framebuffer" where
  "dropScrollbackHistory fb = expose (fb\<lparr>fb_viewOffset := 0, fb_historyRows := 0\<rparr>)"

definition setMargins :: "int \<Rightarrow> int \<Rightarrow> framebuffer \<Rightarrow> framebuffer option" where
  "setMargins marginTop marginBottom fb = do {
     fb1 \<leftarrow> unwrapCellStorage fb;
     Some (expose (fb1\<lparr>fb_marginTop := marginTop, fb_scrollHead := marginTop,
                      fb_marginBottom := marginBottom, fb_margin := True\<rparr>))
   }"

definition resetMargins :: "framebuffer \<Rightarrow> (framebuffer \<times> int \<times> int) option" where
  "resetMargins fb = do {
     fb1 \<leftarrow> unwrapCellStorage fb;
     Some (expose (fb1\<lparr>fb_marginTop := 0, fb_scrollHead := 0,
                      fb_marginBottom := fb_nRows fb1 + fb_saveLines fb1, fb_margin := False\<rparr>),
           0, fb_nRows fb1)
   }"

definition freeCells :: "framebuffer \<Rightarrow> framebuffer" where
  "freeCells fb = fb\<lparr>fb_cells := []\<rparr>"

section \<open>Scrolling\<close>

definition head_up :: "framebuffer \<Rightarrow> framebuffer" where
  "head_up fb =
     (let h = fb_scrollHead fb + 1
      in fb\<lparr>fb_scrollHead := if h = fb_marginBottom fb then fb_marginTop fb else h\<rparr>)"

definition head_down :: "framebuffer \<Rightarrow> framebuffer" where
  "head_down fb =
     fb\<lparr>fb_scrollHead := if fb_scrollHead fb \<ge> fb_marginTop fb + 1 then fb_scrollHead fb - 1
                         else fb_marginBottom fb - 1\<rparr>"

definition damage_scrolled :: "framebuffer \<Rightarrow> framebuffer" where
  "damage_scrolled fb =
     add_damage (fb_marginTop fb * fb_nCols fb) (fb_marginBottom fb * fb_nCols fb) fb"

definition scrollUp :: "int \<Rightarrow> framebuffer \<Rightarrow> framebuffer" where
  "scrollUp count fb =
     (let fb1 = (head_up ^^ nat count) (vscrollSelection (- count) fb)
      in damage_scrolled (fb1\<lparr>fb_historyRows := min (fb_historyRows fb1 + count) (fb_saveLines fb1)\<rparr>))"

definition scrollDown :: "int \<Rightarrow> framebuffer \<Rightarrow> framebuffer" where
  "scrollDown count fb =
     (let fb1 = (head_down ^^ nat count) (vscrollSelection count fb)
      in damage_scrolled (fb1\<lparr>fb_historyRows := max 0 (fb_historyRows fb1 - count)\<rparr>))"

definition move_view :: "int \<Rightarrow> framebuffer \<Rightarrow> framebuffer" where
  "move_view viewOffset fb =
     (let d = viewOffset - fb_viewOffset fb;
          fb1 = move_selection d
            (fb\<lparr>fb_cursor := (fb_cursor fb)\<lparr>cu_posY := cu_posY (fb_cursor fb) + d\<rparr>\<rparr>)
      in expose (fb1\<lparr>fb_viewOffset := viewOffset\<rparr>))"

definition pageUp :: "int \<Rightarrow> framebuffer \<Rightarrow> framebuffer" where
  "pageUp count fb = move_view (min (fb_viewOffset fb + count) (fb_historyRows fb)) fb"

definition pageDown :: "int \<Rightarrow> framebuffer \<Rightarrow> framebuffer" where
  "pageDown count fb = move_view (max 0 (fb_viewOffset fb - count)) fb"

definition pageToBottom :: "framebuffer \<Rightarrow> framebuffer" where
  "pageToBottom fb = (if fb_viewOffset fb = 0 then fb else move_view 0 fb)"

section \<open>Rows that a stream has used\<close>

definition reachMaxRows :: "int \<Rightarrow> framebuffer \<Rightarrow> bool" where
  "reachMaxRows lastRows fb \<longleftrightarrow> lastRows \<ge> fb_marginBottom fb - 1"

definition getRowsGap :: "int \<Rightarrow> int \<Rightarrow> framebuffer \<Rightarrow> int" where
  "getRowsGap oldR newR fb =
     (if oldR = newR then 0
      else if oldR > newR then fb_marginBottom fb - oldR + newR
      else newR - oldR)"

definition isFullFrame :: "int \<Rightarrow> int \<Rightarrow> int \<Rightarrow> framebuffer \<Rightarrow> bool" where
  "isFullFrame lastRows oldR newR fb \<longleftrightarrow> getRowsGap oldR newR fb + lastRows = fb_marginBottom fb - 1"

section \<open>Equality\<close>

text \<open>\<open>equalRow\<close> of \<open>display.go\<close>.\<close>

definition equalRow :: "cell list \<Rightarrow> cell list \<Rightarrow> bool" where
  "equalRow a b \<longleftrightarrow> length a = length b \<and> list_all2 (=) a b"

text \<open>\<open>equal\<close> without the trace: the first difference decides.\<close>

definition fb_same_state :: "framebuffer \<Rightarrow> framebuffer \<Rightarrow> bool" where
  "fb_same_state fb x \<longleftrightarrow>
     \<not> (fb_nCols fb \<noteq> fb_nCols x \<or> fb_nRows fb \<noteq> fb_nRows x \<or> fb_saveLines fb \<noteq> fb_saveLines x \<or>
       fb_marginTop fb \<noteq> fb_marginTop x \<or> fb_marginBottom fb \<noteq> fb_marginBottom x \<or>
       fb_margin fb \<noteq> fb_margin x) \<and>
     \<not> (fb_scrollHead fb \<noteq> fb_scrollHead x \<or> fb_historyRows fb \<noteq> fb_historyRows x \<or>
       fb_viewOffset fb \<noteq> fb_viewOffset x) \<and>
     \<not> (cu_color (fb_cursor fb) \<noteq> cu_color (fb_cursor x) \<or>
       cu_showStyle (fb_cursor fb) \<noteq> cu_showStyle (fb_cursor x)) \<and>
     stack_Equal (fb_kittyKbd fb) (fb_kittyKbd x) \<and>
     \<not> (fb_selection fb \<noteq> fb_selection x \<or> fb_snapTo fb \<noteq> fb_snapTo x \<or> fb_damage fb \<noteq> fb_damage x)"

fun rows_equal :: "int list \<Rightarrow> framebuffer \<Rightarrow> framebuffer \<Rightarrow> bool option" where
  "rows_equal [] fb x = Some True"
| "rows_equal (pY # pYs) fb x = do {
     newR \<leftarrow> slice (fb_cells fb) (getViewRowIdx pY fb) (getViewRowIdx pY fb + fb_nCols fb);
     oldR \<leftarrow> slice (fb_cells x) (getViewRowIdx pY x) (getViewRowIdx pY x + fb_nCols x);
     if equalRow newR oldR then rows_equal pYs fb x else Some False
   }"

fun cells_equal :: "cell list \<Rightarrow> cell list \<Rightarrow> bool option" where
  "cells_equal [] ys = Some True"
| "cells_equal (c # cs) [] = None"
| "cells_equal (c # cs) (y # ys) = (if c \<noteq> y then Some False else cells_equal cs ys)"

definition fb_Equal :: "framebuffer \<Rightarrow> framebuffer \<Rightarrow> bool option" where
  "fb_Equal fb x =
     (if \<not> fb_same_state fb x then Some False
      else if fb_saveLines fb = 0 then rows_equal (map int [0..<nat (fb_nRows fb)]) fb x
      else cells_equal (fb_cells fb) (fb_cells x))"

end
