(* ===== verification/Emulator.thy ===== *)
theory Emulator
  imports Framebuffer
begin

text \<open>
  \<open>terminal/emulator.go\<close>: the state of the terminal emulator and the operations that the handlers of
  control sequences share; the types are those of \<open>terminal/states.go\<close>.

  The pointers \<open>cf\<close> and \<open>savedCursor_DEC\<close> point to one of two fields of the emulator itself; which
  one is a value of type \<open>screen\<close>. The parser of the emulator is part of its state. \<open>None\<close> is a
  panic. Logging is left out.
\<close>

section \<open>State\<close>

datatype screen = Pri | Alt

datatype keypadMode = KeypadMode_Normal | KeypadMode_Application
datatype originMode = OriginMode_Absolute | OriginMode_ScrollingRegion
datatype colMode = ColMode_C80 | ColMode_C132

datatype mouseTrackingMode =
  MouseTrackingMode_Disable | MouseTrackingMode_X10_Compat | MouseTrackingMode_VT200
| MouseTrackingMode_VT200_HighLight | MouseTrackingMode_VT200_ButtonEvent
| MouseTrackingMode_VT200_AnyEvent

datatype mouseTrackingEnc =
  MouseTrackingEnc_Default | MouseTrackingEnc_UTF8 | MouseTrackingEnc_SGR | MouseTrackingEnc_URXVT

record mouseTrackingState =
  mt_mode :: mouseTrackingMode
  mt_enc :: mouseTrackingEnc
  mt_focusEventMode :: bool

definition newMouseTrackingState :: mouseTrackingState where
  "newMouseTrackingState = \<lparr>mt_mode = MouseTrackingMode_Disable, mt_enc = MouseTrackingEnc_Default,
     mt_focusEventMode = False\<rparr>"

record savedCursor_SCO =
  sc_posX :: int
  sc_posY :: int
  sc_isSet :: bool
  sc_lastCol :: bool

record savedCursor_DEC =
  sd_charsetState :: charsetState
  sd_attrs :: cell
  sd_SCO :: savedCursor_SCO
  sd_originMode :: originMode

definition charset0 :: charsetState where
  "charset0 = \<lparr>cs_g = [None, None, None, None], cs_gl = 0, cs_gr = 0, cs_ss = 0, cs_vtMode = False\<rparr>"

definition SCO0 :: savedCursor_SCO where
  "SCO0 = \<lparr>sc_posX = 0, sc_posY = 0, sc_isSet = False, sc_lastCol = False\<rparr>"

definition newSavedCursor_DEC :: savedCursor_DEC where
  "newSavedCursor_DEC = \<lparr>sd_charsetState = resetCharsetState charset0, sd_attrs = Cell0, sd_SCO = SCO0,
     sd_originMode = OriginMode_Absolute\<rparr>"

text \<open>The modes that are switched on and off, a part of \<open>Emulator\<close>.\<close>

record modes =
  md_altScreenBufferMode :: bool
  md_horizMarginMode :: bool
  md_cursorKeyMode :: cursorKeyMode
  md_keypadMode :: keypadMode
  md_originMode :: originMode
  md_colMode :: colMode
  md_showCursorMode :: bool
  md_hasFocus :: bool
  md_reverseVideo :: bool
  md_altSendsEscape :: bool
  md_altScreen1049 :: bool
  md_compatLevel :: compatLevel
  md_altScrollMode :: bool
  md_bracketedPasteMode :: bool
  md_localEcho :: bool
  md_bkspSendsDel :: bool
  md_insertMode :: bool
  md_keyboardLocked :: bool
  md_titleInitialized :: bool
  md_autoNewlineMode :: bool
  md_autoWrapMode :: bool
  md_syncOutpuMode :: bool

record emulator =
  em_parser :: parser
  em_links :: linkSet
  em_cf :: screen
  em_selectionStore :: "rune \<Rightarrow> string option"
  em_caps :: "string \<Rightarrow> string option"
  em_savedCursor_DEC :: screen
  em_windowTitle :: string
  em_iconLabel :: string
  em_selectionData :: string
  em_terminalToHost :: string
  em_tabStops :: "int list"
  em_windowTitleStack :: "string list"
  em_charsetState :: charsetState
  em_attrs :: cell
  em_savedCursor_DEC_alt :: savedCursor_DEC
  em_savedCursor_DEC_pri :: savedCursor_DEC
  em_frame_alt :: framebuffer
  em_frame_pri :: framebuffer
  em_savedCursor_SCO :: savedCursor_SCO
  em_bg :: color
  em_lastRows :: int
  em_bellCount :: int
  em_posX :: int
  em_posY :: int
  em_nRows :: int
  em_nCols :: int
  em_marginTop :: int
  em_marginBottom :: int
  em_user :: userInput
  em_hMargin :: int
  em_modifyOtherKeys :: int
  em_fg :: color
  em_nColsEff :: int
  em_mouseTrk :: mouseTrackingState
  em_lastCol :: bool
  em_md :: modes

definition modes0 :: modes where
  "modes0 = \<lparr>md_altScreenBufferMode = False, md_horizMarginMode = False,
     md_cursorKeyMode = CursorKeyMode_ANSI, md_keypadMode = KeypadMode_Normal,
     md_originMode = OriginMode_Absolute, md_colMode = ColMode_C80, md_showCursorMode = False,
     md_hasFocus = False, md_reverseVideo = False, md_altSendsEscape = False,
     md_altScreen1049 = False, md_compatLevel = CompatLevel_Unused, md_altScrollMode = False,
     md_bracketedPasteMode = False, md_localEcho = False, md_bkspSendsDel = False,
     md_insertMode = False, md_keyboardLocked = False, md_titleInitialized = False,
     md_autoNewlineMode = False, md_autoWrapMode = False, md_syncOutpuMode = False\<rparr>"

text \<open>
  The zero value of the struct; the frame buffers and what \<open>NewEmulator3\<close> sets are given to it.
\<close>

definition Emulator0 :: "framebuffer \<Rightarrow> framebuffer \<Rightarrow> emulator" where
  "Emulator0 pri alt =
     \<lparr>em_parser = NewParser, em_links = \<lparr>ls_links = [], ls_nextIndex = 0\<rparr>, em_cf = Pri,
      em_selectionStore = (\<lambda>_. None), em_caps = (\<lambda>_. None), em_savedCursor_DEC = Pri,
      em_windowTitle = [], em_iconLabel = [], em_selectionData = [], em_terminalToHost = [],
      em_tabStops = [], em_windowTitleStack = [], em_charsetState = charset0, em_attrs = Cell0,
      em_savedCursor_DEC_alt = newSavedCursor_DEC, em_savedCursor_DEC_pri = newSavedCursor_DEC,
      em_frame_alt = alt, em_frame_pri = pri, em_savedCursor_SCO = SCO0, em_bg = ColorDefault,
      em_lastRows = 0, em_bellCount = 0, em_posX = 0, em_posY = 0, em_nRows = 0, em_nCols = 0,
      em_marginTop = 0, em_marginBottom = 0, em_user = USER_INPUT_GROUND, em_hMargin = 0,
      em_modifyOtherKeys = 0, em_fg = ColorDefault, em_nColsEff = 0,
      em_mouseTrk = newMouseTrackingState, em_lastCol = False, em_md = modes0\<rparr>"

section \<open>The current frame buffer and the modes\<close>

definition cf :: "emulator \<Rightarrow> framebuffer" where
  "cf emu = (case em_cf emu of Pri \<Rightarrow> em_frame_pri emu | Alt \<Rightarrow> em_frame_alt emu)"

definition set_cf :: "framebuffer \<Rightarrow> emulator \<Rightarrow> emulator" where
  "set_cf fb emu =
     (case em_cf emu of Pri \<Rightarrow> emu\<lparr>em_frame_pri := fb\<rparr> | Alt \<Rightarrow> emu\<lparr>em_frame_alt := fb\<rparr>)"

definition on_cf :: "(framebuffer \<Rightarrow> framebuffer option) \<Rightarrow> emulator \<Rightarrow> emulator option" where
  "on_cf f emu = do { fb \<leftarrow> f (cf emu); Some (set_cf fb emu) }"

definition savedDEC :: "emulator \<Rightarrow> savedCursor_DEC" where
  "savedDEC emu = (case em_savedCursor_DEC emu of
     Pri \<Rightarrow> em_savedCursor_DEC_pri emu | Alt \<Rightarrow> em_savedCursor_DEC_alt emu)"

definition set_savedDEC :: "savedCursor_DEC \<Rightarrow> emulator \<Rightarrow> emulator" where
  "set_savedDEC sd emu = (case em_savedCursor_DEC emu of
     Pri \<Rightarrow> emu\<lparr>em_savedCursor_DEC_pri := sd\<rparr> | Alt \<Rightarrow> emu\<lparr>em_savedCursor_DEC_alt := sd\<rparr>)"

definition savedDEC_isSet :: "bool \<Rightarrow> savedCursor_DEC \<Rightarrow> savedCursor_DEC" where
  "savedDEC_isSet b sd = sd\<lparr>sd_SCO := (sd_SCO sd)\<lparr>sc_isSet := b\<rparr>\<rparr>"

definition set_modes :: "(modes \<Rightarrow> modes) \<Rightarrow> emulator \<Rightarrow> emulator" where
  "set_modes f emu = emu\<lparr>em_md := f (em_md emu)\<rparr>"

definition writePty :: "string \<Rightarrow> emulator \<Rightarrow> emulator" where
  "writePty resp emu = emu\<lparr>em_terminalToHost := em_terminalToHost emu @ resp\<rparr>"

definition ReadOctetsToHost :: "emulator \<Rightarrow> string \<times> emulator" where
  "ReadOctetsToHost emu = (em_terminalToHost emu, emu\<lparr>em_terminalToHost := []\<rparr>)"

section \<open>Cursor\<close>

definition normalizeCursorPos :: "emulator \<Rightarrow> emulator" where
  "normalizeCursorPos emu =
     (let emu1 = (if em_nColsEff emu < em_posX emu + 1 then emu\<lparr>em_posX := em_nColsEff emu - 1\<rparr> else emu);
          emu2 = (if em_nRows emu1 < em_posY emu1 + 1 then emu1\<lparr>em_posY := em_nRows emu1 - 1\<rparr> else emu1)
      in emu2\<lparr>em_lastCol := False\<rparr>)"

definition isCursorInsideMargins :: "emulator \<Rightarrow> bool" where
  "isCursorInsideMargins emu \<longleftrightarrow>
     em_posX emu \<ge> em_hMargin emu \<and> em_posX emu < em_nColsEff emu \<and>
     em_posY emu \<ge> em_marginTop emu \<and> em_posY emu < em_marginBottom emu"

definition showCursor :: "emulator \<Rightarrow> emulator" where
  "showCursor emu =
     (if md_showCursorMode (em_md emu) then
        set_cf (setCursorStyle
            (if md_hasFocus (em_md emu) then CursorStyle_FillBlock else CursorStyle_HollowBlock)
            (setCursorPos (em_posY emu) (em_posX emu) (cf emu))) emu
      else emu)"

definition hideCursor :: "emulator \<Rightarrow> emulator" where
  "hideCursor emu = set_cf (setCursorStyle CursorStyle_Hidden (cf emu)) emu"

definition SetCursorVisible :: "bool \<Rightarrow> emulator \<Rightarrow> emulator" where
  "SetCursorVisible visible emu =
     set_cf (setCursorStyle (if \<not> visible then CursorStyle_Hidden else CursorStyle_FillBlock) (cf emu)) emu"

definition setHasFocus :: "bool \<Rightarrow> emulator \<Rightarrow> emulator" where
  "setHasFocus hasFocus emu = showCursor (set_modes (\<lambda>m. m\<lparr>md_hasFocus := hasFocus\<rparr>) emu)"

text \<open>
  Without tab stops, to the next multiple of 8; the loop repeats while the column is left of the
  margin.
\<close>

function tab_loop :: "int \<Rightarrow> int \<Rightarrow> int" where
  "tab_loop margin posX =
     (let posX' = (go_div posX 8 + 1) * 8 in if posX' < margin then tab_loop margin posX' else posX')"
  by pat_completeness auto
termination
  by (relation "measure (\<lambda>(margin, posX). nat (margin - posX))")
    (auto simp: go_div_def split: if_splits)

declare tab_loop.simps [simp del]

definition jumpToNextTabStop :: "emulator \<Rightarrow> emulator option" where
  "jumpToNextTabStop emu = do {
     emu1 \<leftarrow>
       (if em_tabStops emu = [] then
          let margin = (if isCursorInsideMargins emu then em_hMargin emu else 0)
          in Some (emu\<lparr>em_posX := min (tab_loop margin (em_posX emu)) (em_nColsEff emu - 1)\<rparr>)
        else
          let nextTabIdx = LowerBound (em_tabStops emu) (em_posX emu)
          in if nextTabIdx \<ge> int (length (em_tabStops emu))
             then Some (emu\<lparr>em_posX := em_nCols emu - 1\<rparr>)
             else do {
               x \<leftarrow> list_at (em_tabStops emu) nextTabIdx;
               Some (emu\<lparr>em_posX := x\<rparr>)
             });
     Some (emu1\<lparr>em_lastCol := False\<rparr>)
   }"

section \<open>Rows and columns\<close>

definition eraseRow :: "int \<Rightarrow> emulator \<Rightarrow> emulator option" where
  "eraseRow pY emu =
     on_cf (eraseInRow pY (em_hMargin emu) (em_nColsEff emu - em_hMargin emu) (em_attrs emu)) emu"

definition eraseRows :: "int \<Rightarrow> int \<Rightarrow> emulator \<Rightarrow> emulator option" where
  "eraseRows startY count emu = for_up startY (startY + count) eraseRow emu"

definition copyRow :: "int \<Rightarrow> int \<Rightarrow> emulator \<Rightarrow> emulator option" where
  "copyRow dstY srcY emu =
     on_cf (fb_copyRow dstY srcY (em_hMargin emu) (em_nColsEff emu - em_hMargin emu)) emu"

text \<open>
  The copying goes down from the last row; it ends at \<open>startY\<close>, or after row 0 when \<open>startY\<close> is
  negative.
\<close>

definition insertRows :: "int \<Rightarrow> int \<Rightarrow> emulator \<Rightarrow> emulator option" where
  "insertRows startY count emu = do {
     let first = em_marginBottom emu - count - 1;
     let stop = (if first \<ge> 0 then max startY 0 else startY);
     emu1 \<leftarrow> for_list (rev (map (\<lambda>k. stop + int k) [0..<nat (first + 1 - stop)]))
       (\<lambda>pY. copyRow (pY + count) pY) emu;
     for_up startY (startY + count) eraseRow emu1
   }"

definition deleteRows :: "int \<Rightarrow> int \<Rightarrow> emulator \<Rightarrow> emulator option" where
  "deleteRows startY count emu = do {
     emu1 \<leftarrow> for_up startY (em_marginBottom emu - count) (\<lambda>pY. copyRow pY (pY + count)) emu;
     for_up (em_marginBottom emu - count) (em_marginBottom emu) eraseRow emu1
   }"

definition insertCols :: "int \<Rightarrow> int \<Rightarrow> emulator \<Rightarrow> emulator option" where
  "insertCols startX count emu =
     for_up (em_marginTop emu) (em_marginBottom emu) (\<lambda>r emu. do {
        emu1 \<leftarrow> on_cf (moveInRow r (startX + count) startX (em_nColsEff emu - startX - count)) emu;
        on_cf (eraseInRow r startX count (em_attrs emu1)) emu1
      }) emu"

definition deleteCols :: "int \<Rightarrow> int \<Rightarrow> emulator \<Rightarrow> emulator option" where
  "deleteCols startX count emu =
     for_up (em_marginTop emu) (em_marginBottom emu) (\<lambda>r emu. do {
        emu1 \<leftarrow> on_cf (moveInRow r startX (startX + count) (em_nColsEff emu - startX - count)) emu;
        on_cf (eraseInRow r (em_nColsEff emu1 - count) count (em_attrs emu1)) emu1
      }) emu"

definition fillScreen :: "rune \<Rightarrow> emulator \<Rightarrow> emulator option" where
  "fillScreen ch emu = on_cf (fillCells ch (em_attrs emu)) emu"

definition clearScreen :: "emulator \<Rightarrow> emulator option" where
  "clearScreen emu = fillScreen 32 (emu\<lparr>em_posX := 0, em_posY := 0, em_lastCol := False\<rparr>)"

section \<open>Titles and bell\<close>

definition setTitleInitialized :: "emulator \<Rightarrow> emulator" where
  "setTitleInitialized emu = set_modes (\<lambda>m. m\<lparr>md_titleInitialized := True\<rparr>) emu"

definition setIconLabel :: "string \<Rightarrow> emulator \<Rightarrow> emulator" where
  "setIconLabel s emu = emu\<lparr>em_iconLabel := s\<rparr>"

definition setWindowTitle :: "string \<Rightarrow> emulator \<Rightarrow> emulator" where
  "setWindowTitle s emu = emu\<lparr>em_windowTitle := s\<rparr>"

definition resetTitle :: "emulator \<Rightarrow> emulator" where
  "resetTitle emu =
     set_modes (\<lambda>m. m\<lparr>md_titleInitialized := False\<rparr>) (emu\<lparr>em_windowTitle := [], em_iconLabel := []\<rparr>)"

definition prefixWindowTitle :: "string \<Rightarrow> emulator \<Rightarrow> emulator" where
  "prefixWindowTitle s emu =
     (let emu1 = (if em_iconLabel emu = em_windowTitle emu
                  then emu\<lparr>em_iconLabel := s @ em_iconLabel emu\<rparr> else emu)
      in emu1\<lparr>em_windowTitle := s @ em_windowTitle emu1\<rparr>)"

definition ringBell :: "emulator \<Rightarrow> emulator" where
  "ringBell emu = emu\<lparr>em_bellCount := em_bellCount emu + 1\<rparr>"

definition resetBell :: "emulator \<Rightarrow> emulator" where
  "resetBell emu = emu\<lparr>em_bellCount := 0\<rparr>"

definition windowTitleStackMax :: nat where "windowTitleStackMax = 9"

definition saveWindowTitleOnStack :: "emulator \<Rightarrow> emulator" where
  "saveWindowTitleOnStack emu =
     (let title = em_windowTitle emu
      in if title \<noteq> [] then
           let st = em_windowTitleStack emu @ [title]
           in emu\<lparr>em_windowTitleStack := if length st > windowTitleStackMax then tl st else st\<rparr>
         else emu)"

definition restoreWindowTitleOnStack :: "emulator \<Rightarrow> emulator" where
  "restoreWindowTitleOnStack emu =
     (if length (em_windowTitleStack emu) > 0 then
        let index = length (em_windowTitleStack emu) - 1;
            title = em_windowTitleStack emu ! index
        in setWindowTitle title (emu\<lparr>em_windowTitleStack := take index (em_windowTitleStack emu)\<rparr>)
      else emu)"

definition resetWindowTitleStack :: "emulator \<Rightarrow> emulator" where
  "resetWindowTitleStack emu = emu\<lparr>em_windowTitleStack := []\<rparr>"

section \<open>Reset\<close>

definition setCompatLevel_emu :: "compatLevel \<Rightarrow> emulator \<Rightarrow> emulator" where
  "setCompatLevel_emu cl emu =
     (if md_compatLevel (em_md emu) \<noteq> cl then set_modes (\<lambda>m. m\<lparr>md_compatLevel := cl\<rparr>) emu else emu)"

definition initSelectionStore :: "emulator \<Rightarrow> emulator" where
  "initSelectionStore emu =
     emu\<lparr>em_selectionStore := map_of (map (\<lambda>c. (of_char c, [])) ''cpqs01234567'')\<rparr>"

text \<open>The handler of \<open>SGR\<close>, in \<open>handler.go\<close>; \<open>resetAttrs\<close> calls it without separators.\<close>

definition hdl_csi_sgr :: "int list \<Rightarrow> rune list \<Rightarrow> emulator \<Rightarrow> emulator option" where
  "hdl_csi_sgr params seps emu = do {
     rend \<leftarrow> sgr_loop params seps (ce_renditions (em_attrs emu));
     Some (emu\<lparr>em_attrs := (em_attrs emu)\<lparr>ce_renditions := rend\<rparr>\<rparr>)
   }"

definition resetAttrs :: "emulator \<Rightarrow> emulator option" where
  "resetAttrs emu = do {
     let emu1 = set_modes (\<lambda>m. m\<lparr>md_reverseVideo := False\<rparr>) emu;
     let emu2 = emu1\<lparr>em_fg := re_fgColor (ce_renditions (em_attrs emu1)),
                     em_bg := re_bgColor (ce_renditions (em_attrs emu1))\<rparr>;
     emu3 \<leftarrow> hdl_csi_sgr [0] [] emu2;
     Some (emu3\<lparr>em_links := newLinks\<rparr>)
   }"

definition resetScreen :: "emulator \<Rightarrow> emulator" where
  "resetScreen emu =
     (let emu1 = set_modes (\<lambda>m. m\<lparr>md_showCursorMode := True, md_autoWrapMode := True,
            md_autoNewlineMode := False, md_keyboardLocked := False, md_insertMode := False,
            md_bkspSendsDel := True, md_localEcho := False, md_bracketedPasteMode := False\<rparr>) emu;
          emu2 = set_modes (\<lambda>m. m\<lparr>md_cursorKeyMode := CursorKeyMode_ANSI,
            md_keypadMode := KeypadMode_Normal, md_originMode := OriginMode_Absolute\<rparr>)
            (setCompatLevel_emu CompatLevel_VT400 emu1);
          emu3 = emu2\<lparr>em_charsetState := resetCharsetState (em_charsetState emu2),
            em_savedCursor_SCO := (em_savedCursor_SCO emu2)\<lparr>sc_isSet := False\<rparr>\<rparr>;
          emu4 = set_savedDEC (savedDEC_isSet False (savedDEC emu3)) emu3;
          emu5 = emu4\<lparr>em_mouseTrk := newMouseTrackingState, em_tabStops := []\<rparr>
      in set_cf (clearSelection (cf emu5)) emu5)"

definition switchColMode :: "colMode \<Rightarrow> emulator \<Rightarrow> emulator option" where
  "switchColMode cm emu =
     (if md_colMode (em_md emu) = cm then Some emu
      else do {
        emu1 \<leftarrow> clearScreen (resetScreen emu);
        Some (set_modes (\<lambda>m. m\<lparr>md_colMode := cm\<rparr>) emu1)
      })"

definition switchScreenBufferMode :: "bool \<Rightarrow> emulator \<Rightarrow> emulator option" where
  "switchScreenBufferMode alt emu =
     (if md_altScreenBufferMode (em_md emu) = alt then Some emu
      else do {
        emu3 \<leftarrow> (if alt then do {
            (fb, mt, mb) \<leftarrow> NewFramebuffer3 (em_nCols emu) (em_nRows emu) 0;
            let emu1 = emu\<lparr>em_frame_alt := fb, em_marginTop := mt, em_marginBottom := mb, em_cf := Alt\<rparr>;
            emu2 \<leftarrow> clearScreen (set_cf (expose (cf emu1)) emu1);
            Some (set_modes (\<lambda>m. m\<lparr>md_altScreenBufferMode := True\<rparr>) (emu2\<lparr>em_savedCursor_DEC := Alt\<rparr>))
          }
          else do {
            (fb, mt, mb) \<leftarrow> fb_resize (em_nCols emu) (em_nRows emu) (em_frame_pri emu);
            let emu1 = emu\<lparr>em_frame_pri := fb, em_marginTop := mt, em_marginBottom := mb, em_cf := Pri\<rparr>;
            let emu2 = set_cf (expose (cf emu1)) emu1;
            Some (set_modes (\<lambda>m. m\<lparr>md_altScreenBufferMode := False\<rparr>)
              (emu2\<lparr>em_frame_alt := freeCells (em_frame_alt emu2),
                 em_savedCursor_DEC_alt := savedDEC_isSet False (em_savedCursor_DEC_alt emu2),
                 em_savedCursor_DEC := Pri\<rparr>))
          });
        Some (emu3\<lparr>em_links := newLinks\<rparr>)
      })"

definition resetTerminal :: "emulator \<Rightarrow> emulator option" where
  "resetTerminal emu = do {
     let emu0 = emu\<lparr>em_parser := parser_reset (em_parser emu)\<rparr>;
     emu1 \<leftarrow> resetAttrs (resetScreen emu0);
     emu2 \<leftarrow> switchColMode ColMode_C80 emu1;
     let emu3 = set_cf (dropScrollbackHistory (cf emu2)) emu2;
     let emu4 = resetWindowTitleStack (resetTitle (resetBell emu3));
     (fb, mt, mb) \<leftarrow> resetMargins (cf emu4);
     let emu5 = (set_cf fb emu4)\<lparr>em_marginTop := mt, em_marginBottom := mb\<rparr>;
     emu6 \<leftarrow> clearScreen emu5;
     emu7 \<leftarrow> switchScreenBufferMode False emu6;
     let emu8 = set_modes (\<lambda>m. m\<lparr>md_altSendsEscape := True, md_altScrollMode := False,
       md_horizMarginMode := False\<rparr>) (emu7\<lparr>em_modifyOtherKeys := 1\<rparr>);
     Some (emu8\<lparr>em_hMargin := 0, em_nColsEff := em_nCols emu8\<rparr>)
   }"

definition NewEmulator3 :: "int \<Rightarrow> int \<Rightarrow> int \<Rightarrow> emulator option" where
  "NewEmulator3 nCols nRows saveLines = do {
     (pri, mt, mb) \<leftarrow> NewFramebuffer3 nCols nRows saveLines;
     alt \<leftarrow> NewFramebuffer2 1 1;
     let emu0 = (Emulator0 pri alt)\<lparr>em_marginTop := mt, em_marginBottom := mb, em_nCols := nCols,
       em_nRows := nRows, em_nColsEff := nCols, em_attrs := Cell0\<lparr>ce_contents := '' ''\<rparr>\<rparr>;
     let emu1 = set_modes (\<lambda>m. m\<lparr>md_hasFocus := True, md_showCursorMode := True,
       md_autoWrapMode := True, md_bkspSendsDel := True\<rparr>) emu0;
     emu2 \<leftarrow> resetTerminal (initSelectionStore emu1);
     Some (emu2\<lparr>em_windowTitleStack := []\<rparr>)
   }"

section \<open>Resize\<close>

text \<open>\<open>emu.nRows\<close> is still the old height while the rows are moved.\<close>

definition resize_rows :: "int \<Rightarrow> int \<Rightarrow> emulator \<Rightarrow> emulator option" where
  "resize_rows nCols nRows emu =
     (if md_altScreenBufferMode (em_md emu) then do {
        (fb, mt, mb) \<leftarrow> NewFramebuffer3 nCols nRows 0;
        Some (emu\<lparr>em_frame_alt := fb, em_marginTop := mt, em_marginBottom := mb\<rparr>)
      }
      else do {
        let emu1 = (if nRows < em_posY emu + 1 then
          let nScroll = em_nRows emu - nRows
          in (set_cf (scrollUp nScroll (cf emu)) emu)\<lparr>em_posY := em_posY emu - nScroll\<rparr>
          else emu);
        (fb, mt, mb) \<leftarrow> fb_resize nCols nRows (em_frame_pri emu1);
        let emu2 = emu1\<lparr>em_frame_pri := fb, em_marginTop := mt, em_marginBottom := mb\<rparr>;
        let emu3 = (if em_nRows emu2 < nRows then
          let nScroll = min (nRows - em_nRows emu2) (fb_historyRows (cf emu2))
          in (set_cf (scrollDown nScroll (cf emu2)) emu2)\<lparr>em_posY := em_posY emu2 + nScroll\<rparr>
          else emu2);
        Some (emu3\<lparr>em_frame_alt := freeCells (em_frame_alt emu3)\<rparr>)
      })"

definition emu_resize :: "int \<Rightarrow> int \<Rightarrow> emulator \<Rightarrow> emulator option" where
  "emu_resize nCols nRows emu =
     (if em_nCols emu = nCols \<and> em_nRows emu = nRows then Some emu
      else do {
        emu4 \<leftarrow> resize_rows nCols nRows (hideCursor emu);
        let emu5 = emu4\<lparr>em_nCols := nCols, em_nRows := nRows\<rparr>;
        let emu6 = (if md_horizMarginMode (em_md emu5) then
          let eff = min (em_nColsEff emu5) (em_nCols emu5)
          in emu5\<lparr>em_nColsEff := eff, em_hMargin := max 0 (min (em_hMargin emu5) (eff - 2))\<rparr>
          else emu5\<lparr>em_nColsEff := em_nCols emu5, em_hMargin := 0\<rparr>);
        Some ((showCursor (normalizeCursorPos emu6))\<lparr>em_links := newLinks\<rparr>)
      })"

section \<open>Character sets and capabilities\<close>

text \<open>\<open>byte(p)\<close> keeps the low eight bits of the rune.\<close>

definition lookupCharset :: "rune \<Rightarrow> emulator \<Rightarrow> (rune \<times> emulator) option" where
  "lookupCharset p emu = do {
     let st = em_charsetState emu;
     (table, st') \<leftarrow>
       (if cs_ss st > 0 then do {
          t \<leftarrow> list_at (cs_g st) (cs_ss st);
          Some (t, st\<lparr>cs_ss := 0\<rparr>)
        }
        else do {
          t \<leftarrow> list_at (cs_g st) (if p < 0x80 then cs_gl st else cs_gr st);
          Some (t, st)
        });
     Some (lookupTable table (p mod 256), emu\<lparr>em_charsetState := st'\<rparr>)
   }"

definition Support :: "string \<Rightarrow> emulator \<Rightarrow> bool" where
  "Support cap emu \<longleftrightarrow> em_caps emu cap \<noteq> None"

definition SetTerminalCaps :: "(string \<Rightarrow> string option) \<Rightarrow> emulator \<Rightarrow> emulator" where
  "SetTerminalCaps x emu = emu\<lparr>em_caps := x\<rparr>"

definition SetLastRows :: "int \<Rightarrow> emulator \<Rightarrow> emulator" where
  "SetLastRows x emu = emu\<lparr>em_lastRows := x\<rparr>"

section \<open>What the prediction engine uses\<close>

definition GetCursorCol :: "emulator \<Rightarrow> int" where
  "GetCursorCol emu = em_posX emu"

definition GetCursorRow :: "emulator \<Rightarrow> int" where
  "GetCursorRow emu =
     (if md_originMode (em_md emu) = OriginMode_Absolute then em_posY emu
      else em_posY emu - em_marginTop emu)"

definition GetHeight :: "emulator \<Rightarrow> int" where
  "GetHeight emu = em_marginBottom emu - em_marginTop emu"

definition GetWidth :: "emulator \<Rightarrow> int" where
  "GetWidth emu =
     (if md_horizMarginMode (em_md emu) then em_nColsEff emu - em_hMargin emu else em_nCols emu)"

definition GetSaveLines :: "emulator \<Rightarrow> int" where
  "GetSaveLines emu = fb_saveLines (cf emu)"

text \<open>Rows and columns are returned in this order.\<close>

definition regulatePos :: "int \<Rightarrow> int \<Rightarrow> emulator \<Rightarrow> int \<times> int" where
  "regulatePos posY0 posX0 emu =
     (let posY1 = (if posY0 < 0 then GetCursorRow emu else posY0);
          posX1 = (if posX0 < 0 then GetCursorCol emu else posX0);
          posY2 = (case md_originMode (em_md emu) of
            OriginMode_Absolute \<Rightarrow> max 0 (min posY1 (em_nRows emu - 1))
          | OriginMode_ScrollingRegion \<Rightarrow>
              max 0 (min posY1 (em_marginBottom emu - 1)) + em_marginTop emu);
          posX2 = (if md_horizMarginMode (em_md emu)
            then max (em_hMargin emu) (min posX1 (em_nColsEff emu - 1))
            else max 0 (min posX1 (em_nCols emu - 1)))
      in (posY2, posX2))"

definition emu_GetCell :: "int \<Rightarrow> int \<Rightarrow> emulator \<Rightarrow> cell option" where
  "emu_GetCell posY posX emu =
     (case regulatePos posY posX emu of (y, x) \<Rightarrow> getCell y x (cf emu))"

definition emu_GetCellPtr :: "int \<Rightarrow> int \<Rightarrow> (cell \<Rightarrow> cell) \<Rightarrow> emulator \<Rightarrow> emulator option" where
  "emu_GetCellPtr posY posX f emu =
     (case regulatePos posY posX emu of (y, x) \<Rightarrow> on_cf (getCellPtr y x f) emu)"

definition getRowAt :: "int \<Rightarrow> emulator \<Rightarrow> cell list option" where
  "getRowAt pY emu =
     (let start = getPhysRowIdx pY (cf emu) in slice (fb_cells (cf emu)) start (start + em_nCols emu))"

section \<open>Copies and equality\<close>

text \<open>
  \<open>Clone\<close> copies what the pointers of the struct lead to, so the copy is the same value, with a new
  parser and a new selection store.
\<close>

definition emu_Clone :: "emulator \<Rightarrow> emulator" where
  "emu_Clone emu = initSelectionStore (emu\<lparr>em_parser := NewParser\<rparr>)"

text \<open>\<open>equal\<close> without the trace. The store of selections and the user input are not compared.\<close>

definition emu_same_state :: "emulator \<Rightarrow> emulator \<Rightarrow> bool" where
  "emu_same_state emu x \<longleftrightarrow>
     em_nRows emu = em_nRows x \<and> em_nCols emu = em_nCols x \<and>
     em_posX emu = em_posX x \<and> em_posY emu = em_posY x \<and>
     em_marginTop emu = em_marginTop x \<and> em_marginBottom emu = em_marginBottom x \<and>
     em_lastCol emu = em_lastCol x \<and> em_attrs emu = em_attrs x \<and> em_fg emu = em_fg x \<and>
     em_bg emu = em_bg x \<and> em_modifyOtherKeys emu = em_modifyOtherKeys x \<and>
     em_nColsEff emu = em_nColsEff x \<and> em_hMargin emu = em_hMargin x \<and>
     em_tabStops emu = em_tabStops x \<and>
     CharsetState_Equal (em_charsetState emu) (em_charsetState x) \<and>
     em_savedCursor_SCO emu = em_savedCursor_SCO x \<and>
     sd_SCO (savedDEC emu) = sd_SCO (savedDEC x) \<and> sd_attrs (savedDEC emu) = sd_attrs (savedDEC x) \<and>
     sd_originMode (savedDEC emu) = sd_originMode (savedDEC x) \<and>
     CharsetState_Equal (sd_charsetState (savedDEC emu)) (sd_charsetState (savedDEC x)) \<and>
     em_mouseTrk emu = em_mouseTrk x \<and> em_selectionData emu = em_selectionData x \<and>
     em_iconLabel emu = em_iconLabel x \<and> em_windowTitle emu = em_windowTitle x \<and>
     em_bellCount emu = em_bellCount x \<and> em_windowTitleStack emu = em_windowTitleStack x \<and>
     em_caps emu = em_caps x"

definition same_modes :: "modes \<Rightarrow> modes \<Rightarrow> bool" where
  "same_modes m n \<longleftrightarrow>
     md_reverseVideo m = md_reverseVideo n \<and> md_hasFocus m = md_hasFocus n \<and>
     md_showCursorMode m = md_showCursorMode n \<and>
     md_altScreenBufferMode m = md_altScreenBufferMode n \<and>
     md_autoWrapMode m = md_autoWrapMode n \<and> md_autoNewlineMode m = md_autoNewlineMode n \<and>
     md_keyboardLocked m = md_keyboardLocked n \<and> md_insertMode m = md_insertMode n \<and>
     md_bkspSendsDel m = md_bkspSendsDel n \<and> md_localEcho m = md_localEcho n \<and>
     md_bracketedPasteMode m = md_bracketedPasteMode n \<and> md_altScrollMode m = md_altScrollMode n \<and>
     md_altSendsEscape m = md_altSendsEscape n \<and> md_horizMarginMode m = md_horizMarginMode n \<and>
     md_compatLevel m = md_compatLevel n \<and> md_cursorKeyMode m = md_cursorKeyMode n \<and>
     md_keypadMode m = md_keypadMode n \<and> md_originMode m = md_originMode n \<and>
     md_colMode m = md_colMode n \<and> md_titleInitialized m = md_titleInitialized n"

definition emu_Equal :: "emulator \<Rightarrow> emulator \<Rightarrow> bool option" where
  "emu_Equal emu x =
     (if emu_same_state emu x \<and> same_modes (em_md emu) (em_md x) then fb_Equal (cf emu) (cf x)
      else Some False)"

end
