(* ===== verification/Handlers.thy ===== *)
theory Handlers
  imports Emulator Parser
begin

text \<open>
  \<open>terminal/handler.go\<close>: what the handlers of control sequences do to the emulator, in groups: C0
  controls and printing, cursor, editing, escape sequences, modes, reports and strings. \<open>run_call\<close>
  runs the handler that a value of type \<open>call\<close> stands for, and \<open>HandleStream\<close> parses a text and runs
  what comes out.

  Parameters, as fields of \<open>term_env\<close>: \<open>te_width\<close> for \<open>uniseg.StringWidth\<close> (the columns a string
  takes) and \<open>te_lookup\<close> for \<open>terminfo.Lookup\<close>, which reads the output of the program \<open>infocmp\<close>.
  \<open>None\<close> is a panic. Logging is left out.
\<close>

record term_env =
  te_width :: "string \<Rightarrow> int"
  te_lookup :: "string \<Rightarrow> string option"

section \<open>Text helpers\<close>

text \<open>\<open>strings.Split\<close> for a one byte separator, and \<open>strings.Count\<close>.\<close>

fun split_on :: "char \<Rightarrow> string \<Rightarrow> string list" where
  "split_on c [] = [[]]"
| "split_on c (x # xs) =
     (if x = c then [] # split_on c xs
      else case split_on c xs of [] \<Rightarrow> [[x]] | s # ss \<Rightarrow> (x # s) # ss)"

lemma split_on_none: "c \<notin> set s \<Longrightarrow> split_on c s = [s]"
  by (induction s) auto

lemma split_on_part: "c \<notin> set a \<Longrightarrow> split_on c (a @ c # b) = a # split_on c b"
  by (induction a) auto

definition count_char :: "char \<Rightarrow> string \<Rightarrow> int" where
  "count_char c s = int (length (filter (\<lambda>x. x = c) s))"

text \<open>\<open>strings.ToLower(s) == "id"\<close>: the capital I with a dot, U+0130, is an \<open>i\<close> in lower case too.\<close>

definition lower_is_id :: "string \<Rightarrow> bool" where
  "lower_is_id s \<longleftrightarrow> s \<in> {''id'', ''Id'', ''iD'', ''ID'', [CHR 0xC4, CHR 0xB0, CHR ''d''],
     [CHR 0xC4, CHR 0xB0, CHR ''D'']}"

text \<open>
  Whether \<open>base64.StdEncoding.DecodeString\<close> accepts a string: without line breaks it is groups of
  four characters of the alphabet, the last one possibly padded.
\<close>

definition base64_char :: "char \<Rightarrow> bool" where
  "base64_char c \<longleftrightarrow>
     (let n = (of_char c :: nat)
      in 65 \<le> n \<and> n \<le> 90 \<or> 97 \<le> n \<and> n \<le> 122 \<or> 48 \<le> n \<and> n \<le> 57 \<or> n = 43 \<or> n = 47)"

definition base64_ok :: "string \<Rightarrow> bool" where
  "base64_ok s =
     (let t = filter (\<lambda>c. c \<noteq> CHR 0x0A \<and> c \<noteq> CHR 0x0D) s;
          body = takeWhile base64_char t;
          pad = dropWhile base64_char t
      in length t mod 4 = 0 \<and> pad \<in> {[], ''='', ''==''})"

text \<open>\<open>hex.DecodeString\<close> and \<open>hex.EncodeToString\<close>.\<close>

definition hex_value :: "char \<Rightarrow> nat option" where
  "hex_value c =
     (let n = of_char c
      in if 48 \<le> n \<and> n \<le> 57 then Some (n - 48)
         else if 97 \<le> n \<and> n \<le> 102 then Some (n - 87)
         else if 65 \<le> n \<and> n \<le> 70 then Some (n - 55)
         else None)"

fun hex_decode :: "string \<Rightarrow> string option" where
  "hex_decode [] = Some []"
| "hex_decode [c] = None"
| "hex_decode (c # d # s) = do {
     a \<leftarrow> hex_value c;
     b \<leftarrow> hex_value d;
     r \<leftarrow> hex_decode s;
     Some (char_of (16 * a + b) # r)
   }"

definition hex_encode :: "string \<Rightarrow> string" where
  "hex_encode s = concat (map (\<lambda>c. [hex_digit (of_char c div 16), hex_digit (of_char c mod 16)]) s)"

definition ST_esc :: string where "ST_esc = [CHR 0x1B, CHR 0x5C]"
definition DEVICE_ID :: string where "DEVICE_ID = ''64;1;9;15;21;22c''"

section \<open>Cursor\<close>

definition hdl_csi_cuu :: "int \<Rightarrow> emulator \<Rightarrow> emulator" where
  "hdl_csi_cuu num emu =
     (let n = (if em_posY emu \<ge> em_marginTop emu then min num (em_posY emu - em_marginTop emu)
               else min num (em_posY emu))
      in emu\<lparr>em_posY := em_posY emu - n, em_lastCol := False\<rparr>)"

definition hdl_csi_cud :: "int \<Rightarrow> emulator \<Rightarrow> emulator" where
  "hdl_csi_cud num emu =
     (let n = (if em_posY emu < em_marginBottom emu then min num (em_marginBottom emu - em_posY emu - 1)
               else min num (em_nRows emu - em_posY emu - 1))
      in emu\<lparr>em_posY := em_posY emu + n, em_lastCol := False\<rparr>)"

definition hdl_csi_cuf :: "int \<Rightarrow> emulator \<Rightarrow> emulator" where
  "hdl_csi_cuf num emu =
     emu\<lparr>em_posX := em_posX emu + min num (em_nColsEff emu - em_posX emu - 1), em_lastCol := False\<rparr>"

definition hdl_csi_cub :: "int \<Rightarrow> emulator \<Rightarrow> emulator" where
  "hdl_csi_cub num emu =
     (let n = (if em_posX emu \<ge> em_hMargin emu then min num (em_posX emu - em_hMargin emu)
               else min num (em_posX emu));
          n' = (if em_posX emu = em_nColsEff emu then min (n + 1) (em_posX emu) else n)
      in emu\<lparr>em_posX := em_posX emu - n', em_lastCol := False\<rparr>)"

definition hdl_csi_cup :: "int \<Rightarrow> int \<Rightarrow> emulator \<Rightarrow> emulator" where
  "hdl_csi_cup row col emu =
     (let row' = (case md_originMode (em_md emu) of
            OriginMode_Absolute \<Rightarrow> max 1 (min row (em_nRows emu)) - 1
          | OriginMode_ScrollingRegion \<Rightarrow>
              max 1 (min row (em_marginBottom emu)) - 1 + em_marginTop emu);
          col' = max 1 (min col (em_nCols emu)) - 1
      in emu\<lparr>em_posX := col', em_posY := row', em_lastCol := False\<rparr>)"

definition hdl_csi_vpa :: "int \<Rightarrow> emulator \<Rightarrow> emulator" where
  "hdl_csi_vpa row emu = emu\<lparr>em_posY := max 1 (min row (em_nRows emu)) - 1, em_lastCol := False\<rparr>"

definition hdl_csi_vpr :: "int \<Rightarrow> emulator \<Rightarrow> emulator" where
  "hdl_csi_vpr row emu =
     (let row' = max 1 (min (row + (em_posY emu + 1)) (em_nRows emu))
      in emu\<lparr>em_posY := row' - 1, em_lastCol := False\<rparr>)"

definition hdl_csi_cha :: "int \<Rightarrow> emulator \<Rightarrow> emulator" where
  "hdl_csi_cha count emu = emu\<lparr>em_posX := max 1 (min count (em_nCols emu)) - 1, em_lastCol := False\<rparr>"

definition hdl_csi_hpa :: "int \<Rightarrow> emulator \<Rightarrow> emulator" where
  "hdl_csi_hpa count emu = hdl_csi_cha count emu"

definition hdl_csi_hpr :: "int \<Rightarrow> emulator \<Rightarrow> emulator" where
  "hdl_csi_hpr arg emu = hdl_csi_cha (em_posX emu + arg + 1) emu"

definition hdl_c0_cr :: "emulator \<Rightarrow> emulator" where
  "hdl_c0_cr emu =
     emu\<lparr>em_posX := if md_originMode (em_md emu) = OriginMode_Absolute \<and> em_posX emu < em_hMargin emu
                   then 0 else em_hMargin emu, em_lastCol := False\<rparr>"

definition hdl_csi_cnl :: "int \<Rightarrow> emulator \<Rightarrow> emulator" where
  "hdl_csi_cnl arg emu = hdl_c0_cr (hdl_csi_cud arg emu)"

definition hdl_csi_cpl :: "int \<Rightarrow> emulator \<Rightarrow> emulator" where
  "hdl_csi_cpl arg emu = hdl_c0_cr (hdl_csi_cuu arg emu)"

section \<open>Tab stops\<close>

definition hdl_c0_ht :: "emulator \<Rightarrow> emulator option" where
  "hdl_c0_ht emu =
     (if em_posX emu < em_nColsEff emu - 1 then jumpToNextTabStop emu else Some emu)"

definition hdl_csi_cht :: "int \<Rightarrow> emulator \<Rightarrow> emulator option" where
  "hdl_csi_cht count emu =
     (if count = 1 then hdl_c0_ht emu else for_up 0 count (\<lambda>k. jumpToNextTabStop) emu)"

definition back_tab :: "emulator \<Rightarrow> emulator option" where
  "back_tab emu =
     (if em_tabStops emu = [] then
        Some (emu\<lparr>em_posX := if em_posX emu > 0 \<and> em_posX emu mod 8 = 0 then em_posX emu - 8
                            else go_div (em_posX emu) 8 * 8\<rparr>)
      else do {
        let nextTabIdx = LowerBound (em_tabStops emu) (em_posX emu);
        x \<leftarrow> (if nextTabIdx - 1 \<ge> 0 then list_at (em_tabStops emu) (nextTabIdx - 1) else Some 0);
        Some (emu\<lparr>em_posX := x, em_lastCol := False\<rparr>)
      })"

definition hdl_csi_cbt :: "int \<Rightarrow> emulator \<Rightarrow> emulator option" where
  "hdl_csi_cbt count emu = for_up 0 count (\<lambda>k. back_tab) emu"

definition hdl_csi_tbc :: "int \<Rightarrow> emulator \<Rightarrow> emulator option" where
  "hdl_csi_tbc cmd emu =
     switch cmd
       [([0],
          let idx = SearchInts (em_tabStops emu) (em_posX emu)
          in if idx < int (length (em_tabStops emu)) then do {
               x \<leftarrow> list_at (em_tabStops emu) idx;
               if x = em_posX emu then do {
                 ts \<leftarrow> RemoveIndex (em_tabStops emu) idx;
                 Some (emu\<lparr>em_tabStops := ts\<rparr>)
               }
               else Some emu
             }
             else Some emu),
        ([3], Some (emu\<lparr>em_tabStops := []\<rparr>))]
       (Some emu)"

definition hdl_esc_hts :: "emulator \<Rightarrow> emulator" where
  "hdl_esc_hts emu = emu\<lparr>em_tabStops := sort (em_tabStops emu @ [em_posX emu])\<rparr>"

section \<open>Scrolling and line feeds\<close>

definition hdl_csi_su :: "int \<Rightarrow> emulator \<Rightarrow> emulator option" where
  "hdl_csi_su arg emu =
     (if md_horizMarginMode (em_md emu) then
        deleteRows (em_marginTop emu) (min arg (em_marginBottom emu - em_marginTop emu)) emu
      else do {
        emu1 \<leftarrow> eraseRows (em_marginBottom emu - arg) arg (set_cf (scrollUp arg (cf emu)) emu);
        Some (emu1\<lparr>em_lastCol := False\<rparr>)
      })"

definition hdl_csi_sd :: "int \<Rightarrow> emulator \<Rightarrow> emulator option" where
  "hdl_csi_sd arg emu =
     (if md_horizMarginMode (em_md emu) then
        insertRows (em_marginTop emu) (min arg (em_marginBottom emu - em_marginTop emu)) emu
      else do {
        emu1 \<leftarrow> eraseRows (em_marginTop emu) arg (set_cf (scrollDown arg (cf emu)) emu);
        Some (emu1\<lparr>em_lastCol := False\<rparr>)
      })"

definition hdl_esc_ind :: "emulator \<Rightarrow> (bool \<times> emulator) option" where
  "hdl_esc_ind emu =
     (if em_posY emu = em_marginBottom emu - 1 then do {
        emu1 \<leftarrow> hdl_csi_su 1 emu;
        Some (True, emu1)
      }
      else if em_posY emu < em_nRows emu - 1 then
        Some (False, emu\<lparr>em_posY := em_posY emu + 1, em_lastCol := False\<rparr>)
      else Some (False, emu))"

definition hdl_c0_lf :: "emulator \<Rightarrow> emulator option" where
  "hdl_c0_lf emu = do {
     (scrolled, emu1) \<leftarrow> hdl_esc_ind emu;
     if scrolled then
       on_cf (eraseInRow (em_posY emu1) (em_posX emu1) (em_nColsEff emu1 - em_posX emu1)
         (em_attrs emu1)) emu1
     else Some emu1
   }"

definition hdl_esc_ri :: "emulator \<Rightarrow> emulator option" where
  "hdl_esc_ri emu =
     (if em_posY emu = em_marginTop emu then hdl_csi_sd 1 emu
      else if em_posY emu > 0 then Some (emu\<lparr>em_posY := em_posY emu - 1, em_lastCol := False\<rparr>)
      else Some emu)"

definition hdl_esc_nel :: "emulator \<Rightarrow> emulator option" where
  "hdl_esc_nel emu = do {
     (_, emu1) \<leftarrow> hdl_esc_ind emu;
     Some (hdl_c0_cr emu1)
   }"

section \<open>Editing\<close>

definition hdl_csi_ich :: "int \<Rightarrow> emulator \<Rightarrow> emulator option" where
  "hdl_csi_ich arg0 emu = do {
     emu1 \<leftarrow>
       (if isCursorInsideMargins emu then do {
          let y = em_posY emu; let x = em_posX emu;
          let arg = min arg0 (em_nColsEff emu - x);
          let len = em_nColsEff emu - x - arg;
          c \<leftarrow> getCell y (x + arg + len - 1) (cf emu);
          emu2 \<leftarrow> (if ce_wrap c then do {
              emu3 \<leftarrow> on_cf (getCellPtr y (x + arg + len - 1) (\<lambda>c. c\<lparr>ce_wrap := False\<rparr>)) emu;
              if len \<noteq> 0 then on_cf (getCellPtr y (x + len - 1) (\<lambda>c. c\<lparr>ce_wrap := True\<rparr>)) emu3
              else Some emu3
            }
            else Some emu);
          emu4 \<leftarrow> on_cf (moveInRow y (x + arg) x len) emu2;
          on_cf (eraseInRow y x arg (em_attrs emu4)) emu4
        }
        else Some emu);
     Some (emu1\<lparr>em_lastCol := False\<rparr>)
   }"

definition erase_rows_all :: "emulator \<Rightarrow> emulator option" where
  "erase_rows_all emu = for_up 0 (em_nRows emu) eraseRow emu"

definition hdl_csi_ed :: "int \<Rightarrow> emulator \<Rightarrow> emulator option" where
  "hdl_csi_ed cmd emu0 =
     (let emu = normalizeCursorPos emu0
      in switch cmd
        [([0], do {
            emu1 \<leftarrow> on_cf (eraseInRow (em_posY emu) (em_posX emu) (em_nCols emu - em_posX emu)
              (em_attrs emu)) emu;
            for_up (em_posY emu1 + 1) (em_nRows emu1) eraseRow emu1
          }),
         ([1], do {
            emu1 \<leftarrow> for_up 0 (em_posY emu) eraseRow emu;
            on_cf (eraseInRow (em_posY emu1) 0 (em_posX emu1 + 1) (em_attrs emu1)) emu1
          }),
         ([3], erase_rows_all (set_cf (dropScrollbackHistory (cf emu)) emu)),
         ([2], erase_rows_all emu)]
        (Some emu))"

definition hdl_csi_el :: "int \<Rightarrow> emulator \<Rightarrow> emulator option" where
  "hdl_csi_el cmd emu0 =
     (let emu = normalizeCursorPos emu0
      in switch cmd
        [([0], on_cf (eraseInRow (em_posY emu) (em_posX emu) (em_nCols emu - em_posX emu)
            (em_attrs emu)) emu),
         ([1], on_cf (eraseInRow (em_posY emu) 0 (em_posX emu + 1) (em_attrs emu)) emu),
         ([2], on_cf (eraseInRow (em_posY emu) 0 (em_nCols emu) (em_attrs emu)) emu)]
        (Some emu))"

definition hdl_csi_il :: "int \<Rightarrow> emulator \<Rightarrow> emulator option" where
  "hdl_csi_il lines emu =
     (if isCursorInsideMargins emu then do {
        emu1 \<leftarrow> insertRows (em_posY emu) (min lines (em_marginBottom emu - em_posY emu)) emu;
        Some (hdl_c0_cr emu1)
      }
      else Some emu)"

definition hdl_csi_dl :: "int \<Rightarrow> emulator \<Rightarrow> emulator option" where
  "hdl_csi_dl lines emu =
     (if isCursorInsideMargins emu then do {
        emu1 \<leftarrow> deleteRows (em_posY emu) (min lines (em_marginBottom emu - em_posY emu)) emu;
        Some (hdl_c0_cr emu1)
      }
      else Some emu)"

definition hdl_csi_dch :: "int \<Rightarrow> emulator \<Rightarrow> emulator option" where
  "hdl_csi_dch arg0 emu = do {
     emu1 \<leftarrow>
       (if isCursorInsideMargins emu then do {
          let y = em_posY emu; let x = em_posX emu;
          let arg = min arg0 (em_nColsEff emu - x);
          let len = em_nColsEff emu - x - arg;
          emu2 \<leftarrow> on_cf (moveInRow y x (x + arg) len) emu;
          on_cf (eraseInRow y (x + len) arg (em_attrs emu2)) emu2
        }
        else Some emu);
     Some (emu1\<lparr>em_lastCol := False\<rparr>)
   }"

definition hdl_csi_ech :: "int \<Rightarrow> emulator \<Rightarrow> emulator option" where
  "hdl_csi_ech arg emu = do {
     let n = min arg (em_nColsEff emu - em_posX emu);
     emu1 \<leftarrow> on_cf (eraseInRow (em_posY emu) (em_posX emu) n (em_attrs emu)) emu;
     Some (emu1\<lparr>em_lastCol := False\<rparr>)
   }"

definition hdl_csi_decic :: "int \<Rightarrow> emulator \<Rightarrow> emulator option" where
  "hdl_csi_decic num emu =
     (if isCursorInsideMargins emu
      then insertCols (em_posX emu) (min num (em_nColsEff emu - em_posX emu)) emu
      else Some emu)"

definition hdl_csi_decdc :: "int \<Rightarrow> emulator \<Rightarrow> emulator option" where
  "hdl_csi_decdc num emu =
     (if isCursorInsideMargins emu
      then deleteCols (em_posX emu) (min num (em_nColsEff emu - em_posX emu)) emu
      else Some emu)"

definition hdl_csi_ecma48_SL :: "int \<Rightarrow> emulator \<Rightarrow> emulator option" where
  "hdl_csi_ecma48_SL arg emu =
     deleteCols (em_hMargin emu) (min arg (em_nColsEff emu - em_hMargin emu)) emu"

definition hdl_csi_ecma48_SR :: "int \<Rightarrow> emulator \<Rightarrow> emulator option" where
  "hdl_csi_ecma48_SR arg emu =
     insertCols (em_hMargin emu) (min arg (em_nColsEff emu - em_hMargin emu)) emu"

section \<open>Printing\<close>

text \<open>
  \<open>hdl_graphemes\<close> writes the translated rune back into the slice it was given; the slice is part of
  the result, because \<open>REP\<close> passes the same slice again.
\<close>

definition wrap_line :: "int \<Rightarrow> emulator \<Rightarrow> emulator option" where
  "wrap_line w emu =
     (if (md_autoWrapMode (em_md emu) \<and> em_lastCol emu) \<or>
         (w = 2 \<and> em_posX emu = em_nColsEff emu - 1)
      then do {
        emu1 \<leftarrow> on_cf (getCellPtr (em_posY emu) (em_posX emu) (\<lambda>c.
          (if w = 2 \<and> em_posX emu = em_nColsEff emu - 1 then c\<lparr>ce_earlyWrap := True\<rparr> else c)
            \<lparr>ce_wrap := True\<rparr>)) emu;
        hdl_c0_lf (hdl_c0_cr emu1)
      }
      else Some emu)"

definition print_cell :: "int \<Rightarrow> rune list \<Rightarrow> emulator \<Rightarrow> emulator option" where
  "print_cell w chs emu = do {
     let wide = (w = 2 \<and> em_posX emu < em_nColsEff emu - 1);
     emu1 \<leftarrow> on_cf (getCellPtr (em_posY emu) (em_posX emu) (\<lambda>_.
       let c = SetContents chs (em_attrs emu) in if wide then c\<lparr>ce_dwidth := True\<rparr> else c)) emu;
     if wide then do {
       let emu2 = emu1\<lparr>em_posX := em_posX emu1 + 1\<rparr>;
       on_cf (getCellPtr (em_posY emu2) (em_posX emu2) (\<lambda>c. c\<lparr>ce_dwidthCont := True\<rparr>)) emu2
     }
     else Some emu1
   }"

definition hdl_graphemes :: "term_env \<Rightarrow> rune list \<Rightarrow> emulator \<Rightarrow> (rune list \<times> emulator) option" where
  "hdl_graphemes env chs0 emu0 = do {
     let w = te_width env (concat (map utf8 chs0));
     (chs, emu1) \<leftarrow>
       (if length chs0 = 1 \<and> cs_vtMode (em_charsetState emu0) then do {
          (r, emu) \<leftarrow> lookupCharset (hd chs0) emu0;
          Some ([r], emu)
        }
        else Some (chs0, emu0));
     emu2 \<leftarrow> wrap_line w emu1;
     emu3 \<leftarrow> (if md_insertMode (em_md emu2) then hdl_csi_ich 1 emu2 else Some emu2);
     emu4 \<leftarrow> print_cell w chs emu3;
     Some (chs, if em_posX emu4 = em_nColsEff emu4 - 1 then emu4\<lparr>em_lastCol := True\<rparr>
                else emu4\<lparr>em_posX := em_posX emu4 + 1\<rparr>)
   }"

definition hdl_csi_rep :: "term_env \<Rightarrow> int \<Rightarrow> rune list \<Rightarrow> emulator \<Rightarrow> emulator option" where
  "hdl_csi_rep env arg chs emu = do {
     r \<leftarrow> for_up 0 arg (\<lambda>k (chs, emu). hdl_graphemes env chs emu) (chs, emu);
     Some (snd r)
   }"

section \<open>Escape sequences\<close>

definition set_charset :: "(charsetState \<Rightarrow> charsetState) \<Rightarrow> emulator \<Rightarrow> emulator" where
  "set_charset f emu = emu\<lparr>em_charsetState := f (em_charsetState emu)\<rparr>"

definition hdl_c0_si :: "emulator \<Rightarrow> emulator" where
  "hdl_c0_si = set_charset (\<lambda>cs. cs\<lparr>cs_gl := 0\<rparr>)"

definition hdl_c0_so :: "emulator \<Rightarrow> emulator" where
  "hdl_c0_so = set_charset (\<lambda>cs. cs\<lparr>cs_gl := 1\<rparr>)"

definition hdl_c0_bel :: "emulator \<Rightarrow> emulator" where
  "hdl_c0_bel emu = ringBell emu"

definition hdl_esc_ss2 :: "emulator \<Rightarrow> emulator" where
  "hdl_esc_ss2 = set_charset (\<lambda>cs. cs\<lparr>cs_ss := 2\<rparr>)"

definition hdl_esc_ss3 :: "emulator \<Rightarrow> emulator" where
  "hdl_esc_ss3 = set_charset (\<lambda>cs. cs\<lparr>cs_ss := 3\<rparr>)"

definition hdl_esc_ls1r :: "emulator \<Rightarrow> emulator" where
  "hdl_esc_ls1r = set_charset (\<lambda>cs. cs\<lparr>cs_gr := 1\<rparr>)"

definition hdl_esc_ls2 :: "emulator \<Rightarrow> emulator" where
  "hdl_esc_ls2 = set_charset (\<lambda>cs. cs\<lparr>cs_gl := 2\<rparr>)"

definition hdl_esc_ls2r :: "emulator \<Rightarrow> emulator" where
  "hdl_esc_ls2r = set_charset (\<lambda>cs. cs\<lparr>cs_gr := 2\<rparr>)"

definition hdl_esc_ls3 :: "emulator \<Rightarrow> emulator" where
  "hdl_esc_ls3 = set_charset (\<lambda>cs. cs\<lparr>cs_gl := 3\<rparr>)"

definition hdl_esc_ls3r :: "emulator \<Rightarrow> emulator" where
  "hdl_esc_ls3r = set_charset (\<lambda>cs. cs\<lparr>cs_gr := 3\<rparr>)"

definition hdl_esc_docs_utf8 :: "emulator \<Rightarrow> emulator" where
  "hdl_esc_docs_utf8 = set_charset resetCharsetState"

text \<open>Designating a set puts it in the array of four; an index out of range panics.\<close>

definition put_charset :: "int \<Rightarrow> charset option \<Rightarrow> charsetState \<Rightarrow> charsetState option" where
  "put_charset i c cs = do {
     g \<leftarrow> list_put (cs_g cs) i c;
     Some (cs\<lparr>cs_g := g\<rparr>)
   }"

definition hdl_esc_docs_iso8859_1 :: "emulator \<Rightarrow> emulator option" where
  "hdl_esc_docs_iso8859_1 emu = do {
     let cs = resetCharsetState (em_charsetState emu);
     cs' \<leftarrow> put_charset (cs_gr cs) (Some vt_ISO_8859_1) cs;
     Some (emu\<lparr>em_charsetState := cs'\<lparr>cs_vtMode := True\<rparr>\<rparr>)
   }"

definition hdl_esc_dcs :: "int \<Rightarrow> charset option \<Rightarrow> emulator \<Rightarrow> emulator option" where
  "hdl_esc_dcs index charset emu = do {
     cs \<leftarrow> put_charset index charset (em_charsetState emu);
     Some (emu\<lparr>em_charsetState := if charset \<noteq> None then cs\<lparr>cs_vtMode := True\<rparr> else cs\<rparr>)
   }"

definition hdl_vt52_egm :: "emulator \<Rightarrow> emulator option" where
  "hdl_vt52_egm emu = do {
     let cs = resetCharsetState (em_charsetState emu);
     cs' \<leftarrow> put_charset (cs_gl cs) (Some vt_DEC_Special) cs;
     Some (emu\<lparr>em_charsetState := cs'\<rparr>)
   }"

definition hdl_vt52_id :: "emulator \<Rightarrow> emulator" where
  "hdl_vt52_id emu = writePty (CHR 0x1B # ''/Z'') emu"

definition hdl_esc_ris :: "emulator \<Rightarrow> emulator option" where
  "hdl_esc_ris emu = resetTerminal emu"

definition hdl_esc_decsc :: "emulator \<Rightarrow> emulator" where
  "hdl_esc_decsc emu =
     set_savedDEC
       ((savedDEC emu)\<lparr>sd_SCO := (sd_SCO (savedDEC emu))\<lparr>sc_posX := em_posX emu, sc_posY := em_posY emu,
            sc_lastCol := em_lastCol emu, sc_isSet := True\<rparr>,
          sd_attrs := em_attrs emu, sd_originMode := md_originMode (em_md emu),
          sd_charsetState := em_charsetState emu\<rparr>) emu"

definition hdl_esc_decrc :: "emulator \<Rightarrow> emulator" where
  "hdl_esc_decrc emu =
     (let sd = savedDEC emu
      in if \<not> sc_isSet (sd_SCO sd) then emu
         else
           let emu1 = normalizeCursorPos
                 (emu\<lparr>em_posX := sc_posX (sd_SCO sd), em_posY := sc_posY (sd_SCO sd)\<rparr>);
               emu2 = set_modes (\<lambda>m. m\<lparr>md_originMode := sd_originMode sd\<rparr>)
                 (emu1\<lparr>em_lastCol := sc_lastCol (sd_SCO sd), em_attrs := sd_attrs sd,
                       em_charsetState := sd_charsetState sd\<rparr>)
           in set_savedDEC (savedDEC_isSet False (savedDEC emu2)) emu2)"

definition hdl_esc_decaln :: "emulator \<Rightarrow> emulator option" where
  "hdl_esc_decaln emu = do {
     emu1 \<leftarrow> resetAttrs emu;
     emu2 \<leftarrow> fillScreen 69 emu1;
     Some (emu2\<lparr>em_fg := re_fgColor (ce_renditions (em_attrs emu)),
                em_bg := re_bgColor (ce_renditions (em_attrs emu)), em_attrs := em_attrs emu\<rparr>)
   }"

definition hdl_esc_fi :: "emulator \<Rightarrow> emulator option" where
  "hdl_esc_fi emu =
     (if em_posX emu < em_nColsEff emu - 1 then Some (hdl_csi_cuf 1 emu) else hdl_csi_ecma48_SL 1 emu)"

definition hdl_esc_bi :: "emulator \<Rightarrow> emulator option" where
  "hdl_esc_bi emu =
     (if em_posX emu > em_hMargin emu then Some (hdl_csi_cub 1 emu) else hdl_csi_ecma48_SR 1 emu)"

definition hdl_esc_deckpam :: "emulator \<Rightarrow> emulator" where
  "hdl_esc_deckpam = set_modes (\<lambda>m. m\<lparr>md_keypadMode := KeypadMode_Application\<rparr>)"

definition hdl_esc_deckpnm :: "emulator \<Rightarrow> emulator" where
  "hdl_esc_deckpnm = set_modes (\<lambda>m. m\<lparr>md_keypadMode := KeypadMode_Normal\<rparr>)"

definition hdl_esc_decanm :: "compatLevel \<Rightarrow> emulator \<Rightarrow> emulator" where
  "hdl_esc_decanm cl emu = setCompatLevel_emu cl emu"

section \<open>Modes\<close>

definition sm_param :: "int \<Rightarrow> emulator \<Rightarrow> emulator" where
  "sm_param param emu =
     set_modes (switch param
       [([2], \<lambda>m. m\<lparr>md_keyboardLocked := True\<rparr>),
        ([4], \<lambda>m. m\<lparr>md_insertMode := True\<rparr>),
        ([12], \<lambda>m. m\<lparr>md_localEcho := False\<rparr>),
        ([20], \<lambda>m. m\<lparr>md_autoNewlineMode := True\<rparr>)]
       (\<lambda>m. m)) emu"

definition hdl_csi_sm :: "int list \<Rightarrow> emulator \<Rightarrow> emulator" where
  "hdl_csi_sm params emu = fold sm_param params emu"

definition rm_param :: "int \<Rightarrow> emulator \<Rightarrow> emulator" where
  "rm_param param emu =
     set_modes (switch param
       [([2], \<lambda>m. m\<lparr>md_keyboardLocked := False\<rparr>),
        ([4], \<lambda>m. m\<lparr>md_insertMode := False\<rparr>),
        ([12], \<lambda>m. m\<lparr>md_localEcho := True\<rparr>),
        ([20], \<lambda>m. m\<lparr>md_autoNewlineMode := False\<rparr>)]
       (\<lambda>m. m)) emu"

definition hdl_csi_rm :: "int list \<Rightarrow> emulator \<Rightarrow> emulator" where
  "hdl_csi_rm params emu = fold rm_param params emu"

definition set_showStyle :: "cursorShow \<Rightarrow> emulator \<Rightarrow> emulator" where
  "set_showStyle st emu =
     set_cf ((cf emu)\<lparr>fb_cursor := (fb_cursor (cf emu))\<lparr>cu_showStyle := st\<rparr>\<rparr>) emu"

definition hdl_csi_decscusr :: "int \<Rightarrow> emulator \<Rightarrow> emulator" where
  "hdl_csi_decscusr arg emu =
     switch arg
       [([0, 1], set_showStyle CursorStyle_BlinkBlock emu),
        ([2], set_showStyle CursorStyle_SteadyBlock emu),
        ([3], set_showStyle CursorStyle_BlinkUnderline emu),
        ([4], set_showStyle CursorStyle_SteadyUnderline emu),
        ([5], set_showStyle CursorStyle_BlinkBar emu),
        ([6], set_showStyle CursorStyle_SteadyBar emu)]
       emu"

definition set_mouse_mode :: "mouseTrackingMode \<Rightarrow> emulator \<Rightarrow> emulator" where
  "set_mouse_mode m emu = emu\<lparr>em_mouseTrk := (em_mouseTrk emu)\<lparr>mt_mode := m\<rparr>\<rparr>"

definition set_mouse_enc :: "mouseTrackingEnc \<Rightarrow> emulator \<Rightarrow> emulator" where
  "set_mouse_enc e emu = emu\<lparr>em_mouseTrk := (em_mouseTrk emu)\<lparr>mt_enc := e\<rparr>\<rparr>"

definition set_horizMargin :: "bool \<Rightarrow> emulator \<Rightarrow> emulator" where
  "set_horizMargin b emu =
     (set_modes (\<lambda>m. m\<lparr>md_horizMarginMode := b\<rparr>) emu)\<lparr>em_hMargin := 0, em_nColsEff := em_nCols emu\<rparr>"

definition privSM_param :: "int \<Rightarrow> emulator \<Rightarrow> emulator option" where
  "privSM_param param emu =
     switch param
       [([1], Some (set_modes (\<lambda>m. m\<lparr>md_cursorKeyMode := CursorKeyMode_Application\<rparr>) emu)),
        ([2], Some (setCompatLevel_emu CompatLevel_VT400 (set_charset resetCharsetState emu))),
        ([3], switchColMode ColMode_C132 emu),
        ([4], Some emu),
        ([5], Some (set_modes (\<lambda>m. m\<lparr>md_reverseVideo := True\<rparr>) emu)),
        ([6], Some (set_modes (\<lambda>m. m\<lparr>md_originMode := OriginMode_ScrollingRegion\<rparr>) emu)),
        ([7], Some (set_modes (\<lambda>m. m\<lparr>md_autoWrapMode := True\<rparr>) emu)),
        ([8], Some emu),
        ([9], Some (set_mouse_mode MouseTrackingMode_X10_Compat emu)),
        ([12], Some (hdl_csi_decscusr 0 emu)),
        ([13], Some emu),
        ([25], Some (set_modes (\<lambda>m. m\<lparr>md_showCursorMode := True\<rparr>) emu)),
        ([47], switchScreenBufferMode True emu),
        ([67], Some (set_modes (\<lambda>m. m\<lparr>md_bkspSendsDel := False\<rparr>) emu)),
        ([69], Some (set_horizMargin True emu)),
        ([1000], Some (set_mouse_mode MouseTrackingMode_VT200 emu)),
        ([1001], Some (set_mouse_mode MouseTrackingMode_VT200_HighLight emu)),
        ([1002], Some (set_mouse_mode MouseTrackingMode_VT200_ButtonEvent emu)),
        ([1003], Some (set_mouse_mode MouseTrackingMode_VT200_AnyEvent emu)),
        ([1004], Some (emu\<lparr>em_mouseTrk := (em_mouseTrk emu)\<lparr>mt_focusEventMode := True\<rparr>\<rparr>)),
        ([1005], Some (set_mouse_enc MouseTrackingEnc_UTF8 emu)),
        ([1006], Some (set_mouse_enc MouseTrackingEnc_SGR emu)),
        ([1007], Some (set_modes (\<lambda>m. m\<lparr>md_altScrollMode := True\<rparr>) emu)),
        ([1015], Some (set_mouse_enc MouseTrackingEnc_URXVT emu)),
        ([1036, 1039], Some (set_modes (\<lambda>m. m\<lparr>md_altSendsEscape := True\<rparr>) emu)),
        ([1047], switchScreenBufferMode True emu),
        ([1048], Some (hdl_esc_decsc emu)),
        ([1049], do {
           emu1 \<leftarrow> switchScreenBufferMode True (hdl_esc_decsc emu);
           Some (set_modes (\<lambda>m. m\<lparr>md_altScreen1049 := True\<rparr>) emu1)
         }),
        ([2004], Some (set_modes (\<lambda>m. m\<lparr>md_bracketedPasteMode := True\<rparr>) emu)),
        ([2026], Some (set_modes (\<lambda>m. m\<lparr>md_syncOutpuMode := True\<rparr>) emu))]
       (Some emu)"

definition hdl_csi_privSM :: "int list \<Rightarrow> emulator \<Rightarrow> emulator option" where
  "hdl_csi_privSM params emu = for_list params privSM_param emu"

definition privRM_param :: "int \<Rightarrow> emulator \<Rightarrow> emulator option" where
  "privRM_param param emu =
     switch param
       [([1], Some (set_modes (\<lambda>m. m\<lparr>md_cursorKeyMode := CursorKeyMode_ANSI\<rparr>) emu)),
        ([2], Some (setCompatLevel_emu CompatLevel_VT52 (set_charset resetCharsetState emu))),
        ([3], switchColMode ColMode_C80 emu),
        ([4], Some emu),
        ([5], Some (set_modes (\<lambda>m. m\<lparr>md_reverseVideo := False\<rparr>) emu)),
        ([6], Some (set_modes (\<lambda>m. m\<lparr>md_originMode := OriginMode_Absolute\<rparr>) emu)),
        ([7], Some (set_modes (\<lambda>m. m\<lparr>md_autoWrapMode := False\<rparr>) emu)),
        ([8], Some emu),
        ([9, 1000, 1001, 1002, 1003], Some (set_mouse_mode MouseTrackingMode_Disable emu)),
        ([12], Some (hdl_csi_decscusr 2 emu)),
        ([13], Some emu),
        ([25], Some (set_modes (\<lambda>m. m\<lparr>md_showCursorMode := False\<rparr>) emu)),
        ([47], switchScreenBufferMode False emu),
        ([67], Some (set_modes (\<lambda>m. m\<lparr>md_bkspSendsDel := True\<rparr>) emu)),
        ([69], Some (set_horizMargin False emu)),
        ([1004], Some (emu\<lparr>em_mouseTrk := (em_mouseTrk emu)\<lparr>mt_focusEventMode := False\<rparr>\<rparr>)),
        ([1005, 1006, 1015], Some (set_mouse_enc MouseTrackingEnc_Default emu)),
        ([1007], Some (set_modes (\<lambda>m. m\<lparr>md_altScrollMode := False\<rparr>) emu)),
        ([1036, 1039], Some (set_modes (\<lambda>m. m\<lparr>md_altSendsEscape := False\<rparr>) emu)),
        ([1047], switchScreenBufferMode False emu),
        ([1048], Some (hdl_esc_decrc emu)),
        ([1049], do {
           emu1 \<leftarrow> switchScreenBufferMode False emu;
           Some (set_modes (\<lambda>m. m\<lparr>md_altScreen1049 := False\<rparr>) (hdl_esc_decrc emu1))
         }),
        ([2004], Some (set_modes (\<lambda>m. m\<lparr>md_bracketedPasteMode := False\<rparr>) emu)),
        ([2026], Some (set_modes (\<lambda>m. m\<lparr>md_syncOutpuMode := False\<rparr>) emu))]
       (Some emu)"

definition hdl_csi_privRM :: "int list \<Rightarrow> emulator \<Rightarrow> emulator option" where
  "hdl_csi_privRM params emu = for_list params privRM_param emu"

text \<open>The cursor after a change of the margins.\<close>

definition margin_home :: "emulator \<Rightarrow> emulator" where
  "margin_home emu =
     (if md_originMode (em_md emu) = OriginMode_Absolute
      then emu\<lparr>em_posX := 0, em_posY := 0, em_lastCol := False\<rparr>
      else emu\<lparr>em_posX := em_hMargin emu, em_posY := em_marginTop emu, em_lastCol := False\<rparr>)"

definition reset_cf_margins :: "emulator \<Rightarrow> emulator option" where
  "reset_cf_margins emu = do {
     (fb, mt, mb) \<leftarrow> resetMargins (cf emu);
     Some ((set_cf fb emu)\<lparr>em_marginTop := mt, em_marginBottom := mb\<rparr>)
   }"

definition hdl_csi_decstbm :: "int list \<Rightarrow> emulator \<Rightarrow> emulator option" where
  "hdl_csi_decstbm params emu = do {
     emu1 \<leftarrow>
       (if length params = 0 then
          (if em_marginTop emu \<noteq> 0 \<or> em_marginBottom emu \<noteq> em_nRows emu
           then reset_cf_margins emu else Some emu)
        else if length params = 2 then
          (let newTop = (if params ! 0 > 0 then params ! 0 - 1 else 0);
               newBottom = params ! 1
           in if newBottom < newTop + 2 \<or> em_nRows emu < newBottom then Some emu
              else if newTop \<noteq> em_marginTop emu \<or> newBottom \<noteq> em_marginBottom emu then
                let emu2 = emu\<lparr>em_marginTop := newTop, em_marginBottom := newBottom\<rparr>
                in if newTop = 0 \<and> newBottom = em_nRows emu then reset_cf_margins emu2
                   else on_cf (setMargins newTop newBottom) emu2
              else Some emu)
        else Some emu);
     Some (margin_home emu1)
   }"

definition hdl_csi_decslrm :: "int list \<Rightarrow> emulator \<Rightarrow> emulator" where
  "hdl_csi_decslrm params emu =
     margin_home
       (if length params = 0 then emu\<lparr>em_hMargin := 0, em_nColsEff := em_nCols emu\<rparr>
        else if length params = 2 then
          (let newLeft = (if params ! 0 > 0 then params ! 0 - 1 else params ! 0);
               newRight = params ! 1
           in if newRight < newLeft + 2 \<or> em_nCols emu < newRight then emu
              else if newLeft \<noteq> em_hMargin emu \<or> newRight \<noteq> em_nColsEff emu
              then emu\<lparr>em_hMargin := newLeft, em_nColsEff := newRight\<rparr>
              else emu)
        else emu)"

definition hdl_csi_scosc :: "emulator \<Rightarrow> emulator" where
  "hdl_csi_scosc emu =
     emu\<lparr>em_savedCursor_SCO := (em_savedCursor_SCO emu)
       \<lparr>sc_posX := em_posX emu, sc_posY := em_posY emu, sc_isSet := True\<rparr>\<rparr>"

definition hdl_csi_slrm_scosc :: "int list \<Rightarrow> emulator \<Rightarrow> emulator" where
  "hdl_csi_slrm_scosc params emu =
     (if md_horizMarginMode (em_md emu) then hdl_csi_decslrm params emu else hdl_csi_scosc emu)"

definition hdl_csi_scorc :: "emulator \<Rightarrow> emulator" where
  "hdl_csi_scorc emu =
     (let sc = em_savedCursor_SCO emu
      in if \<not> sc_isSet sc then emu
         else (normalizeCursorPos (emu\<lparr>em_posX := sc_posX sc, em_posY := sc_posY sc\<rparr>))
           \<lparr>em_savedCursor_SCO := sc\<lparr>sc_isSet := False\<rparr>\<rparr>)"

definition hdl_csi_decscl :: "int list \<Rightarrow> emulator \<Rightarrow> emulator" where
  "hdl_csi_decscl params emu =
     (if length params > 0 \<and> hd params \<in> {61, 62, 63, 64, 65}
      then setCompatLevel_emu (sclCompatLevel (hd params)) emu else emu)"

definition hdl_csi_decstr :: "emulator \<Rightarrow> emulator option" where
  "hdl_csi_decstr emu = resetAttrs (resetScreen emu)"

definition hdl_csi_xtmodkeys :: "int list \<Rightarrow> emulator \<Rightarrow> emulator" where
  "hdl_csi_xtmodkeys params emu =
     (let ps = (if length params = 1 then params @ [0] else params)
      in if length ps = 2 \<and> ps ! 0 = 4 \<and> ps ! 1 \<le> 2 then emu\<lparr>em_modifyOtherKeys := ps ! 1\<rparr> else emu)"

section \<open>The keyboard protocol\<close>

definition KITTY_KBD_SUPPORTED :: int where "KITTY_KBD_SUPPORTED = 0x1F"

definition on_kitty :: "(int stack \<Rightarrow> int stack option) \<Rightarrow> emulator \<Rightarrow> emulator option" where
  "on_kitty f emu = do {
     st \<leftarrow> f (fb_kittyKbd (cf emu));
     Some (set_cf ((cf emu)\<lparr>fb_kittyKbd := st\<rparr>) emu)
   }"

definition hdl_csi_u_query :: "emulator \<Rightarrow> emulator option" where
  "hdl_csi_u_query emu =
     (if Support ''CSI_U_QUERY'' emu then do {
        flags \<leftarrow> GetPeek (fb_kittyKbd (cf emu));
        Some (writePty ([CHR 0x1B] @ ''[?'' @ fmt_d flags @ ''u'') emu)
      }
      else Some emu)"

text \<open>The top of the stack is read for the log at the end, so an empty stack panics.\<close>

definition hdl_csi_u_set :: "int \<Rightarrow> int \<Rightarrow> emulator \<Rightarrow> emulator option" where
  "hdl_csi_u_set flags0 mode emu =
     (if Support ''CSI_U_QUERY'' emu then
        (let flags = flags0 AND KITTY_KBD_SUPPORTED
         in on_kitty (\<lambda>st. do {
              st' \<leftarrow> switch mode
                [([1], UpdatePeek flags st),
                 ([2], do { f \<leftarrow> GetPeek st; UpdatePeek (f OR flags) st }),
                 ([3], do { f \<leftarrow> GetPeek st; UpdatePeek (f AND NOT flags) st })]
                (Some st);
              _ \<leftarrow> GetPeek st';
              Some st'
            }) emu)
      else Some emu)"

definition hdl_csi_u_push :: "int \<Rightarrow> emulator \<Rightarrow> emulator option" where
  "hdl_csi_u_push flags emu =
     (if Support ''CSI_U_QUERY'' emu then
        on_kitty (\<lambda>st. do {
          st' \<leftarrow> Push (flags AND KITTY_KBD_SUPPORTED) st;
          _ \<leftarrow> GetPeek st';
          Some st'
        }) emu
      else Some emu)"

text \<open>\<open>n\<close> more turns of the loop; the one that empties the stack is the last.\<close>

fun pop_loop :: "nat \<Rightarrow> int stack \<Rightarrow> int stack option" where
  "pop_loop 0 st = Some st"
| "pop_loop (Suc n) st =
     (case Pop st of (_, err, st') \<Rightarrow>
        if err = Some ErrLastItem then Push 0 st' else pop_loop n st')"

definition hdl_csi_u_pop :: "int \<Rightarrow> emulator \<Rightarrow> emulator option" where
  "hdl_csi_u_pop count emu =
     (if Support ''CSI_U_QUERY'' emu then
        on_kitty (\<lambda>st. do {
          st' \<leftarrow> pop_loop (nat count) st;
          _ \<leftarrow> GetPeek st';
          Some st'
        }) emu
      else Some emu)"

section \<open>Reports\<close>

definition hdl_csi_priDA :: "emulator \<Rightarrow> emulator" where
  "hdl_csi_priDA emu = writePty ([CHR 0x1B] @ ''[?'' @ DEVICE_ID) emu"

definition hdl_csi_secDA :: "emulator \<Rightarrow> emulator" where
  "hdl_csi_secDA emu = writePty (CHR 0x1B # ''[>64;0;0c'') emu"

definition hdl_csi_dsr :: "int \<Rightarrow> emulator \<Rightarrow> emulator" where
  "hdl_csi_dsr cmd emu =
     switch cmd
       [([5], writePty (CHR 0x1B # ''[0n'') emu),
        ([6],
          let row = (if md_originMode (em_md emu) = OriginMode_Absolute then em_posY emu + 1
                     else em_posY emu - em_marginTop emu + 1)
          in writePty ([CHR 0x1B] @ ''['' @ fmt_d row @ '';'' @ fmt_d (em_posX emu + 1) @ ''R'') emu)]
       emu"

definition hdl_csi_decrqm :: "int list \<Rightarrow> emulator \<Rightarrow> emulator option" where
  "hdl_csi_decrqm params emu = do {
     p \<leftarrow> list_at params 0;
     let syncOutput = (if md_syncOutpuMode (em_md emu) then 1 else 2);
     Some (writePty ([CHR 0x1B] @ ''[?'' @ fmt_d p @ '';'' @ fmt_d syncOutput @ ''$y'') emu)
   }"

definition hdl_csi_focus :: "bool \<Rightarrow> emulator \<Rightarrow> emulator" where
  "hdl_csi_focus hasFocus emu =
     (if mt_focusEventMode (em_mouseTrk emu) then setHasFocus hasFocus emu else emu)"

definition hdl_csi_mousetrack :: "bool \<Rightarrow> int list \<Rightarrow> emulator \<Rightarrow> emulator" where
  "hdl_csi_mousetrack press params emu =
     (if mt_enc (em_mouseTrk emu) = MouseTrackingEnc_SGR \<and> \<not> press \<and> length params = 3
      then hdl_csi_cup (params ! 2) (params ! 1) emu else emu)"

text \<open>Save and restore need a second parameter; without it the index panics.\<close>

definition hdl_csi_xtwinops :: "int list \<Rightarrow> string \<Rightarrow> emulator \<Rightarrow> emulator option" where
  "hdl_csi_xtwinops params sequence emu =
     (if params = [] then Some emu
      else switch (hd params)
        [([22], do {
            p \<leftarrow> list_at params 1;
            Some (if p = 0 \<or> p = 2 then saveWindowTitleOnStack emu else emu)
          }),
         ([23], do {
            p \<leftarrow> list_at params 1;
            Some (if p = 0 \<or> p = 2 then restoreWindowTitleOnStack emu else emu)
          }),
         ([8],
            let w = (if length params = 3 \<and> params ! 2 \<noteq> 0 then params ! 2 else GetWidth emu);
                h = (if length params = 3 \<and> params ! 1 \<noteq> 0 then params ! 1 else GetHeight emu)
            in emu_resize w h emu)]
        (Some emu))"

section \<open>Strings\<close>

definition hdl_osc_0_1_2 :: "int \<Rightarrow> string \<Rightarrow> emulator \<Rightarrow> emulator" where
  "hdl_osc_0_1_2 cmd arg emu =
     (let setIcon = (cmd = 0 \<or> cmd = 1);
          setTitle = (cmd = 0 \<or> cmd = 2)
      in if setIcon \<or> setTitle then
           let emu1 = setTitleInitialized emu;
               emu2 = (if setIcon then setIconLabel arg emu1 else emu1)
           in if setTitle then setWindowTitle arg emu2 else emu2
         else emu)"

text \<open>
  The pairs of a colour query, at most \<open>limit\<close>; \<open>reply\<close> gives the text for a colour number. A number
  that does not parse ends the loop.
\<close>

fun color_pairs :: "nat \<Rightarrow> (int \<Rightarrow> string) \<Rightarrow> string list \<Rightarrow> emulator \<Rightarrow> emulator" where
  "color_pairs (Suc n) reply (c # spec # rest) emu =
     (if spec = ''?'' then
        (case Atoi c of None \<Rightarrow> emu
         | Some i \<Rightarrow> color_pairs n reply rest (writePty (reply i) emu))
      else color_pairs n reply rest emu)"
| "color_pairs _ reply _ emu = emu"

definition hdl_osc_10x :: "int \<Rightarrow> string \<Rightarrow> emulator \<Rightarrow> emulator" where
  "hdl_osc_10x cmd arg0 emu =
     (let arg = fmt_d cmd @ '';'' @ arg0;
          count = count_char CHR '';'' arg;
          color = (\<lambda>i. switch i
            [([11, 17], re_bgColor (ce_renditions (em_attrs emu))),
             ([10, 19], re_fgColor (ce_renditions (em_attrs emu))),
             ([12], cu_color (fb_cursor (cf emu)))]
            ColorDefault);
          reply = (\<lambda>i. [CHR 0x1B] @ '']'' @ fmt_d i @ '';'' @ Color_String (color i) @ ST_esc)
      in if count > 0 \<and> count mod 2 = 1
         then color_pairs (min (nat ((count + 1) div 2)) 5) reply (split_on CHR '';'' arg) emu
         else emu)"

definition hdl_osc_4 :: "int \<Rightarrow> string \<Rightarrow> emulator \<Rightarrow> emulator" where
  "hdl_osc_4 cmd arg emu =
     (let count = count_char CHR '';'' arg;
          reply = (\<lambda>i. [CHR 0x1B] @ '']'' @ fmt_d cmd @ '';'' @ fmt_d i @ '';'' @
            Color_String (PaletteColor i) @ ST_esc)
      in if count > 0 \<and> count mod 2 = 1
         then color_pairs (min (nat ((count + 1) div 2)) 8) reply (split_on CHR '';'' arg) emu
         else emu)"

definition hdl_osc_112 :: "emulator \<Rightarrow> emulator" where
  "hdl_osc_112 emu =
     set_cf ((cf emu)\<lparr>fb_cursor := (fb_cursor (cf emu))\<lparr>cu_color := ColorDefault\<rparr>\<rparr>) emu"

definition set_linkIndex :: "int \<Rightarrow> emulator \<Rightarrow> emulator" where
  "set_linkIndex i emu =
     emu\<lparr>em_attrs := (em_attrs emu)\<lparr>ce_renditions := (ce_renditions (em_attrs emu))\<lparr>re_linkIndex := i\<rparr>\<rparr>\<rparr>"

text \<open>The identifier of a link from its parameters; \<open>None\<close> when the sequence is ignored.\<close>

definition link_id :: "string \<Rightarrow> string option" where
  "link_id ps =
     (if CHR '':'' \<in> set ps then None
      else if CHR ''='' \<in> set ps then
        (case split_on CHR ''='' ps of
           k # v # _ \<Rightarrow> Some (if lower_is_id k then v else [])
         | _ \<Rightarrow> Some [])
      else if ps \<noteq> [] then None
      else Some [])"

definition hdl_osc_8 :: "string \<Rightarrow> emulator \<Rightarrow> emulator" where
  "hdl_osc_8 arg emu =
     (case split_on CHR '';'' arg of
        [ps, url] \<Rightarrow>
          if url \<noteq> [] then
            (case link_id ps of
               None \<Rightarrow> emu
             | Some i \<Rightarrow> (case addLink i url (em_links emu) of (index, links) \<Rightarrow>
                 set_linkIndex index (emu\<lparr>em_links := links\<rparr>)))
          else set_linkIndex 0 emu
      | _ \<Rightarrow> emu)"

definition osc52InRange :: "string \<Rightarrow> bool" where
  "osc52InRange Pc \<longleftrightarrow> list_all (\<lambda>ch. ch \<in> set ''cpqs01234567'') Pc"

text \<open>The first selection with data answers a query.\<close>

fun osc52_query :: "int \<Rightarrow> string \<Rightarrow> emulator \<Rightarrow> emulator" where
  "osc52_query cmd [] emu = emu"
| "osc52_query cmd (ch # chs) emu =
     (case em_selectionStore emu (of_char ch) of
        Some dat \<Rightarrow>
          if dat \<noteq> [] then
            writePty ([CHR 0x1B] @ '']'' @ fmt_d cmd @ '';'' @ [ch] @ '';'' @ dat @ ST_esc) emu
          else osc52_query cmd chs emu
      | None \<Rightarrow> osc52_query cmd chs emu)"

definition osc52_store :: "string \<Rightarrow> string \<Rightarrow> (rune \<Rightarrow> string option) \<Rightarrow> rune \<Rightarrow> string option" where
  "osc52_store Pc dat store =
     fold (\<lambda>ch st. if st (of_char ch) \<noteq> None then st(of_char ch \<mapsto> dat) else st) Pc store"

definition hdl_osc_52 :: "int \<Rightarrow> string \<Rightarrow> emulator \<Rightarrow> emulator" where
  "hdl_osc_52 cmd arg emu =
     (let pos = index_from 0 CHR '';'' arg;
          Pc0 = take (nat pos) arg;
          Pd = drop (nat pos + 1) arg;
          Pc = (if Pc0 = [] then ''pc'' else Pc0)
      in if pos = - 1 then emu
         else if \<not> osc52InRange Pc then emu
         else if Pd = ''?'' then osc52_query cmd Pc emu
         else
           let set = list_ex (\<lambda>ch. em_selectionStore emu (of_char ch) \<noteq> None) Pc;
               dat = (if base64_ok Pd \<and> length Pd \<noteq> 0 then Pd else []);
               emu1 = emu\<lparr>em_selectionStore := osc52_store Pc dat (em_selectionStore emu)\<rparr>
           in if set then
                emu1\<lparr>em_selectionData :=
                  [CHR 0x1B] @ '']'' @ fmt_d cmd @ '';'' @ Pc @ '';'' @ Pd @ ST_esc\<rparr>
              else emu1)"

definition hdl_dcs_decrqss :: "string \<Rightarrow> emulator \<Rightarrow> emulator option" where
  "hdl_dcs_decrqss arg emu =
     (if arg = ''$q'' @ [CHR 0x22] @ ''p'' then
        Some (writePty ([CHR 0x1B] @ ''P1$r'' @ DEVICE_ID @ ST_esc)
          (setCompatLevel_emu CompatLevel_VT400 emu))
      else do {
        rest \<leftarrow> slice arg 2 (int (length arg));
        Some (writePty ([CHR 0x1B] @ ''P0$r'' @ rest @ ST_esc) emu)
      })"

definition xtgettcapReply :: "term_env \<Rightarrow> string \<Rightarrow> emulator \<Rightarrow> emulator" where
  "xtgettcapReply env hexCapName emu =
     (case hex_decode hexCapName of
        None \<Rightarrow> emu
      | Some name \<Rightarrow>
          (case te_lookup env name of
             None \<Rightarrow> writePty ([CHR 0x1B] @ ''P0+r'' @ hexCapName @ ST_esc) emu
           | Some v \<Rightarrow>
               if length v = 0 then writePty ([CHR 0x1B] @ ''P1+r'' @ hexCapName @ ST_esc) emu
               else writePty ([CHR 0x1B] @ ''P1+r'' @ hexCapName @ ''='' @ hex_encode v @ ST_esc) emu))"

definition hdl_dcs_xtgettcap :: "term_env \<Rightarrow> string \<Rightarrow> emulator \<Rightarrow> emulator" where
  "hdl_dcs_xtgettcap env arg emu = fold (xtgettcapReply env) (split_on CHR '';'' arg) emu"

section \<open>Running a handler\<close>

fun run_c0 :: "c0_call \<Rightarrow> emulator \<Rightarrow> emulator option" where
  "run_c0 Hdl_c0_bel emu = Some (hdl_c0_bel emu)"
| "run_c0 Hdl_c0_cr emu = Some (hdl_c0_cr emu)"
| "run_c0 Hdl_c0_ht emu = hdl_c0_ht emu"
| "run_c0 Hdl_c0_si emu = Some (hdl_c0_si emu)"
| "run_c0 Hdl_c0_so emu = Some (hdl_c0_so emu)"

fun run_cursor :: "cursor_call \<Rightarrow> emulator \<Rightarrow> emulator option" where
  "run_cursor (Hdl_csi_cuu n) emu = Some (hdl_csi_cuu n emu)"
| "run_cursor (Hdl_csi_cud n) emu = Some (hdl_csi_cud n emu)"
| "run_cursor (Hdl_csi_cuf n) emu = Some (hdl_csi_cuf n emu)"
| "run_cursor (Hdl_csi_cub n) emu = Some (hdl_csi_cub n emu)"
| "run_cursor (Hdl_csi_cup r c) emu = Some (hdl_csi_cup r c emu)"
| "run_cursor (Hdl_csi_cnl n) emu = Some (hdl_csi_cnl n emu)"
| "run_cursor (Hdl_csi_cpl n) emu = Some (hdl_csi_cpl n emu)"
| "run_cursor (Hdl_csi_cha n) emu = Some (hdl_csi_cha n emu)"
| "run_cursor (Hdl_csi_hpa n) emu = Some (hdl_csi_hpa n emu)"
| "run_cursor (Hdl_csi_hpr n) emu = Some (hdl_csi_hpr n emu)"
| "run_cursor (Hdl_csi_vpa n) emu = Some (hdl_csi_vpa n emu)"
| "run_cursor (Hdl_csi_vpr n) emu = Some (hdl_csi_vpr n emu)"
| "run_cursor (Hdl_csi_cht n) emu = hdl_csi_cht n emu"
| "run_cursor (Hdl_csi_cbt n) emu = hdl_csi_cbt n emu"
| "run_cursor (Hdl_csi_tbc n) emu = hdl_csi_tbc n emu"

fun run_edit :: "term_env \<Rightarrow> edit_call \<Rightarrow> emulator \<Rightarrow> emulator option" where
  "run_edit env (Hdl_csi_ich n) emu = hdl_csi_ich n emu"
| "run_edit env (Hdl_csi_il n) emu = hdl_csi_il n emu"
| "run_edit env (Hdl_csi_dl n) emu = hdl_csi_dl n emu"
| "run_edit env (Hdl_csi_dch n) emu = hdl_csi_dch n emu"
| "run_edit env (Hdl_csi_ech n) emu = hdl_csi_ech n emu"
| "run_edit env (Hdl_csi_ed n) emu = hdl_csi_ed n emu"
| "run_edit env (Hdl_csi_el n) emu = hdl_csi_el n emu"
| "run_edit env (Hdl_csi_su n) emu = hdl_csi_su n emu"
| "run_edit env (Hdl_csi_sd n) emu = hdl_csi_sd n emu"
| "run_edit env (Hdl_csi_rep n chs) emu = hdl_csi_rep env n chs emu"
| "run_edit env (Hdl_csi_decic n) emu = hdl_csi_decic n emu"
| "run_edit env (Hdl_csi_decdc n) emu = hdl_csi_decdc n emu"
| "run_edit env (Hdl_csi_ecma48_SL n) emu = hdl_csi_ecma48_SL n emu"
| "run_edit env (Hdl_csi_ecma48_SR n) emu = hdl_csi_ecma48_SR n emu"

fun run_mode :: "mode_call \<Rightarrow> emulator \<Rightarrow> emulator option" where
  "run_mode (Hdl_csi_sm ps) emu = Some (hdl_csi_sm ps emu)"
| "run_mode (Hdl_csi_rm ps) emu = Some (hdl_csi_rm ps emu)"
| "run_mode (Hdl_csi_privSM ps) emu = hdl_csi_privSM ps emu"
| "run_mode (Hdl_csi_privRM ps) emu = hdl_csi_privRM ps emu"
| "run_mode (Hdl_csi_decrqm ps) emu = hdl_csi_decrqm ps emu"
| "run_mode (Hdl_csi_decscl ps) emu = Some (hdl_csi_decscl ps emu)"
| "run_mode (Hdl_csi_decscusr n) emu = Some (hdl_csi_decscusr n emu)"
| "run_mode (Hdl_csi_decstbm ps) emu = hdl_csi_decstbm ps emu"
| "run_mode Hdl_csi_decstr emu = hdl_csi_decstr emu"
| "run_mode (Hdl_csi_slrm_scosc ps) emu = Some (hdl_csi_slrm_scosc ps emu)"
| "run_mode Hdl_csi_scorc emu = Some (hdl_csi_scorc emu)"
| "run_mode (Hdl_csi_sgr ps seps) emu = hdl_csi_sgr ps seps emu"
| "run_mode (Hdl_csi_xtmodkeys ps) emu = Some (hdl_csi_xtmodkeys ps emu)"
| "run_mode (Hdl_csi_u_query ps) emu = hdl_csi_u_query emu"
| "run_mode (Hdl_csi_u_set f m) emu = hdl_csi_u_set f m emu"
| "run_mode (Hdl_csi_u_push f) emu = hdl_csi_u_push f emu"
| "run_mode (Hdl_csi_u_pop n) emu = hdl_csi_u_pop n emu"

fun run_report :: "report_call \<Rightarrow> emulator \<Rightarrow> emulator option" where
  "run_report Hdl_csi_priDA emu = Some (hdl_csi_priDA emu)"
| "run_report Hdl_csi_secDA emu = Some (hdl_csi_secDA emu)"
| "run_report (Hdl_csi_dsr n) emu = Some (hdl_csi_dsr n emu)"
| "run_report (Hdl_csi_xtwinops ps s) emu = hdl_csi_xtwinops ps s emu"
| "run_report (Hdl_csi_focus b) emu = Some (hdl_csi_focus b emu)"
| "run_report (Hdl_csi_mousetrack b ps) emu = Some (hdl_csi_mousetrack b ps emu)"

fun run_esc :: "esc_call \<Rightarrow> emulator \<Rightarrow> emulator option" where
  "run_esc Hdl_esc_bi emu = hdl_esc_bi emu"
| "run_esc (Hdl_esc_dcs i c) emu = hdl_esc_dcs i c emu"
| "run_esc Hdl_esc_decaln emu = hdl_esc_decaln emu"
| "run_esc (Hdl_esc_decanm cl) emu = Some (hdl_esc_decanm cl emu)"
| "run_esc Hdl_esc_deckpam emu = Some (hdl_esc_deckpam emu)"
| "run_esc Hdl_esc_deckpnm emu = Some (hdl_esc_deckpnm emu)"
| "run_esc Hdl_esc_decrc emu = Some (hdl_esc_decrc emu)"
| "run_esc Hdl_esc_decsc emu = Some (hdl_esc_decsc emu)"
| "run_esc Hdl_esc_docs_iso8859_1 emu = hdl_esc_docs_iso8859_1 emu"
| "run_esc Hdl_esc_docs_utf8 emu = Some (hdl_esc_docs_utf8 emu)"
| "run_esc Hdl_esc_fi emu = hdl_esc_fi emu"
| "run_esc Hdl_esc_hts emu = Some (hdl_esc_hts emu)"
| "run_esc Hdl_esc_ind emu = map_option snd (hdl_esc_ind emu)"
| "run_esc Hdl_esc_ls1r emu = Some (hdl_esc_ls1r emu)"
| "run_esc Hdl_esc_ls2 emu = Some (hdl_esc_ls2 emu)"
| "run_esc Hdl_esc_ls2r emu = Some (hdl_esc_ls2r emu)"
| "run_esc Hdl_esc_ls3 emu = Some (hdl_esc_ls3 emu)"
| "run_esc Hdl_esc_ls3r emu = Some (hdl_esc_ls3r emu)"
| "run_esc Hdl_esc_nel emu = hdl_esc_nel emu"
| "run_esc Hdl_esc_ri emu = hdl_esc_ri emu"
| "run_esc Hdl_esc_ris emu = hdl_esc_ris emu"
| "run_esc Hdl_esc_ss2 emu = Some (hdl_esc_ss2 emu)"
| "run_esc Hdl_esc_ss3 emu = Some (hdl_esc_ss3 emu)"

fun run_string :: "term_env \<Rightarrow> string_call \<Rightarrow> emulator \<Rightarrow> emulator option" where
  "run_string env (Hdl_dcs_decrqss s) emu = hdl_dcs_decrqss s emu"
| "run_string env (Hdl_dcs_xtgettcap s) emu = Some (hdl_dcs_xtgettcap env s emu)"
| "run_string env (Hdl_osc_0_1_2 cmd s) emu = Some (hdl_osc_0_1_2 cmd s emu)"
| "run_string env (Hdl_osc_10x cmd s) emu = Some (hdl_osc_10x cmd s emu)"
| "run_string env (Hdl_osc_112 cmd s) emu = Some (hdl_osc_112 emu)"
| "run_string env (Hdl_osc_4 cmd s) emu = Some (hdl_osc_4 cmd s emu)"
| "run_string env (Hdl_osc_52 cmd s) emu = Some (hdl_osc_52 cmd s emu)"
| "run_string env (Hdl_osc_8 cmd s) emu = Some (hdl_osc_8 s emu)"

fun run_vt52 :: "vt52_call \<Rightarrow> emulator \<Rightarrow> emulator option" where
  "run_vt52 Hdl_vt52_egm emu = hdl_vt52_egm emu"
| "run_vt52 Hdl_vt52_id emu = Some (hdl_vt52_id emu)"

fun run_call :: "term_env \<Rightarrow> call \<Rightarrow> emulator \<Rightarrow> emulator option" where
  "run_call env (Hdl_graphemes chs) emu = map_option snd (hdl_graphemes env chs emu)"
| "run_call env (C0 c) emu = run_c0 c emu"
| "run_call env (Cursor c) emu = run_cursor c emu"
| "run_call env (Edit c) emu = run_edit env c emu"
| "run_call env (Mode c) emu = run_mode c emu"
| "run_call env (Report c) emu = run_report c emu"
| "run_call env (Esc c) emu = run_esc c emu"
| "run_call env (Str c) emu = run_string env c emu"
| "run_call env (VT52 c) emu = run_vt52 c emu"

section \<open>Streams\<close>

text \<open>\<open>excludeHandler\<close>: the sequences that are answered here and not sent on.\<close>

definition excludeHandler :: "string \<Rightarrow> int \<Rightarrow> int \<Rightarrow> emulator \<Rightarrow> bool" where
  "excludeHandler i before after emu =
     (if i \<in> {''CSI_DSR'', ''CSI_priDA'', ''CSI_secDA'', ''DCS_DECRQSS'', ''DCS_XTGETTCAP''} then True
      else if i \<in> {''OSC_4'', ''OSC_10_11_12_17_19'', ''CSI_DECRQM''} then True
      else if i = ''CSI_U_QUERY'' then True
      else if i \<in> {''CSI_U_PUSH'', ''CSI_U_POP'', ''CSI_U_SET''} then \<not> Support ''CSI_U_QUERY'' emu
      else if i = ''OSC_52'' then before \<noteq> after
      else i = ''VT52_ID'')"

text \<open>One turn of the loop over the handlers; a nil handler panics.\<close>

definition handle_one ::
  "term_env \<Rightarrow> handler option \<Rightarrow> string \<times> emulator \<Rightarrow> (string \<times> emulator) option" where
  "handle_one env h = (\<lambda>(diff, emu). do {
     hd \<leftarrow> h;
     emu1 \<leftarrow> run_call env (hd_call hd) emu;
     Some (if excludeHandler (hd_id hd) (int (length (em_terminalToHost emu)))
                (int (length (em_terminalToHost emu1))) emu1
           then diff else diff @ hd_sequence hd, emu1)
   })"

definition HandleStream ::
  "term_env \<Rightarrow> (string \<Rightarrow> (rune list \<times> nat) list) \<Rightarrow> string \<Rightarrow> emulator
     \<Rightarrow> (handler option list \<times> string \<times> emulator) option" where
  "HandleStream env graphemes seq emu =
     (if length seq = 0 then Some ([], [], emu)
      else do {
        (p, hds) \<leftarrow> processStream graphemes seq (em_parser emu) [];
        (diff, emu1) \<leftarrow> for_list hds (handle_one env) ([], emu\<lparr>em_parser := p\<rparr>);
        Some (hds, diff, emu1)
      })"

definition restoreSequence :: "handler option list \<Rightarrow> string option" where
  "restoreSequence hds =
     for_list hds (\<lambda>h b. do { hd \<leftarrow> h; Some (b @ hd_sequence hd) }) []"

text \<open>
  The loop of \<open>HandleLargeStream\<close>: \<open>start\<close> is set once the cursor has left the row where the stream
  began; the handlers that would overrun the ring stay for later.
\<close>

fun large_loop ::
  "term_env \<Rightarrow> int \<Rightarrow> handler option list \<Rightarrow> bool \<Rightarrow> string \<times> emulator
     \<Rightarrow> (string \<times> string \<times> emulator) option" where
  "large_loop env pos [] start (diff, emu) = Some (diff, [], emu)"
| "large_loop env pos (h # hds) start (diff, emu) =
     (if \<not> md_altScreenBufferMode (em_md emu) \<and> start \<and>
         isFullFrame (em_lastRows emu) pos (getPhysicalRow (em_posY emu) (cf emu)) (cf emu)
      then do {
        remains \<leftarrow> restoreSequence (h # hds);
        Some (diff, remains, emu)
      }
      else do {
        (diff', emu') \<leftarrow> handle_one env h (diff, emu);
        let start' = (start \<or> \<not> md_altScreenBufferMode (em_md emu') \<and>
          getPhysicalRow (em_posY emu') (cf emu') \<noteq> pos);
        large_loop env pos hds start' (diff', emu')
      })"

definition HandleLargeStream ::
  "term_env \<Rightarrow> (string \<Rightarrow> (rune list \<times> nat) list) \<Rightarrow> string \<Rightarrow> emulator
     \<Rightarrow> (string \<times> string \<times> emulator) option" where
  "HandleLargeStream env graphemes seq emu =
     (if length seq = 0 then Some ([], [], emu)
      else if reachMaxRows (em_lastRows emu) (cf emu) then Some ([], seq, emu)
      else do {
        let pos = getPhysicalRow (em_posY emu) (cf emu);
        (p, hds) \<leftarrow> processStream graphemes seq (em_parser emu) [];
        (diff, remains, emu1) \<leftarrow> large_loop env pos hds False ([], emu\<lparr>em_parser := p\<rparr>);
        let emu2 = (if \<not> md_altScreenBufferMode (em_md emu1)
          then emu1\<lparr>em_lastRows := em_lastRows emu1 +
            getRowsGap pos (getPhysicalRow (em_posY emu1) (cf emu1)) (cf emu1)\<rparr>
          else emu1);
        Some (diff, remains, emu2)
      })"

text \<open>\<open>MoveCursor\<close> of the prediction engine, and the events of the user in \<open>input.go\<close>.\<close>

definition MoveCursor :: "int \<Rightarrow> int \<Rightarrow> emulator \<Rightarrow> emulator" where
  "MoveCursor posY posX emu0 =
     (let emu = hdl_csi_cup (posY + 1) (posX + 1) emu0
      in case regulatePos posY posX emu of (y, x) \<Rightarrow> emu\<lparr>em_posY := y, em_posX := x\<rparr>)"

definition UserByte_Handle :: "rune list \<Rightarrow> emulator \<Rightarrow> emulator option" where
  "UserByte_Handle chs emu = do {
     (ret, u) \<leftarrow> UserInput_parse chs (md_cursorKeyMode (em_md emu)) (em_user emu);
     Some (writePty ret (emu\<lparr>em_user := u\<rparr>))
   }"

definition Resize_Handle :: "int \<Rightarrow> int \<Rightarrow> emulator \<Rightarrow> emulator option" where
  "Resize_Handle width height emu = emu_resize width height emu"

end
