(* ===== verification/Display.thy ===== *)
theory Display
  imports Handlers
begin

text \<open>
  \<open>terminal/display.go\<close>: the text that turns one state of a terminal into another. The frame under
  construction is a record; \<open>NewFrame\<close> is split into the groups of checks it makes, in their order.
  \<open>TERM\<close> and terminfo come from outside. The loop over the cells of a row need not end, so it is a
  partial function: \<open>None\<close> is a panic or a loop that never returns.
\<close>

section \<open>The display\<close>

record display =
  dp_smcup :: string
  dp_rmcup :: string
  dp_hasECH :: bool
  dp_hasBCE :: bool
  dp_supportTitle :: bool

definition NewDisplay :: "term_env \<Rightarrow> string \<Rightarrow> bool \<Rightarrow> display" where
  "NewDisplay env term_name useEnvironment =
     (let d = \<lparr>dp_smcup = [], dp_rmcup = [], dp_hasECH = True, dp_hasBCE = True, dp_supportTitle = True\<rparr>;
          cap = (\<lambda>c. case te_lookup env c of Some s \<Rightarrow> s | None \<Rightarrow> [])
      in if useEnvironment then
           d\<lparr>dp_hasBCE := te_lookup env ''bce'' \<noteq> None, dp_hasECH := te_lookup env ''ech'' \<noteq> None,
             dp_supportTitle := term_name \<noteq> [] \<and>
               list_ex (\<lambda>tt. take (length tt) term_name = tt)
                 [''xterm'', ''rxvt'', ''kterm'', ''Eterm'', ''alacritty'', ''screen'', ''tmux''],
             dp_smcup := cap ''smcup'', dp_rmcup := cap ''rmcup''\<rparr>
         else d)"

definition csi :: "string \<Rightarrow> string" where
  "csi s = CHR 0x1B # CHR ''['' # s"

definition Display_Open :: "display \<Rightarrow> string" where
  "Display_Open d = (if dp_smcup d \<noteq> [] then dp_smcup d else []) @ csi ''?1h''"

definition Display_Close :: "display \<Rightarrow> string" where
  "Display_Close d = csi ''?1l'' @ csi ''0m'' @ csi ''?25h'' @
     csi ''?1003l'' @ csi ''?1002l'' @ csi ''?1001l'' @ csi ''?1000l'' @
     csi ''?1015l'' @ csi ''?1006l'' @ csi ''?1005l'' @ (if dp_rmcup d \<noteq> [] then dp_rmcup d else [])"

definition Display_Clone :: "display \<Rightarrow> display" where
  "Display_Clone d = d"

section \<open>The frame under construction\<close>

record frameState =
  fs_lastFrame :: emulator
  fs_out :: string
  fs_currentRendition :: renditions
  fs_cursorX :: int
  fs_cursorY :: int
  fs_showCursorMode :: bool

definition fs_append :: "string \<Rightarrow> frameState \<Rightarrow> frameState" where
  "fs_append x fs = fs\<lparr>fs_out := fs_out fs @ x\<rparr>"

definition appendCell :: "cell \<Rightarrow> frameState \<Rightarrow> frameState" where
  "appendCell c fs = fs_append (printGrapheme c) fs"

definition appendMove :: "int \<Rightarrow> int \<Rightarrow> frameState \<Rightarrow> frameState" where
  "appendMove y x fs =
     (let lastX = fs_cursorX fs;
          lastY = fs_cursorY fs;
          fs1 = fs\<lparr>fs_cursorX := x, fs_cursorY := y\<rparr>;
          known = (lastX \<noteq> - 1 \<and> lastY \<noteq> - 1)
      in if known \<and> x = 0 \<and> y - lastY \<ge> 0 \<and> y - lastY < 5 then
           fs_append (replicate (nat (y - lastY)) (CHR 0x0A))
             (if lastX \<noteq> 0 then fs_append [CHR 0x0D] fs1 else fs1)
         else if known \<and> y = lastY \<and> x - lastX < 0 \<and> x - lastX > - 5 then
           fs_append (replicate (nat (lastX - x)) (CHR 0x08)) fs1
         else if known \<and> y = lastY then fs_append (csi (fmt_d (x - lastX) @ ''C'')) fs1
         else fs_append (csi (fmt_d (y + 1) @ '';'' @ fmt_d (x + 1) @ ''H'')) fs1)"

definition appendSilentMove :: "int \<Rightarrow> int \<Rightarrow> frameState \<Rightarrow> frameState" where
  "appendSilentMove y x fs =
     (if fs_cursorX fs = x \<and> fs_cursorY fs = y then fs
      else appendMove y x
        (if fs_showCursorMode fs then (fs_append (csi ''?25l'') fs)\<lparr>fs_showCursorMode := False\<rparr> else fs))"

definition updateRendition :: "renditions \<Rightarrow> bool \<Rightarrow> frameState \<Rightarrow> frameState" where
  "updateRendition r force fs =
     (if force \<or> fs_currentRendition fs \<noteq> r
      then (fs_append (SGR r) fs)\<lparr>fs_currentRendition := r\<rparr> else fs)"

section \<open>One row\<close>

record row_state =
  rw_frameX :: int
  rw_clearCount :: int
  rw_wroteLast :: bool
  rw_blank :: renditions
  rw_fs :: frameState

text \<open>Blank cells in the middle of a row are erased or overwritten with spaces.\<close>

definition clear_run :: "display \<Rightarrow> int \<Rightarrow> row_state \<Rightarrow> frameState" where
  "clear_run d frameY st =
     (let fs = updateRendition (rw_blank st) False
            (appendSilentMove frameY (rw_frameX st - rw_clearCount st) (rw_fs st))
      in if (dp_hasBCE d \<or> fs_currentRendition fs = Renditions0) \<and> dp_hasECH d \<and> rw_clearCount st > 4
         then fs_append (csi (fmt_d (rw_clearCount st) @ ''X'')) fs
         else (fs_append (replicate (nat (rw_clearCount st)) CHR '' '') fs)\<lparr>fs_cursorX := rw_frameX st\<rparr>)"

definition draw_cell :: "cell \<Rightarrow> int \<Rightarrow> int \<Rightarrow> bool \<Rightarrow> row_state \<Rightarrow> row_state" where
  "draw_cell c rowWidth frameY wrapThis st =
     (let w = GetWidth_cell c;
          fs1 = (if wrapThis \<and> rw_frameX st + w \<ge> rowWidth
                 then (rw_fs st)\<lparr>fs_cursorX := - 1, fs_cursorY := - 1\<rparr> else rw_fs st);
          fs2 = appendCell c (updateRendition (ce_renditions c) False
                  (appendSilentMove frameY (rw_frameX st) fs1))
      in st\<lparr>rw_frameX := rw_frameX st + w, rw_fs := fs2\<lparr>fs_cursorX := fs_cursorX fs2 + w\<rparr>,
            rw_wroteLast := rw_wroteLast st \<or> rw_frameX st + w \<ge> rowWidth\<rparr>)"

text \<open>One turn of the loop over the cells.\<close>

definition row_step ::
  "display \<Rightarrow> bool \<Rightarrow> cell list \<Rightarrow> cell list \<Rightarrow> int \<Rightarrow> int \<Rightarrow> bool \<Rightarrow> row_state \<Rightarrow> row_state option" where
  "row_step d initialized newRow oldRow rowWidth frameY wrapThis st = do {
     let x = rw_frameX st;
     c \<leftarrow> list_at newRow x;
     same \<leftarrow> (if initialized \<and> rw_clearCount st = 0 then do { old \<leftarrow> list_at oldRow x; Some (c = old) }
              else Some False);
     let st1 = (if IsBlank c \<and> rw_clearCount st = 0 then st\<lparr>rw_blank := ce_renditions c\<rparr> else st);
     Some (
       if same then
         st\<lparr>rw_fs := updateRendition (ce_renditions c) False (rw_fs st), rw_frameX := x + GetWidth_cell c\<rparr>
       else if IsBlank c \<and> ce_earlyWrap c then st\<lparr>rw_frameX := x + 1\<rparr>
       else if IsBlank c \<and> ce_renditions c = rw_blank st1 then
         st1\<lparr>rw_clearCount := rw_clearCount st1 + 1, rw_frameX := x + 1\<rparr>
       else if rw_clearCount st1 > 0 then
         (let st2 = st1\<lparr>rw_fs := clear_run d frameY st1, rw_clearCount := 0\<rparr>
          in if IsBlank c
             then st2\<lparr>rw_blank := ce_renditions c, rw_clearCount := 1, rw_frameX := x + 1\<rparr>
             else draw_cell c rowWidth frameY wrapThis st2)
       else draw_cell c rowWidth frameY wrapThis st1)
   }"

partial_function (option) row_loop ::
  "display \<Rightarrow> bool \<Rightarrow> cell list \<Rightarrow> cell list \<Rightarrow> int \<Rightarrow> int \<Rightarrow> bool \<Rightarrow> row_state \<Rightarrow> row_state option" where
  "row_loop d initialized newRow oldRow rowWidth frameY wrapThis st =
     (if rw_frameX st < rowWidth then
        Option.bind (row_step d initialized newRow oldRow rowWidth frameY wrapThis st)
          (row_loop d initialized newRow oldRow rowWidth frameY wrapThis)
      else Some st)"

text \<open>Blank cells at the end of a row.\<close>

definition clear_end :: "display \<Rightarrow> int \<Rightarrow> bool \<Rightarrow> row_state \<Rightarrow> row_state" where
  "clear_end d frameY wrapThis st =
     (if rw_clearCount st > 0 then
        (let fs = updateRendition (rw_blank st) False
               (appendSilentMove frameY (rw_frameX st - rw_clearCount st) (rw_fs st))
         in if (dp_hasBCE d \<or> fs_currentRendition fs = Renditions0) \<and> \<not> wrapThis
            then st\<lparr>rw_fs := fs_append (csi ''K'') fs\<rparr>
            else st\<lparr>rw_fs := (fs_append (replicate (nat (rw_clearCount st)) CHR '' '') fs)
                     \<lparr>fs_cursorX := rw_frameX st\<rparr>, rw_wroteLast := True\<rparr>)
      else st)"

definition putRow2 ::
  "display \<Rightarrow> bool \<Rightarrow> emulator \<Rightarrow> cell list \<Rightarrow> int \<Rightarrow> cell list \<Rightarrow> bool \<Rightarrow> frameState
     \<Rightarrow> (bool \<times> frameState) option" where
  "putRow2 d initialized newE newRow frameY oldRow wrap frame = do {
     (frameX, fs) \<leftarrow> (if wrap then do {
         c \<leftarrow> list_at newRow 0;
         let fs1 = appendCell c (updateRendition (ce_renditions c) False frame);
         Some (GetWidth_cell c, fs1\<lparr>fs_cursorX := fs_cursorX fs1 + GetWidth_cell c\<rparr>)
       } else Some (0, frame));
     if initialized \<and> equalRow newRow oldRow then Some (False, fs)
     else do {
       back \<leftarrow> list_at newRow (int (length newRow) - 1);
       let wrapThis = ce_wrap back;
       st \<leftarrow> row_loop d initialized newRow oldRow (em_nCols newE) frameY wrapThis
         \<lparr>rw_frameX = frameX, rw_clearCount = 0, rw_wroteLast = False, rw_blank = Renditions0, rw_fs = fs\<rparr>;
       let st' = clear_end d frameY wrapThis st;
       let fs' = rw_fs st';
       Some (if rw_wroteLast st' \<and> frameY < em_nRows newE - 1 then
               if wrapThis then (True, fs'\<lparr>fs_cursorX := 0, fs_cursorY := fs_cursorY fs' + 1\<rparr>)
               else (False, (fs_append [CHR 0x0D, CHR 0x0A] fs')
                      \<lparr>fs_cursorX := 0, fs_cursorY := fs_cursorY fs' + 1\<rparr>)
             else (False, fs'))
     }
   }"

section \<open>The rows\<close>

definition firstScreen :: "emulator \<Rightarrow> emulator \<Rightarrow> bool" where
  "firstScreen oldE newE \<longleftrightarrow>
     fb_scrollHead (cf newE) = 0 \<and> fb_scrollHead (cf newE) = fb_scrollHead (cf oldE)"

definition calculateRows :: "emulator \<Rightarrow> emulator \<Rightarrow> int" where
  "calculateRows oldE newE =
     (let oldHead = fb_scrollHead (cf oldE); newHead = fb_scrollHead (cf newE);
          oldY = em_posY oldE; newY = em_posY newE
      in if firstScreen oldE newE then
           (if newY = oldY then (if em_posX newE \<noteq> em_posX oldE then 1 else 0) else newY - oldY + 1)
         else if newHead > oldHead then
           (if newY = oldY \<and> newY = em_nRows newE - 1 then newHead - oldHead + 1
            else em_nRows oldE - oldY + (newHead - oldHead))
         else if newHead = oldHead then
           (if newY = oldY \<and> newY = em_nRows newE - 1
            then (if em_posX newE \<noteq> em_posX oldE then 1 else 0)
            else newY - oldY)
         else fb_marginBottom (cf oldE) - oldHead + newHead + newY + 1 - oldY)"

text \<open>One row of the main screen; the state is the raw row, the row of the frame, the wrap and the frame.\<close>

definition stream_row ::
  "display \<Rightarrow> bool \<Rightarrow> emulator \<Rightarrow> emulator \<Rightarrow> cell list \<Rightarrow> int \<Rightarrow> int \<times> int \<times> bool \<times> frameState
     \<Rightarrow> (int \<times> int \<times> bool \<times> frameState) option" where
  "stream_row d initialized oldE newE blankRow countRows = (\<lambda>(rawY, frameY, wrap, fs). do {
     oldRow \<leftarrow> (if countRows = 1 then fb_getRow rawY (cf oldE) else Some blankRow);
     newRow \<leftarrow> fb_getRow rawY (cf newE);
     (wrap', fs') \<leftarrow> putRow2 d initialized newE newRow frameY oldRow wrap fs;
     Some (if rawY + 1 = fb_marginBottom (cf newE) then fb_marginTop (cf newE) else rawY + 1,
           frameY + 1, wrap', fs')
   })"

definition replicateASB ::
  "display \<Rightarrow> bool \<Rightarrow> emulator \<Rightarrow> emulator \<Rightarrow> bool \<Rightarrow> frameState \<Rightarrow> frameState option" where
  "replicateASB d initialized oldE newE asbChanged fs = do {
     blankRow \<leftarrow> make_slice (em_nCols oldE) Cell0;
     (frameY, wrap, fs') \<leftarrow> for_up 0 (em_nRows newE) (\<lambda>i (frameY, wrap, fs). do {
         oldRow \<leftarrow> (if asbChanged then Some blankRow else getRowAt i oldE);
         newRow \<leftarrow> getRowAt i newE;
         (wrap', fs') \<leftarrow> putRow2 d initialized newE newRow frameY oldRow wrap fs;
         Some (frameY + 1, wrap', fs')
       }) (if asbChanged then em_nRows oldE - 1 else 0, False, fs);
     Some fs'
   }"

definition replicateContent ::
  "display \<Rightarrow> bool \<Rightarrow> emulator \<Rightarrow> emulator \<Rightarrow> bool \<Rightarrow> frameState \<Rightarrow> frameState option" where
  "replicateContent d initialized oldE newE asbChanged fs =
     (if \<not> md_altScreenBufferMode (em_md newE) then do {
        blankRow \<leftarrow> make_slice (em_nCols oldE) Cell0;
        let countRows = calculateRows oldE newE;
        r \<leftarrow> for_up 0 countRows (\<lambda>i. stream_row d initialized oldE newE blankRow countRows)
          (getPhysicalRow (em_posY oldE) (cf oldE), em_posY oldE, False, fs);
        Some (snd (snd (snd r)))
      }
      else replicateASB d initialized oldE newE asbChanged fs)"

section \<open>The frame\<close>

definition titleChanged :: "display \<Rightarrow> bool \<Rightarrow> emulator \<Rightarrow> emulator \<Rightarrow> frameState \<Rightarrow> frameState" where
  "titleChanged d initialized oldE newE fs =
     (if dp_supportTitle d \<and> md_titleInitialized (em_md newE) \<and>
         (\<not> initialized \<or> em_iconLabel newE \<noteq> em_iconLabel oldE \<or> em_windowTitle newE \<noteq> em_windowTitle oldE)
      then
        let osc = (\<lambda>n t. CHR 0x1B # '']'' @ n @ '';'' @ t @ [CHR 0x07])
        in if em_iconLabel newE = em_windowTitle newE then fs_append (osc ''0'' (em_windowTitle newE)) fs
           else
             (let fs1 = (if em_iconLabel newE \<noteq> [] then fs_append (osc ''1'' (em_iconLabel newE)) fs else fs)
              in if em_windowTitle newE \<noteq> [] then fs_append (osc ''2'' (em_windowTitle newE)) fs1 else fs1)
      else fs)"

definition frame_titles :: "display \<Rightarrow> bool \<Rightarrow> emulator \<Rightarrow> emulator \<Rightarrow> frameState \<Rightarrow> frameState" where
  "frame_titles d initialized oldE newE fs =
     (let oldWTS = em_windowTitleStack oldE;
          newWTS = em_windowTitleStack newE;
          title = titleChanged d initialized oldE newE
      in if length oldWTS = length newWTS then
           (if length newWTS = windowTitleStackMax \<and> oldWTS \<noteq> newWTS
            then fs_append (csi ''22;0t'') (title fs) else title fs)
         else if length newWTS > length oldWTS then fs_append (csi ''22;0t'') (title fs)
         else title (fs_append (csi ''23;0t'') fs))"

text \<open>What is sent for a mode: \<open>a\<close> when it is on, \<open>b\<close> when it is off, if it has changed.\<close>

definition mode_change :: "bool \<Rightarrow> bool \<Rightarrow> bool \<Rightarrow> string \<Rightarrow> string \<Rightarrow> frameState \<Rightarrow> frameState" where
  "mode_change initialized oldB newB a b fs =
     (if \<not> initialized \<or> newB \<noteq> oldB then fs_append (csi (if newB then a else b)) fs else fs)"

definition frame_size :: "bool \<Rightarrow> emulator \<Rightarrow> emulator \<Rightarrow> frameState \<Rightarrow> bool \<times> frameState" where
  "frame_size initialized oldE newE fs =
     (if \<not> initialized \<or> em_nCols newE \<noteq> em_nCols oldE \<or> em_nRows newE \<noteq> em_nRows oldE then
        (False, (fs_append (csi ''?25l'') ((fs_append (csi ''r'' @ csi ''0m'' @ csi ''H'' @ csi ''2J'') fs)
           \<lparr>fs_cursorX := 0, fs_cursorY := 0, fs_currentRendition := Renditions0\<rparr>))\<lparr>fs_showCursorMode := False\<rparr>)
      else
        (initialized, fs\<lparr>fs_cursorX := GetCursorCol oldE, fs_cursorY := GetCursorRow oldE,
                         fs_currentRendition := ce_renditions (em_attrs oldE)\<rparr>))"

definition frame_screen :: "bool \<Rightarrow> emulator \<Rightarrow> emulator \<Rightarrow> frameState \<Rightarrow> bool \<times> frameState" where
  "frame_screen initialized oldE newE fs =
     (let o' = em_md oldE; n = em_md newE;
          oldSet = sc_isSet (sd_SCO (savedDEC oldE)); newSet = sc_isSet (sd_SCO (savedDEC newE))
      in if md_altScreen1049 n \<noteq> md_altScreen1049 o' then
           (True, fs_append (csi (if md_altScreen1049 n then ''?1049h'' else ''?1049l'')) fs)
         else
           (\<not> initialized \<or> md_altScreenBufferMode n \<noteq> md_altScreenBufferMode o',
            (let fs1 = mode_change initialized (md_altScreenBufferMode o') (md_altScreenBufferMode n)
                         ''?1047h'' ''?1047l'' fs
             in if newSet \<and> \<not> oldSet then fs_append (csi ''?1048h'') fs1
                else if \<not> newSet \<and> oldSet then fs_append (csi ''?1048l'') fs1 else fs1)))"

definition frame_margins :: "bool \<Rightarrow> emulator \<Rightarrow> emulator \<Rightarrow> frameState \<Rightarrow> frameState" where
  "frame_margins initialized oldE newE fs =
     (let fs1 = (if \<not> initialized \<or> em_marginTop newE \<noteq> em_marginTop oldE \<or>
                    em_marginBottom newE \<noteq> em_marginBottom oldE
                 then fs_append (csi (if fb_margin (cf newE)
                        then fmt_d (em_marginTop newE + 1) @ '';'' @ fmt_d (em_marginBottom newE) @ ''r''
                        else ''r'')) fs
                 else fs);
          horiz = md_horizMarginMode (em_md newE);
          fs2 = (if \<not> initialized \<or> horiz \<noteq> md_horizMarginMode (em_md oldE) then
                   if horiz then
                     (let fs' = fs_append (csi ''?69h'') fs1
                      in if em_hMargin newE \<noteq> em_hMargin oldE \<or> em_nColsEff newE \<noteq> em_nColsEff oldE
                         then fs_append (csi (fmt_d (em_hMargin newE + 1) @ '';'' @ fmt_d (em_nColsEff newE) @ ''s'')) fs'
                         else fs')
                   else fs_append (csi ''?69l'') fs1
                 else fs1);
          oldSet = sc_isSet (em_savedCursor_SCO oldE); newSet = sc_isSet (em_savedCursor_SCO newE)
      in if newSet \<and> \<not> oldSet then fs_append (csi ''s'') fs2
         else if \<not> newSet \<and> oldSet then fs_append (csi ''u'') fs2 else fs2)"

fun cursor_style_ps :: "cursorShow \<Rightarrow> int" where
  "cursor_style_ps CursorStyle_BlinkBlock = 1"
| "cursor_style_ps CursorStyle_SteadyBlock = 2"
| "cursor_style_ps CursorStyle_BlinkUnderline = 3"
| "cursor_style_ps CursorStyle_SteadyUnderline = 4"
| "cursor_style_ps CursorStyle_BlinkBar = 5"
| "cursor_style_ps CursorStyle_SteadyBar = 6"

definition frame_cursor :: "bool \<Rightarrow> emulator \<Rightarrow> emulator \<Rightarrow> frameState \<Rightarrow> frameState" where
  "frame_cursor initialized oldE newE fs =
     (let c = fb_cursor (cf newE); oldC = fb_cursor (cf oldE);
          fs1 = (if \<not> initialized \<or> GetCursorRow newE \<noteq> fs_cursorY fs \<or> GetCursorCol newE \<noteq> fs_cursorX fs
                 then appendMove (GetCursorRow newE) (GetCursorCol newE) fs else fs);
          fs2 = mode_change initialized (fs_showCursorMode fs1) (md_showCursorMode (em_md newE)) ''?25h'' ''?25l'' fs1;
          fs3 = (if \<not> initialized \<or> cu_showStyle c \<noteq> cu_showStyle oldC
                 then fs_append (csi (fmt_d (cursor_style_ps (cu_showStyle c)) @ '' q'')) fs2 else fs2);
          fs4 = (if (\<not> initialized \<or> cu_color c \<noteq> cu_color oldC) \<and> cu_color c = ColorDefault
                 then fs_append (CHR 0x1B # '']112'' @ [CHR 0x07]) fs3 else fs3)
      in updateRendition (ce_renditions (em_attrs newE)) (\<not> initialized) fs4)"

fun mouse_mode_num :: "mouseTrackingMode \<Rightarrow> int" where
  "mouse_mode_num MouseTrackingMode_Disable = 0"
| "mouse_mode_num MouseTrackingMode_X10_Compat = 9"
| "mouse_mode_num MouseTrackingMode_VT200 = 1000"
| "mouse_mode_num MouseTrackingMode_VT200_HighLight = 1001"
| "mouse_mode_num MouseTrackingMode_VT200_ButtonEvent = 1002"
| "mouse_mode_num MouseTrackingMode_VT200_AnyEvent = 1003"

fun mouse_enc_num :: "mouseTrackingEnc \<Rightarrow> int" where
  "mouse_enc_num MouseTrackingEnc_Default = 0"
| "mouse_enc_num MouseTrackingEnc_UTF8 = 1005"
| "mouse_enc_num MouseTrackingEnc_SGR = 1006"
| "mouse_enc_num MouseTrackingEnc_URXVT = 1015"

definition frame_mouse :: "bool \<Rightarrow> emulator \<Rightarrow> emulator \<Rightarrow> frameState \<Rightarrow> frameState" where
  "frame_mouse initialized oldE newE fs =
     (let n = em_mouseTrk newE; old = em_mouseTrk oldE;
          num = (\<lambda>i c. csi (CHR ''?'' # fmt_d i @ c));
          fs1 = (if \<not> initialized \<or> mt_mode n \<noteq> mt_mode old then
                   if mt_mode n = MouseTrackingMode_Disable
                   then fs_append (csi ''?1003l'' @ csi ''?1002l'' @ csi ''?1001l'' @ csi ''?1000l'') fs
                   else fs_append (num (mouse_mode_num (mt_mode n)) ''h'')
                     (if mt_mode old \<noteq> MouseTrackingMode_Disable
                      then fs_append (num (mouse_mode_num (mt_mode old)) ''l'') fs else fs)
                 else fs);
          fs2 = mode_change initialized (mt_focusEventMode old) (mt_focusEventMode n) ''?1004h'' ''?1004l'' fs1
      in if \<not> initialized \<or> mt_enc n \<noteq> mt_enc old then
           if mt_enc n = MouseTrackingEnc_Default
           then fs_append (csi ''?1015l'' @ csi ''?1006l'' @ csi ''?1005l'') fs2
           else fs_append (num (mouse_enc_num (mt_enc n)) ''h'')
             (if mt_enc old \<noteq> MouseTrackingEnc_Default
              then fs_append (num (mouse_enc_num (mt_enc old)) ''l'') fs2 else fs2)
         else fs2)"

definition frame_modes :: "bool \<Rightarrow> modes \<Rightarrow> modes \<Rightarrow> frameState \<Rightarrow> frameState" where
  "frame_modes initialized old n fs =
     mode_change initialized (md_altScrollMode old) (md_altScrollMode n) ''?1007h'' ''?1007l''
     (mode_change initialized (md_altSendsEscape old) (md_altSendsEscape n) ''?1036h'' ''?1036l''
     (mode_change initialized (md_bkspSendsDel old) (md_bkspSendsDel n) ''?67l'' ''?67h''
     (mode_change initialized (md_localEcho old) (md_localEcho n) ''12l'' ''12h''
     (mode_change initialized (md_insertMode old) (md_insertMode n) ''4h'' ''4l''
     (mode_change initialized (md_keyboardLocked old) (md_keyboardLocked n) ''2h'' ''2l''
     (mode_change initialized (md_autoNewlineMode old) (md_autoNewlineMode n) ''20h'' ''20l''
     (mode_change initialized (md_autoWrapMode old) (md_autoWrapMode n) ''?7h'' ''?7l'' fs)))))))"

definition frame_keys :: "bool \<Rightarrow> modes \<Rightarrow> modes \<Rightarrow> frameState \<Rightarrow> frameState" where
  "frame_keys initialized old n fs =
     (let change = (\<lambda>b s fs. if \<not> initialized \<or> b then fs_append s fs else fs);
          fs1 = change (md_cursorKeyMode n \<noteq> md_cursorKeyMode old)
            (csi (case md_cursorKeyMode n of CursorKeyMode_Application \<Rightarrow> ''?1h'' | CursorKeyMode_ANSI \<Rightarrow> ''?1l'')) fs;
          fs2 = change (md_originMode n \<noteq> md_originMode old)
            (csi (case md_originMode n of OriginMode_ScrollingRegion \<Rightarrow> ''?6h'' | OriginMode_Absolute \<Rightarrow> ''?6l'')) fs1;
          fs3 = change (md_keypadMode n \<noteq> md_keypadMode old)
            (CHR 0x1B # (case md_keypadMode n of KeypadMode_Application \<Rightarrow> ''='' | KeypadMode_Normal \<Rightarrow> ''>'')) fs2
      in change (md_colMode n \<noteq> md_colMode old)
            (csi (case md_colMode n of ColMode_C132 \<Rightarrow> ''?3h'' | ColMode_C80 \<Rightarrow> ''?3l'')) fs3)"

definition frame_tabs :: "bool \<Rightarrow> emulator \<Rightarrow> emulator \<Rightarrow> frameState \<Rightarrow> frameState" where
  "frame_tabs initialized oldE newE fs =
     (if \<not> initialized \<or> em_tabStops newE \<noteq> em_tabStops oldE then
        if em_tabStops newE = [] then fs_append (csi ''3g'') fs
        else appendMove (fs_cursorY fs) (fs_cursorX fs)
          (fold (\<lambda>tabStop fs. fs_append (CHR 0x1B # ''H'') (appendMove 0 tabStop fs)) (em_tabStops newE) fs)
      else fs)"

definition frame_levels :: "bool \<Rightarrow> emulator \<Rightarrow> emulator \<Rightarrow> frameState \<Rightarrow> frameState" where
  "frame_levels initialized oldE newE fs =
     (let l = md_compatLevel (em_md newE);
          fs1 = (if \<not> initialized \<or> l \<noteq> md_compatLevel (em_md oldE) then
            (case l of CompatLevel_VT52 \<Rightarrow> fs_append (csi ''?2l'') fs
             | CompatLevel_VT100 \<Rightarrow> fs_append (csi (''61'' @ [CHR 0x22] @ ''p'')) fs
             | CompatLevel_VT400 \<Rightarrow> fs_append (csi (''64'' @ [CHR 0x22] @ ''p'')) fs
             | CompatLevel_Unused \<Rightarrow> fs) else fs)
      in if \<not> initialized \<or> em_modifyOtherKeys newE \<noteq> em_modifyOtherKeys oldE
         then fs_append (csi (''>4;'' @ fmt_d (em_modifyOtherKeys newE) @ ''m'')) fs1 else fs1)"

definition NewFrame :: "display \<Rightarrow> bool \<Rightarrow> emulator \<Rightarrow> emulator \<Rightarrow> string option" where
  "NewFrame d initialized oldE newE = do {
     let frame = \<lparr>fs_lastFrame = oldE, fs_out = [], fs_currentRendition = Renditions0, fs_cursorX = 0,
                  fs_cursorY = 0, fs_showCursorMode = md_showCursorMode (em_md oldE)\<rparr>;
     let fs1 = (if em_bellCount newE \<noteq> em_bellCount oldE then fs_append [CHR 0x07] frame else frame);
     let fs2 = frame_titles d initialized oldE newE fs1;
     let fs3 = (if em_selectionData newE \<noteq> em_selectionData oldE then fs_append (em_selectionData newE) fs2 else fs2);
     let fs4 = mode_change initialized (md_reverseVideo (em_md oldE)) (md_reverseVideo (em_md newE)) ''?5h'' ''?5l'' fs3;
     let (ini, fs5) = frame_size initialized oldE newE fs4;
     let (asbChanged, fs6) = frame_screen ini oldE newE fs5;
     let fs7 = frame_margins ini oldE newE fs6;
     fs8 \<leftarrow> replicateContent d ini oldE newE asbChanged fs7;
     let fs9 = frame_cursor ini oldE newE fs8;
     let fs10 = mode_change ini (md_bracketedPasteMode (em_md oldE)) (md_bracketedPasteMode (em_md newE))
       ''?2004h'' ''?2004l'' fs9;
     let fs11 = frame_mouse ini oldE newE fs10;
     let fs12 = frame_modes ini (em_md oldE) (em_md newE) fs11;
     let fs13 = frame_keys ini (em_md oldE) (em_md newE) fs12;
     let fs14 = frame_tabs ini oldE newE fs13;
     Some (fs_out (frame_levels ini oldE newE fs14))
   }"

end
