(* ===== verification/FramebufferProps.thy ===== *)
theory FramebufferProps
  imports Framebuffer
begin

text \<open>
  The frame buffer as a ring of rows: the invariant of its numbers, where a logical row lies, and
  what scrolling, margins and a new size do to the rows.
\<close>

section \<open>Well-formed buffers\<close>

definition fb_wf :: "framebuffer \<Rightarrow> bool" where
  "fb_wf fb \<longleftrightarrow>
     0 < fb_nCols fb \<and> 0 < fb_nRows fb \<and> 0 \<le> fb_saveLines fb \<and>
     fb_nCols fb * (fb_nRows fb + fb_saveLines fb) \<le> int (length (fb_cells fb)) \<and>
     0 \<le> fb_marginTop fb \<and> fb_marginTop fb \<le> fb_scrollHead fb \<and>
     fb_scrollHead fb < fb_marginBottom fb \<and>
     (if fb_margin fb then fb_marginBottom fb \<le> fb_nRows fb
      else fb_marginTop fb = 0 \<and> fb_marginBottom fb = fb_nRows fb + fb_saveLines fb) \<and>
     0 \<le> fb_historyRows fb \<and> fb_historyRows fb \<le> fb_saveLines fb"

definition ring_size :: "framebuffer \<Rightarrow> int" where
  "ring_size fb = fb_marginBottom fb - fb_marginTop fb"

definition row_cells :: "framebuffer \<Rightarrow> int \<Rightarrow> cell list" where
  "row_cells fb r = take (nat (fb_nCols fb)) (drop (nat (fb_nCols fb * r)) (fb_cells fb))"

text \<open>The rows of the scrolling area from its logical top; without margins the history comes last.\<close>

definition ring :: "framebuffer \<Rightarrow> cell list list" where
  "ring fb = map (\<lambda>k. row_cells fb (getPhysicalRow (fb_marginTop fb + int k) fb)) [0..<nat (ring_size fb)]"

lemma mod_small:
  fixes a n :: int
  shows "0 \<le> a \<Longrightarrow> a < n \<Longrightarrow> a mod n = a"
    and "n \<le> a \<Longrightarrow> a < 2 * n \<Longrightarrow> a mod n = a - n"
  using mod_pos_pos_trivial [of "a - n" n] by auto

lemma wrap_mod:
  fixes k h n :: int
  shows "0 \<le> k \<Longrightarrow> k < n \<Longrightarrow> 0 \<le> h \<Longrightarrow> h < n \<Longrightarrow>
    (k + h) mod n = (if k + h < n then k + h else k + h - n)"
  by (simp add: mod_small)

lemma pred_mod:
  fixes r n :: int
  shows "0 \<le> r \<Longrightarrow> r < n \<Longrightarrow> (r - 1) mod n = (if r = 0 then n - 1 else r - 1)"
  by (auto simp: mod_small zmod_minus1)

lemma getPhysicalRow_ring:
  assumes "fb_wf fb" and "0 \<le> k" and "k < ring_size fb"
  shows "getPhysicalRow (fb_marginTop fb + k) fb =
    fb_marginTop fb + (k + (fb_scrollHead fb - fb_marginTop fb)) mod ring_size fb"
proof -
  let ?h = "fb_scrollHead fb - fb_marginTop fb" and ?n = "ring_size fb"
  have h: "0 \<le> ?h" "?h < ?n" using assms(1) by (auto simp: fb_wf_def ring_size_def)
  have "(k + ?h) mod ?n = (if k + ?h < ?n then k + ?h else k + ?h - ?n)"
    by (rule wrap_mod [OF assms(2,3) h])
  then show ?thesis
    using assms h by (auto simp: getPhysicalRow_def fb_wf_def ring_size_def Let_def split: if_splits)
qed

text \<open>Every row of the screen and of the history has a place in the buffer.\<close>

lemma getPhysicalRow_range:
  assumes "fb_wf fb" and "- fb_historyRows fb \<le> pY" and "pY < fb_nRows fb"
  shows "0 \<le> getPhysicalRow pY fb \<and> getPhysicalRow pY fb < fb_nRows fb + fb_saveLines fb"
  using assms by (auto simp: getPhysicalRow_def fb_wf_def Let_def split: if_splits)

lemma getPhysicalRow_inj:
  assumes "fb_wf fb" and "getPhysicalRow a fb = getPhysicalRow b fb"
    and "- fb_historyRows fb \<le> a" and "a < fb_nRows fb" and "- fb_historyRows fb \<le> b" and "b < fb_nRows fb"
  shows "a = b"
  using assms by (auto simp: getPhysicalRow_def fb_wf_def Let_def split: if_splits)

section \<open>Scrolling\<close>

lemma head_up_fields [simp]:
  "fb_marginTop (head_up fb) = fb_marginTop fb" "fb_marginBottom (head_up fb) = fb_marginBottom fb"
  "fb_margin (head_up fb) = fb_margin fb" "fb_cells (head_up fb) = fb_cells fb"
  "fb_nCols (head_up fb) = fb_nCols fb" "fb_nRows (head_up fb) = fb_nRows fb"
  "fb_saveLines (head_up fb) = fb_saveLines fb" "fb_historyRows (head_up fb) = fb_historyRows fb"
  "fb_viewOffset (head_up fb) = fb_viewOffset fb"
  by (simp_all add: head_up_def Let_def)

lemma head_down_fields [simp]:
  "fb_marginTop (head_down fb) = fb_marginTop fb" "fb_marginBottom (head_down fb) = fb_marginBottom fb"
  "fb_margin (head_down fb) = fb_margin fb" "fb_cells (head_down fb) = fb_cells fb"
  "fb_nCols (head_down fb) = fb_nCols fb" "fb_nRows (head_down fb) = fb_nRows fb"
  "fb_saveLines (head_down fb) = fb_saveLines fb" "fb_historyRows (head_down fb) = fb_historyRows fb"
  "fb_viewOffset (head_down fb) = fb_viewOffset fb"
  by (simp_all add: head_down_def)

text \<open>\<open>same_ring\<close>: the buffers agree in everything that scrolling does not move.\<close>

definition same_ring :: "framebuffer \<Rightarrow> framebuffer \<Rightarrow> bool" where
  "same_ring fb x \<longleftrightarrow>
     fb_marginTop x = fb_marginTop fb \<and> fb_marginBottom x = fb_marginBottom fb \<and>
     fb_margin x = fb_margin fb \<and> fb_cells x = fb_cells fb \<and> fb_nCols x = fb_nCols fb \<and>
     fb_nRows x = fb_nRows fb \<and> fb_saveLines x = fb_saveLines fb \<and> fb_viewOffset x = fb_viewOffset fb"

lemma head_up_pow:
  assumes "fb_marginTop fb \<le> fb_scrollHead fb" and "fb_scrollHead fb < fb_marginBottom fb"
  shows "same_ring fb ((head_up ^^ n) fb) \<and> fb_historyRows ((head_up ^^ n) fb) = fb_historyRows fb \<and>
    fb_scrollHead ((head_up ^^ n) fb) =
      fb_marginTop fb + (fb_scrollHead fb - fb_marginTop fb + int n) mod ring_size fb"
proof (induction n)
  case 0
  then show ?case using assms by (simp add: same_ring_def ring_size_def)
next
  case (Suc n)
  let ?x = "(head_up ^^ n) fb" and ?k = "fb_scrollHead fb - fb_marginTop fb" and ?m = "ring_size fb"
  have m: "0 < ?m" using assms by (simp add: ring_size_def)
  have r: "0 \<le> (?k + int n) mod ?m" "(?k + int n) mod ?m < ?m" using m by simp_all
  have "(?k + int (Suc n)) mod ?m = ((?k + int n) mod ?m + 1) mod ?m"
    by (simp add: mod_simps add.assoc) (simp add: algebra_simps)
  also have "\<dots> = (if (?k + int n) mod ?m + 1 = ?m then 0 else (?k + int n) mod ?m + 1)"
    using r by (auto simp: mod_pos_pos_trivial)
  finally show ?case
    using Suc by (auto simp: same_ring_def head_up_def Let_def ring_size_def)
qed

lemma head_down_pow:
  assumes "fb_marginTop fb \<le> fb_scrollHead fb" and "fb_scrollHead fb < fb_marginBottom fb"
  shows "same_ring fb ((head_down ^^ n) fb) \<and> fb_historyRows ((head_down ^^ n) fb) = fb_historyRows fb \<and>
    fb_scrollHead ((head_down ^^ n) fb) =
      fb_marginTop fb + (fb_scrollHead fb - fb_marginTop fb - int n) mod ring_size fb"
proof (induction n)
  case 0
  then show ?case using assms by (simp add: same_ring_def ring_size_def)
next
  case (Suc n)
  let ?x = "(head_down ^^ n) fb" and ?k = "fb_scrollHead fb - fb_marginTop fb" and ?m = "ring_size fb"
  have m: "0 < ?m" using assms by (simp add: ring_size_def)
  have r: "0 \<le> (?k - int n) mod ?m" "(?k - int n) mod ?m < ?m" using m by simp_all
  have "(?k - int (Suc n)) mod ?m = ((?k - int n) mod ?m - 1) mod ?m"
    by (simp add: mod_simps) (simp add: algebra_simps)
  also have "\<dots> = (if (?k - int n) mod ?m = 0 then ?m - 1 else (?k - int n) mod ?m - 1)"
    by (rule pred_mod [OF r])
  finally show ?case
    using Suc r by (auto simp: same_ring_def head_down_def ring_size_def)
qed

lemma ring_moved:
  assumes "fb_wf fb" and "same_ring fb x" and "fb_wf x"
    and "fb_scrollHead x = fb_marginTop fb + (fb_scrollHead fb - fb_marginTop fb + int n) mod ring_size fb"
  shows "ring x = rotate n (ring fb)"
proof (rule nth_equalityI)
  have m: "0 < ring_size fb" using assms(1) by (auto simp: fb_wf_def ring_size_def)
  have rs: "ring_size x = ring_size fb" using assms(2) by (simp add: ring_size_def same_ring_def)
  then show "length (ring x) = length (rotate n (ring fb))" by (simp add: ring_def)
  fix i assume "i < length (ring x)"
  then have i: "int i < ring_size fb" "i < nat (ring_size fb)" by (simp_all add: ring_def rs)
  let ?h = "fb_scrollHead fb - fb_marginTop fb" and ?j = "(n + i) mod nat (ring_size fb)"
  have j: "?j < nat (ring_size fb)" "int ?j < ring_size fb"
    using m mod_less_divisor [of "nat (ring_size fb)" "n + i"] by linarith+
  have ij: "int ?j = (int n + int i) mod ring_size fb" using m by (simp add: zmod_int)
  have "(int i + (?h + int n) mod ring_size fb) mod ring_size fb = (int ?j + ?h) mod ring_size fb"
    unfolding ij by (simp add: mod_simps) (simp add: algebra_simps)
  then have "getPhysicalRow (fb_marginTop x + int i) x = getPhysicalRow (fb_marginTop fb + int ?j) fb"
    using getPhysicalRow_ring [OF assms(3), of "int i"] getPhysicalRow_ring [OF assms(1), of "int ?j"]
      i j m rs assms(2,4) by (simp add: same_ring_def)
  moreover have "row_cells x r = row_cells fb r" for r
    using assms(2) by (simp add: row_cells_def same_ring_def)
  ultimately show "ring x ! i = rotate n (ring fb) ! i"
    using i j rs by (simp add: ring_def nth_rotate)
qed


lemma vscrollSelection_ring [simp]:
  "same_ring fb (vscrollSelection d fb)"
  "fb_historyRows (vscrollSelection d fb) = fb_historyRows fb"
  "fb_scrollHead (vscrollSelection d fb) = fb_scrollHead fb"
  by (simp_all add: vscrollSelection_def same_ring_def Let_def clearSelection_def move_selection_def)

lemma same_ring_wf:
  assumes "fb_wf fb" and "same_ring fb x" and "0 \<le> fb_historyRows x" and "fb_historyRows x \<le> fb_saveLines x"
    and "fb_marginTop x \<le> fb_scrollHead x" and "fb_scrollHead x < fb_marginBottom x"
  shows "fb_wf x"
  using assms by (simp add: fb_wf_def same_ring_def)

lemma scrollUp_fields:
  assumes "fb_wf fb"
  shows "same_ring fb (scrollUp n fb)"
    and "fb_historyRows (scrollUp n fb) = min (fb_historyRows fb + n) (fb_saveLines fb)"
    and "fb_scrollHead (scrollUp n fb) =
      fb_marginTop fb + (fb_scrollHead fb - fb_marginTop fb + int (nat n)) mod ring_size fb"
proof -
  have "fb_marginTop (vscrollSelection (- n) fb) \<le> fb_scrollHead (vscrollSelection (- n) fb)"
    "fb_scrollHead (vscrollSelection (- n) fb) < fb_marginBottom (vscrollSelection (- n) fb)"
    using assms vscrollSelection_ring(1) [of fb "- n"] by (auto simp: fb_wf_def same_ring_def)
  from head_up_pow [OF this, of "nat n"] vscrollSelection_ring(1) [of fb "- n"]
  show "same_ring fb (scrollUp n fb)"
    "fb_historyRows (scrollUp n fb) = min (fb_historyRows fb + n) (fb_saveLines fb)"
    "fb_scrollHead (scrollUp n fb) =
      fb_marginTop fb + (fb_scrollHead fb - fb_marginTop fb + int (nat n)) mod ring_size fb"
    by (simp_all add: scrollUp_def damage_scrolled_def add_damage_def Let_def same_ring_def ring_size_def)
qed

lemma scrollDown_fields:
  assumes "fb_wf fb"
  shows "same_ring fb (scrollDown n fb)"
    and "fb_historyRows (scrollDown n fb) = max 0 (fb_historyRows fb - n)"
    and "fb_scrollHead (scrollDown n fb) =
      fb_marginTop fb + (fb_scrollHead fb - fb_marginTop fb - int (nat n)) mod ring_size fb"
proof -
  have "fb_marginTop (vscrollSelection n fb) \<le> fb_scrollHead (vscrollSelection n fb)"
    "fb_scrollHead (vscrollSelection n fb) < fb_marginBottom (vscrollSelection n fb)"
    using assms vscrollSelection_ring(1) [of fb n] by (auto simp: fb_wf_def same_ring_def)
  from head_down_pow [OF this, of "nat n"] vscrollSelection_ring(1) [of fb n]
  show "same_ring fb (scrollDown n fb)"
    "fb_historyRows (scrollDown n fb) = max 0 (fb_historyRows fb - n)"
    "fb_scrollHead (scrollDown n fb) =
      fb_marginTop fb + (fb_scrollHead fb - fb_marginTop fb - int (nat n)) mod ring_size fb"
    by (simp_all add: scrollDown_def damage_scrolled_def add_damage_def Let_def same_ring_def ring_size_def)
qed

lemma ring_size_pos: "fb_wf fb \<Longrightarrow> 0 < ring_size fb"
  by (simp add: fb_wf_def ring_size_def)

lemma same_ring_size: "same_ring fb x \<Longrightarrow> ring_size x = ring_size fb"
  by (simp add: same_ring_def ring_size_def)

lemma moved_wf:
  assumes "fb_wf fb" and "same_ring fb x" and "fb_scrollHead x = fb_marginTop fb + a mod ring_size fb"
    and "0 \<le> fb_historyRows x" and "fb_historyRows x \<le> fb_saveLines fb"
  shows "fb_wf x"
proof (rule same_ring_wf [OF assms(1,2)])
  have "0 \<le> a mod ring_size fb" "a mod ring_size fb < ring_size fb"
    using ring_size_pos [OF assms(1)] by simp_all
  then show "fb_marginTop x \<le> fb_scrollHead x" "fb_scrollHead x < fb_marginBottom x"
    using assms(2,3) by (simp_all add: same_ring_def ring_size_def)
qed (use assms in \<open>simp_all add: same_ring_def\<close>)

lemma history_bounds: "fb_wf fb \<Longrightarrow> 0 \<le> fb_historyRows fb \<and> fb_historyRows fb \<le> fb_saveLines fb"
  by (simp add: fb_wf_def)

lemma scrollUp_wf: "fb_wf fb \<Longrightarrow> 0 \<le> n \<Longrightarrow> fb_wf (scrollUp n fb)"
  by (rule moved_wf [OF _ scrollUp_fields(1,3)]) (auto simp: scrollUp_fields dest: history_bounds)

lemma scrollDown_wf: "fb_wf fb \<Longrightarrow> 0 \<le> n \<Longrightarrow> fb_wf (scrollDown n fb)"
  by (rule moved_wf [OF _ scrollDown_fields(1,3)]) (auto simp: scrollDown_fields dest: history_bounds)

lemma scrollUp_ring: "fb_wf fb \<Longrightarrow> 0 \<le> n \<Longrightarrow> ring (scrollUp n fb) = rotate (nat n) (ring fb)"
  by (rule ring_moved [OF _ scrollUp_fields(1)]) (simp_all add: scrollUp_fields scrollUp_wf)

lemma scrollDown_ring:
  assumes "fb_wf fb" and "0 \<le> n"
  shows "rotate (nat n) (ring (scrollDown n fb)) = ring fb"
proof (rule ring_moved [symmetric])
  note f = scrollDown_fields [OF assms(1), of n]
  show "same_ring (scrollDown n fb) fb" using f(1) by (simp add: same_ring_def)
  have "fb_marginTop (scrollDown n fb) = fb_marginTop fb" using f(1) by (simp add: same_ring_def)
  moreover have "((fb_scrollHead fb - fb_marginTop fb - int (nat n)) mod ring_size fb + int (nat n)) mod
      ring_size fb = fb_scrollHead fb - fb_marginTop fb"
    using assms(1) by (simp add: mod_simps mod_small fb_wf_def ring_size_def)
  ultimately show "fb_scrollHead fb = fb_marginTop (scrollDown n fb) +
      (fb_scrollHead (scrollDown n fb) - fb_marginTop (scrollDown n fb) + int (nat n)) mod
        ring_size (scrollDown n fb)"
    using f(3) same_ring_size [OF f(1)] by simp
qed (use assms scrollDown_wf in auto)

text \<open>The history: row \<open>-k\<close> is the \<open>k\<close>-th row from the end of the ring, when there are no margins.\<close>

lemma history_row:
  assumes "fb_wf fb" and "\<not> fb_margin fb" and "0 < k" and "k \<le> fb_historyRows fb"
  shows "row_cells fb (getPhysicalRow (- k) fb) = ring fb ! nat (ring_size fb - k)"
proof -
  have k: "0 \<le> ring_size fb - k" "ring_size fb - k < ring_size fb" "nat (ring_size fb - k) < nat (ring_size fb)"
    using assms by (auto simp: fb_wf_def ring_size_def)
  have "getPhysicalRow (fb_marginTop fb + (ring_size fb - k)) fb = getPhysicalRow (- k) fb"
    using assms by (auto simp: getPhysicalRow_def fb_wf_def ring_size_def Let_def split: if_splits)
  then show ?thesis using k by (simp add: ring_def)
qed

lemma screen_row:
  assumes "fb_wf fb" and "fb_marginTop fb \<le> pY" and "pY < fb_marginBottom fb"
  shows "row_cells fb (getPhysicalRow pY fb) = ring fb ! nat (pY - fb_marginTop fb)"
  using assms by (auto simp: ring_def ring_size_def nat_less_iff)

section \<open>Rows in a slice of cells\<close>

definition chunk :: "nat \<Rightarrow> nat \<Rightarrow> 'a list \<Rightarrow> 'a list" where
  "chunk n r xs = take n (drop (n * r) xs)"

lemma nth_chunk: "j < n \<Longrightarrow> n * r + j < length xs \<Longrightarrow> chunk n r xs ! j = xs ! (n * r + j)"
  by (simp add: chunk_def)

lemma length_chunk: "length (chunk n r xs) = min n (length xs - n * r)"
  by (simp add: chunk_def)

lemma block_disjoint:
  fixes n q r j :: nat
  assumes "q \<noteq> r" and "j < n"
  shows "n * q + j < n * r \<or> n * Suc r \<le> n * q + j"
proof (cases "q < r")
  case True
  then have "n * Suc q \<le> n * r" by (intro mult_le_mono2) simp
  then show ?thesis using assms(2) by simp
next
  case False
  then have "n * Suc r \<le> n * q" using assms(1) by (intro mult_le_mono2) simp
  then show ?thesis by linarith
qed

lemma chunk_copy:
  assumes "n * Suc r \<le> length xs" and "length ys \<le> n"
  obtains zs where "copy_into xs (int (n * r)) ys = Some zs" "length zs = length xs"
    "chunk n r zs = ys @ drop (length ys) (chunk n r xs)"
    "\<And>q. q \<noteq> r \<Longrightarrow> chunk n q zs = chunk n q xs"
proof
  let ?zs = "take (n * r) xs @ ys @ drop (n * r + length ys) xs"
  have le: "n * r + length ys \<le> length xs" "length ys \<le> length xs - n * r" using assms by simp_all
  show "copy_into xs (int (n * r)) ys = Some ?zs"
    using le by (simp add: copy_into_def del: of_nat_mult)
  show len: "length ?zs = length xs" using le by simp
  show "chunk n r ?zs = ys @ drop (length ys) (chunk n r xs)"
    using assms le by (simp add: chunk_def drop_take take_append add.commute)
  fix q assume q: "q \<noteq> r"
  show "chunk n q ?zs = chunk n q xs"
  proof (rule nth_equalityI)
    show "length (chunk n q ?zs) = length (chunk n q xs)" by (simp only: length_chunk len)
    fix j assume "j < length (chunk n q ?zs)"
    then have j: "j < n" "n * q + j < length xs" unfolding length_chunk len by auto
    have "n * q + j < n * r \<or> n * r + length ys \<le> n * q + j"
      using block_disjoint [OF q j(1)] assms(2) by auto
    then have "?zs ! (n * q + j) = xs ! (n * q + j)"
      using le j(2) by (auto simp: nth_append)
    then show "chunk n q ?zs ! j = chunk n q xs ! j"
      using j len by (simp only: nth_chunk)
  qed
qed

text \<open>A loop that writes a block in every turn, to different places.\<close>

lemma for_list_blocks:
  assumes "\<And>i. i \<in> set is \<Longrightarrow> src i = Some (s i)" and "\<And>i. i \<in> set is \<Longrightarrow> length (s i) \<le> n"
    and "\<And>i. i \<in> set is \<Longrightarrow> n * Suc (d i) \<le> length xs" and "distinct (map d is)"
  obtains ys where "for_list is (\<lambda>i dst. do { b \<leftarrow> src i; copy_into dst (int (n * d i)) b }) xs = Some ys"
    "length ys = length xs"
    "\<And>i. i \<in> set is \<Longrightarrow> chunk n (d i) ys = s i @ drop (length (s i)) (chunk n (d i) xs)"
    "\<And>q. q \<notin> d ` set is \<Longrightarrow> chunk n q ys = chunk n q xs"
proof -
  have "\<exists>ys. for_list is (\<lambda>i dst. do { b \<leftarrow> src i; copy_into dst (int (n * d i)) b }) xs = Some ys \<and>
      length ys = length xs \<and>
      (\<forall>i \<in> set is. chunk n (d i) ys = s i @ drop (length (s i)) (chunk n (d i) xs)) \<and>
      (\<forall>q. q \<notin> d ` set is \<longrightarrow> chunk n q ys = chunk n q xs)"
    using assms
  proof (induction "is" arbitrary: xs)
    case (Cons i "is")
    obtain zs where zs: "copy_into xs (int (n * d i)) (s i) = Some zs" "length zs = length xs"
      "chunk n (d i) zs = s i @ drop (length (s i)) (chunk n (d i) xs)"
      "\<And>q. q \<noteq> d i \<Longrightarrow> chunk n q zs = chunk n q xs"
      using chunk_copy [of n "d i" xs "s i"] Cons.prems(2,3) by auto
    have "\<exists>ys. for_list is (\<lambda>i dst. do { b \<leftarrow> src i; copy_into dst (int (n * d i)) b }) zs = Some ys \<and>
        length ys = length zs \<and>
        (\<forall>i \<in> set is. chunk n (d i) ys = s i @ drop (length (s i)) (chunk n (d i) zs)) \<and>
        (\<forall>q. q \<notin> d ` set is \<longrightarrow> chunk n q ys = chunk n q zs)"
      using Cons.prems zs(2) by (intro Cons.IH) auto
    then obtain ys where ys: "for_list is (\<lambda>i dst. do { b \<leftarrow> src i; copy_into dst (int (n * d i)) b }) zs = Some ys"
      "length ys = length zs" "\<forall>i \<in> set is. chunk n (d i) ys = s i @ drop (length (s i)) (chunk n (d i) zs)"
      "\<forall>q. q \<notin> d ` set is \<longrightarrow> chunk n q ys = chunk n q zs" by blast
    have new: "d i \<notin> d ` set is" using Cons.prems(4) by simp
    then have other: "d j \<noteq> d i" if "j \<in> set is" for j using that by (metis imageI)
    then show ?case
      using ys zs new other Cons.prems(1) [of i] by (intro exI [of _ ys]) auto
  qed simp
  then show thesis using that by blast
qed

section \<open>The rows of a buffer\<close>

definition lrow :: "framebuffer \<Rightarrow> int \<Rightarrow> cell list" where
  "lrow fb pY = row_cells fb (getPhysicalRow pY fb)"

lemma row_cells_chunk: "0 \<le> r \<Longrightarrow> 0 \<le> fb_nCols fb \<Longrightarrow> row_cells fb r = chunk (nat (fb_nCols fb)) (nat r) (fb_cells fb)"
  by (simp add: row_cells_def chunk_def nat_mult_distrib)

lemma block_end: "\<lbrakk>r < m; 0 \<le> n; n * m \<le> l\<rbrakk> \<Longrightarrow> n * r + n \<le> (l :: int)"
  using mult_left_mono [of "r + 1" m n] by (simp add: algebra_simps)

lemma wf_block:
  assumes "fb_wf fb" and "- fb_historyRows fb \<le> pY" and "pY < fb_nRows fb"
  shows "0 \<le> getPhysRowIdx pY fb" "getPhysRowIdx pY fb + fb_nCols fb \<le> int (length (fb_cells fb))"
proof -
  have r: "0 \<le> getPhysicalRow pY fb" "getPhysicalRow pY fb < fb_nRows fb + fb_saveLines fb"
    using getPhysicalRow_range [OF assms] by simp_all
  have w: "0 \<le> fb_nCols fb" "fb_nCols fb * (fb_nRows fb + fb_saveLines fb) \<le> int (length (fb_cells fb))"
    using assms(1) by (simp_all add: fb_wf_def)
  from block_end [OF r(2) w] r(1) w(1)
  show "0 \<le> getPhysRowIdx pY fb" "getPhysRowIdx pY fb + fb_nCols fb \<le> int (length (fb_cells fb))"
    by (simp_all add: getPhysRowIdx_def)
qed

lemma length_lrow:
  assumes "fb_wf fb" and "- fb_historyRows fb \<le> pY" and "pY < fb_nRows fb"
  shows "length (lrow fb pY) = nat (fb_nCols fb)"
  using wf_block [OF assms] assms(1) by (simp add: lrow_def row_cells_def getPhysRowIdx_def fb_wf_def)

lemma slice_row:
  assumes "fb_wf fb" and "- fb_historyRows fb \<le> pY" and "pY < fb_nRows fb" and "0 \<le> l" and "l \<le> fb_nCols fb"
  shows "slice (fb_cells fb) (getPhysRowIdx pY fb) (getPhysRowIdx pY fb + l) = Some (take (nat l) (lrow fb pY))"
  using wf_block [OF assms(1-3)] assms(4,5)
  by (simp add: slice_def lrow_def row_cells_def getPhysRowIdx_def drop_take nat_add_distrib nat_le_eq_zle min_def)

lemma for_list_cong:
  "(\<And>i s. i \<in> set xs \<Longrightarrow> f i s = g i s) \<Longrightarrow> for_list xs f s = for_list xs g s"
  by (induction xs arbitrary: s) (simp_all split: Option.bind_split)

lemma copy_rows:
  assumes "fb_wf fb" and "0 \<le> l" and "l \<le> fb_nCols fb" and "l \<le> n" and "- fb_historyRows fb \<le> a" and "b \<le> fb_nRows fb"
    and "0 \<le> a + e" and "n * (b + e) \<le> int (length dst)"
  obtains xs where
    "for_up a b (\<lambda>pY dst. do {
        src \<leftarrow> slice (fb_cells fb) (getPhysRowIdx pY fb) (getPhysRowIdx pY fb + l);
        copy_into dst (n * (pY + e)) src }) dst = Some xs"
    "length xs = length dst"
    "\<And>pY. a \<le> pY \<Longrightarrow> pY < b \<Longrightarrow> chunk (nat n) (nat (pY + e)) xs =
        take (nat l) (lrow fb pY) @ drop (nat l) (chunk (nat n) (nat (pY + e)) dst)"
    "\<And>q. int q < a + e \<or> b + e \<le> int q \<Longrightarrow> chunk (nat n) q xs = chunk (nat n) q dst"
proof -
  let ?rows = "map (\<lambda>k. a + int k) [0..<nat (b - a)]"
  let ?src = "\<lambda>pY. slice (fb_cells fb) (getPhysRowIdx pY fb) (getPhysRowIdx pY fb + l)"
  have n: "0 \<le> n" using assms(2,4) by simp
  have rows: "a \<le> pY \<and> pY < b \<longleftrightarrow> pY \<in> set ?rows" for pY
    by (auto simp: image_iff intro!: bexI [of _ "nat (pY - a)"])
  have len: "length (take (nat l) (lrow fb pY)) = nat l" if "pY \<in> set ?rows" for pY
    using that assms length_lrow [of fb pY] by (auto simp flip: rows)
  have fit: "nat n * Suc (nat (pY + e)) \<le> length dst" if "pY \<in> set ?rows" for pY
  proof -
    have "n * (pY + e) + n \<le> int (length dst)"
      using that assms(8) n by (intro block_end [of _ "b + e"]) (auto simp flip: rows)
    then have "int (nat n * Suc (nat (pY + e))) \<le> int (length dst)"
      using that n assms(7) by (auto simp flip: rows simp: algebra_simps)
    then show ?thesis by (simp only: of_nat_le_iff)
  qed
  have eq: "for_up a b (\<lambda>pY dst. do { src \<leftarrow> ?src pY; copy_into dst (n * (pY + e)) src }) dst =
      for_list ?rows (\<lambda>pY dst. do { src \<leftarrow> ?src pY; copy_into dst (int (nat n * nat (pY + e))) src }) dst"
    unfolding for_up_def by (rule for_list_cong) (use n assms(7) in auto)
  obtain xs where xs:
    "for_list ?rows (\<lambda>pY dst. do { src \<leftarrow> ?src pY; copy_into dst (int (nat n * nat (pY + e))) src }) dst = Some xs"
    "length xs = length dst"
    "\<And>pY. pY \<in> set ?rows \<Longrightarrow> chunk (nat n) (nat (pY + e)) xs =
      take (nat l) (lrow fb pY) @ drop (length (take (nat l) (lrow fb pY))) (chunk (nat n) (nat (pY + e)) dst)"
    "\<And>q. q \<notin> (\<lambda>pY. nat (pY + e)) ` set ?rows \<Longrightarrow> chunk (nat n) q xs = chunk (nat n) q dst"
  proof (rule for_list_blocks [of ?rows ?src "\<lambda>pY. take (nat l) (lrow fb pY)" "nat n" "\<lambda>pY. nat (pY + e)" dst])
    show "?src pY = Some (take (nat l) (lrow fb pY))" if "pY \<in> set ?rows" for pY
      using that assms by (intro slice_row) (auto simp flip: rows)
    show "length (take (nat l) (lrow fb pY)) \<le> nat n" if "pY \<in> set ?rows" for pY
      using len [OF that] assms(4) by simp
    show "distinct (map (\<lambda>pY. nat (pY + e)) ?rows)"
      using assms(7) by (auto simp: distinct_map inj_on_def)
  qed (erule fit, rule that)
  show thesis
  proof (rule that [OF eq [THEN trans, OF xs(1)] xs(2)])
    fix pY assume "a \<le> pY" and "pY < b"
    then have "pY \<in> set ?rows" using rows by blast
    from xs(3) [OF this] len [OF this]
    show "chunk (nat n) (nat (pY + e)) xs =
      take (nat l) (lrow fb pY) @ drop (nat l) (chunk (nat n) (nat (pY + e)) dst)" by simp
  next
    fix q assume "int q < a + e \<or> b + e \<le> int q"
    then show "chunk (nat n) q xs = chunk (nat n) q dst"
      using assms(7) by (intro xs(4)) auto
  qed
qed

lemma for_up_cong:
  "(\<And>i s. a \<le> i \<Longrightarrow> i < b \<Longrightarrow> f i s = g i s) \<Longrightarrow> for_up a b f s = for_up a b g s"
  unfolding for_up_def by (rule for_list_cong) auto

lemma chunk_replicate: "n * Suc r \<le> m \<Longrightarrow> chunk n r (replicate m c) = replicate n c"
  by (simp add: chunk_def min_def)

text \<open>Both loops over a new slice with \<open>rows\<close> rows and the history at its end.\<close>

lemma copy_all_rows:
  assumes "fb_wf fb" and "0 \<le> l" and "l \<le> fb_nCols fb" and "l \<le> n"
    and "0 \<le> m" and "m \<le> fb_nRows fb" and "m \<le> rows"
  defines "tot \<equiv> rows + fb_saveLines fb"
  obtains xs ys where
    "for_up 0 m (\<lambda>pY dst. do {
        src \<leftarrow> slice (fb_cells fb) (getPhysRowIdx pY fb) (getPhysRowIdx pY fb + l);
        copy_into dst (n * pY) src }) (replicate (nat (n * tot)) Cell0) = Some xs"
    "for_up (- fb_historyRows fb) 0 (\<lambda>pY dst. do {
        src \<leftarrow> slice (fb_cells fb) (getPhysRowIdx pY fb) (getPhysRowIdx pY fb + l);
        copy_into dst ((tot - fb_historyRows fb) * n + n * (pY + fb_historyRows fb)) src }) xs = Some ys"
    "int (length ys) = n * tot"
    "\<And>pY. 0 \<le> pY \<Longrightarrow> pY < m \<Longrightarrow> chunk (nat n) (nat pY) ys =
        take (nat l) (lrow fb pY) @ replicate (nat n - nat l) Cell0"
    "\<And>pY. - fb_historyRows fb \<le> pY \<Longrightarrow> pY < 0 \<Longrightarrow> chunk (nat n) (nat (pY + tot)) ys =
        take (nat l) (lrow fb pY) @ replicate (nat n - nat l) Cell0"
    "\<And>pY. m \<le> pY \<Longrightarrow> pY < rows \<Longrightarrow> chunk (nat n) (nat pY) ys = replicate (nat n) Cell0"
proof -
  let ?d = "replicate (nat (n * tot)) Cell0" and ?h = "fb_historyRows fb"
  have w: "0 \<le> ?h" "?h \<le> fb_saveLines fb" "0 < fb_nRows fb" using assms(1) by (simp_all add: fb_wf_def)
  have n: "0 \<le> n" "0 \<le> n * tot" using assms w by (simp_all add: tot_def)
  have ld: "int (length ?d) = n * tot" using n by simp
  have new: "chunk (nat n) (nat q) ?d = replicate (nat n) Cell0" if "0 \<le> q" "q < tot" for q
  proof -
    have "n * q + n \<le> n * tot" by (rule block_end [OF that(2) n(1) order_refl])
    then have "int (nat n * Suc (nat q)) \<le> int (nat (n * tot))"
      using n that by (simp add: algebra_simps)
    then show ?thesis by (intro chunk_replicate) (simp only: of_nat_le_iff)
  qed
  have "n * (m + 0) \<le> int (length ?d)"
    unfolding ld using assms w n by (intro mult_left_mono) (auto simp: tot_def)
  note first = copy_rows [OF assms(1-4), of 0, OF _ assms(6) _ this]
  obtain xs where xs:
    "for_up 0 m (\<lambda>pY dst. do {
        src \<leftarrow> slice (fb_cells fb) (getPhysRowIdx pY fb) (getPhysRowIdx pY fb + l);
        copy_into dst (n * pY) src }) ?d = Some xs" "length xs = length ?d"
    "\<And>pY. 0 \<le> pY \<Longrightarrow> pY < m \<Longrightarrow> chunk (nat n) (nat pY) xs =
        take (nat l) (lrow fb pY) @ drop (nat l) (chunk (nat n) (nat pY) ?d)"
    "\<And>q. int q < 0 \<or> m \<le> int q \<Longrightarrow> chunk (nat n) q xs = chunk (nat n) q ?d"
    using first w(1) by auto
  have "n * (0 + tot) \<le> int (length xs)" unfolding xs(2) ld by simp
  note second = copy_rows [OF assms(1-4) order_refl, of 0, OF _ _ this]
  obtain ys where ys:
    "for_up (- ?h) 0 (\<lambda>pY dst. do {
        src \<leftarrow> slice (fb_cells fb) (getPhysRowIdx pY fb) (getPhysRowIdx pY fb + l);
        copy_into dst (n * (pY + tot)) src }) xs = Some ys" "length ys = length xs"
    "\<And>pY. - ?h \<le> pY \<Longrightarrow> pY < 0 \<Longrightarrow> chunk (nat n) (nat (pY + tot)) ys =
        take (nat l) (lrow fb pY) @ drop (nat l) (chunk (nat n) (nat (pY + tot)) xs)"
    "\<And>q. int q < - ?h + tot \<or> 0 + tot \<le> int q \<Longrightarrow> chunk (nat n) q ys = chunk (nat n) q xs"
    using second w assms(5-7) by (auto simp: tot_def)
  have eq: "for_up (- ?h) 0 (\<lambda>pY dst. do {
        src \<leftarrow> slice (fb_cells fb) (getPhysRowIdx pY fb) (getPhysRowIdx pY fb + l);
        copy_into dst ((tot - ?h) * n + n * (pY + ?h)) src }) xs = Some ys"
    unfolding ys(1) [symmetric] by (rule for_up_cong) (simp add: algebra_simps)
  show thesis
  proof (rule that [OF xs(1) eq])
    show "int (length ys) = n * tot" using xs(2) ys(2) ld by simp
  next
    fix pY assume p: "0 \<le> pY" "pY < m"
    then have "chunk (nat n) (nat pY) ys = chunk (nat n) (nat pY) xs"
      using assms w by (intro ys(4)) (auto simp: tot_def)
    then show "chunk (nat n) (nat pY) ys = take (nat l) (lrow fb pY) @ replicate (nat n - nat l) Cell0"
      using xs(3) [OF p] new [of pY] p assms w by (simp add: tot_def)
  next
    fix pY assume p: "- ?h \<le> pY" "pY < 0"
    then have "chunk (nat n) (nat (pY + tot)) xs = chunk (nat n) (nat (pY + tot)) ?d"
      using assms w by (intro xs(4)) (auto simp: tot_def)
    then show "chunk (nat n) (nat (pY + tot)) ys = take (nat l) (lrow fb pY) @ replicate (nat n - nat l) Cell0"
      using ys(3) [OF p] new [of "pY + tot"] p assms w by (simp add: tot_def)
  next
    fix pY assume p: "m \<le> pY" "pY < rows"
    then have "chunk (nat n) (nat pY) ys = chunk (nat n) (nat pY) xs"
      using assms w by (intro ys(4)) (auto simp: tot_def)
    also have "\<dots> = chunk (nat n) (nat pY) ?d" using p assms by (intro xs(4)) auto
    finally show "chunk (nat n) (nat pY) ys = replicate (nat n) Cell0"
      using new [of pY] p assms w by (simp add: tot_def)
  qed
qed

text \<open>In an unwrapped buffer the screen comes first and the history last.\<close>

lemma getPhysicalRow_unwrapped:
  assumes "fb_scrollHead fb = fb_marginTop fb" and "\<not> fb_margin fb \<Longrightarrow> fb_marginTop fb = 0"
    and "0 < fb_nRows fb" and "0 \<le> fb_saveLines fb"
    and "fb_margin fb \<or> fb_marginBottom fb = fb_nRows fb + fb_saveLines fb"
    and "- (fb_nRows fb + fb_saveLines fb) \<le> pY" and "pY < fb_nRows fb"
  shows "getPhysicalRow pY fb = (if pY < 0 then pY + (fb_nRows fb + fb_saveLines fb) else pY)"
  using assms by (auto simp: getPhysicalRow_def Let_def)

lemma lrow_unwrapped:
  assumes "fb_wf fb" and "fb_scrollHead fb = fb_marginTop fb"
    and "- fb_historyRows fb \<le> pY" and "pY < fb_nRows fb"
  shows "lrow fb pY = chunk (nat (fb_nCols fb))
    (nat (if pY < 0 then pY + (fb_nRows fb + fb_saveLines fb) else pY)) (fb_cells fb)"
proof -
  have "getPhysicalRow pY fb = (if pY < 0 then pY + (fb_nRows fb + fb_saveLines fb) else pY)"
    using assms by (intro getPhysicalRow_unwrapped) (auto simp: fb_wf_def split: if_splits)
  then show ?thesis using assms by (auto simp: lrow_def row_cells_chunk fb_wf_def)
qed

lemma unwrap_rows:
  assumes "fb_wf fb"
  obtains fb' where "unwrapCellStorage fb = Some fb'" "fb_wf fb'"
    "fb' = fb\<lparr>fb_cells := fb_cells fb', fb_scrollHead := fb_marginTop fb\<rparr>"
    "\<And>pY. - fb_historyRows fb \<le> pY \<Longrightarrow> pY < fb_nRows fb \<Longrightarrow> lrow fb' pY = lrow fb pY"
proof (cases "fb_scrollHead fb = fb_marginTop fb")
  case True
  then show thesis using assms by (intro that [of fb]) (simp_all add: unwrapCellStorage_def)
next
  case False
  let ?n = "fb_nCols fb" and ?tot = "fb_nRows fb + fb_saveLines fb"
  have w: "0 < ?n" "0 < fb_nRows fb" "0 \<le> fb_saveLines fb" using assms by (simp_all add: fb_wf_def)
  obtain xs ys where
    "for_up 0 (fb_nRows fb) (\<lambda>pY dst. do {
        src \<leftarrow> slice (fb_cells fb) (getPhysRowIdx pY fb) (getPhysRowIdx pY fb + ?n);
        copy_into dst (?n * pY) src }) (replicate (nat (?n * ?tot)) Cell0) = Some xs"
    "for_up (- fb_historyRows fb) 0 (\<lambda>pY dst. do {
        src \<leftarrow> slice (fb_cells fb) (getPhysRowIdx pY fb) (getPhysRowIdx pY fb + ?n);
        copy_into dst ((?tot - fb_historyRows fb) * ?n + ?n * (pY + fb_historyRows fb)) src }) xs = Some ys"
    and len: "int (length ys) = ?n * ?tot"
    and screen: "\<And>pY. 0 \<le> pY \<Longrightarrow> pY < fb_nRows fb \<Longrightarrow> chunk (nat ?n) (nat pY) ys = take (nat ?n) (lrow fb pY)"
    and history: "\<And>pY. - fb_historyRows fb \<le> pY \<Longrightarrow> pY < 0 \<Longrightarrow>
      chunk (nat ?n) (nat (pY + ?tot)) ys = take (nat ?n) (lrow fb pY)"
    using copy_all_rows [OF assms, of ?n ?n "fb_nRows fb" "fb_nRows fb"] w by auto
  then have "copyAllCells (replicate (nat (?n * ?tot)) Cell0) fb = Some ys"
    by (simp add: copyAllCells_def getPhysRowIdx_def Let_def)
  then have u: "unwrapCellStorage fb = Some (fb\<lparr>fb_cells := ys, fb_scrollHead := fb_marginTop fb\<rparr>)"
    (is "_ = Some ?fb")
    using False w by (simp add: unwrapCellStorage_def make_slice_def not_less)
  have wf: "fb_wf ?fb" using assms len by (auto simp: fb_wf_def)
  show thesis
  proof (rule that [OF u wf])
    fix pY assume p: "- fb_historyRows fb \<le> pY" "pY < fb_nRows fb"
    have "lrow ?fb pY = take (nat ?n) (lrow fb pY)"
      using lrow_unwrapped [OF wf, of pY] p screen [of pY] history [of pY] by auto
    then show "lrow ?fb pY = lrow fb pY" using length_lrow [OF assms p] by simp
  qed simp
qed

lemma lrow_expose [simp]: "lrow (expose fb) pY = lrow fb pY" "fb_wf (expose fb) = fb_wf fb"
  by (simp_all add: lrow_def expose_def row_cells_def getPhysicalRow_def fb_wf_def Let_def)

text \<open>Unwrapped, the rows do not depend on the margins.\<close>

lemma lrow_margins:
  assumes "fb_wf fb" and "fb_scrollHead fb = fb_marginTop fb"
    and "fb' = fb\<lparr>fb_marginTop := t, fb_scrollHead := t, fb_marginBottom := b, fb_margin := m\<rparr>"
    and "0 \<le> t" and "t < b" and "if m then b \<le> fb_nRows fb else t = 0 \<and> b = fb_nRows fb + fb_saveLines fb"
  shows "fb_wf fb'" and "- fb_historyRows fb \<le> pY \<Longrightarrow> pY < fb_nRows fb \<Longrightarrow> lrow fb' pY = lrow fb pY"
proof -
  show wf: "fb_wf fb'" using assms by (auto simp: fb_wf_def)
  assume p: "- fb_historyRows fb \<le> pY" "pY < fb_nRows fb"
  show "lrow fb' pY = lrow fb pY"
    using lrow_unwrapped [OF assms(1,2) p] lrow_unwrapped [OF wf, of pY] p assms(3) by simp
qed

definition fb_rows :: "framebuffer \<Rightarrow> int \<Rightarrow> int \<Rightarrow> cell list list" where
  "fb_rows fb a b = map (lrow fb) [a..b - 1]"

lemma fb_rows_shift:
  assumes "\<And>pY. a \<le> pY \<Longrightarrow> pY < b \<Longrightarrow> lrow x pY = lrow y (pY + d)"
  shows "fb_rows x a b = fb_rows y (a + d) (b + d)"
  using assms by (intro nth_equalityI) (auto simp: fb_rows_def add.commute add.left_commute)

lemmas fb_rows_eq = fb_rows_shift [where d = 0, simplified]

lemma expose_fields [simp]:
  "fb_margin (expose fb) = fb_margin fb" "fb_marginTop (expose fb) = fb_marginTop fb"
  "fb_marginBottom (expose fb) = fb_marginBottom fb" "fb_cells (expose fb) = fb_cells fb"
  "fb_nRows (expose fb) = fb_nRows fb" "fb_nCols (expose fb) = fb_nCols fb"
  "fb_historyRows (expose fb) = fb_historyRows fb" "fb_saveLines (expose fb) = fb_saveLines fb"
  by (simp_all add: expose_def)

definition fit_row :: "int \<Rightarrow> cell list \<Rightarrow> cell list" where
  "fit_row n xs = take (nat n) xs @ replicate (nat n - length xs) Cell0"

lemma lrow_ring:
  assumes "fb_wf fb" and "\<not> fb_margin fb" and "- fb_historyRows fb \<le> pY" and "pY < fb_nRows fb"
  shows "lrow fb pY = ring fb ! nat (pY mod ring_size fb)"
proof (cases "0 \<le> pY")
  case True
  have "pY mod ring_size fb = pY" using assms True by (auto simp: fb_wf_def ring_size_def)
  then show ?thesis using screen_row [of fb pY] assms True by (auto simp: lrow_def fb_wf_def)
next
  case False
  have "pY mod ring_size fb = pY + ring_size fb"
    using assms False mod_small(1) [of "pY + ring_size fb" "ring_size fb"]
    by (simp add: fb_wf_def ring_size_def)
  then show ?thesis
    using history_row [of fb "- pY"] assms False by (auto simp: lrow_def fb_wf_def add.commute)
qed

lemma length_ring [simp]: "length (ring fb) = nat (ring_size fb)"
  by (simp add: ring_def)

lemma ring_shift:
  assumes "0 < ring_size fb" and "0 \<le> n"
  shows "rotate (nat n) (ring fb) ! nat (k mod ring_size fb) = ring fb ! nat ((k + n) mod ring_size fb)"
proof -
  have "nat (k mod ring_size fb) < nat (ring_size fb)" using assms(1) by simp
  moreover have "(nat n + nat (k mod ring_size fb)) mod nat (ring_size fb) = nat ((k + n) mod ring_size fb)"
    using assms by (simp add: nat_mod_distrib [symmetric] nat_add_distrib [symmetric] mod_simps add.commute)
  ultimately show ?thesis by (simp add: nth_rotate)
qed

lemma same_ring_outside:
  assumes "same_ring fb x" and "fb_margin fb" and "0 \<le> pY"
    and "pY < fb_marginTop fb \<or> fb_marginBottom fb \<le> pY"
  shows "lrow x pY = lrow fb pY"
  using assms by (simp add: same_ring_def lrow_def getPhysicalRow_def row_cells_def)

text \<open>The rows that scroll: those between the margins, or the history and the whole screen.\<close>

definition scroll_top :: "framebuffer \<Rightarrow> int" where
  "scroll_top fb = (if fb_margin fb then fb_marginTop fb else - fb_historyRows fb)"

definition scroll_bottom :: "framebuffer \<Rightarrow> int" where
  "scroll_bottom fb = (if fb_margin fb then fb_marginBottom fb else fb_nRows fb)"

lemma scrollUp_lrow:
  assumes "fb_wf fb" and "0 \<le> n" and "scroll_top (scrollUp n fb) \<le> pY" and "pY < scroll_bottom fb - n"
  shows "lrow (scrollUp n fb) pY = lrow fb (pY + n)"
proof -
  let ?x = "scrollUp n fb"
  have f: "same_ring fb ?x" "fb_wf ?x" "ring ?x = rotate (nat n) (ring fb)"
    "fb_historyRows ?x = min (fb_historyRows fb + n) (fb_saveLines fb)"
    using scrollUp_fields [OF assms(1)] scrollUp_wf [OF assms(1,2)] scrollUp_ring [OF assms(1,2)] by auto
  note eqs = f(1) [unfolded same_ring_def]
  show ?thesis
  proof (cases "fb_margin fb")
    case True
    have pY: "fb_marginTop fb \<le> pY" "pY + n < fb_marginBottom fb"
      using assms(3,4) True eqs by (simp_all add: scroll_top_def scroll_bottom_def)
    have "ring ?x ! nat (pY - fb_marginTop fb) = ring fb ! nat (pY + n - fb_marginTop fb)"
      unfolding f(3) using pY assms(2) by (simp add: nth_rotate ring_size_def nat_add_distrib [symmetric] algebra_simps)
    then show ?thesis
      using screen_row [OF f(2), of pY] screen_row [OF assms(1), of "pY + n"] pY eqs assms(2)
      by (simp add: lrow_def)
  next
    case False
    have pY: "- fb_historyRows ?x \<le> pY" "pY + n < fb_nRows fb" "- fb_historyRows fb \<le> pY + n"
      using assms(1,3,4) False eqs f(4) by (auto simp: scroll_top_def scroll_bottom_def fb_wf_def)
    have "ring ?x ! nat (pY mod ring_size fb) = ring fb ! nat ((pY + n) mod ring_size fb)"
      unfolding f(3) by (rule ring_shift [OF ring_size_pos [OF assms(1)] assms(2)])
    then show ?thesis
      using lrow_ring [OF f(2), of pY] lrow_ring [OF assms(1) False pY(3,2)] pY eqs False assms(2)
        same_ring_size [OF f(1)] by simp
  qed
qed

lemma scrollDown_lrow:
  assumes "fb_wf fb" and "0 \<le> n" and "scroll_top (scrollDown n fb) + n \<le> pY" and "pY < scroll_bottom fb"
  shows "lrow (scrollDown n fb) pY = lrow fb (pY - n)"
proof -
  let ?x = "scrollDown n fb"
  have f: "same_ring fb ?x" "fb_wf ?x" "rotate (nat n) (ring ?x) = ring fb"
    "fb_historyRows ?x = max 0 (fb_historyRows fb - n)"
    using scrollDown_fields [OF assms(1)] scrollDown_wf [OF assms(1,2)] scrollDown_ring [OF assms(1,2)] by auto
  note eqs = f(1) [unfolded same_ring_def]
  show ?thesis
  proof (cases "fb_margin fb")
    case True
    have pY: "fb_marginTop fb \<le> pY - n" "pY < fb_marginBottom fb"
      using assms(3,4) True eqs by (simp_all add: scroll_top_def scroll_bottom_def)
    have "ring fb ! nat (pY - n - fb_marginTop fb) = ring ?x ! nat (pY - fb_marginTop fb)"
      unfolding f(3) [symmetric] using pY assms(2) eqs
      by (auto simp: nth_rotate ring_size_def nat_add_distrib [symmetric])
    then show ?thesis
      using screen_row [OF f(2), of pY] screen_row [OF assms(1), of "pY - n"] pY eqs assms(2)
      by (simp add: lrow_def)
  next
    case False
    have pY: "- fb_historyRows ?x + n \<le> pY" "pY < fb_nRows fb"
      using assms(1,3,4) False eqs by (auto simp: scroll_top_def scroll_bottom_def)
    have old: "- fb_historyRows fb \<le> pY - n" "pY - n < fb_nRows fb" "- fb_historyRows ?x \<le> pY"
      using pY f(4) assms(1,2) by (auto simp: fb_wf_def)
    have "ring fb ! nat ((pY - n) mod ring_size fb) = ring ?x ! nat (pY mod ring_size fb)"
      using ring_shift [of ?x n "pY - n"] ring_size_pos [OF f(2)] assms(2) same_ring_size [OF f(1)]
      by (simp add: f(3))
    then show ?thesis
      using lrow_ring [OF f(2), of pY] lrow_ring [OF assms(1) False old(1,2)] old pY eqs False
        same_ring_size [OF f(1)] by simp
  qed
qed

lemma fb_resize_rows:
  assumes "fb_wf fb" and "0 < c" and "0 < r"
  shows "\<exists>fb'. fb_resize c r fb = Some (fb', 0, r) \<and> fb_wf fb' \<and> fb_nCols fb' = c \<and> fb_nRows fb' = r \<and>
    \<not> fb_margin fb' \<and> fb_historyRows fb' = fb_historyRows fb \<and>
    fb_kittyKbd fb' = fb_kittyKbd fb \<and> fb_viewOffset fb' = 0 \<and> fb_marginTop fb' = 0 \<and>
    fb_rows fb' (- fb_historyRows fb) (min (fb_nRows fb) r) =
      map (fit_row c) (fb_rows fb (- fb_historyRows fb) (min (fb_nRows fb) r)) \<and>
    fb_rows fb' (fb_nRows fb) r = replicate (nat (r - fb_nRows fb)) (replicate (nat c) Cell0)"
proof -
  let ?l = "min (fb_nCols fb) c" and ?m = "min (fb_nRows fb) r" and ?h = "fb_historyRows fb" and ?s = "fb_saveLines fb"
  have w: "0 < fb_nCols fb" "0 < fb_nRows fb" "0 \<le> ?s" "0 \<le> ?h" "?h \<le> ?s" using assms(1) by (simp_all add: fb_wf_def)
  obtain xs ys where
    "for_up 0 ?m (\<lambda>pY dst. do {
        src \<leftarrow> slice (fb_cells fb) (getPhysRowIdx pY fb) (getPhysRowIdx pY fb + ?l);
        copy_into dst (c * pY) src }) (replicate (nat (c * (r + ?s))) Cell0) = Some xs"
    "for_up (- ?h) 0 (\<lambda>pY dst. do {
        src \<leftarrow> slice (fb_cells fb) (getPhysRowIdx pY fb) (getPhysRowIdx pY fb + ?l);
        copy_into dst ((r + ?s - ?h) * c + c * (pY + ?h)) src }) xs = Some ys"
    and len: "int (length ys) = c * (r + ?s)"
    and screen: "\<And>pY. 0 \<le> pY \<Longrightarrow> pY < ?m \<Longrightarrow>
      chunk (nat c) (nat pY) ys = take (nat ?l) (lrow fb pY) @ replicate (nat c - nat ?l) Cell0"
    and history: "\<And>pY. - ?h \<le> pY \<Longrightarrow> pY < 0 \<Longrightarrow>
      chunk (nat c) (nat (pY + (r + ?s))) ys = take (nat ?l) (lrow fb pY) @ replicate (nat c - nat ?l) Cell0"
    and new: "\<And>pY. ?m \<le> pY \<Longrightarrow> pY < r \<Longrightarrow> chunk (nat c) (nat pY) ys = replicate (nat c) Cell0"
    using copy_all_rows [OF assms(1), of ?l c ?m r] w assms(2,3) by auto
  then obtain fb' where rs: "fb_resize c r fb = Some (fb', 0, r)" and f: "fb_cells fb' = ys" "fb_nCols fb' = c"
    "fb_nRows fb' = r" "fb_marginTop fb' = 0" "fb_scrollHead fb' = 0" "fb_marginBottom fb' = r + ?s"
    "\<not> fb_margin fb'" "fb_historyRows fb' = ?h" "fb_saveLines fb' = ?s" "fb_kittyKbd fb' = fb_kittyKbd fb" "fb_viewOffset fb' = 0"
    using assms(2,3) w by (auto simp: fb_resize_def make_slice_def mult_less_0_iff Let_def)
  have wf: "fb_wf fb'" using f len w assms(2,3) by (simp add: fb_wf_def)
  have fit: "take (nat ?l) (lrow fb pY) @ replicate (nat c - nat ?l) Cell0 = fit_row c (lrow fb pY)"
    if "- ?h \<le> pY" "pY < ?m" for pY
  proof -
    have "length (lrow fb pY) = nat (fb_nCols fb)" using length_lrow [OF assms(1)] that by simp
    then show ?thesis using w assms(2) by (cases "fb_nCols fb \<le> c") (simp_all add: fit_row_def)
  qed
  have "lrow fb' pY = fit_row c (lrow fb pY)" if "- ?h \<le> pY" "pY < ?m" for pY
    using lrow_unwrapped [OF wf, of pY] screen [of pY] history [of pY] fit [OF that] that f w by auto
  moreover have "lrow fb' pY = replicate (nat c) Cell0" if "fb_nRows fb \<le> pY" "pY < r" for pY
    using lrow_unwrapped [OF wf, of pY] new [of pY] that f w by auto
  ultimately show ?thesis using rs wf f by (auto simp: fb_rows_def intro!: nth_equalityI)
qed

section \<open>Properties\<close>

definition numbered_rows :: framebuffer where
  "numbered_rows = (fst (the (NewFramebuffer3 2 2 2)))\<lparr>
     fb_cells := map (\<lambda>i. Cell0\<lparr>ce_contents := [char_of (48 + i)]\<rparr>) [0..<8],
     fb_scrollHead := 1, fb_historyRows := 1\<rparr>"

lemma numbered_rows_fields [simp]:
  "fb_nCols numbered_rows = 2" "fb_nRows numbered_rows = 2" "fb_saveLines numbered_rows = 2"
  "fb_historyRows numbered_rows = 1" "fb_margin numbered_rows = False" "fb_marginTop numbered_rows = 0"
  "fb_marginBottom numbered_rows = 4" "fb_scrollHead numbered_rows = 1"
  by (simp_all add: numbered_rows_def NewFramebuffer3_def Push_def NewStack_def make_slice_def
      SaveLineUpperLimit_def KITTY_KBD_STACK_MAX_def)

lemma numbered_rows_wf: "fb_wf numbered_rows"
  by (simp add: fb_wf_def) (simp add: numbered_rows_def)

text \<open>
  C12. Scrolling refines the movement of rows: the buffer stays well formed, and in the scrolling area (the
  rows between the margins or, without margins, the screen and the history above it) row \<open>y\<close> of the
  new screen is row \<open>y + n\<close> (scrolling up) or \<open>y - n\<close> (scrolling down) of the old one; rows that leave
  the screen at the top become history, the oldest of \<open>saveLines\<close> rows drop out, and the rows outside
  the margins stay.
\<close>

theorem scroll_rows:
  assumes "fb_wf fb" and "0 \<le> n"
  defines "up \<equiv> scrollUp n fb" and "down \<equiv> scrollDown n fb"
    and "a \<equiv> max 0 (scroll_top fb)" and "b \<equiv> scroll_bottom fb"
  shows "fb_wf up \<and> fb_historyRows up = min (fb_historyRows fb + n) (fb_saveLines fb) \<and>
    fb_rows up (scroll_top up) (b - n) = fb_rows fb (scroll_top up + n) b \<and>
    fb_rows up 0 a = fb_rows fb 0 a \<and> fb_rows up b (fb_nRows fb) = fb_rows fb b (fb_nRows fb) \<and>
    fb_wf down \<and> fb_historyRows down = max 0 (fb_historyRows fb - n) \<and>
    fb_rows down (scroll_top down + n) b = fb_rows fb (scroll_top down) (b - n) \<and>
    fb_rows down 0 a = fb_rows fb 0 a \<and> fb_rows down b (fb_nRows fb) = fb_rows fb b (fb_nRows fb)"
proof -
  have outside: "fb_rows x 0 a = fb_rows fb 0 a \<and> fb_rows x b (fb_nRows fb) = fb_rows fb b (fb_nRows fb)"
    if "same_ring fb x" for x
  proof -
    have "lrow x pY = lrow fb pY" if "0 \<le> pY" "fb_margin fb" "pY < fb_marginTop fb \<or> fb_marginBottom fb \<le> pY" for pY
      using same_ring_outside [OF \<open>same_ring fb x\<close>] that by simp
    then show ?thesis
      using assms(1) unfolding a_def b_def scroll_top_def scroll_bottom_def fb_wf_def fb_rows_def
      by (auto split: if_splits)
  qed
  have "fb_rows up (scroll_top up) (b - n) = fb_rows fb (scroll_top up + n) b"
    using fb_rows_shift [of "scroll_top up" "b - n" up fb n] scrollUp_lrow [OF assms(1,2)]
    by (simp add: up_def b_def)
  moreover have "fb_rows down (scroll_top down + n) b = fb_rows fb (scroll_top down) (b - n)"
    using fb_rows_shift [of "scroll_top down + n" b down fb "- n"] scrollDown_lrow [OF assms(1,2)]
    by (simp add: down_def b_def)
  ultimately show ?thesis
    using outside [of up] outside [of down] scrollUp_fields [OF assms(1)] scrollDown_fields [OF assms(1)]
      scrollUp_wf [OF assms(1,2)] scrollDown_wf [OF assms(1,2)]
    by (simp add: up_def down_def)
qed

lemma scroll_rows_witness:
  "fb_rows (scrollUp 1 numbered_rows) (-2) 1 = fb_rows numbered_rows (-1) 2 \<and>
    fb_rows (scrollDown 1 numbered_rows) 1 2 = fb_rows numbered_rows 0 1"
  using scroll_rows [OF numbered_rows_wf, of 1]
    scrollUp_fields [OF numbered_rows_wf, of 1] scrollDown_fields [OF numbered_rows_wf, of 1]
  by (simp add: scroll_top_def scroll_bottom_def same_ring_def)

text \<open>
  Margins keep the text: setting and resetting them does not panic, leaves a well-formed buffer, and
  every row of the screen and of the history is what it was.
\<close>

theorem margins_keep_rows:
  assumes "fb_wf fb" and "0 \<le> t" and "t < b" and "b \<le> fb_nRows fb"
  shows "\<exists>fb1 fb2.
    setMargins t b fb = Some fb1 \<and> fb_wf fb1 \<and>
    fb_margin fb1 \<and> fb_marginTop fb1 = t \<and> fb_marginBottom fb1 = b \<and>
    resetMargins fb = Some (fb2, 0, fb_nRows fb) \<and> fb_wf fb2 \<and> \<not> fb_margin fb2 \<and>
    fb_rows fb1 (- fb_historyRows fb) (fb_nRows fb) = fb_rows fb (- fb_historyRows fb) (fb_nRows fb) \<and>
    fb_rows fb2 (- fb_historyRows fb) (fb_nRows fb) = fb_rows fb (- fb_historyRows fb) (fb_nRows fb)"
proof -
  obtain u where u: "unwrapCellStorage fb = Some u" "fb_wf u"
    "u = fb\<lparr>fb_cells := fb_cells u, fb_scrollHead := fb_marginTop fb\<rparr>"
    "\<And>pY. - fb_historyRows fb \<le> pY \<Longrightarrow> pY < fb_nRows fb \<Longrightarrow> lrow u pY = lrow fb pY"
    using unwrap_rows [OF assms(1)] by blast
  have f: "fb_scrollHead u = fb_marginTop u" "fb_nRows u = fb_nRows fb" "fb_saveLines u = fb_saveLines fb"
    "fb_historyRows u = fb_historyRows fb"
    using u(3) by (metis framebuffer.select_convs framebuffer.surjective framebuffer.update_convs)+
  have w: "0 < fb_nRows fb" "0 \<le> fb_saveLines fb" using assms(1) by (simp_all add: fb_wf_def)
  note set = lrow_margins [OF u(2) f(1) refl, of t b True]
    and reset = lrow_margins [OF u(2) f(1) refl, of 0 "fb_nRows u + fb_saveLines u" False]
  show ?thesis
    using set reset assms(2-4) w
    by (auto simp: setMargins_def resetMargins_def u(1,4) f(2-4) intro!: fb_rows_eq)
qed

lemma margins_keep_rows_witness:
  "\<exists>fb1 fb2. setMargins 0 1 numbered_rows = Some fb1 \<and> resetMargins numbered_rows = Some (fb2, 0, 2) \<and>
    fb_rows fb1 (-1) 2 = fb_rows numbered_rows (-1) 2 \<and> fb_rows fb2 (-1) 2 = fb_rows numbered_rows (-1) 2"
  using margins_keep_rows [OF numbered_rows_wf, of 0 1] by auto

text \<open>
  C27. A new size keeps what fits: it does not panic and leaves a well-formed buffer without margins; the
  rows of the history and of the screen that both sizes have are cut or filled with empty cells at
  the right, the new rows at the bottom are empty, and the history is as long as before.
\<close>

theorem resize_keeps_rows:
  assumes "fb_wf fb" and "0 < c" and "0 < r"
  shows "\<exists>fb'. fb_resize c r fb = Some (fb', 0, r) \<and> fb_wf fb' \<and> fb_nCols fb' = c \<and> fb_nRows fb' = r \<and>
    \<not> fb_margin fb' \<and> fb_historyRows fb' = fb_historyRows fb \<and>
    fb_rows fb' (- fb_historyRows fb) (min (fb_nRows fb) r) =
      map (fit_row c) (fb_rows fb (- fb_historyRows fb) (min (fb_nRows fb) r)) \<and>
    fb_rows fb' (fb_nRows fb) r = replicate (nat (r - fb_nRows fb)) (replicate (nat c) Cell0)"
  using fb_resize_rows [OF assms] by blast

lemma resize_keeps_rows_witness:
  "\<exists>fb'. fb_resize 3 4 numbered_rows = Some (fb', 0, 4) \<and>
    fb_rows fb' (-1) 2 = map (fit_row 3) (fb_rows numbered_rows (-1) 2) \<and>
    fb_rows fb' 2 4 = replicate 2 (replicate 3 Cell0)"
  using resize_keeps_rows [OF numbered_rows_wf, of 3 4] by (auto simp: numeral_eq_Suc)

end
