(* ===== verification/EmulatorInv.thy ===== *)
theory EmulatorInv
  imports FramebufferProps Handlers
begin

text \<open>
  The invariant of the emulator without left and right margins: the frame buffers are well formed, the
  margins and sizes that are kept twice agree, and cursor, tab stops, character sets and saved cursors
  are in range. Operations that only write cells share the interface \<open>cell_writer\<close>.
\<close>

section \<open>Operations that only write cells\<close>

text \<open>\<open>same_layout fb x\<close>: \<open>x\<close> is \<open>fb\<close> with other cells, damage and selection.\<close>

definition layout :: "framebuffer \<Rightarrow> framebuffer" where
  "layout fb = fb\<lparr>fb_cells := [], fb_damage := \<lparr>dm_start = 0, dm_end = 0, dm_totalCells = 0\<rparr>,
     fb_selection := rect0\<rparr>"

definition same_layout :: "framebuffer \<Rightarrow> framebuffer \<Rightarrow> bool" where
  "same_layout fb x \<longleftrightarrow> length (fb_cells x) = length (fb_cells fb) \<and> layout x = layout fb"

lemma same_layout_refl [simp]: "same_layout fb fb"
  by (simp add: same_layout_def)

lemma same_layout_fields:
  assumes "same_layout fb x"
  shows "fb_nCols x = fb_nCols fb" "fb_nRows x = fb_nRows fb" "fb_saveLines x = fb_saveLines fb"
    "fb_marginTop x = fb_marginTop fb" "fb_marginBottom x = fb_marginBottom fb" "fb_margin x = fb_margin fb"
    "fb_scrollHead x = fb_scrollHead fb" "fb_historyRows x = fb_historyRows fb"
    "fb_viewOffset x = fb_viewOffset fb" "fb_kittyKbd x = fb_kittyKbd fb" "fb_cursor x = fb_cursor fb"
    "length (fb_cells x) = length (fb_cells fb)"
  using assms by (cases x, cases fb, simp add: same_layout_def layout_def)+

lemma same_layout_trans: "same_layout fb x \<Longrightarrow> same_layout x y \<Longrightarrow> same_layout fb y"
  by (simp add: same_layout_def)

lemma same_layout_wf: "same_layout fb x \<Longrightarrow> fb_wf x = fb_wf fb"
  by (simp add: fb_wf_def same_layout_fields)

lemma same_layout_update:
  "same_layout fb x \<Longrightarrow> length cs = length (fb_cells fb) \<Longrightarrow> same_layout fb (x\<lparr>fb_cells := cs\<rparr>)"
  "same_layout fb x \<Longrightarrow> same_layout fb (add_damage s e x)"
  "same_layout fb x \<Longrightarrow> same_layout fb (invalidateSelection r x)"
  by (simp_all add: same_layout_def layout_def add_damage_def invalidateSelection_def clearSelection_def)

text \<open>The interface of these operations: where they may write, and that nothing else changes.\<close>

locale cell_writer =
  fixes valid :: "'a \<Rightarrow> framebuffer \<Rightarrow> bool"
    and apply_op :: "'a \<Rightarrow> framebuffer \<Rightarrow> framebuffer option"
  assumes valid_layout: "same_layout fb x \<Longrightarrow> valid a x = valid a fb"
    and writes: "fb_wf fb \<Longrightarrow> fb_viewOffset fb = 0 \<Longrightarrow> valid a fb \<Longrightarrow> ok (apply_op a fb) (same_layout fb)"
begin

lemma writes_after:
  assumes "fb_wf fb" and "fb_viewOffset fb = 0" and "valid a fb" and "same_layout fb x"
  shows "ok (apply_op a x) (same_layout fb)"
proof (rule ok_mono)
  show "ok (apply_op a x) (same_layout x)"
    using assms by (intro writes) (simp_all add: same_layout_wf same_layout_fields valid_layout)
qed (use assms(4) same_layout_trans in blast)

lemma writes_all:
  assumes "fb_wf fb" and "fb_viewOffset fb = 0" and "\<And>a. a \<in> set ops \<Longrightarrow> valid a fb" and "same_layout fb x"
  shows "ok (for_list ops apply_op x) (same_layout fb)"
  using assms(3,4)
proof (induction ops arbitrary: x)
  case (Cons a ops)
  have "ok (apply_op a x) (same_layout fb)" using assms(1,2) Cons.prems by (intro writes_after) auto
  then show ?case using Cons by (auto simp: ok_bind intro: ok_mono)
qed simp

end

definition in_row :: "framebuffer \<Rightarrow> int \<Rightarrow> int \<Rightarrow> int \<Rightarrow> bool" where
  "in_row fb pY pX n \<longleftrightarrow>
     0 \<le> pY \<and> pY < fb_nRows fb \<and> 0 \<le> n \<and> (n \<noteq> 0 \<longrightarrow> 0 \<le> pX \<and> pX + n \<le> fb_nCols fb)"

lemma in_row_layout: "same_layout fb x \<Longrightarrow> in_row x pY pX n = in_row fb pY pX n"
  by (simp add: in_row_def same_layout_fields)

lemma in_row_idx:
  assumes "fb_wf fb" and "fb_viewOffset fb = 0" and "in_row fb pY pX n" and "n \<noteq> 0"
  shows "0 \<le> getIdx pY pX fb" "getIdx pY pX fb + n \<le> int (length (fb_cells fb))"
proof -
  have "- fb_historyRows fb \<le> pY" "pY < fb_nRows fb"
    using assms(1,3) by (simp_all add: in_row_def fb_wf_def)
  from wf_block [OF assms(1) this]
  show "0 \<le> getIdx pY pX fb" "getIdx pY pX fb + n \<le> int (length (fb_cells fb))"
    using assms(2-4) by (simp_all add: getIdx_def getPhysRowIdx_def in_row_def)
qed

lemma ok_slice [ok_rules]:
  "0 \<le> i \<Longrightarrow> i \<le> j \<Longrightarrow> j \<le> int (length xs) \<Longrightarrow> ok (slice xs i j) Q = Q (drop (nat i) (take (nat j) xs))"
  by (simp add: slice_def)

lemma ok_copy_into:
  "0 \<le> i \<Longrightarrow> i \<le> int (length xs) \<Longrightarrow>
    (\<And>zs. length zs = length xs \<Longrightarrow> Q zs) \<Longrightarrow> ok (copy_into xs i ys) Q"
  by (simp add: copy_into_def)

lemma getCellPtr_writes:
  assumes "fb_wf fb" and "fb_viewOffset fb = 0" and "in_row fb pY pX 1"
  shows "ok (getCellPtr pY pX f fb) (same_layout fb)"
proof -
  let ?fb = "invalidateSelection (NewRect4 pX pY (pX + 1) pY) (add_damage (getIdx pY pX fb) (getIdx pY pX fb + 1) fb)"
  have l: "same_layout fb ?fb" by (simp add: same_layout_update)
  show ?thesis
    using in_row_idx [OF assms] same_layout_fields(12) [OF l]
    by (simp add: getCellPtr_def Let_def ok_rules same_layout_update(1) [OF l])
qed

lemma eraseInRow_writes:
  assumes "fb_wf fb" and "fb_viewOffset fb = 0" and "in_row fb pY pX n"
  shows "ok (eraseInRow pY pX n attrs fb) (same_layout fb)"
proof (cases "n = 0")
  case False
  have n: "0 \<le> n" using assms(3) by (simp add: in_row_def)
  show ?thesis
    using in_row_idx [OF assms False] n False
    by (auto simp: eraseInRow_def eraseRange_def Let_def ok_rules intro!: ok_copy_into same_layout_update)
qed (simp add: eraseInRow_def)

lemma moveInRow_writes:
  assumes "fb_wf fb" and "fb_viewOffset fb = 0" and "in_row fb pY d n" and "in_row fb pY s n"
  shows "ok (moveInRow pY d s n fb) (same_layout fb)"
proof (cases "n = 0")
  case False
  have n: "0 \<le> n" using assms(3) by (simp add: in_row_def)
  show ?thesis
    using in_row_idx [OF assms(1-3) False] in_row_idx [OF assms(1,2,4) False] n False
    by (auto simp: moveInRow_def moveCells_def Let_def ok_rules intro!: ok_copy_into same_layout_update)
qed (simp add: moveInRow_def)

lemma copyRow_writes:
  assumes "fb_wf fb" and "fb_viewOffset fb = 0" and "in_row fb d pX n" and "in_row fb s pX n"
  shows "ok (fb_copyRow d s pX n fb) (same_layout fb)"
proof (cases "n = 0")
  case False
  have n: "0 \<le> n" using assms(3) by (simp add: in_row_def)
  show ?thesis
    using in_row_idx [OF assms(1-3) False] in_row_idx [OF assms(1,2,4) False] n False
    by (auto simp: fb_copyRow_def copyCells_def Let_def ok_rules intro!: ok_copy_into same_layout_update)
qed (simp add: fb_copyRow_def)

interpretation cell: cell_writer "\<lambda>(pY, pX, f) fb. in_row fb pY pX 1" "\<lambda>(pY, pX, f). getCellPtr pY pX f"
  by unfold_locales (auto simp: in_row_layout intro: getCellPtr_writes)

interpretation erase: cell_writer "\<lambda>(pY, pX, n, attrs) fb. in_row fb pY pX n"
  "\<lambda>(pY, pX, n, attrs). eraseInRow pY pX n attrs"
  by unfold_locales (auto simp: in_row_layout intro: eraseInRow_writes)

interpretation move: cell_writer "\<lambda>(pY, d, s, n) fb. in_row fb pY d n \<and> in_row fb pY s n"
  "\<lambda>(pY, d, s, n). moveInRow pY d s n"
  by unfold_locales (auto simp: in_row_layout intro: moveInRow_writes)

interpretation copy: cell_writer "\<lambda>(d, s, pX, n) fb. in_row fb d pX n \<and> in_row fb s pX n"
  "\<lambda>(d, s, pX, n). fb_copyRow d s pX n"
  by unfold_locales (auto simp: in_row_layout intro: copyRow_writes)

lemma cf_update [simp]:
  "cf (emu\<lparr>em_posX := a\<rparr>) = cf emu" "cf (emu\<lparr>em_posY := a\<rparr>) = cf emu" "cf (emu\<lparr>em_lastCol := b\<rparr>) = cf emu"
  "cf (emu\<lparr>em_tabStops := ts\<rparr>) = cf emu" "cf (emu\<lparr>em_attrs := c\<rparr>) = cf emu"
  "cf (emu\<lparr>em_charsetState := cs\<rparr>) = cf emu" "cf (emu\<lparr>em_md := m\<rparr>) = cf emu" "cf (set_modes f emu) = cf emu"
  "cf (emu\<lparr>em_links := l\<rparr>) = cf emu" "cf (emu\<lparr>em_fg := k\<rparr>) = cf emu" "cf (emu\<lparr>em_bg := k\<rparr>) = cf emu"
  "cf (emu\<lparr>em_marginTop := a\<rparr>) = cf emu" "cf (emu\<lparr>em_marginBottom := a\<rparr>) = cf emu"
  "cf (emu\<lparr>em_savedCursor_SCO := s\<rparr>) = cf emu" "cf (emu\<lparr>em_savedCursor_DEC_pri := d\<rparr>) = cf emu"
  "cf (emu\<lparr>em_savedCursor_DEC_alt := d\<rparr>) = cf emu" "cf (emu\<lparr>em_savedCursor_DEC := p\<rparr>) = cf emu"
  "cf (emu\<lparr>em_mouseTrk := t\<rparr>) = cf emu" "cf (emu\<lparr>em_hMargin := a\<rparr>) = cf emu" "cf (emu\<lparr>em_nColsEff := a\<rparr>) = cf emu"
  "cf (emu\<lparr>em_parser := pa\<rparr>) = cf emu" "cf (emu\<lparr>em_modifyOtherKeys := a\<rparr>) = cf emu"
  "cf (emu\<lparr>em_windowTitle := w\<rparr>) = cf emu" "cf (emu\<lparr>em_iconLabel := w\<rparr>) = cf emu"
  "cf (emu\<lparr>em_windowTitleStack := ws\<rparr>) = cf emu" "cf (emu\<lparr>em_bellCount := a\<rparr>) = cf emu"
  "cf (emu\<lparr>em_terminalToHost := w\<rparr>) = cf emu" "cf (emu\<lparr>em_selectionStore := store\<rparr>) = cf emu"
  "cf (emu\<lparr>em_selectionData := w\<rparr>) = cf emu" "cf (emu\<lparr>em_user := u\<rparr>) = cf emu"
  by (simp_all add: cf_def set_modes_def split: screen.split)

lemma set_modes_fields [simp]:
  "em_posX (set_modes f emu) = em_posX emu" "em_posY (set_modes f emu) = em_posY emu"
  "em_nCols (set_modes f emu) = em_nCols emu" "em_nRows (set_modes f emu) = em_nRows emu"
  "em_marginTop (set_modes f emu) = em_marginTop emu" "em_marginBottom (set_modes f emu) = em_marginBottom emu"
  "em_hMargin (set_modes f emu) = em_hMargin emu" "em_nColsEff (set_modes f emu) = em_nColsEff emu"
  "em_tabStops (set_modes f emu) = em_tabStops emu" "em_charsetState (set_modes f emu) = em_charsetState emu"
  "em_cf (set_modes f emu) = em_cf emu" "em_frame_pri (set_modes f emu) = em_frame_pri emu"
  "em_savedCursor_DEC_pri (set_modes f emu) = em_savedCursor_DEC_pri emu"
  "em_savedCursor_DEC_alt (set_modes f emu) = em_savedCursor_DEC_alt emu"
  "em_savedCursor_SCO (set_modes f emu) = em_savedCursor_SCO emu"
  "em_lastCol (set_modes f emu) = em_lastCol emu" "em_attrs (set_modes f emu) = em_attrs emu"
  "em_md (set_modes f emu) = f (em_md emu)"
  by (simp_all add: set_modes_def)

lemma set_cf_fields [simp]:
  "em_posX (set_cf fb emu) = em_posX emu" "em_posY (set_cf fb emu) = em_posY emu"
  "em_nCols (set_cf fb emu) = em_nCols emu" "em_nRows (set_cf fb emu) = em_nRows emu"
  "em_marginTop (set_cf fb emu) = em_marginTop emu" "em_marginBottom (set_cf fb emu) = em_marginBottom emu"
  "em_hMargin (set_cf fb emu) = em_hMargin emu" "em_nColsEff (set_cf fb emu) = em_nColsEff emu"
  "em_tabStops (set_cf fb emu) = em_tabStops emu" "em_charsetState (set_cf fb emu) = em_charsetState emu"
  "em_cf (set_cf fb emu) = em_cf emu" "em_savedCursor_DEC_pri (set_cf fb emu) = em_savedCursor_DEC_pri emu"
  "em_savedCursor_DEC_alt (set_cf fb emu) = em_savedCursor_DEC_alt emu"
  "em_savedCursor_SCO (set_cf fb emu) = em_savedCursor_SCO emu"
  "em_lastCol (set_cf fb emu) = em_lastCol emu" "em_attrs (set_cf fb emu) = em_attrs emu"
  "em_md (set_cf fb emu) = em_md emu" "cf (set_cf fb emu) = fb" "set_cf fb' (set_cf fb emu) = set_cf fb' emu"
  "set_cf (cf emu) emu = emu"
  "em_frame_pri (set_cf fb emu) = (if em_cf emu = Pri then fb else em_frame_pri emu)"
  by (simp_all add: set_cf_def cf_def split: screen.split)

section \<open>The invariant of the emulator\<close>

definition charset_ok :: "charsetState \<Rightarrow> bool" where
  "charset_ok cs \<longleftrightarrow> length (cs_g cs) = 4 \<and> 0 \<le> cs_gl cs \<and> cs_gl cs < 4 \<and> 0 \<le> cs_gr cs \<and> cs_gr cs < 4 \<and>
     0 \<le> cs_ss cs \<and> cs_ss cs < 4"

definition kitty_ok :: "framebuffer \<Rightarrow> bool" where
  "kitty_ok fb \<longleftrightarrow> st_max (fb_kittyKbd fb) = KITTY_KBD_STACK_MAX \<and> st_data (fb_kittyKbd fb) \<noteq> [] \<and>
     int (length (st_data (fb_kittyKbd fb))) \<le> KITTY_KBD_STACK_MAX"

definition frame_ok :: "framebuffer \<Rightarrow> int \<Rightarrow> int \<Rightarrow> int \<Rightarrow> int \<Rightarrow> bool" where
  "frame_ok fb nCols nRows mt mb \<longleftrightarrow> fb_wf fb \<and> kitty_ok fb \<and> fb_viewOffset fb = 0 \<and> fb_nCols fb = nCols \<and>
     fb_nRows fb = nRows \<and> fb_marginTop fb = mt \<and> mb = (if fb_margin fb then fb_marginBottom fb else nRows)"

definition saved_ok :: "savedCursor_DEC \<Rightarrow> bool" where
  "saved_ok sd \<longleftrightarrow> charset_ok (sd_charsetState sd) \<and> sd_originMode sd = OriginMode_Absolute \<and>
     0 \<le> sc_posX (sd_SCO sd) \<and> 0 \<le> sc_posY (sd_SCO sd)"

text \<open>Without left and right margins and with the origin at the top left corner.\<close>

definition plain_mode :: "emulator \<Rightarrow> bool" where
  "plain_mode emu \<longleftrightarrow> em_hMargin emu = 0 \<and> em_nColsEff emu = em_nCols emu \<and>
     \<not> md_horizMarginMode (em_md emu) \<and> md_originMode (em_md emu) = OriginMode_Absolute"

definition cursor_ok :: "emulator \<Rightarrow> bool" where
  "cursor_ok emu \<longleftrightarrow> 0 \<le> em_posX emu \<and> em_posX emu < em_nCols emu \<and> 0 \<le> em_posY emu \<and> em_posY emu < em_nRows emu \<and>
     (\<forall>x \<in> set (em_tabStops emu). 0 \<le> x \<and> x < em_nCols emu) \<and>
     0 \<le> sc_posX (em_savedCursor_SCO emu) \<and> 0 \<le> sc_posY (em_savedCursor_SCO emu)"

definition emu_inv :: "emulator \<Rightarrow> bool" where
  "emu_inv emu \<longleftrightarrow>
     frame_ok (cf emu) (em_nCols emu) (em_nRows emu) (em_marginTop emu) (em_marginBottom emu) \<and>
     fb_wf (em_frame_pri emu) \<and> kitty_ok (em_frame_pri emu) \<and>
     em_cf emu = (if md_altScreenBufferMode (em_md emu) then Alt else Pri) \<and>
     plain_mode emu \<and> cursor_ok emu \<and> charset_ok (em_charsetState emu) \<and>
     saved_ok (em_savedCursor_DEC_pri emu) \<and> saved_ok (em_savedCursor_DEC_alt emu)"

lemma frame_ok_bounds:
  assumes "frame_ok fb nCols nRows mt mb"
  shows "0 < nCols" "0 < nRows" "0 \<le> mt" "mt < mb" "mb \<le> nRows"
  using assms by (auto simp: frame_ok_def fb_wf_def split: if_splits)

lemma frame_ok_layout: "same_layout fb x \<Longrightarrow> frame_ok x nCols nRows mt mb = frame_ok fb nCols nRows mt mb"
  by (simp add: frame_ok_def same_layout_wf same_layout_fields kitty_ok_def)

lemma emu_inv_bounds:
  assumes "emu_inv emu"
  shows "0 < em_nCols emu" "0 < em_nRows emu" "0 \<le> em_marginTop emu"
    "em_marginTop emu < em_marginBottom emu" "em_marginBottom emu \<le> em_nRows emu"
    "em_hMargin emu = 0" "em_nColsEff emu = em_nCols emu" "\<not> md_horizMarginMode (em_md emu)"
    "md_originMode (em_md emu) = OriginMode_Absolute" "0 \<le> em_posX emu" "em_posX emu < em_nCols emu"
    "0 \<le> em_posY emu" "em_posY emu < em_nRows emu"
  using assms frame_ok_bounds [of "cf emu"] by (auto simp: emu_inv_def plain_mode_def cursor_ok_def)

lemma emu_inv_frame:
  assumes "emu_inv emu"
  shows "fb_wf (cf emu)" "fb_viewOffset (cf emu) = 0" "fb_nCols (cf emu) = em_nCols emu"
    "fb_nRows (cf emu) = em_nRows emu" "fb_marginTop (cf emu) = em_marginTop emu"
  using assms by (auto simp: emu_inv_def frame_ok_def)

section \<open>Cursor\<close>

text \<open>Only the cursor and the flag for the last column change.\<close>

lemma emu_inv_cursor:
  assumes "emu_inv emu" and "0 \<le> x" and "x < em_nCols emu" and "0 \<le> y" and "y < em_nRows emu"
  shows "emu_inv (emu\<lparr>em_posX := x, em_posY := y, em_lastCol := b\<rparr>)"
  using assms by (simp add: emu_inv_def cursor_ok_def plain_mode_def)

lemma emu_inv_posX: "emu_inv emu \<Longrightarrow> 0 \<le> x \<Longrightarrow> x < em_nCols emu \<Longrightarrow> emu_inv (emu\<lparr>em_posX := x\<rparr>)"
  by (simp add: emu_inv_def cursor_ok_def plain_mode_def)

lemma emu_inv_posY: "emu_inv emu \<Longrightarrow> 0 \<le> y \<Longrightarrow> y < em_nRows emu \<Longrightarrow> emu_inv (emu\<lparr>em_posY := y\<rparr>)"
  by (simp add: emu_inv_def cursor_ok_def plain_mode_def)

lemma emu_inv_lastCol [simp]: "emu_inv (emu\<lparr>em_lastCol := b\<rparr>) = emu_inv emu"
  by (simp add: emu_inv_def cursor_ok_def plain_mode_def)

lemma cursor_moves_inv:
  assumes "emu_inv emu"
  shows "0 \<le> n \<Longrightarrow> emu_inv (hdl_csi_cuu n emu)" "0 \<le> n \<Longrightarrow> emu_inv (hdl_csi_cud n emu)"
    "0 \<le> n \<Longrightarrow> emu_inv (hdl_csi_cuf n emu)" "0 \<le> n \<Longrightarrow> emu_inv (hdl_csi_cub n emu)"
    "emu_inv (hdl_csi_cup r c emu)" "emu_inv (hdl_csi_vpa r emu)" "emu_inv (hdl_csi_vpr r emu)"
    "emu_inv (hdl_csi_cha c emu)" "emu_inv (hdl_csi_hpa c emu)" "emu_inv (hdl_csi_hpr c emu)"
    "emu_inv (hdl_c0_cr emu)"
  using emu_inv_bounds [OF assms] assms
  by (auto simp: hdl_csi_cuu_def hdl_csi_cud_def hdl_csi_cuf_def hdl_csi_cub_def hdl_csi_cup_def hdl_csi_vpa_def
      hdl_csi_vpr_def hdl_csi_cha_def hdl_csi_hpa_def hdl_csi_hpr_def hdl_c0_cr_def Let_def min_def max_def
      intro!: emu_inv_posX emu_inv_posY)

section \<open>Writing cells of the current screen\<close>

definition cells_only :: "emulator \<Rightarrow> emulator \<Rightarrow> bool" where
  "cells_only emu e \<longleftrightarrow> (\<exists>fb. e = set_cf fb emu \<and> same_layout (cf emu) fb)"

lemma cells_only_refl [simp]: "cells_only emu emu"
  unfolding cells_only_def by (rule exI [of _ "cf emu"]) simp

lemma cells_only_trans: "cells_only emu e \<Longrightarrow> cells_only e e' \<Longrightarrow> cells_only emu e'"
  unfolding cells_only_def using same_layout_trans by fastforce

lemma set_cf_inv:
  assumes "emu_inv emu"
    and "frame_ok fb (em_nCols emu) (em_nRows emu) (em_marginTop emu) (em_marginBottom emu)"
  shows "emu_inv (set_cf fb emu)"
  using assms by (simp add: emu_inv_def plain_mode_def cursor_ok_def) (simp add: frame_ok_def)

lemma emu_inv_frame_ok:
  "emu_inv emu \<Longrightarrow> frame_ok (cf emu) (em_nCols emu) (em_nRows emu) (em_marginTop emu) (em_marginBottom emu)"
  by (simp add: emu_inv_def)

lemma cells_only_inv: "emu_inv emu \<Longrightarrow> cells_only emu e \<Longrightarrow> emu_inv e"
  using set_cf_inv by (auto simp: cells_only_def frame_ok_layout emu_inv_frame_ok)

lemma cells_only_fields:
  assumes "cells_only emu e"
  shows "em_posX e = em_posX emu" "em_posY e = em_posY emu" "em_nCols e = em_nCols emu"
    "em_nRows e = em_nRows emu" "em_marginTop e = em_marginTop emu" "em_marginBottom e = em_marginBottom emu"
    "em_hMargin e = em_hMargin emu" "em_nColsEff e = em_nColsEff emu" "em_md e = em_md emu"
    "em_lastCol e = em_lastCol emu" "em_attrs e = em_attrs emu"
    "same_layout (cf emu) (cf e)"
  using assms by (auto simp: cells_only_def)

lemma on_cf_cells:
  assumes "cells_only emu e" and "ok (f (cf e)) (same_layout (cf e))"
  shows "ok (on_cf f e) (cells_only emu)"
proof -
  have "ok (on_cf f e) (cells_only e)"
    using assms(2) by (auto simp: on_cf_def ok_iff cells_only_def)
  then show ?thesis using cells_only_trans [OF assms(1)] by (rule ok_mono)
qed

lemma in_row_cells:
  assumes "emu_inv emu" and "cells_only emu e" and "0 \<le> pY" and "pY < em_nRows emu" and "0 \<le> n"
    and "n = 0 \<or> 0 \<le> pX \<and> pX + n \<le> em_nCols emu"
  shows "in_row (cf e) pY pX n"
  using assms(3-6) emu_inv_frame [OF cells_only_inv [OF assms(1,2)]] cells_only_fields(3,4) [OF assms(2)]
  by (auto simp: in_row_def)

text \<open>The operations on the cells, anywhere on the screen.\<close>

lemma cell_writes:
  assumes "emu_inv emu" and "cells_only emu e" and "0 \<le> pY" and "pY < em_nRows emu"
  shows "0 \<le> pX \<Longrightarrow> pX < em_nCols emu \<Longrightarrow> ok (on_cf (getCellPtr pY pX f) e) (cells_only emu)"
    and "0 \<le> n \<Longrightarrow> n = 0 \<or> 0 \<le> pX \<and> pX + n \<le> em_nCols emu \<Longrightarrow>
      ok (on_cf (eraseInRow pY pX n attrs) e) (cells_only emu)"
    and "0 \<le> n \<Longrightarrow> n = 0 \<or> 0 \<le> pX \<and> pX + n \<le> em_nCols emu \<and> 0 \<le> s \<and> s + n \<le> em_nCols emu \<Longrightarrow>
      ok (on_cf (moveInRow pY pX s n) e) (cells_only emu)"
    and "0 \<le> sY \<Longrightarrow> sY < em_nRows emu \<Longrightarrow> 0 \<le> n \<Longrightarrow> n = 0 \<or> 0 \<le> pX \<and> pX + n \<le> em_nCols emu \<Longrightarrow>
      ok (on_cf (fb_copyRow pY sY pX n) e) (cells_only emu)"
proof -
  note inv = emu_inv_frame [OF cells_only_inv [OF assms(1,2)]] and row = in_row_cells [OF assms(1,2)]
  show "0 \<le> pX \<Longrightarrow> pX < em_nCols emu \<Longrightarrow> ok (on_cf (getCellPtr pY pX f) e) (cells_only emu)"
    using assms(3,4) by (intro on_cf_cells [OF assms(2)] getCellPtr_writes inv row) auto
  show "0 \<le> n \<Longrightarrow> n = 0 \<or> 0 \<le> pX \<and> pX + n \<le> em_nCols emu \<Longrightarrow>
      ok (on_cf (eraseInRow pY pX n attrs) e) (cells_only emu)"
    using assms(3,4) by (intro on_cf_cells [OF assms(2)] eraseInRow_writes inv row) auto
  show "0 \<le> n \<Longrightarrow> n = 0 \<or> 0 \<le> pX \<and> pX + n \<le> em_nCols emu \<and> 0 \<le> s \<and> s + n \<le> em_nCols emu \<Longrightarrow>
      ok (on_cf (moveInRow pY pX s n) e) (cells_only emu)"
    using assms(3,4) by (intro on_cf_cells [OF assms(2)] moveInRow_writes inv row) auto
  show "0 \<le> sY \<Longrightarrow> sY < em_nRows emu \<Longrightarrow> 0 \<le> n \<Longrightarrow> n = 0 \<or> 0 \<le> pX \<and> pX + n \<le> em_nCols emu \<Longrightarrow>
      ok (on_cf (fb_copyRow pY sY pX n) e) (cells_only emu)"
    using assms(3,4) by (intro on_cf_cells [OF assms(2)] copyRow_writes inv row) auto
qed

lemma eraseRow_cells:
  assumes "emu_inv emu" and "cells_only emu e" and "0 \<le> pY" and "pY < em_nRows emu"
  shows "ok (eraseRow pY e) (cells_only emu)"
  unfolding eraseRow_def
  using cell_writes(2) [OF assms] emu_inv_bounds [OF assms(1)] cells_only_fields [OF assms(2)] by simp

lemma copyRow_cells:
  assumes "emu_inv emu" and "cells_only emu e" and "0 \<le> dY" and "dY < em_nRows emu" and "0 \<le> sY" and "sY < em_nRows emu"
  shows "ok (copyRow dY sY e) (cells_only emu)"
  unfolding copyRow_def
  using cell_writes(4) [OF assms(1-4)] assms(5,6) emu_inv_bounds [OF assms(1)] cells_only_fields [OF assms(2)]
  by simp

lemma eraseRow_loop:
  assumes "emu_inv emu" and "cells_only emu e" and "0 \<le> a" and "b \<le> em_nRows emu"
  shows "ok (for_up a b eraseRow e) (cells_only emu)"
  using assms by (intro for_up_inv eraseRow_cells) auto

lemma eraseRows_cells:
  assumes "emu_inv emu" and "cells_only emu e" and "0 \<le> a" and "a + n \<le> em_nRows emu"
  shows "ok (eraseRows a n e) (cells_only emu)"
  unfolding eraseRows_def using assms by (intro eraseRow_loop)

lemma insertRows_cells:
  assumes "emu_inv emu" and "em_marginTop emu \<le> a" and "0 \<le> n" and "a + n \<le> em_marginBottom emu"
  shows "ok (insertRows a n emu) (cells_only emu)"
proof -
  note b = emu_inv_bounds [OF assms(1)]
  let ?first = "em_marginBottom emu - n - 1"
  let ?stop = "if 0 \<le> ?first then max a 0 else a"
  have "ok (for_list (rev (map (\<lambda>k. ?stop + int k) [0..<nat (?first + 1 - ?stop)]))
      (\<lambda>pY. copyRow (pY + n) pY) emu) (cells_only emu)"
    using assms b by (intro for_list_inv copyRow_cells) auto
  then show ?thesis
    unfolding insertRows_def Let_def ok_bind
    by (rule ok_mono) (use assms b in \<open>auto intro!: eraseRow_loop\<close>)
qed

lemma deleteRows_cells:
  assumes "emu_inv emu" and "em_marginTop emu \<le> a" and "0 \<le> n" and "a + n \<le> em_marginBottom emu"
  shows "ok (deleteRows a n emu) (cells_only emu)"
proof -
  note b = emu_inv_bounds [OF assms(1)]
  have "ok (for_up a (em_marginBottom emu - n) (\<lambda>pY. copyRow pY (pY + n)) emu) (cells_only emu)"
    using assms b by (intro for_up_inv copyRow_cells) auto
  then show ?thesis
    unfolding deleteRows_def ok_bind
    by (rule ok_mono) (use assms b in \<open>auto intro!: eraseRow_loop\<close>)
qed

lemma cols_cells:
  assumes "emu_inv emu" and "0 \<le> a" and "0 \<le> n" and "a + n \<le> em_nCols emu"
  shows "ok (insertCols a n emu) (cells_only emu)" and "ok (deleteCols a n emu) (cells_only emu)"
proof -
  note b = emu_inv_bounds [OF assms(1)]
  show "ok (insertCols a n emu) (cells_only emu)"
    unfolding insertCols_def Let_def
  proof (rule for_up_inv, goal_cases)
    case (2 r e)
    have "ok (on_cf (moveInRow r (a + n) a (em_nColsEff e - a - n)) e) (cells_only emu)"
      using 2 b assms by (intro cell_writes(3)) (auto simp: cells_only_fields)
    then show ?case
      unfolding ok_bind by (rule ok_mono) (use 2 b assms in \<open>auto intro!: cell_writes(2)\<close>)
  qed simp
  show "ok (deleteCols a n emu) (cells_only emu)"
    unfolding deleteCols_def Let_def
  proof (rule for_up_inv, goal_cases)
    case (2 r e)
    have "ok (on_cf (moveInRow r a (a + n) (em_nColsEff e - a - n)) e) (cells_only emu)"
      using 2 b assms by (intro cell_writes(3)) (auto simp: cells_only_fields)
    then show ?case
      unfolding ok_bind
      by (rule ok_mono) (use 2 b assms in \<open>auto intro!: cell_writes(2) simp: cells_only_fields\<close>)
  qed simp
qed

end
