(* ===== verification/HandlerInv.thy ===== *)
theory HandlerInv
  imports EmulatorInv
begin

text \<open>
  The handlers return and keep the invariant of the emulator: \<open>ok m emu_inv\<close> says both.
\<close>

section \<open>Scrolling and editing handlers\<close>

lemma cells_only_ok: "ok m (cells_only emu) \<Longrightarrow> emu_inv emu \<Longrightarrow> ok m emu_inv"
  using cells_only_inv ok_mono by blast

lemma cells_only_lastCol:
  "ok m (cells_only emu) \<Longrightarrow> emu_inv emu \<Longrightarrow> ok (do { e \<leftarrow> m; Some (e\<lparr>em_lastCol := b\<rparr>) }) emu_inv"
  by (auto simp: ok_iff dest: cells_only_inv)

lemma head_kitty: "fb_kittyKbd ((head_up ^^ n) fb) = fb_kittyKbd fb" "fb_kittyKbd ((head_down ^^ n) fb) = fb_kittyKbd fb"
  by (induction n) (simp_all add: head_up_def head_down_def Let_def)

lemma scroll_kitty:
  "fb_kittyKbd (scrollUp n fb) = fb_kittyKbd fb" "fb_kittyKbd (scrollDown n fb) = fb_kittyKbd fb"
  by (simp_all add: scrollUp_def scrollDown_def Let_def damage_scrolled_def add_damage_def head_kitty
      vscrollSelection_def move_selection_def clearSelection_def)

lemma scroll_frame_ok:
  assumes "frame_ok fb c r t b" and "0 \<le> n"
  shows "frame_ok (scrollUp n fb) c r t b" "frame_ok (scrollDown n fb) c r t b"
proof -
  have wf: "fb_wf fb" using assms(1) by (simp add: frame_ok_def)
  show "frame_ok (scrollUp n fb) c r t b" "frame_ok (scrollDown n fb) c r t b"
    using assms scrollUp_fields(1) [OF wf, of n] scrollDown_fields(1) [OF wf, of n]
    by (simp_all add: frame_ok_def kitty_ok_def scroll_kitty scrollUp_wf scrollDown_wf same_ring_def)
qed

lemma scroll_inv:
  assumes "emu_inv emu" and "0 \<le> n"
  shows "emu_inv (set_cf (scrollUp n (cf emu)) emu)" "emu_inv (set_cf (scrollDown n (cf emu)) emu)"
  using set_cf_inv [OF assms(1)] scroll_frame_ok [OF emu_inv_frame_ok [OF assms(1)] assms(2)] by auto

lemma scroll_total:
  assumes "emu_inv emu" and "0 \<le> n" and "n \<le> em_marginBottom emu - em_marginTop emu"
  shows "ok (hdl_csi_su n emu) (\<lambda>e. emu_inv e \<and> em_posX e = em_posX emu \<and> em_posY e = em_posY emu)"
    "ok (hdl_csi_sd n emu) (\<lambda>e. emu_inv e \<and> em_posX e = em_posX emu \<and> em_posY e = em_posY emu)"
proof -
  note b = emu_inv_bounds [OF assms(1)] and s = scroll_inv [OF assms(1,2)]
  have "ok (eraseRows (em_marginBottom emu - n) n (set_cf (scrollUp n (cf emu)) emu))
      (cells_only (set_cf (scrollUp n (cf emu)) emu))"
    using b assms(2,3) by (intro eraseRows_cells s) auto
  moreover have "ok (eraseRows (em_marginTop emu) n (set_cf (scrollDown n (cf emu)) emu))
      (cells_only (set_cf (scrollDown n (cf emu)) emu))"
    using b assms(2,3) by (intro eraseRows_cells s) auto
  ultimately show "ok (hdl_csi_su n emu) (\<lambda>e. emu_inv e \<and> em_posX e = em_posX emu \<and> em_posY e = em_posY emu)"
    "ok (hdl_csi_sd n emu) (\<lambda>e. emu_inv e \<and> em_posX e = em_posX emu \<and> em_posY e = em_posY emu)"
    using b(8) cells_only_inv [OF s(1)] cells_only_inv [OF s(2)]
    by (auto simp: hdl_csi_su_def hdl_csi_sd_def ok_iff cells_only_fields)
qed

lemma hdl_esc_ind_total:
  assumes "emu_inv emu"
  shows "ok (hdl_esc_ind emu) (\<lambda>(b, e). emu_inv e \<and> em_posX e = em_posX emu)"
proof -
  have "ok (hdl_csi_su 1 emu) (\<lambda>e. emu_inv e \<and> em_posX e = em_posX emu)"
    using emu_inv_bounds [OF assms] by (intro ok_mono [OF scroll_total(1) [OF assms]]) auto
  then show ?thesis
    using assms emu_inv_bounds [OF assms]
    by (auto simp: hdl_esc_ind_def ok_bind intro!: emu_inv_posY elim: ok_mono)
qed

lemma hdl_c0_lf_total:
  assumes "emu_inv emu"
  shows "ok (hdl_c0_lf emu) emu_inv"
proof -
  have "ok (on_cf (eraseInRow (em_posY e) (em_posX e) (em_nColsEff e - em_posX e) (em_attrs e)) e) emu_inv"
    if "emu_inv e" for e
    using emu_inv_bounds [OF that] by (intro cells_only_ok [OF cell_writes(2) [OF that]] that) auto
  moreover have "ok (hdl_esc_ind emu) (\<lambda>(b, e). emu_inv e)"
    by (rule ok_mono [OF hdl_esc_ind_total [OF assms]]) auto
  ultimately show ?thesis
    unfolding hdl_c0_lf_def by (auto intro!: ok_seq split: if_splits)
qed

lemma hdl_esc_ri_total:
  assumes "emu_inv emu"
  shows "ok (hdl_esc_ri emu) emu_inv"
proof -
  have "ok (hdl_csi_sd 1 emu) emu_inv"
    using emu_inv_bounds [OF assms] by (intro ok_mono [OF scroll_total(2) [OF assms]]) auto
  then show ?thesis
    using assms emu_inv_bounds [OF assms] by (auto simp: hdl_esc_ri_def intro!: emu_inv_posY)
qed

lemma hdl_esc_nel_total: "emu_inv emu \<Longrightarrow> ok (hdl_esc_nel emu) emu_inv"
  using hdl_esc_ind_total by (force simp: hdl_esc_nel_def ok_iff cursor_moves_inv)

lemma normalize_inv: "emu_inv emu \<Longrightarrow> normalizeCursorPos emu = emu\<lparr>em_lastCol := False\<rparr>"
  using emu_inv_bounds [of emu] by (simp add: normalizeCursorPos_def Let_def)

lemma erase_total:
  assumes "emu_inv emu"
  shows "ok (hdl_csi_ed n emu) emu_inv" "ok (hdl_csi_el n emu) emu_inv"
proof -
  let ?e = "emu\<lparr>em_lastCol := False\<rparr>"
  have inv: "emu_inv ?e" using assms by simp
  note b = emu_inv_bounds [OF inv]
  have drop: "emu_inv (set_cf (dropScrollbackHistory (cf ?e)) ?e)"
    using emu_inv_frame_ok [OF inv] by (intro set_cf_inv inv)
      (auto simp: frame_ok_def dropScrollbackHistory_def kitty_ok_def fb_wf_def expose_def)
  have all: "ok (erase_rows_all e) emu_inv" if "emu_inv e" for e
    unfolding erase_rows_all_def by (rule cells_only_ok [OF eraseRow_loop [OF that] that]) auto
  have right: "ok (on_cf (eraseInRow (em_posY ?e) (em_posX ?e) (em_nCols ?e - em_posX ?e) (em_attrs ?e)) ?e)
      (cells_only ?e)"
    and line: "ok (on_cf (eraseInRow (em_posY ?e) 0 (em_nCols ?e) (em_attrs ?e)) ?e) (cells_only ?e)"
    using b by (intro cell_writes(2) [OF inv]; simp)+
  have left: "ok (on_cf (eraseInRow (em_posY e) 0 (em_posX e + 1) (em_attrs e)) e) (cells_only ?e)"
    if "cells_only ?e e" for e
    using b cells_only_fields [OF that] by (intro cell_writes(2) [OF inv that]) auto
  have 0: "ok (do { e \<leftarrow> on_cf (eraseInRow (em_posY ?e) (em_posX ?e) (em_nCols ?e - em_posX ?e) (em_attrs ?e)) ?e;
      for_up (em_posY e + 1) (em_nRows e) eraseRow e }) (cells_only ?e)"
    unfolding ok_bind
    by (rule ok_mono [OF right]) (use b in \<open>auto simp: cells_only_fields intro!: eraseRow_loop [OF inv]\<close>)
  have 1: "ok (do { e \<leftarrow> for_up 0 (em_posY ?e) eraseRow ?e;
      on_cf (eraseInRow (em_posY e) 0 (em_posX e + 1) (em_attrs e)) e }) (cells_only ?e)"
    unfolding ok_bind
    by (rule ok_mono [OF eraseRow_loop [OF inv]]) (use b in \<open>auto intro!: left\<close>)
  show "ok (hdl_csi_ed n emu) emu_inv"
    unfolding hdl_csi_ed_def normalize_inv [OF assms] Let_def
    using cells_only_ok [OF 0 inv] cells_only_ok [OF 1 inv] all [OF drop] all [OF inv] inv by simp
  show "ok (hdl_csi_el n emu) emu_inv"
    unfolding hdl_csi_el_def normalize_inv [OF assms] Let_def
    using cells_only_ok [OF right inv] cells_only_ok [OF left [OF cells_only_refl] inv]
      cells_only_ok [OF line inv] inv by simp
qed

lemma lines_total:
  assumes "emu_inv emu" and "0 \<le> n"
  shows "ok (hdl_csi_il n emu) emu_inv" "ok (hdl_csi_dl n emu) emu_inv"
proof -
  have "ok (insertRows (em_posY emu) (min n (em_marginBottom emu - em_posY emu)) emu) (cells_only emu)"
    "ok (deleteRows (em_posY emu) (min n (em_marginBottom emu - em_posY emu)) emu) (cells_only emu)"
    if "isCursorInsideMargins emu"
    using assms that by (auto simp: isCursorInsideMargins_def intro!: insertRows_cells deleteRows_cells)
  then show "ok (hdl_csi_il n emu) emu_inv" "ok (hdl_csi_dl n emu) emu_inv"
    using assms(1) cells_only_inv [OF assms(1)]
    by (auto simp: hdl_csi_il_def hdl_csi_dl_def ok_iff cursor_moves_inv(11))
qed

lemma columns_total:
  assumes "emu_inv emu" and "0 \<le> n"
  shows "ok (hdl_csi_decic n emu) emu_inv" "ok (hdl_csi_decdc n emu) emu_inv"
    "ok (hdl_csi_ecma48_SL n emu) emu_inv" "ok (hdl_csi_ecma48_SR n emu) emu_inv"
  using emu_inv_bounds [OF assms(1)] assms
  by (auto simp: hdl_csi_decic_def hdl_csi_decdc_def hdl_csi_ecma48_SL_def hdl_csi_ecma48_SR_def
      isCursorInsideMargins_def intro!: cells_only_ok [OF _ assms(1)] cols_cells)

lemma hdl_csi_ech_total:
  assumes "emu_inv emu" and "0 \<le> n"
  shows "ok (hdl_csi_ech n emu) emu_inv"
  unfolding hdl_csi_ech_def Let_def
  using emu_inv_bounds [OF assms(1)] assms
  by (intro cells_only_lastCol cell_writes(2)) auto

lemma hdl_csi_dch_total:
  assumes "emu_inv emu" and "0 \<le> n"
  shows "ok (hdl_csi_dch n emu) emu_inv"
proof -
  note b = emu_inv_bounds [OF assms(1)]
  let ?n = "min n (em_nColsEff emu - em_posX emu)"
  let ?len = "em_nColsEff emu - em_posX emu - ?n"
  have "ok (on_cf (moveInRow (em_posY emu) (em_posX emu) (em_posX emu + ?n) ?len) emu) (cells_only emu)"
    using b assms(2) by (intro cell_writes(3) [OF assms(1)]) auto
  then have "ok (do { e \<leftarrow> on_cf (moveInRow (em_posY emu) (em_posX emu) (em_posX emu + ?n) ?len) emu;
      on_cf (eraseInRow (em_posY emu) (em_posX emu + ?len) ?n (em_attrs e)) e }) (cells_only emu)"
    unfolding ok_bind by (rule ok_mono) (use b assms in \<open>auto intro!: cell_writes(2)\<close>)
  then show ?thesis
    unfolding hdl_csi_dch_def Let_def using assms(1) by (intro cells_only_lastCol) auto
qed

lemma ok_getCell:
  assumes "fb_wf fb" and "fb_viewOffset fb = 0" and "in_row fb pY pX 1" and "\<And>c. Q c"
  shows "ok (getCell pY pX fb) Q"
  using in_row_idx [OF assms(1-3)] assms(4) by (simp add: getCell_def ok_list_at)

lemma hdl_csi_ich_total:
  assumes "emu_inv emu" and "0 \<le> n"
  shows "ok (hdl_csi_ich n emu) (\<lambda>e. emu_inv e \<and> em_posX e = em_posX emu)"
proof -
  note b = emu_inv_bounds [OF assms(1)] and fr = emu_inv_frame [OF assms(1)]
  let ?y = "em_posY emu" and ?x = "em_posX emu" and ?n = "min n (em_nColsEff emu - em_posX emu)"
  let ?len = "em_nColsEff emu - ?x - ?n"
  have at: "?x + ?n + ?len - 1 = em_nCols emu - 1" using b(7) by simp
  have clear: "ok (on_cf (getCellPtr ?y (em_nCols emu - 1) f) emu) (cells_only emu)" for f
    using b assms(2) by (intro cell_writes(1) [OF assms(1)]) auto
  have set: "ok (if ?len \<noteq> 0 then on_cf (getCellPtr ?y (?x + ?len - 1) f) e else Some e) (cells_only emu)"
    if "cells_only emu e" for e f
    using b assms(2) that by (auto intro!: cell_writes(1) [OF assms(1)])
  have wraps: "ok (if ce_wrap c then do {
      e \<leftarrow> on_cf (getCellPtr ?y (?x + ?n + ?len - 1) (\<lambda>c. c\<lparr>ce_wrap := False\<rparr>)) emu;
      if ?len \<noteq> 0 then on_cf (getCellPtr ?y (?x + ?len - 1) (\<lambda>c. c\<lparr>ce_wrap := True\<rparr>)) e else Some e }
    else Some emu) (cells_only emu)" for c
    unfolding at by (cases "ce_wrap c") (simp_all only: if_True if_False ok_Some cells_only_refl ok_seq [OF clear set])
  have move: "ok (on_cf (moveInRow ?y (?x + ?n) ?x ?len) e) (cells_only emu)" if "cells_only emu e" for e
    using b assms(2) by (intro cell_writes(3) [OF assms(1) that]) auto
  have erase: "ok (on_cf (eraseInRow ?y ?x ?n (em_attrs e')) e) (cells_only emu)" if "cells_only emu e" for e e'
    using b assms(2) by (intro cell_writes(2) [OF assms(1) that]) auto
  have "ok (getCell ?y (?x + ?n + ?len - 1) (cf emu)) (\<lambda>_. True)"
    unfolding at using b fr by (intro ok_getCell) (auto simp: in_row_def)
  then show ?thesis
    unfolding hdl_csi_ich_def Let_def ok_bind [of _ "\<lambda>e. Some (e\<lparr>em_lastCol := False\<rparr>)"] ok_if
    using assms(1) cells_only_inv [OF assms(1)]
    by (auto intro!: ok_mono [OF ok_seq [OF _ ok_seq [OF wraps ok_seq [OF move erase]]]]
        simp: cells_only_fields)
qed

section \<open>Printing\<close>

lemma lookupCharset_total:
  assumes "emu_inv emu"
  shows "ok (lookupCharset p emu) (\<lambda>(r, e). emu_inv e)"
proof -
  have cs: "charset_ok (em_charsetState emu)" using assms by (simp add: emu_inv_def)
  then have "ok (lookupCharset p emu) (\<lambda>(r, e). e = emu\<lparr>em_charsetState := em_charsetState emu\<rparr> \<or>
      e = emu\<lparr>em_charsetState := (em_charsetState emu)\<lparr>cs_ss := 0\<rparr>\<rparr>)"
    by (simp add: lookupCharset_def charset_ok_def Let_def ok_rules)
  moreover have "charset_ok ((em_charsetState emu)\<lparr>cs_ss := 0\<rparr>)" using cs by (simp add: charset_ok_def)
  moreover have "emu_inv (emu\<lparr>em_charsetState := c\<rparr>)" if "charset_ok c" for c
    using assms that by (simp add: emu_inv_def plain_mode_def cursor_ok_def)
  ultimately show ?thesis using cs assms by (auto elim!: ok_mono)
qed

lemma wrap_line_total:
  assumes "emu_inv emu"
  shows "ok (wrap_line w emu) emu_inv"
proof -
  note b = emu_inv_bounds [OF assms]
  have "ok (hdl_c0_lf (hdl_c0_cr e)) emu_inv" if "cells_only emu e" for e
    using hdl_c0_lf_total cursor_moves_inv(11) cells_only_inv [OF assms that] by blast
  then show ?thesis
    unfolding wrap_line_def ok_if
    using assms b by (auto intro!: ok_seq [OF cell_writes(1) [OF assms cells_only_refl]])
qed

lemma print_cell_total:
  assumes "emu_inv emu"
  shows "ok (print_cell w chs emu) emu_inv"
proof -
  note b = emu_inv_bounds [OF assms]
  have wide: "ok (on_cf (getCellPtr (em_posY e) (em_posX e + 1) f) (e\<lparr>em_posX := em_posX e + 1\<rparr>)) emu_inv"
    if "cells_only emu e" "em_posX emu < em_nColsEff emu - 1" for e f
  proof -
    have inv: "emu_inv (e\<lparr>em_posX := em_posX e + 1\<rparr>)"
      using that b cells_only_fields [OF that(1)] cells_only_inv [OF assms that(1)]
      by (intro emu_inv_posX) auto
    show ?thesis
      using emu_inv_bounds [OF inv] by (intro cells_only_ok [OF cell_writes(1) [OF inv]] inv) auto
  qed
  show ?thesis
    unfolding print_cell_def Let_def
    by (rule ok_seq [OF cell_writes(1) [OF assms cells_only_refl]])
      (use b wide cells_only_inv [OF assms] in auto)
qed

lemma hdl_graphemes_total:
  assumes "emu_inv emu"
  shows "ok (hdl_graphemes env chs emu) (\<lambda>(cs, e). emu_inv e)"
proof -
  have map: "ok (if length chs = 1 \<and> cs_vtMode (em_charsetState emu) then do {
      (r, e) \<leftarrow> lookupCharset (hd chs) emu; Some ([r], e) } else Some (chs, emu)) (\<lambda>(cs, e). emu_inv e)"
    using lookupCharset_total [OF assms, of "hd chs"] assms by (auto simp: ok_iff)
  have ich: "ok (if md_insertMode (em_md e) then hdl_csi_ich 1 e else Some e) emu_inv" if "emu_inv e" for e
    using ok_mono [OF hdl_csi_ich_total [OF that, of 1]] that by auto
  have last: "emu_inv (if em_posX e = em_nColsEff e - 1 then e\<lparr>em_lastCol := True\<rparr>
      else e\<lparr>em_posX := em_posX e + 1\<rparr>)" if "emu_inv e" for e
    using that emu_inv_bounds [OF that] by (auto intro!: emu_inv_posX)
  show ?thesis
    unfolding hdl_graphemes_def Let_def
    apply (rule ok_seq [OF map])
    apply clarify
    apply (rule ok_seq [OF wrap_line_total], assumption)
    apply (rule ok_seq [OF ich], assumption)
    apply (rule ok_seq [OF print_cell_total], assumption)
    using last by simp
qed

lemma hdl_csi_rep_total:
  assumes "emu_inv emu"
  shows "ok (hdl_csi_rep env n chs emu) emu_inv"
proof -
  have "ok (for_up 0 n (\<lambda>k (chs, emu). hdl_graphemes env chs emu) (chs, emu)) (\<lambda>(cs, e). emu_inv e)"
    using assms hdl_graphemes_total by (intro for_up_inv) auto
  then show ?thesis by (auto simp: hdl_csi_rep_def ok_iff)
qed

section \<open>Tab stops\<close>

lemma LowerBound_loop_range:
  assumes "0 \<le> low" and "low \<le> high + 1" and "high < n"
  shows "0 \<le> LowerBound_loop arr target low high \<and> LowerBound_loop arr target low high \<le> n"
  using assms
proof (induction arr target low high rule: LowerBound_loop.induct)
  case (1 arr target low high)
  show ?case
  proof (cases "low \<le> high")
    case True
    then show ?thesis
      using 1 by (subst (1 2) LowerBound_loop.simps) (simp add: Let_def)
  next
    case False
    then show ?thesis using 1(3-5) by (subst (1 2) LowerBound_loop.simps) simp
  qed
qed

lemma LowerBound_range: "0 \<le> LowerBound arr target \<and> LowerBound arr target \<le> int (length arr)"
  unfolding LowerBound_def by (rule LowerBound_loop_range) auto

lemma emu_inv_tabs: "emu_inv emu \<Longrightarrow> x \<in> set (em_tabStops emu) \<Longrightarrow> 0 \<le> x \<and> x < em_nCols emu"
  by (simp add: emu_inv_def cursor_ok_def)

lemma tab_loop_pos: "0 \<le> posX \<Longrightarrow> 0 \<le> tab_loop margin posX"
  by (induction margin posX rule: tab_loop.induct)
    (subst tab_loop.simps, auto simp: Let_def go_div_def)

lemma jumpToNextTabStop_total:
  assumes "emu_inv emu"
  shows "ok (jumpToNextTabStop emu) emu_inv"
proof (cases "em_tabStops emu = []")
  case True
  then show ?thesis
    using assms emu_inv_bounds [OF assms] tab_loop_pos [of "em_posX emu"]
    by (auto simp: jumpToNextTabStop_def Let_def min_def intro!: emu_inv_posX)
next
  case False
  then show ?thesis
    using assms emu_inv_bounds [OF assms] LowerBound_range [of "em_tabStops emu" "em_posX emu"]
      emu_inv_tabs [OF assms]
    by (auto simp: jumpToNextTabStop_def Let_def ok_rules intro!: emu_inv_posX)
qed

lemma back_tab_total:
  assumes "emu_inv emu"
  shows "ok (back_tab emu) emu_inv"
  using assms emu_inv_bounds [OF assms] LowerBound_range [of "em_tabStops emu" "em_posX emu"] emu_inv_tabs [OF assms]
  by (auto simp: back_tab_def Let_def ok_rules go_div_def intro!: emu_inv_posX)

lemma tabs_total:
  assumes "emu_inv emu"
  shows "ok (hdl_c0_ht emu) emu_inv" "ok (hdl_csi_cht n emu) emu_inv" "ok (hdl_csi_cbt n emu) emu_inv"
    "ok (hdl_csi_tbc n emu) emu_inv" "emu_inv (hdl_esc_hts emu)"
proof -
  show ht: "ok (hdl_c0_ht emu) emu_inv"
    using assms by (simp add: hdl_c0_ht_def jumpToNextTabStop_total)
  show "ok (hdl_csi_cht n emu) emu_inv"
    using ht assms by (auto simp: hdl_csi_cht_def intro!: for_up_inv jumpToNextTabStop_total)
  show "ok (hdl_csi_cbt n emu) emu_inv"
    using assms by (auto simp: hdl_csi_cbt_def intro!: for_up_inv back_tab_total)
  show "emu_inv (hdl_esc_hts emu)"
    using assms by (simp add: hdl_esc_hts_def emu_inv_def plain_mode_def cursor_ok_def)
  show "ok (hdl_csi_tbc n emu) emu_inv"
  proof -
    let ?idx = "SearchInts (em_tabStops emu) (em_posX emu)"
    have tabs: "emu_inv (emu\<lparr>em_tabStops := ts\<rparr>)" if "set ts \<subseteq> set (em_tabStops emu)" for ts
      using assms that by (auto simp: emu_inv_def plain_mode_def cursor_ok_def)
    have "0 \<le> ?idx" by (simp add: SearchInts_def)
    then show ?thesis
      using assms tabs [of "[]"] tabs [of "take (nat ?idx) (em_tabStops emu) @ drop (Suc (nat ?idx)) (em_tabStops emu)"]
      by (auto simp: hdl_csi_tbc_def Let_def ok_rules RemoveIndex_def nat_add_distrib dest: in_set_takeD in_set_dropD)
  qed
qed

section \<open>Fields that the invariant does not read\<close>

lemma emu_inv_update [simp]:
  "emu_inv (emu\<lparr>em_attrs := c\<rparr>) = emu_inv emu" "emu_inv (emu\<lparr>em_links := l\<rparr>) = emu_inv emu"
  "emu_inv (emu\<lparr>em_fg := k\<rparr>) = emu_inv emu" "emu_inv (emu\<lparr>em_bg := k\<rparr>) = emu_inv emu"
  "emu_inv (emu\<lparr>em_mouseTrk := t\<rparr>) = emu_inv emu" "emu_inv (emu\<lparr>em_parser := pa\<rparr>) = emu_inv emu"
  "emu_inv (emu\<lparr>em_modifyOtherKeys := a\<rparr>) = emu_inv emu" "emu_inv (emu\<lparr>em_windowTitle := w\<rparr>) = emu_inv emu"
  "emu_inv (emu\<lparr>em_iconLabel := w\<rparr>) = emu_inv emu" "emu_inv (emu\<lparr>em_windowTitleStack := ws\<rparr>) = emu_inv emu"
  "emu_inv (emu\<lparr>em_bellCount := a\<rparr>) = emu_inv emu" "emu_inv (emu\<lparr>em_terminalToHost := w\<rparr>) = emu_inv emu"
  "emu_inv (emu\<lparr>em_selectionStore := store\<rparr>) = emu_inv emu" "emu_inv (emu\<lparr>em_selectionData := w\<rparr>) = emu_inv emu"
  "emu_inv (emu\<lparr>em_user := u\<rparr>) = emu_inv emu" "emu_inv (emu\<lparr>em_savedCursor_DEC := p\<rparr>) = emu_inv emu"
  by (simp_all add: emu_inv_def plain_mode_def cursor_ok_def)

lemma emu_inv_modes:
  assumes "emu_inv emu"
    and "\<And>m. md_horizMarginMode (f m) = md_horizMarginMode m" and "\<And>m. md_originMode (f m) = md_originMode m"
    and "\<And>m. md_altScreenBufferMode (f m) = md_altScreenBufferMode m"
  shows "emu_inv (set_modes f emu)"
  using assms by (simp add: emu_inv_def plain_mode_def cursor_ok_def)

lemma emu_inv_charset:
  "emu_inv emu \<Longrightarrow> charset_ok cs \<Longrightarrow> emu_inv (emu\<lparr>em_charsetState := cs\<rparr>)"
  by (simp add: emu_inv_def plain_mode_def cursor_ok_def)

lemma emu_inv_charset_ok: "emu_inv emu \<Longrightarrow> charset_ok (em_charsetState emu)"
  by (simp add: emu_inv_def)

lemma emu_inv_saved:
  "emu_inv emu \<Longrightarrow> saved_ok (em_savedCursor_DEC_pri emu)" "emu_inv emu \<Longrightarrow> saved_ok (em_savedCursor_DEC_alt emu)"
  "emu_inv emu \<Longrightarrow> saved_ok (savedDEC emu)"
  by (simp_all add: emu_inv_def savedDEC_def split: screen.split)

lemma set_savedDEC_inv: "emu_inv emu \<Longrightarrow> saved_ok sd \<Longrightarrow> emu_inv (set_savedDEC sd emu)"
  by (simp add: set_savedDEC_def emu_inv_def plain_mode_def cursor_ok_def split: screen.split)

section \<open>Escape sequences\<close>

lemma charset_reset [simp]: "charset_ok (resetCharsetState cs)"
  by (simp add: charset_ok_def resetCharsetState_def)

lemma put_charset_ok:
  "charset_ok cs \<Longrightarrow> 0 \<le> i \<Longrightarrow> i < 4 \<Longrightarrow> ok (put_charset i c cs) charset_ok"
  by (simp add: put_charset_def charset_ok_def ok_rules)

lemma charset_handlers:
  assumes "emu_inv emu"
  shows "emu_inv (hdl_c0_si emu)" "emu_inv (hdl_c0_so emu)" "emu_inv (hdl_esc_ss2 emu)" "emu_inv (hdl_esc_ss3 emu)"
    "emu_inv (hdl_esc_ls1r emu)" "emu_inv (hdl_esc_ls2 emu)" "emu_inv (hdl_esc_ls2r emu)"
    "emu_inv (hdl_esc_ls3 emu)" "emu_inv (hdl_esc_ls3r emu)" "emu_inv (hdl_esc_docs_utf8 emu)"
    "ok (hdl_esc_docs_iso8859_1 emu) emu_inv" "ok (hdl_vt52_egm emu) emu_inv"
    "0 \<le> i \<Longrightarrow> i < 4 \<Longrightarrow> ok (hdl_esc_dcs i c emu) emu_inv"
proof -
  have cs: "charset_ok (em_charsetState emu)" using assms by (rule emu_inv_charset_ok)
  have set: "emu_inv (set_charset f emu)" if "charset_ok (f (em_charsetState emu))" for f
    using emu_inv_charset [OF assms that] by (simp add: set_charset_def)
  show "emu_inv (hdl_c0_si emu)" "emu_inv (hdl_c0_so emu)" "emu_inv (hdl_esc_ss2 emu)" "emu_inv (hdl_esc_ss3 emu)"
    "emu_inv (hdl_esc_ls1r emu)" "emu_inv (hdl_esc_ls2 emu)" "emu_inv (hdl_esc_ls2r emu)"
    "emu_inv (hdl_esc_ls3 emu)" "emu_inv (hdl_esc_ls3r emu)" "emu_inv (hdl_esc_docs_utf8 emu)"
    unfolding hdl_c0_si_def hdl_c0_so_def hdl_esc_ss2_def hdl_esc_ss3_def hdl_esc_ls1r_def hdl_esc_ls2_def
      hdl_esc_ls2r_def hdl_esc_ls3_def hdl_esc_ls3r_def hdl_esc_docs_utf8_def
    using cs by (auto intro!: set simp: charset_ok_def) (simp_all add: resetCharsetState_def)
  have vt: "charset_ok (cs'\<lparr>cs_vtMode := True\<rparr>)" if "charset_ok cs'" for cs'
    using that by (simp add: charset_ok_def)
  have reset: "ok (put_charset i c (resetCharsetState cs)) charset_ok" if "0 \<le> i" "i < 4" for i c cs
    using that by (intro put_charset_ok) auto
  show "ok (hdl_esc_docs_iso8859_1 emu) emu_inv"
    unfolding hdl_esc_docs_iso8859_1_def Let_def
    by (rule ok_seq [OF reset]) (auto simp: resetCharsetState_def intro!: emu_inv_charset [OF assms] vt)
  show "ok (hdl_vt52_egm emu) emu_inv"
    unfolding hdl_vt52_egm_def Let_def
    by (rule ok_seq [OF reset]) (auto simp: resetCharsetState_def intro!: emu_inv_charset [OF assms])
  show "ok (hdl_esc_dcs i c emu) emu_inv" if "0 \<le> i" "i < 4"
    unfolding hdl_esc_dcs_def
    by (rule ok_seq [OF put_charset_ok [OF cs that]]) (auto intro!: emu_inv_charset [OF assms] vt)
qed

lemma decsc_inv: "emu_inv emu \<Longrightarrow> emu_inv (hdl_esc_decsc emu)"
  unfolding hdl_esc_decsc_def
  using emu_inv_bounds [of emu] emu_inv_charset_ok [of emu]
  by (intro set_savedDEC_inv) (auto simp: saved_ok_def)

lemma normalized_inv:
  assumes "emu_inv emu" and "0 \<le> x" and "0 \<le> y"
  shows "emu_inv (normalizeCursorPos (emu\<lparr>em_posX := x, em_posY := y\<rparr>))"
  using emu_inv_bounds [OF assms(1)] assms
  by (auto simp: normalizeCursorPos_def Let_def intro!: emu_inv_posX emu_inv_posY)

lemma decrc_inv:
  assumes "emu_inv emu"
  shows "emu_inv (hdl_esc_decrc emu)"
proof -
  let ?sd = "savedDEC emu"
  have sd: "saved_ok ?sd" using emu_inv_saved [OF assms] by simp
  let ?n = "normalizeCursorPos (emu\<lparr>em_posX := sc_posX (sd_SCO ?sd), em_posY := sc_posY (sd_SCO ?sd)\<rparr>)"
  have "emu_inv ?n" using sd by (intro normalized_inv [OF assms]) (auto simp: saved_ok_def)
  then have "emu_inv (set_modes (\<lambda>m. m\<lparr>md_originMode := sd_originMode ?sd\<rparr>)
      (?n\<lparr>em_lastCol := sc_lastCol (sd_SCO ?sd), em_attrs := sd_attrs ?sd,
         em_charsetState := sd_charsetState ?sd\<rparr>))" (is "emu_inv ?e")
    using sd by (simp add: emu_inv_def plain_mode_def cursor_ok_def saved_ok_def)
  then have "emu_inv (set_savedDEC (savedDEC_isSet False (savedDEC ?e)) ?e)"
    using emu_inv_saved(3) [of ?e] by (intro set_savedDEC_inv) (auto simp: saved_ok_def savedDEC_isSet_def)
  then show ?thesis
    using assms by (simp add: hdl_esc_decrc_def Let_def)
qed

section \<open>The screen as a whole\<close>

lemma fillCells_writes:
  assumes "fb_wf fb" and "fb_viewOffset fb = 0"
  shows "ok (fillCells ch attrs fb) (same_layout fb)"
  unfolding fillCells_def Let_def
proof (rule for_up_inv, goal_cases)
  case (2 r x)
  note f = same_layout_fields [OF 2(3)]
  have row: "in_row x r 0 (fb_nCols x)"
    using assms 2 f by (auto simp: in_row_def fb_wf_def)
  have "fb_nCols x \<noteq> 0" using assms f by (auto simp: fb_wf_def)
  from in_row_idx [OF _ _ row this] assms f 2(3)
  have idx: "0 \<le> getIdx r 0 x" "getIdx r 0 x + fb_nCols x \<le> int (length (fb_cells x))"
    by (auto simp: same_layout_wf)
  have "ok (for_up (getIdx r 0 x) (getIdx r 0 x + fb_nCols x)
      (\<lambda>k fb. list_put (fb_cells fb) k (attrs\<lparr>ce_contents := utf8 ch\<rparr>) \<bind> (\<lambda>cells. Some (fb\<lparr>fb_cells := cells\<rparr>))) x)
      (same_layout fb)"
  proof (rule for_up_inv, goal_cases)
    case (2 k y)
    then show ?case
      using idx same_layout_fields(12) [OF 2(3)] f(12) by (auto simp: ok_rules intro!: same_layout_update)
  qed (rule 2(3))
  then show ?case by (rule ok_seq) (simp add: same_layout_update)
qed simp

lemma fillScreen_total: "emu_inv emu \<Longrightarrow> ok (fillScreen ch emu) (cells_only emu)"
  unfolding fillScreen_def by (intro on_cf_cells fillCells_writes emu_inv_frame cells_only_refl)

lemma clearScreen_total: "emu_inv emu \<Longrightarrow> ok (clearScreen emu) emu_inv"
  unfolding clearScreen_def
  using emu_inv_bounds [of emu]
  by (intro cells_only_ok [OF fillScreen_total]) (auto intro!: emu_inv_posX emu_inv_posY)

lemma sgr_loop_total:
  assumes "length seps \<le> length ps"
  shows "\<exists>r. sgr_loop ps seps rend = Some r"
  using assms
proof (induction ps seps rend rule: sgr_loop.induct)
  case (2 p ps seps rend)
  have "\<exists>n r. sgr_step (p # ps) seps rend = Some (n, r)"
    using 2(2) by (auto simp: sgr_step_def sgr_style_def list_at_def)
  then obtain n r where s: "sgr_step (p # ps) seps rend = Some (n, r)" by blast
  from 2(1) [OF s refl] 2(2) show ?case by (simp add: sgr_loop.simps s)
qed (simp add: sgr_loop.simps)

lemma hdl_csi_sgr_total: "emu_inv emu \<Longrightarrow> length seps \<le> length ps \<Longrightarrow> ok (hdl_csi_sgr ps seps emu) emu_inv"
  using sgr_loop_total [of seps ps "ce_renditions (em_attrs emu)"] by (auto simp: hdl_csi_sgr_def)

lemma resetAttrs_total: "emu_inv emu \<Longrightarrow> ok (resetAttrs emu) emu_inv"
  unfolding resetAttrs_def Let_def
  by (rule ok_seq [OF hdl_csi_sgr_total]) (auto intro!: emu_inv_modes)

lemma decaln_total: "emu_inv emu \<Longrightarrow> ok (hdl_esc_decaln emu) emu_inv"
  unfolding hdl_esc_decaln_def
  by (rule ok_seq [OF resetAttrs_total], assumption, rule ok_seq [OF fillScreen_total])
    (auto dest: cells_only_inv)

lemma clearSelection_frame_ok: "frame_ok fb c r t b \<Longrightarrow> frame_ok (clearSelection fb) c r t b"
  using frame_ok_layout [of fb "clearSelection fb"]
  by (simp add: same_layout_def layout_def clearSelection_def)

lemma resetScreen_inv:
  assumes "emu_inv emu"
  shows "emu_inv (resetScreen emu)"
proof -
  have cl: "emu_inv (setCompatLevel_emu l e)" if "emu_inv e" for e l
    using that by (auto simp: setCompatLevel_emu_def intro!: emu_inv_modes)
  have modes: "emu_inv (set_modes (\<lambda>m. m\<lparr>md_cursorKeyMode := a, md_keypadMode := b,
      md_originMode := OriginMode_Absolute\<rparr>) e)" if "emu_inv e" for e a b
    using that by (simp add: emu_inv_def plain_mode_def cursor_ok_def)
  have cs: "emu_inv (e\<lparr>em_charsetState := resetCharsetState (em_charsetState e),
      em_savedCursor_SCO := (em_savedCursor_SCO e)\<lparr>sc_isSet := False\<rparr>\<rparr>)" if "emu_inv e" for e
    using that by (simp add: emu_inv_def plain_mode_def cursor_ok_def)
  have dec: "emu_inv (set_savedDEC (savedDEC_isSet False (savedDEC e)) e)" if "emu_inv e" for e
    using that emu_inv_saved(3) [OF that] by (intro set_savedDEC_inv) (auto simp: saved_ok_def savedDEC_isSet_def)
  have tabs: "emu_inv (e\<lparr>em_mouseTrk := t, em_tabStops := []\<rparr>)" if "emu_inv e" for e t
    using that by (simp add: emu_inv_def plain_mode_def cursor_ok_def)
  have sel: "emu_inv (set_cf (clearSelection (cf e)) e)" if "emu_inv e" for e
    using that by (intro set_cf_inv clearSelection_frame_ok emu_inv_frame_ok)
  show ?thesis
    unfolding resetScreen_def Let_def
    by (intro sel tabs dec cs modes cl emu_inv_modes [OF assms]) simp_all
qed

lemma switchColMode_total: "emu_inv emu \<Longrightarrow> ok (switchColMode cm emu) emu_inv"
  unfolding switchColMode_def
  by (auto intro!: ok_seq [OF clearScreen_total] resetScreen_inv emu_inv_modes)

section \<open>Margins and screens\<close>

lemma setMargins_frame_ok:
  assumes "frame_ok fb c r t0 b0" and "0 \<le> t" and "t < b" and "b \<le> r"
  shows "ok (setMargins t b fb) (\<lambda>x. frame_ok x c r t b)"
    and "ok (resetMargins fb) (\<lambda>(x, mt, mb). mt = 0 \<and> mb = r \<and> frame_ok x c r 0 r)"
proof -
  have wf: "fb_wf fb" using assms(1) by (simp add: frame_ok_def)
  obtain u where u: "unwrapCellStorage fb = Some u" "fb_wf u"
    "u = fb\<lparr>fb_cells := fb_cells u, fb_scrollHead := fb_marginTop fb\<rparr>"
    using unwrap_rows [OF wf] by blast
  have f: "fb_scrollHead u = fb_marginTop u" "fb_nRows u = fb_nRows fb" "fb_nCols u = fb_nCols fb"
    "fb_viewOffset u = fb_viewOffset fb" "fb_kittyKbd u = fb_kittyKbd fb"
    using u(3) by (metis framebuffer.select_convs framebuffer.surjective framebuffer.update_convs)+
  have w: "0 < fb_nRows u" "0 \<le> fb_saveLines u" using u(2) by (simp_all add: fb_wf_def)
  note set = lrow_margins(1) [OF u(2) f(1) refl, of t b True]
    and reset = lrow_margins(1) [OF u(2) f(1) refl, of 0 "fb_nRows u + fb_saveLines u" False]
  have x: "fb_viewOffset (expose y) = fb_viewOffset y" "fb_kittyKbd (expose y) = fb_kittyKbd y" for y
    by (simp_all add: expose_def)
  show "ok (setMargins t b fb) (\<lambda>x. frame_ok x c r t b)"
    and "ok (resetMargins fb) (\<lambda>(x, mt, mb). mt = 0 \<and> mb = r \<and> frame_ok x c r 0 r)"
    using set reset assms w f
    by (auto simp: setMargins_def resetMargins_def u(1) frame_ok_def kitty_ok_def x)
qed

lemma fb_resize_frame_ok:
  assumes "fb_wf fb" and "kitty_ok fb" and "0 < c" and "0 < r"
  shows "ok (fb_resize c r fb) (\<lambda>(x, mt, mb). mt = 0 \<and> mb = r \<and> frame_ok x c r 0 r)"
proof -
  obtain x where "fb_resize c r fb = Some (x, 0, r)" "fb_wf x" "fb_nCols x = c" "fb_nRows x = r" "\<not> fb_margin x"
    "fb_kittyKbd x = fb_kittyKbd fb" "fb_viewOffset x = 0" "fb_marginTop x = 0"
    using fb_resize_rows [OF assms(1,3,4)] by blast
  then show ?thesis using assms(2) by (simp add: frame_ok_def kitty_ok_def)
qed

lemma NewFramebuffer3_frame_ok:
  assumes "0 < c" and "0 < r" and "0 \<le> s"
  shows "ok (NewFramebuffer3 c r s) (\<lambda>(x, mt, mb). mt = 0 \<and> mb = r \<and> frame_ok x c r 0 r)"
  using assms mult_nonneg_nonneg [of c "r + s"] mult_left_mono [of "r + SaveLineUpperLimit" "r + s" c]
  by (simp add: NewFramebuffer3_def Push_def NewStack_def make_slice_def frame_ok_def fb_wf_def kitty_ok_def
      KITTY_KBD_STACK_MAX_def not_less) (auto simp: SaveLineUpperLimit_def not_less)

lemma expose_frame_ok: "frame_ok fb c r t b \<Longrightarrow> frame_ok (expose fb) c r t b"
  using frame_ok_layout [of fb "expose fb"] by (simp add: same_layout_def layout_def expose_def)

text \<open>Another current frame buffer, with its margins.\<close>

lemma new_frame_inv:
  assumes "emu_inv emu" and "frame_ok fb (em_nCols emu) (em_nRows emu) mt mb"
  shows "emu_inv ((set_cf fb emu)\<lparr>em_marginTop := mt, em_marginBottom := mb\<rparr>)"
  using assms by (simp add: emu_inv_def plain_mode_def cursor_ok_def) (simp add: frame_ok_def)

lemma set_cf_modes: "set_cf fb (set_modes f emu) = set_modes f (set_cf fb emu)"
  by (simp add: set_cf_def set_modes_def split: screen.split)

lemma clearScreen_modes: "clearScreen (set_modes f emu) = map_option (set_modes f) (clearScreen emu)"
proof -
  let ?home = "\<lambda>e. e\<lparr>em_posX := 0, em_posY := 0, em_lastCol := False\<rparr>"
  have "?home (set_modes f emu) = set_modes f (?home emu)" by (simp add: set_modes_def)
  then show ?thesis
    by (simp add: clearScreen_def fillScreen_def on_cf_def set_cf_modes del: cf_update)
      (cases "fillCells 32 (em_attrs emu) (cf emu)"; simp add: set_cf_modes)
qed

lemma switchScreenBufferMode_total:
  assumes "emu_inv emu"
  shows "ok (switchScreenBufferMode alt emu) emu_inv"
proof -
  note b = emu_inv_bounds [OF assms]
  let ?c = "em_nCols emu" and ?r = "em_nRows emu"
  let ?alt = "\<lambda>b. set_modes (\<lambda>m. m\<lparr>md_altScreenBufferMode := b\<rparr>)"
  let ?new = "\<lambda>x. set_cf (expose x)
    (emu\<lparr>em_frame_alt := x, em_marginTop := 0, em_marginBottom := ?r, em_cf := Alt\<rparr>)"
  have pri: "fb_wf (em_frame_pri emu)" "kitty_ok (em_frame_pri emu)" using assms by (simp_all add: emu_inv_def)
  have new: "emu_inv (?alt True (?new x))" if "frame_ok x ?c ?r 0 ?r" for x
    using assms expose_frame_ok [OF that] by (simp add: emu_inv_def plain_mode_def cursor_ok_def)
  have alt: "ok (clearScreen (?new x) \<bind> (\<lambda>e. Some (?alt True (e\<lparr>em_savedCursor_DEC := Alt\<rparr>)))) emu_inv"
    if "frame_ok x ?c ?r 0 ?r" for x
  proof -
    have "ok (clearScreen (?alt True (?new x))) emu_inv" by (rule clearScreen_total [OF new [OF that]])
    then show ?thesis
      unfolding clearScreen_modes by (auto simp: ok_iff set_modes_def emu_inv_def plain_mode_def cursor_ok_def cf_def)
  qed
  have main: "emu_inv (?alt False (e\<lparr>em_frame_alt := freeCells (em_frame_alt e),
      em_savedCursor_DEC_alt := savedDEC_isSet False (em_savedCursor_DEC_alt e), em_savedCursor_DEC := Pri\<rparr>))"
    if "frame_ok x ?c ?r 0 ?r"
      and "e = set_cf (expose x) (emu\<lparr>em_frame_pri := x, em_marginTop := 0, em_marginBottom := ?r, em_cf := Pri\<rparr>)"
    for x e
    using assms that(2) expose_frame_ok [OF that(1)]
    by (simp add: emu_inv_def plain_mode_def cursor_ok_def cf_def set_cf_def saved_ok_def savedDEC_isSet_def)
      (simp add: frame_ok_def)
  show ?thesis
  proof (cases "md_altScreenBufferMode (em_md emu) = alt")
    case True
    then show ?thesis using assms by (simp add: switchScreenBufferMode_def)
  next
    case False
    have cf: "cf (emu\<lparr>em_frame_alt := x, em_marginTop := mt, em_marginBottom := mb, em_cf := Alt\<rparr>) = x"
      "cf (emu\<lparr>em_frame_pri := x, em_marginTop := mt, em_marginBottom := mb, em_cf := Pri\<rparr>) = x" for x mt mb
      by (simp_all add: cf_def)
    have links: "ok (Some (e\<lparr>em_links := newLinks\<rparr>)) emu_inv" if "emu_inv e" for e using that by simp
    show ?thesis
      unfolding switchScreenBufferMode_def Let_def cf if_not_P [OF False]
      using alt main
      by (rule_tac ok_seq [OF _ links], cases alt)
        (auto intro!: ok_seq [OF NewFramebuffer3_frame_ok [of ?c ?r 0]]
          ok_seq [OF fb_resize_frame_ok [OF pri b(1,2)]] simp: b)
  qed
qed

end
