(* ===== verification/EmulatorRun.thy ===== *)
theory EmulatorRun
  imports HandlerInv
begin

text \<open>
  Every handler in a state that satisfies the invariant: \<open>safe_call\<close> names the calls that return and keep
  it, \<open>resize_safe\<close> the sizes.
\<close>

section \<open>Reset and modes\<close>

lemma resetMargins_inv:
  assumes "emu_inv emu"
  shows "ok (resetMargins (cf emu)) (\<lambda>(x, mt, mb). emu_inv ((set_cf x emu)\<lparr>em_marginTop := mt, em_marginBottom := mb\<rparr>))"
  using emu_inv_frame_ok [OF assms] emu_inv_bounds [OF assms]
  by (intro ok_mono [OF setMargins_frame_ok(2) [of _ _ _ _ _ 0 "em_nRows emu"]]) (auto intro: new_frame_inv [OF assms])

lemma dropScrollbackHistory_frame_ok: "frame_ok fb c r t b \<Longrightarrow> frame_ok (dropScrollbackHistory fb) c r t b"
  unfolding dropScrollbackHistory_def
  by (intro expose_frame_ok) (auto simp: frame_ok_def fb_wf_def kitty_ok_def)

lemma resetTerminal_total:
  assumes "emu_inv emu"
  shows "ok (resetTerminal emu) emu_inv"
proof -
  have reset: "emu_inv (resetWindowTitleStack (resetTitle (resetBell (set_cf (dropScrollbackHistory (cf e)) e))))"
    if "emu_inv e" for e
    using that by (simp add: resetWindowTitleStack_def resetTitle_def resetBell_def emu_inv_modes set_cf_inv
        dropScrollbackHistory_frame_ok emu_inv_frame_ok)
  have last: "emu_inv ((set_modes (\<lambda>m. m\<lparr>md_altSendsEscape := True, md_altScrollMode := False,
       md_horizMarginMode := False\<rparr>) (e\<lparr>em_modifyOtherKeys := 1\<rparr>))\<lparr>em_hMargin := 0, em_nColsEff := em_nCols e\<rparr>)"
    if "emu_inv e" for e
    using that by (simp add: emu_inv_def plain_mode_def cursor_ok_def)
  have start: "emu_inv (resetScreen (emu\<lparr>em_parser := parser_reset (em_parser emu)\<rparr>))"
    using assms by (intro resetScreen_inv) simp
  show ?thesis
    unfolding resetTerminal_def Let_def
    by (rule ok_seq [OF resetAttrs_total [OF start]], rule_tac ok_seq [OF switchColMode_total], assumption,
        rule_tac ok_seq [OF resetMargins_inv [OF reset]], assumption, clarify,
        rule ok_seq [OF clearScreen_total], assumption, rule_tac ok_seq [OF switchScreenBufferMode_total], assumption)
      (use last in simp)
qed

lemma margin_home_inv: "emu_inv emu \<Longrightarrow> emu_inv (margin_home emu)"
  using emu_inv_bounds [of emu] by (auto simp: margin_home_def intro!: emu_inv_posX emu_inv_posY)

lemma set_cf_margins:
  "set_cf x (emu\<lparr>em_marginTop := t, em_marginBottom := d\<rparr>) =
    (set_cf x emu)\<lparr>em_marginTop := t, em_marginBottom := d\<rparr>"
  by (cases emu) (simp add: set_cf_def split: screen.split)

lemma decstbm_total:
  assumes "emu_inv emu"
  shows "ok (hdl_csi_decstbm ps emu) emu_inv"
proof -
  note b = emu_inv_bounds [OF assms] and fr = emu_inv_frame_ok [OF assms]
  have reset: "ok (reset_cf_margins (emu\<lparr>em_marginTop := t, em_marginBottom := d\<rparr>)) emu_inv" for t d
  proof -
    have "ok (resetMargins (cf emu)) (\<lambda>(x, mt, mb).
        emu_inv ((set_cf x (emu\<lparr>em_marginTop := t, em_marginBottom := d\<rparr>))\<lparr>em_marginTop := mt, em_marginBottom := mb\<rparr>))"
      using resetMargins_inv [OF assms] by (rule ok_mono) (auto simp: set_cf_margins)
    then show ?thesis by (auto simp: reset_cf_margins_def ok_iff)
  qed
  from reset [of "em_marginBottom emu" "em_marginTop emu"] have reset0: "ok (reset_cf_margins emu) emu_inv" by simp
  have set: "ok (on_cf (setMargins t d) (emu\<lparr>em_marginTop := t, em_marginBottom := d\<rparr>)) emu_inv"
    if "0 \<le> t" "t < d" "d \<le> em_nRows emu" for t d
  proof -
    have "ok (setMargins t d (cf emu)) (\<lambda>x. emu_inv ((set_cf x emu)\<lparr>em_marginTop := t, em_marginBottom := d\<rparr>))"
      by (rule ok_mono [OF setMargins_frame_ok(1) [OF fr that]]) (rule new_frame_inv [OF assms])
    then show ?thesis
      by (simp add: on_cf_def ok_bind) (auto elim!: ok_mono simp: set_cf_margins)
  qed
  define F where "F = (\<lambda>t d. if d < t + 2 \<or> em_nRows emu < d then Some emu
      else if t \<noteq> em_marginTop emu \<or> d \<noteq> em_marginBottom emu then
        (let emu2 = emu\<lparr>em_marginTop := t, em_marginBottom := d\<rparr>
         in if t = 0 \<and> d = em_nRows emu then reset_cf_margins emu2 else on_cf (setMargins t d) emu2)
      else Some emu)"
  have F: "ok (F t d) emu_inv" if "0 \<le> t" for t d
  proof -
    have "ok (Some emu) emu_inv" using assms by simp
    moreover have "ok (on_cf (setMargins t d) (emu\<lparr>em_marginTop := t, em_marginBottom := d\<rparr>)) emu_inv"
      if "\<not> (d < t + 2 \<or> em_nRows emu < d)"
      using that \<open>0 \<le> t\<close> by (intro set) auto
    ultimately show ?thesis unfolding F_def ok_if Let_def using reset by blast
  qed
  have "hdl_csi_decstbm ps emu = do {
      e \<leftarrow> (if length ps = 0 then
          if em_marginTop emu \<noteq> 0 \<or> em_marginBottom emu \<noteq> em_nRows emu then reset_cf_margins emu else Some emu
        else if length ps = 2 then F (if ps ! 0 > 0 then ps ! 0 - 1 else 0) (ps ! 1)
        else Some emu);
      Some (margin_home e) }"
    by (simp only: hdl_csi_decstbm_def F_def Let_def)
  then show ?thesis
    using F reset0 assms by (auto intro!: ok_seq [where P = emu_inv] simp: margin_home_inv)
qed

section \<open>Other modes and the keyboard protocol\<close>

lemma fold_inv: "P s \<Longrightarrow> (\<And>x s. P s \<Longrightarrow> P (f x s)) \<Longrightarrow> P (fold f xs s)"
  by (induction xs arbitrary: s) auto

lemma sm_rm_inv:
  assumes "emu_inv emu"
  shows "emu_inv (hdl_csi_sm ps emu)" "emu_inv (hdl_csi_rm ps emu)"
  using assms
  by (auto simp: hdl_csi_sm_def hdl_csi_rm_def sm_param_def rm_param_def intro!: fold_inv [of emu_inv] emu_inv_modes)

lemma showStyle_inv: "emu_inv emu \<Longrightarrow> emu_inv (set_showStyle st emu)"
  unfolding set_showStyle_def using emu_inv_frame_ok [of emu]
  by (intro set_cf_inv) (auto simp: frame_ok_def fb_wf_def kitty_ok_def)

lemma decscusr_inv: "emu_inv emu \<Longrightarrow> emu_inv (hdl_csi_decscusr n emu)"
  by (simp add: hdl_csi_decscusr_def showStyle_inv)

lemma setCompatLevel_inv: "emu_inv emu \<Longrightarrow> emu_inv (setCompatLevel_emu cl emu)"
  by (auto simp: setCompatLevel_emu_def intro!: emu_inv_modes)

lemma mouse_inv: "emu_inv emu \<Longrightarrow> emu_inv (set_mouse_mode m emu)" "emu_inv emu \<Longrightarrow> emu_inv (set_mouse_enc e emu)"
  by (simp_all add: set_mouse_mode_def set_mouse_enc_def)

lemma docs_utf8: "emu_inv emu \<Longrightarrow> emu_inv (set_charset resetCharsetState emu)"
  using charset_handlers(10) by (simp add: hdl_esc_docs_utf8_def)

lemma privSM_param_total:
  assumes "emu_inv emu" and "n \<noteq> 6" and "n \<noteq> 69"
  shows "ok (privSM_param n emu) emu_inv"
proof -
  have "ok (switchScreenBufferMode True (hdl_esc_decsc emu) \<bind>
      (\<lambda>e. Some (set_modes (\<lambda>m. m\<lparr>md_altScreen1049 := True\<rparr>) e))) emu_inv"
    by (rule ok_seq [OF switchScreenBufferMode_total [OF decsc_inv [OF assms(1)]]]) (simp add: emu_inv_modes)
  then show ?thesis
    using assms by (simp add: privSM_param_def emu_inv_modes switchColMode_total switchScreenBufferMode_total
        decsc_inv mouse_inv decscusr_inv setCompatLevel_inv docs_utf8)
qed

lemma privRM_param_total:
  assumes "emu_inv emu"
  shows "ok (privRM_param n emu) emu_inv"
proof -
  have "ok (switchScreenBufferMode False emu \<bind>
      (\<lambda>e. Some (set_modes (\<lambda>m. m\<lparr>md_altScreen1049 := False\<rparr>) (hdl_esc_decrc e)))) emu_inv"
    by (rule ok_seq [OF switchScreenBufferMode_total [OF assms]]) (simp add: emu_inv_modes decrc_inv)
  moreover have "emu_inv (set_modes (\<lambda>m. m\<lparr>md_originMode := OriginMode_Absolute\<rparr>) emu)"
    "emu_inv (set_horizMargin False emu)"
    using assms by (simp_all add: set_horizMargin_def emu_inv_def plain_mode_def cursor_ok_def)
  ultimately show ?thesis
    using assms by (simp add: privRM_param_def emu_inv_modes switchColMode_total switchScreenBufferMode_total
        decrc_inv mouse_inv decscusr_inv setCompatLevel_inv docs_utf8)
qed

lemma private_modes_total:
  assumes "emu_inv emu"
  shows "6 \<notin> set ps \<Longrightarrow> 69 \<notin> set ps \<Longrightarrow> ok (hdl_csi_privSM ps emu) emu_inv" "ok (hdl_csi_privRM ps emu) emu_inv"
  unfolding hdl_csi_privSM_def hdl_csi_privRM_def
  using assms by (auto intro!: for_list_inv privSM_param_total privRM_param_total)

lemma saved_SCO_inv:
  assumes "emu_inv emu"
  shows "emu_inv (hdl_csi_slrm_scosc ps emu)" "emu_inv (hdl_csi_scorc emu)"
proof -
  note b = emu_inv_bounds [OF assms]
  show "emu_inv (hdl_csi_slrm_scosc ps emu)"
    using assms b by (simp add: hdl_csi_slrm_scosc_def hdl_csi_scosc_def emu_inv_def plain_mode_def cursor_ok_def)
  have "0 \<le> sc_posX (em_savedCursor_SCO emu)" "0 \<le> sc_posY (em_savedCursor_SCO emu)"
    using assms by (simp_all add: emu_inv_def cursor_ok_def)
  from normalized_inv [OF assms this] show "emu_inv (hdl_csi_scorc emu)"
    using assms by (auto simp: hdl_csi_scorc_def Let_def emu_inv_def plain_mode_def cursor_ok_def normalizeCursorPos_def)
qed

text \<open>The stack of keyboard flags is never empty and has at most nine entries.\<close>

definition stack_ok :: "int stack \<Rightarrow> bool" where
  "stack_ok st \<longleftrightarrow> st_max st = KITTY_KBD_STACK_MAX \<and> st_data st \<noteq> [] \<and> int (length (st_data st)) \<le> KITTY_KBD_STACK_MAX"

lemma kitty_ok_stack: "kitty_ok fb = stack_ok (fb_kittyKbd fb)"
  by (simp add: kitty_ok_def stack_ok_def)

lemma Push_ok: "st_max st = 9 \<Longrightarrow> int (length (st_data st)) \<le> 9 \<Longrightarrow> ok (Push v st) stack_ok"
  by (auto simp: Push_def stack_ok_def KITTY_KBD_STACK_MAX_def ok_rules)

lemma peek_ok: "stack_ok st \<Longrightarrow> ok (GetPeek st) (\<lambda>_. True)" "stack_ok st \<Longrightarrow> ok (UpdatePeek v st) stack_ok"
  by (auto simp: GetPeek_def UpdatePeek_def stack_ok_def ok_rules Suc_le_eq)

lemma pop_loop_ok: "stack_ok st \<Longrightarrow> ok (pop_loop n st) stack_ok"
proof (induction n arbitrary: st)
  case (Suc n)
  let ?st = "st\<lparr>st_data := butlast (st_data st)\<rparr>"
  have "stack_ok ?st" if "butlast (st_data st) \<noteq> []"
    using that Suc.prems by (auto simp: stack_ok_def)
  moreover have "ok (Push 0 ?st) stack_ok"
    using Suc.prems by (intro Push_ok) (auto simp: stack_ok_def KITTY_KBD_STACK_MAX_def)
  ultimately show ?case
    using Suc.IH [of ?st] Suc.prems by (simp add: Pop_def Let_def stack_ok_def [of st])
qed simp

lemma on_kitty_total:
  assumes "emu_inv emu" and "\<And>st. stack_ok st \<Longrightarrow> ok (f st) stack_ok"
  shows "ok (on_kitty f emu) emu_inv"
proof -
  have fr: "frame_ok (cf emu) (em_nCols emu) (em_nRows emu) (em_marginTop emu) (em_marginBottom emu)"
    by (rule emu_inv_frame_ok [OF assms(1)])
  then have st: "ok (f (fb_kittyKbd (cf emu))) stack_ok"
    by (intro assms(2)) (simp add: frame_ok_def kitty_ok_stack)
  show ?thesis
    unfolding on_kitty_def using fr
    by (intro ok_seq [OF st]) (auto simp: frame_ok_def fb_wf_def kitty_ok_stack intro!: set_cf_inv [OF assms(1)])
qed

lemma kitty_total:
  assumes "emu_inv emu"
  shows "ok (hdl_csi_u_query emu) emu_inv" "ok (hdl_csi_u_set f m emu) emu_inv"
    "ok (hdl_csi_u_push f emu) emu_inv" "ok (hdl_csi_u_pop n emu) emu_inv"
proof -
  have keep: "ok (m \<bind> (\<lambda>st. GetPeek st \<bind> (\<lambda>_. Some st))) stack_ok" if "ok m stack_ok" for m
    by (rule ok_seq [OF that], rule_tac ok_seq [OF peek_ok(1)]) auto
  have st: "stack_ok (fb_kittyKbd (cf emu))"
    using emu_inv_frame_ok [OF assms] by (simp add: frame_ok_def kitty_ok_stack)
  show "ok (hdl_csi_u_query emu) emu_inv"
    unfolding hdl_csi_u_query_def using assms
    by (auto intro!: ok_seq [OF peek_ok(1) [OF st]] simp: writePty_def)
  show "ok (hdl_csi_u_push f emu) emu_inv"
    unfolding hdl_csi_u_push_def using assms
    by (auto intro!: on_kitty_total keep Push_ok simp: stack_ok_def KITTY_KBD_STACK_MAX_def)
  show "ok (hdl_csi_u_pop n emu) emu_inv"
    unfolding hdl_csi_u_pop_def using assms by (auto intro!: on_kitty_total keep pop_loop_ok)
  show "ok (hdl_csi_u_set f m emu) emu_inv"
    unfolding hdl_csi_u_set_def Let_def using assms
    by (auto intro!: on_kitty_total keep peek_ok(2) ok_seq [OF peek_ok(1)])
qed

section \<open>Reports and strings\<close>

lemma writePty_inv [simp]: "emu_inv (writePty w emu) = emu_inv emu"
  by (simp add: writePty_def)

lemma frame_ok_cursor: "frame_ok (fb\<lparr>fb_cursor := c\<rparr>) nCols nRows mt mb = frame_ok fb nCols nRows mt mb"
  by (simp add: frame_ok_def fb_wf_def kitty_ok_def)

lemma showCursor_inv:
  assumes "emu_inv emu"
  shows "emu_inv (showCursor emu)"
  using assms emu_inv_frame_ok [OF assms]
  by (auto simp: showCursor_def setCursorStyle_def setCursorPos_def frame_ok_cursor intro!: set_cf_inv)

lemma reports_total:
  assumes "emu_inv emu"
  shows "emu_inv (hdl_csi_priDA emu)" "emu_inv (hdl_csi_secDA emu)" "emu_inv (hdl_csi_dsr n emu)"
    "emu_inv (hdl_csi_focus b emu)" "emu_inv (hdl_csi_mousetrack b ps emu)"
    "ps \<noteq> [] \<Longrightarrow> ok (hdl_csi_decrqm ps emu) emu_inv"
  using assms showCursor_inv cursor_moves_inv(5) [OF assms]
  by (auto simp: hdl_csi_priDA_def hdl_csi_secDA_def hdl_csi_dsr_def hdl_csi_focus_def hdl_csi_mousetrack_def
      hdl_csi_decrqm_def setHasFocus_def emu_inv_modes ok_rules Let_def)

lemma xtwinops_total:
  assumes "emu_inv emu" and "ps = [] \<or> hd ps \<noteq> 8 \<and> 2 \<le> length ps"
  shows "ok (hdl_csi_xtwinops ps s emu) emu_inv"
  using assms
  by (auto simp: hdl_csi_xtwinops_def ok_rules saveWindowTitleOnStack_def restoreWindowTitleOnStack_def
      setWindowTitle_def Let_def)

lemma color_pairs_inv: "emu_inv emu \<Longrightarrow> emu_inv (color_pairs n reply ss emu)"
  by (induction n reply ss emu rule: color_pairs.induct) (auto split: option.split)

lemma osc52_query_inv: "emu_inv emu \<Longrightarrow> emu_inv (osc52_query cmd chs emu)"
  by (induction cmd chs emu rule: osc52_query.induct) (auto split: option.split)

lemma strings_total:
  assumes "emu_inv emu"
  shows "emu_inv (hdl_osc_0_1_2 cmd s emu)" "emu_inv (hdl_osc_10x cmd s emu)" "emu_inv (hdl_osc_4 cmd s emu)"
    "emu_inv (hdl_osc_112 emu)" "emu_inv (hdl_osc_8 s emu)" "emu_inv (hdl_osc_52 cmd s emu)"
    "emu_inv (hdl_dcs_xtgettcap env s emu)" "2 \<le> length s \<Longrightarrow> ok (hdl_dcs_decrqss s emu) emu_inv"
proof -
  show "emu_inv (hdl_osc_0_1_2 cmd s emu)"
    using assms by (auto simp: hdl_osc_0_1_2_def Let_def setTitleInitialized_def setIconLabel_def setWindowTitle_def
        intro!: emu_inv_modes)
  show "emu_inv (hdl_osc_10x cmd s emu)" "emu_inv (hdl_osc_4 cmd s emu)"
    using assms by (simp_all add: hdl_osc_10x_def hdl_osc_4_def Let_def color_pairs_inv)
  show "emu_inv (hdl_osc_112 emu)"
    unfolding hdl_osc_112_def using emu_inv_frame_ok [OF assms]
    by (intro set_cf_inv assms) (auto simp: frame_ok_def fb_wf_def kitty_ok_def)
  show "emu_inv (hdl_osc_8 s emu)"
    using assms by (auto simp: hdl_osc_8_def set_linkIndex_def split: list.split option.split prod.split)
  show "emu_inv (hdl_osc_52 cmd s emu)"
    using assms by (auto simp: hdl_osc_52_def Let_def osc52_query_inv simp del: osc52_query.simps)
  show "emu_inv (hdl_dcs_xtgettcap env s emu)"
    unfolding hdl_dcs_xtgettcap_def
    using assms by (auto intro!: fold_inv [of emu_inv] simp: xtgettcapReply_def split: option.split)
  show "ok (hdl_dcs_decrqss s emu) emu_inv" if "2 \<le> length s"
    using assms that by (auto simp: hdl_dcs_decrqss_def ok_rules setCompatLevel_inv)
qed

section \<open>Running the calls\<close>

text \<open>
  The calls that are safe in every state that satisfies the invariant: counts are not negative, \<open>SU\<close>
  and \<open>SD\<close> scroll at most \<open>h\<close> rows, the origin mode and the left and right margins stay off, a character
  set goes to one of the four places, and the lists have the elements that the handlers index.
\<close>

fun safe_cursor :: "cursor_call \<Rightarrow> bool" where
  "safe_cursor (Hdl_csi_cuu n) = (0 \<le> n)"
| "safe_cursor (Hdl_csi_cud n) = (0 \<le> n)"
| "safe_cursor (Hdl_csi_cuf n) = (0 \<le> n)"
| "safe_cursor (Hdl_csi_cub n) = (0 \<le> n)"
| "safe_cursor (Hdl_csi_cnl n) = (0 \<le> n)"
| "safe_cursor (Hdl_csi_cpl n) = (0 \<le> n)"
| "safe_cursor _ = True"

fun safe_edit :: "int \<Rightarrow> edit_call \<Rightarrow> bool" where
  "safe_edit h (Hdl_csi_su n) = (0 \<le> n \<and> n \<le> h)"
| "safe_edit h (Hdl_csi_sd n) = (0 \<le> n \<and> n \<le> h)"
| "safe_edit h (Hdl_csi_ed n) = True"
| "safe_edit h (Hdl_csi_el n) = True"
| "safe_edit h (Hdl_csi_rep n chs) = True"
| "safe_edit h (Hdl_csi_ich n) = (0 \<le> n)"
| "safe_edit h (Hdl_csi_il n) = (0 \<le> n)"
| "safe_edit h (Hdl_csi_dl n) = (0 \<le> n)"
| "safe_edit h (Hdl_csi_dch n) = (0 \<le> n)"
| "safe_edit h (Hdl_csi_ech n) = (0 \<le> n)"
| "safe_edit h (Hdl_csi_decic n) = (0 \<le> n)"
| "safe_edit h (Hdl_csi_decdc n) = (0 \<le> n)"
| "safe_edit h (Hdl_csi_ecma48_SL n) = (0 \<le> n)"
| "safe_edit h (Hdl_csi_ecma48_SR n) = (0 \<le> n)"

fun safe_mode :: "mode_call \<Rightarrow> bool" where
  "safe_mode (Hdl_csi_privSM ps) = (6 \<notin> set ps \<and> 69 \<notin> set ps)"
| "safe_mode (Hdl_csi_decrqm ps) = (ps \<noteq> [])"
| "safe_mode (Hdl_csi_sgr ps seps) = (length seps \<le> length ps)"
| "safe_mode _ = True"

fun safe_call :: "int \<Rightarrow> call \<Rightarrow> bool" where
  "safe_call h (Cursor c) = safe_cursor c"
| "safe_call h (Edit c) = safe_edit h c"
| "safe_call h (Mode c) = safe_mode c"
| "safe_call h (Report (Hdl_csi_xtwinops ps s)) = (ps = [] \<or> hd ps \<noteq> 8 \<and> 2 \<le> length ps)"
| "safe_call h (Esc (Hdl_esc_dcs i c)) = (0 \<le> i \<and> i < 4)"
| "safe_call h (Str (Hdl_dcs_decrqss s)) = (2 \<le> length s)"
| "safe_call h _ = True"

lemma run_cursor_total:
  assumes "emu_inv emu" and "safe_cursor c"
  shows "ok (run_cursor c emu) emu_inv"
  using assms
  by (cases c) (simp_all add: cursor_moves_inv tabs_total hdl_csi_cnl_def hdl_csi_cpl_def)

lemma run_edit_total:
  assumes "emu_inv emu" and "h \<le> em_marginBottom emu - em_marginTop emu" and "safe_edit h c"
  shows "ok (run_edit env c emu) emu_inv"
proof -
  have "ok (hdl_csi_su n emu) emu_inv" "ok (hdl_csi_sd n emu) emu_inv" if "0 \<le> n" "n \<le> h" for n
    using that assms(2) by (auto intro: ok_mono [OF scroll_total(1) [OF assms(1)]] ok_mono [OF scroll_total(2) [OF assms(1)]])
  moreover have "ok (hdl_csi_ich n emu) emu_inv" if "0 \<le> n" for n
    by (rule ok_mono [OF hdl_csi_ich_total [OF assms(1) that]]) simp
  ultimately show ?thesis
    using assms
    by (cases c) (simp_all add: lines_total hdl_csi_dch_total hdl_csi_ech_total erase_total hdl_csi_rep_total columns_total)
qed

lemma run_mode_total:
  assumes "emu_inv emu" and "safe_mode c"
  shows "ok (run_mode c emu) emu_inv"
  using assms
  by (cases c) (auto simp: sm_rm_inv private_modes_total reports_total decscusr_inv decstbm_total hdl_csi_decstr_def
      resetAttrs_total resetScreen_inv saved_SCO_inv hdl_csi_sgr_total hdl_csi_xtmodkeys_def kitty_total
      hdl_csi_decscl_def setCompatLevel_inv Let_def)

lemma run_esc_total:
  assumes "emu_inv emu" and "safe_call h (Esc c)"
  shows "ok (run_esc c emu) emu_inv"
proof -
  note b = emu_inv_bounds [OF assms(1)]
  have "ok (hdl_esc_fi emu) emu_inv" "ok (hdl_esc_bi emu) emu_inv"
    using assms(1) by (auto simp: hdl_esc_fi_def hdl_esc_bi_def cursor_moves_inv columns_total)
  moreover have "ok (map_option snd (hdl_esc_ind emu)) emu_inv"
    using hdl_esc_ind_total [OF assms(1)] by (auto simp: ok_iff)
  moreover have "emu_inv (hdl_esc_deckpam emu)" "emu_inv (hdl_esc_deckpnm emu)"
    using assms(1) by (simp_all add: hdl_esc_deckpam_def hdl_esc_deckpnm_def emu_inv_modes)
  ultimately show ?thesis
    using assms by (cases c) (simp_all add: charset_handlers decaln_total hdl_esc_decanm_def setCompatLevel_inv
        decrc_inv decsc_inv tabs_total hdl_esc_nel_total hdl_esc_ri_total hdl_esc_ris_def resetTerminal_total)
qed

lemma run_call_inv:
  assumes "emu_inv emu" and "h \<le> em_marginBottom emu - em_marginTop emu" and "safe_call h c"
  shows "ok (run_call env c emu) emu_inv"
proof (cases c)
  case (Hdl_graphemes chs)
  then show ?thesis using hdl_graphemes_total [OF assms(1), of env chs] by (auto simp: ok_iff)
next
  case (C0 x)
  then show ?thesis
    using assms(1) by (cases x) (simp_all add: hdl_c0_bel_def ringBell_def cursor_moves_inv tabs_total charset_handlers)
next
  case (Report x)
  then show ?thesis using assms by (cases x) (simp_all add: reports_total xtwinops_total)
next
  case (Str x)
  then show ?thesis using assms by (cases x) (simp_all add: strings_total)
next
  case (VT52 x)
  then show ?thesis using assms(1) by (cases x) (simp_all add: charset_handlers hdl_vt52_id_def)
qed (use assms run_cursor_total run_edit_total run_mode_total run_esc_total in auto)

section \<open>Resizing\<close>

definition resize_safe :: "int \<Rightarrow> int \<Rightarrow> emulator \<Rightarrow> bool" where
  "resize_safe c r emu \<longleftrightarrow> 0 < c \<and> 0 < r \<and> list_all (\<lambda>x. x < c) (em_tabStops emu) \<and>
     (md_altScreenBufferMode (em_md emu) \<or> em_posY emu < r \<or> em_nRows emu - r \<le> em_posY emu)"

lemma hideCursor_inv: "emu_inv emu \<Longrightarrow> emu_inv (hideCursor emu)"
  using emu_inv_frame_ok [of emu] by (auto simp: hideCursor_def setCursorStyle_def frame_ok_cursor intro!: set_cf_inv)

lemma hideCursor_fields [simp]:
  "em_posX (hideCursor emu) = em_posX emu" "em_posY (hideCursor emu) = em_posY emu"
  "em_nRows (hideCursor emu) = em_nRows emu" "em_nCols (hideCursor emu) = em_nCols emu"
  "em_md (hideCursor emu) = em_md emu" "em_tabStops (hideCursor emu) = em_tabStops emu"
  by (simp_all add: hideCursor_def)

lemma showCursor_links: "emu_inv e \<Longrightarrow> emu_inv ((showCursor e)\<lparr>em_links := l\<rparr>)"
  by (simp add: showCursor_inv)

lemma normalizeCursorPos_fields [simp]:
  "cf (normalizeCursorPos emu) = cf emu" "em_nCols (normalizeCursorPos emu) = em_nCols emu"
  "em_nRows (normalizeCursorPos emu) = em_nRows emu" "em_marginTop (normalizeCursorPos emu) = em_marginTop emu"
  "em_marginBottom (normalizeCursorPos emu) = em_marginBottom emu"
  "em_frame_pri (normalizeCursorPos emu) = em_frame_pri emu" "em_cf (normalizeCursorPos emu) = em_cf emu"
  "em_md (normalizeCursorPos emu) = em_md emu" "em_hMargin (normalizeCursorPos emu) = em_hMargin emu"
  "em_nColsEff (normalizeCursorPos emu) = em_nColsEff emu" "em_tabStops (normalizeCursorPos emu) = em_tabStops emu"
  "em_charsetState (normalizeCursorPos emu) = em_charsetState emu"
  "em_savedCursor_SCO (normalizeCursorPos emu) = em_savedCursor_SCO emu"
  "em_savedCursor_DEC_pri (normalizeCursorPos emu) = em_savedCursor_DEC_pri emu"
  "em_savedCursor_DEC_alt (normalizeCursorPos emu) = em_savedCursor_DEC_alt emu"
  "em_posX (normalizeCursorPos emu) = min (em_posX emu) (em_nColsEff emu - 1)"
  "em_posY (normalizeCursorPos emu) = min (em_posY emu) (em_nRows emu - 1)"
  by (auto simp: normalizeCursorPos_def Let_def cf_def min_def split: screen.split)

text \<open>\<open>moved emu e\<close>: only the frame buffers, the margins and the row of the cursor differ.\<close>

definition moved :: "emulator \<Rightarrow> emulator \<Rightarrow> bool" where
  "moved emu e \<longleftrightarrow> em_posX e = em_posX emu \<and> em_cf e = em_cf emu \<and> em_md e = em_md emu \<and>
     em_tabStops e = em_tabStops emu \<and> em_charsetState e = em_charsetState emu \<and>
     em_savedCursor_SCO e = em_savedCursor_SCO emu \<and>
     em_savedCursor_DEC_pri e = em_savedCursor_DEC_pri emu \<and>
     em_savedCursor_DEC_alt e = em_savedCursor_DEC_alt emu"

lemma resized_inv:
  assumes "emu_inv emu" and "moved emu e" and "frame_ok (cf e) c r 0 r" and "em_marginTop e = 0" and "em_marginBottom e = r"
    and "fb_wf (em_frame_pri e)" and "kitty_ok (em_frame_pri e)" and "0 \<le> em_posY e"
    and "list_all (\<lambda>x. x < c) (em_tabStops emu)"
  shows "emu_inv ((showCursor (normalizeCursorPos
      (e\<lparr>em_nCols := c, em_nRows := r, em_nColsEff := c, em_hMargin := 0\<rparr>)))\<lparr>em_links := newLinks\<rparr>)"
proof (rule showCursor_links)
  have "0 < c" "0 < r" using frame_ok_bounds [OF assms(3)] by auto
  moreover have "cf (e\<lparr>em_nCols := c, em_nRows := r, em_nColsEff := c, em_hMargin := 0\<rparr>) = cf e"
    by (simp add: cf_def split: screen.split)
  ultimately show "emu_inv (normalizeCursorPos (e\<lparr>em_nCols := c, em_nRows := r, em_nColsEff := c, em_hMargin := 0\<rparr>))"
    using assms
    by (simp add: moved_def emu_inv_def plain_mode_def cursor_ok_def list_all_iff min_less_iff_disj)
qed

lemma resize_rows_inv:
  assumes "emu_inv emu" and "resize_safe c r emu"
  shows "ok (resize_rows c r emu) (\<lambda>e. moved emu e \<and> frame_ok (cf e) c r 0 r \<and> em_marginTop e = 0 \<and>
    em_marginBottom e = r \<and> fb_wf (em_frame_pri e) \<and> kitty_ok (em_frame_pri e) \<and> 0 \<le> em_posY e)"
proof (cases "md_altScreenBufferMode (em_md emu)")
  case True
  obtain x where "NewFramebuffer3 c r 0 = Some (x, 0, r)" "frame_ok x c r 0 r"
    using NewFramebuffer3_frame_ok [of c r 0] assms(2) by (auto simp: ok_iff resize_safe_def)
  then show ?thesis
    using True assms(1) emu_inv_bounds [OF assms(1)] by (simp add: resize_rows_def moved_def emu_inv_def cf_def)
next
  case False
  note b = emu_inv_bounds [OF assms(1)]
  let ?n = "em_nRows emu - r"
  have rs: "0 < c" "0 < r" "em_posY emu < r \<or> ?n \<le> em_posY emu"
    using assms(2) False by (auto simp: resize_safe_def)
  have pri: "em_cf emu = Pri" "cf emu = em_frame_pri emu" using assms(1) False by (simp_all add: emu_inv_def cf_def)
  define emu1 where "emu1 = (if r < em_posY emu + 1
    then (set_cf (scrollUp ?n (cf emu)) emu)\<lparr>em_posY := em_posY emu - ?n\<rparr> else emu)"
  have m1: "moved emu emu1" "em_cf emu1 = Pri" "em_nRows emu1 = em_nRows emu" "0 \<le> em_posY emu1"
    using rs pri b by (auto simp: emu1_def moved_def)
  have "frame_ok (em_frame_pri emu1) (em_nCols emu) (em_nRows emu) (em_marginTop emu) (em_marginBottom emu)"
    using emu_inv_frame_ok [OF assms(1)] pri b by (auto simp: emu1_def intro!: scroll_frame_ok)
  then have "fb_wf (em_frame_pri emu1)" "kitty_ok (em_frame_pri emu1)" by (simp_all add: frame_ok_def)
  from fb_resize_frame_ok [OF this rs(1,2)] obtain x where
    x: "fb_resize c r (em_frame_pri emu1) = Some (x, 0, r)" "frame_ok x c r 0 r" by (auto simp: ok_iff)
  then have h: "0 \<le> fb_historyRows x" by (simp add: frame_ok_def fb_wf_def)
  have "resize_rows c r emu = (let emu2 = emu1\<lparr>em_frame_pri := x, em_marginTop := 0, em_marginBottom := r\<rparr>;
      emu3 = (if em_nRows emu < r then
        let n = min (r - em_nRows emu) (fb_historyRows x)
        in (set_cf (scrollDown n x) emu2)\<lparr>em_posY := em_posY emu1 + n\<rparr> else emu2)
      in Some (emu3\<lparr>em_frame_alt := freeCells (em_frame_alt emu3)\<rparr>))"
    unfolding resize_rows_def Let_def if_not_P [OF False] emu1_def [symmetric]
    using x(1) m1(2,3) by (simp add: cf_def)
  then show ?thesis
    using m1 x(2) h scroll_frame_ok(2) [OF x(2), of "min (r - em_nRows emu) (fb_historyRows x)"]
    by (auto simp: Let_def moved_def cf_def frame_ok_def set_cf_def)
qed

lemma emu_resize_inv:
  assumes "emu_inv emu" and "resize_safe c r emu"
  shows "ok (emu_resize c r emu) emu_inv"
proof (cases "em_nCols emu = c \<and> em_nRows emu = r")
  case False
  have inv: "emu_inv (hideCursor emu)" and safe: "resize_safe c r (hideCursor emu)"
    using hideCursor_inv [OF assms(1)] assms(2) by (simp_all add: resize_safe_def)
  have plain: "\<not> md_horizMarginMode (em_md emu)" using emu_inv_bounds [OF assms(1)] by simp
  have tabs: "list_all (\<lambda>x. x < c) (em_tabStops (hideCursor emu))"
    using assms(2) by (simp add: resize_safe_def)
  show ?thesis
    unfolding emu_resize_def Let_def if_not_P [OF False]
  proof (rule ok_seq [OF resize_rows_inv [OF inv safe]], elim conjE, goal_cases)
    case (1 e)
    then have "em_md e = em_md emu" by (simp add: moved_def)
    then show ?case using resized_inv [OF inv 1 tabs] plain by simp
  qed
qed (use assms(1) in \<open>simp add: emu_resize_def\<close>)

end
