(* ===== verification/EmulatorText.thy ===== *)
theory EmulatorText
  imports EmulatorRun ParserProps
begin

text \<open>
  Printing: a text goes through the parser as one handler for each character, each handler returns, and
  in a row the cells get the characters. The new emulator satisfies the invariant.
\<close>

section \<open>Printing a text\<close>

definition printable :: "char \<Rightarrow> bool" where
  "printable c \<longleftrightarrow> 32 \<le> (of_char c :: nat) \<and> (of_char c :: nat) < 127"

text \<open>\<open>prints h c\<close>: \<open>h\<close> is the handler of the printable character \<open>c\<close>.\<close>

definition prints :: "handler \<Rightarrow> char \<Rightarrow> bool" where
  "prints h c \<longleftrightarrow> hd_call h = Hdl_graphemes [of_char c] \<and> hd_sequence h = [c] \<and> hd_id h = ''Graphemes''"

definition in_text :: "parser \<Rightarrow> bool" where
  "in_text p \<longleftrightarrow> ps_inputState p = InputState_Normal \<and> (ps_handleReady p \<or> ps_history p = [])"

lemma input_printable:
  assumes "in_text p" and "printable c"
  obtains p' h where "ProcessInput [of_char c] p = Some (p', Some h)" "prints h c" "in_text p'"
    "ps_vtMode p' = ps_vtMode p"
  using assms
  by (simp add: printable_def in_text_def prints_def run handle_Graphemes_def historyString_def utf8_def split: if_splits)

lemma vt_bytes_text:
  assumes "in_text p" and "ps_vtMode p" and "s \<noteq> []" and "list_all printable s"
  shows "\<exists>p' hs. vt_bytes s p hds = Some (p', hds @ map Some hs, [], True) \<and> list_all2 prints hs s"
  using assms
proof (induction s arbitrary: p hds)
  case (Cons c s)
  obtain p' h where p': "ProcessInput [of_char c] p = Some (p', Some h)" "prints h c" "in_text p'"
    "ps_vtMode p' = ps_vtMode p"
    using input_printable [OF Cons.prems(1)] Cons.prems(4) by (auto simp: list_all_def)
  show ?case
  proof (cases "s = []")
    case True
    then show ?thesis using p' by (auto simp: append_handler_def intro!: exI [of _ "[h]"])
  next
    case False
    then obtain p2 hs where "vt_bytes s p' (hds @ [Some h]) = Some (p2, (hds @ [Some h]) @ map Some hs, [], True)"
      "list_all2 prints hs s"
      using Cons p' by fastforce
    then show ?thesis
      using p' False Cons.prems(2) by (auto simp: append_handler_def intro!: exI [of _ "h # hs"])
  qed
qed simp

lemma utf8_clusters_text:
  assumes "in_text p" and "\<not> ps_vtMode p" and "map fst gs = map (\<lambda>c. [of_char c]) s" and "s \<noteq> []"
    and "snd (last gs) = length str" and "list_all printable s"
  shows "\<exists>p' hs. utf8_clusters str gs p hds = Some (p', hds @ map Some hs, str, True) \<and> list_all2 prints hs s"
  using assms
proof (induction s arbitrary: gs p hds)
  case (Cons c s)
  obtain t gs' where gs: "gs = ([of_char c], t) # gs'" "map fst gs' = map (\<lambda>c. [of_char c]) s"
    using Cons.prems(3) by (cases gs) auto
  obtain p' h where p': "ProcessInput [of_char c] p = Some (p', Some h)" "prints h c" "in_text p'"
    "ps_vtMode p' = ps_vtMode p"
    using input_printable [OF Cons.prems(1)] Cons.prems(6) by (auto simp: list_all_def)
  show ?case
  proof (cases "s = []")
    case True
    then have "gs' = []" using gs(2) by simp
    then show ?thesis
      using p' gs True Cons.prems(2,5) by (auto simp: append_handler_def intro!: exI [of _ "[h]"])
  next
    case False
    then have ne: "gs' \<noteq> []" using gs(2) by auto
    obtain p2 hs where "utf8_clusters str gs' p' (hds @ [Some h]) = Some (p2, (hds @ [Some h]) @ map Some hs, str, True)"
      "list_all2 prints hs s"
      using Cons.IH [OF p'(3) _ gs(2) False, of "hds @ [Some h]"] Cons.prems gs ne p'(4) by auto
    then show ?thesis
      using p' gs ne Cons.prems(2) by (auto simp: append_handler_def intro!: exI [of _ "h # hs"])
  qed
qed simp

text \<open>What \<open>uniseg\<close> promises for printable ASCII: every character is a cluster of its own.\<close>

definition ascii_clusters :: "(string \<Rightarrow> (rune list \<times> nat) list) \<Rightarrow> bool" where
  "ascii_clusters graphemes \<longleftrightarrow>
     (\<forall>s. list_all printable s \<longrightarrow> map fst (graphemes s) = map (\<lambda>c. [of_char c]) s \<and>
        (s \<noteq> [] \<longrightarrow> snd (last (graphemes s)) = length s))"

lemma processStream_text:
  assumes "ascii_clusters graphemes" and "in_text p" and "s \<noteq> []" and "list_all printable s"
  shows "\<exists>p' hs. processStream graphemes s p [] = Some (p', map Some hs) \<and> list_all2 prints hs s"
  using assms vt_bytes_text [OF assms(2) _ assms(3,4), of "[]"]
    utf8_clusters_text [OF assms(2), of "graphemes s" s s "[]"]
  by (subst processStream.simps) (fastforce simp: ascii_clusters_def)

lemma print_handlers:
  assumes "list_all2 prints hs s" and "emu_inv emu"
  shows "\<exists>emu'. for_list (map Some hs) (handle_one env) (diff, emu) = Some (diff @ s, emu') \<and> emu_inv emu'"
  using assms
proof (induction hs s arbitrary: diff emu rule: list_all2_induct)
  case (Cons h hs c s)
  obtain cs e where e: "hdl_graphemes env [of_char c] emu = Some (cs, e)" "emu_inv e"
    using hdl_graphemes_total [OF Cons.prems, of env "[of_char c]"] by (auto simp: ok_iff)
  have "handle_one env (Some h) (diff, emu) = Some (diff @ [c], e)"
    using Cons.hyps(1) e by (simp add: handle_one_def prints_def excludeHandler_def)
  then show ?case using Cons.IH [OF e(2), of "diff @ [c]"] by simp
qed simp

section \<open>The new emulator\<close>

definition initial :: "framebuffer \<Rightarrow> framebuffer \<Rightarrow> int \<Rightarrow> int \<Rightarrow> emulator" where
  "initial pri alt c r = (Emulator0 pri alt)\<lparr>em_marginTop := 0, em_marginBottom := r, em_nCols := c,
     em_nRows := r, em_nColsEff := c, em_attrs := Cell0\<lparr>ce_contents := '' ''\<rparr>\<rparr>"

lemma initial_inv:
  assumes "frame_ok pri c r 0 r"
  shows "emu_inv (initial pri alt c r)"
  using assms frame_ok_bounds [OF assms]
  by (simp add: initial_def emu_inv_def Emulator0_def cf_def plain_mode_def cursor_ok_def modes0_def
      charset_ok_def charset0_def saved_ok_def newSavedCursor_DEC_def SCO0_def resetCharsetState_def)
    (simp add: frame_ok_def)

lemma NewEmulator3_inv:
  assumes "0 < c" and "0 < r" and "0 \<le> s"
  shows "ok (NewEmulator3 c r s) emu_inv"
proof -
  have alt: "ok (NewFramebuffer2 1 1) (\<lambda>_. True)"
    using NewFramebuffer3_frame_ok [of 1 1 0] by (auto simp: NewFramebuffer2_def ok_iff)
  have start: "emu_inv (initSelectionStore (set_modes f (initial x y c r)))"
    if "frame_ok x c r 0 r" "\<And>m. md_horizMarginMode (f m) = md_horizMarginMode m"
      "\<And>m. md_originMode (f m) = md_originMode m" "\<And>m. md_altScreenBufferMode (f m) = md_altScreenBufferMode m"
    for x y f
    using emu_inv_modes [OF initial_inv [OF that(1)] that(2-4)] by (simp add: initSelectionStore_def)
  show ?thesis
    unfolding NewEmulator3_def Let_def
    by (rule ok_seq [OF NewFramebuffer3_frame_ok [OF assms]], clarify, rule ok_seq [OF alt],
        rule ok_seq [OF resetTerminal_total [OF start [unfolded initial_def]]]) auto
qed

section \<open>Printing in a row\<close>

lemma getCellPtr_cells:
  assumes "fb_wf fb" and "fb_viewOffset fb = 0" and "in_row fb pY pX 1"
  obtains x where "getCellPtr pY pX f fb = Some x" "same_layout fb x"
    "fb_cells x = (fb_cells fb)[nat (getIdx pY pX fb) := f (fb_cells fb ! nat (getIdx pY pX fb))]"
proof -
  let ?fb = "invalidateSelection (NewRect4 pX pY (pX + 1) pY) (add_damage (getIdx pY pX fb) (getIdx pY pX fb + 1) fb)"
  have l: "same_layout fb ?fb" by (simp add: same_layout_update)
  have c: "fb_cells ?fb = fb_cells fb" by (simp add: invalidateSelection_def add_damage_def clearSelection_def)
  have i: "0 \<le> getIdx pY pX fb" "getIdx pY pX fb < int (length (fb_cells fb))"
    using in_row_idx [OF assms] by simp_all
  show thesis
    by (rule that [of "?fb\<lparr>fb_cells := (fb_cells fb)[nat (getIdx pY pX fb) := f (fb_cells fb ! nat (getIdx pY pX fb))]\<rparr>"])
      (use i c l in \<open>auto simp: getCellPtr_def Let_def list_at_def list_put_def intro!: same_layout_update\<close>)
qed

text \<open>What \<open>hdl_graphemes\<close> does after the translation \<open>chs\<close>, when it neither wraps nor inserts.\<close>

lemma graphemes_narrow:
  assumes "emu_inv emu" and "te_width env (concat (map utf8 chs)) \<noteq> 2"
    and "\<not> (md_autoWrapMode (em_md emu) \<and> em_lastCol emu)" and "\<not> md_insertMode (em_md emu)"
    and "em_posX emu + 1 < em_nCols emu"
    and "(if length chs = 1 \<and> cs_vtMode (em_charsetState emu) then do {
        (r, e) \<leftarrow> lookupCharset (hd chs) emu; Some ([r], e) } else Some (chs, emu)) = Some (chs', emu)"
  obtains fb where "hdl_graphemes env chs emu = Some (chs', (set_cf fb emu)\<lparr>em_posX := em_posX emu + 1\<rparr>)"
    "same_layout (cf emu) fb"
    "fb_cells fb = (fb_cells (cf emu))[nat (getIdx (em_posY emu) (em_posX emu) (cf emu)) := SetContents chs' (em_attrs emu)]"
proof -
  note b = emu_inv_bounds [OF assms(1)] and fr = emu_inv_frame [OF assms(1)]
  have "in_row (cf emu) (em_posY emu) (em_posX emu) 1" using b fr by (simp add: in_row_def)
  from getCellPtr_cells [OF fr(1,2) this, of "\<lambda>_. SetContents chs' (em_attrs emu)"] obtain fb where
    fb: "getCellPtr (em_posY emu) (em_posX emu) (\<lambda>_. SetContents chs' (em_attrs emu)) (cf emu) = Some fb"
    "same_layout (cf emu) fb"
    "fb_cells fb = (fb_cells (cf emu))[nat (getIdx (em_posY emu) (em_posX emu) (cf emu)) := SetContents chs' (em_attrs emu)]"
    by metis
  show thesis
  proof (rule that [OF _ fb(2,3)])
    show "hdl_graphemes env chs emu = Some (chs', (set_cf fb emu)\<lparr>em_posX := em_posX emu + 1\<rparr>)"
      unfolding hdl_graphemes_def Let_def assms(6)
      using assms(2-5) b(7) fb(1) by (auto simp: wrap_line_def print_cell_def on_cf_def)
  qed
qed

lemma getIdx_same: "same_layout fb x \<Longrightarrow> getIdx pY pX x = getIdx pY pX fb"
  by (simp add: getIdx_def getPhysicalRow_def same_layout_fields Let_def)

lemma narrow_inv:
  assumes "emu_inv emu" and "same_layout (cf emu) fb" and "em_posX emu + 1 < em_nCols emu"
  shows "emu_inv ((set_cf fb emu)\<lparr>em_posX := em_posX emu + 1\<rparr>)"
  using assms emu_inv_bounds [OF assms(1)]
  by (intro emu_inv_posX cells_only_inv [OF assms(1)]) (auto simp: cells_only_def)

text \<open>\<open>row_printed s emu e\<close>: the text is in the cells from the cursor on, and the cursor is behind it.\<close>

definition row_printed :: "string \<Rightarrow> emulator \<Rightarrow> emulator \<Rightarrow> bool" where
  "row_printed s emu e \<longleftrightarrow>
     (let cs = fb_cells (cf emu); i = nat (getIdx (em_posY emu) (em_posX emu) (cf emu))
      in fb_cells (cf e) = take i cs @ map (\<lambda>c. SetContents [of_char c] (em_attrs emu)) s @ drop (i + length s) cs) \<and>
     em_posX e = em_posX emu + int (length s) \<and> em_posY e = em_posY emu"

definition narrow :: "term_env \<Rightarrow> emulator \<Rightarrow> bool" where
  "narrow env emu \<longleftrightarrow> (\<forall>c. printable c \<longrightarrow> te_width env [c] = 1) \<and> \<not> em_lastCol emu \<and>
     \<not> md_insertMode (em_md emu) \<and> \<not> cs_vtMode (em_charsetState emu)"

lemma narrow_next:
  "narrow env emu \<Longrightarrow> narrow env ((set_cf fb emu)\<lparr>em_posX := x\<rparr>)"
  by (simp add: narrow_def)

lemma update_row:
  "i < length cs \<Longrightarrow> take (Suc i) (cs[i := v]) @ vs @ drop (Suc i + n) (cs[i := v]) =
    take i cs @ (v # vs) @ drop (i + Suc n) cs"
  by (simp add: take_Suc_conv_app_nth)

lemma print_row:
  assumes "list_all2 prints hs s" and "emu_inv emu" and "narrow env emu" and "list_all printable s"
    and "em_posX emu + int (length s) < em_nCols emu"
  shows "\<exists>e. for_list (map Some hs) (handle_one env) (diff, emu) = Some (diff @ s, e) \<and> emu_inv e \<and> row_printed s emu e"
  using assms
proof (induction hs s arbitrary: diff emu rule: list_all2_induct)
  case (Cons h hs c s)
  note inv = Cons.prems(1) and b = emu_inv_bounds [OF Cons.prems(1)] and fr = emu_inv_frame [OF Cons.prems(1)]
  let ?i = "nat (getIdx (em_posY emu) (em_posX emu) (cf emu))"
  have utf: "concat (map utf8 [of_char c]) = [c]" using Cons.prems(3) by (simp add: printable_def utf8_def)
  have nw: "te_width env [c] = 1" "\<not> em_lastCol emu" "\<not> md_insertMode (em_md emu)"
    "\<not> cs_vtMode (em_charsetState emu)"
    using Cons.prems(2,3) by (simp_all add: narrow_def)
  obtain fb where fb: "hdl_graphemes env [of_char c] emu = Some ([of_char c], (set_cf fb emu)\<lparr>em_posX := em_posX emu + 1\<rparr>)"
    "same_layout (cf emu) fb" "fb_cells fb = (fb_cells (cf emu))[?i := SetContents [of_char c] (em_attrs emu)]"
    using graphemes_narrow [OF inv, of env "[of_char c]" "[of_char c]"] Cons.prems(4) utf nw by auto
  define e where "e = (set_cf fb emu)\<lparr>em_posX := em_posX emu + 1\<rparr>"
  have e: "emu_inv e" "narrow env e" "cf e = fb" "em_posX e = em_posX emu + 1" "em_posY e = em_posY emu"
    "em_nCols e = em_nCols emu" "em_attrs e = em_attrs emu"
    using narrow_inv [OF inv fb(2)] narrow_next [OF Cons.prems(2)] Cons.prems(4) by (simp_all add: e_def)
  have "handle_one env (Some h) (diff, emu) = Some (diff @ [c], e)"
    using Cons.hyps(1) fb(1) by (simp add: handle_one_def prints_def excludeHandler_def e_def)
  moreover obtain e' where e': "for_list (map Some hs) (handle_one env) (diff @ [c], e) = Some ((diff @ [c]) @ s, e')"
    "emu_inv e'" "row_printed s e e'"
    using Cons.IH [OF e(1,2)] Cons.prems(3,4) e(4,6) by fastforce
  moreover have "row_printed (c # s) emu e'"
  proof -
    have row: "in_row (cf emu) (em_posY emu) (em_posX emu) 1" using b fr by (simp add: in_row_def)
    have i: "?i < length (fb_cells (cf emu))" "0 \<le> getIdx (em_posY emu) (em_posX emu) (cf emu)"
      using in_row_idx [OF fr(1,2) row] by auto
    have "getIdx (em_posY e) (em_posX e) (cf e) = getIdx (em_posY emu) (em_posX emu) (cf emu) + 1"
      using e getIdx_same [OF fb(2)] by (simp add: getIdx_def)
    then have "nat (getIdx (em_posY e) (em_posX e) (cf e)) = Suc ?i" using i(2) by (simp add: nat_add_distrib)
    then show ?thesis
      using e' e fb(3) update_row [OF i(1)] by (simp add: row_printed_def Let_def)
  qed
  ultimately show ?case by auto
qed (simp add: row_printed_def Let_def)

end
