(* ===== verification/EmulatorProps.thy ===== *)
theory EmulatorProps
  imports EmulatorText
begin

text \<open>
  Properties of the emulator with its parser: states that are reached from a new emulator, the text of
  a stream on the screen, and what goes wrong outside of the safe calls and sizes.
\<close>

section \<open>Reachable states\<close>

inductive reachable :: "term_env \<Rightarrow> emulator \<Rightarrow> bool" for env where
  start: "0 < c \<Longrightarrow> 0 < r \<Longrightarrow> 0 \<le> s \<Longrightarrow> NewEmulator3 c r s = Some emu \<Longrightarrow> reachable env emu"
| run: "reachable env emu \<Longrightarrow> safe_call (em_marginBottom emu - em_marginTop emu) call \<Longrightarrow>
    run_call env call emu = Some emu' \<Longrightarrow> reachable env emu'"
| resized: "reachable env emu \<Longrightarrow> resize_safe c r emu \<Longrightarrow> emu_resize c r emu = Some emu' \<Longrightarrow> reachable env emu'"

lemma reachable_inv: "reachable env emu \<Longrightarrow> emu_inv emu"
proof (induction rule: reachable.induct)
  case (start c r s emu)
  then show ?case using NewEmulator3_inv [of c r s] by simp
next
  case (run emu call emu')
  then show ?case using run_call_inv [of emu "em_marginBottom emu - em_marginTop emu" call env] by simp
next
  case (resized emu c r emu')
  then show ?case using emu_resize_inv [of emu c r] by simp
qed

definition new80x24 :: emulator where
  "new80x24 = the (NewEmulator3 80 24 60)"

lemma new80x24: "NewEmulator3 80 24 60 = Some new80x24" "emu_inv new80x24"
  using NewEmulator3_inv [of 80 24 60] by (auto simp: new80x24_def ok_iff)

definition plain_env :: term_env where
  "plain_env = \<lparr>te_width = (\<lambda>_. 1), te_lookup = (\<lambda>_. None)\<rparr>"

lemma reachable_new: "reachable env new80x24"
  by (rule reachable.start [OF _ _ _ new80x24(1)]) simp_all

text \<open>
  C1. Safety of the emulator. In every state that is reached from a new emulator by safe calls and sizes,
  each safe call returns, and leads to a state where the cursor is on the screen, the margins are in
  order, the scrolling ring is well formed and the stack of keyboard flags has one to nine entries.
\<close>

theorem emulator_safe:
  assumes "reachable env emu" and "safe_call (em_marginBottom emu - em_marginTop emu) call"
  shows "\<exists>e. run_call env call emu = Some e \<and> reachable env e \<and>
    0 \<le> em_posX e \<and> em_posX e < em_nCols e \<and> 0 \<le> em_posY e \<and> em_posY e < em_nRows e \<and>
    0 \<le> em_marginTop e \<and> em_marginTop e < em_marginBottom e \<and> em_marginBottom e \<le> em_nRows e \<and>
    fb_wf (cf e) \<and> 1 \<le> length (st_data (fb_kittyKbd (cf e))) \<and> length (st_data (fb_kittyKbd (cf e))) \<le> 9"
proof -
  obtain e where e: "run_call env call emu = Some e" "emu_inv e"
    using run_call_inv [OF reachable_inv [OF assms(1)] order_refl assms(2), of env] by (auto simp: ok_iff)
  have "kitty_ok (cf e)" using emu_inv_frame_ok [OF e(2)] by (simp add: frame_ok_def)
  then show ?thesis
    using e emu_inv_bounds [OF e(2)] emu_inv_frame(1) [OF e(2)] reachable.run [OF assms e(1)]
    by (auto simp: kitty_ok_def KITTY_KBD_STACK_MAX_def Suc_le_eq)
qed

lemma emulator_safe_witness:
  "\<exists>e. run_call plain_env (Cursor (Hdl_csi_cup 5 70)) new80x24 = Some e \<and> em_posX e < em_nCols e \<and> em_posY e < em_nRows e"
  using emulator_safe [OF reachable_new, of "Cursor (Hdl_csi_cup 5 70)" plain_env] by auto

section \<open>A text on the screen\<close>

lemma text_printed:
  assumes "ascii_clusters graphemes" and "emu_inv emu" and "in_text (em_parser emu)" and "list_all printable s"
  shows "\<exists>hds e. HandleStream env graphemes s emu = Some (hds, s, e) \<and> length hds = length s \<and> emu_inv e \<and>
    (narrow env emu \<and> em_posX emu + int (length s) < em_nCols emu \<longrightarrow> row_printed s emu e)"
proof (cases "s = []")
  case False
  obtain p' hs where p': "processStream graphemes s (em_parser emu) [] = Some (p', map Some hs)" "list_all2 prints hs s"
    using processStream_text [OF assms(1,3) False assms(4)] by blast
  let ?e = "emu\<lparr>em_parser := p'\<rparr>"
  have inv: "emu_inv ?e" and nw: "narrow env ?e = narrow env emu" using assms(2) by (simp_all add: narrow_def)
  obtain e where e: "for_list (map Some hs) (handle_one env) ([], ?e) = Some (s, e)" "emu_inv e"
    using print_handlers [OF p'(2) inv, of env "[]"] by auto
  moreover have "row_printed s ?e e" if "narrow env emu" "em_posX emu + int (length s) < em_nCols emu"
    using print_row [OF p'(2) inv _ assms(4), of env "[]"] that nw e by auto
  ultimately show ?thesis
    using p' False by (auto simp: HandleStream_def row_printed_def dest: list_all2_lengthD)
qed (use assms(2) in \<open>simp add: HandleStream_def row_printed_def Let_def\<close>)

text \<open>
  C10. Printing a text: a stream of printable ASCII in a reachable state returns, passes the text on
  unchanged as the difference for the client, and keeps the invariant. When the text ends before the
  last column, the screen then shows it from the cursor on, with the current attributes, no other cell
  has changed, and the cursor is behind it.
\<close>

theorem HandleStream_text:
  assumes "ascii_clusters graphemes" and "emu_inv emu" and "in_text (em_parser emu)" and "list_all printable s"
  shows "\<exists>hds e. HandleStream env graphemes s emu = Some (hds, s, e) \<and> length hds = length s \<and> emu_inv e \<and>
    (narrow env emu \<and> em_posX emu + int (length s) < em_nCols emu \<longrightarrow> row_printed s emu e)"
  using text_printed [OF assms] .

lemma byte_clusters_ascii: "ascii_clusters byte_clusters"
proof -
  have "map (\<lambda>i. [of_char (s ! i)]) [0..<length s] = map (\<lambda>c. [of_char c :: nat]) s" for s
    by (rule nth_equalityI) auto
  then show ?thesis by (auto simp: ascii_clusters_def byte_clusters_def last_map comp_def)
qed

definition blank20x5 :: emulator where
  "blank20x5 = initial (fst (the (NewFramebuffer3 20 5 0))) (fst (the (NewFramebuffer3 1 1 0))) 20 5"

lemma blank20x5_fields:
  "em_posX blank20x5 = 0" "em_posY blank20x5 = 0" "em_nCols blank20x5 = 20" "em_nRows blank20x5 = 5"
  "em_parser blank20x5 = NewParser" "em_lastCol blank20x5 = False" "em_md blank20x5 = modes0"
  "em_charsetState blank20x5 = charset0" "em_marginTop blank20x5 = 0" "em_marginBottom blank20x5 = 5"
  by (simp_all add: blank20x5_def initial_def Emulator0_def)

lemma blank20x5_inv: "emu_inv blank20x5"
  unfolding blank20x5_def
  using NewFramebuffer3_frame_ok [of 20 5 0] by (intro initial_inv) (auto simp: ok_iff)

lemma HandleStream_text_witness:
  "\<exists>hds e. HandleStream plain_env byte_clusters ''make all'' blank20x5 = Some (hds, ''make all'', e) \<and>
    length hds = 8 \<and> row_printed ''make all'' blank20x5 e"
proof -
  have "list_all printable ''make all''" by (simp add: printable_def)
  moreover have "in_text (em_parser blank20x5)" "narrow plain_env blank20x5"
    by (simp_all add: blank20x5_fields in_text_def NewParser_def parser_reset_def narrow_def plain_env_def
        modes0_def charset0_def)
  ultimately show ?thesis
    using HandleStream_text [OF byte_clusters_ascii blank20x5_inv, of "''make all''" plain_env]
    by (auto simp: blank20x5_fields)
qed

section \<open>Outside of the screen\<close>

lemma getIdx_above:
  assumes "0 < fb_nCols fb" and "fb_viewOffset fb = 0" and "pX < fb_nCols fb" and "pY < 0" and "0 \<le> fb_scrollHead fb"
    and "pY + fb_scrollHead fb + fb_nRows fb + fb_saveLines fb < 0" and "0 \<le> fb_nRows fb + fb_saveLines fb"
  shows "getIdx pY pX fb < 0"
proof -
  have "getPhysicalRow pY fb \<le> -1" using assms(4-7) by (auto simp: getPhysicalRow_def Let_def)
  then have "fb_nCols fb * getPhysicalRow pY fb \<le> fb_nCols fb * -1"
    using assms(1) by (intro mult_left_mono) auto
  then show ?thesis using assms(2,3) by (simp add: getIdx_def)
qed

lemma getCellPtr_above: "getIdx pY pX fb < 0 \<Longrightarrow> getCellPtr pY pX f fb = None"
  by (simp add: getCellPtr_def list_at_def Let_def)

lemma graphemes_above:
  assumes "getIdx (em_posY emu) (em_posX emu) (cf emu) < 0" and "\<not> md_insertMode (em_md emu)"
  shows "hdl_graphemes env chs emu = None"
proof -
  have cp: "on_cf (getCellPtr (em_posY emu) (em_posX emu) f) (emu\<lparr>em_charsetState := st\<rparr>) = None" for st f
    using getCellPtr_above [OF assms(1)] by (cases "em_cf emu") (simp_all add: on_cf_def cf_def)
  have none: "print_cell w cs (emu\<lparr>em_charsetState := st\<rparr>) = None" for st w cs
    using cp by (simp add: print_cell_def)
  have wrap: "wrap_line w (emu\<lparr>em_charsetState := st\<rparr>) \<in> {None, Some (emu\<lparr>em_charsetState := st\<rparr>)}" for st w
    using cp by (simp add: wrap_line_def)
  have "(do {
      emu2 \<leftarrow> wrap_line w (emu\<lparr>em_charsetState := st\<rparr>);
      emu3 \<leftarrow> (if md_insertMode (em_md emu2) then hdl_csi_ich 1 emu2 else Some emu2);
      emu4 \<leftarrow> print_cell w cs emu3;
      F emu4 }) = None" for w st cs and F :: "emulator \<Rightarrow> (rune list \<times> emulator) option"
    using wrap [of w st] assms(2) by (auto simp: none)
  note rest = this
  have same: "emu\<lparr>em_charsetState := em_charsetState emu\<rparr> = emu" by simp
  show ?thesis
  proof (cases "length chs = 1 \<and> cs_vtMode (em_charsetState emu)")
    case True
    have "lookupCharset (hd chs) emu = None \<or>
        (\<exists>r st. lookupCharset (hd chs) emu = Some (r, emu\<lparr>em_charsetState := st\<rparr>))"
      by (cases "cs_ss (em_charsetState emu) > 0"; cases "list_at (cs_g (em_charsetState emu)) (cs_ss (em_charsetState emu))";
          cases "list_at (cs_g (em_charsetState emu))
            (if hd chs < 0x80 then cs_gl (em_charsetState emu) else cs_gr (em_charsetState emu))")
        (simp_all only: lookupCharset_def Let_def if_True if_False Option.bind.simps prod.case,
          auto intro: exI [of _ "em_charsetState emu"])
    then show ?thesis
      unfolding hdl_graphemes_def Let_def if_P [OF True] using rest by auto
  next
    case False
    show ?thesis
      unfolding hdl_graphemes_def Let_def if_not_P [OF False] using rest [of _ "em_charsetState emu"] same by simp
  qed
qed

lemma for_up_first:
  assumes "a < b"
  shows "for_up a b f s = do { s' \<leftarrow> f a s; for_up (a + 1) b f s' }"
proof -
  have "nat (b - a) = Suc (nat (b - (a + 1)))" using assms by simp
  then have "[0..<nat (b - a)] = 0 # map Suc [0..<nat (b - (a + 1))]" by (simp only: upt_conv_Cons map_Suc_upt zero_less_Suc)
  then show ?thesis by (simp add: for_up_def comp_def algebra_simps)
qed

lemma SU_above:
  assumes "emu_inv emu" and "3 * (em_nRows emu + fb_saveLines (cf emu)) < n"
  shows "hdl_csi_su n emu = None"
proof -
  note b = emu_inv_bounds [OF assms(1)] and fr = emu_inv_frame [OF assms(1)]
  let ?x = "scrollUp n (cf emu)"
  have s: "0 \<le> fb_saveLines (cf emu)" "0 \<le> n" using fr(1) b(2) assms(2) by (simp_all add: fb_wf_def)
  have x: "fb_wf ?x" "same_ring (cf emu) ?x" using fr(1) s by (simp_all add: scrollUp_wf scrollUp_fields(1))
  let ?e = "set_cf ?x emu" and ?y = "em_marginBottom emu - n"
  have "getIdx ?y 0 ?x < 0"
    using x fr b s assms(2) by (intro getIdx_above) (auto simp: fb_wf_def same_ring_def ring_size_def split: if_splits)
  then have "eraseRow ?y ?e = None"
    using b by (simp add: eraseRow_def on_cf_def eraseInRow_def eraseRange_def slice_def)
  then have "eraseRows ?y n ?e = None" using assms(2) b s by (simp add: eraseRows_def for_up_first)
  then show ?thesis using b by (simp add: hdl_csi_su_def)
qed

lemma ECH_right_of_margin:
  assumes "em_nColsEff emu < em_posX emu" and "0 \<le> n"
  shows "hdl_csi_ech n emu = None"
  using assms by (simp add: hdl_csi_ech_def on_cf_def eraseInRow_def eraseRange_def slice_def)


lemma fb_resize_fields:
  assumes "fb_resize c r fb = Some (x, mt, mb)"
  shows "fb_scrollHead x = 0" "fb_saveLines x = fb_saveLines fb" "fb_viewOffset x = 0" "fb_nCols x = c" "fb_nRows x = r"
  using assms by (auto simp: fb_resize_def Let_def split: Option.bind_splits)

lemma showCursor_fields [simp]:
  "em_posX (showCursor e) = em_posX e" "em_posY (showCursor e) = em_posY e" "em_md (showCursor e) = em_md e"
  "fb_scrollHead (cf (showCursor e)) = fb_scrollHead (cf e)" "fb_saveLines (cf (showCursor e)) = fb_saveLines (cf e)"
  "fb_viewOffset (cf (showCursor e)) = fb_viewOffset (cf e)" "fb_nCols (cf (showCursor e)) = fb_nCols (cf e)"
  "fb_nRows (cf (showCursor e)) = fb_nRows (cf e)"
  by (simp_all add: showCursor_def setCursorPos_def setCursorStyle_def)

text \<open>What \<open>resize\<close> does when the rows shrink on the main screen and the cursor is not in the rows that remain.\<close>

lemma emu_resize_shrink:
  assumes "emu_inv emu" and "\<not> md_altScreenBufferMode (em_md emu)" and "0 < c" and "0 < r" and "r \<le> em_posY emu"
  obtains e where "emu_resize c r emu = Some e" "em_posY e = em_posY emu - (em_nRows emu - r)"
    "em_posX e = min (em_posX emu) (c - 1)" "em_md e = em_md emu" "fb_scrollHead (cf e) = 0"
    "fb_saveLines (cf e) = fb_saveLines (cf emu)" "fb_viewOffset (cf e) = 0" "fb_nCols (cf e) = c" "fb_nRows (cf e) = r"
proof -
  note b = emu_inv_bounds [OF assms(1)]
  let ?h = "hideCursor emu" and ?n = "em_nRows emu - r"
  let ?s = "scrollUp ?n (cf ?h)"
  have pri: "em_cf ?h = Pri" "\<not> md_altScreenBufferMode (em_md ?h)"
    using assms(1,2) by (simp_all add: emu_inv_def hideCursor_def)
  have ok: "frame_ok (cf ?h) (em_nCols emu) (em_nRows emu) (em_marginTop emu) (em_marginBottom emu)"
    using emu_inv_frame_ok [OF hideCursor_inv [OF assms(1)]] by (simp add: hideCursor_def)
  have "0 \<le> ?n" using b assms(5) by simp
  then have sok: "frame_ok ?s (em_nCols emu) (em_nRows emu) (em_marginTop emu) (em_marginBottom emu)"
    by (rule scroll_frame_ok(1) [OF ok])
  have "fb_wf (cf ?h)" using ok by (simp only: frame_ok_def)
  then have "fb_saveLines ?s = fb_saveLines (cf ?h)" using scrollUp_fields(1) by (simp only: same_ring_def)
  then have wf: "fb_wf ?s" "kitty_ok ?s" "fb_saveLines ?s = fb_saveLines (cf emu)"
    using sok by (simp_all only: frame_ok_def) (simp add: hideCursor_def setCursorStyle_def)
  obtain x where x: "fb_resize c r ?s = Some (x, 0, r)"
    using fb_resize_frame_ok [OF wf(1,2) assms(3,4)] by (auto simp: ok_iff)
  note xf = fb_resize_fields [OF x]
  let ?e = "?h\<lparr>em_frame_pri := x, em_posY := em_posY emu - ?n, em_marginTop := 0, em_marginBottom := r,
    em_frame_alt := freeCells (em_frame_alt emu)\<rparr>"
  have rows: "resize_rows c r h = Some (h\<lparr>em_frame_pri := x, em_posY := em_posY h - (em_nRows h - r), em_marginTop := 0,
      em_marginBottom := r, em_frame_alt := freeCells (em_frame_alt h)\<rparr>)"
    if "em_cf h = Pri" "\<not> md_altScreenBufferMode (em_md h)" "r < em_posY h + 1" "\<not> em_nRows h < r"
      "fb_resize c r (scrollUp (em_nRows h - r) (cf h)) = Some (x, 0, r)" for h
    using that by (cases h) (simp add: resize_rows_def Let_def set_cf_def)
  let ?e = "?h\<lparr>em_frame_pri := x, em_posY := em_posY emu - ?n, em_marginTop := 0, em_marginBottom := r,
    em_frame_alt := freeCells (em_frame_alt ?h), em_nCols := c, em_nRows := r, em_nColsEff := c, em_hMargin := 0\<rparr>"
  have "resize_rows c r ?h = Some (?h\<lparr>em_frame_pri := x, em_posY := em_posY emu - ?n, em_marginTop := 0,
      em_marginBottom := r, em_frame_alt := freeCells (em_frame_alt ?h)\<rparr>)"
    using rows [OF pri] x b assms(5) by simp
  then have "emu_resize c r emu = Some ((showCursor (normalizeCursorPos ?e))\<lparr>em_links := newLinks\<rparr>)"
    using b assms by (auto simp: emu_resize_def Let_def)
  moreover have "cf ?e = x" using pri by (simp add: cf_def)
  ultimately show thesis
    using that [OF _ _ _ _ _ _ _ _ _] xf wf(3) b assms by simp
qed

text \<open>
  C39. A screen that is made lower while the cursor is just below the rows that remain: \<open>resize\<close> scrolls and
  lifts the cursor by the whole difference in height, which puts it above the screen. The next character
  goes to the history, or, when there is too little of it, crashes the emulator.
\<close>

theorem resize_off_screen:
  assumes "emu_inv emu" and "\<not> md_altScreenBufferMode (em_md emu)" and "0 < c" and "0 < r"
    and "r \<le> em_posY emu" and "em_posY emu < em_nRows emu - r"
  shows "\<exists>e. emu_resize c r emu = Some e \<and> em_posY e = em_posY emu - (em_nRows emu - r) \<and> em_posY e < 0 \<and>
    (em_posY emu + 2 * r + fb_saveLines (cf emu) < em_nRows emu \<and> \<not> md_insertMode (em_md emu) \<longrightarrow>
      hdl_graphemes env chs e = None)"
proof -
  obtain e where e: "emu_resize c r emu = Some e" "em_posY e = em_posY emu - (em_nRows emu - r)"
    "em_posX e = min (em_posX emu) (c - 1)" "em_md e = em_md emu" "fb_scrollHead (cf e) = 0"
    "fb_saveLines (cf e) = fb_saveLines (cf emu)" "fb_viewOffset (cf e) = 0" "fb_nCols (cf e) = c" "fb_nRows (cf e) = r"
    using emu_resize_shrink [OF assms(1-5)] by blast
  have "0 \<le> fb_saveLines (cf emu)" using emu_inv_frame(1) [OF assms(1)] by (simp add: fb_wf_def)
  then have "getIdx (em_posY e) (em_posX e) (cf e) < 0"
    if "em_posY emu + 2 * r + fb_saveLines (cf emu) < em_nRows emu"
    using that e assms(3,4,6) by (intro getIdx_above) auto
  then show ?thesis using e assms(6) graphemes_above [of e] by auto
qed

lemma resize_off_screen_witness:
  "\<exists>e. emu_resize 20 1 (blank20x5\<lparr>em_posY := 2\<rparr>) = Some e \<and> em_posY e = -2 \<and>
    hdl_graphemes plain_env [65] e = None"
proof -
  let ?emu = "blank20x5\<lparr>em_posY := 2\<rparr>"
  have "emu_inv ?emu" by (rule emu_inv_posY [OF blank20x5_inv]) (simp_all add: blank20x5_fields)
  moreover have "fb_saveLines (cf ?emu) = 0"
    by (simp add: blank20x5_def initial_def Emulator0_def NewFramebuffer3_def Push_def NewStack_def make_slice_def
        KITTY_KBD_STACK_MAX_def SaveLineUpperLimit_def cf_def)
  ultimately show ?thesis
    using resize_off_screen [of ?emu 20 1 plain_env "[65]"] by (auto simp: blank20x5_fields modes0_def)
qed

lemma ECH_decslrm:
  assumes "emu_inv emu" and "2 \<le> m" and "m + 1 < c" and "c \<le> em_nCols emu" and "0 \<le> k"
  shows "hdl_csi_ech k (hdl_csi_cha c (hdl_csi_decslrm [1, m] emu)) = None"
proof (rule ECH_right_of_margin)
  have "em_nColsEff (hdl_csi_decslrm [1, m] emu) = m" "em_nCols (hdl_csi_decslrm [1, m] emu) = em_nCols emu"
    using assms emu_inv_bounds [OF assms(1)] by (auto simp: hdl_csi_decslrm_def margin_home_def Let_def split: originMode.split)
  then show "em_nColsEff (hdl_csi_cha c (hdl_csi_decslrm [1, m] emu)) < em_posX (hdl_csi_cha c (hdl_csi_decslrm [1, m] emu))"
    using assms by (simp add: hdl_csi_cha_def)
qed (use assms in simp)

text \<open>
  C40. Calls that crash the emulator in every state that satisfies the invariant: scrolling up by a large
  count, because the count is not limited to the region; a title report without its second parameter;
  and erasing characters when the cursor was put to the right of the right margin.
\<close>

theorem unsafe_calls_panic:
  assumes "emu_inv emu" and "3 * (em_nRows emu + fb_saveLines (cf emu)) < n" and "2 \<le> m" and "m + 1 < c" and "c \<le> em_nCols emu"
  shows "run_call env (Edit (Hdl_csi_su n)) emu = None \<and>
    run_call env (Report (Hdl_csi_xtwinops [22] s)) emu = None \<and>
    run_call env (Edit (Hdl_csi_ech 1)) (hdl_csi_cha c (hdl_csi_decslrm [1, m] emu)) = None"
  using SU_above [OF assms(1,2)] ECH_decslrm [OF assms(1,3-5), of 1]
  by (simp add: hdl_csi_xtwinops_def list_at_def)

lemma unsafe_calls_panic_witness:
  "run_call plain_env (Edit (Hdl_csi_su 100)) blank20x5 = None \<and>
    run_call plain_env (Report (Hdl_csi_xtwinops [22] '''')) blank20x5 = None \<and>
    run_call plain_env (Edit (Hdl_csi_ech 1)) (hdl_csi_cha 8 (hdl_csi_decslrm [1, 4] blank20x5)) = None"
proof -
  have "fb_saveLines (cf blank20x5) = 0"
    by (simp add: blank20x5_def initial_def Emulator0_def NewFramebuffer3_def Push_def NewStack_def make_slice_def
        KITTY_KBD_STACK_MAX_def SaveLineUpperLimit_def cf_def)
  then show ?thesis
    using unsafe_calls_panic [OF blank20x5_inv, of 100 4 8 plain_env "''''"] by (simp add: blank20x5_fields)
qed

section \<open>Saving the cursor\<close>

lemma savedDEC_set [simp]: "savedDEC (set_savedDEC sd emu) = sd"
  by (simp add: savedDEC_def set_savedDEC_def split: screen.split)

lemma set_savedDEC_fields [simp]:
  "em_posX (set_savedDEC sd emu) = em_posX emu" "em_posY (set_savedDEC sd emu) = em_posY emu"
  "em_lastCol (set_savedDEC sd emu) = em_lastCol emu" "em_attrs (set_savedDEC sd emu) = em_attrs emu"
  "em_charsetState (set_savedDEC sd emu) = em_charsetState emu" "em_md (set_savedDEC sd emu) = em_md emu"
  by (simp_all add: set_savedDEC_def split: screen.split)

text \<open>
  Restoring what was saved: whatever happened since \<open>DECSC\<close>, as long as the size is the same and nothing
  else was saved, \<open>DECRC\<close> brings back the position, the pending wrap, the attributes, the character sets and
  the origin mode, and a second \<open>DECRC\<close> changes nothing.
\<close>

theorem decsc_decrc:
  assumes "emu_inv emu" and "emu_inv e" and "savedDEC e = savedDEC (hdl_esc_decsc emu)"
    and "em_nCols e = em_nCols emu" and "em_nRows e = em_nRows emu"
  shows "let r = hdl_esc_decrc e in
    em_posX r = em_posX emu \<and> em_posY r = em_posY emu \<and> em_lastCol r = em_lastCol emu \<and> em_attrs r = em_attrs emu \<and>
    em_charsetState r = em_charsetState emu \<and> md_originMode (em_md r) = md_originMode (em_md emu) \<and> hdl_esc_decrc r = r"
  using assms(3-5) emu_inv_bounds [OF assms(1)] emu_inv_bounds [OF assms(2)]
  by (simp add: hdl_esc_decrc_def hdl_esc_decsc_def savedDEC_isSet_def Let_def min_def set_modes_def)

lemma decsc_decrc_witness:
  "em_posX (hdl_esc_decrc (hdl_csi_cup 3 9 (hdl_esc_decsc blank20x5))) = 0"
proof -
  let ?e = "hdl_csi_cup 3 9 (hdl_esc_decsc blank20x5)"
  have e: "savedDEC ?e = savedDEC (hdl_esc_decsc blank20x5)" "em_nCols ?e = em_nCols blank20x5" "em_nRows ?e = em_nRows blank20x5"
    by (simp_all add: hdl_csi_cup_def savedDEC_def hdl_esc_decsc_def set_savedDEC_def split: screen.split)
  have "emu_inv ?e" using cursor_moves_inv [OF decsc_inv [OF blank20x5_inv]] by simp
  from decsc_decrc [OF blank20x5_inv this e] show ?thesis by (simp add: Let_def blank20x5_fields)
qed

end
