(* ===== verification/DisplayProps.thy ===== *)
theory DisplayProps
  imports Display EmulatorProps
begin

text \<open>
  Properties of the display: nothing is sent for a screen that has not changed, and a row is drawn to its
  end exactly when its wide characters are intact.
\<close>

section \<open>Rows\<close>

lemma row_step_frameX:
  assumes "row_step d ini newRow oldRow w y wt st = Some st'"
  shows "0 \<le> rw_frameX st \<and> rw_frameX st < int (length newRow) \<and>
    rw_frameX st' = rw_frameX st + GetWidth_cell (newRow ! nat (rw_frameX st))"
proof -
  have "GetWidth_cell c = 1" if "IsBlank c" for c using that by (simp add: IsBlank_def GetWidth_cell_def)
  then show ?thesis
    using assms
    by (auto simp: row_step_def Let_def list_at_def bind_eq_Some_conv draw_cell_def split: if_splits)
qed

lemma row_step_returns:
  assumes "0 \<le> rw_frameX st" and "rw_frameX st < int (length newRow)" and "length newRow \<le> length oldRow"
  shows "row_step d ini newRow oldRow w y wt st \<noteq> None"
  using assms by (cases "ini \<and> rw_clearCount st = 0") (simp_all add: row_step_def list_at_def Let_def del: not_None_eq)

text \<open>
  The cells that the loop visits: a wide character is followed by its continuation, which is passed over.
  \<open>intact\<close>: none of them is a continuation cell.
\<close>

fun intact :: "cell list \<Rightarrow> bool" where
  "intact [] = True"
| "intact (c # cs) = (\<not> ce_dwidthCont c \<and> intact (if ce_dwidth c then tl cs else cs))"

lemma intact_drop:
  assumes "0 \<le> x" and "x < int (length row)"
  shows "intact (drop (nat x) row) \<longleftrightarrow> \<not> ce_dwidthCont (row ! nat x) \<and>
    intact (drop (nat (x + GetWidth_cell (row ! nat x))) row)"
proof -
  have n: "nat x < length row" using assms by simp
  have "nat (x + GetWidth_cell c) = (if ce_dwidthCont c then nat x else if ce_dwidth c then Suc (Suc (nat x)) else Suc (nat x))" for c
    using assms(1) by (simp add: GetWidth_cell_def nat_add_distrib)
  then show ?thesis
    using Cons_nth_drop_Suc [OF n, symmetric] by (auto simp: tl_drop drop_Suc)
qed

lemma row_loop_returns:
  assumes "length newRow \<le> length oldRow" and "0 \<le> rw_frameX st" and "intact (drop (nat (rw_frameX st)) newRow)"
  shows "row_loop d ini newRow oldRow (int (length newRow)) y wt st \<noteq> None"
  using assms(2,3)
proof (induction "nat (int (length newRow) - rw_frameX st)" arbitrary: st rule: less_induct)
  case less
  let ?x = "rw_frameX st"
  show ?case
  proof (cases "?x < int (length newRow)")
    case True
    obtain st' where st': "row_step d ini newRow oldRow (int (length newRow)) y wt st = Some st'"
      using row_step_returns [OF less.prems(1) True assms(1)] by blast
    then have x': "rw_frameX st' = ?x + GetWidth_cell (newRow ! nat ?x)" using row_step_frameX by blast
    have "\<not> ce_dwidthCont (newRow ! nat ?x)" "intact (drop (nat (rw_frameX st')) newRow)"
      using intact_drop [OF less.prems(1) True] less.prems(2) x' by auto
    moreover have "?x < rw_frameX st'" using x' calculation(1) by (simp add: GetWidth_cell_def)
    ultimately have "row_loop d ini newRow oldRow (int (length newRow)) y wt st' \<noteq> None"
      using less.prems(1) True by (intro less.hyps) auto
    then show ?thesis using True st' by (subst row_loop.simps) simp
  next
    case False
    then show ?thesis by (subst row_loop.simps) simp
  qed
qed

lemma row_loop_intact:
  assumes "row_loop d ini newRow oldRow w y wt st = Some st'"
  shows "w = int (length newRow) \<longrightarrow> 0 \<le> rw_frameX st \<longrightarrow> intact (drop (nat (rw_frameX st)) newRow)"
proof (rule row_loop.raw_induct [where P = "\<lambda>d ini newRow oldRow w y wt st st'.
    w = int (length newRow) \<longrightarrow> 0 \<le> rw_frameX st \<longrightarrow> intact (drop (nat (rw_frameX st)) newRow)", OF _ assms])
  fix rec d ini newRow oldRow w y wt st st'
  assume IH: "\<And>d ini newRow oldRow w y wt st st'. rec d ini newRow oldRow w y wt st = Some st' \<Longrightarrow>
      w = int (length newRow) \<longrightarrow> 0 \<le> rw_frameX st \<longrightarrow> intact (drop (nat (rw_frameX st)) newRow)"
    and step: "(if rw_frameX st < w then row_step d ini newRow oldRow w y wt st \<bind>
      rec d ini newRow oldRow w y wt else Some st) = Some st'"
  show "w = int (length newRow) \<longrightarrow> 0 \<le> rw_frameX st \<longrightarrow> intact (drop (nat (rw_frameX st)) newRow)"
  proof (intro impI)
    assume w: "w = int (length newRow)" and x: "0 \<le> rw_frameX st"
    show "intact (drop (nat (rw_frameX st)) newRow)"
    proof (cases "rw_frameX st < w")
      case True
      then obtain st1 where st1: "row_step d ini newRow oldRow w y wt st = Some st1"
        and r: "rec d ini newRow oldRow w y wt st1 = Some st'"
        using step by (auto simp: bind_eq_Some_conv)
      have x1: "rw_frameX st1 = rw_frameX st + GetWidth_cell (newRow ! nat (rw_frameX st))"
        using row_step_frameX [OF st1] by simp
      then have rest: "intact (drop (nat (rw_frameX st1)) newRow)"
        using IH [OF r] w x by (simp add: GetWidth_cell_def split: if_splits)
      show ?thesis
      proof (cases "ce_dwidthCont (newRow ! nat (rw_frameX st))")
        case True
        then show ?thesis using rest x1 by (simp add: GetWidth_cell_def)
      next
        case False
        then show ?thesis using intact_drop x \<open>rw_frameX st < w\<close> w rest x1 by simp
      qed
    qed (use w in simp)
  qed
qed

lemma row_loop_total:
  assumes "length newRow \<le> length oldRow" and "0 \<le> rw_frameX st"
  shows "row_loop d ini newRow oldRow (int (length newRow)) y wt st \<noteq> None \<longleftrightarrow>
    intact (drop (nat (rw_frameX st)) newRow)"
  using row_loop_returns [OF assms] row_loop_intact [of d ini newRow oldRow _ y wt st] assms(2) by blast

text \<open>
  C14. A row that has to be drawn is drawn exactly when its wide characters are intact. A continuation cell
  that is not behind its wide character has the width 0, and the loop over the cells stays there for ever.
\<close>

theorem putRow2_returns:
  assumes "length newRow = nat (em_nCols newE)" and "0 < em_nCols newE" and "length newRow \<le> length oldRow"
    and "\<not> (initialized \<and> newRow = oldRow)"
  shows "putRow2 d initialized newE newRow frameY oldRow False fs \<noteq> None \<longleftrightarrow> intact newRow"
proof -
  have cols: "em_nCols newE = int (length newRow)" "newRow \<noteq> []" using assms(1,2) by auto
  let ?st = "\<lparr>rw_frameX = 0, rw_clearCount = 0, rw_wroteLast = False, rw_blank = Renditions0, rw_fs = fs\<rparr>"
  have loop: "row_loop d initialized newRow oldRow (int (length newRow)) frameY wt ?st \<noteq> None \<longleftrightarrow> intact newRow"
    for wt using row_loop_total [OF assms(3), of ?st] by simp
  have "\<not> (initialized \<and> equalRow newRow oldRow)" using assms(4) by (simp add: equalRow_def list.rel_eq)
  then have "putRow2 d initialized newE newRow frameY oldRow False fs \<noteq> None \<longleftrightarrow>
      row_loop d initialized newRow oldRow (int (length newRow)) frameY (ce_wrap (last newRow)) ?st \<noteq> None"
    by (cases "row_loop d initialized newRow oldRow (int (length newRow)) frameY (ce_wrap (last newRow)) ?st")
      (simp_all add: putRow2_def list_at_last cols Let_def del: not_None_eq)
  then show ?thesis using loop by simp
qed

text \<open>Two wide characters, the second of which has overwritten the continuation cell of the first.\<close>

lemma putRow2_returns_witness:
  "let wide = Cell0\<lparr>ce_contents := [CHR 0xE4, CHR 0xB8, CHR 0x96], ce_dwidth := True\<rparr>;
       cont = Cell0\<lparr>ce_dwidthCont := True\<rparr>;
       e = blank20x5\<lparr>em_nCols := 4\<rparr>;
       old = replicate 4 Cell0;
       drawn = (\<lambda>row. putRow2 (NewDisplay plain_env [] False) True e row 0 old False
         \<lparr>fs_lastFrame = e, fs_out = [], fs_currentRendition = Renditions0, fs_cursorX = 0, fs_cursorY = 0,
          fs_showCursorMode = True\<rparr>)
   in drawn [wide, cont, Cell0, Cell0] \<noteq> None \<and> drawn [Cell0, cont, Cell0, Cell0] = None"
proof -
  let ?wide = "Cell0\<lparr>ce_contents := [CHR 0xE4, CHR 0xB8, CHR 0x96], ce_dwidth := True\<rparr>"
  let ?cont = "Cell0\<lparr>ce_dwidthCont := True\<rparr>"
  have n: "?wide \<noteq> Cell0" "?cont \<noteq> Cell0" by (simp_all add: Cell0_def)
  have i: "intact [?wide, ?cont, Cell0, Cell0]" "\<not> intact [Cell0, ?cont, Cell0, Cell0]" by (simp_all add: Cell0_def)
  have old: "replicate 4 Cell0 = [Cell0, Cell0, Cell0, Cell0]" by (simp add: numeral_eq_Suc)
  have r: "putRow2 (NewDisplay plain_env [] False) True (blank20x5\<lparr>em_nCols := 4\<rparr>) row 0 (replicate 4 Cell0) False fs \<noteq> None
      \<longleftrightarrow> intact row" if "length row = 4" "row \<noteq> replicate 4 Cell0" for row fs
    using that by (intro putRow2_returns) simp_all
  show ?thesis
    unfolding Let_def using r [of "[?wide, ?cont, Cell0, Cell0]"] r [of "[Cell0, ?cont, Cell0, Cell0]"] n i
    by (simp add: old del: not_None_eq intact.simps)
qed

section \<open>An unchanged screen\<close>

lemma getRowAt_some:
  assumes "emu_inv e" and "0 \<le> y" and "y < em_nRows e"
  shows "getRowAt y e \<noteq> None"
proof -
  have "in_row (cf e) y 0 (em_nCols e)"
    using assms emu_inv_frame [OF assms(1)] by (simp add: in_row_def fb_wf_def)
  from in_row_idx [OF emu_inv_frame(1,2) [OF assms(1)] this] emu_inv_bounds(1) [OF assms(1)] show ?thesis
    using emu_inv_frame [OF assms(1)] by (auto simp: getRowAt_def getIdx_def getPhysRowIdx_def slice_def Let_def fb_wf_def)
qed

lemma putRow2_same: "putRow2 d True e row y row False fs = Some (False, fs)"
  by (simp add: putRow2_def equalRow_def list.rel_refl)

lemma replicateContent_same:
  assumes "emu_inv e"
  shows "replicateContent d True e e False fs = Some fs"
proof (cases "md_altScreenBufferMode (em_md e)")
  case True
  have "ok (for_up 0 (em_nRows e) (\<lambda>i (frameY, wrap, fs). do {
         oldRow \<leftarrow> getRowAt i e;
         newRow \<leftarrow> getRowAt i e;
         (wrap', fs') \<leftarrow> putRow2 d True e newRow frameY oldRow wrap fs;
         Some (frameY + 1, wrap', fs')
       }) (0, False, fs)) (\<lambda>(y, wrap, fs'). \<not> wrap \<and> fs' = fs)"
    by (rule for_up_inv) (use getRowAt_some [OF assms] in \<open>fastforce simp: putRow2_same ok_iff\<close>)+
  then show ?thesis
    using True emu_inv_bounds(1) [OF assms]
    by (auto simp: replicateContent_def replicateASB_def make_slice_def ok_iff)
next
  case False
  have "calculateRows e e = 0" by (simp add: calculateRows_def firstScreen_def Let_def)
  then show ?thesis
    using False emu_inv_bounds(1) [OF assms] by (simp add: replicateContent_def make_slice_def for_up_def)
qed

text \<open>Each group of checks finds no difference.\<close>

lemma mode_change_same: "mode_change True b b p q fs = fs"
  by (simp add: mode_change_def)

lemma frame_parts_same:
  "frame_titles d True e e fs = fs" "frame_screen True e e fs = (False, fs)" "frame_margins True e e fs = fs"
  "frame_mouse True e e fs = fs" "frame_modes True n n fs = fs" "frame_keys True n n fs = fs"
  "frame_tabs True e e fs = fs" "frame_levels True e e fs = fs"
  by (simp_all add: frame_titles_def titleChanged_def frame_screen_def frame_margins_def frame_mouse_def
      frame_modes_def frame_keys_def frame_tabs_def frame_levels_def mode_change_same Let_def)

lemma frame_size_same:
  "frame_size True e e fs =
    (True, fs\<lparr>fs_cursorX := GetCursorCol e, fs_cursorY := GetCursorRow e, fs_currentRendition := ce_renditions (em_attrs e)\<rparr>)"
  by (simp add: frame_size_def)

lemma frame_cursor_same:
  assumes "fs_cursorX fs = GetCursorCol e" "fs_cursorY fs = GetCursorRow e"
    "fs_currentRendition fs = ce_renditions (em_attrs e)" "fs_showCursorMode fs = md_showCursorMode (em_md e)"
  shows "frame_cursor True e e fs = fs"
  using assms by (simp add: frame_cursor_def mode_change_same updateRendition_def Let_def)

text \<open>
  C31. Nothing is sent for a screen that has not changed.
\<close>

theorem NewFrame_unchanged:
  assumes "emu_inv e"
  shows "NewFrame d True e e = Some []"
  by (simp add: NewFrame_def frame_parts_same frame_size_same frame_cursor_same replicateContent_same [OF assms]
      mode_change_same Let_def)

lemma NewFrame_unchanged_witness: "NewFrame (NewDisplay plain_env [] False) True blank20x5 blank20x5 = Some []"
  by (rule NewFrame_unchanged [OF blank20x5_inv])

end
