(* ===== verification/MainServer.thy ===== *)
theory MainServer
  imports Handlers "HOL-Library.AList"
begin

text \<open>
  The main process of \<open>frontend/server/server.go\<close>, which starts one child per client and keeps the table
  of their ports, and the two ends of the conversation that starts a session: \<open>beginChild\<close> and \<open>fetchKey\<close>.

  The outside world is a record: is a port free, does a child start and with which process number, what
  comes through the channel \<open>exChan\<close> within 145 ms, does a kill succeed. A child that is nil (the
  placeholder of a port that somebody else uses) is \<open>None\<close>. What the process does to others is part of
  the result: the reply to the client, the process that gets a signal. \<open>None\<close> is a panic.
\<close>

section \<open>Text helpers\<close>

text \<open>\<open>strings.TrimSpace\<close>: the white space of Unicode, encoded in UTF-8.\<close>

definition white_space :: "string list" where
  "white_space = map utf8 ([9..<14] @ [32, 0x85, 0xA0, 0x1680] @ [0x2000..<0x200B] @
     [0x2028, 0x2029, 0x202F, 0x205F, 0x3000])"

function trim_left :: "string list \<Rightarrow> string \<Rightarrow> string" where
  "trim_left ws s =
     (case find (\<lambda>w. w \<noteq> [] \<and> has_prefix s w) ws of
        None \<Rightarrow> s
      | Some w \<Rightarrow> trim_left ws (drop (length w) s))"
  by pat_completeness auto
termination
proof (relation "measure (\<lambda>(ws, s). length s)")
  fix ws s w
  assume "find (\<lambda>w. w \<noteq> [] \<and> has_prefix s w) ws = Some w"
  then have w: "w \<noteq> []" "take (length w) s = w" by (auto simp: find_Some_iff has_prefix_def)
  then have "s \<noteq> []" by auto
  then show "((ws, drop (length w) s), ws, s) \<in> measure (\<lambda>(ws, s). length s)" using w(1) by simp
qed simp

declare trim_left.simps [simp del]

definition TrimSpace :: "string \<Rightarrow> string" where
  "TrimSpace s = rev (trim_left (map rev white_space) (rev (trim_left white_space s)))"

definition TrimPrefix :: "string \<Rightarrow> string \<Rightarrow> string" where
  "TrimPrefix s pre = (if has_prefix s pre then drop (length pre) s else s)"

section \<open>The state of the main process\<close>

definition AprilshMsgOpen :: string where "AprilshMsgOpen = ''open aprilsh:''"
definition AprishMsgClose :: string where "AprishMsgClose = ''close aprilsh:''"
definition maxPortLimit :: nat where "maxPortLimit = 100"

record workhorse =
  wh_child :: "int option"
  wh_shellPid :: int

definition placeholder :: workhorse where
  "placeholder = \<lparr>wh_child = None, wh_shellPid = 0\<rparr>"

record mainSrv =
  ms_workers :: "(int \<times> workhorse) list"
  ms_maxPort :: int
  ms_port :: int

text \<open>A port that is no number gives 0; \<open>buildConfig\<close> has rejected the numbers out of range.\<close>

definition newMainSrv :: "string \<Rightarrow> mainSrv" where
  "newMainSrv desiredPort =
     (let port = (case Atoi desiredPort of Some n \<Rightarrow> n | None \<Rightarrow> 0)
      in \<lparr>ms_workers = [], ms_maxPort = port + 1, ms_port = port\<rparr>)"

section \<open>Ports\<close>

text \<open>The loop of \<open>getAvailabePort\<close>: the first index whose port is not the one it would be without gaps.\<close>

fun gap_loop :: "int \<Rightarrow> int list \<Rightarrow> nat list \<Rightarrow> int" where
  "gap_loop port ports [] = port"
| "gap_loop port ports (i # is) =
     (if i < length ports \<and> port + int i + 1 < ports ! i then port + int i + 1
      else gap_loop port ports is)"

definition getAvailabePort :: "mainSrv \<Rightarrow> int \<times> mainSrv" where
  "getAvailabePort m =
     (if length (ms_workers m) > 0 then
        let ports = sort (map fst (ms_workers m));
            maxPort = last ports + 1;
            port = gap_loop (ms_port m) ports [0..<nat (maxPort - ms_port m)]
        in if port = ms_port m then (maxPort, m\<lparr>ms_maxPort := maxPort + 1\<rparr>)
           else (port, m\<lparr>ms_maxPort := maxPort\<rparr>)
      else (ms_port m + 1, m\<lparr>ms_maxPort := ms_port m + 2\<rparr>))"

text \<open>At most so many tries; each port that is in use gets a placeholder, also the last one.\<close>

fun find_port :: "(int \<Rightarrow> bool) \<Rightarrow> nat \<Rightarrow> int \<Rightarrow> mainSrv \<Rightarrow> int \<times> mainSrv" where
  "find_port available 0 p m = (p, m)"
| "find_port available (Suc n) p m =
     (let (q, m1) = getAvailabePort m
      in if available q then (q, m1)
         else find_port available n q (m1\<lparr>ms_workers := AList.update q placeholder (ms_workers m1)\<rparr>))"

section \<open>Messages of the children\<close>

datatype message_error =
  Lack_of_colon | Lack_of_comma | Invalid_port | No_such_port | Invalid_shutdown | Kill_failed
| Invalid_pid | Unknown_header

text \<open>\<open>kill\<close> tells whether the shell with that number is gone afterwards. The first result is the key.\<close>

definition handleMessage ::
  "(int \<Rightarrow> bool) \<Rightarrow> string \<Rightarrow> mainSrv \<Rightarrow> (message_error + string) \<times> mainSrv" where
  "handleMessage kill content m =
     (case split_on CHR '':'' content of
        [header, body] \<Rightarrow>
          (case split_on CHR '','' body of
             [portStr, arg] \<Rightarrow>
               (case Atoi portStr of
                  None \<Rightarrow> (Inl Invalid_port, m)
                | Some port \<Rightarrow>
                    (case map_of (ms_workers m) port of
                       None \<Rightarrow> (Inl No_such_port, m)
                     | Some wh \<Rightarrow>
                         if header = ''serve'' then
                           (if arg \<noteq> ''shutdown'' then (Inl Invalid_shutdown, m)
                            else if \<not> kill (wh_shellPid wh) then (Inl Kill_failed, m) else (Inr [], m))
                         else if header = ''run'' then
                           (if arg \<noteq> ''shutdown'' then (Inl Invalid_shutdown, m)
                            else (Inr [], m\<lparr>ms_workers := AList.delete port (ms_workers m)\<rparr>))
                         else if header = ''key'' then (Inr arg, m)
                         else if header = ''shell'' then
                           (case Atoi arg of
                              None \<Rightarrow> (Inl Invalid_pid, m)
                            | Some pid \<Rightarrow> (Inr [],
                                m\<lparr>ms_workers := AList.update port (wh\<lparr>wh_shellPid := pid\<rparr>) (ms_workers m)\<rparr>))
                         else (Inl Unknown_header, m)))
           | _ \<Rightarrow> (Inl Lack_of_comma, m))
      | _ \<Rightarrow> (Inl Lack_of_colon, m))"

text \<open>What a child sends: its key, the number of its shell, and the two messages at its end.\<close>

definition child_message :: "string \<Rightarrow> int \<Rightarrow> string \<Rightarrow> string" where
  "child_message header port arg = header @ '':'' @ fmt_d port @ '','' @ arg"

section \<open>Requests\<close>

record child_conf =
  cc_term :: string
  cc_destination :: string
  cc_caps :: string
  cc_user :: string
  cc_host :: string
  cc_desiredPort :: string

record spawn_env =
  sp_available :: "int \<Rightarrow> bool"
  sp_start :: "child_conf \<Rightarrow> int option"
  sp_message :: "string option"
  sp_kill :: "int \<Rightarrow> bool"

definition writeRespTo :: "string \<Rightarrow> string \<Rightarrow> string" where
  "writeRespTo header msg = header @ msg @ [CHR 0x0A]"

text \<open>The end of \<open>startChild\<close>: a child that runs is given 145 ms to send its key.\<close>

definition wait_key :: "spawn_env \<Rightarrow> int \<Rightarrow> mainSrv \<Rightarrow> string \<times> mainSrv" where
  "wait_key env p m =
     (case sp_message env of
        None \<Rightarrow> (writeRespTo AprilshMsgOpen ''get key timeout'',
          m\<lparr>ms_workers := AList.delete p (ms_workers m)\<rparr>)
      | Some content \<Rightarrow>
          let (r, m1) = handleMessage (sp_kill env) content m;
              key = (case r of Inl e \<Rightarrow> [] | Inr k \<Rightarrow> k)
          in (writeRespTo AprilshMsgOpen (fmt_d p @ '','' @ key), m1))"

definition spawn_child :: "spawn_env \<Rightarrow> child_conf \<Rightarrow> mainSrv \<Rightarrow> string \<times> mainSrv" where
  "spawn_child env conf m =
     (let (p, m1) = find_port (sp_available env) 5 0 m
      in case sp_start env (conf\<lparr>cc_desiredPort := fmt_d p\<rparr>) of
           None \<Rightarrow> (writeRespTo AprilshMsgOpen ''start child failed'', m1)
         | Some pid \<Rightarrow>
             wait_key env p (m1\<lparr>ms_workers := AList.update p \<lparr>wh_child = Some pid, wh_shellPid = 0\<rparr> (ms_workers m1)\<rparr>))"

definition startChild ::
  "spawn_env \<Rightarrow> string \<Rightarrow> child_conf \<Rightarrow> mainSrv \<Rightarrow> (string \<times> mainSrv) option" where
  "startChild env req conf m =
     (if length (ms_workers m) \<ge> maxPortLimit then Some (writeRespTo AprilshMsgOpen ''over max port limit'', m)
      else do {
        body \<leftarrow> list_at (split_on CHR '':'' req) 1;
        (case split_on CHR '','' body of
           [t, destination, caps] \<Rightarrow>
             (case split_on CHR ''@'' destination of
                [user, host] \<Rightarrow>
                  Some (spawn_child env (conf\<lparr>cc_term := t, cc_destination := destination, cc_caps := caps,
                    cc_user := user, cc_host := host\<rparr>) m)
              | _ \<Rightarrow> Some (writeRespTo AprilshMsgOpen ''malform destination'', m))
         | _ \<Rightarrow> Some (writeRespTo AprilshMsgOpen ''malform request'', m))
      })"

text \<open>The second result is the child that gets a signal.\<close>

definition closeChild :: "string \<Rightarrow> mainSrv \<Rightarrow> string \<times> int option" where
  "closeChild req m =
     (case Atoi (TrimPrefix req AprishMsgClose) of
        None \<Rightarrow> (writeRespTo AprishMsgClose ''wrong port number'', None)
      | Some port \<Rightarrow>
          (case map_of (ms_workers m) port of
             None \<Rightarrow> (writeRespTo AprishMsgClose ''port does not exist'', None)
           | Some wh \<Rightarrow>
               (case wh_child wh of
                  Some pid \<Rightarrow> (writeRespTo AprishMsgClose ''done'', Some pid)
                | None \<Rightarrow> (writeRespTo AprishMsgClose ''close port is a holder'', None))))"

section \<open>The loop\<close>

text \<open>
  A message in \<open>run\<close>: the log of the clients reads the process number of every child, and that panics
  for a placeholder.
\<close>

definition run_message :: "(int \<Rightarrow> bool) \<Rightarrow> string \<Rightarrow> mainSrv \<Rightarrow> mainSrv option" where
  "run_message kill msg m =
     (let (r, m1) = handleMessage kill msg m
      in if list_ex (\<lambda>(port, wh). wh_child wh = None) (ms_workers m1) then None else Some m1)"

text \<open>A datagram: the reply, the child that gets a signal, and the new state.\<close>

definition run_request ::
  "spawn_env \<Rightarrow> child_conf \<Rightarrow> string \<Rightarrow> mainSrv \<Rightarrow> (string \<times> int option \<times> mainSrv) option" where
  "run_request env conf datagram m =
     (let req = TrimSpace datagram
      in if has_prefix req AprilshMsgOpen then
           map_option (\<lambda>(resp, m1). (resp, None, m1)) (startChild env req conf m)
         else if has_prefix req AprishMsgClose then
           (let (resp, sig) = closeChild req m in Some (resp, sig, m))
         else Some (writeRespTo AprishMsgClose ''unknow request'', None, m))"

text \<open>
  The end: every child gets a signal, then the main process waits until only placeholders are left.
  The placeholders are counted after a message, so \<open>holder\<close> is 0 until the first one. The state is
  \<open>None\<close> while the messages of the list are not enough.
\<close>

definition holders :: "mainSrv \<Rightarrow> nat" where
  "holders m = length (filter (\<lambda>(port, wh). wh_child wh = None) (ms_workers m))"

fun shutdown_loop :: "(int \<Rightarrow> bool) \<Rightarrow> nat \<Rightarrow> string list \<Rightarrow> mainSrv \<Rightarrow> mainSrv option" where
  "shutdown_loop kill holder [] m = (if holder = length (ms_workers m) then Some m else None)"
| "shutdown_loop kill holder (msg # msgs) m =
     (if holder = length (ms_workers m) then Some m
      else let m1 = snd (handleMessage kill msg m) in shutdown_loop kill (holders m1) msgs m1)"

definition shutdown_signals :: "mainSrv \<Rightarrow> int list" where
  "shutdown_signals m = List.map_filter (\<lambda>(port, wh). wh_child wh) (ms_workers m)"

definition mainSrv_shutdown :: "(int \<Rightarrow> bool) \<Rightarrow> string list \<Rightarrow> mainSrv \<Rightarrow> mainSrv option" where
  "mainSrv_shutdown kill msgs m = (if length (ms_workers m) \<noteq> 0 then shutdown_loop kill 0 msgs m else Some m)"

section \<open>The other end\<close>

text \<open>The request that \<open>beginChild\<close> sends to the main process.\<close>

definition open_request :: "child_conf \<Rightarrow> string" where
  "open_request conf = AprilshMsgOpen @ cc_term conf @ '','' @ cc_destination conf @ '','' @ cc_caps conf"

text \<open>What \<open>fetchKey\<close> makes of the reply: a port and a key. \<open>valid_key\<close> is the check of \<open>NewBase64Key2\<close>.\<close>

datatype fetch_error = Bad_response string | No_port | No_key

definition fetchKey_reply ::
  "(string \<Rightarrow> bool) \<Rightarrow> int \<Rightarrow> string \<Rightarrow> fetch_error + (int \<times> string)" where
  "fetchKey_reply valid_key mapping b =
     (let out = TrimSpace b
      in case split_on CHR '':'' out of
           [header, body] \<Rightarrow>
             if header \<noteq> take 12 AprilshMsgOpen then Inl (Bad_response out)
             else (case split_on CHR '','' body of
                     [port, key] \<Rightarrow>
                       if length port > 0 \<and> length key > 0 then
                         (case Atoi port of
                            None \<Rightarrow> Inl No_port
                          | Some p \<Rightarrow> if valid_key key then Inr (p + mapping, key) else Inl No_key)
                       else Inl (Bad_response body)
                   | _ \<Rightarrow> Inl (Bad_response body))
         | _ \<Rightarrow> Inl (Bad_response out))"

end
