(* ===== verification/MainServerProps.thy ===== *)
theory MainServerProps
  imports MainServer
begin

text \<open>
  The table of ports, the conversation that starts a session, and the messages of the children: the port
  that is given out is the least free one, the client reads the port and the key that the child has sent,
  and what a placeholder does to the main process.
\<close>

section \<open>Ports\<close>

definition ports_ok :: "mainSrv \<Rightarrow> bool" where
  "ports_ok m \<longleftrightarrow> distinct (map fst (ms_workers m)) \<and> list_all (\<lambda>(p, wh). ms_port m < p) (ms_workers m)"

lemma gap_loop_find:
  "gap_loop port ports is =
   (case find (\<lambda>i. i < length ports \<and> port + int i + 1 < ports ! i) is of
      None \<Rightarrow> port | Some i \<Rightarrow> port + int i + 1)"
  by (induction "is") auto

lemma find_upt: "find P [0..<n] = Some i \<longleftrightarrow> i < n \<and> P i \<and> (\<forall>j<i. \<not> P j)"
  by (auto simp: find_Some_iff)

lemma find_upt_None: "find P [0..<n] = None \<longleftrightarrow> (\<forall>j<n. \<not> P j)"
  by (auto simp: find_None_iff)

text \<open>Distinct ports above the base in order: the k-th is at least the base plus k.\<close>

lemma sorted_port_ge:
  fixes ports :: "int list"
  assumes "sorted ports" "distinct ports" "\<And>p. p \<in> set ports \<Longrightarrow> b < p" "j < length ports"
  shows "b + int j + 1 \<le> ports ! j"
  using assms(4)
proof (induction j)
  case 0
  then show ?case using assms(3) [of "ports ! 0"] by fastforce
next
  case (Suc j)
  have "ports ! j \<le> ports ! Suc j" "ports ! j \<noteq> ports ! Suc j"
    using assms(1,2) Suc.prems by (auto simp: sorted_iff_nth_mono nth_eq_iff_index_eq)
  then show ?case using Suc by auto
qed

lemma gap_loop_least:
  fixes ports :: "int list"
  assumes s: "sorted ports" "distinct ports" "\<And>p. p \<in> set ports \<Longrightarrow> b < p" and ne: "ports \<noteq> []"
    and p: "p = (let q = gap_loop b ports [0..<nat (last ports + 1 - b)] in if q = b then last ports + 1 else q)"
  shows "p \<notin> set ports \<and> b < p \<and> p \<le> last ports + 1 \<and> {b<..<p} \<subseteq> set ports \<and>
    (gap_loop b ports [0..<nat (last ports + 1 - b)] \<noteq> b \<longrightarrow> p \<le> last ports)"
proof -
  let ?P = "\<lambda>i. i < length ports \<and> b + int i + 1 < ports ! i"
  let ?n = "nat (last ports + 1 - b)"
  have ge: "b + int j + 1 \<le> ports ! j" if "j < length ports" for j using sorted_port_ge [OF s that] .
  have last: "last ports = ports ! (length ports - 1)" using ne by (simp add: last_conv_nth)
  have len: "length ports \<le> ?n" using ge [of "length ports - 1"] ne by (simp add: last)
  have mem: "q \<in> set ports" if q: "b < q" "q < b + int k + 1" and eq: "\<And>j. j < k \<Longrightarrow> ports ! j = b + int j + 1"
    and k: "k \<le> length ports" for q k
  proof -
    let ?j = "nat (q - b - 1)"
    have "?j < k" using q by simp
    moreover have "ports ! ?j = q" using eq [OF \<open>?j < k\<close>] q(1) by simp
    ultimately show ?thesis using k by (metis nth_mem order_less_le_trans)
  qed
  show ?thesis
  proof (cases "find ?P [0..<?n]")
    case None
    then have "\<not> ?P j" if "j < length ports" for j using that len by (auto simp: find_upt_None)
    then have eq: "ports ! j = b + int j + 1" if "j < length ports" for j using ge [OF that] that by force
    have "p = last ports + 1" using p None by (simp add: gap_loop_find)
    moreover have "last ports = b + int (length ports)" using eq [of "length ports - 1"] ne last
      by (cases "length ports") simp_all
    moreover have "q \<le> last ports" if "q \<in> set ports" for q
      using that s(1) by (auto simp: in_set_conv_nth last sorted_iff_nth_mono)
    moreover have "gap_loop b ports [0..<?n] = b" using None by (simp add: gap_loop_find)
    ultimately show ?thesis using mem [of _ "length ports"] eq ne by fastforce
  next
    case (Some i)
    then have i: "i < length ports" "b + int i + 1 < ports ! i" "\<And>j. j < i \<Longrightarrow> \<not> ?P j" by (auto simp: find_upt)
    have eq: "ports ! j = b + int j + 1" if "j < i" for j using i(3) [OF that] ge [of j] that i(1) by force
    have p': "p = b + int i + 1" using p Some by (simp add: gap_loop_find)
    have "p \<notin> set ports"
    proof
      assume "p \<in> set ports"
      then obtain k where k: "k < length ports" "ports ! k = p" by (auto simp: in_set_conv_nth)
      show False
      proof (cases "k < i")
        case True
        then show ?thesis using eq [OF True] k(2) p' by simp
      next
        case False
        then have "ports ! i \<le> ports ! k" using s(1) k(1) by (simp add: sorted_iff_nth_mono)
        then show ?thesis using i(2) k(2) p' by simp
      qed
    qed
    moreover have "ports ! i \<le> last ports" using s(1) i(1) ne by (simp add: last sorted_iff_nth_mono)
    ultimately show ?thesis using mem [of _ i] eq i(1,2) p' by auto
  qed
qed

text \<open>
  C30. The port that the main process gives to a new session is above its own port, belongs to no worker and to
  no placeholder, and is the least one: all ports in between are taken. \<open>maxPort\<close> is above all ports in use.
\<close>

theorem getAvailabePort_least:
  assumes "ports_ok m"
  shows "case getAvailabePort m of (p, m1) \<Rightarrow>
     ms_port m < p \<and> p \<notin> fst ` set (ms_workers m) \<and> {ms_port m<..<p} \<subseteq> fst ` set (ms_workers m) \<and>
     insert p (fst ` set (ms_workers m)) \<subseteq> {..<ms_maxPort m1} \<and> ms_workers m1 = ms_workers m"
proof (cases "ms_workers m")
  case Nil
  then show ?thesis by (auto simp: getAvailabePort_def)
next
  case (Cons w ws)
  define ports where "ports = sort (map fst (ms_workers m))"
  have ports: "sorted ports" "distinct ports" "set ports = fst ` set (ms_workers m)" "ports \<noteq> []"
    using assms by (simp_all add: ports_def ports_ok_def) (metis Cons length_0_conv length_map length_sort list.distinct(1))
  have above: "ms_port m < p" if "p \<in> set ports" for p
    using that assms by (auto simp: ports(3) ports_ok_def list_all_iff)
  have below: "p \<le> last ports" if "p \<in> set ports" for p
    using that ports(1,4) by (auto simp: in_set_conv_nth last_conv_nth sorted_iff_nth_mono)
  let ?q = "gap_loop (ms_port m) ports [0..<nat (last ports + 1 - ms_port m)]"
  have "getAvailabePort m = (if ?q = ms_port m then (last ports + 1, m\<lparr>ms_maxPort := last ports + 2\<rparr>)
      else (?q, m\<lparr>ms_maxPort := last ports + 1\<rparr>))"
    using Cons by (simp add: getAvailabePort_def ports_def Let_def)
  then show ?thesis
    using gap_loop_least [OF ports(1,2) above ports(4) refl] below ports(3)
    by (cases "?q = ms_port m") (force simp: Let_def)+
qed


section \<open>Strings\<close>

definition graphic :: "char \<Rightarrow> bool" where
  "graphic c \<longleftrightarrow> 33 \<le> (of_char c :: nat) \<and> (of_char c :: nat) \<le> 126"

lemma white_space_ends: "list_all (\<lambda>w. \<not> graphic (hd w) \<and> \<not> graphic (last w)) white_space"
  by (simp add: white_space_def utf8_def graphic_def)

lemma trim_left_graphic:
  assumes "list_all (\<lambda>w. \<not> graphic (hd w)) ws" "s \<noteq> []" "graphic (hd s)"
  shows "trim_left ws s = s"
proof -
  have "\<not> (w \<noteq> [] \<and> has_prefix s w)" if "w \<in> set ws" for w
  proof
    assume w: "w \<noteq> [] \<and> has_prefix s w"
    then have "hd w = hd s" unfolding has_prefix_def by (metis hd_take length_greater_0_conv)
    then show False using that assms by (auto simp: list_all_iff)
  qed
  then have "find (\<lambda>w. w \<noteq> [] \<and> has_prefix s w) ws = None" by (auto simp: find_None_iff)
  then show ?thesis by (simp add: trim_left.simps [of ws s])
qed

lemma trim_white:
  assumes "s \<noteq> []"
  shows "graphic (hd s) \<Longrightarrow> trim_left white_space s = s"
    and "graphic (hd s) \<Longrightarrow> trim_left (map rev white_space) s = s"
  using white_space_ends assms
  by (auto intro!: trim_left_graphic simp: list_all_iff hd_rev)

lemma trim_newline: "trim_left (map rev white_space) (CHR 0x0A # s) = trim_left (map rev white_space) s"
proof -
  obtain r where r: "map rev white_space = [CHR 0x09] # [CHR 0x0A] # r"
    by (simp add: white_space_def utf8_def char_of_def bit_0)
  have "find (\<lambda>w. w \<noteq> [] \<and> has_prefix (CHR 0x0A # s) w) (map rev white_space) = Some [CHR 0x0A]"
    unfolding r by (simp add: has_prefix_def)
  then show ?thesis by (simp add: trim_left.simps [of _ "CHR 0x0A # s"])
qed

lemma TrimSpace_graphic:
  assumes "s \<noteq> []" "graphic (hd s)" "graphic (last s)"
  shows "TrimSpace s = s" and "TrimSpace (s @ [CHR 0x0A]) = s"
proof -
  have r: "trim_left (map rev white_space) (rev s) = rev s" using assms by (intro trim_white) (simp_all add: hd_rev)
  show "TrimSpace s = s" using assms by (simp add: TrimSpace_def trim_white r)
  show "TrimSpace (s @ [CHR 0x0A]) = s" using assms by (simp add: TrimSpace_def trim_white trim_newline r)
qed

lemma Atoi_fmt_d:
  assumes "0 \<le> p" "p < 2 ^ 63"
  shows "Atoi (fmt_d p) = Some p"
proof -
  have "\<not> has_prefix (decimal n) ''-''" "\<not> has_prefix (decimal n) ''+''" for n
    using decimal_digits [of n] by (cases "decimal n"; auto simp: has_prefix_def is_digit_def)+
  then show ?thesis using assms decimal_digits [of "nat p"]
    by (simp add: Atoi_def fmt_d_def decimal_value Let_def)
qed

lemma fmt_d_chars: "0 \<le> p \<Longrightarrow> list_all is_digit (fmt_d p) \<and> fmt_d p \<noteq> []"
  using decimal_digits by (simp add: fmt_d_def)


section \<open>The start of a session\<close>

text \<open>The texts that go through the protocol: no separator, and no white space at their ends.\<close>

definition field :: "string \<Rightarrow> bool" where
  "field s \<longleftrightarrow> s \<noteq> [] \<and> list_all graphic s \<and> CHR '':'' \<notin> set s \<and> CHR '','' \<notin> set s"

lemma field_ends: "field s \<Longrightarrow> s \<noteq> [] \<and> graphic (last s)"
  by (auto simp: field_def list_all_iff)

lemma digit_field: "is_digit c \<Longrightarrow> graphic c \<and> c \<noteq> CHR '':'' \<and> c \<noteq> CHR '',''"
  by (auto simp: is_digit_def graphic_def)

lemma field_fmt_d: "0 \<le> p \<Longrightarrow> field (fmt_d p)"
  using fmt_d_chars [of p] digit_field by (auto simp: field_def list_all_iff)

lemma split_fields:
  assumes "field a" "field b"
  shows "split_on CHR '','' (a @ CHR '','' # b) = [a, b]"
  using assms by (simp add: field_def split_on_part split_on_none)

lemma handle_key:
  assumes "0 \<le> p" "p < 2 ^ 63" "field key" "map_of (ms_workers m) p = Some wh"
  shows "handleMessage kill (child_message ''key'' p key) m = (Inr key, m)"
proof -
  have "split_on CHR '':'' (child_message ''key'' p key) = [''key'', fmt_d p @ CHR '','' # key]"
    using assms(3) field_fmt_d [OF assms(1)]
    by (simp add: child_message_def field_def split_on_part [of _ "''key''", simplified] split_on_none)
  then show ?thesis
    using assms(4) split_fields [OF field_fmt_d [OF assms(1)] assms(3)]
    by (simp add: handleMessage_def Atoi_fmt_d [OF assms(1,2)])
qed

lemma reply_parsed:
  assumes "0 \<le> p" "p < 2 ^ 63" "field key" "valid_key key"
  shows "fetchKey_reply valid_key mapping (writeRespTo AprilshMsgOpen (fmt_d p @ '','' @ key)) = Inr (p + mapping, key)"
proof -
  let ?s = "''open aprilsh'' @ CHR '':'' # fmt_d p @ CHR '','' # key"
  have f: "field (fmt_d p)" using field_fmt_d [OF assms(1)] .
  have "writeRespTo AprilshMsgOpen (fmt_d p @ '','' @ key) = ?s @ [CHR 0x0A]"
    by (simp add: writeRespTo_def AprilshMsgOpen_def)
  moreover have "TrimSpace (?s @ [CHR 0x0A]) = ?s"
    by (rule TrimSpace_graphic) (use field_ends [OF assms(3)] in \<open>simp_all add: graphic_def\<close>)
  moreover have "split_on CHR '':'' ?s = [''open aprilsh'', fmt_d p @ CHR '','' # key]"
    using f assms(3) by (subst split_on_part) (simp_all add: field_def split_on_none)
  moreover have "take 12 AprilshMsgOpen = ''open aprilsh''" by (simp add: AprilshMsgOpen_def)
  ultimately show ?thesis
    using f field_ends [OF assms(3)] split_fields [OF f assms(3)] assms(4)
    by (simp add: fetchKey_reply_def Let_def Atoi_fmt_d [OF assms(1,2)] field_def)
qed

lemma request_trimmed:
  assumes "field (cc_caps conf)"
  shows "TrimSpace (open_request conf) = open_request conf"
  by (rule TrimSpace_graphic)
    (use field_ends [OF assms] in \<open>simp_all add: open_request_def AprilshMsgOpen_def graphic_def\<close>)

lemma request_fields:
  assumes "field (cc_term conf)" "field (cc_destination conf)" "field (cc_caps conf)"
  shows "list_at (split_on CHR '':'' (open_request conf)) 1
      = Some (cc_term conf @ CHR '','' # cc_destination conf @ CHR '','' # cc_caps conf)"
    and "split_on CHR '','' (cc_term conf @ CHR '','' # cc_destination conf @ CHR '','' # cc_caps conf)
      = [cc_term conf, cc_destination conf, cc_caps conf]"
proof -
  have "open_request conf = ''open aprilsh'' @ CHR '':'' # cc_term conf @ CHR '','' # cc_destination conf @ CHR '','' # cc_caps conf"
    by (simp add: open_request_def AprilshMsgOpen_def)
  then show "list_at (split_on CHR '':'' (open_request conf)) 1
      = Some (cc_term conf @ CHR '','' # cc_destination conf @ CHR '','' # cc_caps conf)"
    using assms by (simp only:) (subst split_on_part; simp add: field_def split_on_none list_at_def)
  show "split_on CHR '','' (cc_term conf @ CHR '','' # cc_destination conf @ CHR '','' # cc_caps conf)
      = [cc_term conf, cc_destination conf, cc_caps conf]"
    using assms by (simp add: field_def split_on_part split_on_none)
qed


text \<open>A request whose fields are well formed reaches \<open>spawn_child\<close> with the user and the host.\<close>

lemma startChild_request:
  assumes "field (cc_term conf)" "field user" "field host" "CHR ''@'' \<notin> set user" "CHR ''@'' \<notin> set host"
    and "field (cc_caps conf)" "cc_destination conf = user @ ''@'' @ host" "length (ms_workers m) < maxPortLimit"
  shows "run_request env conf0 (open_request conf) m =
    map_option (\<lambda>(resp, m1). (resp, None, m1)) (Some (spawn_child env
      (conf0\<lparr>cc_term := cc_term conf, cc_destination := cc_destination conf, cc_caps := cc_caps conf,
        cc_user := user, cc_host := host\<rparr>) m))"
proof -
  have d: "field (cc_destination conf)" using assms(2,3,7) by (auto simp: field_def graphic_def)
  have at: "split_on CHR ''@'' (cc_destination conf) = [user, host]"
    using assms(4,5,7) by (simp add: split_on_part split_on_none)
  have opens: "has_prefix (open_request conf) AprilshMsgOpen" by (simp add: has_prefix_def open_request_def)
  show ?thesis
    using assms(8) request_fields [OF assms(1) d assms(6)] at opens request_trimmed [OF assms(6)]
    by (simp add: run_request_def startChild_def Let_def)
qed

text \<open>
  C9. A request to open a session, with a child that starts on the least free port and sends its key, is answered by a
  line from which the client reads exactly that port (moved by its mapping) and that key; and the child is in
  the table of workers under the port.
\<close>

theorem open_session:
  assumes "field (cc_term conf)" "field user" "field host" "CHR ''@'' \<notin> set user" "CHR ''@'' \<notin> set host"
    and "field (cc_caps conf)" "cc_destination conf = user @ ''@'' @ host"
    and "length (ms_workers m) < maxPortLimit" "0 \<le> p" "p < 2 ^ 63"
    and "getAvailabePort m = (p, m0)" "sp_available env p" "\<And>c. sp_start env c = Some pid"
    and "sp_message env = Some (child_message ''key'' p key)" "field key" "valid_key key"
  shows "case run_request env conf0 (open_request conf) m of
      None \<Rightarrow> False
    | Some (resp, sig, m1) \<Rightarrow>
        fetchKey_reply valid_key mapping resp = Inr (p + mapping, key) \<and>
        map_of (ms_workers m1) p = Some \<lparr>wh_child = Some pid, wh_shellPid = 0\<rparr>"
proof -
  let ?m = "m0\<lparr>ms_workers := AList.update p \<lparr>wh_child = Some pid, wh_shellPid = 0\<rparr> (ms_workers m0)\<rparr>"
  have w: "map_of (ms_workers ?m) p = Some \<lparr>wh_child = Some pid, wh_shellPid = 0\<rparr>"
    by (simp add: update_conv')
  have "find_port (sp_available env) 5 0 m = (p, m0)"
    using assms(11,12) by (simp add: eval_nat_numeral)
  then have "spawn_child env c m = (writeRespTo AprilshMsgOpen (fmt_d p @ '','' @ key), ?m)" for c
    using assms(13,14) handle_key [OF assms(9,10,15) w] by (simp add: spawn_child_def wait_key_def)
  then show ?thesis
    using startChild_request [OF assms(1-8)] reply_parsed [OF assms(9,10,15), of valid_key mapping] assms(16) w by simp
qed

lemma open_session_witness:
  "let conf = \<lparr>cc_term = ''xterm'', cc_destination = ''ide@host'', cc_caps = ''e30='', cc_user = [], cc_host = [], cc_desiredPort = []\<rparr>;
       env = \<lparr>sp_available = (\<lambda>p. True), sp_start = (\<lambda>c. Some 77), sp_message = Some (child_message ''key'' 8101 ''31kR3xgfmNxhDESXQ8VIQw==''),
              sp_kill = (\<lambda>p. True)\<rparr>
   in case run_request env conf (open_request conf) (newMainSrv ''8100'') of
      None \<Rightarrow> False
    | Some (resp, sig, m1) \<Rightarrow>
        fetchKey_reply (\<lambda>k. True) 100 resp = Inr (8101 + 100, ''31kR3xgfmNxhDESXQ8VIQw=='') \<and>
        map_of (ms_workers m1) 8101 = Some \<lparr>wh_child = Some 77, wh_shellPid = 0\<rparr>"
proof -
  have m: "newMainSrv ''8100'' = \<lparr>ms_workers = [], ms_maxPort = 8101, ms_port = 8100\<rparr>"
    by (simp add: newMainSrv_def Atoi_def has_prefix_def is_digit_def digits_value_def)
  show ?thesis
    unfolding Let_def m
    by (rule open_session [where user = "''ide''" and host = "''host''" and pid = 77 and mapping = 100 and p = 8101 and
          m = "\<lparr>ms_workers = [], ms_maxPort = 8101, ms_port = 8100\<rparr>" and
          m0 = "\<lparr>ms_workers = [], ms_maxPort = 8102, ms_port = 8100\<rparr>"])
      (simp_all add: field_def graphic_def maxPortLimit_def getAvailabePort_def)
qed

text \<open>
  A destination may name the port of \<open>ssh\<close>, says the usage of both programs. The request then has a second colon,
  the main process reads only what is between the colons, and refuses it: no session ever starts.
\<close>

theorem destination_with_port:
  assumes "field (cc_term conf)" "CHR '':'' \<notin> set a" "CHR '','' \<notin> set a" "cc_destination conf = a @ CHR '':'' # ssh_port"
    and "field (cc_caps conf)" "length (ms_workers m) < maxPortLimit"
  shows "run_request env conf0 (open_request conf) m = Some (writeRespTo AprilshMsgOpen ''malform request'', None, m)"
proof -
  have "open_request conf = ''open aprilsh'' @ CHR '':'' # (cc_term conf @ CHR '','' # a) @ CHR '':'' # ssh_port @ CHR '','' # cc_caps conf"
    by (simp add: open_request_def AprilshMsgOpen_def assms(4))
  moreover have "split_on CHR '':'' (''open aprilsh'' @ CHR '':'' # (cc_term conf @ CHR '','' # a) @ CHR '':'' # ssh_port @ CHR '','' # cc_caps conf)
      = ''open aprilsh'' # (cc_term conf @ CHR '','' # a) # split_on CHR '':'' (ssh_port @ CHR '','' # cc_caps conf)"
    using assms(1,2)
    by (subst split_on_part, simp, subst split_on_part) (simp_all add: field_def)
  ultimately have body: "list_at (split_on CHR '':'' (open_request conf)) 1 = Some (cc_term conf @ CHR '','' # a)"
    by (simp add: list_at_def)
  have "split_on CHR '','' (cc_term conf @ CHR '','' # a) = [cc_term conf, a]"
    using assms(1,3) by (simp add: field_def split_on_part split_on_none)
  moreover have "has_prefix (open_request conf) AprilshMsgOpen" by (simp add: has_prefix_def open_request_def)
  ultimately show ?thesis
    using assms(6) body request_trimmed [OF assms(5)] by (simp add: run_request_def startChild_def Let_def)
qed

lemma destination_with_port_witness:
  "let conf = \<lparr>cc_term = ''xterm'', cc_destination = ''ide@host:22'', cc_caps = ''e30='', cc_user = [], cc_host = [], cc_desiredPort = []\<rparr>;
       env = \<lparr>sp_available = (\<lambda>p. True), sp_start = (\<lambda>c. Some 77), sp_message = None, sp_kill = (\<lambda>p. True)\<rparr>;
       m = \<lparr>ms_workers = [], ms_maxPort = 8101, ms_port = 8100\<rparr>
   in run_request env conf (open_request conf) m = Some (writeRespTo AprilshMsgOpen ''malform request'', None, m)"
  unfolding Let_def
  by (rule destination_with_port [where a = "''ide@host''" and ssh_port = "''22''"])
    (simp_all add: field_def graphic_def maxPortLimit_def)


section \<open>Messages of the children\<close>

lemma child_message_parts:
  assumes "CHR '':'' \<notin> set h" "field arg" "0 \<le> p" "p < 2 ^ 63"
  shows "split_on CHR '':'' (child_message h p arg) = [h, fmt_d p @ CHR '','' # arg]"
    and "split_on CHR '','' (fmt_d p @ CHR '','' # arg) = [fmt_d p, arg]" and "Atoi (fmt_d p) = Some p"
  using assms field_fmt_d [OF assms(3)] split_fields [OF field_fmt_d [OF assms(3)] assms(2)] Atoi_fmt_d [OF assms(3,4)]
  by (simp_all add: child_message_def field_def split_on_part split_on_none)

text \<open>A message of a child leaves the entries of the others alone.\<close>

lemma message_other:
  assumes "CHR '':'' \<notin> set h" "field arg" "0 \<le> p" "p < 2 ^ 63" "p \<noteq> q"
  shows "map_of (ms_workers (snd (handleMessage kill (child_message h p arg) m))) q = map_of (ms_workers m) q"
  using assms(5) child_message_parts [OF assms(1-4)]
  by (auto simp: handleMessage_def delete_conv' update_conv' split: option.split)

lemma placeholder_panics:
  assumes "map_of (ms_workers m) q = Some placeholder" "p \<noteq> q"
    and "CHR '':'' \<notin> set h" "field arg" "0 \<le> p" "p < 2 ^ 63"
  shows "run_message kill (child_message h p arg) m = None"
proof -
  have "map_of (ms_workers (snd (handleMessage kill (child_message h p arg) m))) q = Some placeholder"
    using message_other [OF assms(3-6,2)] assms(1) by simp
  then have "list_ex (\<lambda>(port, wh). wh_child wh = None) (ms_workers (snd (handleMessage kill (child_message h p arg) m)))"
    by (force simp: list_ex_iff placeholder_def dest!: map_of_SomeD intro: bexI [of _ "(q, placeholder)"])
  then show ?thesis by (simp add: run_message_def case_prod_beta)
qed

text \<open>
  C25. The first port is in use by another program: the session starts on the next port, and the client gets its key. But
  the placeholder of the busy port is in the table, and the first message that the child sends afterwards
  (the number of its shell, say) makes the log of the main process dereference nil: the server panics.
\<close>

theorem busy_port_panics:
  assumes "field (cc_term conf)" "field user" "field host" "CHR ''@'' \<notin> set user" "CHR ''@'' \<notin> set host"
    and "field (cc_caps conf)" "cc_destination conf = user @ ''@'' @ host"
    and "ms_workers m = []" "0 \<le> ms_port m" "p = ms_port m + 2" "p < 2 ^ 63"
    and "\<not> sp_available env (ms_port m + 1)" "sp_available env p" "\<And>c. sp_start env c = Some pid"
    and "sp_message env = Some (child_message ''key'' p key)" "field key"
    and "CHR '':'' \<notin> set h" "field arg"
  shows "case run_request env conf0 (open_request conf) m of
      None \<Rightarrow> False
    | Some (resp, sig, m1) \<Rightarrow>
        resp = writeRespTo AprilshMsgOpen (fmt_d p @ '','' @ key) \<and>
        run_message kill (child_message h p arg) m1 = None"
proof -
  let ?q = "ms_port m + 1"
  let ?m = "m\<lparr>ms_maxPort := p + 1, ms_workers := [(?q, placeholder), (p, \<lparr>wh_child = Some pid, wh_shellPid = 0\<rparr>)]\<rparr>"
  have upto2: "[0..<2] = [0, Suc 0]" by (simp add: upt_rec)
  have "getAvailabePort m = (?q, m\<lparr>ms_maxPort := p\<rparr>)" using assms(8,10) by (simp add: getAvailabePort_def)
  moreover have "getAvailabePort (m\<lparr>ms_maxPort := p, ms_workers := [(?q, placeholder)]\<rparr>) =
      (p, m\<lparr>ms_maxPort := p + 1, ms_workers := [(?q, placeholder)]\<rparr>)"
    using assms(10) upto2 by (cases m) (simp add: getAvailabePort_def Let_def)
  ultimately have "find_port (sp_available env) 5 0 m = (p, m\<lparr>ms_maxPort := p + 1, ms_workers := [(?q, placeholder)]\<rparr>)"
    using assms(8,12,13) by (simp add: eval_nat_numeral)
  moreover have "p \<noteq> ?q" "0 \<le> p" using assms(9,10) by simp_all
  ultimately have "spawn_child env c m = (writeRespTo AprilshMsgOpen (fmt_d p @ '','' @ key), ?m)" for c
    using assms(14,15) handle_key [OF \<open>0 \<le> p\<close> assms(11,16), of ?m] by (simp add: spawn_child_def wait_key_def)
  moreover have "run_message kill (child_message h p arg) ?m = None"
    by (rule placeholder_panics [OF _ \<open>p \<noteq> ?q\<close> assms(17,18) \<open>0 \<le> p\<close> assms(11)]) simp
  ultimately show ?thesis
    using startChild_request [OF assms(1-7)] assms(8) by (simp add: maxPortLimit_def)
qed

lemma busy_port_panics_witness:
  "let conf = \<lparr>cc_term = ''xterm'', cc_destination = ''ide@host'', cc_caps = ''e30='', cc_user = [], cc_host = [], cc_desiredPort = []\<rparr>;
       env = \<lparr>sp_available = (\<lambda>p. p \<noteq> 8101), sp_start = (\<lambda>c. Some 77),
         sp_message = Some (child_message ''key'' 8102 ''31kR3xgfmNxhDESXQ8VIQw==''), sp_kill = (\<lambda>p. True)\<rparr>
   in case run_request env conf (open_request conf) \<lparr>ms_workers = [], ms_maxPort = 8101, ms_port = 8100\<rparr> of
      None \<Rightarrow> False
    | Some (resp, sig, m1) \<Rightarrow>
        resp = writeRespTo AprilshMsgOpen (fmt_d 8102 @ '','' @ ''31kR3xgfmNxhDESXQ8VIQw=='') \<and>
        run_message (\<lambda>p. True) (child_message ''shell'' 8102 ''4711'') m1 = None"
  unfolding Let_def
  by (rule busy_port_panics [where user = "''ide''" and host = "''host''" and pid = 77])
    (simp_all add: field_def graphic_def)

text \<open>
  The channel of the messages is shared: when another child ends while the main process waits for a key, its message is
  taken for the key, and the client is sent an empty one.
\<close>

lemma other_child_ends:
  assumes "map_of (ms_workers m) q = Some wh" "0 \<le> q" "q < 2 ^ 63"
    and "sp_message env = Some (child_message ''run'' q ''shutdown'')"
  shows "wait_key env p m = (writeRespTo AprilshMsgOpen (fmt_d p @ '',''), m\<lparr>ms_workers := AList.delete q (ms_workers m)\<rparr>)"
  using assms(1,4) child_message_parts [of "''run''" "''shutdown''", OF _ _ assms(2,3)]
  by (simp add: wait_key_def handleMessage_def field_def graphic_def)

section \<open>Shutdown\<close>

definition children :: "mainSrv \<Rightarrow> int set" where
  "children m = {p. \<exists>wh pid. (p, wh) \<in> set (ms_workers m) \<and> wh_child wh = Some pid}"

definition only_holders :: "mainSrv \<Rightarrow> mainSrv" where
  "only_holders m = m\<lparr>ms_workers := filter (\<lambda>(port, wh). wh_child wh = None) (ms_workers m)\<rparr>"

lemma children_empty: "children m = {} \<longleftrightarrow> (\<forall>(p, wh) \<in> set (ms_workers m). wh_child wh = None)"
  by (auto simp: children_def)

lemma holders_all: "holders m = length (ms_workers m) \<longleftrightarrow> children m = {}"
proof -
  have "length (filter P xs) = length xs \<longleftrightarrow> (\<forall>x\<in>set xs. P x)" for P and xs :: "(int \<times> workhorse) list"
    by (metis filter_True length_filter_less less_irrefl)
  then show ?thesis by (simp add: holders_def children_empty)
qed


lemma shutdown_message:
  assumes "0 \<le> p" "p < 2 ^ 63" "map_of (ms_workers m) p = Some wh"
  shows "snd (handleMessage kill (child_message ''run'' p ''shutdown'') m) = m\<lparr>ms_workers := AList.delete p (ms_workers m)\<rparr>"
  using assms(3) child_message_parts [of "''run''" "''shutdown''", OF _ _ assms(1,2)]
  by (simp add: handleMessage_def field_def graphic_def)

lemma without_child:
  assumes "ports_ok m" "p \<in> children m"
  shows "ports_ok (m\<lparr>ms_workers := AList.delete p (ms_workers m)\<rparr>)"
    and "children (m\<lparr>ms_workers := AList.delete p (ms_workers m)\<rparr>) = children m - {p}"
    and "only_holders (m\<lparr>ms_workers := AList.delete p (ms_workers m)\<rparr>) = only_holders m"
    and "ms_port (m\<lparr>ms_workers := AList.delete p (ms_workers m)\<rparr>) = ms_port m"
    and "\<exists>wh. map_of (ms_workers m) p = Some wh"
proof -
  show "ports_ok (m\<lparr>ms_workers := AList.delete p (ms_workers m)\<rparr>)"
    using assms(1) by (auto simp: ports_ok_def distinct_map_filter list_all_iff AList.delete_eq)
  show "children (m\<lparr>ms_workers := AList.delete p (ms_workers m)\<rparr>) = children m - {p}"
    by (auto simp: children_def AList.delete_eq)
  obtain wh pid where p: "(p, wh) \<in> set (ms_workers m)" "wh_child wh = Some pid"
    using assms(2) by (auto simp: children_def)
  then show "\<exists>wh. map_of (ms_workers m) p = Some wh" using assms(1) by (auto simp: ports_ok_def)
  have "wh' = wh" if "(p, wh') \<in> set (ms_workers m)" for wh'
    using that p(1) assms(1) by (auto simp: ports_ok_def dest: eq_key_imp_eq_value)
  then show "only_holders (m\<lparr>ms_workers := AList.delete p (ms_workers m)\<rparr>) = only_holders m"
    using p(2) by (auto simp: only_holders_def AList.delete_eq
      intro!: arg_cong [of _ _ "\<lambda>ws. m\<lparr>ms_workers := ws\<rparr>"] filter_cong)
qed simp

lemma shutdown_loop_children:
  assumes "ports_ok m" "0 \<le> ms_port m" "distinct ps" "set ps \<subseteq> children m" "\<And>p. p \<in> set ps \<Longrightarrow> p < 2 ^ 63"
  shows "shutdown_loop kill (holders m) (map (\<lambda>p. child_message ''run'' p ''shutdown'') ps) m =
    (if set ps = children m then Some (only_holders m) else None)"
  using assms
proof (induction ps arbitrary: m)
  case Nil
  have "only_holders m = m" if "children m = {}"
    using that by (cases m) (auto simp: only_holders_def children_empty intro!: filter_True)
  then show ?case using holders_all [of m] by auto
next
  case (Cons p ps)
  let ?m = "m\<lparr>ms_workers := AList.delete p (ms_workers m)\<rparr>"
  have p: "p \<in> children m" "0 \<le> p" "p < 2 ^ 63"
    using Cons.prems by (auto simp: children_def ports_ok_def list_all_iff)
  note w = without_child [OF Cons.prems(1) p(1)]
  have "snd (handleMessage kill (child_message ''run'' p ''shutdown'') m) = ?m"
    using w(5) shutdown_message [OF p(2,3)] by blast
  moreover have "holders m \<noteq> length (ms_workers m)" using p(1) holders_all [of m] by auto
  moreover have "shutdown_loop kill (holders ?m) (map (\<lambda>p. child_message ''run'' p ''shutdown'') ps) ?m =
      (if set ps = children ?m then Some (only_holders ?m) else None)"
    by (rule Cons.IH) (use Cons.prems w in auto)
  moreover have "set ps = children ?m \<longleftrightarrow> set (p # ps) = children m"
    using w(2) Cons.prems(3,4) by auto
  ultimately show ?case using w(3) by simp
qed

text \<open>
  C22. A shutdown returns exactly when the last child has said that it is done, in any order: while one is missing the
  main process waits. One case is wrong: with placeholders only nobody will ever send a message, and the
  process waits for ever.
\<close>

theorem shutdown_returns:
  assumes "ports_ok m" "0 \<le> ms_port m" "distinct ps" "set ps \<subseteq> children m" "\<And>p. p \<in> set ps \<Longrightarrow> p < 2 ^ 63"
  shows "mainSrv_shutdown kill (map (\<lambda>p. child_message ''run'' p ''shutdown'') ps) m =
    (if ms_workers m = [] \<or> ps \<noteq> [] \<and> set ps = children m then Some (only_holders m) else None)"
proof (cases ps)
  case Nil
  then show ?thesis by (cases m) (simp add: mainSrv_shutdown_def only_holders_def)
next
  case (Cons p qs)
  let ?m = "m\<lparr>ms_workers := AList.delete p (ms_workers m)\<rparr>"
  have p: "p \<in> children m" "0 \<le> p" "p < 2 ^ 63" "ms_workers m \<noteq> []"
    using assms Cons by (auto simp: children_def ports_ok_def list_all_iff)
  note w = without_child [OF assms(1) p(1)]
  have "snd (handleMessage kill (child_message ''run'' p ''shutdown'') m) = ?m"
    using w(5) shutdown_message [OF p(2,3)] by blast
  moreover have "shutdown_loop kill (holders ?m) (map (\<lambda>p. child_message ''run'' p ''shutdown'') qs) ?m =
      (if set qs = children ?m then Some (only_holders ?m) else None)"
    by (rule shutdown_loop_children) (use assms Cons w in auto)
  moreover have "set qs = children ?m \<longleftrightarrow> set ps = children m" using w(2) assms(3,4) Cons by auto
  ultimately show ?thesis using Cons p(4) w(3) by (simp add: mainSrv_shutdown_def)
qed

lemma shutdown_returns_witness:
  "let child = \<lparr>wh_child = Some 77, wh_shellPid = 0\<rparr>;
       m = \<lparr>ms_workers = [(8101, placeholder), (8102, child), (8103, child)], ms_maxPort = 8104, ms_port = 8100\<rparr>
   in mainSrv_shutdown (\<lambda>p. True) (map (\<lambda>p. child_message ''run'' p ''shutdown'') [8103, 8102]) m =
        Some \<lparr>ms_workers = [(8101, placeholder)], ms_maxPort = 8104, ms_port = 8100\<rparr>"
proof -
  let ?child = "\<lparr>wh_child = Some 77, wh_shellPid = 0\<rparr>"
  let ?m = "\<lparr>ms_workers = [(8101, placeholder), (8102, ?child), (8103, ?child)], ms_maxPort = 8104, ms_port = 8100\<rparr>"
  have c: "children ?m = {8102, 8103}" by (auto simp: children_def placeholder_def)
  have "only_holders ?m = ?m\<lparr>ms_workers := [(8101, placeholder)]\<rparr>" by (simp add: only_holders_def placeholder_def)
  moreover have "mainSrv_shutdown (\<lambda>p. True) (map (\<lambda>p. child_message ''run'' p ''shutdown'') [8103, 8102]) ?m =
      (if ms_workers ?m = [] \<or> [8103, 8102] \<noteq> ([] :: int list) \<and> set [8103, 8102] = children ?m then Some (only_holders ?m) else None)"
    by (rule shutdown_returns) (auto simp: c ports_ok_def)
  ultimately show ?thesis by (simp add: c insert_commute)
qed

lemma getAvailabePort_least_witness:
  "case getAvailabePort \<lparr>ms_workers = [(8103, placeholder), (8101, placeholder)], ms_maxPort = 8104, ms_port = 8100\<rparr> of
     (p, m1) \<Rightarrow> 8100 < p \<and> p \<notin> {8101, 8103} \<and> {8100<..<p} \<subseteq> {8103, 8101} \<and> insert p {8103, 8101} \<subseteq> {..<ms_maxPort m1}"
  using getAvailabePort_least [of "\<lparr>ms_workers = [(8103, placeholder), (8101, placeholder)], ms_maxPort = 8104, ms_port = 8100\<rparr>"]
  by (auto simp: ports_ok_def)

end
