(* ===== verification/Complete.thy ===== *)
theory Complete
  imports Display Connection
begin

text \<open>
  \<open>statesync/complete.go\<close>: the terminal of the server as a state of the protocol. The codec of
  \<open>HostMessage\<close> (protobuf) is a parameter, as are the width of characters and the splitting into
  graphemes. The goroutine of \<open>ActLarge\<close> that wakes up the main loop is a flag of the result. \<open>None\<close>
  is a panic. Host bytes are strings whose characters are the bytes.
\<close>

section \<open>State\<close>

definition ECHO_TIMEOUT :: int where "ECHO_TIMEOUT = 50"

record echo_pair =
  ec_frameNum :: "64 word"
  ec_timestamp :: int

record complete =
  cp_terminal :: emulator
  cp_display :: display
  cp_remainsBuf :: string
  cp_diffBuf :: string
  cp_inputHistory :: "echo_pair list"
  cp_echoAck :: "64 word"

text \<open>An instruction of \<open>HostMessage\<close>; each field is nil or a message.\<close>

record host_inst =
  hi_hostbytes :: "string option"
  hi_resize :: "(32 word \<times> 32 word) option"
  hi_echoack :: "64 word option"

definition host_none :: host_inst where
  "host_none = \<lparr>hi_hostbytes = None, hi_resize = None, hi_echoack = None\<rparr>"

definition NewComplete :: "term_env \<Rightarrow> int \<Rightarrow> int \<Rightarrow> int \<Rightarrow> complete option" where
  "NewComplete env nCols nRows saveLines = do {
     t \<leftarrow> NewEmulator3 nCols nRows saveLines;
     Some \<lparr>cp_terminal = t, cp_display = NewDisplay env [] False, cp_remainsBuf = [], cp_diffBuf = [],
           cp_inputHistory = [], cp_echoAck = 0\<rparr>
   }"

section \<open>Output and events\<close>

text \<open>The result is what the terminal answers, and whether the main loop is to be woken up for the rest.\<close>

definition ActLarge ::
  "term_env \<Rightarrow> (string \<Rightarrow> (rune list \<times> nat) list) \<Rightarrow> string \<Rightarrow> complete \<Rightarrow> (string \<times> bool \<times> complete) option" where
  "ActLarge env graphemes str c = do {
     (diff, remains, t) \<leftarrow> HandleLargeStream env graphemes (cp_remainsBuf c @ str) (cp_terminal c);
     let (out, t') = ReadOctetsToHost t;
     Some (out, length remains > 0,
           c\<lparr>cp_terminal := t', cp_diffBuf := cp_diffBuf c @ diff, cp_remainsBuf := remains\<rparr>)
   }"

definition Act ::
  "term_env \<Rightarrow> (string \<Rightarrow> (rune list \<times> nat) list) \<Rightarrow> string \<Rightarrow> complete \<Rightarrow> (string \<times> complete) option" where
  "Act env graphemes str c = do {
     (hds, diff, t) \<leftarrow> HandleStream env graphemes str (cp_terminal c);
     let (out, t') = ReadOctetsToHost t;
     Some (out, c\<lparr>cp_terminal := t', cp_diffBuf := cp_diffBuf c @ diff\<rparr>)
   }"

text \<open>\<open>ActOn\<close> is one of the two events of \<open>terminal/input.go\<close>.\<close>

datatype act_on = UserByte "rune list" | Resize int int

fun Handle :: "act_on \<Rightarrow> emulator \<Rightarrow> emulator option" where
  "Handle (UserByte chs) emu = UserByte_Handle chs emu"
| "Handle (Resize width height) emu = Resize_Handle width height emu"

definition ActOne :: "act_on \<Rightarrow> complete \<Rightarrow> (string \<times> complete) option" where
  "ActOne x c = do {
     t \<leftarrow> Handle x (cp_terminal c);
     let (out, t') = ReadOctetsToHost t;
     Some (out, c\<lparr>cp_terminal := t'\<rparr>)
   }"

definition Complete_InitSize :: "int \<Rightarrow> int \<Rightarrow> complete \<Rightarrow> complete option" where
  "Complete_InitSize nCols nRows c = map_option snd (ActOne (Resize nCols nRows) c)"

definition Complete_Reset :: "complete \<Rightarrow> complete" where
  "Complete_Reset c = c\<lparr>cp_diffBuf := [], cp_terminal := SetLastRows 0 (cp_terminal c)\<rparr>"

definition GetDiff :: "complete \<Rightarrow> string \<times> complete" where
  "GetDiff c = (cp_diffBuf c, Complete_Reset c)"

section \<open>The acknowledgement of echoes\<close>

definition SetEchoAck :: "int \<Rightarrow> bool \<Rightarrow> complete \<Rightarrow> bool \<times> complete" where
  "SetEchoAck now inputEchoDone c =
     (let st = (if inputEchoDone then 0 else ECHO_TIMEOUT);
          newest = fold (\<lambda>v n. if ec_timestamp v \<le> now - st then ec_frameNum v else n)
            (cp_inputHistory c) (cp_echoAck c)
      in (cp_echoAck c \<noteq> newest,
          c\<lparr>cp_inputHistory := filter (\<lambda>x. ec_frameNum x \<ge> newest) (cp_inputHistory c), cp_echoAck := newest\<rparr>))"

definition RegisterInputFrame :: "64 word \<Rightarrow> int \<Rightarrow> complete \<Rightarrow> complete" where
  "RegisterInputFrame num now c =
     c\<lparr>cp_inputHistory := cp_inputHistory c @ [\<lparr>ec_frameNum = num, ec_timestamp = now\<rparr>]\<rparr>"

definition Complete_WaitTime :: "int \<Rightarrow> complete \<Rightarrow> int" where
  "Complete_WaitTime now c =
     (if length (cp_inputHistory c) < 2 then MaxInt64
      else let next = ec_timestamp (cp_inputHistory c ! 1) + ECHO_TIMEOUT
           in if next \<le> now then 0 else next - now)"

section \<open>The state of the protocol\<close>

definition Complete_Subtract :: "complete \<Rightarrow> complete \<Rightarrow> complete" where
  "Complete_Subtract c prefix' = c"

definition Complete_Equal :: "complete \<Rightarrow> complete \<Rightarrow> bool option" where
  "Complete_Equal c x =
     (if cp_echoAck c \<noteq> cp_echoAck x then Some False else emu_Equal (cp_terminal c) (cp_terminal x))"

text \<open>The instructions of the difference; \<open>useBuf\<close> takes the collected output instead of a new frame.\<close>

definition host_message :: "complete \<Rightarrow> complete \<Rightarrow> bool \<Rightarrow> host_inst list option" where
  "host_message c existing useBuf = do {
     let echo = (if cp_echoAck existing \<noteq> cp_echoAck c
                 then [host_none\<lparr>hi_echoack := Some (cp_echoAck c)\<rparr>] else []);
     same \<leftarrow> Complete_Equal c existing;
     if same then Some echo
     else do {
       let e = cp_terminal existing;
       let t = cp_terminal c;
       let size = (if GetWidth e \<noteq> GetWidth t \<or> GetHeight e \<noteq> GetHeight t
         then [host_none\<lparr>hi_resize := Some (word_of_int (GetWidth t), word_of_int (GetHeight t))\<rparr>] else []);
       update \<leftarrow> (if useBuf then Some (cp_diffBuf c) else NewFrame (cp_display c) True e t);
       Some (echo @ size @ (if length update > 0 then [host_none\<lparr>hi_hostbytes := Some update\<rparr>] else []))
     }
   }"

definition diffFrom :: "(host_inst list \<Rightarrow> bytes) \<Rightarrow> complete \<Rightarrow> complete \<Rightarrow> bool \<Rightarrow> bytes option" where
  "diffFrom marshal c existing useBuf = map_option marshal (host_message c existing useBuf)"

definition Complete_DiffFrom :: "(host_inst list \<Rightarrow> bytes) \<Rightarrow> complete \<Rightarrow> complete \<Rightarrow> bytes option" where
  "Complete_DiffFrom marshal c existing = diffFrom marshal c existing True"

definition Complete_InitDiff :: "term_env \<Rightarrow> (host_inst list \<Rightarrow> bytes) \<Rightarrow> complete \<Rightarrow> bytes option" where
  "Complete_InitDiff env marshal c = do {
     let t = cp_terminal c;
     blank \<leftarrow> NewComplete env (GetWidth t) (GetHeight t) (GetSaveLines t);
     diffFrom marshal c blank False
   }"

definition apply_host_inst ::
  "term_env \<Rightarrow> (string \<Rightarrow> (rune list \<times> nat) list) \<Rightarrow> host_inst \<Rightarrow> complete \<Rightarrow> complete option" where
  "apply_host_inst env graphemes i c =
     (case hi_hostbytes i of
        Some s \<Rightarrow> map_option snd (Act env graphemes s c)
      | None \<Rightarrow>
          (case hi_resize i of
             Some (w, h) \<Rightarrow> map_option snd (ActOne (Resize (sint w) (sint h)) c)
           | None \<Rightarrow>
               (case hi_echoack i of
                  Some n \<Rightarrow> Some (c\<lparr>cp_echoAck := n\<rparr>)
                | None \<Rightarrow> Some c)))"

text \<open>The second component tells that the difference does not unmarshal.\<close>

definition Complete_ApplyString ::
  "(bytes \<Rightarrow> host_inst list option) \<Rightarrow> term_env \<Rightarrow> (string \<Rightarrow> (rune list \<times> nat) list) \<Rightarrow> bytes
     \<Rightarrow> complete \<Rightarrow> (complete \<times> bool) option" where
  "Complete_ApplyString unmarshal env graphemes diff c =
     (case unmarshal diff of
        None \<Rightarrow> Some (c, True)
      | Some insts \<Rightarrow> map_option (\<lambda>c'. (c', False)) (for_list insts (apply_host_inst env graphemes) c))"

definition Complete_ResetInput :: "complete \<Rightarrow> complete" where
  "Complete_ResetInput c = c"

definition Complete_Clone :: "complete \<Rightarrow> complete" where
  "Complete_Clone c =
     c\<lparr>cp_display := Display_Clone (cp_display c), cp_terminal := emu_Clone (cp_terminal c),
       cp_diffBuf := [], cp_remainsBuf := []\<rparr>"

definition Complete_SetTerminalCaps :: "(string \<Rightarrow> string option) \<Rightarrow> complete \<Rightarrow> complete" where
  "Complete_SetTerminalCaps caps c = c\<lparr>cp_terminal := SetTerminalCaps caps (cp_terminal c)\<rparr>"

end
