(* ===== verification/Overlay.thy ===== *)
theory Overlay
  imports Complete
begin

text \<open>
  \<open>frontend/overlay.go\<close>: what the client shows before the server has answered. A prediction belongs to
  an epoch, and is shown when the epoch has been confirmed by a prediction that came true; a bar tells
  the user that the server is silent; the title gets a prefix.

  The structs that embed \<open>conditionalOverlay\<close> are extensions of its record. Times are milliseconds, as
  \<open>int\<close>; each read of the clock is an argument. Frame numbers wrap around as \<open>64 word\<close>. The rows of
  predictions share their cells through slices of the same array, so a row is known by its place in the list.
\<close>

datatype validity = ValidityUnused | Pending | Correct | CorrectNoCredit | IncorrectOrExpired | Inactive

datatype displayPreference = DisplayPreferenceUnused | Always | Never | Adaptive | Experimental

definition MaxUint64 :: "64 word" where "MaxUint64 = - 1"

definition ACK_INTERVAL_ui :: int where "ACK_INTERVAL_ui = 3000"
definition SRTT_TRIGGER_LOW :: "64 word" where "SRTT_TRIGGER_LOW = 20"
definition SRTT_TRIGGER_HIGH :: "64 word" where "SRTT_TRIGGER_HIGH = 30"
definition FLAG_TRIGGER_LOW :: "64 word" where "FLAG_TRIGGER_LOW = 50"
definition FLAG_TRIGGER_HIGH :: "64 word" where "FLAG_TRIGGER_HIGH = 80"
definition GLITCH_THRESHOLD :: int where "GLITCH_THRESHOLD = 250"
definition GLITCH_REPAIR_COUNT :: int where "GLITCH_REPAIR_COUNT = 10"
definition GLITCH_REPAIR_MININTERVAL :: int where "GLITCH_REPAIR_MININTERVAL = 150"
definition GLITCH_FLAG_THRESHOLD :: int where "GLITCH_FLAG_THRESHOLD = 5000"

section \<open>One prediction\<close>

record conditionalOverlay =
  co_expirationFrame :: "64 word"
  co_col :: int
  co_active :: bool
  co_tentativeUntilEpoch :: int
  co_predictionTime :: int

definition newConditionalOverlay :: "64 word \<Rightarrow> int \<Rightarrow> int \<Rightarrow> conditionalOverlay" where
  "newConditionalOverlay expirationFrame col tentativeUntilEpoch =
     \<lparr>co_expirationFrame = expirationFrame, co_col = col, co_active = False,
      co_tentativeUntilEpoch = tentativeUntilEpoch, co_predictionTime = MaxInt64\<rparr>"

definition tentative :: "int \<Rightarrow> 'a conditionalOverlay_scheme \<Rightarrow> bool" where
  "tentative confirmedEpoch co \<longleftrightarrow> co_tentativeUntilEpoch co > confirmedEpoch"

definition co_reset :: "'a conditionalOverlay_scheme \<Rightarrow> 'a conditionalOverlay_scheme" where
  "co_reset co =
     co\<lparr>co_expirationFrame := MaxUint64, co_tentativeUntilEpoch := MaxInt64, co_active := False\<rparr>"

definition co_expire :: "64 word \<Rightarrow> int \<Rightarrow> 'a conditionalOverlay_scheme \<Rightarrow> 'a conditionalOverlay_scheme" where
  "co_expire expirationFrame now co =
     co\<lparr>co_expirationFrame := expirationFrame, co_predictionTime := now\<rparr>"

record conditionalCursorMove = conditionalOverlay +
  ccm_row :: int

definition newConditionalCursorMove :: "64 word \<Rightarrow> int \<Rightarrow> int \<Rightarrow> int \<Rightarrow> conditionalCursorMove" where
  "newConditionalCursorMove expirationFrame row col tentativeUntilEpoch =
     conditionalOverlay.extend (newConditionalOverlay expirationFrame col tentativeUntilEpoch) \<lparr>ccm_row = row\<rparr>"

definition ccm_apply :: "int \<Rightarrow> conditionalCursorMove \<Rightarrow> emulator \<Rightarrow> emulator" where
  "ccm_apply confirmedEpoch ccm emu =
     (if \<not> co_active ccm then emu
      else if tentative confirmedEpoch ccm then emu
      else MoveCursor (ccm_row ccm) (co_col ccm) emu)"

definition ccm_getValidity :: "emulator \<Rightarrow> 64 word \<Rightarrow> conditionalCursorMove \<Rightarrow> validity" where
  "ccm_getValidity emu lateAck ccm =
     (if \<not> co_active ccm then Inactive
      else if ccm_row ccm \<ge> GetHeight emu \<or> co_col ccm \<ge> GetWidth emu then IncorrectOrExpired
      else if lateAck \<ge> co_expirationFrame ccm then
        (if GetCursorCol emu = co_col ccm \<and> GetCursorRow emu = ccm_row ccm then Correct
         else IncorrectOrExpired)
      else Pending)"

record conditionalOverlayCell = conditionalOverlay +
  coc_originalContents :: "cell list"
  coc_replacement :: cell
  coc_unknown :: bool

definition newConditionalOverlayCell :: "64 word \<Rightarrow> int \<Rightarrow> int \<Rightarrow> conditionalOverlayCell" where
  "newConditionalOverlayCell expirationFrame col tentativeUntilEpoch =
     conditionalOverlay.extend (newConditionalOverlay expirationFrame col tentativeUntilEpoch)
       \<lparr>coc_originalContents = [], coc_replacement = Cell0, coc_unknown = False\<rparr>"

definition coc_reset :: "conditionalOverlayCell \<Rightarrow> conditionalOverlayCell" where
  "coc_reset coc = co_reset (coc\<lparr>coc_unknown := False, coc_originalContents := []\<rparr>)"

definition coc_resetWithOrig :: "conditionalOverlayCell \<Rightarrow> conditionalOverlayCell" where
  "coc_resetWithOrig coc =
     (if \<not> co_active coc \<or> coc_unknown coc then coc_reset coc
      else co_reset (coc\<lparr>coc_originalContents := coc_originalContents coc @ [coc_replacement coc]\<rparr>))"

record appliedDiff =
  ad_cell :: cell
  ad_row :: int
  ad_col :: int

text \<open>The call of \<open>f\<close> appends to the list of differences.\<close>

definition coc_apply ::
  "int \<Rightarrow> int \<Rightarrow> bool \<Rightarrow> conditionalOverlayCell \<Rightarrow> appliedDiff list \<times> emulator
     \<Rightarrow> (appliedDiff list \<times> emulator) option" where
  "coc_apply confirmedEpoch row flag0 coc = (\<lambda>(diff, emu).
     if \<not> co_active coc \<or> row \<ge> GetHeight emu \<or> co_col coc \<ge> GetWidth emu then Some (diff, emu)
     else if tentative confirmedEpoch coc then Some (diff, emu)
     else do {
       flag \<leftarrow> (if IsBlank (coc_replacement coc) then do {
           cl \<leftarrow> emu_GetCell row (co_col coc) emu;
           Some (flag0 \<and> \<not> IsBlank cl)
         } else Some flag0);
       if coc_unknown coc then
         (if flag \<and> co_col coc \<noteq> GetWidth emu - 1
          then do { emu1 \<leftarrow> emu_GetCellPtr row (co_col coc) (SetUnderline True) emu; Some (diff, emu1) }
          else Some (diff, emu))
       else do {
         cl \<leftarrow> emu_GetCell row (co_col coc) emu;
         if cl \<noteq> coc_replacement coc then do {
           emu1 \<leftarrow> emu_GetCellPtr row (co_col coc) (\<lambda>_. coc_replacement coc) emu;
           emu2 \<leftarrow> (if flag then emu_GetCellPtr row (co_col coc) (SetUnderline True) emu1 else Some emu1);
           cl' \<leftarrow> emu_GetCell row (co_col coc) emu2;
           Some (diff @ [\<lparr>ad_cell = cl', ad_row = row, ad_col = co_col coc\<rparr>], emu2)
         } else Some (diff, emu)
       }
     })"

definition coc_getValidity ::
  "emulator \<Rightarrow> int \<Rightarrow> 64 word \<Rightarrow> conditionalOverlayCell \<Rightarrow> validity option" where
  "coc_getValidity emu row lateAck coc =
     (if \<not> co_active coc then Some Inactive
      else if row \<ge> GetHeight emu \<or> co_col coc \<ge> GetWidth emu then Some IncorrectOrExpired
      else do {
        current \<leftarrow> emu_GetCell row (co_col coc) emu;
        Some (if lateAck < co_expirationFrame coc then Pending
              else if coc_unknown coc then CorrectNoCredit
              else if IsBlank (coc_replacement coc) then CorrectNoCredit
              else if ContentsMatch current (coc_replacement coc) then
                (if list_ex (\<lambda>c. ContentsMatch c (coc_replacement coc)) (coc_originalContents coc)
                 then CorrectNoCredit else Correct)
              else IncorrectOrExpired)
      })"

record conditionalOverlayRow =
  cor_overlayCells :: "conditionalOverlayCell list"
  cor_rowNum :: int

definition newConditionalOverlayRow :: "int \<Rightarrow> conditionalOverlayRow" where
  "newConditionalOverlayRow rowNum = \<lparr>cor_overlayCells = [], cor_rowNum = rowNum\<rparr>"

definition cor_apply ::
  "int \<Rightarrow> bool \<Rightarrow> conditionalOverlayRow \<Rightarrow> appliedDiff list \<times> emulator
     \<Rightarrow> (appliedDiff list \<times> emulator) option" where
  "cor_apply confirmedEpoch flag row =
     for_list (cor_overlayCells row) (coc_apply confirmedEpoch (cor_rowNum row) flag)"

section \<open>The notification engine\<close>

record notificationEngine =
  ne_escapeKeyString :: string
  ne_message :: string
  ne_lastWordFromServer :: int
  ne_lastAckedState :: int
  ne_messageExpiration :: int
  ne_messageIsNetworkError :: bool
  ne_showQuitKeystroke :: bool

definition newNotificationEngien :: "int \<Rightarrow> int \<Rightarrow> notificationEngine" where
  "newNotificationEngien now now' =
     \<lparr>ne_escapeKeyString = [], ne_message = [], ne_lastWordFromServer = now, ne_lastAckedState = now',
      ne_messageExpiration = MaxInt64, ne_messageIsNetworkError = False, ne_showQuitKeystroke = True\<rparr>"

text \<open>\<open>%02d\<close> for a number of at least zero.\<close>

definition fmt_02d :: "int \<Rightarrow> string" where
  "fmt_02d n = (if 0 \<le> n \<and> n < 10 then CHR ''0'' # fmt_d n else fmt_d n)"

definition humanReadableDuration :: "int \<Rightarrow> string \<Rightarrow> string" where
  "humanReadableDuration numSeconds secondsAbbr =
     (if numSeconds < 60 then fmt_d numSeconds @ '' '' @ secondsAbbr
      else if numSeconds < 3600 then fmt_d (numSeconds div 60) @ '':'' @ fmt_02d (numSeconds mod 60)
      else fmt_d (numSeconds div 3600) @ '':'' @ fmt_02d ((numSeconds div 60) mod 60) @ '':'' @
        fmt_02d (numSeconds mod 60))"

definition serverLate :: "int \<Rightarrow> notificationEngine \<Rightarrow> bool" where
  "serverLate ts ne \<longleftrightarrow> ts - ne_lastWordFromServer ne > 6500"

definition replyLate :: "int \<Rightarrow> notificationEngine \<Rightarrow> bool" where
  "replyLate ts ne \<longleftrightarrow> ts - ne_lastAckedState ne > 10000"

definition needCountup :: "int \<Rightarrow> notificationEngine \<Rightarrow> bool" where
  "needCountup ts ne \<longleftrightarrow> serverLate ts ne \<or> replyLate ts ne"

definition adjustMessage :: "int \<Rightarrow> notificationEngine \<Rightarrow> notificationEngine" where
  "adjustMessage now ne = (if now \<ge> ne_messageExpiration ne then ne\<lparr>ne_message := []\<rparr> else ne)"

text \<open>The text of the bar.\<close>

definition ne_string :: "int \<Rightarrow> notificationEngine \<Rightarrow> string" where
  "ne_string now ne =
     (let sinceHeard = go_div (now - ne_lastWordFromServer ne) 1000;
          sinceAck = go_div (now - ne_lastAckedState ne) 1000;
          reply = (replyLate now ne \<and> \<not> serverLate now ne);
          timeElapsed = (if reply then sinceAck else sinceHeard);
          explanation = (if reply then ''reply'' else ''contact'');
          keystrokeStr = (if ne_showQuitKeystroke ne then ne_escapeKeyString ne else [])
      in if length (ne_message ne) = 0 \<and> needCountup now ne then
           ''aprish: Last '' @ explanation @ '' '' @ humanReadableDuration timeElapsed ''seconds'' @ '' ago.'' @ keystrokeStr
         else if length (ne_message ne) \<noteq> 0 \<and> \<not> needCountup now ne then
           ''aprish: '' @ ne_message ne @ keystrokeStr
         else
           ''aprish: '' @ ne_message ne @ '' ('' @ humanReadableDuration timeElapsed ''s'' @ '' without '' @
             explanation @ ''.)'' @ keystrokeStr)"

definition notificationBar :: cell where
  "notificationBar = SetContents [0x20]
     (Cell0\<lparr>ce_renditions := SetBackgroundColor 4 (SetForegroundColor 7 Renditions0)\<rparr>)"

definition ne_apply ::
  "term_env \<Rightarrow> (string \<Rightarrow> (rune list \<times> nat) list) \<Rightarrow> int \<Rightarrow> notificationEngine \<Rightarrow> emulator
     \<Rightarrow> emulator option" where
  "ne_apply env graphemes now ne emu =
     (if length (ne_message ne) = 0 \<and> \<not> needCountup now ne then Some emu
      else do {
        let emu1 = (if GetCursorRow emu = 0 then SetCursorVisible False emu else emu);
        emu2 \<leftarrow> for_up 0 (GetWidth emu1) (\<lambda>i. emu_GetCellPtr 0 i (Reset2 notificationBar)) emu1;
        r \<leftarrow> HandleStream env graphemes (ne_string now ne) (MoveCursor 0 0 emu2);
        Some (snd (snd r))
      })"

definition ServerHeard :: "int \<Rightarrow> notificationEngine \<Rightarrow> notificationEngine" where
  "ServerHeard ts ne = ne\<lparr>ne_lastWordFromServer := ts\<rparr>"

definition ServerAcked :: "int \<Rightarrow> notificationEngine \<Rightarrow> notificationEngine" where
  "ServerAcked ts ne = ne\<lparr>ne_lastAckedState := ts\<rparr>"

definition ne_waitTime :: "int \<Rightarrow> notificationEngine \<Rightarrow> int" where
  "ne_waitTime now ne =
     (let nextExpiry = min MaxInt64 (ne_messageExpiration ne - now)
      in if needCountup now ne then
           min nextExpiry (if now - ne_lastWordFromServer ne > 60000 then ACK_INTERVAL_ui else 1000)
         else nextExpiry)"

definition SetNotificationString ::
  "int \<Rightarrow> string \<Rightarrow> bool \<Rightarrow> bool \<Rightarrow> notificationEngine \<Rightarrow> notificationEngine" where
  "SetNotificationString now message permanent showQuitKeystroke ne =
     ne\<lparr>ne_message := message, ne_messageExpiration := (if permanent then MaxInt64 else now + 1000),
        ne_messageIsNetworkError := False, ne_showQuitKeystroke := showQuitKeystroke\<rparr>"

definition SetEscapeKeyString :: "string \<Rightarrow> notificationEngine \<Rightarrow> notificationEngine" where
  "SetEscapeKeyString str ne = ne\<lparr>ne_escapeKeyString := '' [To quit: '' @ str @ '' .]''\<rparr>"

definition SetNetworkError :: "int \<Rightarrow> string \<Rightarrow> notificationEngine \<Rightarrow> notificationEngine" where
  "SetNetworkError now str ne =
     ne\<lparr>ne_message := str, ne_messageIsNetworkError := True,
        ne_messageExpiration := now + ACK_INTERVAL_ui + 100\<rparr>"

definition ClearNetworkError :: "int \<Rightarrow> notificationEngine \<Rightarrow> notificationEngine" where
  "ClearNetworkError now ne =
     (if ne_messageIsNetworkError ne
      then ne\<lparr>ne_messageExpiration := min (ne_messageExpiration ne) (now + 1000)\<rparr> else ne)"

section \<open>The prediction engine\<close>

record predictionEngine =
  pe_lastByte :: "rune list"
  pe_diff :: "appliedDiff list"
  pe_overlays :: "conditionalOverlayRow list"
  pe_cursors :: "conditionalCursorMove list"
  pe_parser :: parser
  pe_confirmedEpoch :: int
  pe_glitchTrigger :: int
  pe_localFrameLateAcked :: "64 word"
  pe_predictionEpoch :: int
  pe_localFrameSent :: "64 word"
  pe_displayPreference :: displayPreference
  pe_lastHeight :: int
  pe_localFrameAcked :: "64 word"
  pe_lastQuickConfirmation :: int
  pe_sendInterval :: "64 word"
  pe_lastWidth :: int
  pe_srttTrigger :: bool
  pe_flagging :: bool
  pe_predictOverwrite :: bool
  pe_applied :: bool

definition newPredictionEngine :: predictionEngine where
  "newPredictionEngine =
     \<lparr>pe_lastByte = [0], pe_diff = [], pe_overlays = [], pe_cursors = [], pe_parser = NewParser,
      pe_confirmedEpoch = 0, pe_glitchTrigger = 0, pe_localFrameLateAcked = 0, pe_predictionEpoch = 1,
      pe_localFrameSent = 0, pe_displayPreference = Adaptive, pe_lastHeight = 0, pe_localFrameAcked = 0,
      pe_lastQuickConfirmation = 0, pe_sendInterval = 250, pe_lastWidth = 0, pe_srttTrigger = False,
      pe_flagging = False, pe_predictOverwrite = False, pe_applied = False\<rparr>"

text \<open>Access to the rows and cells of predictions by their place; out of range panics.\<close>

definition on_cell ::
  "nat \<Rightarrow> int \<Rightarrow> (conditionalOverlayCell \<Rightarrow> conditionalOverlayCell) \<Rightarrow> predictionEngine \<Rightarrow> predictionEngine option" where
  "on_cell i j f pe = do {
     row \<leftarrow> list_at (pe_overlays pe) (int i);
     c \<leftarrow> list_at (cor_overlayCells row) j;
     Some (pe\<lparr>pe_overlays := (pe_overlays pe)[i := row\<lparr>cor_overlayCells := (cor_overlayCells row)[nat j := f c]\<rparr>]\<rparr>)
   }"

definition the_cell :: "nat \<Rightarrow> int \<Rightarrow> predictionEngine \<Rightarrow> conditionalOverlayCell option" where
  "the_cell i j pe = do {
     row \<leftarrow> list_at (pe_overlays pe) (int i);
     list_at (cor_overlayCells row) j
   }"

fun row_index :: "int \<Rightarrow> conditionalOverlayRow list \<Rightarrow> nat option" where
  "row_index rowNum [] = None"
| "row_index rowNum (r # rs) =
     (if cor_rowNum r = rowNum then Some 0 else map_option Suc (row_index rowNum rs))"

definition getOrMakeRow :: "int \<Rightarrow> int \<Rightarrow> predictionEngine \<Rightarrow> (nat \<times> predictionEngine) option" where
  "getOrMakeRow rowNum nCols pe =
     (case row_index rowNum (pe_overlays pe) of
        Some i \<Rightarrow> Some (i, pe)
      | None \<Rightarrow>
          if nCols < 0 then None
          else
            let it = (newConditionalOverlayRow rowNum)\<lparr>cor_overlayCells :=
              map (\<lambda>i. newConditionalOverlayCell 0 (int i) (pe_predictionEpoch pe)) [0..<nat nCols]\<rparr>
            in Some (length (pe_overlays pe), pe\<lparr>pe_overlays := pe_overlays pe @ [it]\<rparr>))"

definition becomeTentative :: "predictionEngine \<Rightarrow> predictionEngine" where
  "becomeTentative pe =
     (if pe_displayPreference pe \<noteq> Experimental
      then pe\<lparr>pe_predictionEpoch := pe_predictionEpoch pe + 1\<rparr> else pe)"

text \<open>\<open>cursor\<close> gives a pointer to the last cursor: nil, and so a panic, when there is none.\<close>

definition pe_cursor :: "predictionEngine \<Rightarrow> conditionalCursorMove option" where
  "pe_cursor pe = list_at (pe_cursors pe) (int (length (pe_cursors pe)) - 1)"

definition on_cursor ::
  "(conditionalCursorMove \<Rightarrow> conditionalCursorMove) \<Rightarrow> predictionEngine \<Rightarrow> predictionEngine option" where
  "on_cursor f pe = do {
     c \<leftarrow> pe_cursor pe;
     Some (pe\<lparr>pe_cursors := butlast (pe_cursors pe) @ [f c]\<rparr>)
   }"

definition add_cursor :: "int \<Rightarrow> int \<Rightarrow> predictionEngine \<Rightarrow> predictionEngine" where
  "add_cursor row col pe =
     pe\<lparr>pe_cursors := pe_cursors pe @
       [(newConditionalCursorMove (pe_localFrameSent pe + 1) row col (pe_predictionEpoch pe))\<lparr>co_active := True\<rparr>]\<rparr>"

definition initCursor :: "emulator \<Rightarrow> predictionEngine \<Rightarrow> predictionEngine" where
  "initCursor emu pe =
     (case pe_cursor pe of
        None \<Rightarrow> add_cursor (GetCursorRow emu) (GetCursorCol emu) pe
      | Some c \<Rightarrow>
          if co_tentativeUntilEpoch c \<noteq> pe_predictionEpoch pe
          then add_cursor (ccm_row c) (co_col c) pe else pe)"

definition activate :: "predictionEngine \<Rightarrow> int \<Rightarrow> conditionalOverlayCell \<Rightarrow> conditionalOverlayCell" where
  "activate pe now c =
     co_expire (pe_localFrameSent pe + 1) now
       (c\<lparr>co_active := True, co_tentativeUntilEpoch := pe_predictionEpoch pe\<rparr>)"

definition newlineCarriageReturn :: "emulator \<Rightarrow> int \<Rightarrow> predictionEngine \<Rightarrow> predictionEngine option" where
  "newlineCarriageReturn emu now pe0 = do {
     pe1 \<leftarrow> on_cursor (co_col_update (\<lambda>_. 0)) (initCursor emu pe0);
     c \<leftarrow> pe_cursor pe1;
     if ccm_row c = GetHeight emu - 1 then do {
       (i, pe2) \<leftarrow> getOrMakeRow (ccm_row c) (GetWidth emu) pe1;
       newRow \<leftarrow> list_at (pe_overlays pe2) (int i);
       let cells = map (\<lambda>c. coc_replacement_update Cell_Clear (activate pe2 now c)) (cor_overlayCells newRow);
       Some (pe2\<lparr>pe_overlays := (pe_overlays pe2)[i := newRow\<lparr>cor_overlayCells := cells\<rparr>]\<rparr>)
     } else on_cursor (ccm_row_update (\<lambda>r. r + 1)) pe1
   }"

definition on_cells ::
  "(conditionalOverlayCell \<Rightarrow> conditionalOverlayCell) \<Rightarrow> conditionalOverlayRow \<Rightarrow> conditionalOverlayRow" where
  "on_cells f row = row\<lparr>cor_overlayCells := map f (cor_overlayCells row)\<rparr>"

definition killEpoch :: "int \<Rightarrow> emulator \<Rightarrow> predictionEngine \<Rightarrow> predictionEngine" where
  "killEpoch epoch emu pe =
     (let pe1 = add_cursor (GetCursorRow emu) (GetCursorCol emu)
            (pe\<lparr>pe_cursors := filter (\<lambda>c. \<not> tentative (epoch - 1) c) (pe_cursors pe)\<rparr>)
      in becomeTentative (pe1\<lparr>pe_overlays :=
           map (on_cells (\<lambda>c. if tentative (epoch - 1) c then coc_reset c else c)) (pe_overlays pe1)\<rparr>))"

definition pe_active :: "predictionEngine \<Rightarrow> bool" where
  "pe_active pe \<longleftrightarrow> length (pe_cursors pe) \<noteq> 0 \<or>
     list_ex (\<lambda>row. list_ex co_active (cor_overlayCells row)) (pe_overlays pe)"

definition timingTestsNecessary :: "predictionEngine \<Rightarrow> bool" where
  "timingTestsNecessary pe \<longleftrightarrow> pe_glitchTrigger pe \<le> 0 \<or> \<not> pe_flagging pe"

definition pe_hidden :: "predictionEngine \<Rightarrow> bool" where
  "pe_hidden pe \<longleftrightarrow> pe_applied pe \<or> pe_displayPreference pe = Never \<or>
     (\<not> pe_srttTrigger pe \<and> pe_glitchTrigger pe = 0 \<and> pe_displayPreference pe \<noteq> Always \<and>
      pe_displayPreference pe \<noteq> Experimental)"

definition pe_apply :: "emulator \<Rightarrow> predictionEngine \<Rightarrow> (predictionEngine \<times> emulator) option" where
  "pe_apply emu pe =
     (if pe_hidden pe then Some (pe, emu)
      else do {
        (diff, emu1) \<leftarrow> for_list (pe_overlays pe) (cor_apply (pe_confirmedEpoch pe) (pe_flagging pe)) (pe_diff pe, emu);
        Some (pe\<lparr>pe_diff := diff\<rparr>, fold (ccm_apply (pe_confirmedEpoch pe)) (pe_cursors pe) emu1)
      })"

definition pe_Reset :: "predictionEngine \<Rightarrow> predictionEngine" where
  "pe_Reset pe = becomeTentative (pe\<lparr>pe_cursors := [], pe_overlays := []\<rparr>)"

section \<open>Checking the predictions\<close>

definition cull_correct ::
  "emulator \<Rightarrow> int \<Rightarrow> nat \<Rightarrow> nat \<Rightarrow> int \<Rightarrow> conditionalOverlayCell \<Rightarrow> predictionEngine \<Rightarrow> predictionEngine option" where
  "cull_correct emu now i j rowNum c pe0 = do {
     let pe1 = (if tentative (pe_confirmedEpoch pe0) c
                then pe0\<lparr>pe_confirmedEpoch := co_tentativeUntilEpoch c\<rparr> else pe0);
     let pe2 = (if now - co_predictionTime c < GLITCH_THRESHOLD \<and> pe_glitchTrigger pe1 > 0 \<and>
                   now - GLITCH_REPAIR_MININTERVAL \<ge> pe_lastQuickConfirmation pe1
                then pe1\<lparr>pe_glitchTrigger := pe_glitchTrigger pe1 - 1, pe_lastQuickConfirmation := now\<rparr>
                else pe1);
     actual \<leftarrow> emu_GetCell rowNum (co_col c) emu;
     row \<leftarrow> list_at (pe_overlays pe2) (int i);
     let cells = take j (cor_overlayCells row) @
       map (coc_replacement_update (ce_renditions_update (\<lambda>_. ce_renditions actual))) (drop j (cor_overlayCells row));
     on_cell i (int j) coc_reset (pe2\<lparr>pe_overlays := (pe_overlays pe2)[i := row\<lparr>cor_overlayCells := cells\<rparr>]\<rparr>)
   }"

definition cull_pending :: "int \<Rightarrow> conditionalOverlayCell \<Rightarrow> predictionEngine \<Rightarrow> predictionEngine" where
  "cull_pending now c pe =
     (let gap = now - co_predictionTime c
      in if gap \<ge> GLITCH_FLAG_THRESHOLD then pe\<lparr>pe_glitchTrigger := GLITCH_REPAIR_COUNT * 2\<rparr>
         else if gap \<ge> GLITCH_THRESHOLD \<and> pe_glitchTrigger pe < GLITCH_REPAIR_COUNT
         then pe\<lparr>pe_glitchTrigger := GLITCH_REPAIR_COUNT\<rparr> else pe)"

text \<open>One cell; the flag tells that \<open>cull\<close> returns.\<close>

definition cull_cell ::
  "emulator \<Rightarrow> int \<Rightarrow> nat \<Rightarrow> nat \<Rightarrow> predictionEngine \<Rightarrow> (bool \<times> predictionEngine) option" where
  "cull_cell emu now i j pe = do {
     row \<leftarrow> list_at (pe_overlays pe) (int i);
     c \<leftarrow> list_at (cor_overlayCells row) (int j);
     v \<leftarrow> coc_getValidity emu (cor_rowNum row) (pe_localFrameLateAcked pe) c;
     _ \<leftarrow> emu_GetCell (cor_rowNum row) (int j) emu;
     (case v of
        IncorrectOrExpired \<Rightarrow>
          if pe_displayPreference pe = Experimental then map_option (Pair False) (on_cell i (int j) coc_reset pe)
          else if tentative (pe_confirmedEpoch pe) c
          then Some (False, killEpoch (co_tentativeUntilEpoch c) emu pe)
          else Some (True, pe_Reset pe)
      | Correct \<Rightarrow> map_option (Pair False) (cull_correct emu now i j (cor_rowNum row) c pe)
      | CorrectNoCredit \<Rightarrow> map_option (Pair False) (on_cell i (int j) coc_reset pe)
      | Pending \<Rightarrow> Some (False, cull_pending now c pe)
      | _ \<Rightarrow> Some (False, pe))
   }"

fun cull_cells ::
  "emulator \<Rightarrow> int \<Rightarrow> nat \<Rightarrow> nat list \<Rightarrow> predictionEngine \<Rightarrow> (bool \<times> predictionEngine) option" where
  "cull_cells emu now i [] pe = Some (False, pe)"
| "cull_cells emu now i (j # js) pe = do {
     (ret, pe') \<leftarrow> cull_cell emu now i j pe;
     if ret then Some (True, pe') else cull_cells emu now i js pe'
   }"

definition row_out :: "emulator \<Rightarrow> conditionalOverlayRow \<Rightarrow> bool" where
  "row_out emu row \<longleftrightarrow> cor_rowNum row < 0 \<or> cor_rowNum row \<ge> GetHeight emu"

fun cull_rows ::
  "emulator \<Rightarrow> int \<Rightarrow> nat list \<Rightarrow> predictionEngine \<Rightarrow> (bool \<times> predictionEngine) option" where
  "cull_rows emu now [] pe = Some (False, pe)"
| "cull_rows emu now (i # is) pe = do {
     row \<leftarrow> list_at (pe_overlays pe) (int i);
     if row_out emu row then cull_rows emu now is pe
     else do {
       (ret, pe') \<leftarrow> cull_cells emu now i [0..<length (cor_overlayCells row)] pe;
       if ret then Some (True, pe') else cull_rows emu now is pe'
     }
   }"

definition cull_triggers :: "predictionEngine \<Rightarrow> predictionEngine" where
  "cull_triggers pe0 =
     (let pe1 = (if pe_sendInterval pe0 > SRTT_TRIGGER_HIGH then pe0\<lparr>pe_srttTrigger := True\<rparr>
                 else if pe_srttTrigger pe0 \<and> pe_sendInterval pe0 \<le> SRTT_TRIGGER_LOW \<and> \<not> pe_active pe0
                 then pe0\<lparr>pe_srttTrigger := False\<rparr> else pe0);
          pe2 = (if pe_sendInterval pe1 > FLAG_TRIGGER_HIGH then pe1\<lparr>pe_flagging := True\<rparr>
                 else if pe_sendInterval pe1 \<le> FLAG_TRIGGER_LOW then pe1\<lparr>pe_flagging := False\<rparr> else pe1)
      in if pe_glitchTrigger pe2 > GLITCH_REPAIR_COUNT then pe2\<lparr>pe_flagging := True\<rparr> else pe2)"

definition cull_resize :: "emulator \<Rightarrow> predictionEngine \<Rightarrow> predictionEngine" where
  "cull_resize emu pe =
     (if pe_lastHeight pe \<noteq> GetHeight emu \<or> pe_lastWidth pe \<noteq> GetWidth emu
      then pe_Reset (pe\<lparr>pe_lastHeight := GetHeight emu, pe_lastWidth := GetWidth emu\<rparr>) else pe)"

definition cull_cursors :: "emulator \<Rightarrow> predictionEngine \<Rightarrow> predictionEngine" where
  "cull_cursors emu pe =
     (let validity_of = ccm_getValidity emu (pe_localFrameLateAcked pe);
          wrong = (case pe_cursor pe of None \<Rightarrow> False | Some c \<Rightarrow> validity_of c = IncorrectOrExpired)
      in if wrong \<and> pe_displayPreference pe \<noteq> Experimental then pe_Reset pe
         else
           let pe1 = (if wrong then pe\<lparr>pe_cursors := []\<rparr> else pe)
           in pe1\<lparr>pe_cursors := filter (\<lambda>c. validity_of c = Pending) (pe_cursors pe1)\<rparr>)"

text \<open>
  The rows that stay are collected at the front of the slice that the loop reads. A row is only written
  over after it has been visited, so the list is filtered at the end.
\<close>

definition cull :: "emulator \<Rightarrow> int \<Rightarrow> predictionEngine \<Rightarrow> predictionEngine option" where
  "cull emu now pe0 =
     (if pe_displayPreference pe0 = Never then Some pe0
      else do {
        let pe1 = cull_triggers (cull_resize emu pe0);
        (ret, pe2) \<leftarrow> cull_rows emu now [0..<length (pe_overlays pe1)] pe1;
        if ret then Some pe2
        else Some (cull_cursors emu (pe2\<lparr>pe_overlays := filter (\<lambda>r. \<not> row_out emu r) (pe_overlays pe2)\<rparr>))
      })"

section \<open>A key of the user\<close>

definition predict_right :: "emulator \<Rightarrow> int \<Rightarrow> predictionEngine \<Rightarrow> predictionEngine option" where
  "predict_right emu now pe0 = do {
     let pe1 = initCursor emu pe0;
     c \<leftarrow> pe_cursor pe1;
     let x = co_col c;
     if x < GetWidth emu - 1 then do {
       (i, pe2) \<leftarrow> getOrMakeRow (ccm_row c) (GetWidth emu) pe1;
       predict \<leftarrow> the_cell i (x + 1) pe2;
       cl \<leftarrow> emu_GetCell (ccm_row c) (x + 1) emu;
       let wide = (ce_dwidthCont cl \<or> ce_dwidthCont (coc_replacement predict));
       if wide \<and> x + 2 \<ge> GetWidth emu then Some pe2
       else on_cursor (\<lambda>c. co_expire (pe_localFrameSent pe2 + 1) now (c\<lparr>co_col := x + (if wide then 2 else 1)\<rparr>)) pe2
     } else Some pe1
   }"

definition predict_left :: "emulator \<Rightarrow> int \<Rightarrow> predictionEngine \<Rightarrow> predictionEngine option" where
  "predict_left emu now pe0 = do {
     let pe1 = initCursor emu pe0;
     c \<leftarrow> pe_cursor pe1;
     let x = co_col c;
     if x > 0 then do {
       (i, pe2) \<leftarrow> getOrMakeRow (ccm_row c) (GetWidth emu) pe1;
       predict \<leftarrow> the_cell i (x - 1) pe2;
       cl \<leftarrow> emu_GetCell (ccm_row c) (x - 1) emu;
       let wide = (ce_dwidthCont cl \<or> ce_dwidthCont (coc_replacement predict));
       if wide \<and> x - 2 \<le> 0 then on_cursor (\<lambda>c. c\<lparr>co_col := 0\<rparr>) pe2
       else on_cursor (\<lambda>c. co_expire (pe_localFrameSent pe2 + 1) now (c\<lparr>co_col := x - (if wide then 2 else 1)\<rparr>)) pe2
     } else Some pe1
   }"

text \<open>The first contents of the screen at a predicted cell are remembered once.\<close>

definition keep_original ::
  "emulator \<Rightarrow> int \<Rightarrow> nat \<Rightarrow> int \<Rightarrow> predictionEngine \<Rightarrow> predictionEngine option" where
  "keep_original emu row i j pe = do {
     c \<leftarrow> the_cell i j pe;
     if length (coc_originalContents c) = 0 then do {
       cl \<leftarrow> emu_GetCell row j emu;
       on_cell i j (coc_originalContents_update (\<lambda>cs. cs @ [cl])) pe
     } else Some pe
   }"

text \<open>One turn of the loop that moves the cells behind the cursor; the flag tells that the loop goes on.\<close>

definition shift_cell ::
  "emulator \<Rightarrow> int \<Rightarrow> int \<Rightarrow> int \<Rightarrow> int \<Rightarrow> nat \<Rightarrow> int \<Rightarrow> predictionEngine \<Rightarrow> (bool \<times> predictionEngine) option" where
  "shift_cell emu now w row col i j pe0 = do {
     pe1 \<leftarrow> on_cell i j (\<lambda>c. activate pe0 now (coc_resetWithOrig c)) pe0;
     pe2 \<leftarrow> keep_original emu row i j pe1;
     if j - w < col then Some (False, pe2)
     else do {
       prev \<leftarrow> the_cell i (j - w) pe2;
       prevActual \<leftarrow> emu_GetCell row (j - w) emu;
       pe3 \<leftarrow> on_cell i j (\<lambda>c.
         if j = GetWidth emu - 1 then c\<lparr>coc_unknown := True\<rparr>
         else if co_active prev then
           (if coc_unknown prev then c\<lparr>coc_unknown := True\<rparr>
            else c\<lparr>coc_unknown := False, coc_replacement := coc_replacement prev\<rparr>)
         else c\<lparr>coc_unknown := False, coc_replacement := prevActual\<rparr>) pe2;
       Some (True, pe3)
     }
   }"

fun shift_cells ::
  "emulator \<Rightarrow> int \<Rightarrow> int \<Rightarrow> int \<Rightarrow> int \<Rightarrow> nat \<Rightarrow> int list \<Rightarrow> predictionEngine \<Rightarrow> predictionEngine option" where
  "shift_cells emu now w row col i [] pe = Some pe"
| "shift_cells emu now w row col i (j # js) pe = do {
     (go, pe') \<leftarrow> shift_cell emu now w row col i j pe;
     if go then shift_cells emu now w row col i js pe' else Some pe'
   }"

text \<open>The cells from \<open>right\<close> down to the one after \<open>col\<close>.\<close>

definition columns_down :: "int \<Rightarrow> int \<Rightarrow> int list" where
  "columns_down right col = map (\<lambda>k. right - int k) [0..<nat (right - col)]"

definition predict_cell ::
  "emulator \<Rightarrow> int \<Rightarrow> int \<Rightarrow> rune list \<Rightarrow> int \<Rightarrow> int \<Rightarrow> nat \<Rightarrow> predictionEngine \<Rightarrow> predictionEngine option" where
  "predict_cell emu now w chs row col i pe0 = do {
     pe1 \<leftarrow> on_cell i col (\<lambda>c. coc_replacement_update (ce_renditions_update (\<lambda>_. ce_renditions (em_attrs emu)))
       (activate pe0 now (coc_resetWithOrig c))) pe0;
     pe2 \<leftarrow> (if w = 2 then do {
         pe' \<leftarrow> on_cell i col (coc_replacement_update (ce_dwidth_update (\<lambda>_. True))) pe1;
         on_cell i (col + 1) (coc_replacement_update (ce_dwidthCont_update (\<lambda>_. True))) pe'
       } else Some pe1);
     pe3 \<leftarrow> on_cell i col (coc_replacement_update (SetContents chs)) pe2;
     keep_original emu row i col pe3
   }"

text \<open>The last column before the rune is placed, and the cursor after it.\<close>

definition grapheme_edge :: "emulator \<Rightarrow> int \<Rightarrow> int \<Rightarrow> int \<Rightarrow> predictionEngine \<Rightarrow> predictionEngine option" where
  "grapheme_edge emu later w col pe =
     (if col + w \<ge> GetWidth emu then
        (if w = 2 \<and> col = GetWidth emu - 1 then newlineCarriageReturn emu later (becomeTentative pe)
         else Some (becomeTentative pe))
      else Some pe)"

definition grapheme_advance ::
  "emulator \<Rightarrow> int \<Rightarrow> int \<Rightarrow> int \<Rightarrow> int \<Rightarrow> predictionEngine \<Rightarrow> predictionEngine option" where
  "grapheme_advance emu now later w col pe5 = do {
     pe6 \<leftarrow> on_cursor (co_expire (pe_localFrameSent pe5 + 1) now) pe5;
     if col < GetWidth emu - w then on_cursor (\<lambda>c. c\<lparr>co_col := col + w\<rparr>) pe6
     else newlineCarriageReturn emu later (becomeTentative pe6)
   }"

definition grapheme_draw ::
  "emulator \<Rightarrow> int \<Rightarrow> int \<Rightarrow> int \<Rightarrow> rune list \<Rightarrow> predictionEngine \<Rightarrow> predictionEngine option" where
  "grapheme_draw emu now later w chs pe2 = do {
     c \<leftarrow> pe_cursor pe2;
     let row = ccm_row c;
     let col = co_col c;
     (i, pe3) \<leftarrow> getOrMakeRow row (GetWidth emu) pe2;
     let right = (if pe_predictOverwrite pe3 then col else GetWidth emu - 1);
     pe4 \<leftarrow> shift_cells emu now w row col i (columns_down right col) pe3;
     pe5 \<leftarrow> predict_cell emu now w chs row col i pe4;
     grapheme_advance emu now later w col pe5
   }"

definition handleUserGrapheme ::
  "term_env \<Rightarrow> emulator \<Rightarrow> int \<Rightarrow> int \<Rightarrow> rune list \<Rightarrow> predictionEngine \<Rightarrow> predictionEngine option" where
  "handleUserGrapheme env emu now later chs pe0 = do {
     let w = te_width env (concat (map utf8 chs));
     let pe1 = initCursor emu pe0;
     c \<leftarrow> pe_cursor pe1;
     if length chs = 1 \<and> hd chs = 0x7F then Some (becomeTentative pe1)
     else if length chs = 1 \<and> hd chs < 0x20 then Some (becomeTentative pe1)
     else do {
       pe2 \<leftarrow> grapheme_edge emu later w (co_col c) pe1;
       grapheme_draw emu now later w chs pe2
     }
   }"

text \<open>
  The keys the engine knows. \<open>GetCh\<close> gives the last single rune the parser has seen, also for a
  grapheme of several runes.
\<close>

definition predict_key ::
  "term_env \<Rightarrow> emulator \<Rightarrow> int \<Rightarrow> int \<Rightarrow> handler \<Rightarrow> predictionEngine \<Rightarrow> predictionEngine option" where
  "predict_key env emu now later h pe =
     (if hd_id h = ''Graphemes'' then handleUserGrapheme env emu now later [hd_ch h] pe
      else if hd_id h = ''C0_CR'' then newlineCarriageReturn emu later (becomeTentative pe)
      else if hd_id h = ''CSI_CUF'' then predict_right emu now pe
      else if hd_id h = ''CSI_CUB'' then predict_left emu now pe
      else Some (becomeTentative pe))"

text \<open>Three reads of the clock: in \<open>cull\<close>, for the key, and for a new line.\<close>

definition NewUserInput ::
  "term_env \<Rightarrow> emulator \<Rightarrow> rune list \<Rightarrow> int \<Rightarrow> int \<Rightarrow> int \<Rightarrow> predictionEngine \<Rightarrow> predictionEngine option" where
  "NewUserInput env emu input before now later pe0 =
     (if length input = 0 then Some pe0
      else if pe_displayPreference pe0 = Never then Some pe0
      else do {
        pe1 \<leftarrow> cull emu before (if pe_displayPreference pe0 = Experimental
          then pe0\<lparr>pe_predictionEpoch := pe_confirmedEpoch pe0\<rparr> else pe0);
        (p, h) \<leftarrow> ProcessInput input (pe_parser pe1);
        let pe2 = pe1\<lparr>pe_lastByte := input, pe_parser := p\<rparr>;
        (case h of
           None \<Rightarrow> Some pe2
         | Some k \<Rightarrow> do { pe3 \<leftarrow> predict_key env emu now later k pe2; Some (pe3\<lparr>pe_applied := False\<rparr>) })
      })"

definition GetApplied :: "predictionEngine \<Rightarrow> string \<times> predictionEngine" where
  "GetApplied pe =
     (if pe_applied pe \<or> length (pe_diff pe) = 0 then ([], pe)
      else (concat (map (\<lambda>d. ce_contents (ad_cell d)) (pe_diff pe)), pe\<lparr>pe_diff := [], pe_applied := True\<rparr>))"

definition ClearApplied :: "predictionEngine \<Rightarrow> predictionEngine" where
  "ClearApplied pe = pe\<lparr>pe_applied := False\<rparr>"

definition SetDisplayPreference :: "displayPreference \<Rightarrow> predictionEngine \<Rightarrow> predictionEngine" where
  "SetDisplayPreference v pe = pe\<lparr>pe_displayPreference := v\<rparr>"

definition SetPredictOverwrite :: "bool \<Rightarrow> predictionEngine \<Rightarrow> predictionEngine" where
  "SetPredictOverwrite overwrite pe = pe\<lparr>pe_predictOverwrite := overwrite\<rparr>"

definition SetLocalFrameSent :: "64 word \<Rightarrow> predictionEngine \<Rightarrow> predictionEngine" where
  "SetLocalFrameSent v pe = pe\<lparr>pe_localFrameSent := v\<rparr>"

definition SetLocalFrameAcked :: "64 word \<Rightarrow> predictionEngine \<Rightarrow> predictionEngine" where
  "SetLocalFrameAcked v pe = pe\<lparr>pe_localFrameAcked := v\<rparr>"

definition SetLocalFrameLateAcked :: "64 word \<Rightarrow> predictionEngine \<Rightarrow> predictionEngine" where
  "SetLocalFrameLateAcked v pe = pe\<lparr>pe_localFrameLateAcked := v\<rparr>"

definition pe_SetSendInterval :: "64 word \<Rightarrow> predictionEngine \<Rightarrow> predictionEngine" where
  "pe_SetSendInterval v pe = pe\<lparr>pe_sendInterval := v\<rparr>"

definition pe_waitTime :: "predictionEngine \<Rightarrow> int" where
  "pe_waitTime pe = (if timingTestsNecessary pe \<and> pe_active pe then 50 else MaxInt64)"

section \<open>The overlay manager\<close>

record overlayManager =
  om_notifications :: notificationEngine
  om_predictions :: predictionEngine
  om_title :: string

definition NewOverlayManager :: "int \<Rightarrow> int \<Rightarrow> overlayManager" where
  "NewOverlayManager now now' =
     \<lparr>om_notifications = newNotificationEngien now now', om_predictions = newPredictionEngine, om_title = []\<rparr>"

definition SetTitlePrefix :: "string \<Rightarrow> overlayManager \<Rightarrow> overlayManager" where
  "SetTitlePrefix v om = om\<lparr>om_title := v\<rparr>"

definition om_WaitTime :: "int \<Rightarrow> overlayManager \<Rightarrow> int" where
  "om_WaitTime now om = min (ne_waitTime now (om_notifications om)) (pe_waitTime (om_predictions om))"

text \<open>Three reads of the clock: in \<open>cull\<close>, in \<open>adjustMessage\<close> and in \<open>apply\<close> of the notifications.\<close>

definition om_Apply ::
  "term_env \<Rightarrow> (string \<Rightarrow> (rune list \<times> nat) list) \<Rightarrow> int \<Rightarrow> int \<Rightarrow> int \<Rightarrow> overlayManager \<Rightarrow> emulator
     \<Rightarrow> (overlayManager \<times> emulator) option" where
  "om_Apply env graphemes t1 t2 t3 om emu = do {
     pe1 \<leftarrow> cull emu t1 (om_predictions om);
     (pe2, emu1) \<leftarrow> pe_apply emu pe1;
     let ne = adjustMessage t2 (om_notifications om);
     emu2 \<leftarrow> ne_apply env graphemes t3 ne emu1;
     Some (om\<lparr>om_predictions := pe2, om_notifications := ne\<rparr>, prefixWindowTitle (om_title om) emu2)
   }"

end
