(* ===== verification/FrontEnd.thy ===== *)
theory FrontEnd
  imports Transport Overlay
begin

text \<open>
  What the client and the server share: the constants of \<open>frontend/message.go\<close>, the table of pending
  signals of \<open>frontend/signal.go\<close>, and the operations of the interface \<open>State\<close> for the terminal of
  the server. Signal numbers are the ones of Linux.
\<close>

definition TimeoutIfNoResp :: int where "TimeoutIfNoResp = 60000"
definition TimeoutIfNoConnect :: int where "TimeoutIfNoConnect = 15000"
definition SaveLinesRowsOption :: int where "SaveLinesRowsOption = 60"

section \<open>Signals\<close>

definition SIGHUP :: int where "SIGHUP = 1"
definition SIGINT :: int where "SIGINT = 2"
definition SIGUSR1 :: int where "SIGUSR1 = 10"
definition SIGPIPE :: int where "SIGPIPE = 13"
definition SIGTERM :: int where "SIGTERM = 15"
definition SIGCONT :: int where "SIGCONT = 18"
definition SIGWINCH :: int where "SIGWINCH = 28"

definition MAX_SIGNAL_NUMBER :: nat where "MAX_SIGNAL_NUMBER = 64"

text \<open>One number per signal, which is positive when the signal is pending.\<close>

type_synonym signals = "int list"

definition no_signals :: signals where
  "no_signals = replicate MAX_SIGNAL_NUMBER 0"

definition GotSignal :: "int \<Rightarrow> signals \<Rightarrow> bool \<times> signals" where
  "GotSignal x s =
     (if 0 \<le> x \<and> x < int MAX_SIGNAL_NUMBER then (s ! nat x > 0, s[nat x := 0]) else (False, s))"

definition signal_Handler :: "int \<Rightarrow> signals \<Rightarrow> signals" where
  "signal_Handler sig s = (if 0 \<le> sig \<and> sig < int MAX_SIGNAL_NUMBER then s[nat sig := sig] else s)"

definition AnySignal :: "signals \<Rightarrow> bool" where
  "AnySignal s = list_ex (\<lambda>v. v > 0) s"

definition signals_Clear :: "signals \<Rightarrow> signals" where
  "signals_Clear s = map (\<lambda>v. 0) s"

text \<open>A chain of \<open>GotSignal\<close> joined by \<open>||\<close>: the ones after the first that is pending are not consumed.\<close>

fun got_any :: "int list \<Rightarrow> signals \<Rightarrow> bool \<times> signals" where
  "got_any [] s = (False, s)"
| "got_any (x # xs) s = (let (got, s1) = GotSignal x s in if got then (True, s1) else got_any xs s1)"

lemma AnySignal_none [simp]: "\<not> AnySignal no_signals" "signals_Clear no_signals = no_signals"
  by (simp_all add: AnySignal_def no_signals_def signals_Clear_def list_ex_iff)

lemma GotSignal_none [simp]: "GotSignal x no_signals = (False, no_signals)"
  by (auto simp: GotSignal_def no_signals_def MAX_SIGNAL_NUMBER_def nat_less_iff list_update_same_conv)

section \<open>The terminal as a state\<close>

text \<open>
  The operations of \<open>Complete\<close> may panic, those of the interface may not: a state whose operation has
  panicked is \<open>None\<close>, and client and server end when one appears. The two comparisons panic for a frame
  buffer out of shape only.
\<close>

definition complete_ops ::
  "(host_inst list \<Rightarrow> bytes) \<Rightarrow> (bytes \<Rightarrow> host_inst list option) \<Rightarrow> term_env
     \<Rightarrow> (string \<Rightarrow> (rune list \<times> nat) list) \<Rightarrow> complete option state_ops" where
  "complete_ops marshal unmarshal env graphemes =
     (let lift = (\<lambda>f a b dflt. case (a, b) of
            (Some x, Some y) \<Rightarrow> (case f x y of Some v \<Rightarrow> v | None \<Rightarrow> dflt) | _ \<Rightarrow> dflt)
      in \<lparr>so_Subtract = (\<lambda>a b. a),
          so_DiffFrom = (\<lambda>a b. lift (Complete_DiffFrom marshal) a b []),
          so_InitDiff = (\<lambda>a. case Option.bind a (Complete_InitDiff env marshal) of Some d \<Rightarrow> d | None \<Rightarrow> []),
          so_ApplyString = (\<lambda>diff a. case Option.bind a (Complete_ApplyString unmarshal env graphemes diff) of
            Some (x, err) \<Rightarrow> (Some x, err) | None \<Rightarrow> (None, False)),
          so_Equal = (\<lambda>a b. case (a, b) of (Some x, Some y) \<Rightarrow> Complete_Equal x y = Some True | _ \<Rightarrow> False),
          so_ResetInput = map_option Complete_ResetInput,
          so_Reset = map_option Complete_Reset,
          so_InitSize = (\<lambda>nCols nRows a. Option.bind a (Complete_InitSize nCols nRows)),
          so_Clone = map_option Complete_Clone\<rparr>)"

text \<open>What client and server use from outside.\<close>

record front_env =
  fe_term :: term_env
  fe_graphemes :: "string \<Rightarrow> (rune list \<times> nat) list"
  fe_user :: "user_stream state_ops"
  fe_host :: "complete option state_ops"
  fe_zread :: "bytes \<Rightarrow> (bytes \<times> read_err) option"
  fe_unmarshal :: "bytes \<Rightarrow> instruction option"

text \<open>\<open>GetState\<close> of the newest received state, and replacing it.\<close>

definition latest_state :: "('s, 'sock, 'addr, 'r) transport \<Rightarrow> 'r option" where
  "latest_state net = do { st \<leftarrow> GetLatestRemoteState net; list_at (tr_store net) (int (tm_state st)) }"

definition set_latest_state ::
  "'r \<Rightarrow> ('s, 'sock, 'addr, 'r) transport \<Rightarrow> ('s, 'sock, 'addr, 'r) transport" where
  "set_latest_state r net =
     (case GetLatestRemoteState net of
        Some st \<Rightarrow> net\<lparr>tr_store := (tr_store net)[tm_state st := r]\<rparr> | None \<Rightarrow> net)"

text \<open>\<open>GetCurrentState\<close> is a pointer to the state of the sender: what is done to it.\<close>

definition on_current ::
  "('s \<Rightarrow> 's) \<Rightarrow> ('s, 'sock, 'addr, 'r) transport \<Rightarrow> ('s, 'sock, 'addr, 'r) transport" where
  "on_current f net = net\<lparr>tr_sender := (tr_sender net)\<lparr>sd_currentState := f (sd_currentState (tr_sender net))\<rparr>\<rparr>"

end
