(* ===== verification/Client.thy ===== *)
theory Client
  imports FrontEnd
begin

text \<open>
  \<open>frontend/client/client.go\<close>: the state of the client, what it does for a key of the user, a datagram of
  the server and a change of the window, and its main loop.

  Every operation returns what it writes to the terminal of the user. \<open>None\<close> is a panic. The main loop
  takes one turn per event that \<open>select\<close> receives; a turn holds what comes from outside: the event, the
  readings of the clock, the size of the window and the results of system calls. Readings that only
  start a message or a shutdown are one number per turn. Threads, channels and logging are left out.
\<close>

section \<open>State\<close>

record client_config =
  cg_host :: string
  cg_port :: int
  cg_key :: string
  cg_predictMode :: string
  cg_predictOverwrite :: string

type_synonym ('sock, 'addr) client_net = "(user_stream, 'sock, 'addr, complete option) transport"

record ('sock, 'addr) stmClient =
  sc_display :: display
  sc_newState :: "emulator option"
  sc_localFramebuffer :: "emulator option"
  sc_network :: "('sock, 'addr) client_net option"
  sc_overlays :: overlayManager
  sc_connectingNotification :: string
  sc_key :: string
  sc_escapeKeyHelp :: string
  sc_ip :: string
  sc_escapeKey :: int
  sc_escapePassKey2 :: int
  sc_escapePassKey :: int
  sc_port :: int
  sc_escapeRequireslf :: bool
  sc_lfEntered :: bool
  sc_quitSequenceStarted :: bool
  sc_cleanShutdown :: bool
  sc_repaintRequested :: bool

definition on_predictions ::
  "(predictionEngine \<Rightarrow> predictionEngine) \<Rightarrow> ('sock, 'addr) stmClient \<Rightarrow> ('sock, 'addr) stmClient" where
  "on_predictions f sc = sc\<lparr>sc_overlays := (sc_overlays sc)\<lparr>om_predictions := f (om_predictions (sc_overlays sc))\<rparr>\<rparr>"

definition on_notifications ::
  "(notificationEngine \<Rightarrow> notificationEngine) \<Rightarrow> ('sock, 'addr) stmClient \<Rightarrow> ('sock, 'addr) stmClient" where
  "on_notifications f sc =
     sc\<lparr>sc_overlays := (sc_overlays sc)\<lparr>om_notifications := f (om_notifications (sc_overlays sc))\<rparr>\<rparr>"

definition on_network ::
  "(('sock, 'addr) client_net \<Rightarrow> ('sock, 'addr) client_net) \<Rightarrow> ('sock, 'addr) stmClient \<Rightarrow> ('sock, 'addr) stmClient" where
  "on_network f sc = sc\<lparr>sc_network := map_option f (sc_network sc)\<rparr>"

section \<open>Start\<close>

text \<open>\<open>now\<close> and \<open>now'\<close> are the readings of the notification engine, \<open>term_name\<close> is \<open>TERM\<close>.\<close>

definition newSTMClient ::
  "term_env \<Rightarrow> string \<Rightarrow> int \<Rightarrow> int \<Rightarrow> client_config \<Rightarrow> ('sock, 'addr) stmClient" where
  "newSTMClient env term_name now now' config =
     (let om = NewOverlayManager now now';
          mode = cg_predictMode config;
          pe1 = (if mode = ''always'' then SetDisplayPreference Always (om_predictions om)
                 else if mode = ''never'' then SetDisplayPreference Never (om_predictions om)
                 else if mode = ''adaptive'' then SetDisplayPreference Adaptive (om_predictions om)
                 else if mode = ''experimental'' then SetDisplayPreference Experimental (om_predictions om)
                 else om_predictions om);
          pe2 = (if cg_predictOverwrite config = ''yes'' then SetPredictOverwrite True pe1 else pe1)
      in \<lparr>sc_display = NewDisplay env term_name True, sc_newState = None, sc_localFramebuffer = None,
          sc_network = None, sc_overlays = om\<lparr>om_predictions := pe2\<rparr>, sc_connectingNotification = [],
          sc_key = cg_key config, sc_escapeKeyHelp = ''?'', sc_ip = cg_host config, sc_escapeKey = 0x1E,
          sc_escapePassKey2 = 94, sc_escapePassKey = 94, sc_port = cg_port config,
          sc_escapeRequireslf = False, sc_lfEntered = False, sc_quitSequenceStarted = False,
          sc_cleanShutdown = False, sc_repaintRequested = False\<rparr>)"

text \<open>
  The escape key, and the keys that type it after it, from the environment variable. The help text of the
  key \<open>%\<close> alone differs, since it is used as a format.
\<close>

definition escape_keys :: "string \<Rightarrow> int \<times> int \<times> int" where
  "escape_keys escapeKeyEnv =
     (let usual = (0x1E, 94, 94);
          (key, pass, pass2) =
            (case escapeKeyEnv of
               [c] \<Rightarrow>
                 (let key = of_char c;
                      pass = (if key < 32 then key + 64 else key);
                      pass2 = (if 65 \<le> pass \<and> pass \<le> 90 then pass + 97 - 65 else pass)
                  in if 0 < key \<and> key < 128 then (key, pass, pass2) else usual)
             | _ \<Rightarrow> usual)
      in if key \<in> {0x03, 0x04, 0x0A, 0x0C, 0x0D} then usual else (key, pass, pass2))"

text \<open>The part of \<open>init\<close> behind the terminal driver, and what it writes.\<close>

definition client_init :: "string \<Rightarrow> string \<Rightarrow> ('sock, 'addr) stmClient \<Rightarrow> string \<times> ('sock, 'addr) stmClient" where
  "client_init titlePrefix escapeKeyEnv sc =
     (let (key, pass, pass2) = escape_keys escapeKeyEnv;
          sc1 = (if titlePrefix \<noteq> [] then sc\<lparr>sc_overlays := SetTitlePrefix titlePrefix (sc_overlays sc)\<rparr> else sc)
                \<lparr>sc_escapeKey := key, sc_escapePassKey := pass, sc_escapePassKey2 := pass2\<rparr>;
          quoted = CHR 0x22 # utf8 (nat pass) @ [CHR 0x22];
          name = (if key < 32 then ''Ctrl-'' @ utf8 (nat pass) else quoted);
          help = ''Commands: Ctrl-Z suspends, '' @ [CHR 0x22] @ ''.'' @ [CHR 0x22] @ '' quits, '' @ quoted @ '' gives literal '' @ name;
          sc2 = (if key > 0 then on_notifications (SetEscapeKeyString [])
                   (sc1\<lparr>sc_escapeRequireslf := key \<ge> 32, sc_escapeKeyHelp := help\<rparr>) else sc1)
      in (Display_Open (sc_display sc),
          sc2\<lparr>sc_connectingNotification := ''Nothing received from server on UDP port '' @ fmt_d (sc_port sc) @ ''.''\<rparr>))"

definition stillConnecting :: "('sock, 'addr) stmClient \<Rightarrow> bool option" where
  "stillConnecting sc =
     (case sc_network sc of None \<Rightarrow> Some False | Some net \<Rightarrow> map_option (\<lambda>n. n = 0) (GetRemoteStateNum net))"

text \<open>\<open>restored\<close> tells whether the driver took the saved settings.\<close>

definition resume :: "bool \<Rightarrow> ('sock, 'addr) stmClient \<Rightarrow> string \<times> ('sock, 'addr) stmClient" where
  "resume restored sc =
     (if restored then (Display_Open (sc_display sc), sc\<lparr>sc_repaintRequested := True\<rparr>) else ([], sc))"

text \<open>The size of the window is known; \<open>conn\<close> is the connection that \<open>NewConnectionClient\<close> opens.\<close>

definition mainInit ::
  "front_env \<Rightarrow> int \<Rightarrow> int \<Rightarrow> int \<Rightarrow> int \<Rightarrow> ('sock, 'addr) connection \<Rightarrow> ('sock, 'addr) stmClient
     \<Rightarrow> (string \<times> ('sock, 'addr) stmClient) option" where
  "mainInit env now now' col row conn sc = do {
     local \<leftarrow> NewEmulator3 col row SaveLinesRowsOption;
     newState \<leftarrow> NewEmulator3 col row SaveLinesRowsOption;
     terminal \<leftarrow> NewComplete (fe_term env) col row SaveLinesRowsOption;
     let net = new_transport (fe_user env) (fe_host env) now now' [] (Some terminal) conn [];
     let net1 = on_current (PushBackResize col row) (SetSendDelay 1 net);
     Some (csi ''?1049l'' @ csi ''?1l'' @ csi ''?1004l'',
       sc\<lparr>sc_localFramebuffer := Some local, sc_newState := Some newState, sc_network := Some net1\<rparr>)
   }"

section \<open>A frame\<close>

text \<open>
  The difference of the newest state is taken out of it. It is written only when no prediction has been
  drawn since; then the flag of the drawn prediction falls, and the difference with it.
\<close>

definition frame_text :: "string \<Rightarrow> predictionEngine \<Rightarrow> string \<times> predictionEngine" where
  "frame_text diff pe =
     (let (predictDiff, pe1) = GetApplied pe
      in if predictDiff \<noteq> [] then (predictDiff, pe1)
         else if diff \<noteq> [] then (if \<not> pe_applied pe1 then diff else [], ClearApplied pe1)
         else ([], pe1))"

definition outputNewFrame ::
  "front_env \<Rightarrow> int \<times> int \<times> int \<Rightarrow> ('sock, 'addr) stmClient
     \<Rightarrow> (string \<times> ('sock, 'addr) stmClient) option" where
  "outputNewFrame env ck sc =
     (case sc_network sc of
        None \<Rightarrow> Some ([], sc)
      | Some net \<Rightarrow> do {
          state \<leftarrow> latest_state net;
          c \<leftarrow> state;
          (om, newState) \<leftarrow> om_Apply (fe_term env) (fe_graphemes env) (fst ck) (fst (snd ck)) (snd (snd ck))
            (sc_overlays sc) (emu_Clone (cp_terminal c));
          let (diff, c1) = GetDiff c;
          let (out, pe) = frame_text diff (om_predictions om);
          Some (out, sc\<lparr>sc_newState := Some newState, sc_localFramebuffer := Some newState,
            sc_network := Some (set_latest_state (Some c1) net),
            sc_overlays := om\<lparr>om_predictions := pe\<rparr>, sc_repaintRequested := False\<rparr>)
        })"

section \<open>Input\<close>

text \<open>A datagram. An error of \<open>ProcessPayload\<close> is only logged.\<close>

definition processNetworkInput ::
  "front_env \<Rightarrow> int \<times> int \<Rightarrow> bytes \<Rightarrow> ('sock, 'addr) stmClient \<Rightarrow> ('sock, 'addr) stmClient option" where
  "processNetworkInput env ck s sc = do {
     net \<leftarrow> sc_network sc;
     (err, net1) \<leftarrow> ProcessPayload (fe_zread env) (fe_unmarshal env) (fe_host env) (fst ck) (snd ck) s net;
     if None \<in> set (tr_store net1) then None
     else do {
       rs \<leftarrow> GetLatestRemoteState net1;
       ackedTime \<leftarrow> getSentStateAckedTimestamp (tr_sender net1);
       acked \<leftarrow> getSentStateAcked (tr_sender net1);
       state \<leftarrow> latest_state net1;
       c \<leftarrow> state;
       Some (on_predictions (\<lambda>pe. SetLocalFrameLateAcked (cp_echoAck c)
               (pe_SetSendInterval (word_of_int (sendInterval (tr_connection net1))) (SetLocalFrameAcked acked pe)))
             (on_notifications (\<lambda>ne. ServerAcked ackedTime (ServerHeard (tm_timestamp rs) ne))
               (sc\<lparr>sc_network := Some net1\<rparr>)))
     }
   }"

definition suspended_text :: string where
  "suspended_text = CHR 0x0A # csi ''37;44m'' @ ''[apsh is suspended.]'' @ csi ''m'' @ [CHR 0x0A]"

text \<open>
  The key after the escape key. The first result is \<open>Some\<close> when \<open>processUserInput\<close> returns with that value;
  the two booleans are the results of \<open>term.Restore\<close>.
\<close>

definition quit_sequence ::
  "int \<Rightarrow> bool \<times> bool \<Rightarrow> rune \<Rightarrow> ('sock, 'addr) client_net \<Rightarrow> ('sock, 'addr) stmClient
     \<Rightarrow> bool option \<times> string \<times> ('sock, 'addr) stmClient" where
  "quit_sequence now restored theByte net sc =
     (let fin = (\<lambda>sc. let sc1 = sc\<lparr>sc_quitSequenceStarted := False\<rparr>
            in if ne_message (om_notifications (sc_overlays sc1)) = sc_escapeKeyHelp sc1
               then on_notifications (SetNotificationString now [] False True) sc1 else sc1)
      in if theByte = 46 then
           (if HasRemoteAddr net \<and> \<not> ShutdownInProgress net then
              (Some True, [], on_network (StartShutdown now)
                (on_notifications (SetNotificationString now ''Exiting on user request...'' True True) sc))
            else (Some False, [], sc))
         else if theByte = 0x1A then
           (if \<not> fst restored then (Some False, Display_Close (sc_display sc), sc)
            else let (out, sc1) = resume (snd restored) sc
                 in (None, Display_Close (sc_display sc) @ suspended_text @ out, fin sc1))
         else if int theByte = sc_escapePassKey sc \<or> int theByte = sc_escapePassKey2 sc then
           (None, [], fin (on_network (on_current (PushBack [nat (sc_escapeKey sc)])) sc))
         else (None, [], fin (on_network (on_current (PushBack [nat (sc_escapeKey sc), theByte])) sc)))"

text \<open>One cluster of the input. \<open>ck\<close> are the readings of the clock in the prediction engine.\<close>

definition user_key ::
  "front_env \<Rightarrow> int \<times> int \<times> int \<Rightarrow> int \<Rightarrow> bool \<times> bool \<Rightarrow> bool \<Rightarrow> rune list
     \<Rightarrow> ('sock, 'addr) stmClient \<Rightarrow> (bool option \<times> string \<times> ('sock, 'addr) stmClient) option" where
  "user_key env ck now restored paste input sc0 = do {
     theByte \<leftarrow> list_at input 0;
     sc \<leftarrow> (if paste then Some sc0
            else do {
              local \<leftarrow> sc_localFramebuffer sc0;
              pe \<leftarrow> NewUserInput (fe_term env) local input (fst ck) (fst (snd ck)) (snd (snd ck))
                (om_predictions (sc_overlays sc0));
              Some (on_predictions (\<lambda>_. pe) sc0)
            });
     net \<leftarrow> sc_network sc;
     if sc_quitSequenceStarted sc then Some (quit_sequence now restored theByte net sc)
     else
       let quit = (sc_escapeKey sc > 0 \<and> int theByte = sc_escapeKey sc \<and>
                   (sc_lfEntered sc \<or> \<not> sc_escapeRequireslf sc))
       in if quit then
            Some (None, [], on_notifications (SetNotificationString now (sc_escapeKeyHelp sc) True False)
              (sc\<lparr>sc_quitSequenceStarted := True, sc_lfEntered := False\<rparr>))
          else
            let sc1 = sc\<lparr>sc_quitSequenceStarted := False, sc_lfEntered := (theByte = 0x0A \<or> theByte = 0x0D)\<rparr>;
                sc2 = (if theByte = 0x0C then sc1\<lparr>sc_repaintRequested := True\<rparr> else sc1)
            in Some (None, [], on_network (on_current (PushBack input)) sc2)
   }"

fun user_keys ::
  "front_env \<Rightarrow> (nat \<Rightarrow> int \<times> int \<times> int) \<Rightarrow> int \<Rightarrow> bool \<times> bool \<Rightarrow> bool \<Rightarrow> nat \<Rightarrow> rune list list
     \<Rightarrow> ('sock, 'addr) stmClient \<Rightarrow> (bool \<times> string \<times> ('sock, 'addr) stmClient) option" where
  "user_keys env ck now restored paste k [] sc = Some (True, [], sc)"
| "user_keys env ck now restored paste k (input # inputs) sc = do {
     (r, out, sc1) \<leftarrow> user_key env (ck k) now restored paste input sc;
     (case r of
        Some v \<Rightarrow> Some (v, out, sc1)
      | None \<Rightarrow> do {
          (v, out2, sc2) \<leftarrow> user_keys env ck now restored paste (Suc k) inputs sc1;
          Some (v, out @ out2, sc2)
        })
   }"

definition processUserInput ::
  "front_env \<Rightarrow> (nat \<Rightarrow> int \<times> int \<times> int) \<Rightarrow> int \<Rightarrow> bool \<times> bool \<Rightarrow> string
     \<Rightarrow> ('sock, 'addr) stmClient \<Rightarrow> (bool \<times> string \<times> ('sock, 'addr) stmClient) option" where
  "processUserInput env ck now restored buf sc = do {
     net \<leftarrow> sc_network sc;
     if ShutdownInProgress net then Some (True, [], sc)
     else do {
       sent \<leftarrow> getSentStateLast (tr_sender net);
       let paste = length buf > 100;
       let sc1 = on_predictions (\<lambda>pe. (if paste then pe_Reset else id) (SetLocalFrameSent sent pe)) sc;
       user_keys env ck now restored paste 0 (map fst (fe_graphemes env buf)) sc1
     }
   }"

text \<open>\<open>None\<close> when the size of the window cannot be read.\<close>

definition processResize ::
  "(int \<times> int) option \<Rightarrow> ('sock, 'addr) stmClient \<Rightarrow> (bool \<times> ('sock, 'addr) stmClient) option" where
  "processResize window sc =
     (case window of
        None \<Rightarrow> Some (False, sc)
      | Some (col, row) \<Rightarrow> do {
          net \<leftarrow> sc_network sc;
          let sc1 = (if ShutdownInProgress net then sc else on_network (on_current (PushBackResize col row)) sc);
          Some (True, on_predictions pe_Reset sc1)
        })"

section \<open>The main loop\<close>

datatype client_event =
  Timer
| Network_error bool string
| Network_data bytes
| File_error
| File_data string
| Signal int

record ('sock, 'addr) turn =
  tn_frame :: "int \<times> int \<times> int"
  tn_wait :: clock
  tn_event :: client_event
  tn_payload :: "int \<times> int"
  tn_keys :: "nat \<Rightarrow> int \<times> int \<times> int"
  tn_now :: int
  tn_restored :: "bool \<times> bool"
  tn_size :: "(int \<times> int) option"
  tn_clock :: clock
  tn_send :: "('sock, 'addr) send_env"
  tn_error :: string

datatype outcome = Again | Break | Return

type_synonym ('sock, 'addr) turned =
  "(outcome \<times> string \<times> bytes list \<times> signals \<times> ('sock, 'addr) stmClient) option"

text \<open>The result of \<open>select\<close>: the main loop is left, starts again, or goes on behind the \<open>select\<close>.\<close>

datatype selected = Leave | Next | Go_on

definition client_exit ::
  "int \<Rightarrow> string \<Rightarrow> ('sock, 'addr) client_net \<Rightarrow> ('sock, 'addr) stmClient \<Rightarrow> selected \<times> ('sock, 'addr) stmClient" where
  "client_exit now message net sc =
     (if \<not> HasRemoteAddr net then (Leave, sc)
      else if \<not> ShutdownInProgress net then
        (Go_on, on_network (StartShutdown now) (on_notifications (SetNotificationString now message True True) sc))
      else (Go_on, sc))"

definition client_select ::
  "front_env \<Rightarrow> ('sock, 'addr) turn \<Rightarrow> signals \<Rightarrow> ('sock, 'addr) stmClient
     \<Rightarrow> (selected \<times> string \<times> signals \<times> ('sock, 'addr) stmClient) option" where
  "client_select env tn sg sc = do {
     net \<leftarrow> sc_network sc;
     (case tn_event tn of
        Timer \<Rightarrow> Some (Go_on, [], sg, sc)
      | Network_error refused err \<Rightarrow>
          if refused then Some (Leave, [], sg, sc)
          else Some (Next, [], sg, if ShutdownInProgress net then sc
            else on_notifications (SetNetworkError (tn_now tn) err) sc)
      | Network_data s \<Rightarrow> do { sc1 \<leftarrow> processNetworkInput env (tn_payload tn) s sc; Some (Go_on, [], sg, sc1) }
      | File_error \<Rightarrow> (let (r, sc1) = client_exit (tn_now tn) ''Exiting...'' net sc in Some (r, [], sg, sc1))
      | File_data buf \<Rightarrow> do {
          (good, out, sc1) \<leftarrow> processUserInput env (tn_keys tn) (tn_now tn) (tn_restored tn) buf sc;
          net1 \<leftarrow> sc_network sc1;
          (if good then Some (Go_on, out, sg, sc1)
           else let (r, sc2) = client_exit (tn_now tn) ''Exiting...'' net1 sc1 in Some (r, out, sg, sc2))
        }
      | Signal s \<Rightarrow> Some (Go_on, [], signal_Handler s sg, sc))
   }"

text \<open>The reasons to leave the loop; the flag tells that the shutdown was clean.\<close>

definition client_done :: "int \<Rightarrow> ('sock, 'addr) client_net \<Rightarrow> bool option option" where
  "client_done now net = do {
     acked \<leftarrow> (if ShutdownInProgress net then ShutdownAcknowledged net else Some False);
     Some (if acked then Some True
           else if ShutdownInProgress net \<and> ShutdownAckTimedout now net then Some False
           else if CounterpartyShutdownAckSent net then Some True
           else None)
   }"

text \<open>The messages while the server is silent. \<open>None\<close> in the result leaves the loop.\<close>

definition client_notice ::
  "int \<Rightarrow> int \<Rightarrow> ('sock, 'addr) client_net \<Rightarrow> ('sock, 'addr) stmClient
     \<Rightarrow> (bool \<times> ('sock, 'addr) stmClient) option" where
  "client_notice now since net sc = do {
     connecting \<leftarrow> stillConnecting sc;
     num \<leftarrow> GetRemoteStateNum net;
     let note = (\<lambda>s permanent. on_notifications (SetNotificationString now s permanent True) sc);
     Some (if connecting \<and> \<not> ShutdownInProgress net \<and> since > 250 then
             (if since > TimeoutIfNoConnect then (True, note ''Timed out waiting for server...'' True)
              else (False, note (sc_connectingNotification sc) False))
           else if num \<noteq> 0 \<and> ne_message (om_notifications (sc_overlays sc)) = sc_connectingNotification sc
           then (False, note [] False)
           else (False, sc))
   }"

definition client_tick ::
  "front_env \<Rightarrow> ('sock, 'addr) turn \<Rightarrow> int \<Rightarrow> ('sock, 'addr) stmClient
     \<Rightarrow> (bool \<times> bytes list \<times> ('sock, 'addr) stmClient) option" where
  "client_tick env tn since sc = do {
     net \<leftarrow> sc_network sc;
     (sent, datagrams, net1) \<leftarrow> Tick (fe_user env) (tn_send tn) (tn_clock tn) net;
     let sc1 = sc\<lparr>sc_network := Some net1\<rparr>;
     let sc2 = (if sent then on_notifications (ClearNetworkError (tn_now tn)) sc1
                else on_network (StartShutdown (tn_now tn))
                  (on_notifications (SetNetworkError (tn_now tn) (tn_error tn)) sc1));
     num \<leftarrow> GetRemoteStateNum net1;
     if num \<noteq> 0 \<and> since > TimeoutIfNoResp
     then do { awake \<leftarrow> Awaken (tn_now tn) net1; Some (\<not> awake, datagrams, sc2) }
     else Some (False, datagrams, sc2)
   }"

text \<open>From the check of the signals to the end of the loop's body.\<close>

definition client_checks ::
  "front_env \<Rightarrow> ('sock, 'addr) turn \<Rightarrow> string \<Rightarrow> signals \<Rightarrow> ('sock, 'addr) stmClient
     \<Rightarrow> ('sock, 'addr) turned" where
  "client_checks env tn out sg sc = do {
     net \<leftarrow> sc_network sc;
     let (stop, sg1) = got_any [SIGTERM, SIGINT, SIGHUP, SIGPIPE] sg;
     let (r, sc1) = (if stop then client_exit (tn_now tn) ''Signal received, shutting down...'' net sc else (Go_on, sc));
     if r = Leave then Some (Break, out, [], sg1, sc1)
     else do {
       net1 \<leftarrow> sc_network sc1;
       fin \<leftarrow> client_done (tn_now tn) net1;
       (case fin of
          Some clean \<Rightarrow> Some (Break, out, [], sg1, if clean then sc1\<lparr>sc_cleanShutdown := True\<rparr> else sc1)
        | None \<Rightarrow> do {
            rs \<leftarrow> GetLatestRemoteState net1;
            let since = tn_now tn - tm_timestamp rs;
            (timedout, sc2) \<leftarrow> client_notice (tn_now tn) since net1 sc1;
            if timedout then Some (Break, out, [], sg1, sc2)
            else do {
              (dead, datagrams, sc3) \<leftarrow> client_tick env tn since sc2;
              Some (if dead then Break else Again, out, datagrams, sg1, sc3)
            }
          })
     }
   }"

text \<open>One turn: what is written, the datagrams that are sent, the pending signals and the state.\<close>

definition client_turn ::
  "front_env \<Rightarrow> ('sock, 'addr) turn \<Rightarrow> signals \<Rightarrow> ('sock, 'addr) stmClient \<Rightarrow> ('sock, 'addr) turned" where
  "client_turn env tn sg sc = do {
     (frame, sc1) \<leftarrow> outputNewFrame env (tn_frame tn) sc;
     net \<leftarrow> sc_network sc1;
     (wait, net1) \<leftarrow> WaitTime (fe_user env) (tn_wait tn) net;
     (r, out, sg1, sc2) \<leftarrow> client_select env tn sg (sc1\<lparr>sc_network := Some net1\<rparr>);
     if r = Leave then Some (Break, frame @ out, [], sg1, sc2)
     else if r = Next then Some (Again, frame @ out, [], sg1, sc2)
     else do {
       let (winch, sg2) = GotSignal SIGWINCH sg1;
       (good, sc3) \<leftarrow> (if winch then processResize (tn_size tn) sc2 else Some (True, sc2));
       if \<not> good then Some (Return, frame @ out, [], sg2, sc3)
       else
         let (cont, sg3) = GotSignal SIGCONT sg2;
             (text1, sc4) = (if cont then resume (snd (tn_restored tn)) sc3 else ([], sc3))
         in client_checks env tn (frame @ out @ text1) sg3 sc4
     }
   }"

text \<open>The turns until the loop is left; \<open>Again\<close> when the turns are used up.\<close>

fun client_main ::
  "front_env \<Rightarrow> ('sock, 'addr) turn list \<Rightarrow> signals \<Rightarrow> ('sock, 'addr) stmClient \<Rightarrow> ('sock, 'addr) turned" where
  "client_main env [] sg sc = Some (Again, [], [], sg, sc)"
| "client_main env (tn # tns) sg sc = do {
     (r, out, datagrams, sg1, sc1) \<leftarrow> client_turn env tn sg sc;
     if r \<noteq> Again then Some (r, out, datagrams, sg1, sc1)
     else do {
       (r2, out2, datagrams2, sg2, sc2) \<leftarrow> client_main env tns sg1 sc1;
       Some (r2, out @ out2, datagrams @ datagrams2, sg2, sc2)
     }
   }"

text \<open>The text that tells the user how the session ended.\<close>

definition farewell :: "('sock, 'addr) stmClient \<Rightarrow> string option" where
  "farewell sc = do {
     connecting \<leftarrow> stillConnecting sc;
     let nl = [CHR 0x0A];
     let host = sc_ip sc @ '':'' @ fmt_d (sc_port sc);
     let firewall = ''Please verify that UDP port '';
     Some (if connecting then
             ''apsh did not make a successful connection to '' @ CHR 0x27 # host @ CHR 0x27 # ''.'' @ nl @
             firewall @ ''is not firewalled and apsh can reach the server.'' @ nl @
             ''By default, apsh uses UDP port begin with 8101, The -p option specifies base apshd port.'' @ nl
           else if sc_network sc \<noteq> None then
             (if \<not> sc_cleanShutdown sc then
                nl @ ''apsh did not shut down cleanly.'' @ nl @
                firewall @ fmt_d (sc_port sc) @ '' is not firewalled and can reach the server.'' @ nl
              else ''Connection to '' @ host @ '' closed.'' @ nl)
           else [])
   }"

text \<open>\<open>shutdown\<close>; \<open>restored\<close> is the result of \<open>term.Restore\<close>, without which there is no farewell.\<close>

definition client_shutdown ::
  "front_env \<Rightarrow> int \<Rightarrow> int \<times> int \<times> int \<Rightarrow> bool \<Rightarrow> ('sock, 'addr) stmClient
     \<Rightarrow> (string \<times> ('sock, 'addr) stmClient) option" where
  "client_shutdown env now ck restored sc = do {
     let sc1 = on_notifications (\<lambda>ne. ServerHeard now (SetNotificationString now [] False True ne)) sc;
     (frame, sc2) \<leftarrow> outputNewFrame env ck (sc1\<lparr>sc_overlays := SetTitlePrefix [] (sc_overlays sc1)\<rparr>);
     bye \<leftarrow> (if restored then farewell sc2 else Some []);
     Some (frame @ Display_Close (sc_display sc2) @ bye, sc2)
   }"

end
