(* ===== verification/OverlayProps.thy ===== *)
theory OverlayProps
  imports Overlay EmulatorProps
begin

text \<open>
  The invariant of the prediction engine: every operation returns and keeps it on a reachable screen that is
  wider than one column, whatever key is typed.
\<close>

section \<open>Cells of the screen\<close>

lemma emu_GetCell_at:
  assumes "emu_inv emu" and "0 \<le> y" and "y < em_nRows emu" and "0 \<le> x" and "x < em_nCols emu"
  shows "emu_GetCell y x emu = Some (fb_cells (cf emu) ! nat (getIdx y x (cf emu)))"
proof -
  note b = emu_inv_bounds [OF assms(1)] and fr = emu_inv_frame [OF assms(1)]
  have "in_row (cf emu) y x 1" using assms fr by (simp add: in_row_def fb_wf_def)
  from in_row_idx [OF fr(1,2) this] have i: "0 \<le> getIdx y x (cf emu)" "getIdx y x (cf emu) < int (length (fb_cells (cf emu)))"
    by simp_all
  have "regulatePos y x emu = (y, x)" using assms b by (simp add: regulatePos_def)
  then show ?thesis using i by (simp add: emu_GetCell_def getCell_def list_at_def)
qed

lemma emu_GetCell_ok: "emu_inv emu \<Longrightarrow> ok (emu_GetCell y x emu) (\<lambda>_. True)"
proof -
  assume inv: "emu_inv emu"
  note b = emu_inv_bounds [OF inv] and fr = emu_inv_frame [OF inv]
  obtain y' x' where p: "regulatePos y x emu = (y', x')" "0 \<le> y'" "y' < em_nRows emu" "0 \<le> x'" "x' < em_nCols emu"
    using b by (auto simp: regulatePos_def Let_def)
  have "in_row (cf emu) y' x' 1" using p fr by (simp add: in_row_def fb_wf_def)
  from in_row_idx [OF fr(1,2) this] p(1) show "ok (emu_GetCell y x emu) (\<lambda>_. True)"
    by (simp add: emu_GetCell_def getCell_def list_at_def)
qed

lemma GetWidth_inv: "emu_inv emu \<Longrightarrow> GetWidth emu = em_nCols emu"
  using emu_inv_bounds by (simp add: GetWidth_def)

lemma GetCursor_inv: "emu_inv emu \<Longrightarrow> GetCursorRow emu = em_posY emu"
  using emu_inv_bounds by (simp add: GetCursorRow_def)

section \<open>The shape of the engine\<close>

text \<open>Every row of predictions is as wide as the screen, every cell knows its column, every cursor is inside.\<close>

definition row_wf :: "int \<Rightarrow> conditionalOverlayRow \<Rightarrow> bool" where
  "row_wf W row \<longleftrightarrow> int (length (cor_overlayCells row)) = W \<and>
     (\<forall>j<length (cor_overlayCells row). co_col (cor_overlayCells row ! j) = int j)"

definition pe_wf :: "int \<Rightarrow> predictionEngine \<Rightarrow> bool" where
  "pe_wf W pe \<longleftrightarrow> list_all (row_wf W) (pe_overlays pe) \<and>
     list_all (\<lambda>c. 0 \<le> co_col c \<and> co_col c < W) (pe_cursors pe)"

definition engine_inv :: "predictionEngine \<Rightarrow> bool" where
  "engine_inv pe \<longleftrightarrow> pe_wf (pe_lastWidth pe) pe \<and> parser_inv (pe_parser pe)"

text \<open>Only the rows of predictions differ.\<close>

definition redrawn :: "int \<Rightarrow> predictionEngine \<Rightarrow> predictionEngine \<Rightarrow> bool" where
  "redrawn W pe pe' \<longleftrightarrow> (\<exists>os. pe' = pe\<lparr>pe_overlays := os\<rparr> \<and> list_all (row_wf W) os \<and>
     length os = length (pe_overlays pe))"

lemma redrawnI:
  "list_all (row_wf W) os \<Longrightarrow> length os = length (pe_overlays pe) \<Longrightarrow> redrawn W pe (pe\<lparr>pe_overlays := os\<rparr>)"
  by (auto simp: redrawn_def)

lemma redrawn_refl: "pe_wf W pe \<Longrightarrow> redrawn W pe pe"
  by (auto simp: redrawn_def pe_wf_def intro!: exI [of _ "pe_overlays pe"])

lemma redrawn_trans: "redrawn W a b \<Longrightarrow> redrawn W b c \<Longrightarrow> redrawn W a c"
  by (auto simp: redrawn_def)

lemma redrawn_wf:
  assumes "redrawn W pe pe'" and "pe_wf W pe"
  shows "pe_wf W pe'" "length (pe_overlays pe') = length (pe_overlays pe)" "pe_cursors pe' = pe_cursors pe"
    "pe_parser pe' = pe_parser pe" "pe_lastWidth pe' = pe_lastWidth pe"
  using assms by (auto simp: redrawn_def pe_wf_def)

lemma row_at:
  assumes "pe_wf W pe" and "i < length (pe_overlays pe)"
  shows "row_wf W (pe_overlays pe ! i)"
  using assms by (simp add: pe_wf_def list_all_length)

lemma the_cell_ok: "pe_wf W pe \<Longrightarrow> i < length (pe_overlays pe) \<Longrightarrow> 0 \<le> j \<Longrightarrow> j < W \<Longrightarrow> ok (the_cell i j pe) (\<lambda>_. True)"
  using row_at [of W pe i] by (simp add: the_cell_def list_at_def row_wf_def)

lemma list_all_update: "list_all P xs \<Longrightarrow> P v \<Longrightarrow> list_all P (xs[i := v])"
  by (auto simp: list_all_iff dest: set_update_subset_insert [THEN subsetD])

lemma row_wf_update: "row_wf W row \<Longrightarrow> co_col (f (cor_overlayCells row ! n)) = int n \<Longrightarrow>
    row_wf W (row\<lparr>cor_overlayCells := (cor_overlayCells row)[n := f (cor_overlayCells row ! n)]\<rparr>)"
  unfolding row_wf_def by (metis conditionalOverlayRow.select_convs(1) conditionalOverlayRow.surjective
      conditionalOverlayRow.update_convs(1) length_list_update nth_list_update_eq nth_list_update_neq)

lemma on_cell_ok:
  assumes "pe_wf W pe" and "i < length (pe_overlays pe)" and "0 \<le> j" and "j < W"
    and "\<And>c. co_col (f c) = co_col c"
  shows "ok (on_cell i j f pe) (redrawn W pe)"
proof -
  have r: "row_wf W (pe_overlays pe ! i)" using row_at [OF assms(1,2)] .
  then have "row_wf W ((pe_overlays pe ! i)\<lparr>cor_overlayCells :=
      (cor_overlayCells (pe_overlays pe ! i))[nat j := f (cor_overlayCells (pe_overlays pe ! i) ! nat j)]\<rparr>)"
    using assms(3-5) by (intro row_wf_update) (auto simp: row_wf_def)
  then have "redrawn W pe (pe\<lparr>pe_overlays := (pe_overlays pe)[i := (pe_overlays pe ! i)\<lparr>cor_overlayCells :=
      (cor_overlayCells (pe_overlays pe ! i))[nat j := f (cor_overlayCells (pe_overlays pe ! i) ! nat j)]\<rparr>]\<rparr>)"
    using assms(1) by (intro redrawnI list_all_update) (simp_all add: pe_wf_def)
  then show ?thesis
    using assms(2-4) r by (simp add: on_cell_def list_at_def row_wf_def)
qed

lemma keep_original_ok:
  assumes "emu_inv emu" and "pe_wf W pe" and "i < length (pe_overlays pe)" and "0 \<le> j" and "j < W"
  shows "ok (keep_original emu row i j pe) (redrawn W pe)"
  unfolding keep_original_def
  by (rule ok_seq [OF the_cell_ok [OF assms(2-5)]])
    (auto simp: ok_if redrawn_refl [OF assms(2)] intro!: ok_seq [OF emu_GetCell_ok [OF assms(1)]] on_cell_ok [OF assms(2-5)])

lemma co_col_simps: "co_col (activate pe now c) = co_col c" "co_col (coc_resetWithOrig c) = co_col c"
  "co_col (coc_reset c) = co_col c"
  by (simp_all add: activate_def co_expire_def coc_resetWithOrig_def coc_reset_def co_reset_def)

lemma shift_cell_ok:
  assumes "emu_inv emu" and "pe_wf W pe" and "i < length (pe_overlays pe)" and "0 \<le> col" and "col \<le> j" and "j < W" and "0 \<le> w"
  shows "ok (shift_cell emu now w row col i j pe) (\<lambda>(go, pe'). redrawn W pe pe')"
proof -
  have j: "0 \<le> j" using assms by simp
  show ?thesis
    unfolding shift_cell_def
  proof (rule ok_seq [OF on_cell_ok [OF assms(2,3) j assms(6)]], simp add: co_col_simps)
    fix pe1 assume r1: "redrawn W pe pe1"
    note w1 = redrawn_wf [OF r1 assms(2)]
    show "ok (keep_original emu row i j pe1 \<bind> (\<lambda>pe2. if j - w < col then Some (False, pe2) else do {
       prev \<leftarrow> the_cell i (j - w) pe2;
       prevActual \<leftarrow> emu_GetCell row (j - w) emu;
       pe3 \<leftarrow> on_cell i j (\<lambda>c.
         if j = GetWidth emu - 1 then c\<lparr>coc_unknown := True\<rparr>
         else if co_active prev then
           (if coc_unknown prev then c\<lparr>coc_unknown := True\<rparr>
            else c\<lparr>coc_unknown := False, coc_replacement := coc_replacement prev\<rparr>)
         else c\<lparr>coc_unknown := False, coc_replacement := prevActual\<rparr>) pe2;
       Some (True, pe3) })) (\<lambda>(go, pe'). redrawn W pe pe')"
    proof (rule ok_seq [OF keep_original_ok [OF assms(1) w1(1) _ j assms(6)]])
      show "i < length (pe_overlays pe1)" using w1 assms(3) by simp
      fix pe2 assume "redrawn W pe1 pe2"
      then have r2: "redrawn W pe pe2" by (rule redrawn_trans [OF r1])
      note w2 = redrawn_wf [OF r2 assms(2)]
      have i: "i < length (pe_overlays pe2)" using w2 assms(3) by simp
      have prev: "ok (the_cell i (j - w) pe2) (\<lambda>_. True)" if "\<not> j - w < col"
        using that assms by (intro the_cell_ok [OF w2(1) i]) auto
      have last: "ok (on_cell i j f pe2 \<bind> (\<lambda>pe3. Some (True, pe3))) (\<lambda>(go, pe'). redrawn W pe pe')"
        if "\<And>c. co_col (f c) = co_col c" for f
        by (rule ok_seq [OF on_cell_ok [OF w2(1) i j assms(6) that]]) (simp add: redrawn_trans [OF r2])
      show "ok (if j - w < col then Some (False, pe2) else do {
         prev \<leftarrow> the_cell i (j - w) pe2;
         prevActual \<leftarrow> emu_GetCell row (j - w) emu;
         pe3 \<leftarrow> on_cell i j (\<lambda>c.
           if j = GetWidth emu - 1 then c\<lparr>coc_unknown := True\<rparr>
           else if co_active prev then
             (if coc_unknown prev then c\<lparr>coc_unknown := True\<rparr>
              else c\<lparr>coc_unknown := False, coc_replacement := coc_replacement prev\<rparr>)
           else c\<lparr>coc_unknown := False, coc_replacement := prevActual\<rparr>) pe2;
         Some (True, pe3) }) (\<lambda>(go, pe'). redrawn W pe pe')"
        using r2 by (auto simp: ok_if intro!: ok_seq [OF prev] ok_seq [OF emu_GetCell_ok [OF assms(1)]] last)
    qed
  qed
qed

lemma shift_cells_ok:
  assumes "emu_inv emu" and "pe_wf W pe" and "i < length (pe_overlays pe)" and "0 \<le> col" and "0 \<le> w"
    and "\<forall>j\<in>set js. col \<le> j \<and> j < W"
  shows "ok (shift_cells emu now w row col i js pe) (redrawn W pe)"
  using assms
proof (induction js arbitrary: pe)
  case (Cons j js)
  have next_cells: "ok (shift_cells emu now w row col i js pe') (redrawn W pe)" if r: "redrawn W pe pe'" for pe'
    using Cons.IH [OF Cons.prems(1) redrawn_wf(1) [OF r Cons.prems(2)]] redrawn_wf(2) [OF r Cons.prems(2)] Cons.prems
    by (auto intro: ok_mono redrawn_trans [OF r])
  have "ok (shift_cell emu now w row col i j pe) (\<lambda>(go, pe'). redrawn W pe pe')"
    using Cons.prems by (intro shift_cell_ok) auto
  then show ?case
    by (auto simp: ok_iff split_paired_Ex intro!: next_cells [unfolded ok_iff])
qed (simp add: redrawn_refl)

lemma predict_cell_ok:
  assumes "emu_inv emu" and "pe_wf W pe" and "i < length (pe_overlays pe)" and "0 \<le> col" and "col < W"
    and "w = 2 \<Longrightarrow> col + 1 < W"
  shows "ok (predict_cell emu now w chs row col i pe) (redrawn W pe)"
proof -
  have step: "ok (on_cell i j f pe') (redrawn W pe)"
    if "redrawn W pe pe'" "0 \<le> j" "j < W" "\<And>c. co_col (f c) = co_col c" for pe' j f
    using on_cell_ok [OF redrawn_wf(1) [OF that(1) assms(2)] _ that(2-4)] redrawn_wf(2) [OF that(1) assms(2)] assms(3)
    by (auto intro: ok_mono redrawn_trans [OF that(1)])
  have keep: "ok (keep_original emu row i col pe') (redrawn W pe)" if "redrawn W pe pe'" for pe'
    using keep_original_ok [OF assms(1) redrawn_wf(1) [OF that assms(2)] _ assms(4,5)] redrawn_wf(2) [OF that assms(2)] assms(3)
    by (auto intro: ok_mono redrawn_trans [OF that])
  have wide: "ok (if w = 2 then do {
         pe' \<leftarrow> on_cell i col (coc_replacement_update (ce_dwidth_update (\<lambda>_. True))) pe1;
         on_cell i (col + 1) (coc_replacement_update (ce_dwidthCont_update (\<lambda>_. True))) pe'
       } else Some pe1) (redrawn W pe)" if "redrawn W pe pe1" for pe1
    using assms(4-6) that by (auto simp: ok_if intro!: ok_seq [OF step [OF that assms(4,5)]] step)
  show ?thesis
    unfolding predict_cell_def
    by (rule ok_seq [OF step [OF redrawn_refl [OF assms(2)] assms(4,5)]], simp add: co_col_simps,
        erule ok_seq [OF wide], rule ok_seq [OF step [OF _ assms(4,5)]], simp_all add: keep)
qed

lemma row_index_less: "row_index n rs = Some i \<Longrightarrow> i < length rs"
  by (induction rs arbitrary: i) (auto split: if_splits)

text \<open>The same, with the rows, the epoch and the cursors free.\<close>

definition engine_at :: "int \<Rightarrow> predictionEngine \<Rightarrow> predictionEngine \<Rightarrow> bool" where
  "engine_at W pe pe' \<longleftrightarrow> pe_wf W pe' \<and> pe_parser pe' = pe_parser pe \<and> pe_lastWidth pe' = pe_lastWidth pe"

lemma engine_at_trans: "engine_at W a b \<Longrightarrow> engine_at W b c \<Longrightarrow> engine_at W a c"
  by (simp add: engine_at_def)

lemma engine_at_refl: "pe_wf W pe \<Longrightarrow> engine_at W pe pe"
  by (simp add: engine_at_def)

lemma redrawn_at: "pe_wf W pe \<Longrightarrow> redrawn W pe pe' \<Longrightarrow> engine_at W pe pe'"
  using redrawn_wf [of W pe pe'] by (simp add: engine_at_def)

lemma engine_at_epoch: "engine_at W pe pe' \<Longrightarrow> engine_at W pe (becomeTentative pe')"
  by (simp add: engine_at_def pe_wf_def becomeTentative_def)

lemma getOrMakeRow_ok:
  assumes "pe_wf W pe" and "0 \<le> W"
  shows "ok (getOrMakeRow n W pe) (\<lambda>(i, pe'). engine_at W pe pe' \<and> i < length (pe_overlays pe') \<and>
    pe_cursors pe' = pe_cursors pe)"
  using assms row_index_less [of n "pe_overlays pe"]
  by (auto simp: getOrMakeRow_def engine_at_def pe_wf_def row_wf_def newConditionalOverlayCell_def
      newConditionalOverlay_def conditionalOverlay.defs split: option.splits)

lemma initCursor_ok:
  assumes "emu_inv emu" and "pe_wf (em_nCols emu) pe"
  shows "engine_at (em_nCols emu) pe (initCursor emu pe)" "pe_cursors (initCursor emu pe) \<noteq> []"
proof -
  have c: "co_col (last (pe_cursors pe)) \<ge> 0" "co_col (last (pe_cursors pe)) < em_nCols emu" if "pe_cursors pe \<noteq> []"
    using assms(2) last_in_set [OF that] by (auto simp: pe_wf_def list_all_iff)
  have l: "pe_cursor pe = (if pe_cursors pe = [] then None else Some (last (pe_cursors pe)))"
    by (cases "pe_cursors pe" rule: rev_cases) (simp_all add: pe_cursor_def list_at_def)
  show "engine_at (em_nCols emu) pe (initCursor emu pe)" "pe_cursors (initCursor emu pe) \<noteq> []"
    using assms(2) c emu_inv_bounds [OF assms(1)]
    by (auto simp: l initCursor_def add_cursor_def engine_at_def pe_wf_def newConditionalCursorMove_def
        newConditionalOverlay_def conditionalOverlay.defs GetCursorCol_def)
qed

lemma pe_cursor_ok:
  assumes "pe_wf W pe" and "pe_cursors pe \<noteq> []"
  shows "ok (pe_cursor pe) (\<lambda>c. 0 \<le> co_col c \<and> co_col c < W)"
  using assms by (cases "pe_cursors pe" rule: rev_cases) (simp_all add: pe_cursor_def list_at_def pe_wf_def)

lemma on_cursor_ok:
  assumes "engine_at W pe pe1" and "pe_cursors pe1 \<noteq> []"
    and "\<And>c. 0 \<le> co_col c \<Longrightarrow> co_col c < W \<Longrightarrow> 0 \<le> co_col (f c) \<and> co_col (f c) < W"
  shows "ok (on_cursor f pe1) (\<lambda>pe'. engine_at W pe pe' \<and> pe_cursors pe' \<noteq> [] \<and> pe_overlays pe' = pe_overlays pe1)"
  using assms by (cases "pe_cursors pe1" rule: rev_cases)
    (simp_all add: on_cursor_def pe_cursor_def list_at_def engine_at_def pe_wf_def)

lemma newline_ok:
  assumes "emu_inv emu" and "pe_wf (em_nCols emu) pe0"
  shows "ok (newlineCarriageReturn emu now pe0) (\<lambda>pe'. engine_at (em_nCols emu) pe0 pe' \<and> pe_cursors pe' \<noteq> [])"
proof -
  let ?W = "em_nCols emu"
  have W: "0 < ?W" using emu_inv_bounds [OF assms(1)] by simp
  show ?thesis
    unfolding newlineCarriageReturn_def GetWidth_inv [OF assms(1)]
  proof (rule ok_seq [OF on_cursor_ok [OF initCursor_ok [OF assms]]], simp add: W, elim conjE)
    fix pe1 assume e1: "engine_at ?W pe0 pe1" "pe_cursors pe1 \<noteq> []"
    have w1: "pe_wf ?W pe1" using e1 by (simp add: engine_at_def)
    have rows: "ok (do {
         (i, pe2) \<leftarrow> getOrMakeRow y ?W pe1;
         newRow \<leftarrow> list_at (pe_overlays pe2) (int i);
         let cells = map (\<lambda>c. coc_replacement_update Cell_Clear (activate pe2 now c)) (cor_overlayCells newRow);
         Some (pe2\<lparr>pe_overlays := (pe_overlays pe2)[i := newRow\<lparr>cor_overlayCells := cells\<rparr>]\<rparr>)
       }) (\<lambda>pe'. engine_at ?W pe0 pe' \<and> pe_cursors pe' \<noteq> [])" for y
    proof (rule ok_seq [OF getOrMakeRow_ok [OF w1]], use W in simp, clarify)
      fix i pe2 assume e2: "engine_at ?W pe1 pe2" "i < length (pe_overlays pe2)" "pe_cursors pe2 = pe_cursors pe1"
      have w2: "pe_wf ?W pe2" using e2(1) by (simp add: engine_at_def)
      let ?r = "pe_overlays pe2 ! i"
      have "row_wf ?W (?r\<lparr>cor_overlayCells := map (\<lambda>c. coc_replacement_update Cell_Clear (activate pe2 now c)) (cor_overlayCells ?r)\<rparr>)"
        using row_at [OF w2 e2(2)] by (simp add: row_wf_def co_col_simps)
      then have "pe_wf ?W (pe2\<lparr>pe_overlays := (pe_overlays pe2)[i := ?r\<lparr>cor_overlayCells :=
          map (\<lambda>c. coc_replacement_update Cell_Clear (activate pe2 now c)) (cor_overlayCells ?r)\<rparr>]\<rparr>)"
        using w2 by (simp add: pe_wf_def list_all_update)
      then show "ok (do {
           newRow \<leftarrow> list_at (pe_overlays pe2) (int i);
           let cells = map (\<lambda>c. coc_replacement_update Cell_Clear (activate pe2 now c)) (cor_overlayCells newRow);
           Some (pe2\<lparr>pe_overlays := (pe_overlays pe2)[i := newRow\<lparr>cor_overlayCells := cells\<rparr>]\<rparr>)
         }) (\<lambda>pe'. engine_at ?W pe0 pe' \<and> pe_cursors pe' \<noteq> [])"
        using e1 e2 by (simp add: list_at_def engine_at_def)
    qed
    show "ok (do {
       c \<leftarrow> pe_cursor pe1;
       if ccm_row c = GetHeight emu - 1 then do {
         (i, pe2) \<leftarrow> getOrMakeRow (ccm_row c) ?W pe1;
         newRow \<leftarrow> list_at (pe_overlays pe2) (int i);
         let cells = map (\<lambda>c. coc_replacement_update Cell_Clear (activate pe2 now c)) (cor_overlayCells newRow);
         Some (pe2\<lparr>pe_overlays := (pe_overlays pe2)[i := newRow\<lparr>cor_overlayCells := cells\<rparr>]\<rparr>)
       } else on_cursor (ccm_row_update (\<lambda>r. r + 1)) pe1 }) (\<lambda>pe'. engine_at ?W pe0 pe' \<and> pe_cursors pe' \<noteq> [])"
      by (rule ok_seq [OF pe_cursor_ok [OF w1 e1(2)]])
        (use rows in \<open>auto simp: ok_if intro!: ok_mono [OF on_cursor_ok [OF e1]]\<close>)
  qed
qed

lemma columns_down_set: "j \<in> set (columns_down right col) \<Longrightarrow> col < j \<and> j \<le> right"
  by (auto simp: columns_down_def)

text \<open>There is room for the rune at the cursor.\<close>

definition cursor_fits :: "int \<Rightarrow> int \<Rightarrow> predictionEngine \<Rightarrow> bool" where
  "cursor_fits W w pe \<longleftrightarrow> pe_cursors pe \<noteq> [] \<and> (w = 2 \<longrightarrow> co_col (last (pe_cursors pe)) + 1 < W)"

lemma pe_cursor_last: "pe_cursor pe = (if pe_cursors pe = [] then None else Some (last (pe_cursors pe)))"
  by (cases "pe_cursors pe" rule: rev_cases) (simp_all add: pe_cursor_def list_at_def)

lemma newline_col:
  "ok (newlineCarriageReturn emu now pe0) (\<lambda>_. True) \<Longrightarrow>
   ok (newlineCarriageReturn emu now pe0) (\<lambda>pe'. co_col (last (pe_cursors pe')) = 0)"
  unfolding newlineCarriageReturn_def
  by (auto simp: ok_bind on_cursor_def pe_cursor_last getOrMakeRow_def Let_def split: if_splits option.splits
      elim!: ok_mono)

lemma becomeTentative_cursors: "pe_cursors (becomeTentative pe) = pe_cursors pe"
  by (simp add: becomeTentative_def)

lemma edge_ok:
  assumes "emu_inv emu" and "pe_wf (em_nCols emu) pe" and "pe_cursors pe \<noteq> []" and "1 < em_nCols emu"
  shows "ok (grapheme_edge emu later w (co_col (last (pe_cursors pe))) pe)
    (\<lambda>pe'. engine_at (em_nCols emu) pe pe' \<and> cursor_fits (em_nCols emu) w pe')"
proof -
  let ?W = "em_nCols emu" and ?c = "co_col (last (pe_cursors pe))"
  have c: "?c < ?W" using assms(2,3) by (simp add: pe_wf_def list_all_iff)
  have t: "engine_at ?W pe (becomeTentative pe)" by (rule engine_at_epoch [OF engine_at_refl [OF assms(2)]])
  then have wt: "pe_wf ?W (becomeTentative pe)" by (simp add: engine_at_def)
  have n: "ok (newlineCarriageReturn emu later (becomeTentative pe)) (\<lambda>pe'. engine_at ?W pe pe' \<and> cursor_fits ?W w pe')"
    using newline_ok [OF assms(1) wt, of later] newline_col [OF ok_mono [OF newline_ok [OF assms(1) wt]], of later] assms(4)
      engine_at_trans [OF t]
    by (fastforce simp: ok_iff cursor_fits_def)
  show ?thesis
    using n t assms(3) c engine_at_refl [OF assms(2)] becomeTentative_cursors [of pe]
    by (auto simp: grapheme_edge_def GetWidth_inv [OF assms(1)] cursor_fits_def)
qed

lemma advance_ok:
  assumes "emu_inv emu" and "pe_wf (em_nCols emu) pe" and "pe_cursors pe \<noteq> []" and "0 \<le> w" and "0 \<le> col"
  shows "ok (grapheme_advance emu now later w col pe) (engine_at (em_nCols emu) pe)"
  unfolding grapheme_advance_def GetWidth_inv [OF assms(1)]
proof (rule ok_seq [OF on_cursor_ok [OF engine_at_refl [OF assms(2)] assms(3)]], simp add: co_expire_def, elim conjE)
  let ?W = "em_nCols emu"
  fix pe6 assume e6: "engine_at ?W pe pe6" "pe_cursors pe6 \<noteq> []"
  have "ok (on_cursor (\<lambda>c'. c'\<lparr>co_col := col + w\<rparr>) pe6) (engine_at ?W pe)" if "col < ?W - w"
    using that assms by (intro ok_mono [OF on_cursor_ok [OF e6]]) auto
  moreover have "ok (newlineCarriageReturn emu later (becomeTentative pe6)) (engine_at ?W pe)"
  proof -
    have t: "engine_at ?W pe (becomeTentative pe6)" by (rule engine_at_epoch [OF e6(1)])
    then have "pe_wf ?W (becomeTentative pe6)" by (simp add: engine_at_def)
    from newline_ok [OF assms(1) this] show ?thesis by (rule ok_mono) (use engine_at_trans [OF t] in blast)
  qed
  ultimately show "ok (if col < ?W - w then on_cursor (\<lambda>c'. c'\<lparr>co_col := col + w\<rparr>) pe6
     else newlineCarriageReturn emu later (becomeTentative pe6)) (engine_at ?W pe)"
    by (simp add: ok_if)
qed

lemma draw_ok:
  assumes "emu_inv emu" and "pe_wf (em_nCols emu) pe" and "cursor_fits (em_nCols emu) w pe" and "0 \<le> w"
  shows "ok (grapheme_draw emu now later w chs pe) (engine_at (em_nCols emu) pe)"
proof -
  let ?W = "em_nCols emu" and ?c = "last (pe_cursors pe)"
  have c: "0 \<le> co_col ?c" "co_col ?c < ?W" "pe_cursors pe \<noteq> []" and fits: "w = 2 \<Longrightarrow> co_col ?c + 1 < ?W"
    using assms(2,3) by (auto simp: pe_wf_def list_all_iff cursor_fits_def)
  have rest: "ok (do {
       pe4 \<leftarrow> shift_cells emu now w (ccm_row ?c) (co_col ?c) i
         (columns_down (if pe_predictOverwrite pe3 then co_col ?c else ?W - 1) (co_col ?c)) pe3;
       pe5 \<leftarrow> predict_cell emu now w chs (ccm_row ?c) (co_col ?c) i pe4;
       grapheme_advance emu now later w (co_col ?c) pe5 }) (engine_at ?W pe)"
    if e3: "engine_at ?W pe pe3" "i < length (pe_overlays pe3)" "pe_cursors pe3 = pe_cursors pe" for i pe3
  proof -
    have w3: "pe_wf ?W pe3" using e3(1) by (simp add: engine_at_def)
    have js: "\<forall>j\<in>set (columns_down (if pe_predictOverwrite pe3 then co_col ?c else ?W - 1) (co_col ?c)). co_col ?c \<le> j \<and> j < ?W"
      using c(2) by (auto dest: columns_down_set split: if_splits)
    show ?thesis
    proof (rule ok_seq [OF shift_cells_ok [OF assms(1) w3 e3(2) c(1) assms(4) js]])
      fix pe4 assume r4: "redrawn ?W pe3 pe4"
      note w4 = redrawn_wf [OF r4 w3]
      have i4: "i < length (pe_overlays pe4)" using w4(2) e3(2) by simp
      have adv: "ok (grapheme_advance emu now later w (co_col ?c) pe5) (engine_at ?W pe)" if r5: "redrawn ?W pe4 pe5" for pe5
      proof -
        note w5 = redrawn_wf [OF r5 w4(1)]
        have e5: "engine_at ?W pe pe5" using e3(1) w4 w5 by (simp add: engine_at_def)
        show ?thesis
          using advance_ok [OF assms(1) w5(1) _ assms(4) c(1)] w5 w4 e3(3) c(3) engine_at_trans [OF e5]
          by (auto intro: ok_mono)
      qed
      show "ok (predict_cell emu now w chs (ccm_row ?c) (co_col ?c) i pe4 \<bind>
          grapheme_advance emu now later w (co_col ?c)) (engine_at ?W pe)"
        by (rule ok_seq [OF predict_cell_ok [OF assms(1) w4(1) i4 c(1,2) fits]]) (assumption, rule adv)
    qed
  qed
  have W: "0 \<le> ?W" using c by simp
  show ?thesis
    unfolding grapheme_draw_def pe_cursor_last GetWidth_inv [OF assms(1)] Let_def using c(3)
    by (simp, intro ok_seq [OF getOrMakeRow_ok [OF assms(2) W]]) (use rest in auto)
qed

lemma grapheme_ok:
  assumes "emu_inv emu" and "pe_wf (em_nCols emu) pe" and "te_width env (concat (map utf8 chs)) \<ge> 0" and "1 < em_nCols emu"
  shows "ok (handleUserGrapheme env emu now later chs pe) (engine_at (em_nCols emu) pe)"
proof -
  let ?W = "em_nCols emu" and ?w = "te_width env (concat (map utf8 chs))" and ?pe1 = "initCursor emu pe"
  note init = initCursor_ok [OF assms(1,2)]
  have w1: "pe_wf ?W ?pe1" using init(1) by (simp add: engine_at_def)
  have "ok (grapheme_edge emu later ?w (co_col (last (pe_cursors ?pe1))) ?pe1 \<bind> grapheme_draw emu now later ?w chs)
      (engine_at ?W pe)"
  proof (rule ok_seq [OF edge_ok [OF assms(1) w1 init(2) assms(4)]], elim conjE)
    fix pe2 assume e2: "engine_at ?W ?pe1 pe2" "cursor_fits ?W ?w pe2"
    have "engine_at ?W pe pe2" using engine_at_trans [OF init(1) e2(1)] .
    moreover have "ok (grapheme_draw emu now later ?w chs pe2) (engine_at ?W pe2)"
      using e2(1) by (intro draw_ok [OF assms(1) _ e2(2) assms(3)]) (simp add: engine_at_def)
    ultimately show "ok (grapheme_draw emu now later ?w chs pe2) (engine_at ?W pe)"
      using engine_at_trans by (blast intro: ok_mono)
  qed
  then show ?thesis
    using init engine_at_epoch [OF init(1)] by (simp add: handleUserGrapheme_def pe_cursor_last Let_def)
qed

lemma predict_right_ok:
  assumes "emu_inv emu" and "pe_wf (em_nCols emu) pe"
  shows "ok (predict_right emu now pe) (engine_at (em_nCols emu) pe)"
proof -
  let ?W = "em_nCols emu" and ?pe1 = "initCursor emu pe"
  note init = initCursor_ok [OF assms]
  have w1: "pe_wf ?W ?pe1" using init(1) by (simp add: engine_at_def)
  let ?c = "last (pe_cursors ?pe1)"
  have c: "0 \<le> co_col ?c" "co_col ?c < ?W" using w1 init(2) by (auto simp: pe_wf_def list_all_iff)
  have W: "0 \<le> ?W" using c by simp
  have rest: "ok (do {
       predict \<leftarrow> the_cell i (co_col ?c + 1) pe2;
       cl \<leftarrow> emu_GetCell (ccm_row ?c) (co_col ?c + 1) emu;
       if (ce_dwidthCont cl \<or> ce_dwidthCont (coc_replacement predict)) \<and> co_col ?c + 2 \<ge> ?W then Some pe2
       else on_cursor (\<lambda>c. co_expire (pe_localFrameSent pe2 + 1) now
         (c\<lparr>co_col := co_col ?c + (if ce_dwidthCont cl \<or> ce_dwidthCont (coc_replacement predict) then 2 else 1)\<rparr>)) pe2 })
      (engine_at ?W pe)"
    if e2: "engine_at ?W ?pe1 pe2" "i < length (pe_overlays pe2)" "pe_cursors pe2 = pe_cursors ?pe1"
      and x: "co_col ?c < ?W - 1" for i pe2
  proof -
    have e: "engine_at ?W pe pe2" using engine_at_trans [OF init(1) e2(1)] .
    have w2: "pe_wf ?W pe2" using e by (simp add: engine_at_def)
    have ne: "pe_cursors pe2 \<noteq> []" using e2(3) init(2) by simp
    show ?thesis
      by (rule ok_seq [OF the_cell_ok [OF w2 e2(2)]], use c x in simp, use c x in simp,
          rule ok_seq [OF emu_GetCell_ok [OF assms(1)]])
        (use e c x in \<open>auto simp: ok_if co_expire_def intro!: ok_mono [OF on_cursor_ok [OF e ne]]\<close>)
  qed
  show ?thesis
    unfolding predict_right_def GetWidth_inv [OF assms(1)] pe_cursor_last Let_def
    using init by (auto simp: ok_if intro!: ok_seq [OF getOrMakeRow_ok [OF w1 W]] rest)
qed

lemma predict_left_ok:
  assumes "emu_inv emu" and "pe_wf (em_nCols emu) pe"
  shows "ok (predict_left emu now pe) (engine_at (em_nCols emu) pe)"
proof -
  let ?W = "em_nCols emu" and ?pe1 = "initCursor emu pe"
  note init = initCursor_ok [OF assms]
  have w1: "pe_wf ?W ?pe1" using init(1) by (simp add: engine_at_def)
  let ?c = "last (pe_cursors ?pe1)"
  have c: "0 \<le> co_col ?c" "co_col ?c < ?W" using w1 init(2) by (auto simp: pe_wf_def list_all_iff)
  have W: "0 \<le> ?W" using c by simp
  have rest: "ok (do {
       predict \<leftarrow> the_cell i (co_col ?c - 1) pe2;
       cl \<leftarrow> emu_GetCell (ccm_row ?c) (co_col ?c - 1) emu;
       if (ce_dwidthCont cl \<or> ce_dwidthCont (coc_replacement predict)) \<and> co_col ?c \<le> 2
       then on_cursor (\<lambda>c. c\<lparr>co_col := 0\<rparr>) pe2
       else on_cursor (\<lambda>c. co_expire (pe_localFrameSent pe2 + 1) now
         (c\<lparr>co_col := co_col ?c - (if ce_dwidthCont cl \<or> ce_dwidthCont (coc_replacement predict) then 2 else 1)\<rparr>)) pe2 })
      (engine_at ?W pe)"
    if e2: "engine_at ?W ?pe1 pe2" "i < length (pe_overlays pe2)" "pe_cursors pe2 = pe_cursors ?pe1"
      and x: "0 < co_col ?c" for i pe2
  proof -
    have e: "engine_at ?W pe pe2" using engine_at_trans [OF init(1) e2(1)] .
    have w2: "pe_wf ?W pe2" using e by (simp add: engine_at_def)
    have ne: "pe_cursors pe2 \<noteq> []" using e2(3) init(2) by simp
    show ?thesis
      by (rule ok_seq [OF the_cell_ok [OF w2 e2(2)]], use c x in simp, use c x in simp,
          rule ok_seq [OF emu_GetCell_ok [OF assms(1)]])
        (use e c x in \<open>auto simp: ok_if co_expire_def intro!: ok_mono [OF on_cursor_ok [OF e ne]]\<close>)
  qed
  show ?thesis
    unfolding predict_left_def GetWidth_inv [OF assms(1)] pe_cursor_last Let_def
    using init by (auto simp: ok_if intro!: ok_seq [OF getOrMakeRow_ok [OF w1 W]] rest)
qed

lemma predict_key_ok:
  assumes "emu_inv emu" and "pe_wf (em_nCols emu) pe" and "\<And>s. 0 \<le> te_width env s" and "1 < em_nCols emu"
  shows "ok (predict_key env emu now later h pe) (engine_at (em_nCols emu) pe)"
proof -
  have t: "engine_at (em_nCols emu) pe (becomeTentative pe)" by (rule engine_at_epoch [OF engine_at_refl [OF assms(2)]])
  have "ok (newlineCarriageReturn emu later (becomeTentative pe)) (engine_at (em_nCols emu) pe)"
    by (rule ok_mono [OF newline_ok [OF assms(1)]]) (use t engine_at_trans [OF t] in \<open>auto simp: engine_at_def\<close>)
  then show ?thesis
    using t grapheme_ok [OF assms(1,2) assms(3,4)] predict_right_ok [OF assms(1,2)] predict_left_ok [OF assms(1,2)]
    by (simp add: predict_key_def ok_if)
qed

section \<open>Checking the predictions\<close>

lemma killEpoch_ok:
  assumes "emu_inv emu" and "pe_wf (em_nCols emu) pe"
  shows "engine_at (em_nCols emu) pe (killEpoch e emu pe)" "length (pe_overlays (killEpoch e emu pe)) = length (pe_overlays pe)"
proof -
  have row: "row_wf W (on_cells (\<lambda>c. if P c then coc_reset c else c) r)" if "row_wf W r" for P r W
    using that by (simp add: row_wf_def on_cells_def co_col_simps)
  show "engine_at (em_nCols emu) pe (killEpoch e emu pe)"
    using assms(2) emu_inv_bounds [OF assms(1)]
    by (auto simp: killEpoch_def becomeTentative_def Let_def engine_at_def pe_wf_def add_cursor_def newConditionalCursorMove_def
        newConditionalOverlay_def conditionalOverlay.defs GetCursorCol_def list_all_iff intro!: row)
  show "length (pe_overlays (killEpoch e emu pe)) = length (pe_overlays pe)"
    by (simp add: killEpoch_def becomeTentative_def Let_def add_cursor_def)
qed

lemma Reset_wf: "pe_wf W (pe_Reset pe)" "pe_parser (pe_Reset pe) = pe_parser pe" "pe_lastWidth (pe_Reset pe) = pe_lastWidth pe"
  by (simp_all add: pe_Reset_def becomeTentative_def pe_wf_def)

lemma cull_correct_ok:
  assumes "emu_inv emu" and "pe_wf W pe" and "i < length (pe_overlays pe)" and "int j < W"
  shows "ok (cull_correct emu now i j n c pe) (\<lambda>pe'. engine_at W pe pe' \<and> length (pe_overlays pe') = length (pe_overlays pe))"
proof -
  define pe2 where "pe2 = (let pe1 = (if tentative (pe_confirmedEpoch pe) c
        then pe\<lparr>pe_confirmedEpoch := co_tentativeUntilEpoch c\<rparr> else pe)
      in if now - co_predictionTime c < GLITCH_THRESHOLD \<and> pe_glitchTrigger pe1 > 0 \<and>
            now - GLITCH_REPAIR_MININTERVAL \<ge> pe_lastQuickConfirmation pe1
         then pe1\<lparr>pe_glitchTrigger := pe_glitchTrigger pe1 - 1, pe_lastQuickConfirmation := now\<rparr> else pe1)"
  have e2: "engine_at W pe pe2" "pe_overlays pe2 = pe_overlays pe"
    using assms(2) by (simp_all add: pe2_def Let_def engine_at_def pe_wf_def)
  have step: "ok (do {
      row \<leftarrow> list_at (pe_overlays pe2) (int i);
      let cells = take j (cor_overlayCells row) @ map (coc_replacement_update f) (drop j (cor_overlayCells row));
      on_cell i (int j) coc_reset (pe2\<lparr>pe_overlays := (pe_overlays pe2)[i := row\<lparr>cor_overlayCells := cells\<rparr>]\<rparr>) })
    (\<lambda>pe'. engine_at W pe pe' \<and> length (pe_overlays pe') = length (pe_overlays pe))" for f
  proof -
    let ?r = "pe_overlays pe2 ! i"
    let ?r' = "?r\<lparr>cor_overlayCells := take j (cor_overlayCells ?r) @ map (coc_replacement_update f) (drop j (cor_overlayCells ?r))\<rparr>"
    let ?pe3 = "pe2\<lparr>pe_overlays := (pe_overlays pe2)[i := ?r']\<rparr>"
    have r: "row_wf W ?r" using row_at [OF assms(2,3)] e2(2) by simp
    have "row_wf W ?r'" using r by (auto simp: row_wf_def nth_append)
    then have e3: "engine_at W pe ?pe3" using e2 by (simp add: engine_at_def pe_wf_def list_all_update)
    then have w3: "pe_wf W ?pe3" by (simp add: engine_at_def)
    have i3: "i < length (pe_overlays ?pe3)" using e2(2) assms(3) by simp
    have "ok (on_cell i (int j) coc_reset ?pe3) (\<lambda>pe'. engine_at W pe pe' \<and> length (pe_overlays pe') = length (pe_overlays pe))"
      using assms(4) redrawn_wf(2) [OF _ w3] e2(2) redrawn_at [OF w3] engine_at_trans [OF e3]
      by (intro ok_mono [OF on_cell_ok [OF w3 i3]]) (auto simp: co_col_simps)
    then show ?thesis using assms(3) e2(2) by (simp add: list_at_def Let_def)
  qed
  show ?thesis
    unfolding cull_correct_def Let_def
    using step by (intro ok_seq [OF emu_GetCell_ok [OF assms(1)]]) (simp add: pe2_def Let_def)
qed

text \<open>One step of \<open>cull\<close>: it returns with no predictions at all, or goes on with the same rows.\<close>

definition culled :: "int \<Rightarrow> predictionEngine \<Rightarrow> bool \<times> predictionEngine \<Rightarrow> bool" where
  "culled W pe = (\<lambda>(ret, pe'). engine_at W pe pe' \<and> (ret \<or> length (pe_overlays pe') = length (pe_overlays pe)))"

lemma culled_trans: "culled W pe (False, pe') \<Longrightarrow> culled W pe' r \<Longrightarrow> culled W pe r"
  by (auto simp: culled_def engine_at_def split: prod.splits)

lemma getValidity_ok: "emu_inv emu \<Longrightarrow> ok (coc_getValidity emu y a c) (\<lambda>_. True)"
  using ok_mono [OF emu_GetCell_ok] by (auto simp: coc_getValidity_def ok_bind ok_if)

lemma cull_cell_ok:
  assumes "emu_inv emu" and "pe_wf (em_nCols emu) pe" and "i < length (pe_overlays pe)" and "int j < em_nCols emu"
  shows "ok (cull_cell emu now i j pe) (culled (em_nCols emu) pe)"
proof -
  let ?W = "em_nCols emu" and ?r = "pe_overlays pe ! i"
  have j: "j < length (cor_overlayCells ?r)" using row_at [OF assms(2,3)] assms(4) by (simp add: row_wf_def)
  let ?c = "cor_overlayCells ?r ! j"
  have reset: "ok (map_option (Pair False) (on_cell i (int j) coc_reset pe)) (culled ?W pe)"
    using on_cell_ok [OF assms(2,3) _ assms(4), of coc_reset] redrawn_at [OF assms(2)] redrawn_wf(2) [OF _ assms(2)]
    by (fastforce simp: ok_iff culled_def co_col_simps)
  have right: "ok (map_option (Pair False) (cull_correct emu now i j n ?c pe)) (culled ?W pe)" for n
    using cull_correct_ok [OF assms, of now n ?c] by (auto simp: ok_iff culled_def)
  have pend: "culled ?W pe (False, cull_pending now ?c pe)"
    using assms(2) by (simp add: cull_pending_def culled_def engine_at_def pe_wf_def Let_def)
  have kill: "culled ?W pe (False, killEpoch e emu pe)" for e
    using killEpoch_ok [OF assms(1,2)] by (simp add: culled_def)
  have all: "culled ?W pe (True, pe_Reset pe)" "culled ?W pe (False, pe)"
    using Reset_wf assms(2) by (simp_all add: culled_def engine_at_def)
  have at: "list_at (pe_overlays pe) (int i) = Some ?r" "list_at (cor_overlayCells ?r) (int j) = Some ?c"
    using assms(3) j by (simp_all add: list_at_def)
  show ?thesis
    unfolding cull_cell_def at bind.simps
    by (rule ok_seq [OF getValidity_ok [OF assms(1)]], rule ok_seq [OF emu_GetCell_ok [OF assms(1)]])
      (use reset right pend kill all in \<open>auto simp: ok_if split: validity.split\<close>)
qed

lemma cull_cells_ok:
  assumes "emu_inv emu" and "pe_wf (em_nCols emu) pe" and "i < length (pe_overlays pe)" and "\<forall>j\<in>set js. int j < em_nCols emu"
  shows "ok (cull_cells emu now i js pe) (culled (em_nCols emu) pe)"
  using assms
proof (induction js arbitrary: pe)
  case (Cons j js)
  let ?W = "em_nCols emu"
  have rest: "ok (cull_cells emu now i js pe') (culled ?W pe)" if c: "culled ?W pe (False, pe')" for pe'
    using Cons.IH [OF Cons.prems(1), of pe'] c Cons.prems culled_trans [OF c]
    by (auto simp: culled_def engine_at_def intro: ok_mono)
  have "ok (cull_cell emu now i j pe) (culled ?W pe)" using Cons.prems by (intro cull_cell_ok) auto
  then show ?case using rest by (auto simp: ok_bind culled_def elim!: ok_mono)
qed (simp add: culled_def engine_at_def)

lemma cull_rows_ok:
  assumes "emu_inv emu" and "pe_wf (em_nCols emu) pe" and "\<forall>i\<in>set is. i < length (pe_overlays pe)"
  shows "ok (cull_rows emu now is pe) (culled (em_nCols emu) pe)"
  using assms
proof (induction "is" arbitrary: pe)
  case (Cons i "is")
  let ?W = "em_nCols emu" and ?r = "pe_overlays pe ! i"
  have i: "i < length (pe_overlays pe)" using Cons.prems by simp
  have rest: "ok (cull_rows emu now is pe') (culled ?W pe)" if c: "culled ?W pe (False, pe')" for pe'
    using Cons.IH [OF Cons.prems(1), of pe'] c Cons.prems culled_trans [OF c]
    by (auto simp: culled_def engine_at_def intro: ok_mono)
  have "ok (cull_cells emu now i [0..<length (cor_overlayCells ?r)] pe) (culled ?W pe)"
    using Cons.prems row_at [OF Cons.prems(2) i] by (intro cull_cells_ok) (auto simp: row_wf_def)
  moreover have "culled ?W pe (False, pe)" using Cons.prems by (simp add: culled_def engine_at_def)
  ultimately show ?case using rest i by (auto simp: list_at_def ok_bind ok_if culled_def elim!: ok_mono)
qed (simp add: culled_def engine_at_def)

lemma cull_triggers_fields: "pe_wf W (cull_triggers pe) = pe_wf W pe" "pe_lastWidth (cull_triggers pe) = pe_lastWidth pe"
    "pe_parser (cull_triggers pe) = pe_parser pe" "pe_overlays (cull_triggers pe) = pe_overlays pe"
    "pe_cursors (cull_triggers pe) = pe_cursors pe"
  by (simp_all add: cull_triggers_def pe_wf_def Let_def)

lemma cull_resize_wf:
  assumes "emu_inv emu" and "engine_inv pe"
  shows "pe_wf (em_nCols emu) (cull_resize emu pe)" "pe_lastWidth (cull_resize emu pe) = em_nCols emu"
    "pe_parser (cull_resize emu pe) = pe_parser pe"
  using assms(2) GetWidth_inv [OF assms(1)]
  by (auto simp: cull_resize_def engine_inv_def Reset_wf)

lemma cull_ok:
  assumes "emu_inv emu" and "engine_inv pe"
  shows "ok (cull emu now pe) (\<lambda>pe'. engine_inv pe' \<and> pe_parser pe' = pe_parser pe \<and>
    (pe_displayPreference pe \<noteq> Never \<longrightarrow> pe_lastWidth pe' = em_nCols emu))"
proof (cases "pe_displayPreference pe = Never")
  case False
  let ?W = "em_nCols emu" and ?pe1 = "cull_triggers (cull_resize emu pe)"
  have w1: "pe_wf ?W ?pe1" "pe_lastWidth ?pe1 = ?W" "pe_parser ?pe1 = pe_parser pe"
    using cull_resize_wf [OF assms] by (simp_all add: cull_triggers_fields)
  have "list_all P (filter Q xs)" if "list_all P xs" for P Q and xs :: "'a list" using that by (auto simp: list_all_iff)
  then have cursors: "engine_at ?W pe2 (cull_cursors emu (pe2\<lparr>pe_overlays := filter Q (pe_overlays pe2)\<rparr>))"
    if "pe_wf ?W pe2" for pe2 Q
    using that by (auto simp: cull_cursors_def engine_at_def pe_wf_def pe_Reset_def becomeTentative_def Let_def list_all_iff)
  have "ok (cull_rows emu now [0..<length (pe_overlays ?pe1)] ?pe1) (culled ?W ?pe1)"
    by (rule cull_rows_ok [OF assms(1) w1(1)]) simp
  then have "ok (cull emu now pe) (engine_at ?W ?pe1)"
    using False cursors unfolding cull_def Let_def
    by (auto simp: ok_bind culled_def engine_at_def elim!: ok_mono)
  then show ?thesis
    using w1 assms(2) by (auto simp: engine_inv_def engine_at_def elim!: ok_mono)
qed (use assms(2) in \<open>simp add: cull_def\<close>)

section \<open>Showing the predictions\<close>

lemma emu_GetCellPtr_inv:
  assumes "emu_inv emu"
  shows "ok (emu_GetCellPtr y x f emu) emu_inv"
proof -
  obtain y' x' where p: "regulatePos y x emu = (y', x')" "0 \<le> y'" "y' < em_nRows emu" "0 \<le> x'" "x' < em_nCols emu"
    using emu_inv_bounds [OF assms] by (auto simp: regulatePos_def Let_def)
  then show ?thesis
    using ok_mono [OF cell_writes(1) [OF assms cells_only_refl] cells_only_inv [OF assms]] by (simp add: emu_GetCellPtr_def)
qed

lemma MoveCursor_inv:
  assumes "emu_inv emu"
  shows "emu_inv (MoveCursor y x emu)"
proof -
  define a where "a = max 1 (min (x + 1) (em_nCols emu)) - 1"
  define b where "b = max 1 (min (y + 1) (em_nRows emu)) - 1"
  note bs = emu_inv_bounds [OF assms]
  have cup: "hdl_csi_cup (y + 1) (x + 1) emu = emu\<lparr>em_posX := a, em_posY := b, em_lastCol := False\<rparr>"
    using bs(9) by (simp only: hdl_csi_cup_def Let_def originMode.case a_def b_def)
  have ab: "0 \<le> a" "a < em_nCols emu" "0 \<le> b" "b < em_nRows emu" using bs(1,2) by (auto simp: a_def b_def)
  obtain y' x' where p: "regulatePos y x (emu\<lparr>em_posX := a, em_posY := b, em_lastCol := False\<rparr>) = (y', x')"
    "0 \<le> y'" "y' < em_nRows emu" "0 \<le> x'" "x' < em_nCols emu"
    using bs ab by (auto simp: regulatePos_def Let_def GetCursorRow_def GetCursorCol_def)
  have "MoveCursor y x emu = (emu\<lparr>em_posX := a, em_posY := b, em_lastCol := False\<rparr>)\<lparr>em_posY := y', em_posX := x'\<rparr>"
    by (simp add: MoveCursor_def cup p(1))
  also have "... = emu\<lparr>em_posX := x', em_posY := y', em_lastCol := False\<rparr>" by (cases emu) simp
  finally show ?thesis using emu_inv_cursor [OF assms p(4,5,2,3)] by simp
qed

text \<open>A screen in the invariant that has kept its parser and its width.\<close>

definition screen_kept :: "emulator \<Rightarrow> emulator \<Rightarrow> bool" where
  "screen_kept emu e \<longleftrightarrow> emu_inv e \<and> em_parser e = em_parser emu \<and> em_nCols e = em_nCols emu"

lemma screen_kept_refl: "emu_inv emu \<Longrightarrow> screen_kept emu emu"
  by (simp add: screen_kept_def)

lemma screen_kept_trans: "screen_kept a b \<Longrightarrow> screen_kept b c \<Longrightarrow> screen_kept a c"
  by (simp add: screen_kept_def)

lemma screen_inv: "screen_kept emu e \<Longrightarrow> emu_inv e"
  by (simp add: screen_kept_def)

lemma GetCellPtr_kept:
  assumes "screen_kept e0 emu"
  shows "ok (emu_GetCellPtr y x f emu) (screen_kept e0)"
proof -
  have "ok (emu_GetCellPtr y x f emu) (\<lambda>e. em_parser e = em_parser emu \<and> em_nCols e = em_nCols emu \<and> emu_inv e)"
    using emu_GetCellPtr_inv [of emu y x f] assms
    by (auto simp: screen_kept_def emu_GetCellPtr_def on_cf_def set_cf_def ok_iff split: prod.splits screen.splits Option.bind_splits)
  then show ?thesis using assms by (auto simp: screen_kept_def elim!: ok_mono)
qed

lemma MoveCursor_kept: "screen_kept e0 emu \<Longrightarrow> screen_kept e0 (MoveCursor y x emu)"
  using MoveCursor_inv [of emu y x]
  by (auto simp: screen_kept_def MoveCursor_def hdl_csi_cup_def Let_def split: prod.splits originMode.splits)

lemma coc_apply_kept:
  assumes "screen_kept e0 emu"
  shows "ok (coc_apply confirmed row flag c (diff, emu)) (\<lambda>(d, e). screen_kept e0 e)"
proof -
  have inv: "emu_inv emu" using assms by (simp add: screen_kept_def)
  note ptr = GetCellPtr_kept [OF assms] and cl = emu_GetCell_ok [OF inv]
  have show_cell: "ok (do {
      emu1 \<leftarrow> emu_GetCellPtr row x f emu;
      emu2 \<leftarrow> (if b then emu_GetCellPtr row x g emu1 else Some emu1);
      cl' \<leftarrow> emu_GetCell row x emu2;
      Some (diff @ [\<lparr>ad_cell = cl', ad_row = row, ad_col = x\<rparr>], emu2) }) (\<lambda>(d, e). screen_kept e0 e)" for x f g b
    by (rule ok_seq [OF ptr], rule ok_seq [where P = "screen_kept e0"])
      (auto simp: ok_if intro: GetCellPtr_kept ok_seq [OF emu_GetCell_ok [OF screen_inv]])
  have blank: "ok (if IsBlank (coc_replacement c) then do {
      cl \<leftarrow> emu_GetCell row (co_col c) emu; Some (flag \<and> \<not> IsBlank cl) } else Some flag) (\<lambda>_. True)"
    by (auto simp: ok_if intro!: ok_seq [OF cl])
  show ?thesis
    unfolding coc_apply_def prod.case
    by (auto simp: ok_if assms intro!: ok_seq [OF blank] ok_seq [OF ptr] ok_seq [OF cl] show_cell)
qed

lemma pe_apply_kept:
  assumes "emu_inv emu"
  shows "ok (pe_apply emu pe) (\<lambda>(pe', e). screen_kept emu e \<and> pe' = pe\<lparr>pe_diff := pe_diff pe'\<rparr>)"
proof -
  have "ok (for_list cs (coc_apply confirmed row flag) (d, e)) (\<lambda>(d, e). screen_kept emu e)"
    if "screen_kept emu e" for cs confirmed row flag d e
    using that coc_apply_kept by (intro for_list_inv) auto
  then have "ok (for_list rs (cor_apply confirmed flag) (d, e)) (\<lambda>(d, e). screen_kept emu e)"
    if "screen_kept emu e" for rs confirmed flag d e
    using that by (intro for_list_inv) (auto simp: cor_apply_def)
  moreover have "screen_kept emu (fold (ccm_apply confirmed) cs e)" if "screen_kept emu e" for confirmed cs e
    using that MoveCursor_kept by (induction cs arbitrary: e) (simp_all add: ccm_apply_def)
  ultimately have "ok (do {
      (diff, emu1) \<leftarrow> for_list (pe_overlays pe) (cor_apply (pe_confirmedEpoch pe) (pe_flagging pe)) (pe_diff pe, emu);
      Some (pe\<lparr>pe_diff := diff\<rparr>, fold (ccm_apply (pe_confirmedEpoch pe)) (pe_cursors pe) emu1) })
    (\<lambda>(pe', e). screen_kept emu e \<and> pe' = pe\<lparr>pe_diff := pe_diff pe'\<rparr>)"
    using screen_kept_refl [OF assms] by (intro ok_seq [where P = "\<lambda>(d, e). screen_kept emu e"]) auto
  then show ?thesis using screen_kept_refl [OF assms] by (simp add: pe_apply_def)
qed

lemma pe_apply_ok:
  assumes "emu_inv emu"
  shows "ok (pe_apply emu pe) (\<lambda>(pe', e). emu_inv e \<and> pe' = pe\<lparr>pe_diff := pe_diff pe'\<rparr>)"
  by (rule ok_mono [OF pe_apply_kept [OF assms]]) (auto simp: screen_kept_def)

text \<open>A key moves the parser of the engine on, unless predictions are switched off.\<close>

definition key_taken :: "rune list \<Rightarrow> predictionEngine \<Rightarrow> predictionEngine \<Rightarrow> bool" where
  "key_taken input pe pe' \<longleftrightarrow> engine_inv pe' \<and>
     (if input = [] \<or> pe_displayPreference pe = Never then pe' = pe
      else map_option fst (ProcessInput input (pe_parser pe)) = Some (pe_parser pe'))"

lemma NewUserInput_taken:
  assumes "emu_inv emu" and "1 < em_nCols emu" and "engine_inv pe"
    and "pe_displayPreference pe = Never \<or> can_undo input (pe_parser pe)"
    and "\<And>s. 0 \<le> te_width env s"
  shows "ok (NewUserInput env emu input t1 t2 t3 pe) (key_taken input pe)"
proof (cases "length input = 0 \<or> pe_displayPreference pe = Never")
  case False
  have n: "\<not> length input = 0" "\<not> pe_displayPreference pe = Never" using False by simp_all
  have key: "ok (do {
      (p, h) \<leftarrow> ProcessInput input (pe_parser pe1);
      let pe2 = pe1\<lparr>pe_lastByte := input, pe_parser := p\<rparr>;
      (case h of None \<Rightarrow> Some pe2
       | Some k \<Rightarrow> do { pe3 \<leftarrow> predict_key env emu t2 t3 k pe2; Some (pe3\<lparr>pe_applied := False\<rparr>) }) }) (key_taken input pe)"
    if pe1: "engine_inv pe1" "pe_parser pe1 = pe_parser pe" "pe_lastWidth pe1 = em_nCols emu" for pe1
  proof -
    obtain p h where ph: "ProcessInput input (pe_parser pe1) = Some (p, h)" "parser_inv p"
      using ProcessInput_ok [of "pe_parser pe1" input] assms(3,4) pe1(2) n by (auto simp: engine_inv_def ok_iff)
    let ?pe2 = "pe1\<lparr>pe_lastByte := input, pe_parser := p\<rparr>"
    have e2: "pe_wf (em_nCols emu) ?pe2" "engine_inv ?pe2" using pe1 ph(2) by (auto simp: engine_inv_def pe_wf_def)
    have taken: "key_taken input pe pe'" if "engine_inv pe'" "pe_parser pe' = p" for pe'
      using that ph(1) n pe1(2) by (simp add: key_taken_def)
    have "ok (predict_key env emu t2 t3 k ?pe2 \<bind> (\<lambda>pe3. Some (pe3\<lparr>pe_applied := False\<rparr>))) (key_taken input pe)" for k
      by (rule ok_seq [OF predict_key_ok [OF assms(1) e2(1) assms(5,2)]])
        (use pe1(3) ph(2) in \<open>auto simp: engine_at_def engine_inv_def pe_wf_def intro!: taken\<close>)
    then show ?thesis using ph(1) taken [OF e2(2)] by (simp add: Let_def split: option.split)
  qed
  let ?pe = "if pe_displayPreference pe = Experimental then pe\<lparr>pe_predictionEpoch := pe_confirmedEpoch pe\<rparr> else pe"
  have "pe_displayPreference ?pe \<noteq> Never" "pe_parser ?pe = pe_parser pe" using False by simp_all
  moreover have "engine_inv ?pe" using assms(3) by (simp add: engine_inv_def pe_wf_def)
  ultimately have c: "ok (cull emu t1 ?pe) (\<lambda>pe1. engine_inv pe1 \<and> pe_parser pe1 = pe_parser pe \<and> pe_lastWidth pe1 = em_nCols emu)"
    by (intro ok_mono [OF cull_ok [OF assms(1)]]) simp_all
  show ?thesis
    unfolding NewUserInput_def if_not_P [OF n(1)] if_not_P [OF n(2)] by (rule ok_seq [OF c]) (use key in simp)
qed (use assms(3) in \<open>auto simp: NewUserInput_def key_taken_def\<close>)

lemma NewUserInput_ok:
  assumes "emu_inv emu" and "1 < em_nCols emu" and "engine_inv pe"
    and "pe_displayPreference pe = Never \<or> can_undo input (pe_parser pe)"
    and "\<And>s. 0 \<le> te_width env s"
  shows "ok (NewUserInput env emu input t1 t2 t3 pe) engine_inv"
  by (rule ok_mono [OF NewUserInput_taken [OF assms]]) (auto simp: key_taken_def)


lemma newPredictionEngine_inv: "engine_inv newPredictionEngine"
  by (simp add: engine_inv_def pe_wf_def newPredictionEngine_def parser_inv_New)


end
