(* ===== verification/OverlayEcho.thy ===== *)
theory OverlayEcho
  imports OverlayProps
begin

text \<open>
  One key from the user to the answer of the server: the engine predicts the character at the cursor,
  the echo confirms the epoch of the prediction, and without the echo the prediction is withdrawn.
\<close>

section \<open>An engine with one row\<close>

definition put_row :: "predictionEngine \<Rightarrow> int \<Rightarrow> conditionalOverlayCell list \<Rightarrow> predictionEngine" where
  "put_row pe y cells = pe\<lparr>pe_overlays := [\<lparr>cor_overlayCells = cells, cor_rowNum = y\<rparr>]\<rparr>"

lemma put_row_fields [simp]:
  "pe_cursors (put_row pe y cells) = pe_cursors pe" "pe_predictionEpoch (put_row pe y cells) = pe_predictionEpoch pe"
  "pe_localFrameSent (put_row pe y cells) = pe_localFrameSent pe" "pe_confirmedEpoch (put_row pe y cells) = pe_confirmedEpoch pe"
  "pe_displayPreference (put_row pe y cells) = pe_displayPreference pe" "pe_lastHeight (put_row pe y cells) = pe_lastHeight pe"
  "pe_lastWidth (put_row pe y cells) = pe_lastWidth pe" "pe_localFrameLateAcked (put_row pe y cells) = pe_localFrameLateAcked pe"
  "pe_predictOverwrite (put_row pe y cells) = pe_predictOverwrite pe"
  "pe_overlays (put_row pe y cells) = [\<lparr>cor_overlayCells = cells, cor_rowNum = y\<rparr>]"
  "put_row (put_row pe y cells) y' cells' = put_row pe y' cells'"
  by (simp_all add: put_row_def)

lemma list_at_0: "list_at [x] (int 0) = Some x" "list_at [x] 0 = Some x"
  by (simp_all add: list_at_def)

lemma on_cell_row:
  "0 \<le> j \<Longrightarrow> j < int (length cells) \<Longrightarrow>
    on_cell 0 j f (put_row pe y cells) = Some (put_row pe y (cells[nat j := f (cells ! nat j)]))"
  by (simp add: on_cell_def list_at_def put_row_def)

lemma the_cell_row: "0 \<le> j \<Longrightarrow> j < int (length cells) \<Longrightarrow> the_cell 0 j (put_row pe y cells) = Some (cells ! nat j)"
  by (simp add: the_cell_def list_at_def)

text \<open>\<open>shown y x emu\<close>: the cell of the screen.\<close>

definition shown :: "int \<Rightarrow> int \<Rightarrow> emulator \<Rightarrow> cell" where
  "shown y x emu = fb_cells (cf emu) ! nat (getIdx y x (cf emu))"

lemma GetCell_shown:
  "emu_inv emu \<Longrightarrow> 0 \<le> y \<Longrightarrow> y < em_nRows emu \<Longrightarrow> 0 \<le> x \<Longrightarrow> x < em_nCols emu \<Longrightarrow>
    emu_GetCell y x emu = Some (shown y x emu)"
  by (simp add: emu_GetCell_at shown_def)

section \<open>The cells behind the cursor\<close>

text \<open>A cell of a new row, and a cell that predicts nothing that can be wrong.\<close>

definition fresh :: "int \<Rightarrow> nat \<Rightarrow> conditionalOverlayCell" where
  "fresh E j = newConditionalOverlayCell 0 (int j) E"

definition harmless :: "int \<Rightarrow> 64 word \<Rightarrow> nat \<Rightarrow> conditionalOverlayCell \<Rightarrow> bool" where
  "harmless E f j c \<longleftrightarrow> co_col c = int j \<and> co_tentativeUntilEpoch c = E \<and>
     (co_active c \<longrightarrow> co_expirationFrame c = f \<and> (coc_unknown c \<or> IsBlank (coc_replacement c)))"

lemma fresh_fields: "co_col (fresh E j) = int j" "\<not> co_active (fresh E j)" "\<not> coc_unknown (fresh E j)"
  "coc_replacement (fresh E j) = Cell0" "coc_originalContents (fresh E j) = []" "co_tentativeUntilEpoch (fresh E j) = E"
  by (simp_all add: fresh_def newConditionalOverlayCell_def newConditionalOverlay_def conditionalOverlay.defs)

lemma fresh_harmless: "harmless E f j (fresh E j)"
  by (simp add: harmless_def fresh_fields)

lemma shift_fresh:
  assumes "emu_inv emu" and "0 \<le> y" and "y < em_nRows emu" and "0 \<le> x" and "x < j" and "j < em_nCols emu"
    and "int (length cells) = em_nCols emu"
    and "cells ! nat j = fresh E (nat j)" and "cells ! nat (j - 1) = fresh E (nat (j - 1))"
    and "IsBlank (shown y (j - 1) emu)" and "pe_predictionEpoch pe = E"
  shows "\<exists>c. shift_cell emu now 1 y x 0 j (put_row pe y cells) = Some (True, put_row pe y (cells[nat j := c])) \<and>
    harmless E (pe_localFrameSent pe + 1) (nat j) c"
proof -
  have at: "emu_GetCell y j emu = Some (shown y j emu)" "emu_GetCell y (j - 1) emu = Some (shown y (j - 1) emu)"
    using assms(2-6) by (simp_all add: GetCell_shown [OF assms(1)])
  have n: "nat (j - 1) \<noteq> nat j" "nat (j - 1) < length cells" "nat j < length cells" "\<not> j - 1 < x" "0 \<le> j" "0 \<le> j - 1"
    using assms by auto
  note row = on_cell_row the_cell_row
  show ?thesis
    using assms(5,6,7,10,11) n
    by (simp add: shift_cell_def keep_original_def row at assms(8,9) nth_list_update activate_def co_expire_def coc_resetWithOrig_def
        coc_reset_def co_reset_def fresh_fields)
      (auto simp: harmless_def fresh_fields)
qed

lemma columns_down_step: "x < right \<Longrightarrow> columns_down right x = right # columns_down (right - 1) x"
  "columns_down x x = []"
proof -
  assume "x < right"
  then obtain n where n: "nat (right - x) = Suc n" "nat (right - 1 - x) = n" by (cases "nat (right - x)") auto
  show "columns_down right x = right # columns_down (right - 1) x"
    by (rule nth_equalityI) (auto simp: columns_down_def n nth_Cons split: nat.split simp del: upt_Suc)
qed (simp add: columns_down_def)

text \<open>The cells up to \<open>right\<close> are new, the others harmless.\<close>

definition row_from :: "int \<Rightarrow> 64 word \<Rightarrow> int \<Rightarrow> int \<Rightarrow> conditionalOverlayCell list \<Rightarrow> bool" where
  "row_from E f W right cells \<longleftrightarrow> int (length cells) = W \<and>
     (\<forall>j<length cells. (int j \<le> right \<longrightarrow> cells ! j = fresh E j) \<and> (right < int j \<longrightarrow> harmless E f j (cells ! j)))"

lemma shift_row:
  assumes "emu_inv emu" and "0 \<le> y" and "y < em_nRows emu" and "0 \<le> x"
    and "\<And>j. x \<le> j \<Longrightarrow> j < em_nCols emu \<Longrightarrow> IsBlank (shown y j emu)" and "pe_predictionEpoch pe = E"
  shows "x \<le> right \<Longrightarrow> right < em_nCols emu \<Longrightarrow> row_from E (pe_localFrameSent pe + 1) (em_nCols emu) right cells \<Longrightarrow>
    \<exists>cells'. shift_cells emu now 1 y x 0 (columns_down right x) (put_row pe y cells) = Some (put_row pe y cells') \<and>
      row_from E (pe_localFrameSent pe + 1) (em_nCols emu) x cells'"
proof (induction "nat (right - x)" arbitrary: right cells)
  case 0
  then show ?case using columns_down_step(2) by auto
next
  case (Suc n)
  let ?f = "pe_localFrameSent pe + 1" and ?W = "em_nCols emu"
  have r: "x < right" using Suc.hyps(2) by simp
  have len: "int (length cells) = ?W" using Suc.prems(3) by (simp add: row_from_def)
  have cells: "cells ! nat right = fresh E (nat right)" "cells ! nat (right - 1) = fresh E (nat (right - 1))"
    using Suc.prems(2,3) r assms(4) len unfolding row_from_def by (auto simp: nat_less_iff)
  have "IsBlank (shown y (right - 1) emu)" using r Suc.prems(2) by (intro assms(5)) auto
  then obtain c where c: "shift_cell emu now 1 y x 0 right (put_row pe y cells) = Some (True, put_row pe y (cells[nat right := c]))"
    "harmless E ?f (nat right) c"
    using shift_fresh [OF assms(1-4) r Suc.prems(2) len cells _ assms(6)] by blast
  have rest: "row_from E ?f ?W (right - 1) (cells[nat right := c])"
    using Suc.prems(3) c(2) r assms(4) unfolding row_from_def by (auto simp: nth_list_update)
  have "n = nat (right - 1 - x)" "x \<le> right - 1" "right - 1 < ?W" using Suc.hyps(2) Suc.prems(2) r by auto
  from Suc.hyps(1) [OF this rest] obtain cells' where
    "shift_cells emu now 1 y x 0 (columns_down (right - 1) x) (put_row pe y (cells[nat right := c])) = Some (put_row pe y cells')"
    "row_from E ?f ?W x cells'" by blast
  then show ?case using c(1) columns_down_step(1) [OF r] by auto
qed

section \<open>The key is predicted\<close>

definition predicted_cell :: "int \<Rightarrow> 64 word \<Rightarrow> int \<Rightarrow> int \<Rightarrow> char \<Rightarrow> renditions \<Rightarrow> cell \<Rightarrow> conditionalOverlayCell" where
  "predicted_cell E f now x ch rend old =
     \<lparr>co_expirationFrame = f, co_col = x, co_active = True, co_tentativeUntilEpoch = E, co_predictionTime = now,
      coc_originalContents = [old], coc_replacement = SetContents [of_char ch] (Cell0\<lparr>ce_renditions := rend\<rparr>),
      coc_unknown = False\<rparr>"

definition predicted_cursor :: "int \<Rightarrow> 64 word \<Rightarrow> int \<Rightarrow> int \<Rightarrow> int \<Rightarrow> conditionalCursorMove" where
  "predicted_cursor E f now y x =
     \<lparr>co_expirationFrame = f, co_col = x, co_active = True, co_tentativeUntilEpoch = E, co_predictionTime = now,
      ccm_row = y\<rparr>"

text \<open>
  \<open>predicts ch emu pe\<close>: one row of predictions, with \<open>ch\<close> at the cursor of \<open>emu\<close>, nothing before it and
  only harmless cells behind it; one cursor, right of the character; all in the current epoch.
\<close>

definition predicts :: "char \<Rightarrow> emulator \<Rightarrow> predictionEngine \<Rightarrow> bool" where
  "predicts ch emu pe \<longleftrightarrow>
     (let E = pe_predictionEpoch pe; f = pe_localFrameSent pe + 1; x = em_posX emu; y = em_posY emu
      in \<exists>cells now. pe_overlays pe = [\<lparr>cor_overlayCells = cells, cor_rowNum = y\<rparr>] \<and>
        int (length cells) = em_nCols emu \<and>
        cells ! nat x = predicted_cell E f now x ch (ce_renditions (em_attrs emu)) (shown y x emu) \<and>
        (\<forall>j<length cells. j \<noteq> nat x \<longrightarrow> harmless E f j (cells ! j)) \<and>
        (\<forall>j<nat x. \<not> co_active (cells ! j)) \<and>
        pe_cursors pe = [predicted_cursor E f now y (x + 1)])"

lemma predict_fresh:
  assumes "emu_inv emu" and "0 \<le> y" and "y < em_nRows emu" and "0 \<le> x" and "x < em_nCols emu"
    and "int (length cells) = em_nCols emu" and "cells ! nat x = fresh E (nat x)" and "pe_predictionEpoch pe = E"
  shows "predict_cell emu now 1 [of_char ch] y x 0 (put_row pe y cells) =
    Some (put_row pe y (cells[nat x := predicted_cell E (pe_localFrameSent pe + 1) now x ch (ce_renditions (em_attrs emu)) (shown y x emu)]))"
  using assms(2-8)
  by (simp add: predict_cell_def keep_original_def on_cell_row the_cell_row GetCell_shown [OF assms(1)] activate_def co_expire_def
      coc_resetWithOrig_def coc_reset_def co_reset_def fresh_fields predicted_cell_def)
    (simp add: fresh_def newConditionalOverlayCell_def newConditionalOverlay_def conditionalOverlay.defs)

text \<open>\<open>cull\<close> when there is nothing to check.\<close>

lemma cull_empty:
  assumes "pe_overlays pe = []" and "pe_cursors pe = []"
  shows "\<exists>pe'. cull emu now pe = Some pe' \<and> pe_overlays pe' = [] \<and> pe_cursors pe' = [] \<and> pe_parser pe' = pe_parser pe \<and>
    pe_confirmedEpoch pe' = pe_confirmedEpoch pe \<and> pe_predictionEpoch pe \<le> pe_predictionEpoch pe' \<and>
    pe_displayPreference pe' = pe_displayPreference pe \<and> pe_localFrameSent pe' = pe_localFrameSent pe \<and>
    (pe_displayPreference pe \<noteq> Never \<longrightarrow> pe_lastWidth pe' = GetWidth emu \<and> pe_lastHeight pe' = GetHeight emu)"
proof (cases "pe_displayPreference pe = Never")
  case False
  have r: "pe_overlays (cull_resize emu pe) = []" "pe_cursors (cull_resize emu pe) = []"
    "pe_parser (cull_resize emu pe) = pe_parser pe" "pe_confirmedEpoch (cull_resize emu pe) = pe_confirmedEpoch pe"
    "pe_predictionEpoch pe \<le> pe_predictionEpoch (cull_resize emu pe)"
    "pe_displayPreference (cull_resize emu pe) = pe_displayPreference pe"
    "pe_localFrameSent (cull_resize emu pe) = pe_localFrameSent pe"
    "pe_lastWidth (cull_resize emu pe) = GetWidth emu" "pe_lastHeight (cull_resize emu pe) = GetHeight emu"
    using assms by (simp_all add: cull_resize_def pe_Reset_def becomeTentative_def)
  have t: "pe_overlays (cull_triggers a) = pe_overlays a" "pe_cursors (cull_triggers a) = pe_cursors a"
    "pe_parser (cull_triggers a) = pe_parser a" "pe_confirmedEpoch (cull_triggers a) = pe_confirmedEpoch a"
    "pe_predictionEpoch (cull_triggers a) = pe_predictionEpoch a" "pe_displayPreference (cull_triggers a) = pe_displayPreference a"
    "pe_localFrameSent (cull_triggers a) = pe_localFrameSent a" "pe_lastWidth (cull_triggers a) = pe_lastWidth a"
    "pe_lastHeight (cull_triggers a) = pe_lastHeight a" for a
    by (simp_all add: cull_triggers_def Let_def)
  show ?thesis
    using False by (simp add: cull_def r t cull_cursors_def pe_cursor_last Let_def)
qed (use assms in \<open>simp add: cull_def\<close>)

lemma input_rune:
  assumes "in_text p" and "printable ch"
  obtains p' h where "ProcessInput [of_char ch] p = Some (p', Some h)" "hd_id h = ''Graphemes''"
    "hd_ch h = of_char ch" "in_text p'"
  using assms
  by (simp add: printable_def in_text_def ParserProps.run handle_Graphemes_def mkHandler_def split: if_splits)

text \<open>The state after the key, as an equation.\<close>

definition key_state :: "char \<Rightarrow> emulator \<Rightarrow> int \<Rightarrow> conditionalOverlayCell list \<Rightarrow> predictionEngine \<Rightarrow> predictionEngine" where
  "key_state ch emu now cells pe =
     (let E = pe_predictionEpoch pe; f = pe_localFrameSent pe + 1; x = em_posX emu; y = em_posY emu
      in (put_row pe y (cells[nat x := predicted_cell E f now x ch (ce_renditions (em_attrs emu)) (shown y x emu)]))
        \<lparr>pe_cursors := [predicted_cursor E f now y (x + 1)]\<rparr>)"

lemma draw_key:
  assumes "emu_inv emu" and "em_posX emu + 1 < em_nCols emu"
    and "\<And>j. em_posX emu \<le> j \<Longrightarrow> j < em_nCols emu \<Longrightarrow> IsBlank (shown (em_posY emu) j emu)"
    and "pe_overlays pe = []" and "pe_cursors pe = [cur]" and "ccm_row cur = em_posY emu" and "co_col cur = em_posX emu"
    and "co_active cur" and "co_tentativeUntilEpoch cur = pe_predictionEpoch pe"
  shows "\<exists>cells. grapheme_draw emu now later 1 [of_char ch] pe = Some (key_state ch emu now cells pe) \<and>
    row_from (pe_predictionEpoch pe) (pe_localFrameSent pe + 1) (em_nCols emu) (em_posX emu) cells"
proof -
  let ?x = "em_posX emu" and ?y = "em_posY emu" and ?W = "em_nCols emu"
  let ?E = "pe_predictionEpoch pe" and ?f = "pe_localFrameSent pe + 1"
  note b = emu_inv_bounds [OF assms(1)]
  define cells0 where "cells0 = map (fresh ?E) [0..<nat ?W]"
  have row: "getOrMakeRow ?y ?W pe = Some (0, put_row pe ?y cells0)"
    using b(1) assms(4) by (simp add: getOrMakeRow_def newConditionalOverlayRow_def put_row_def fresh_def cells0_def)
  define right where "right = (if pe_predictOverwrite pe then ?x else ?W - 1)"
  have "row_from ?E ?f ?W right cells0" using b(1) by (auto simp: row_from_def fresh_harmless cells0_def)
  moreover have "?x \<le> right" "right < ?W" using assms(2) by (auto simp: right_def)
  ultimately obtain cells where c: "shift_cells emu now 1 ?y ?x 0 (columns_down right ?x) (put_row pe ?y cells0) =
      Some (put_row pe ?y cells)" "row_from ?E ?f ?W ?x cells"
    using shift_row [OF assms(1) b(12,13,10) assms(3), of pe ?E right cells0] by blast
  have len: "int (length cells) = ?W" "cells ! nat ?x = fresh ?E (nat ?x)"
    using c(2) b(10,11) by (auto simp: row_from_def nat_less_iff)
  define cells2 where "cells2 = cells[nat ?x := predicted_cell ?E ?f now ?x ch (ce_renditions (em_attrs emu)) (shown ?y ?x emu)]"
  have c2: "predict_cell emu now 1 [of_char ch] ?y ?x 0 (put_row pe ?y cells) = Some (put_row pe ?y cells2)"
    using predict_fresh [OF assms(1) b(12,13,10,11) len, of pe] by (simp add: cells2_def)
  have adv: "grapheme_advance emu now later 1 ?x (put_row pe ?y cells2) =
      Some ((put_row pe ?y cells2)\<lparr>pe_cursors := [predicted_cursor ?E ?f now ?y (?x + 1)]\<rparr>)"
    using assms(2,5-9)
    by (cases cur) (simp add: grapheme_advance_def GetWidth_inv [OF assms(1)] on_cursor_def pe_cursor_last co_expire_def
        put_row_def predicted_cursor_def)
  have "grapheme_draw emu now later 1 [of_char ch] pe =
      Some ((put_row pe ?y cells2)\<lparr>pe_cursors := [predicted_cursor ?E ?f now ?y (?x + 1)]\<rparr>)"
    using c(1) c2 adv row assms(5-7)
    by (simp add: grapheme_draw_def Let_def GetWidth_inv [OF assms(1)] pe_cursor_last right_def [symmetric] cong: if_cong split del: if_split)
  then show ?thesis using c(2) by (auto simp: key_state_def cells2_def Let_def)
qed

lemma predict_grapheme:
  assumes "emu_inv emu" and "printable ch" and "te_width env [ch] = 1" and "em_posX emu + 1 < em_nCols emu"
    and "\<And>j. em_posX emu \<le> j \<Longrightarrow> j < em_nCols emu \<Longrightarrow> IsBlank (shown (em_posY emu) j emu)"
    and "pe_overlays pe = []" and "pe_cursors pe = []"
  shows "\<exists>cells. handleUserGrapheme env emu now later [of_char ch] pe = Some (key_state ch emu now cells pe) \<and>
    row_from (pe_predictionEpoch pe) (pe_localFrameSent pe + 1) (em_nCols emu) (em_posX emu) cells"
proof -
  let ?x = "em_posX emu" and ?y = "em_posY emu"
  have ch: "of_char ch \<noteq> (0x7F :: nat)" "\<not> of_char ch < (0x20 :: nat)" "concat (map utf8 [of_char ch]) = [ch]"
    using assms(2) by (auto simp: printable_def utf8_def)
  define cur where "cur = (newConditionalCursorMove (pe_localFrameSent pe + 1) ?y ?x (pe_predictionEpoch pe))\<lparr>co_active := True\<rparr>"
  define pe1 where "pe1 = pe\<lparr>pe_cursors := [cur]\<rparr>"
  have init: "initCursor emu pe = pe1"
    using assms(7) by (simp add: initCursor_def pe_cursor_last add_cursor_def GetCursor_inv [OF assms(1)] GetCursorCol_def
        pe1_def cur_def)
  have cur: "ccm_row cur = ?y" "co_col cur = ?x" "co_active cur" "co_tentativeUntilEpoch cur = pe_predictionEpoch pe"
    by (simp_all add: cur_def newConditionalCursorMove_def newConditionalOverlay_def conditionalOverlay.defs)
  have "handleUserGrapheme env emu now later [of_char ch] pe = grapheme_draw emu now later 1 [of_char ch] pe1"
    unfolding handleUserGrapheme_def Let_def init ch(3) assms(3)
    using ch(1,2) cur assms(4) by (simp add: pe_cursor_last grapheme_edge_def GetWidth_inv [OF assms(1)] pe1_def)
  moreover obtain cells where "grapheme_draw emu now later 1 [of_char ch] pe1 = Some (key_state ch emu now cells pe1)"
    "row_from (pe_predictionEpoch pe) (pe_localFrameSent pe + 1) (em_nCols emu) ?x cells"
    using draw_key [OF assms(1,4,5), of pe1 cur now later ch] assms(6) cur unfolding pe1_def by simp blast
  moreover have "key_state ch emu now cells pe1 = key_state ch emu now cells pe" for cells
    by (cases pe) (simp add: key_state_def pe1_def put_row_def Let_def)
  ultimately show ?thesis by auto
qed

text \<open>Nothing of the prediction is on the screen as long as its epoch has not been confirmed.\<close>

definition all_tentative :: "predictionEngine \<Rightarrow> bool" where
  "all_tentative pe \<longleftrightarrow> list_all (\<lambda>row. list_all (\<lambda>c. co_active c \<longrightarrow> tentative (pe_confirmedEpoch pe) c) (cor_overlayCells row)) (pe_overlays pe) \<and>
     list_all (tentative (pe_confirmedEpoch pe)) (pe_cursors pe)"

lemma tentative_hidden:
  assumes "all_tentative pe"
  shows "pe_apply emu pe = Some (pe, emu)"
proof -
  have cells: "for_list cs (coc_apply k y flag) (d, e) = Some (d, e)"
    if "list_all (\<lambda>c. co_active c \<longrightarrow> tentative k c) cs" for cs k y flag d e
    using that by (induction cs) (auto simp: coc_apply_def)
  have rows: "for_list rs (cor_apply k flag) (d, e) = Some (d, e)"
    if "list_all (\<lambda>row. list_all (\<lambda>c. co_active c \<longrightarrow> tentative k c) (cor_overlayCells row)) rs" for rs k flag d e
    using that by (induction rs) (auto simp: cor_apply_def cells)
  have cursors: "fold (ccm_apply k) cs e = e" if "list_all (tentative k) cs" for cs k e
    using that by (induction cs) (auto simp: ccm_apply_def)
  show ?thesis using assms by (simp add: all_tentative_def pe_apply_def rows cursors)
qed

section \<open>One row is checked\<close>

lemma put_row_id: "pe_overlays pe = [\<lparr>cor_overlayCells = cells, cor_rowNum = y\<rparr>] \<Longrightarrow> pe = put_row pe y cells"
  by (simp add: put_row_def)

lemma cull_cells_append:
  "cull_cells emu now i (js @ ks) pe = do {
     (ret, pe') \<leftarrow> cull_cells emu now i js pe;
     if ret then Some (True, pe') else cull_cells emu now i ks pe' }"
proof (induction js arbitrary: pe)
  case (Cons j js)
  then show ?case by (cases "cull_cell emu now i j pe") auto
qed simp

lemma cull_cell_row:
  assumes "j < length cells"
  shows "cull_cell emu now 0 j (put_row pe y cells) = do {
     v \<leftarrow> coc_getValidity emu y (pe_localFrameLateAcked pe) (cells ! j);
     _ \<leftarrow> emu_GetCell y (int j) emu;
     (case v of
        IncorrectOrExpired \<Rightarrow>
          if pe_displayPreference pe = Experimental then map_option (Pair False) (on_cell 0 (int j) coc_reset (put_row pe y cells))
          else if tentative (pe_confirmedEpoch pe) (cells ! j)
          then Some (False, killEpoch (co_tentativeUntilEpoch (cells ! j)) emu (put_row pe y cells))
          else Some (True, pe_Reset (put_row pe y cells))
      | Correct \<Rightarrow> map_option (Pair False) (cull_correct emu now 0 j y (cells ! j) (put_row pe y cells))
      | CorrectNoCredit \<Rightarrow> map_option (Pair False) (on_cell 0 (int j) coc_reset (put_row pe y cells))
      | Pending \<Rightarrow> Some (False, cull_pending now (cells ! j) (put_row pe y cells))
      | _ \<Rightarrow> Some (False, put_row pe y cells)) }"
  using assms by (simp add: cull_cell_def list_at_def cong: validity.case_cong if_cong split del: if_split)

lemma GetCell_some: "emu_inv emu \<Longrightarrow> \<exists>c. emu_GetCell y x emu = Some c"
  using emu_GetCell_ok by (auto simp: ok_iff)

lemma cull_skip:
  assumes "emu_inv emu" and "\<forall>j\<in>set js. j < length cells \<and> \<not> co_active (cells ! j)"
  shows "cull_cells emu now 0 js (put_row pe y cells) = Some (False, put_row pe y cells)"
  using assms(2)
proof (induction js)
  case (Cons j js)
  then show ?case
    using GetCell_some [OF assms(1), of y "int j"] by (auto simp: cull_cell_row coc_getValidity_def)
qed simp

lemma cull_tail:
  assumes "emu_inv emu" and "y < GetHeight emu" and "int (length cells) = GetWidth emu" and "f \<le> pe_localFrameLateAcked pe"
    and "distinct js" and "\<forall>j\<in>set js. j < length cells \<and> harmless E f j (cells ! j)"
  shows "\<exists>cells'. cull_cells emu now 0 js (put_row pe y cells) = Some (False, put_row pe y cells') \<and> length cells' = length cells \<and>
    (\<forall>j\<in>set js. \<not> co_active (cells' ! j)) \<and> (\<forall>j. j \<notin> set js \<longrightarrow> cells' ! j = cells ! j)"
  using assms(3,5,6)
proof (induction js arbitrary: cells)
  case (Cons j js)
  let ?cells = "if co_active (cells ! j) then cells[j := coc_reset (cells ! j)] else cells"
  have j: "j < length cells" "harmless E f j (cells ! j)" using Cons.prems(3) by auto
  obtain cl where cl: "emu_GetCell y (int j) emu = Some cl" using GetCell_some [OF assms(1)] by blast
  have "cull_cell emu now 0 j (put_row pe y cells) = Some (False, put_row pe y ?cells)"
    using j assms(2,4) Cons.prems(1) cl
    by (auto simp: cull_cell_row coc_getValidity_def harmless_def on_cell_row)
  moreover have "\<exists>cells'. cull_cells emu now 0 js (put_row pe y ?cells) = Some (False, put_row pe y cells') \<and>
      length cells' = length ?cells \<and> (\<forall>j\<in>set js. \<not> co_active (cells' ! j)) \<and> (\<forall>k. k \<notin> set js \<longrightarrow> cells' ! k = ?cells ! k)"
    using Cons.prems by (intro Cons.IH) (auto simp: nth_list_update)
  moreover have "\<not> co_active (?cells ! j)" using j(1) by (simp add: coc_reset_def co_reset_def)
  moreover have "?cells ! k = cells ! k" if "k \<noteq> j" for k using that by simp
  ultimately show ?case using Cons.prems(2) by (fastforce simp: if_distrib [of length] cong: if_cong)
qed auto

lemma columns_at: "x < n \<Longrightarrow> [0..<n] = [0..<x] @ x # [Suc x..<n]"
  using upt_add_eq_append [of 0 x "n - x"] upt_conv_Cons [of x n] by simp

section \<open>The echo\<close>

text \<open>What the engine holds after the key, whatever else has changed in it.\<close>

definition key_shape :: "char \<Rightarrow> emulator \<Rightarrow> int \<Rightarrow> 64 word \<Rightarrow> int \<Rightarrow> predictionEngine \<Rightarrow> bool" where
  "key_shape ch emu E f t pe \<longleftrightarrow> (\<exists>cells.
     row_from E f (em_nCols emu) (em_posX emu) cells \<and>
     pe_overlays pe = [\<lparr>cor_overlayCells = cells[nat (em_posX emu) :=
       predicted_cell E f t (em_posX emu) ch (ce_renditions (em_attrs emu)) (shown (em_posY emu) (em_posX emu) emu)],
       cor_rowNum = em_posY emu\<rparr>] \<and>
     pe_cursors pe = [predicted_cursor E f t (em_posY emu) (em_posX emu + 1)])"

text \<open>The screen that comes back has the size the engine knows.\<close>

definition same_size :: "emulator \<Rightarrow> emulator \<Rightarrow> predictionEngine \<Rightarrow> bool" where
  "same_size emu emu' pe \<longleftrightarrow> em_nCols emu' = em_nCols emu \<and> pe_lastWidth pe = em_nCols emu \<and>
     pe_lastHeight pe = GetHeight emu' \<and> em_posY emu < GetHeight emu'"

lemma predicted_fields:
  "co_expirationFrame (predicted_cell E f t x ch rend old) = f" "co_col (predicted_cell E f t x ch rend old) = x"
  "co_active (predicted_cell E f t x ch rend old)" "co_tentativeUntilEpoch (predicted_cell E f t x ch rend old) = E"
  "coc_originalContents (predicted_cell E f t x ch rend old) = [old]" "\<not> coc_unknown (predicted_cell E f t x ch rend old)"
  "ce_contents (coc_replacement (predicted_cell E f t x ch rend old)) = utf8 (of_char ch)"
  "\<not> ce_dwidth (coc_replacement (predicted_cell E f t x ch rend old))"
  "\<not> ce_dwidthCont (coc_replacement (predicted_cell E f t x ch rend old))"
  by (simp_all add: predicted_cell_def SetContents_def Cell0_def)

lemma utf8_printable: "printable ch \<Longrightarrow> utf8 (of_char ch) = [ch]"
  by (simp add: printable_def utf8_def)

lemma predicted_not_blank: "printable ch \<Longrightarrow> ch \<noteq> CHR '' '' \<Longrightarrow> \<not> IsBlank (coc_replacement (predicted_cell E f t x ch rend old))"
  by (simp add: IsBlank_def Cell_Empty_def predicted_fields utf8_printable)

lemma blank_contents: "IsBlank c \<Longrightarrow> printable ch \<Longrightarrow> ch \<noteq> CHR '' '' \<Longrightarrow> ce_contents c \<noteq> [ch]"
  by (auto simp: IsBlank_def Cell_Empty_def)

lemma predicted_validity:
  assumes "emu_inv emu'" and "printable ch" and "ch \<noteq> CHR '' ''" and "IsBlank old" and "0 \<le> x" and "x < em_nCols emu'"
    and "0 \<le> y" and "y < GetHeight emu'" and "f \<le> late"
  shows "coc_getValidity emu' y late (predicted_cell E f t x ch rend old) =
    Some (if ce_contents (shown y x emu') = [ch] then Correct else IncorrectOrExpired)"
proof -
  have "y < em_nRows emu'" using assms(7,8) emu_inv_bounds [OF assms(1)] by (simp add: GetHeight_def)
  then show ?thesis
    using assms(5-9) predicted_not_blank [OF assms(2,3)] blank_contents [OF assms(4,2,3)]
    by (simp add: coc_getValidity_def predicted_fields GetWidth_inv [OF assms(1)] GetCell_shown [OF assms(1)] ContentsMatch_def
        utf8_printable [OF assms(2)])
qed

lemma cull_correct_row:
  assumes "emu_inv emu" and "j < length cells"
  shows "\<exists>r cells'. cull_correct emu now 0 j y c (put_row q y cells) = Some r \<and>
    pe_overlays r = [\<lparr>cor_overlayCells = cells', cor_rowNum = y\<rparr>] \<and> length cells' = length cells \<and>
    \<not> co_active (cells' ! j) \<and> (\<forall>k<j. cells' ! k = cells ! k) \<and>
    (\<forall>k. j < k \<and> k < length cells \<and> harmless E f k (cells ! k) \<longrightarrow> harmless E f k (cells' ! k)) \<and>
    pe_confirmedEpoch r = max (pe_confirmedEpoch q) (co_tentativeUntilEpoch c) \<and> pe_cursors r = pe_cursors q \<and>
    pe_localFrameLateAcked r = pe_localFrameLateAcked q \<and> pe_displayPreference r = pe_displayPreference q"
proof -
  obtain cl where cl: "emu_GetCell y (co_col c) emu = Some cl" using GetCell_some [OF assms(1)] by blast
  define g :: "conditionalOverlayCell \<Rightarrow> conditionalOverlayCell" where "g = coc_replacement_update (ce_renditions_update (\<lambda>_. ce_renditions cl))"
  define cells' where "cells' = (take j cells @ map g (drop j cells))[j := coc_reset ((take j cells @ map g (drop j cells)) ! j)]"
  define p where "p = (if tentative (pe_confirmedEpoch q) c then (put_row q y cells)\<lparr>pe_confirmedEpoch := co_tentativeUntilEpoch c\<rparr>
    else put_row q y cells)"
  define s where "s = (if now - co_predictionTime c < GLITCH_THRESHOLD \<and> pe_glitchTrigger p > 0 \<and>
      now - GLITCH_REPAIR_MININTERVAL \<ge> pe_lastQuickConfirmation p
    then p\<lparr>pe_glitchTrigger := pe_glitchTrigger p - 1, pe_lastQuickConfirmation := now\<rparr> else p)"
  have s: "pe_overlays s = [\<lparr>cor_overlayCells = cells, cor_rowNum = y\<rparr>]" "pe_confirmedEpoch s = max (pe_confirmedEpoch q) (co_tentativeUntilEpoch c)"
    "pe_cursors s = pe_cursors q" "pe_localFrameLateAcked s = pe_localFrameLateAcked q" "pe_displayPreference s = pe_displayPreference q"
    by (auto simp: s_def p_def tentative_def)
  have step: "cull_correct emu now 0 j y c (put_row q y cells) = do {
      row \<leftarrow> list_at (pe_overlays s) (int 0);
      on_cell 0 (int j) coc_reset (s\<lparr>pe_overlays := (pe_overlays s)[0 := row\<lparr>cor_overlayCells :=
        take j (cor_overlayCells row) @ map g (drop j (cor_overlayCells row))\<rparr>]\<rparr>) }"
    by (simp only: cull_correct_def Let_def cl bind.simps p_def s_def g_def put_row_fields)
  have "cull_correct emu now 0 j y c (put_row q y cells) = Some (s\<lparr>pe_overlays := [\<lparr>cor_overlayCells = cells', cor_rowNum = y\<rparr>]\<rparr>)"
    using assms(2) by (simp add: step s(1) list_at_def on_cell_def cells'_def)
  moreover have "harmless E f k (cells' ! k)" if "j < k" "k < length cells" "harmless E f k (cells ! k)" for k
    using that by (simp add: cells'_def nth_append harmless_def g_def IsBlank_def Cell_Empty_def)
  moreover have "\<not> co_active (cells' ! j)" using assms(2) by (simp add: cells'_def coc_reset_def co_reset_def)
  moreover have "cells' ! k = cells ! k" if "k < j" for k using that assms(2) by (simp add: cells'_def nth_append)
  ultimately show ?thesis using s assms(2) by (auto simp: cells'_def)
qed

lemma cull_triggers_more: "pe_confirmedEpoch (cull_triggers a) = pe_confirmedEpoch a"
    "pe_predictionEpoch (cull_triggers a) = pe_predictionEpoch a" "pe_displayPreference (cull_triggers a) = pe_displayPreference a"
    "pe_localFrameLateAcked (cull_triggers a) = pe_localFrameLateAcked a" "pe_localFrameSent (cull_triggers a) = pe_localFrameSent a"
  by (simp_all add: cull_triggers_def Let_def)

lemma cull_one_row:
  assumes "pe_displayPreference pe \<noteq> Never" and "same_size emu emu' pe" and "emu_inv emu'" and "0 \<le> em_posY emu"
    and "pe_overlays pe = [\<lparr>cor_overlayCells = cells, cor_rowNum = em_posY emu\<rparr>]"
    and "cull_cells emu' now 0 [0..<length cells] (put_row (cull_triggers pe) (em_posY emu) cells) = Some (False, r)"
    and "pe_overlays r = [\<lparr>cor_overlayCells = cells', cor_rowNum = em_posY emu\<rparr>]"
  shows "cull emu' now pe = Some (cull_cursors emu' r)"
proof -
  have size: "cull_resize emu' pe = pe"
    using assms(2) by (simp add: cull_resize_def same_size_def GetWidth_inv [OF assms(3)])
  have id: "put_row (cull_triggers pe) (em_posY emu) cells = cull_triggers pe"
    by (rule put_row_id [symmetric]) (simp add: cull_triggers_fields assms(5))
  have "\<not> row_out emu' \<lparr>cor_overlayCells = cs, cor_rowNum = em_posY emu\<rparr>" for cs
    using assms(2,4) by (simp add: row_out_def same_size_def)
  moreover have same: "r\<lparr>pe_overlays := [\<lparr>cor_overlayCells = cells', cor_rowNum = em_posY emu\<rparr>]\<rparr> = r"
    using assms(7) by (cases r) simp
  ultimately show ?thesis
    using assms(1,5,6,7) by (simp add: cull_def size cull_triggers_fields list_at_0 id same)
qed

lemma key_cells:
  assumes "row_from E f W x cells" and "0 \<le> x" and "x < W"
  shows "int (length cells) = W" "nat x < length cells" "\<forall>j<length cells. harmless E f j (cells ! j)"
    "\<forall>j<nat x. \<not> co_active (cells ! j)"
  using assms fresh_harmless by (auto simp: row_from_def fresh_fields nat_less_iff)

text \<open>What \<open>cull\<close> does with the cell of the key.\<close>

definition check_key ::
  "char \<Rightarrow> int \<Rightarrow> emulator \<Rightarrow> emulator \<Rightarrow> int \<Rightarrow> predictionEngine \<Rightarrow> conditionalOverlayCell list \<Rightarrow> (bool \<times> predictionEngine) option" where
  "check_key ch E emu emu' now q cells =
     (let x = em_posX emu; y = em_posY emu; pe = put_row q y cells
      in if ce_contents (shown y x emu') = [ch]
         then map_option (Pair False) (cull_correct emu' now 0 (nat x) y (cells ! nat x) pe)
         else if pe_displayPreference q = Experimental then map_option (Pair False) (on_cell 0 x coc_reset pe)
         else if tentative (pe_confirmedEpoch q) (cells ! nat x) then Some (False, killEpoch E emu' pe)
         else Some (True, pe_Reset pe))"

text \<open>Checking the predictions of a key against a screen, up to the cell of the key.\<close>

lemma cull_to_key:
  assumes "key_shape ch emu E f t pe" and "emu_inv emu" and "emu_inv emu'" and "same_size emu emu' pe"
    and "printable ch" and "ch \<noteq> CHR '' ''" and "IsBlank (shown (em_posY emu) (em_posX emu) emu)"
    and "f \<le> pe_localFrameLateAcked pe"
  obtains cells where "pe_overlays pe = [\<lparr>cor_overlayCells = cells, cor_rowNum = em_posY emu\<rparr>]"
    "int (length cells) = em_nCols emu" "\<forall>j<length cells. co_tentativeUntilEpoch (cells ! j) = E"
    "\<forall>j. nat (em_posX emu) < j \<and> j < length cells \<longrightarrow> harmless E f j (cells ! j)"
    "\<forall>j<nat (em_posX emu). \<not> co_active (cells ! j)"
    "co_tentativeUntilEpoch (cells ! nat (em_posX emu)) = E"
    "\<And>q. pe_localFrameLateAcked q = pe_localFrameLateAcked pe \<Longrightarrow>
      cull_cells emu' now 0 [0..<length cells] (put_row q (em_posY emu) cells) = do {
        (ret, r) \<leftarrow> check_key ch E emu emu' now q cells;
        if ret then Some (True, r) else cull_cells emu' now 0 [Suc (nat (em_posX emu))..<length cells] r }"
proof -
  let ?x = "em_posX emu" and ?y = "em_posY emu"
  note b = emu_inv_bounds [OF assms(2)]
  obtain cells0 where c0: "row_from E f (em_nCols emu) ?x cells0"
    "pe_overlays pe = [\<lparr>cor_overlayCells = cells0[nat ?x := predicted_cell E f t ?x ch (ce_renditions (em_attrs emu)) (shown ?y ?x emu)],
       cor_rowNum = ?y\<rparr>]"
    using assms(1) by (auto simp: key_shape_def)
  define P where "P = predicted_cell E f t ?x ch (ce_renditions (em_attrs emu)) (shown ?y ?x emu)"
  define cells where "cells = cells0[nat ?x := P]"
  note k = key_cells [OF c0(1) b(10,11)]
  have x: "nat ?x < length cells" "cells ! nat ?x = P" using k(2) by (simp_all add: cells_def)
  have P: "co_tentativeUntilEpoch P = E" by (simp add: P_def predicted_fields)
  have v: "coc_getValidity emu' ?y (pe_localFrameLateAcked pe) P =
      Some (if ce_contents (shown ?y ?x emu') = [ch] then Correct else IncorrectOrExpired)"
    unfolding P_def using assms(4,8) b
    by (intro predicted_validity [OF assms(3,5,6,7)]) (auto simp: same_size_def)
  obtain cl where cl: "emu_GetCell ?y (int (nat ?x)) emu' = Some cl" using GetCell_some [OF assms(3)] by blast
  have skip: "cull_cells emu' now 0 [0..<nat ?x] (put_row q ?y cells) = Some (False, put_row q ?y cells)" for q
    using k x by (intro cull_skip [OF assms(3)]) (auto simp: cells_def)
  show thesis
  proof (rule that [of cells])
    show "cull_cells emu' now 0 [0..<length cells] (put_row q ?y cells) = do {
        (ret, r) \<leftarrow> check_key ch E emu emu' now q cells;
        if ret then Some (True, r) else cull_cells emu' now 0 [Suc (nat ?x)..<length cells] r }"
      if "pe_localFrameLateAcked q = pe_localFrameLateAcked pe" for q
      using v cl b(10) that unfolding columns_at [OF x(1)] cull_cells_append skip x(2)
      by (simp add: cull_cell_row [OF x(1)] x(2) P check_key_def Let_def)
  qed (use k c0(2) x P in \<open>auto simp: cells_def P_def [symmetric] nth_list_update harmless_def\<close>)
qed

lemma cursors_correct:
  assumes "pe_cursors r = [c]" and "ccm_getValidity emu' (pe_localFrameLateAcked r) c = Correct"
  shows "cull_cursors emu' r = r\<lparr>pe_cursors := []\<rparr>"
  using assms by (simp add: cull_cursors_def pe_cursor_last Let_def)

lemma echo_confirmed:
  assumes "key_shape ch emu E f t pe" and "emu_inv emu" and "emu_inv emu'" and "same_size emu emu' pe"
    and "printable ch" and "ch \<noteq> CHR '' ''" and "IsBlank (shown (em_posY emu) (em_posX emu) emu)"
    and "f \<le> pe_localFrameLateAcked pe" and "pe_displayPreference pe \<noteq> Never"
    and "ce_contents (shown (em_posY emu) (em_posX emu) emu') = [ch]"
    and "em_posX emu' = em_posX emu + 1" and "em_posY emu' = em_posY emu"
  shows "\<exists>pe'. cull emu' now pe = Some pe' \<and> pe_confirmedEpoch pe' = max (pe_confirmedEpoch pe) E \<and> \<not> pe_active pe'"
proof -
  let ?x = "em_posX emu" and ?y = "em_posY emu" and ?q = "cull_triggers pe"
  note b = emu_inv_bounds [OF assms(2)] and b' = emu_inv_bounds [OF assms(3)]
  obtain cells where o: "pe_overlays pe = [\<lparr>cor_overlayCells = cells, cor_rowNum = ?y\<rparr>]"
    "int (length cells) = em_nCols emu" "\<forall>j<length cells. co_tentativeUntilEpoch (cells ! j) = E"
    and tail: "\<forall>j. nat ?x < j \<and> j < length cells \<longrightarrow> harmless E f j (cells ! j)" "\<forall>j<nat ?x. \<not> co_active (cells ! j)"
      "co_tentativeUntilEpoch (cells ! nat ?x) = E"
    and run: "\<And>q. pe_localFrameLateAcked q = pe_localFrameLateAcked pe \<Longrightarrow>
      cull_cells emu' now 0 [0..<length cells] (put_row q ?y cells) = do {
        (ret, r) \<leftarrow> check_key ch E emu emu' now q cells;
        if ret then Some (True, r) else cull_cells emu' now 0 [Suc (nat ?x)..<length cells] r }"
    using cull_to_key [OF assms(1-8), of now thesis] by blast
  have x: "nat ?x < length cells" using o(2) b(10,11) by auto
  obtain r cells1 where r: "cull_correct emu' now 0 (nat ?x) ?y (cells ! nat ?x) (put_row ?q ?y cells) = Some r"
    "pe_overlays r = [\<lparr>cor_overlayCells = cells1, cor_rowNum = ?y\<rparr>]" "length cells1 = length cells" "\<not> co_active (cells1 ! nat ?x)"
    "\<forall>k<nat ?x. cells1 ! k = cells ! k" "\<forall>k. nat ?x < k \<and> k < length cells \<and> harmless E f k (cells ! k) \<longrightarrow> harmless E f k (cells1 ! k)"
    "pe_confirmedEpoch r = max (pe_confirmedEpoch pe) E" "pe_cursors r = pe_cursors pe"
    "pe_localFrameLateAcked r = pe_localFrameLateAcked pe"
    using cull_correct_row [OF assms(3) x, of now ?y "cells ! nat ?x" ?q E f] tail(3) cull_triggers_more cull_triggers_fields by metis
  obtain cells2 where c2: "cull_cells emu' now 0 [Suc (nat ?x)..<length cells] (put_row r ?y cells1) = Some (False, put_row r ?y cells2)"
    "length cells2 = length cells1" "\<forall>j\<in>set [Suc (nat ?x)..<length cells]. \<not> co_active (cells2 ! j)"
    "\<forall>j. j \<notin> set [Suc (nat ?x)..<length cells] \<longrightarrow> cells2 ! j = cells1 ! j"
    using cull_tail [OF assms(3), of ?y cells1 f r "[Suc (nat ?x)..<length cells]" E now] r tail(1) assms(4,8) o(2)
      GetWidth_inv [OF assms(3)] by (auto simp: same_size_def)
  have "cull_cells emu' now 0 [0..<length cells] (put_row ?q ?y cells) = Some (False, put_row r ?y cells2)"
    using run [of ?q] cull_triggers_more assms(10) r(1) c2(1) put_row_id [OF r(2)] by (simp add: check_key_def)
  from cull_one_row [OF assms(9,4,3) b(12) o(1) this] have
    "cull emu' now pe = Some (cull_cursors emu' (put_row r ?y cells2))" by simp
  moreover have "ccm_getValidity emu' (pe_localFrameLateAcked r) (predicted_cursor E f t ?y (?x + 1)) = Correct"
    using assms(4,8,11,12) r(9) b' by (simp add: ccm_getValidity_def predicted_cursor_def same_size_def GetWidth_inv [OF assms(3)]
        GetCursorCol_def GetCursor_inv [OF assms(3)])
  then have "cull_cursors emu' (put_row r ?y cells2) = (put_row r ?y cells2)\<lparr>pe_cursors := []\<rparr>"
    using assms(1) r(8,9) by (intro cursors_correct) (auto simp: key_shape_def)
  moreover have "\<not> co_active (cells2 ! j)" if "j < length cells2" for j
  proof (cases "j \<le> nat ?x")
    case True
    then have "cells2 ! j = cells1 ! j" using c2(4) by simp
    then show ?thesis using True r(4,5) tail(2) by (cases "j = nat ?x") auto
  qed (use c2(2,3) r(3) that in auto)
  then have "\<not> list_ex co_active cells2" by (simp add: list_ex_length)
  ultimately show ?thesis using r(7) by (simp add: pe_active_def)
qed

text \<open>Without the echo: the epoch is withdrawn.\<close>

lemma killEpoch_row:
  assumes "\<forall>j<length cells. co_tentativeUntilEpoch (cells ! j) = E" and "pe_cursors q = [c]" and "co_tentativeUntilEpoch c = E"
    and "pe_displayPreference q \<noteq> Experimental"
  shows "killEpoch E emu (put_row q y cells) = (put_row q y (map coc_reset cells))
    \<lparr>pe_cursors := [(newConditionalCursorMove (pe_localFrameSent q + 1) (GetCursorRow emu) (GetCursorCol emu) (pe_predictionEpoch q))
       \<lparr>co_active := True\<rparr>], pe_predictionEpoch := pe_predictionEpoch q + 1\<rparr>"
proof -
  have "map (\<lambda>c. if tentative (E - 1) c then coc_reset c else c) cells = map coc_reset cells"
    using assms(1) by (auto simp: tentative_def in_set_conv_nth)
  then show ?thesis
    using assms(2-4) by (simp add: killEpoch_def Let_def add_cursor_def becomeTentative_def on_cells_def tentative_def put_row_def)
qed

lemma silence_withdrawn:
  assumes "key_shape ch emu E f t pe" and "emu_inv emu" and "emu_inv emu'" and "same_size emu emu' pe"
    and "printable ch" and "ch \<noteq> CHR '' ''" and "IsBlank (shown (em_posY emu) (em_posX emu) emu)"
    and "f \<le> pe_localFrameLateAcked pe" and "pe_displayPreference pe \<noteq> Never" and "pe_displayPreference pe \<noteq> Experimental"
    and "ce_contents (shown (em_posY emu) (em_posX emu) emu') \<noteq> [ch]" and "em_posY emu' < GetHeight emu'"
    and "pe_confirmedEpoch pe < E" and "pe_predictionEpoch pe = E"
  shows "\<exists>pe'. cull emu' now pe = Some pe' \<and> pe_confirmedEpoch pe' = pe_confirmedEpoch pe \<and> pe_predictionEpoch pe' = E + 1 \<and>
    all_tentative pe' \<and> \<not> list_ex (\<lambda>row. list_ex co_active (cor_overlayCells row)) (pe_overlays pe')"
proof -
  let ?x = "em_posX emu" and ?y = "em_posY emu" and ?q = "cull_triggers pe"
  note b = emu_inv_bounds [OF assms(2)] and b' = emu_inv_bounds [OF assms(3)]
  obtain cells where o: "pe_overlays pe = [\<lparr>cor_overlayCells = cells, cor_rowNum = ?y\<rparr>]"
    "int (length cells) = em_nCols emu" "\<forall>j<length cells. co_tentativeUntilEpoch (cells ! j) = E"
    and tail: "\<forall>j. nat ?x < j \<and> j < length cells \<longrightarrow> harmless E f j (cells ! j)" "\<forall>j<nat ?x. \<not> co_active (cells ! j)"
      "co_tentativeUntilEpoch (cells ! nat ?x) = E"
    and run: "\<And>q. pe_localFrameLateAcked q = pe_localFrameLateAcked pe \<Longrightarrow>
      cull_cells emu' now 0 [0..<length cells] (put_row q ?y cells) = do {
        (ret, r) \<leftarrow> check_key ch E emu emu' now q cells;
        if ret then Some (True, r) else cull_cells emu' now 0 [Suc (nat ?x)..<length cells] r }"
    using cull_to_key [OF assms(1-8), of now thesis] by blast
  define c where "c = (newConditionalCursorMove (pe_localFrameSent pe + 1) (em_posY emu') (em_posX emu') E)\<lparr>co_active := True\<rparr>"
  define r where "r = (put_row ?q ?y (map coc_reset cells))\<lparr>pe_cursors := [c], pe_predictionEpoch := E + 1\<rparr>"
  have "pe_cursors ?q = [predicted_cursor E f t ?y (?x + 1)]" using assms(1) by (auto simp: key_shape_def cull_triggers_fields)
  then have kill: "killEpoch E emu' (put_row ?q ?y cells) = r"
    using killEpoch_row [OF o(3), of ?q _ emu' ?y] assms(10,14)
    by (simp add: cull_triggers_more r_def c_def predicted_cursor_def GetCursor_inv [OF assms(3)] GetCursorCol_def)
  have r: "pe_overlays r = [\<lparr>cor_overlayCells = map coc_reset cells, cor_rowNum = ?y\<rparr>]" "pe_cursors r = [c]"
    "pe_confirmedEpoch r = pe_confirmedEpoch pe" "pe_displayPreference r = pe_displayPreference pe" "pe_predictionEpoch r = E + 1"
    by (simp_all add: r_def cull_triggers_more)
  have off: "\<not> co_active (coc_reset d)" for d by (simp add: coc_reset_def co_reset_def)
  have "cull_cells emu' now 0 [Suc (nat ?x)..<length cells] (put_row r ?y (map coc_reset cells)) = Some (False, put_row r ?y (map coc_reset cells))"
    by (intro cull_skip [OF assms(3)]) (auto simp: off)
  then have "cull_cells emu' now 0 [0..<length cells] (put_row ?q ?y cells) = Some (False, r)"
    using run [of ?q] assms(10,11,13) tail(3) kill put_row_id [OF r(1)] by (simp add: check_key_def cull_triggers_more tentative_def)
  from cull_one_row [OF assms(9,4,3) b(12) o(1) this r(1)] have "cull emu' now pe = Some (cull_cursors emu' r)" .
  moreover have c: "co_tentativeUntilEpoch c = E" "ccm_getValidity emu' late c \<in> {Pending, Correct}" for late
    using b' assms(12) by (auto simp: c_def ccm_getValidity_def newConditionalCursorMove_def newConditionalOverlay_def
        conditionalOverlay.defs GetWidth_inv [OF assms(3)] GetCursorCol_def GetCursor_inv [OF assms(3)])
  then have "cull_cursors emu' r = r\<lparr>pe_cursors := filter (\<lambda>c. ccm_getValidity emu' (pe_localFrameLateAcked r) c = Pending) [c]\<rparr>"
  proof -
    have "ccm_getValidity emu' (pe_localFrameLateAcked r) c \<noteq> IncorrectOrExpired"
      using c(2) [of "pe_localFrameLateAcked r"] by auto
    then show ?thesis using r(2) by (simp add: cull_cursors_def pe_cursor_last Let_def)
  qed
  ultimately show ?thesis
    using r c(1) assms(13) off by (simp add: all_tentative_def tentative_def list_all_iff list_ex_iff)
qed

section \<open>From the key to the answer\<close>

text \<open>The cursor is at the end of what the line holds, with room for the character.\<close>

definition at_line_end :: "emulator \<Rightarrow> bool" where
  "at_line_end emu \<longleftrightarrow> em_posX emu + 1 < em_nCols emu \<and> em_posY emu < GetHeight emu \<and>
     (\<forall>j. em_posX emu \<le> j \<and> j < em_nCols emu \<longrightarrow> IsBlank (shown (em_posY emu) j emu))"

text \<open>An engine without open predictions, ready for a character.\<close>

definition engine_idle :: "predictionEngine \<Rightarrow> bool" where
  "engine_idle pe \<longleftrightarrow> pe_overlays pe = [] \<and> pe_cursors pe = [] \<and> in_text (pe_parser pe) \<and> pe_displayPreference pe \<noteq> Never"

lemma key_state_shape:
  assumes "row_from (pe_predictionEpoch pe) (pe_localFrameSent pe + 1) (em_nCols emu) (em_posX emu) cells"
  shows "key_shape ch emu (pe_predictionEpoch pe) (pe_localFrameSent pe + 1) t ((key_state ch emu t cells pe)\<lparr>pe_applied := b\<rparr>)"
  using assms by (auto simp: key_shape_def key_state_def Let_def)

lemma key_shape_late: "key_shape ch emu E f t (SetLocalFrameLateAcked a pe) = key_shape ch emu E f t pe"
  by (simp add: key_shape_def SetLocalFrameLateAcked_def)

lemma key_shape_tentative:
  assumes "key_shape ch emu E f t pe" and "emu_inv emu" and "pe_confirmedEpoch pe < E"
  shows "all_tentative pe"
proof -
  obtain cells where c: "row_from E f (em_nCols emu) (em_posX emu) cells"
    "pe_overlays pe = [\<lparr>cor_overlayCells = cells[nat (em_posX emu) := predicted_cell E f t (em_posX emu) ch
       (ce_renditions (em_attrs emu)) (shown (em_posY emu) (em_posX emu) emu)], cor_rowNum = em_posY emu\<rparr>]"
    "pe_cursors pe = [predicted_cursor E f t (em_posY emu) (em_posX emu + 1)]"
    using assms(1) by (auto simp: key_shape_def)
  note b = emu_inv_bounds [OF assms(2)]
  have "list_all (\<lambda>c. co_active c \<longrightarrow> tentative (pe_confirmedEpoch pe) c) cells"
    using key_cells(3) [OF c(1) b(10,11)] assms(3) by (auto simp: harmless_def list_all_length tentative_def)
  then show ?thesis
    using assms(3) c(2,3) by (simp add: all_tentative_def list_all_update tentative_def predicted_fields predicted_cursor_def)
qed

lemma key_predicted:
  assumes "emu_inv emu" and "at_line_end emu" and "printable ch" and "te_width env [ch] = 1" and "engine_idle pe"
  obtains pe' where "NewUserInput env emu [of_char ch] t1 t2 t3 pe = Some pe'"
    "key_shape ch emu (pe_predictionEpoch pe') (pe_localFrameSent pe + 1) t2 pe'"
    "pe_confirmedEpoch pe' = pe_confirmedEpoch pe" "pe_displayPreference pe' = pe_displayPreference pe"
    "pe_lastWidth pe' = em_nCols emu" "pe_lastHeight pe' = GetHeight emu"
    "pe_displayPreference pe \<noteq> Experimental \<Longrightarrow> pe_predictionEpoch pe \<le> pe_predictionEpoch pe'"
proof -
  let ?pe = "if pe_displayPreference pe = Experimental then pe\<lparr>pe_predictionEpoch := pe_confirmedEpoch pe\<rparr> else pe"
  have idle: "pe_overlays ?pe = []" "pe_cursors ?pe = []" using assms(5) by (simp_all add: engine_idle_def)
  obtain pe1 where pe1: "cull emu t1 ?pe = Some pe1" "pe_overlays pe1 = []" "pe_cursors pe1 = []" "pe_parser pe1 = pe_parser pe"
    "pe_confirmedEpoch pe1 = pe_confirmedEpoch pe" "pe_displayPreference pe1 = pe_displayPreference pe"
    "pe_localFrameSent pe1 = pe_localFrameSent pe" "pe_lastWidth pe1 = em_nCols emu" "pe_lastHeight pe1 = GetHeight emu"
    "pe_displayPreference pe \<noteq> Experimental \<Longrightarrow> pe_predictionEpoch pe \<le> pe_predictionEpoch pe1"
    using cull_empty [OF idle, of emu t1] assms(5) GetWidth_inv [OF assms(1)] by (auto simp: engine_idle_def split: if_splits)
  have p: "in_text (pe_parser pe1)" using assms(5) pe1(4) by (simp add: engine_idle_def)
  obtain p' h where h: "ProcessInput [of_char ch] (pe_parser pe1) = Some (p', Some h)" "hd_id h = ''Graphemes''" "hd_ch h = of_char ch"
    using input_rune [OF p assms(3)] by metis
  let ?pe2 = "pe1\<lparr>pe_lastByte := [of_char ch], pe_parser := p'\<rparr>"
  obtain cells where cells: "handleUserGrapheme env emu t2 t3 [of_char ch] ?pe2 = Some (key_state ch emu t2 cells ?pe2)"
    "row_from (pe_predictionEpoch ?pe2) (pe_localFrameSent ?pe2 + 1) (em_nCols emu) (em_posX emu) cells"
    using predict_grapheme [OF assms(1,3,4), of ?pe2 t2 t3] assms(2) pe1(2,3) by (auto simp: at_line_end_def)
  let ?pe' = "(key_state ch emu t2 cells ?pe2)\<lparr>pe_applied := False\<rparr>"
  have "NewUserInput env emu [of_char ch] t1 t2 t3 pe = Some ?pe'"
    using assms(5) pe1(1) h cells(1) by (simp add: NewUserInput_def engine_idle_def predict_key_def Let_def)
  then show thesis
    using that [of ?pe'] key_state_shape [OF cells(2)] pe1 by (simp add: key_state_def Let_def)
qed

text \<open>The echo of the server: what the handler of the character does.\<close>

lemma echo_one:
  assumes "ascii_clusters graphemes" and "emu_inv emu" and "in_text (em_parser emu)" and "printable ch" and "narrow env emu"
    and "em_posX emu + 1 < em_nCols emu"
  obtains hds emu' where "HandleStream env graphemes [ch] emu = Some (hds, [ch], emu')" "emu_inv emu'"
    "em_posX emu' = em_posX emu + 1" "em_posY emu' = em_posY emu" "em_nCols emu' = em_nCols emu" "GetHeight emu' = GetHeight emu"
    "ce_contents (shown (em_posY emu) (em_posX emu) emu') = [ch]"
proof -
  note b = emu_inv_bounds [OF assms(2)] and fr = emu_inv_frame [OF assms(2)]
  obtain p' hs where p': "processStream graphemes [ch] (em_parser emu) [] = Some (p', map Some hs)" "list_all2 prints hs [ch]"
    using processStream_text [OF assms(1,3), of "[ch]"] assms(4) by auto
  then obtain h where h: "hs = [h]" "prints h ch" by (auto simp: list_all2_Cons2)
  let ?e = "emu\<lparr>em_parser := p'\<rparr>"
  have e: "emu_inv ?e" "cf ?e = cf emu" using assms(2) by simp_all
  have w: "te_width env [ch] = 1" "\<not> em_lastCol emu" "\<not> md_insertMode (em_md emu)" "\<not> cs_vtMode (em_charsetState emu)"
    using assms(4,5) by (simp_all add: narrow_def)
  obtain fb where fb: "hdl_graphemes env [of_char ch] ?e = Some ([of_char ch], (set_cf fb ?e)\<lparr>em_posX := em_posX emu + 1\<rparr>)"
    "same_layout (cf emu) fb"
    "fb_cells fb = (fb_cells (cf emu))[nat (getIdx (em_posY emu) (em_posX emu) (cf emu)) := SetContents [of_char ch] (em_attrs emu)]"
    using graphemes_narrow [OF e(1), of env "[of_char ch]" "[of_char ch]"] w assms(6) utf8_printable [OF assms(4)] e(2) by auto
  let ?emu' = "(set_cf fb ?e)\<lparr>em_posX := em_posX emu + 1\<rparr>"
  have "in_row (cf emu) (em_posY emu) (em_posX emu) 1" using b fr by (simp add: in_row_def)
  from in_row_idx [OF fr(1,2) this] have i: "nat (getIdx (em_posY emu) (em_posX emu) (cf emu)) < length (fb_cells (cf emu))" by auto
  have "HandleStream env graphemes [ch] emu = Some ([Some h], [ch], ?emu')"
    using p'(1) h fb(1) by (simp add: HandleStream_def handle_one_def prints_def excludeHandler_def)
  moreover have "emu_inv ?emu'" using narrow_inv [OF e(1)] fb(2) assms(6) e(2) by simp
  ultimately show thesis
    using i fb(2,3) by (intro that [of "[Some h]" ?emu'])
      (simp_all add: shown_def getIdx_same GetHeight_def SetContents_def utf8_printable [OF assms(4)])
qed

text \<open>
  C7. The echo confirms the key: in an engine without open predictions the user types a printable character other
  than the space at the end of the line, the server prints it, and the state that comes back acknowledges the frame
  with the key. Then the epoch of the prediction is confirmed, and no prediction is left.
\<close>

theorem echo_confirms:
  assumes "emu_inv emu" and "at_line_end emu" and "printable ch" and "ch \<noteq> CHR '' ''" and "narrow env emu"
    and "engine_idle pe" and "ascii_clusters graphemes" and "in_text (em_parser emu)" and "pe_localFrameSent pe + 1 \<le> ack"
  shows "\<exists>pe1 hds emu' pe'. NewUserInput env emu [of_char ch] t1 t2 t3 pe = Some pe1 \<and>
    HandleStream env graphemes [ch] emu = Some (hds, [ch], emu') \<and>
    cull emu' t4 (SetLocalFrameLateAcked ack pe1) = Some pe' \<and>
    pe_confirmedEpoch pe' = max (pe_confirmedEpoch pe) (pe_predictionEpoch pe1) \<and> \<not> pe_active pe'"
proof -
  have w: "te_width env [ch] = 1" using assms(3,5) by (simp add: narrow_def)
  obtain pe1 where pe1: "NewUserInput env emu [of_char ch] t1 t2 t3 pe = Some pe1"
    "key_shape ch emu (pe_predictionEpoch pe1) (pe_localFrameSent pe + 1) t2 pe1"
    "pe_confirmedEpoch pe1 = pe_confirmedEpoch pe" "pe_displayPreference pe1 = pe_displayPreference pe"
    "pe_lastWidth pe1 = em_nCols emu" "pe_lastHeight pe1 = GetHeight emu"
    using key_predicted [OF assms(1-3) w assms(6)] by metis
  obtain hds emu' where e: "HandleStream env graphemes [ch] emu = Some (hds, [ch], emu')" "emu_inv emu'"
    "em_posX emu' = em_posX emu + 1" "em_posY emu' = em_posY emu" "em_nCols emu' = em_nCols emu" "GetHeight emu' = GetHeight emu"
    "ce_contents (shown (em_posY emu) (em_posX emu) emu') = [ch]"
    using echo_one [OF assms(7,1,8,3,5)] assms(2) unfolding at_line_end_def by metis
  let ?pe = "SetLocalFrameLateAcked ack pe1"
  have k: "key_shape ch emu (pe_predictionEpoch pe1) (pe_localFrameSent pe + 1) t2 ?pe" using pe1(2) by (simp add: key_shape_late)
  have "\<exists>pe'. cull emu' t4 ?pe = Some pe' \<and> pe_confirmedEpoch pe' = max (pe_confirmedEpoch ?pe) (pe_predictionEpoch pe1) \<and> \<not> pe_active pe'"
    using pe1 e assms(2,6,9) emu_inv_bounds [OF assms(1)]
    by (intro echo_confirmed [OF k assms(1) e(2) _ assms(3,4)])
      (auto simp: SetLocalFrameLateAcked_def same_size_def at_line_end_def engine_idle_def)
  then show ?thesis using pe1(1,3) e(1) by (auto simp: SetLocalFrameLateAcked_def)
qed

text \<open>
  C8. In an epoch that is not confirmed, a key that the server does not echo is never shown: before the answer no
  screen changes, and after an answer whose cell holds something else the prediction is withdrawn and the next epoch
  starts, with nothing to show. The typing of a password is an example: the answer is the same screen. The key
  is a printable character other than the space at the end of the line, the engine has no open predictions, and its
  display preference is not experimental, which shows predictions of any epoch. In a confirmed epoch the key is shown
  until the answer comes.
\<close>

theorem silence_withdraws:
  assumes "emu_inv emu" and "at_line_end emu" and "printable ch" and "ch \<noteq> CHR '' ''" and "te_width env [ch] = 1"
    and "engine_idle pe" and "pe_displayPreference pe \<noteq> Experimental" and "pe_confirmedEpoch pe < pe_predictionEpoch pe"
    and "emu_inv emu'" and "em_nCols emu' = em_nCols emu" and "GetHeight emu' = GetHeight emu" and "em_posY emu' < GetHeight emu'"
    and "ce_contents (shown (em_posY emu) (em_posX emu) emu') \<noteq> [ch]" and "pe_localFrameSent pe + 1 \<le> ack"
  shows "\<exists>pe1 pe'. NewUserInput env emu [of_char ch] t1 t2 t3 pe = Some pe1 \<and> (\<forall>e. pe_apply e pe1 = Some (pe1, e)) \<and>
    cull emu' t4 (SetLocalFrameLateAcked ack pe1) = Some pe' \<and> pe_confirmedEpoch pe' = pe_confirmedEpoch pe \<and>
    pe_predictionEpoch pe' = pe_predictionEpoch pe1 + 1 \<and> (\<forall>e. pe_apply e pe' = Some (pe', e))"
proof -
  obtain pe1 where pe1: "NewUserInput env emu [of_char ch] t1 t2 t3 pe = Some pe1"
    "key_shape ch emu (pe_predictionEpoch pe1) (pe_localFrameSent pe + 1) t2 pe1"
    "pe_confirmedEpoch pe1 = pe_confirmedEpoch pe" "pe_displayPreference pe1 = pe_displayPreference pe"
    "pe_lastWidth pe1 = em_nCols emu" "pe_lastHeight pe1 = GetHeight emu" "pe_predictionEpoch pe \<le> pe_predictionEpoch pe1"
    using key_predicted [OF assms(1-3,5,6)] assms(7) by metis
  have E: "pe_confirmedEpoch pe1 < pe_predictionEpoch pe1" using pe1(3,7) assms(8) by simp
  have hidden: "pe_apply e pe1 = Some (pe1, e)" for e
    by (rule tentative_hidden [OF key_shape_tentative [OF pe1(2) assms(1) E]])
  let ?pe = "SetLocalFrameLateAcked ack pe1"
  have k: "key_shape ch emu (pe_predictionEpoch pe1) (pe_localFrameSent pe + 1) t2 ?pe" using pe1(2) by (simp add: key_shape_late)
  obtain pe' where pe': "cull emu' t4 ?pe = Some pe'" "pe_confirmedEpoch pe' = pe_confirmedEpoch ?pe"
    "pe_predictionEpoch pe' = pe_predictionEpoch pe1 + 1" "all_tentative pe'"
    using silence_withdrawn [OF k assms(1,9) _ assms(3,4), where now = t4] pe1 E assms(2,6,7,10-14)
    by (auto simp: SetLocalFrameLateAcked_def same_size_def at_line_end_def engine_idle_def emu_inv_bounds [OF assms(1)])
  have "pe_apply e pe' = Some (pe', e)" for e by (rule tentative_hidden [OF pe'(4)])
  then show ?thesis using pe1(1,3) pe' hidden by (auto simp: SetLocalFrameLateAcked_def)
qed

section \<open>Witnesses\<close>

lemma blank20x5_end: "at_line_end blank20x5"
proof -
  obtain fb where fb: "NewFramebuffer3 20 5 0 = Some (fb, 0, 5)" "fb_cells fb = replicate 100 Cell0"
    by (simp add: NewFramebuffer3_def NewStack_def Push_def make_slice_def KITTY_KBD_STACK_MAX_def SaveLineUpperLimit_def Let_def)
  have cf: "cf blank20x5 = fb" using fb(1) by (simp add: blank20x5_def initial_def Emulator0_def cf_def)
  have "IsBlank (shown 0 j blank20x5)" if "0 \<le> j" "j < 20" for j
  proof -
    note fr = emu_inv_frame [OF blank20x5_inv]
    have "in_row (cf blank20x5) 0 j 1" using that fr by (simp add: in_row_def blank20x5_fields fb_wf_def)
    from in_row_idx [OF fr(1,2) this] have "nat (getIdx 0 j (cf blank20x5)) < 100" by (simp add: cf fb(2))
    then show ?thesis by (simp add: shown_def cf fb(2) IsBlank_def Cell0_def Cell_Empty_def)
  qed
  then show ?thesis by (auto simp: at_line_end_def blank20x5_fields GetHeight_def)
qed

lemma new_engine_idle: "engine_idle newPredictionEngine"
  by (simp add: engine_idle_def newPredictionEngine_def in_text_def NewParser_def parser_reset_def)

lemma blank20x5_narrow: "narrow plain_env blank20x5" "in_text (em_parser blank20x5)"
  by (simp_all add: blank20x5_fields in_text_def NewParser_def parser_reset_def narrow_def plain_env_def modes0_def charset0_def)

lemma echo_confirms_witness:
  "\<exists>pe1 hds emu' pe'. NewUserInput plain_env blank20x5 [of_char CHR ''x''] 5 5 5 newPredictionEngine = Some pe1 \<and>
    HandleStream plain_env byte_clusters ''x'' blank20x5 = Some (hds, ''x'', emu') \<and>
    cull emu' 9 (SetLocalFrameLateAcked 1 pe1) = Some pe' \<and>
    pe_confirmedEpoch pe' = max 0 (pe_predictionEpoch pe1) \<and> \<not> pe_active pe'"
  using echo_confirms [OF blank20x5_inv blank20x5_end _ _ blank20x5_narrow(1) new_engine_idle byte_clusters_ascii blank20x5_narrow(2),
      of "CHR ''x''" 1 5 5 5 9]
  by (simp add: printable_def newPredictionEngine_def)

lemma silence_withdraws_witness:
  "\<exists>pe1 pe'. NewUserInput plain_env blank20x5 [of_char CHR ''x''] 5 5 5 newPredictionEngine = Some pe1 \<and>
    pe_apply blank20x5 pe1 = Some (pe1, blank20x5) \<and>
    cull blank20x5 9 (SetLocalFrameLateAcked 1 pe1) = Some pe' \<and> pe_confirmedEpoch pe' = 0 \<and>
    pe_apply blank20x5 pe' = Some (pe', blank20x5)"
proof -
  have "ce_contents (shown (em_posY blank20x5) (em_posX blank20x5) blank20x5) \<noteq> ''x''"
    using blank20x5_end blank_contents [of _ "CHR ''x''"] by (auto simp: at_line_end_def blank20x5_fields printable_def)
  then show ?thesis
    using silence_withdraws [OF blank20x5_inv blank20x5_end, of "CHR ''x''" plain_env newPredictionEngine blank20x5 1 5 5 5 9]
      new_engine_idle blank20x5_inv
    by (auto simp: printable_def plain_env_def newPredictionEngine_def blank20x5_fields GetHeight_def)
qed

end
