(* ===== verification/CompleteProps.thy ===== *)
theory CompleteProps
  imports Complete EmulatorProps UserStream
begin

text \<open>
  Properties of the state of the server: the client shows what the server shows, acknowledgements of
  echoes, and what is lost when a difference has to be sent again.
\<close>

section \<open>Printing does not depend on the parser\<close>

definition with_ps :: "parser \<Rightarrow> (rune \<Rightarrow> string option) \<Rightarrow> emulator \<Rightarrow> emulator" where
  "with_ps p q e = e\<lparr>em_parser := p, em_selectionStore := q\<rparr>"

named_theorems ps

lemma with_ps_fields [ps]:
  "cf (with_ps p q e) = cf e" "set_cf fb (with_ps p q e) = with_ps p q (set_cf fb e)"
  "em_posX (with_ps p q e) = em_posX e" "em_posY (with_ps p q e) = em_posY e" "em_nCols (with_ps p q e) = em_nCols e"
  "em_nRows (with_ps p q e) = em_nRows e" "em_hMargin (with_ps p q e) = em_hMargin e"
  "em_nColsEff (with_ps p q e) = em_nColsEff e" "em_marginTop (with_ps p q e) = em_marginTop e"
  "em_marginBottom (with_ps p q e) = em_marginBottom e" "em_md (with_ps p q e) = em_md e"
  "em_attrs (with_ps p q e) = em_attrs e" "em_lastCol (with_ps p q e) = em_lastCol e"
  "em_charsetState (with_ps p q e) = em_charsetState e"
  "em_modifyOtherKeys (with_ps p q e) = em_modifyOtherKeys e" "em_fg (with_ps p q e) = em_fg e"
  "em_bg (with_ps p q e) = em_bg e" "em_tabStops (with_ps p q e) = em_tabStops e"
  "em_savedCursor_SCO (with_ps p q e) = em_savedCursor_SCO e" "em_mouseTrk (with_ps p q e) = em_mouseTrk e"
  "em_selectionData (with_ps p q e) = em_selectionData e" "em_iconLabel (with_ps p q e) = em_iconLabel e"
  "em_windowTitle (with_ps p q e) = em_windowTitle e" "em_bellCount (with_ps p q e) = em_bellCount e"
  "em_windowTitleStack (with_ps p q e) = em_windowTitleStack e" "em_caps (with_ps p q e) = em_caps e"
  "(with_ps p q e)\<lparr>em_posX := x\<rparr> = with_ps p q (e\<lparr>em_posX := x\<rparr>)"
  "(with_ps p q e)\<lparr>em_posY := x\<rparr> = with_ps p q (e\<lparr>em_posY := x\<rparr>)"
  "(with_ps p q e)\<lparr>em_lastCol := b\<rparr> = with_ps p q (e\<lparr>em_lastCol := b\<rparr>)"
  "(with_ps p q e)\<lparr>em_charsetState := st\<rparr> = with_ps p q (e\<lparr>em_charsetState := st\<rparr>)"
  by (cases e; simp add: with_ps_def cf_def set_cf_def split: screen.split)+

lemma map_push [ps]: "map_option u (Option.bind m g) = Option.bind m (\<lambda>x. map_option u (g x))"
  by (cases m) simp_all

lemma bind_push [ps]: "Option.bind (map_option u m) h = Option.bind m (\<lambda>x. h (u x))"
  by (cases m) simp_all

lemma if_push [ps]: "map_option u (if b then x else y) = (if b then map_option u x else map_option u y)"
  by simp

lemma with_ps_if [ps]: "with_ps p q (if b then x else y) = (if b then with_ps p q x else with_ps p q y)"
  by simp

lemma bind_if [ps]: "Option.bind (if b then x else y) h = (if b then Option.bind x h else Option.bind y h)"
  by simp

lemma for_list_push:
  assumes "\<And>i s. f i (u s) = map_option u (f i s)"
  shows "for_list xs f (u s) = map_option u (for_list xs f s)"
  by (induction xs arbitrary: s) (simp_all add: assms ps)

lemma for_up_push:
  "(\<And>i s. f i (u s) = map_option u (f i s)) \<Longrightarrow> for_up a b f (u s) = map_option u (for_up a b f s)"
  by (simp add: for_up_def for_list_push)

lemma on_cf_push [ps]: "on_cf f (with_ps p q e) = map_option (with_ps p q) (on_cf f e)"
  by (simp add: on_cf_def ps)

lemma rows_push [ps]:
  "eraseRow y (with_ps p q e) = map_option (with_ps p q) (eraseRow y e)"
  "copyRow y z (with_ps p q e) = map_option (with_ps p q) (copyRow y z e)"
  by (simp_all add: eraseRow_def copyRow_def ps)

lemma erase_push [ps]:
  "eraseRows a n (with_ps p q e) = map_option (with_ps p q) (eraseRows a n e)"
  "deleteRows a n (with_ps p q e) = map_option (with_ps p q) (deleteRows a n e)"
  by (simp_all add: eraseRows_def deleteRows_def ps for_up_push)

lemma move_push [ps]:
  "hdl_csi_su n (with_ps p q e) = map_option (with_ps p q) (hdl_csi_su n e)"
  "hdl_c0_cr (with_ps p q e) = with_ps p q (hdl_c0_cr e)"
  "hdl_esc_ind (with_ps p q e) = map_option (map_prod id (with_ps p q)) (hdl_esc_ind e)"
  by (simp_all add: hdl_csi_su_def hdl_c0_cr_def hdl_esc_ind_def ps)

lemma lf_push [ps]: "hdl_c0_lf (with_ps p q e) = map_option (with_ps p q) (hdl_c0_lf e)"
  by (simp add: hdl_c0_lf_def ps split_def cong: if_cong)

lemma ich_push [ps]: "hdl_csi_ich n (with_ps p q e) = map_option (with_ps p q) (hdl_csi_ich n e)"
  by (simp add: hdl_csi_ich_def isCursorInsideMargins_def Let_def ps cong: if_cong)

lemma wrap_push [ps]: "wrap_line w (with_ps p q e) = map_option (with_ps p q) (wrap_line w e)"
  by (simp add: wrap_line_def ps)

lemma print_cell_push [ps]: "print_cell w chs (with_ps p q e) = map_option (with_ps p q) (print_cell w chs e)"
  by (simp add: print_cell_def Let_def ps cong: if_cong)

lemma lookup_push [ps]: "lookupCharset r (with_ps p q e) = map_option (map_prod id (with_ps p q)) (lookupCharset r e)"
  by (simp add: lookupCharset_def Let_def ps split_def)

lemma graphemes_push [ps]:
  "hdl_graphemes env chs (with_ps p q e) = map_option (map_prod id (with_ps p q)) (hdl_graphemes env chs e)"
  by (simp add: hdl_graphemes_def Let_def ps split_def cong: if_cong)

lemma handle_print:
  "prints h c \<Longrightarrow> handle_one env (Some h) (diff, e) = map_option (\<lambda>(cs, e). (diff @ [c], e)) (hdl_graphemes env [of_char c] e)"
  by (cases "hdl_graphemes env [of_char c] e") (auto simp: handle_one_def prints_def excludeHandler_def)

lemma print_handlers_push:
  assumes "list_all2 prints hs s"
  shows "for_list (map Some hs) (handle_one env) (diff, with_ps p q e) =
    map_option (map_prod id (with_ps p q)) (for_list (map Some hs) (handle_one env) (diff, e))"
  using assms
proof (induction hs s arbitrary: diff e rule: list_all2_induct)
  case (Cons h hs c s)
  have "handle_one env (Some h) (diff, with_ps p q e) =
      map_option (map_prod id (with_ps p q)) (handle_one env (Some h) (diff, e))" for e diff
    by (cases "hdl_graphemes env [of_char c] e") (auto simp: handle_print [OF Cons.hyps(1)] ps)
  then show ?case
    using Cons.IH by (cases "handle_one env (Some h) (diff, e)") (auto simp: ps)
qed simp

section \<open>Printing does not change the size\<close>

definition size_of :: "emulator \<Rightarrow> int \<times> int \<times> int \<times> int \<times> int \<times> int \<times> modes" where
  "size_of e = (em_nCols e, em_nRows e, em_marginTop e, em_marginBottom e, em_hMargin e, em_nColsEff e, em_md e)"

lemma size_of_update [simp]:
  "size_of (set_cf fb e) = size_of e" "size_of (e\<lparr>em_posX := x\<rparr>) = size_of e" "size_of (e\<lparr>em_posY := y\<rparr>) = size_of e"
  "size_of (e\<lparr>em_lastCol := b\<rparr>) = size_of e" "size_of (e\<lparr>em_charsetState := st\<rparr>) = size_of e"
  "size_of (with_ps p q e) = size_of e" "size_of (e\<lparr>em_terminalToHost := w\<rparr>) = size_of e"
  by (simp_all add: size_of_def ps)

text \<open>\<open>sized z m\<close>: if \<open>m\<close> returns, the size is \<open>z\<close>.\<close>

definition sized :: "(int \<times> int \<times> int \<times> int \<times> int \<times> int \<times> modes) \<Rightarrow> emulator option \<Rightarrow> bool" where
  "sized z m \<longleftrightarrow> (case m of None \<Rightarrow> True | Some e \<Rightarrow> size_of e = z)"

named_theorems sized

lemma sized_Some [simp]: "sized z (Some e) = (size_of e = z)" and sized_None [simp]: "sized z None"
  by (simp_all add: sized_def)

lemma sized_bind [sized]:
  "sized z m \<Longrightarrow> (\<And>e. size_of e = z \<Longrightarrow> sized z (f e)) \<Longrightarrow> sized z (Option.bind m f)"
  by (cases m) simp_all

lemma sized_bind_other [sized]: "(\<And>x. sized z (f x)) \<Longrightarrow> sized z (Option.bind (m :: cell option) f)"
  by (cases m) simp_all

lemma sized_if [sized]: "(b \<Longrightarrow> sized z x) \<Longrightarrow> (\<not> b \<Longrightarrow> sized z y) \<Longrightarrow> sized z (if b then x else y)"
  by simp

lemma sized_on_cf [sized]: "size_of e = z \<Longrightarrow> sized z (on_cf f e)"
  by (cases "f (cf e)") (simp_all add: on_cf_def)

lemma sized_for_list [sized]:
  assumes "size_of e = z" and "\<And>i e. size_of e = z \<Longrightarrow> sized z (f i e)"
  shows "sized z (for_list xs f e)"
  using assms by (induction xs arbitrary: e) (auto intro: sized_bind)

lemma sized_rows [sized]:
  assumes "size_of e = z"
  shows "sized z (eraseRow y e)" "sized z (copyRow y y' e)" "sized z (eraseRows a n e)" "sized z (deleteRows a n e)"
  using assms by (auto simp: eraseRow_def copyRow_def eraseRows_def deleteRows_def for_up_def intro!: sized)

lemma sized_su: "size_of e = z \<Longrightarrow> sized z (hdl_csi_su n e)"
  by (auto simp: hdl_csi_su_def intro!: sized)

lemma sized_ind: "size_of e = z \<Longrightarrow> sized z (map_option snd (hdl_esc_ind e))"
  using sized_su [of e z 1] by (cases "hdl_csi_su 1 e") (auto simp: hdl_esc_ind_def)

lemma sized_lf: "size_of e = z \<Longrightarrow> sized z (hdl_c0_lf e)"
  using sized_ind [of e z] by (cases "hdl_esc_ind e") (auto simp: hdl_c0_lf_def intro!: sized)

lemma sized_wrap: "size_of e = z \<Longrightarrow> sized z (wrap_line w e)"
  by (auto simp: wrap_line_def hdl_c0_cr_def intro!: sized sized_lf)

lemma sized_ich: "size_of e = z \<Longrightarrow> sized z (hdl_csi_ich n e)"
  unfolding hdl_csi_ich_def Let_def by (intro sized) auto

lemma sized_print_cell: "size_of e = z \<Longrightarrow> sized z (print_cell w chs e)"
  unfolding print_cell_def Let_def by (intro sized) auto

lemma hdl_graphemes_size:
  assumes "hdl_graphemes env chs e = Some (cs, e')"
  shows "size_of e' = size_of e"
proof -
  have rest: "sized z (do { e2 \<leftarrow> wrap_line w e1; e3 \<leftarrow> (if md_insertMode (em_md e2) then hdl_csi_ich 1 e2 else Some e2);
      e4 \<leftarrow> print_cell w ch e3; Some (if em_posX e4 = em_nColsEff e4 - 1 then e4\<lparr>em_lastCol := True\<rparr>
        else e4\<lparr>em_posX := em_posX e4 + 1\<rparr>) })" if "size_of e1 = z" for z w ch e1
    using that by (intro sized sized_wrap sized_ich sized_print_cell) auto
  have "sized (size_of e) (map_option snd (hdl_graphemes env chs e))"
  proof (cases "length chs = 1 \<and> cs_vtMode (em_charsetState e)")
    case True
    have "size_of e1 = size_of e" if "lookupCharset (hd chs) e = Some (r, e1)" for r e1
      using that by (cases "cs_ss (em_charsetState e) > 0") (auto simp: lookupCharset_def Let_def bind_eq_Some_conv)
    then show ?thesis
      unfolding hdl_graphemes_def Let_def if_P [OF True]
      by (cases "lookupCharset (hd chs) e") (auto simp: map_push rest)
  next
    case False
    show ?thesis unfolding hdl_graphemes_def Let_def if_not_P [OF False] by (simp add: map_push rest)
  qed
  then show ?thesis using assms by simp
qed

lemma print_handlers_size:
  assumes "list_all2 prints hs s" and "for_list (map Some hs) (handle_one env) (diff, e) = Some (d, e')"
  shows "size_of e' = size_of e"
  using assms
proof (induction hs s arbitrary: diff e rule: list_all2_induct)
  case (Cons h hs c s)
  then obtain cs e1 where "hdl_graphemes env [of_char c] e = Some (cs, e1)"
    "for_list (map Some hs) (handle_one env) (diff @ [c], e1) = Some (d, e')"
    by (cases "hdl_graphemes env [of_char c] e") (auto simp: handle_print)
  then show ?case using Cons.IH hdl_graphemes_size by metis
qed simp

section \<open>Equality\<close>

lemma savedDEC_with_ps [ps]: "savedDEC (with_ps p q x) = savedDEC x"
  by (cases "em_savedCursor_DEC x") (simp_all add: savedDEC_def with_ps_def)

lemma emu_Equal_with_ps: "emu_Equal e (with_ps p q x) = emu_Equal e x" "emu_Equal (with_ps p q x) e = emu_Equal x e"
  by (simp_all only: emu_Equal_def emu_same_state_def ps)

lemma cells_equal_refl: "cells_equal xs xs = Some True"
  by (induction xs) auto

lemma rows_equal_refl:
  assumes "\<And>y. y \<in> set ys \<Longrightarrow> slice (fb_cells fb) (getViewRowIdx y fb) (getViewRowIdx y fb + fb_nCols fb) \<noteq> None"
  shows "rows_equal ys fb fb = Some True"
    using assms
proof (induction ys)
  case (Cons y ys)
  obtain r where "slice (fb_cells fb) (getViewRowIdx y fb) (getViewRowIdx y fb + fb_nCols fb) = Some r"
    using Cons.prems by fastforce
  then show ?case using Cons by (simp add: equalRow_def list.rel_refl)
qed simp

lemma fb_Equal_refl:
  assumes "fb_wf fb" and "fb_viewOffset fb = 0"
  shows "fb_Equal fb fb = Some True"
proof -
  have "slice (fb_cells fb) (getViewRowIdx y fb) (getViewRowIdx y fb + fb_nCols fb) \<noteq> None"
    if "0 \<le> y" "y < fb_nRows fb" for y
  proof -
    have "in_row fb y 0 (fb_nCols fb)" using that assms(1) by (simp add: in_row_def fb_wf_def)
    from in_row_idx [OF assms this] show ?thesis
      using assms by (auto simp: getIdx_def getViewRowIdx_def getPhysRowIdx_def slice_def fb_wf_def)
  qed
  then show ?thesis
    by (auto simp: fb_Equal_def fb_same_state_def stack_Equal_def cells_equal_refl list.rel_refl intro!: rows_equal_refl)
qed

lemma emu_Equal_refl:
  assumes "emu_inv e"
  shows "emu_Equal e e = Some True"
  using fb_Equal_refl emu_inv_frame(1,2) [OF assms]
  by (simp add: emu_Equal_def emu_same_state_def same_modes_def CharsetState_Equal_def)

section \<open>The client shows what the server shows\<close>

lemma handlers_of_text:
  assumes "list_all2 prints hs s" and "list_all2 prints hs' s"
  shows "for_list (map Some hs) (handle_one env) st = for_list (map Some hs') (handle_one env) st"
  using assms
proof (induction hs s arbitrary: hs' st rule: list_all2_induct)
  case (Cons h hs c s)
  then obtain h' hs'' where h: "hs' = h' # hs''" "prints h' c" "list_all2 prints hs'' s"
    by (auto simp: list_all2_Cons2)
  have "handle_one env (Some h) st = handle_one env (Some h') st"
    using Cons.hyps(1) h(2) by (cases st) (auto simp: handle_one_def prints_def excludeHandler_def)
  then show ?case using Cons.IH [OF h(3)] h(1) by (cases "handle_one env (Some h') st") simp_all
qed simp

text \<open>A text has the same effect whatever the parser, as long as it is between two control sequences.\<close>

lemma HandleStream_with_ps:
  assumes "ascii_clusters graphemes" and "emu_inv t" and "list_all printable s"
  obtains e where "emu_inv e" "size_of e = size_of t" "\<And>p q. in_text p \<Longrightarrow> \<exists>hds p'. HandleStream env graphemes s (with_ps p q t) = Some (hds, s, with_ps p' q e)"
proof (cases "s = []")
  case True
  then show thesis using that [OF assms(2) refl] by (auto simp: HandleStream_def)
next
  case False
  obtain p0 hs0 where h0: "processStream graphemes s NewParser [] = Some (p0, map Some hs0)" "list_all2 prints hs0 s"
    using processStream_text [OF assms(1) _ False assms(3), of NewParser]
    by (auto simp: in_text_def NewParser_def parser_reset_def)
  obtain e where e: "for_list (map Some hs0) (handle_one env) ([], t) = Some (s, e)" "emu_inv e"
    using print_handlers [OF h0(2) assms(2), of env "[]"] by auto
  have "\<exists>hds p'. HandleStream env graphemes s (with_ps p q t) = Some (hds, s, with_ps p' q e)" if p: "in_text p" for p q
  proof -
    obtain p' hs where h: "processStream graphemes s p [] = Some (p', map Some hs)" "list_all2 prints hs s"
      using processStream_text [OF assms(1) p False assms(3)] by blast
    have "(with_ps p q t)\<lparr>em_parser := p'\<rparr> = with_ps p' q t" "em_parser (with_ps p q t) = p"
      by (simp_all add: with_ps_def)
    then show ?thesis
      using False h print_handlers_push [OF h(2), of env "[]" p' q t] handlers_of_text [OF h(2) h0(2)] e(1)
      by (auto simp: HandleStream_def)
  qed
  then show thesis using that [OF e(2) print_handlers_size [OF h0(2) e(1)]] by blast
qed

text \<open>What the codec of \<open>HostMessage\<close> promises.\<close>

definition host_codec :: "(host_inst list \<Rightarrow> bytes) \<Rightarrow> (bytes \<Rightarrow> host_inst list option) \<Rightarrow> bool" where
  "host_codec marshal unmarshal \<longleftrightarrow> (\<forall>is. unmarshal (marshal is) = Some is)"

lemma in_text_NewParser: "in_text NewParser"
  by (simp add: in_text_def NewParser_def parser_reset_def)

lemma emu_Clone_with_ps: "\<exists>q. emu_Clone t = with_ps NewParser q t"
  by (auto simp: emu_Clone_def initSelectionStore_def with_ps_def)

lemma with_ps_self: "with_ps (em_parser t) (em_selectionStore t) t = t"
  by (simp add: with_ps_def)

lemma with_ps_host: "(with_ps p q e)\<lparr>em_terminalToHost := w\<rparr> = with_ps p q (e\<lparr>em_terminalToHost := w\<rparr>)"
  by (cases e) (simp add: with_ps_def)

text \<open>Both sides of the connection after the output of a text.\<close>

lemma Act_text:
  assumes "ascii_clusters graphemes" and "emu_inv (cp_terminal k)" and "in_text (em_parser (cp_terminal k))" and "list_all printable s"
  obtains e p q p' q' where "emu_inv e" "size_of e = size_of (cp_terminal k)"
    "\<exists>out. Act env graphemes s k = Some (out, k\<lparr>cp_terminal := with_ps p q e, cp_diffBuf := cp_diffBuf k @ s\<rparr>)"
    "\<exists>out. Act env graphemes s (Complete_Clone k) =
      Some (out, (Complete_Clone k)\<lparr>cp_terminal := with_ps p' q' e, cp_diffBuf := s\<rparr>)"
proof -
  let ?t = "cp_terminal k"
  obtain e where e: "emu_inv e" "size_of e = size_of ?t"
    "\<And>p q. in_text p \<Longrightarrow> \<exists>hds p'. HandleStream env graphemes s (with_ps p q ?t) = Some (hds, s, with_ps p' q e)"
    using HandleStream_with_ps [OF assms(1,2,4)] by metis
  obtain q' where q': "emu_Clone ?t = with_ps NewParser q' ?t" using emu_Clone_with_ps by blast
  obtain hds p where 1: "HandleStream env graphemes s ?t = Some (hds, s, with_ps p (em_selectionStore ?t) e)"
    using e(3) [OF assms(3), of "em_selectionStore ?t"] by (auto simp: with_ps_self)
  obtain hds' p' where 2: "HandleStream env graphemes s (emu_Clone ?t) = Some (hds', s, with_ps p' q' e)"
    using e(3) [OF in_text_NewParser, of q'] by (auto simp: q')
  show thesis
  proof (rule that [of "e\<lparr>em_terminalToHost := []\<rparr>"])
    show "emu_inv (e\<lparr>em_terminalToHost := []\<rparr>)"
      using e(1) by (cases "em_cf e") (simp_all add: emu_inv_def plain_mode_def cursor_ok_def cf_def)
    show "size_of (e\<lparr>em_terminalToHost := []\<rparr>) = size_of ?t" using e(2) by simp
    show "\<exists>out. Act env graphemes s k = Some (out, k\<lparr>cp_terminal := with_ps p (em_selectionStore ?t) (e\<lparr>em_terminalToHost := []\<rparr>),
        cp_diffBuf := cp_diffBuf k @ s\<rparr>)"
      using 1 by (simp add: Act_def ReadOctetsToHost_def with_ps_host)
    show "\<exists>out. Act env graphemes s (Complete_Clone k) =
        Some (out, (Complete_Clone k)\<lparr>cp_terminal := with_ps p' q' (e\<lparr>em_terminalToHost := []\<rparr>), cp_diffBuf := s\<rparr>)"
      using 2 by (simp add: Act_def Complete_Clone_def ReadOctetsToHost_def with_ps_host)
  qed
qed

text \<open>
  C2. The client shows what the server shows. The server is at a state \<open>k\<close> that the client has too, and the
  application prints a text of any length. The difference that the server then sends, applied by the
  client to its copy of \<open>k\<close>, gives a state that the server takes for equal to its own.
\<close>

theorem host_text_sync:
  assumes "ascii_clusters graphemes" and "host_codec marshal unmarshal"
    and "emu_inv (cp_terminal k)" and "in_text (em_parser (cp_terminal k))" and "cp_diffBuf k = []"
    and "s \<noteq> []" and "list_all printable s" and "Act env graphemes s k = Some (out, c)" and "Complete_DiffFrom marshal c k = Some diff"
  shows "\<exists>x. Complete_ApplyString unmarshal env graphemes diff (Complete_Clone k) = Some (x, False) \<and>
    Complete_Equal c x = Some True"
proof -
  obtain e p q p' q' where e: "emu_inv e" "size_of e = size_of (cp_terminal k)"
    "\<exists>out. Act env graphemes s k = Some (out, k\<lparr>cp_terminal := with_ps p q e, cp_diffBuf := cp_diffBuf k @ s\<rparr>)"
    "\<exists>out. Act env graphemes s (Complete_Clone k) =
      Some (out, (Complete_Clone k)\<lparr>cp_terminal := with_ps p' q' e, cp_diffBuf := s\<rparr>)"
    using Act_text [OF assms(1,3,4,7), of env] by metis
  then have c: "cp_terminal c = with_ps p q e" "cp_diffBuf c = s" "cp_echoAck c = cp_echoAck k"
    using assms(5,8) by auto
  obtain q'' where clone: "cp_terminal (Complete_Clone k) = with_ps NewParser q'' (cp_terminal k)"
    "cp_echoAck (Complete_Clone k) = cp_echoAck k"
    using emu_Clone_with_ps [of "cp_terminal k"] by (auto simp: Complete_Clone_def)
  have sz: "GetWidth (cp_terminal k) = GetWidth (with_ps p q e)" "GetHeight (cp_terminal k) = GetHeight (with_ps p q e)"
    using e(2) by (simp_all add: size_of_def GetWidth_def GetHeight_def ps)
  have self: "emu_Equal (with_ps p q e) (with_ps p' q' e) = Some True"
    using emu_Equal_refl [OF e(1)] by (simp add: emu_Equal_with_ps)
  obtain m where m: "diff = marshal m" "host_message c k True = Some m"
    using assms(9) by (auto simp: Complete_DiffFrom_def diffFrom_def)
  then consider (same) "m = []" "Complete_Equal c k = Some True"
    | (sent) "m = [host_none\<lparr>hi_hostbytes := Some s\<rparr>]"
    using c sz assms(6) by (cases "Complete_Equal c k") (auto simp: host_message_def Let_def split: if_splits)
  then show ?thesis
  proof cases
    case same
    then show ?thesis
      using m(1) assms(2) clone c
      by (auto simp: Complete_ApplyString_def host_codec_def Complete_Equal_def emu_Equal_with_ps split: if_splits)
  next
    case sent
    then show ?thesis
      using m(1) assms(2) e(4) clone c self
      by (intro exI [of _ "(Complete_Clone k)\<lparr>cp_terminal := with_ps p' q' e, cp_diffBuf := s\<rparr>"])
        (auto simp: Complete_ApplyString_def host_codec_def apply_host_inst_def host_none_def Complete_Equal_def)
  qed
qed

section \<open>A difference that has to be sent again\<close>

lemma apply_echo:
  "for_list (if b then [host_none\<lparr>hi_echoack := Some n\<rparr>] else []) (apply_host_inst env graphemes) x =
    Some (if b then x\<lparr>cp_echoAck := n\<rparr> else x)"
  by (simp add: apply_host_inst_def host_none_def)

lemma reset_message:
  assumes "host_message (Complete_Reset c) k True = Some m"
    and "GetWidth (cp_terminal k) = GetWidth (cp_terminal c)" and "GetHeight (cp_terminal k) = GetHeight (cp_terminal c)"
  shows "m = (if cp_echoAck k \<noteq> cp_echoAck c then [host_none\<lparr>hi_echoack := Some (cp_echoAck c)\<rparr>] else [])"
proof -
  have "GetWidth (SetLastRows 0 t) = GetWidth t" "GetHeight (SetLastRows 0 t) = GetHeight t" for t
    by (simp_all add: SetLastRows_def GetWidth_def GetHeight_def)
  then show ?thesis
    using assms
    by (cases "Complete_Equal (Complete_Reset c) k") (auto simp: host_message_def Complete_Reset_def Let_def split: if_splits)
qed

text \<open>
  C29. A round of the sender calls \<open>Reset\<close> on the current state as soon as it has computed the difference. When
  the datagram is lost, the next round computes the difference from the same old state again, but the
  output is gone from the buffer: applying it leaves the terminal of the client as it was.
\<close>

theorem lost_output:
  assumes "host_codec marshal unmarshal" and "Complete_DiffFrom marshal (Complete_Reset c) k = Some diff"
    and "GetWidth (cp_terminal k) = GetWidth (cp_terminal c)" and "GetHeight (cp_terminal k) = GetHeight (cp_terminal c)"
  shows "\<exists>x. Complete_ApplyString unmarshal env graphemes diff (Complete_Clone k) = Some (x, False) \<and>
    cp_terminal x = cp_terminal (Complete_Clone k)"
proof -
  obtain m where "diff = marshal m" "host_message (Complete_Reset c) k True = Some m"
    using assms(2) by (auto simp: Complete_DiffFrom_def diffFrom_def)
  with reset_message [OF this(2) assms(3,4)] assms(1) show ?thesis
    by (auto simp: Complete_ApplyString_def host_codec_def apply_echo)
qed

section \<open>Acknowledgements of echoes\<close>

text \<open>The history: frames in the order of their arrival, none of them older than the acknowledged one.\<close>

definition echo_inv :: "complete \<Rightarrow> bool" where
  "echo_inv c \<longleftrightarrow> sorted_wrt (\<lambda>x y. ec_frameNum x < ec_frameNum y \<and> ec_timestamp x \<le> ec_timestamp y) (cp_inputHistory c) \<and>
     (\<forall>x \<in> set (cp_inputHistory c). cp_echoAck c \<le> ec_frameNum x)"

definition ack_fold :: "int \<Rightarrow> echo_pair list \<Rightarrow> 64 word \<Rightarrow> 64 word" where
  "ack_fold t xs n = fold (\<lambda>v n. if ec_timestamp v \<le> t then ec_frameNum v else n) xs n"

lemma ack_fold:
  assumes "sorted_wrt (\<lambda>x y. ec_frameNum x < ec_frameNum y \<and> ec_timestamp x \<le> ec_timestamp y) xs"
    and "\<forall>x \<in> set xs. n \<le> ec_frameNum x"
  shows "n \<le> ack_fold t xs n"
    and "\<forall>x \<in> set xs. ec_timestamp x \<le> t \<longrightarrow> ec_frameNum x \<le> ack_fold t xs n"
    and "ack_fold t xs n = n \<or> (\<exists>x \<in> set xs. ec_timestamp x \<le> t \<and> ec_frameNum x = ack_fold t xs n)"
proof -
  have "n \<le> ack_fold t xs n \<and> (\<forall>x \<in> set xs. ec_timestamp x \<le> t \<longrightarrow> ec_frameNum x \<le> ack_fold t xs n) \<and>
      (ack_fold t xs n = n \<or> (\<exists>x \<in> set xs. ec_timestamp x \<le> t \<and> ec_frameNum x = ack_fold t xs n))"
    using assms
  proof (induction xs rule: rev_induct)
    case (snoc x xs)
    then have IH: "n \<le> ack_fold t xs n" "\<forall>x \<in> set xs. ec_timestamp x \<le> t \<longrightarrow> ec_frameNum x \<le> ack_fold t xs n"
      "ack_fold t xs n = n \<or> (\<exists>x \<in> set xs. ec_timestamp x \<le> t \<and> ec_frameNum x = ack_fold t xs n)"
      and last: "\<forall>y \<in> set xs. ec_frameNum y < ec_frameNum x \<and> ec_timestamp y \<le> ec_timestamp x" "n \<le> ec_frameNum x"
      by (auto simp: sorted_wrt_append)
    have step: "ack_fold t (xs @ [x]) n = (if ec_timestamp x \<le> t then ec_frameNum x else ack_fold t xs n)"
      by (simp add: ack_fold_def)
    show ?case
      using IH last snoc by (auto simp: step sorted_wrt_append intro: order_less_imp_le)
  qed (simp add: ack_fold_def)
  then show "n \<le> ack_fold t xs n"
    and "\<forall>x \<in> set xs. ec_timestamp x \<le> t \<longrightarrow> ec_frameNum x \<le> ack_fold t xs n"
    and "ack_fold t xs n = n \<or> (\<exists>x \<in> set xs. ec_timestamp x \<le> t \<and> ec_frameNum x = ack_fold t xs n)"
    by auto
qed

text \<open>
  Acknowledging echoes never goes back, names only frames that are old enough, covers each of them, and
  keeps the history ordered; the result tells whether the number has changed.
\<close>

theorem SetEchoAck_spec:
  assumes "echo_inv c" and "SetEchoAck now echoed c = (changed, c')"
  shows "echo_inv c' \<and> cp_echoAck c \<le> cp_echoAck c' \<and> changed = (cp_echoAck c \<noteq> cp_echoAck c') \<and>
    (let t = now - (if echoed then 0 else ECHO_TIMEOUT) in
      (\<forall>x \<in> set (cp_inputHistory c). ec_timestamp x \<le> t \<longrightarrow> ec_frameNum x \<le> cp_echoAck c') \<and>
      (changed \<longrightarrow> (\<exists>x \<in> set (cp_inputHistory c). ec_timestamp x \<le> t \<and> ec_frameNum x = cp_echoAck c')))"
proof -
  let ?t = "now - (if echoed then 0 else ECHO_TIMEOUT)"
  have c': "c' = c\<lparr>cp_inputHistory := filter (\<lambda>x. ec_frameNum x \<ge> ack_fold ?t (cp_inputHistory c) (cp_echoAck c)) (cp_inputHistory c),
      cp_echoAck := ack_fold ?t (cp_inputHistory c) (cp_echoAck c)\<rparr>" "changed = (cp_echoAck c \<noteq> cp_echoAck c')"
    using assms(2) by (auto simp: SetEchoAck_def ack_fold_def Let_def)
  show ?thesis
    using assms(1) c' ack_fold [of "cp_inputHistory c" "cp_echoAck c" ?t]
    by (auto simp: echo_inv_def Let_def sorted_wrt_filter)
qed

section \<open>Witnesses\<close>

text \<open>One codec that satisfies the law: two messages of the user for each instruction.\<close>

definition host_as_user :: "host_inst \<Rightarrow> user_inst list" where
  "host_as_user i =
     [\<lparr>ui_keystroke = hi_hostbytes i, ui_resize = hi_resize i\<rparr>,
      \<lparr>ui_keystroke = None, ui_resize = map_option (\<lambda>n. (ucast (drop_bit 32 n), ucast n)) (hi_echoack i)\<rparr>]"

fun user_as_host :: "user_inst list \<Rightarrow> host_inst list option" where
  "user_as_host [] = Some []"
| "user_as_host [i] = None"
| "user_as_host (i # j # is) = map_option ((#)
     \<lparr>hi_hostbytes = ui_keystroke i, hi_resize = ui_resize i,
      hi_echoack = map_option (\<lambda>(a, b). push_bit 32 (ucast a) + ucast b) (ui_resize j)\<rparr>) (user_as_host is)"

definition plain_host_marshal :: "host_inst list \<Rightarrow> bytes" where
  "plain_host_marshal is = plain_marshal (concat (map host_as_user is))"

definition plain_host_unmarshal :: "bytes \<Rightarrow> host_inst list option" where
  "plain_host_unmarshal bs = Option.bind (plain_unmarshal bs) user_as_host"

lemma split_word64: "push_bit 32 (ucast (ucast (drop_bit 32 n) :: 32 word)) + ucast (ucast n :: 32 word) = (n :: 64 word)"
  by (rule bit_word_eqI, subst disjunctive_add)
    (auto simp: bit_simps)

lemma user_as_host: "user_as_host (concat (map host_as_user is)) = Some is"
  by (induction "is") (auto simp: host_as_user_def split_word64 option.map_comp comp_def option.map_ident)

lemma plain_host_codec: "host_codec plain_host_marshal plain_host_unmarshal"
  using plain_codec user_as_host
  by (auto simp: host_codec_def plain_host_marshal_def plain_host_unmarshal_def codec_law_def)

definition blank_state :: complete where
  "blank_state = \<lparr>cp_terminal = blank20x5, cp_display = NewDisplay plain_env [] False, cp_remainsBuf = [],
     cp_diffBuf = [], cp_inputHistory = [], cp_echoAck = 0\<rparr>"

lemma blank_state_fields:
  "cp_terminal blank_state = blank20x5" "cp_diffBuf blank_state = []" "cp_echoAck blank_state = 0" "cp_inputHistory blank_state = []"
  by (simp_all add: blank_state_def)

lemma blank_state_prints:
  obtains out c where "Act plain_env byte_clusters ''make all'' blank_state = Some (out, c)" "cp_echoAck c = 0"
    "em_posX (cp_terminal c) = 8" "size_of (cp_terminal c) = size_of blank20x5"
proof -
  have p: "list_all printable ''make all''" by (simp add: printable_def)
  have "in_text (em_parser blank20x5)" "narrow plain_env blank20x5"
    by (simp_all add: blank20x5_fields in_text_NewParser narrow_def plain_env_def modes0_def charset0_def)
  then obtain hds e where e: "HandleStream plain_env byte_clusters ''make all'' blank20x5 = Some (hds, ''make all'', e)" "em_posX e = 8"
    using text_printed [OF byte_clusters_ascii blank20x5_inv _ p, of plain_env]
    by (auto simp: blank20x5_fields row_printed_def)
  then have "Act plain_env byte_clusters ''make all'' blank_state =
      Some (em_terminalToHost e, blank_state\<lparr>cp_terminal := e\<lparr>em_terminalToHost := []\<rparr>, cp_diffBuf := ''make all''\<rparr>)"
    by (simp add: Act_def ReadOctetsToHost_def blank_state_fields)
  moreover obtain e' p q p' q' where "size_of e' = size_of (cp_terminal blank_state)"
    "\<exists>out. Act plain_env byte_clusters ''make all'' blank_state = Some (out, blank_state\<lparr>cp_terminal := with_ps p q e',
      cp_diffBuf := cp_diffBuf blank_state @ ''make all''\<rparr>)"
    by (rule Act_text [OF byte_clusters_ascii _ _ p, of blank_state plain_env])
      (simp_all add: blank_state_fields blank20x5_inv blank20x5_fields in_text_NewParser)
  ultimately show thesis
    using that e(2)
    by (elim exE) (auto simp: blank_state_fields dest!: arg_cong [where f = "\<lambda>c. size_of (cp_terminal c)"])
qed

lemma host_text_sync_witness:
  "\<exists>out c diff x. Act plain_env byte_clusters ''make all'' blank_state = Some (out, c) \<and>
    Complete_DiffFrom plain_host_marshal c blank_state = Some diff \<and>
    Complete_ApplyString plain_host_unmarshal plain_env byte_clusters diff (Complete_Clone blank_state) = Some (x, False) \<and>
    Complete_Equal c x = Some True \<and> em_posX (cp_terminal c) = 8"
proof -
  obtain out c where c: "Act plain_env byte_clusters ''make all'' blank_state = Some (out, c)" "cp_echoAck c = 0"
    "em_posX (cp_terminal c) = 8" "size_of (cp_terminal c) = size_of blank20x5"
    by (rule blank_state_prints)
  then obtain diff where d: "Complete_DiffFrom plain_host_marshal c blank_state = Some diff"
    by (simp add: Complete_DiffFrom_def diffFrom_def host_message_def Complete_Equal_def emu_Equal_def
        emu_same_state_def blank_state_fields blank20x5_fields Let_def)
  have p: "list_all printable ''make all''" by (simp add: printable_def)
  show ?thesis
    using host_text_sync [OF byte_clusters_ascii plain_host_codec _ _ _ _ p c(1) d] c d
    by (auto simp: blank_state_fields blank20x5_inv blank20x5_fields in_text_NewParser)
qed

lemma lost_output_witness:
  "\<exists>out c diff x. Act plain_env byte_clusters ''make all'' blank_state = Some (out, c) \<and>
    Complete_DiffFrom plain_host_marshal (Complete_Reset c) blank_state = Some diff \<and>
    Complete_ApplyString plain_host_unmarshal plain_env byte_clusters diff (Complete_Clone blank_state) = Some (x, False) \<and>
    em_posX (cp_terminal c) = 8 \<and> em_posX (cp_terminal x) = 0"
proof -
  obtain out c where c: "Act plain_env byte_clusters ''make all'' blank_state = Some (out, c)" "cp_echoAck c = 0"
    "em_posX (cp_terminal c) = 8" "size_of (cp_terminal c) = size_of blank20x5"
    by (rule blank_state_prints)
  then obtain diff where d: "Complete_DiffFrom plain_host_marshal (Complete_Reset c) blank_state = Some diff"
    by (simp add: Complete_DiffFrom_def diffFrom_def host_message_def Complete_Equal_def emu_Equal_def
        emu_same_state_def blank_state_fields blank20x5_fields Let_def Complete_Reset_def SetLastRows_def)
  have "GetWidth (cp_terminal blank_state) = GetWidth (cp_terminal c)"
    "GetHeight (cp_terminal blank_state) = GetHeight (cp_terminal c)"
    using c(4) by (simp_all add: blank_state_fields size_of_def GetWidth_def GetHeight_def)
  from lost_output [OF plain_host_codec d this, of plain_env byte_clusters] show ?thesis
    using c d
    by (auto simp: Complete_Clone_def emu_Clone_def initSelectionStore_def blank_state_fields blank20x5_fields)
qed

lemma SetEchoAck_spec_witness:
  "cp_echoAck (snd (SetEchoAck 200 False (RegisterInputFrame 4 160 (RegisterInputFrame 3 100 blank_state)))) = 3 \<and>
    echo_inv (snd (SetEchoAck 200 False (RegisterInputFrame 4 160 (RegisterInputFrame 3 100 blank_state))))"
proof -
  let ?c = "RegisterInputFrame 4 160 (RegisterInputFrame 3 100 blank_state)"
  have "echo_inv ?c" by (simp add: echo_inv_def RegisterInputFrame_def blank_state_fields)
  then show ?thesis
    using SetEchoAck_spec [of ?c 200 False "fst (SetEchoAck 200 False ?c)" "snd (SetEchoAck 200 False ?c)"]
    by (auto simp: SetEchoAck_def RegisterInputFrame_def blank_state_fields ECHO_TIMEOUT_def Let_def)
qed

end
