(* ===== verification/ClientProps.thy ===== *)
theory ClientProps
  imports Client OverlayEcho CompleteProps SenderProps
begin

text \<open>
  Properties of the client: what the user types reaches the stream of events, with the commands of the escape key;
  what the server prints reaches the terminal of the user, once, unless predictions are open or one has been
  drawn; and a shutdown that nobody answers ends, in any state of the predictions and of the message bar.
\<close>

section \<open>What is typed\<close>

text \<open>The client after \<open>mainInit\<close>, with a control character as the escape key.\<close>

definition client_ok :: "('sock, 'addr) stmClient \<Rightarrow> bool" where
  "client_ok sc \<longleftrightarrow> sc_network sc \<noteq> None \<and> 0 < sc_escapeKey sc \<and> \<not> sc_escapeRequireslf sc \<and>
     engine_inv (om_predictions (sc_overlays sc)) \<and>
     (\<exists>emu. sc_localFramebuffer sc = Some emu \<and> emu_inv emu \<and> 1 < em_nCols emu)"

definition stream :: "('sock, 'addr) stmClient \<Rightarrow> user_event list" where
  "stream sc = (case sc_network sc of Some net \<Rightarrow> sd_currentState (tr_sender net) | None \<Rightarrow> [])"

text \<open>
  The contract: a key is an event of the stream. The escape key waits for the next one: a dot leaves the client, or
  starts the shutdown when there is a server to tell; Ctrl-Z suspends it, and leaves it when the settings of the
  terminal cannot be restored; the pass key stands for the escape key itself; any other key is sent behind it. The
  result: events, whether the escape key is waiting, and the result of \<open>processUserInput\<close> when the input ends here.
\<close>

definition key_event ::
  "int \<Rightarrow> int set \<Rightarrow> bool \<Rightarrow> bool \<Rightarrow> bool \<Rightarrow> rune list \<Rightarrow> user_event list \<times> bool \<times> bool option" where
  "key_event key pass restored remote quit input =
     (let c = hd input
      in if quit then
           (if c = 46 then ([], True, Some remote)
            else if c = 0x1A then ([], \<not> restored, if restored then None else Some False)
            else ([UserByteType (if int c \<in> pass then [nat key] else [nat key, c])], False, None))
         else if int c = key then ([], True, None)
         else ([UserByteType input], False, None))"

fun typed ::
  "int \<Rightarrow> int set \<Rightarrow> bool \<Rightarrow> bool \<Rightarrow> bool \<Rightarrow> rune list list \<Rightarrow> user_event list \<times> bool \<times> bool option" where
  "typed key pass restored remote quit [] = ([], quit, None)"
| "typed key pass restored remote quit (i # is) =
     (case key_event key pass restored remote quit i of
        (es, quit1, Some r) \<Rightarrow> (es, quit1, Some r)
      | (es, quit1, None) \<Rightarrow> apfst ((@) es) (typed key pass restored remote quit1 is))"

text \<open>
  The parser of the prediction engine gets through the keys: no Ctrl-H comes when it cannot take back the last
  character of a control sequence.
\<close>

fun undoable :: "parser \<Rightarrow> rune list list \<Rightarrow> bool" where
  "undoable p [] = True"
| "undoable p (i # is) = (can_undo i p \<and> (case ProcessInput i p of Some (p', h) \<Rightarrow> undoable p' is | None \<Rightarrow> True))"

definition predictable :: "bool \<Rightarrow> predictionEngine \<Rightarrow> rune list list \<Rightarrow> bool" where
  "predictable paste pe inputs \<longleftrightarrow> paste \<or> pe_displayPreference pe = Never \<or> undoable (pe_parser pe) inputs"

lemma undoable_plain: "[8] \<notin> set inputs \<Longrightarrow> undoable p inputs"
  by (induction inputs arbitrary: p) (auto simp: can_undo_def split: option.split)

lemma undoable_first: "can_undo i p \<Longrightarrow> [8] \<notin> set is \<Longrightarrow> undoable p (i # is)"
  by (auto intro: undoable_plain split: option.split)

lemma predictable_step:
  assumes "predictable paste pe (i # is)" "i \<noteq> []" "paste \<longrightarrow> pe' = pe" "\<not> paste \<longrightarrow> key_taken i pe pe'"
  shows "predictable paste pe' is"
  using assms by (auto simp: predictable_def key_taken_def split: if_splits)

lemma note_fields [simp]:
  "sc_network (on_notifications f sc) = sc_network sc" "sc_escapeKey (on_notifications f sc) = sc_escapeKey sc"
  "sc_escapePassKey (on_notifications f sc) = sc_escapePassKey sc" "sc_escapePassKey2 (on_notifications f sc) = sc_escapePassKey2 sc"
  "sc_escapeRequireslf (on_notifications f sc) = sc_escapeRequireslf sc"
  "sc_quitSequenceStarted (on_notifications f sc) = sc_quitSequenceStarted sc"
  "sc_localFramebuffer (on_notifications f sc) = sc_localFramebuffer sc"
  "om_predictions (sc_overlays (on_notifications f sc)) = om_predictions (sc_overlays sc)"
  by (simp_all add: on_notifications_def)

lemma predict_fields [simp]:
  "sc_network (on_predictions f sc) = sc_network sc" "sc_escapeKey (on_predictions f sc) = sc_escapeKey sc"
  "sc_escapePassKey (on_predictions f sc) = sc_escapePassKey sc" "sc_escapePassKey2 (on_predictions f sc) = sc_escapePassKey2 sc"
  "sc_escapeRequireslf (on_predictions f sc) = sc_escapeRequireslf sc"
  "sc_quitSequenceStarted (on_predictions f sc) = sc_quitSequenceStarted sc"
  "sc_localFramebuffer (on_predictions f sc) = sc_localFramebuffer sc"
  "om_predictions (sc_overlays (on_predictions f sc)) = f (om_predictions (sc_overlays sc))"
  by (simp_all add: on_predictions_def)

lemma network_fields [simp]:
  "sc_network (on_network f sc) = map_option f (sc_network sc)" "sc_escapeKey (on_network f sc) = sc_escapeKey sc"
  "sc_escapePassKey (on_network f sc) = sc_escapePassKey sc" "sc_escapePassKey2 (on_network f sc) = sc_escapePassKey2 sc"
  "sc_escapeRequireslf (on_network f sc) = sc_escapeRequireslf sc"
  "sc_quitSequenceStarted (on_network f sc) = sc_quitSequenceStarted sc"
  "sc_localFramebuffer (on_network f sc) = sc_localFramebuffer sc" "sc_overlays (on_network f sc) = sc_overlays sc"
  by (simp_all add: on_network_def)

definition same_keys :: "('sock, 'addr) stmClient \<Rightarrow> ('sock, 'addr) stmClient \<Rightarrow> bool" where
  "same_keys sc sc' \<longleftrightarrow> sc_escapeKey sc' = sc_escapeKey sc \<and> sc_escapePassKey sc' = sc_escapePassKey sc \<and>
     sc_escapePassKey2 sc' = sc_escapePassKey2 sc"

text \<open>A connection that is not shutting down; \<open>remote\<close> tells whether the address of the server is known.\<close>

definition open_net :: "bool \<Rightarrow> ('sock, 'addr) stmClient \<Rightarrow> bool" where
  "open_net remote sc \<longleftrightarrow> (\<exists>net. sc_network sc = Some net \<and> \<not> ShutdownInProgress net \<and> HasRemoteAddr net = remote)"

lemma open_on_current: "ShutdownInProgress (on_current f net) = ShutdownInProgress net" "HasRemoteAddr (on_current f net) = HasRemoteAddr net"
  by (simp_all add: on_current_def ShutdownInProgress_def HasRemoteAddr_def)

text \<open>What holds before and after a key: the client in its shape, the keys set, the connection open unless the input ends.\<close>

definition key_step ::
  "bool \<Rightarrow> ('sock, 'addr) stmClient \<Rightarrow> user_event list \<times> bool \<times> bool option \<Rightarrow> bool option \<Rightarrow> ('sock, 'addr) stmClient \<Rightarrow> bool" where
  "key_step remote sc = (\<lambda>(es, quit, stop) r sc'. r = stop \<and> client_ok sc' \<and> same_keys sc sc' \<and>
     stream sc' = stream sc @ es \<and> sc_quitSequenceStarted sc' = quit \<and> (stop = None \<longrightarrow> open_net remote sc'))"

text \<open>The end of a quit sequence.\<close>

definition end_quit :: "int \<Rightarrow> ('sock, 'addr) stmClient \<Rightarrow> ('sock, 'addr) stmClient" where
  "end_quit now sc =
     (let sc1 = sc\<lparr>sc_quitSequenceStarted := False\<rparr>
      in if ne_message (om_notifications (sc_overlays sc1)) = sc_escapeKeyHelp sc1
         then on_notifications (SetNotificationString now [] False True) sc1 else sc1)"

lemma end_quit_fields [simp]:
  "sc_network (end_quit now sc) = sc_network sc" "sc_escapeKey (end_quit now sc) = sc_escapeKey sc"
  "sc_escapePassKey (end_quit now sc) = sc_escapePassKey sc" "sc_escapePassKey2 (end_quit now sc) = sc_escapePassKey2 sc"
  "sc_escapeRequireslf (end_quit now sc) = sc_escapeRequireslf sc" "\<not> sc_quitSequenceStarted (end_quit now sc)"
  "sc_localFramebuffer (end_quit now sc) = sc_localFramebuffer sc"
  "om_predictions (sc_overlays (end_quit now sc)) = om_predictions (sc_overlays sc)"
  by (simp_all add: end_quit_def Let_def)

lemma resume_fields [simp]:
  "sc_network (snd (resume b sc)) = sc_network sc" "sc_escapeKey (snd (resume b sc)) = sc_escapeKey sc"
  "sc_escapePassKey (snd (resume b sc)) = sc_escapePassKey sc" "sc_escapePassKey2 (snd (resume b sc)) = sc_escapePassKey2 sc"
  "sc_escapeRequireslf (snd (resume b sc)) = sc_escapeRequireslf sc" "sc_overlays (snd (resume b sc)) = sc_overlays sc"
  "sc_localFramebuffer (snd (resume b sc)) = sc_localFramebuffer sc"
  by (simp_all add: resume_def)

lemma quit_sequence_ends:
  "quit_sequence now restored c net sc =
     (if c = 46 then
        (if HasRemoteAddr net \<and> \<not> ShutdownInProgress net then
           (Some True, [], on_network (StartShutdown now)
             (on_notifications (SetNotificationString now ''Exiting on user request...'' True True) sc))
         else (Some False, [], sc))
      else if c = 0x1A then
        (if \<not> fst restored then (Some False, Display_Close (sc_display sc), sc)
         else (None, Display_Close (sc_display sc) @ suspended_text @ fst (resume (snd restored) sc),
           end_quit now (snd (resume (snd restored) sc))))
      else if int c = sc_escapePassKey sc \<or> int c = sc_escapePassKey2 sc then
        (None, [], end_quit now (on_network (on_current (PushBack [nat (sc_escapeKey sc)])) sc))
      else (None, [], end_quit now (on_network (on_current (PushBack [nat (sc_escapeKey sc), c])) sc)))"
  by (simp add: quit_sequence_def end_quit_def Let_def case_prod_beta)

lemmas step_defs = key_event_def key_step_def Let_def client_ok_def same_keys_def stream_def open_net_def open_on_current

lemma after_escape:
  assumes "client_ok sc" "sc_network sc = Some net" "open_net remote sc" "sc_quitSequenceStarted sc"
  shows "\<exists>r out sc'. quit_sequence now restored (hd input) net sc = (r, out, sc') \<and>
    om_predictions (sc_overlays sc') = om_predictions (sc_overlays sc) \<and>
    key_step remote sc (key_event (sc_escapeKey sc) {sc_escapePassKey sc, sc_escapePassKey2 sc} (fst restored) remote True input) r sc'"
proof -
  have push: "sd_currentState (tr_sender (on_current (PushBack ks) net)) = sd_currentState (tr_sender net) @ [UserByteType ks]" for ks
    by (simp add: on_current_def PushBack_def NewUserEvent_def)
  have start: "sd_currentState (tr_sender (StartShutdown now net)) = sd_currentState (tr_sender net)"
    by (simp add: StartShutdown_def startShutdown_def)
  have idle: "\<not> ShutdownInProgress net" "HasRemoteAddr net = remote" using assms(2,3) by (simp_all add: open_net_def)
  consider (dot) "hd input = 46" | (suspend) "hd input = 0x1A" "fst restored" | (broken) "hd input = 0x1A" "\<not> fst restored"
    | (pass) "hd input \<noteq> 46" "hd input \<noteq> 0x1A" "int (hd input) \<in> {sc_escapePassKey sc, sc_escapePassKey2 sc}"
    | (other) "hd input \<noteq> 46" "hd input \<noteq> 0x1A" "int (hd input) \<notin> {sc_escapePassKey sc, sc_escapePassKey2 sc}" by blast
  then show ?thesis
  proof cases
    case dot
    then show ?thesis using assms idle start by (cases remote) (simp_all add: quit_sequence_ends step_defs)
  next
    case suspend
    then show ?thesis using assms by (simp add: quit_sequence_ends step_defs)
  next
    case broken
    then show ?thesis using assms by (simp add: quit_sequence_ends step_defs)
  next
    case pass
    then show ?thesis using assms push by (auto simp: quit_sequence_ends step_defs)
  next
    case other
    then show ?thesis using assms push by (auto simp: quit_sequence_ends step_defs)
  qed
qed

lemma plain_key:
  assumes "client_ok sc" "sc_network sc = Some net" "open_net remote sc" "\<not> sc_quitSequenceStarted sc"
  shows "\<exists>sc'. (let quit = (sc_escapeKey sc > 0 \<and> int (hd input) = sc_escapeKey sc \<and>
                   (sc_lfEntered sc \<or> \<not> sc_escapeRequireslf sc))
       in if quit then
            (None, [], on_notifications (SetNotificationString now (sc_escapeKeyHelp sc) True False)
              (sc\<lparr>sc_quitSequenceStarted := True, sc_lfEntered := False\<rparr>))
          else
            let sc1 = sc\<lparr>sc_quitSequenceStarted := False, sc_lfEntered := (hd input = 0x0A \<or> hd input = 0x0D)\<rparr>;
                sc2 = (if hd input = 0x0C then sc1\<lparr>sc_repaintRequested := True\<rparr> else sc1)
            in (None, [] :: string, on_network (on_current (PushBack input)) sc2)) = (None, [], sc') \<and>
    om_predictions (sc_overlays sc') = om_predictions (sc_overlays sc) \<and>
    key_step remote sc (key_event (sc_escapeKey sc) {sc_escapePassKey sc, sc_escapePassKey2 sc} b remote False input) None sc'"
  using assms
  by (auto simp: key_event_def key_step_def Let_def client_ok_def same_keys_def stream_def open_net_def
      open_on_current on_current_def PushBack_def NewUserEvent_def ShutdownInProgress_def HasRemoteAddr_def)

lemma user_key_typed:
  assumes "client_ok sc" "open_net remote sc" "input \<noteq> []" "\<And>s. 0 \<le> te_width (fe_term env) s"
    and "predictable paste (om_predictions (sc_overlays sc)) (input # inputs)"
  shows "\<exists>r out sc'. user_key env ck now restored paste input sc = Some (r, out, sc') \<and>
    predictable paste (om_predictions (sc_overlays sc')) inputs \<and>
    key_step remote sc (key_event (sc_escapeKey sc) {sc_escapePassKey sc, sc_escapePassKey2 sc} (fst restored) remote
      (sc_quitSequenceStarted sc) input) r sc'"
proof -
  let ?pe = "om_predictions (sc_overlays sc)"
  obtain net emu where c: "sc_network sc = Some net" "sc_localFramebuffer sc = Some emu" "emu_inv emu" "1 < em_nCols emu" "engine_inv ?pe"
    using assms(1) by (auto simp: client_ok_def)
  have first: "list_at input 0 = Some (hd input)" using assms(3) by (simp add: list_at_first)
  obtain pe where pe: "paste \<or> NewUserInput (fe_term env) emu input (fst ck) (fst (snd ck)) (snd (snd ck)) ?pe = Some pe"
    "engine_inv pe" "predictable paste pe inputs" "paste \<Longrightarrow> pe = ?pe"
  proof (cases paste)
    case True
    then show thesis using that [of ?pe] c(5) by (simp add: predictable_def)
  next
    case False
    have "pe_displayPreference ?pe = Never \<or> can_undo input (pe_parser ?pe)" using assms(5) False by (auto simp: predictable_def)
    from NewUserInput_taken [OF c(3,4,5) this assms(4)]
    obtain pe where "NewUserInput (fe_term env) emu input (fst ck) (fst (snd ck)) (snd (snd ck)) ?pe = Some pe" "key_taken input ?pe pe"
      by (auto simp: ok_iff) blast
    then show thesis using that [of pe] predictable_step [OF assms(5,3)] False by (auto simp: key_taken_def)
  qed
  define sc1 where "sc1 = (if paste then sc else on_predictions (\<lambda>_. pe) sc)"
  have sc1: "client_ok sc1" "same_keys sc sc1" "sc_quitSequenceStarted sc1 = sc_quitSequenceStarted sc" "sc_network sc1 = Some net"
    "stream sc1 = stream sc" "open_net remote sc1" "om_predictions (sc_overlays sc1) = pe"
    using assms(1,2) pe(2,4) c by (auto simp: sc1_def client_ok_def same_keys_def stream_def open_net_def)
  have "(if paste then Some sc else do {
      local \<leftarrow> sc_localFramebuffer sc;
      pe \<leftarrow> NewUserInput (fe_term env) local input (fst ck) (fst (snd ck)) (snd (snd ck)) ?pe;
      Some (on_predictions (\<lambda>_. pe) sc) }) = Some sc1"
    using pe(1) c by (auto simp: sc1_def)
  note start = this
  have keys: "sc_escapeKey sc1 = sc_escapeKey sc" "sc_escapePassKey sc1 = sc_escapePassKey sc" "sc_escapePassKey2 sc1 = sc_escapePassKey2 sc"
    using sc1(2) by (simp_all add: same_keys_def)
  have step: "key_step remote sc t r sc'" if "key_step remote sc1 t r sc'" for t r sc'
    using that sc1(2,5) by (auto simp: key_step_def same_keys_def)
  show ?thesis
  proof (cases "sc_quitSequenceStarted sc")
    case True
    then have "user_key env ck now restored paste input sc = Some (quit_sequence now restored (hd input) net sc1)"
      unfolding user_key_def start first using sc1(3,4) by simp
    moreover obtain r out sc' where "quit_sequence now restored (hd input) net sc1 = (r, out, sc')"
      "om_predictions (sc_overlays sc') = pe"
      "key_step remote sc1 (key_event (sc_escapeKey sc) {sc_escapePassKey sc, sc_escapePassKey2 sc} (fst restored) remote True input) r sc'"
      using after_escape [OF sc1(1,4,6), of now restored input] True sc1(3,7) keys by auto
    ultimately show ?thesis using step pe(3) True by auto
  next
    case False
    obtain sc' where p: "(let quit = (sc_escapeKey sc1 > 0 \<and> int (hd input) = sc_escapeKey sc1 \<and>
                   (sc_lfEntered sc1 \<or> \<not> sc_escapeRequireslf sc1))
       in if quit then
            (None, [], on_notifications (SetNotificationString now (sc_escapeKeyHelp sc1) True False)
              (sc1\<lparr>sc_quitSequenceStarted := True, sc_lfEntered := False\<rparr>))
          else
            let sc1a = sc1\<lparr>sc_quitSequenceStarted := False, sc_lfEntered := (hd input = 0x0A \<or> hd input = 0x0D)\<rparr>;
                sc2 = (if hd input = 0x0C then sc1a\<lparr>sc_repaintRequested := True\<rparr> else sc1a)
            in (None, [] :: string, on_network (on_current (PushBack input)) sc2)) = (None, [], sc')"
      "om_predictions (sc_overlays sc') = pe"
      "key_step remote sc1 (key_event (sc_escapeKey sc) {sc_escapePassKey sc, sc_escapePassKey2 sc} (fst restored) remote False input) None sc'"
      using plain_key [OF sc1(1,4,6), of input now "fst restored"] False sc1(3,7) keys by auto
    then have "user_key env ck now restored paste input sc = Some (None, [], sc')"
      unfolding user_key_def start first using False sc1(3,4) by (auto simp: Let_def split: if_splits)
    then show ?thesis using p step pe(3) False by auto
  qed
qed

lemma user_keys_typed:
  assumes "client_ok sc" "open_net remote sc" "\<And>s. 0 \<le> te_width (fe_term env) s"
    and "[] \<notin> set inputs" "predictable paste (om_predictions (sc_overlays sc)) inputs"
    and "typed (sc_escapeKey sc) {sc_escapePassKey sc, sc_escapePassKey2 sc} (fst restored) remote (sc_quitSequenceStarted sc) inputs
      = (es, quit, stop)"
  shows "\<exists>out sc'. user_keys env ck now restored paste k inputs sc = Some (case stop of None \<Rightarrow> True | Some r \<Rightarrow> r, out, sc') \<and>
    client_ok sc' \<and> stream sc' = stream sc @ es \<and> sc_quitSequenceStarted sc' = quit"
  using assms
proof (induction inputs arbitrary: sc k es)
  case (Cons i inputs)
  have "i \<noteq> []" using Cons.prems(4) by auto
  from user_key_typed [OF Cons.prems(1,2) this Cons.prems(3,5), of "ck k" now restored]
  obtain r out sc1 where 1: "user_key env (ck k) now restored paste i sc = Some (r, out, sc1)"
    "predictable paste (om_predictions (sc_overlays sc1)) inputs"
    "key_step remote sc (key_event (sc_escapeKey sc) {sc_escapePassKey sc, sc_escapePassKey2 sc} (fst restored) remote
      (sc_quitSequenceStarted sc) i) r sc1"
    by blast
  obtain es1 quit1 stop1 where e: "key_event (sc_escapeKey sc) {sc_escapePassKey sc, sc_escapePassKey2 sc} (fst restored) remote
      (sc_quitSequenceStarted sc) i = (es1, quit1, stop1)" by (metis prod.exhaust)
  note s = 1(3) [unfolded e key_step_def prod.case]
  show ?case
  proof (cases stop1)
    case (Some r1)
    then show ?thesis using 1(1) s e Cons.prems(6) by auto
  next
    case None
    obtain fs where rest: "typed (sc_escapeKey sc1) {sc_escapePassKey sc1, sc_escapePassKey2 sc1} (fst restored) remote
        (sc_quitSequenceStarted sc1) inputs = (fs, quit, stop)" "es = es1 @ fs"
      using Cons.prems(6) e None s by (cases "typed (sc_escapeKey sc) {sc_escapePassKey sc, sc_escapePassKey2 sc} (fst restored) remote quit1 inputs")
        (auto simp: same_keys_def)
    then obtain out2 sc2 where "user_keys env ck now restored paste (Suc k) inputs sc1 = Some (case stop of None \<Rightarrow> True | Some r \<Rightarrow> r, out2, sc2)"
      "client_ok sc2" "stream sc2 = stream sc1 @ fs" "sc_quitSequenceStarted sc2 = quit"
      using Cons.IH [of sc1 fs "Suc k"] s None Cons.prems(3,4) 1(2) by auto
    then show ?thesis using 1(1) s None rest(2) by auto
  qed
qed simp


section \<open>What is shown\<close>

text \<open>No predictions, nothing to draw, no message.\<close>

definition idle :: "('sock, 'addr) stmClient \<Rightarrow> bool" where
  "idle sc \<longleftrightarrow> pe_overlays (om_predictions (sc_overlays sc)) = [] \<and> pe_cursors (om_predictions (sc_overlays sc)) = [] \<and>
     pe_diff (om_predictions (sc_overlays sc)) = [] \<and> ne_message (om_notifications (sc_overlays sc)) = []"

definition drawn :: "('sock, 'addr) stmClient \<Rightarrow> bool" where
  "drawn sc \<longleftrightarrow> pe_applied (om_predictions (sc_overlays sc))"

definition terminal_ok :: "complete \<Rightarrow> bool" where
  "terminal_ok c \<longleftrightarrow> emu_inv (cp_terminal c) \<and> 1 < em_nCols (cp_terminal c)"

lemma clone_inv: "emu_inv (emu_Clone t) = emu_inv t" "em_nCols (emu_Clone t) = em_nCols t"
  by (simp_all add: emu_Clone_def initSelectionStore_def)

lemma SetLastRows_inv: "emu_inv (SetLastRows x e) = emu_inv e" "em_nCols (SetLastRows x e) = em_nCols e"
proof -
  have "cf (SetLastRows x e) = cf e" by (simp add: cf_def SetLastRows_def split: screen.split)
  then show "emu_inv (SetLastRows x e) = emu_inv e"
    unfolding emu_inv_def plain_mode_def cursor_ok_def by (simp add: SetLastRows_def)
qed (simp add: SetLastRows_def)

lemma GetDiff_fields: "terminal_ok c \<Longrightarrow> terminal_ok (snd (GetDiff c))" "cp_diffBuf (snd (GetDiff c)) = []"
  by (simp_all add: terminal_ok_def GetDiff_def Complete_Reset_def SetLastRows_inv)

lemma cull_idle:
  assumes "pe_overlays pe = []" "pe_cursors pe = []" "engine_inv pe"
  obtains pe' where "cull emu now pe = Some pe'" "pe_overlays pe' = []" "pe_cursors pe' = []" "pe_diff pe' = pe_diff pe"
    "pe_applied pe' = pe_applied pe" "engine_inv pe'"
proof (cases "pe_displayPreference pe = Never")
  case True
  then show ?thesis using assms that by (simp add: cull_def)
next
  case False
  have t: "pe_overlays (cull_triggers a) = pe_overlays a" "pe_cursors (cull_triggers a) = pe_cursors a"
    "pe_parser (cull_triggers a) = pe_parser a" "pe_diff (cull_triggers a) = pe_diff a" "pe_applied (cull_triggers a) = pe_applied a" for a
    by (simp_all add: cull_triggers_def Let_def)
  have r: "pe_overlays (cull_resize emu pe) = []" "pe_cursors (cull_resize emu pe) = []"
    "pe_parser (cull_resize emu pe) = pe_parser pe" "pe_diff (cull_resize emu pe) = pe_diff pe" "pe_applied (cull_resize emu pe) = pe_applied pe"
    using assms by (simp_all add: cull_resize_def pe_Reset_def becomeTentative_def)
  show ?thesis
    using False assms(3) that
    by (auto simp: cull_def r t cull_cursors_def pe_cursor_last Let_def engine_inv_def pe_wf_def)
qed

lemma latest_set:
  assumes "latest_state net = Some r"
  shows "latest_state (set_latest_state r' net) = Some r'"
  using assms by (auto simp: latest_state_def set_latest_state_def GetLatestRemoteState_def list_at_def
      split: if_splits Option.bind_splits)

lemma frame_idle:
  assumes "sc_network sc = Some net" "latest_state net = Some (Some c)" "terminal_ok c" "idle sc" "client_ok sc"
    and "\<not> needCountup (snd (snd ck)) (om_notifications (sc_overlays sc))"
  obtains sc' where "outputNewFrame env ck sc = Some (if drawn sc then [] else cp_diffBuf c, sc')"
    "sc_network sc' = Some (set_latest_state (Some (snd (GetDiff c))) net)" "idle sc'" "client_ok sc'"
    "drawn sc' = (drawn sc \<and> cp_diffBuf c = [])" "om_notifications (sc_overlays sc') = om_notifications (sc_overlays sc)"
proof -
  let ?pe = "om_predictions (sc_overlays sc)" and ?ne = "om_notifications (sc_overlays sc)" and ?t = "emu_Clone (cp_terminal c)"
  have q: "pe_overlays ?pe = []" "pe_cursors ?pe = []" "pe_diff ?pe = []" "ne_message ?ne = []" "engine_inv ?pe"
    using assms(4,5) by (simp_all add: idle_def client_ok_def)
  obtain pe' where pe': "cull ?t (fst ck) ?pe = Some pe'" "pe_overlays pe' = []" "pe_cursors pe' = []" "pe_diff pe' = []"
    "pe_applied pe' = pe_applied ?pe" "engine_inv pe'"
    using cull_idle [OF q(1,2,5), of ?t "fst ck"] q(3) by metis
  have ne: "adjustMessage t ?ne = ?ne" for t using q(4) by (cases ?ne) (simp add: adjustMessage_def)
  have applied: "om_Apply (fe_term env) (fe_graphemes env) (fst ck) (fst (snd ck)) (snd (snd ck)) (sc_overlays sc) ?t =
      Some ((sc_overlays sc)\<lparr>om_predictions := pe'\<rparr>, prefixWindowTitle (om_title (sc_overlays sc)) ?t)"
  proof -
    have "ne_apply (fe_term env) (fe_graphemes env) (snd (snd ck)) ?ne ?t = Some ?t"
      using q(4) assms(6) by (simp add: ne_apply_def)
    then show ?thesis using pe' by (simp add: om_Apply_def pe_apply_def) (simp add: ne)
  qed
  have frame: "frame_text (cp_diffBuf c) pe' = (if drawn sc then [] else cp_diffBuf c,
      if cp_diffBuf c \<noteq> [] then ClearApplied pe' else pe')"
    using pe'(4,5) by (auto simp: frame_text_def GetApplied_def drawn_def)
  let ?e = "prefixWindowTitle (om_title (sc_overlays sc)) ?t"
  let ?sc = "sc\<lparr>sc_newState := Some ?e, sc_localFramebuffer := Some ?e,
      sc_network := Some (set_latest_state (Some (snd (GetDiff c))) net),
      sc_overlays := (sc_overlays sc)\<lparr>om_predictions := if cp_diffBuf c \<noteq> [] then ClearApplied pe' else pe'\<rparr>, sc_repaintRequested := False\<rparr>"
  have "fst (GetDiff c) = cp_diffBuf c" by (simp add: GetDiff_def)
  then have "outputNewFrame env ck sc = Some (if drawn sc then [] else cp_diffBuf c, ?sc)"
    using assms(1,2) applied frame by (simp add: outputNewFrame_def case_prod_beta)
  moreover have "emu_inv ?e" "em_nCols ?e = em_nCols (cp_terminal c)"
    using assms(3) by (auto simp: prefixWindowTitle_def Let_def clone_inv terminal_ok_def)
  then have "client_ok ?sc"
    using assms(3,5) pe'(6) by (auto simp: client_ok_def terminal_ok_def ClearApplied_def engine_inv_def pe_wf_def)
  ultimately show thesis
    using that [of ?sc] pe' q(4) by (simp add: idle_def drawn_def ClearApplied_def)
qed

text \<open>The message bar: a message that can be printed.\<close>

definition bar_printable :: "notificationEngine \<Rightarrow> bool" where
  "bar_printable ne \<longleftrightarrow> list_all printable (ne_message ne) \<and> list_all printable (ne_escapeKeyString ne)"

lemma printable_number: "list_all printable (fmt_d n)" "list_all printable (fmt_02d n)"
proof -
  have "list_all printable (decimal m)" for m
    using decimal_digits [of m] by (auto simp: is_digit_def printable_def list_all_iff)
  then show "list_all printable (fmt_d n)" "list_all printable (fmt_02d n)"
    by (simp_all add: fmt_d_def fmt_02d_def printable_def)
qed

lemma bar_text: "bar_printable ne \<Longrightarrow> list_all printable (ne_string now ne)"
proof -
  have "list_all printable (humanReadableDuration n ''seconds'')" "list_all printable (humanReadableDuration n ''s'')" for n
    by (simp_all add: humanReadableDuration_def printable_number) (simp_all add: printable_def)
  then show "bar_printable ne \<Longrightarrow> list_all printable (ne_string now ne)"
    unfolding ne_string_def Let_def bar_printable_def by (auto simp: printable_def)
qed

lemma adjust_printable: "bar_printable ne \<Longrightarrow> bar_printable (adjustMessage now ne)"
  by (simp add: bar_printable_def adjustMessage_def)

lemma ne_apply_ok:
  assumes "ascii_clusters graphemes" "bar_printable ne" "emu_inv emu" "in_text (em_parser emu)"
  obtains e where "ne_apply env graphemes now ne emu = Some e" "emu_inv e" "em_nCols e = em_nCols emu"
proof (cases "length (ne_message ne) = 0 \<and> \<not> needCountup now ne")
  case True
  then show thesis using that [of emu] assms(3) by (simp add: ne_apply_def)
next
  case False
  define emu1 where "emu1 = (if GetCursorRow emu = 0 then SetCursorVisible False emu else emu)"
  have "SetCursorVisible False emu = hideCursor emu" by (simp add: SetCursorVisible_def hideCursor_def)
  then have 1: "screen_kept emu emu1"
    using assms(3) hideCursor_inv by (auto simp: emu1_def screen_kept_def hideCursor_def set_cf_def split: screen.split)
  obtain emu2 where 2: "for_up 0 (GetWidth emu1) (\<lambda>i. emu_GetCellPtr 0 i (Reset2 notificationBar)) emu1 = Some emu2" "screen_kept emu emu2"
    using for_up_inv [of "screen_kept emu" emu1 0 "GetWidth emu1" "\<lambda>i. emu_GetCellPtr 0 i (Reset2 notificationBar)"] 1 GetCellPtr_kept
    by (auto simp: ok_iff)
  let ?m = "MoveCursor 0 0 emu2"
  have 3: "emu_inv ?m" "em_parser ?m = em_parser emu" "em_nCols ?m = em_nCols emu"
    using MoveCursor_kept [OF 2(2), of 0 0] by (simp_all add: screen_kept_def)
  obtain e where e: "emu_inv e" "size_of e = size_of ?m"
    "\<And>p q. in_text p \<Longrightarrow> \<exists>hds p'. HandleStream env graphemes (ne_string now ne) (with_ps p q ?m) = Some (hds, ne_string now ne, with_ps p' q e)"
    using HandleStream_with_ps [OF assms(1) 3(1) bar_text [OF assms(2)]] by metis
  obtain hds p where h: "HandleStream env graphemes (ne_string now ne) ?m = Some (hds, ne_string now ne, with_ps p (em_selectionStore ?m) e)"
    using e(3) [of "em_parser ?m" "em_selectionStore ?m", unfolded with_ps_self] assms(4) 3(2) by auto
  show thesis
  proof (rule that)
    show "ne_apply env graphemes now ne emu = Some (with_ps p (em_selectionStore ?m) e)"
      using 2(1) h unfolding ne_apply_def emu1_def if_not_P [OF False] by (simp add: Let_def)
    show "emu_inv (with_ps p (em_selectionStore ?m) e)" using e(1) by (simp add: with_ps_def)
    show "em_nCols (with_ps p (em_selectionStore ?m) e) = em_nCols emu" using e(2) 3(3) by (simp add: size_of_def with_ps_def)
  qed
qed

lemma frame_applied:
  assumes "fst (GetDiff c) = d" "engine_inv pe"
  shows "engine_inv (snd (frame_text d pe))"
  using assms by (auto simp: frame_text_def GetApplied_def ClearApplied_def engine_inv_def pe_wf_def Let_def)

text \<open>A frame is made in any state of the predictions and of the message bar.\<close>

lemma frame_total:
  assumes "sc_network sc = Some net" "latest_state net = Some (Some c)" "terminal_ok c" "client_ok sc"
    and "ascii_clusters (fe_graphemes env)" "bar_printable (om_notifications (sc_overlays sc))"
  obtains pe pe' e sc' where "cull (emu_Clone (cp_terminal c)) (fst ck) (om_predictions (sc_overlays sc)) = Some pe"
    "pe_apply (emu_Clone (cp_terminal c)) pe = Some (pe', e)"
    "outputNewFrame env ck sc = Some (fst (frame_text (cp_diffBuf c) pe'), sc')"
    "sc_network sc' = Some (set_latest_state (Some (snd (GetDiff c))) net)"
    "client_ok sc'" "om_predictions (sc_overlays sc') = snd (frame_text (cp_diffBuf c) pe')"
    "bar_printable (om_notifications (sc_overlays sc'))"
proof -
  let ?t = "emu_Clone (cp_terminal c)" and ?pe = "om_predictions (sc_overlays sc)" and ?ne = "adjustMessage (fst (snd ck)) (om_notifications (sc_overlays sc))"
  have t: "emu_inv ?t" "em_nCols ?t = em_nCols (cp_terminal c)" using assms(3) by (simp_all add: clone_inv terminal_ok_def)
  have "em_parser ?t = NewParser" using emu_Clone_with_ps [of "cp_terminal c"] by (auto simp: with_ps_def)
  then have clean: "in_text (em_parser ?t)" by (simp add: in_text_NewParser)
  obtain pe where pe: "cull ?t (fst ck) ?pe = Some pe" "engine_inv pe"
    using cull_ok [OF t(1), of ?pe "fst ck"] assms(4) by (auto simp: client_ok_def ok_iff)
  obtain pe' e where pe': "pe_apply ?t pe = Some (pe', e)" "screen_kept ?t e" "pe' = pe\<lparr>pe_diff := pe_diff pe'\<rparr>"
    using pe_apply_kept [OF t(1), of pe] by (auto simp: ok_iff)
  have "engine_inv (pe\<lparr>pe_diff := ds\<rparr>)" for ds using pe(2) by (simp add: engine_inv_def pe_wf_def)
  then have inv: "engine_inv pe'" using pe'(3) by metis
  obtain e' where e': "ne_apply (fe_term env) (fe_graphemes env) (snd (snd ck)) ?ne e = Some e'" "emu_inv e'" "em_nCols e' = em_nCols e"
    using ne_apply_ok [OF assms(5) adjust_printable [OF assms(6)], of e "fe_term env" "snd (snd ck)"] pe'(2) clean
    by (auto simp: screen_kept_def)
  let ?e = "prefixWindowTitle (om_title (sc_overlays sc)) e'"
  let ?sc = "sc\<lparr>sc_newState := Some ?e, sc_localFramebuffer := Some ?e,
      sc_network := Some (set_latest_state (Some (snd (GetDiff c))) net),
      sc_overlays := (sc_overlays sc)\<lparr>om_predictions := snd (frame_text (cp_diffBuf c) pe'), om_notifications := ?ne\<rparr>, sc_repaintRequested := False\<rparr>"
  have "fst (GetDiff c) = cp_diffBuf c" by (simp add: GetDiff_def)
  then have "outputNewFrame env ck sc = Some (fst (frame_text (cp_diffBuf c) pe'), ?sc)"
    using assms(1,2) pe(1) pe'(1) e'(1) by (simp add: outputNewFrame_def om_Apply_def case_prod_beta Let_def)
  moreover have "emu_inv ?e" "em_nCols ?e = em_nCols (cp_terminal c)"
    using e' pe'(2) t by (auto simp: prefixWindowTitle_def Let_def screen_kept_def)
  then have "client_ok ?sc"
    using assms(3,4) frame_applied [OF refl inv, of c] by (simp add: client_ok_def terminal_ok_def GetDiff_def)
  ultimately show thesis
    using that [of pe pe' e ?sc] pe(1) pe'(1) adjust_printable [OF assms(6)] by simp
qed

text \<open>No predictions, and nothing of them to draw.\<close>

definition no_predictions :: "('sock, 'addr) stmClient \<Rightarrow> bool" where
  "no_predictions sc \<longleftrightarrow> pe_overlays (om_predictions (sc_overlays sc)) = [] \<and> pe_cursors (om_predictions (sc_overlays sc)) = [] \<and>
     pe_diff (om_predictions (sc_overlays sc)) = []"

lemma frame_unpredicted:
  assumes "sc_network sc = Some net" "latest_state net = Some (Some c)" "terminal_ok c" "client_ok sc"
    and "ascii_clusters (fe_graphemes env)" "bar_printable (om_notifications (sc_overlays sc))" "no_predictions sc" "\<not> drawn sc"
  obtains sc' where "outputNewFrame env ck sc = Some (cp_diffBuf c, sc')"
    "sc_network sc' = Some (set_latest_state (Some (snd (GetDiff c))) net)" "client_ok sc'"
    "bar_printable (om_notifications (sc_overlays sc'))" "no_predictions sc'" "\<not> drawn sc'"
proof -
  let ?pe0 = "om_predictions (sc_overlays sc)"
  have q: "pe_overlays ?pe0 = []" "pe_cursors ?pe0 = []" "pe_diff ?pe0 = []" "engine_inv ?pe0"
    using assms(4,7) by (simp_all add: no_predictions_def client_ok_def)
  obtain pe pe' e sc' where f: "cull (emu_Clone (cp_terminal c)) (fst ck) ?pe0 = Some pe"
    "pe_apply (emu_Clone (cp_terminal c)) pe = Some (pe', e)"
    "outputNewFrame env ck sc = Some (fst (frame_text (cp_diffBuf c) pe'), sc')"
    "sc_network sc' = Some (set_latest_state (Some (snd (GetDiff c))) net)"
    "client_ok sc'" "om_predictions (sc_overlays sc') = snd (frame_text (cp_diffBuf c) pe')"
    "bar_printable (om_notifications (sc_overlays sc'))"
    using frame_total [OF assms(1-6), of ck] by metis
  have "pe_overlays pe = []" "pe_cursors pe = []" "pe_diff pe = []" "\<not> pe_applied pe"
    using cull_idle [OF q(1,2,4), of "emu_Clone (cp_terminal c)" "fst ck"] f(1) q(3) assms(8) by (auto simp: drawn_def)
  then have "pe_overlays pe' = []" "pe_cursors pe' = []" "pe_diff pe' = []" "\<not> pe_applied pe'"
    using f(2) by (auto simp: pe_apply_def split: if_splits)
  then show thesis
    using that [OF _ f(4,5,7)] f(3,6) by (auto simp: frame_text_def GetApplied_def ClearApplied_def no_predictions_def drawn_def)
qed

text \<open>
  C5. What the server prints is shown, when no predictions are open and none has been drawn: a printable text that
  arrives as host bytes is applied to a clone of the client's last state, and the next frame writes exactly this text
  to the terminal of the user, and the frame after it nothing. What the message bar shows does not matter, as long as
  it can be printed; the window is wider than one column. After a drawn prediction the text is lost (C23).
\<close>

theorem text_shown:
  assumes "ascii_clusters (fe_graphemes env)" "host_codec marshal unmarshal"
    and "fe_host env = complete_ops marshal unmarshal (fe_term env) (fe_graphemes env)"
    and "terminal_ok k" "in_text (em_parser (cp_terminal k))" "list_all printable s"
    and "sc_network sc = Some net"
    and "latest_state net = Some (fst (so_ApplyString (fe_host env) (marshal [host_none\<lparr>hi_hostbytes := Some s\<rparr>])
      (so_Clone (fe_host env) (Some k))))"
    and "no_predictions sc" "\<not> drawn sc" "client_ok sc" "bar_printable (om_notifications (sc_overlays sc))"
  shows "\<exists>sc' sc''. outputNewFrame env ck sc = Some (s, sc') \<and> outputNewFrame env ck' sc' = Some ([], sc'') \<and> client_ok sc''"
proof -
  have k: "emu_inv (cp_terminal k)" "1 < em_nCols (cp_terminal k)" using assms(4) by (simp_all add: terminal_ok_def)
  obtain e p q p' q' where e: "emu_inv e" "size_of e = size_of (cp_terminal k)"
    "\<exists>out. Act (fe_term env) (fe_graphemes env) s (Complete_Clone k) =
      Some (out, (Complete_Clone k)\<lparr>cp_terminal := with_ps p' q' e, cp_diffBuf := s\<rparr>)"
    using Act_text [OF assms(1) k(1) assms(5,6), of "fe_term env"] by metis
  let ?c = "(Complete_Clone k)\<lparr>cp_terminal := with_ps p' q' e, cp_diffBuf := s\<rparr>"
  have latest: "latest_state net = Some (Some ?c)"
    using assms(2,3,8) e(3)
    by (auto simp: complete_ops_def Let_def Complete_ApplyString_def host_codec_def apply_host_inst_def host_none_def)
  have ok: "terminal_ok ?c" using e(1,2) k(2) by (auto simp: terminal_ok_def with_ps_def size_of_def)
  obtain sc' where 1: "outputNewFrame env ck sc = Some (s, sc')" "sc_network sc' = Some (set_latest_state (Some (snd (GetDiff ?c))) net)"
    "client_ok sc'" "bar_printable (om_notifications (sc_overlays sc'))" "no_predictions sc'" "\<not> drawn sc'"
    using frame_unpredicted [OF assms(7) latest ok assms(11,1,12,9,10), of ck] by auto
  obtain sc'' where 2: "outputNewFrame env ck' sc' = Some ([], sc'')" "client_ok sc''"
    using frame_unpredicted [OF 1(2) latest_set [OF latest] GetDiff_fields(1) [OF ok] 1(3) assms(1) 1(4-6), of ck']
    by (auto simp: GetDiff_fields(2))
  show ?thesis using 1(1) 2 by blast
qed



section \<open>The end\<close>

lemma set_latest_sender [simp]: "tr_sender (set_latest_state r net) = tr_sender net" "tr_connection (set_latest_state r net) = tr_connection net"
  by (simp_all add: set_latest_state_def split: option.split)

text \<open>
  C24. A shutdown ends, whatever predictions are open and whatever printable message is shown, such as the one that a quit
  sequence, the end of the input or a signal leaves there, and also while the silence of the server is counted, in a window wider than one column. Once
  the server has not answered the shutdown for ten seconds, or to more than sixteen tries, the next turn of the main
  loop that the timer starts is the last one; no datagram, key or signal is needed for it.
\<close>

theorem shutdown_turn_ends:
  assumes "sc_network sc = Some net" "latest_state net = Some (Some c)" "terminal_ok c" "client_ok sc"
    and "ascii_clusters (fe_graphemes env)" "bar_printable (om_notifications (sc_overlays sc))"
    and "ShutdownInProgress net" "sd_sentStates (tr_sender net) \<noteq> []" "tn_event tn = Timer"
    and "sd_shutdownTries (tr_sender net) > SHUTDOWN_RETRIES \<or> tn_now tn - sd_shutdownStart (tr_sender net) \<ge> ACTIVE_RETRY_TIMEOUT"
  shows "\<exists>out sc'. client_turn env tn no_signals sc = Some (Break, out, [], no_signals, sc')"
proof -
  obtain out sc1 where sc1: "outputNewFrame env (tn_frame tn) sc = Some (out, sc1)"
    "sc_network sc1 = Some (set_latest_state (Some (snd (GetDiff c))) net)"
    using frame_total [OF assms(1-6), of "tn_frame tn"] by metis
  let ?net = "set_latest_state (Some (snd (GetDiff c))) net"
  obtain ts where ts: "calculateTimers (fe_user env) (tn_wait tn) (tr_connection net) (tr_sender net) = Some ts"
    "sd_sentStates ts \<noteq> []"
    using calculateTimers_total [OF assms(8)] by blast
  let ?net2 = "?net\<lparr>tr_sender := ts\<rparr>"
  have wait: "\<exists>w. WaitTime (fe_user env) (tn_wait tn) ?net = Some (w, ?net2)"
    using ts by (simp add: WaitTime_def waitTime_def Let_def)
  have prog: "ShutdownInProgress ?net2" "ShutdownAckTimedout (tn_now tn) ?net2"
    using assms(7,10) calculateTimers_same(2) [OF ts(1)] calculateTimers_shutdown [OF ts(1)]
    by (auto simp: ShutdownInProgress_def ShutdownAckTimedout_def shutdownAckTimedout_def)
  moreover have "\<exists>b. ShutdownAcknowledged ?net2 = Some b"
    using ts(2) by (simp add: ShutdownAcknowledged_def getShutdownAcknowledged_def list_at_first)
  ultimately have "\<exists>fin. client_done (tn_now tn) ?net2 = Some (Some fin)"
    by (auto simp: client_done_def)
  then obtain fin where fin: "client_done (tn_now tn) ?net2 = Some (Some fin)" by blast
  have "got_any [SIGTERM, SIGINT, SIGHUP, SIGPIPE] no_signals = (False, no_signals)" by simp
  then have checks: "\<exists>sc'. client_checks env tn out no_signals (sc1\<lparr>sc_network := Some ?net2\<rparr>) = Some (Break, out, [], no_signals, sc')" for out
    using fin by (simp add: client_checks_def Let_def)
  have "client_select env tn no_signals (sc1\<lparr>sc_network := Some ?net2\<rparr>) = Some (Go_on, [], no_signals, sc1\<lparr>sc_network := Some ?net2\<rparr>)"
    using assms(9) by (simp add: client_select_def)
  then show ?thesis
    using sc1 wait checks [of out] by (auto simp: client_turn_def)
qed


section \<open>Witnesses\<close>

definition sample_front :: front_env where
  "sample_front = \<lparr>fe_term = plain_env, fe_graphemes = byte_clusters, fe_user = user_ops plain_marshal plain_unmarshal byte_clusters,
     fe_host = complete_ops plain_host_marshal plain_host_unmarshal plain_env byte_clusters,
     fe_zread = (\<lambda>b. None), fe_unmarshal = (\<lambda>b. None)\<rparr>"

definition sample_net :: "complete option \<Rightarrow> (nat, nat) client_net" where
  "sample_net r = (new_transport (fe_user sample_front) (fe_host sample_front) 0 0 [] r sample_conn [])\<lparr>tr_store := [r]\<rparr>"

definition sample_client :: "complete option \<Rightarrow> (nat, nat) stmClient" where
  "sample_client r = (newSTMClient plain_env [] 0 0 \<lparr>cg_host = [], cg_port = 8101, cg_key = [], cg_predictMode = [],
     cg_predictOverwrite = []\<rparr>)\<lparr>sc_localFramebuffer := Some blank20x5, sc_network := Some (sample_net r)\<rparr>"

lemma sample_front_fields:
  "fe_term sample_front = plain_env" "fe_graphemes sample_front = byte_clusters" "\<And>s. 0 \<le> te_width (fe_term sample_front) s"
  "fe_host sample_front = complete_ops plain_host_marshal plain_host_unmarshal plain_env byte_clusters"
  by (simp_all add: sample_front_def plain_env_def)

lemma sample_client_ok:
  "client_ok (sample_client r)" "idle (sample_client r)" "\<not> drawn (sample_client r)" "sc_network (sample_client r) = Some (sample_net r)"
  "latest_state (sample_net r) = Some r" "\<not> ShutdownInProgress (sample_net r)" "sd_sentStates (tr_sender (sample_net r)) \<noteq> []"
  "\<not> needCountup 5 (om_notifications (sc_overlays (sample_client r)))" "stream (sample_client r) = []"
  "sc_escapeKey (sample_client r) = 0x1E" "sc_escapePassKey (sample_client r) = 94" "sc_escapePassKey2 (sample_client r) = 94"
  "\<not> sc_quitSequenceStarted (sample_client r)"
  using newPredictionEngine_inv blank20x5_inv
  by (simp_all add: client_ok_def idle_def drawn_def sample_client_def newSTMClient_def NewOverlayManager_def newNotificationEngien_def
      newPredictionEngine_def sample_net_def new_transport_def NewTransportSender_def latest_state_def GetLatestRemoteState_def
      list_at_def ShutdownInProgress_def needCountup_def serverLate_def replyLate_def stream_def blank20x5_fields Let_def)

lemma sample_bar: "bar_printable (om_notifications (sc_overlays (sample_client r)))" "no_predictions (sample_client r)"
  by (simp_all add: bar_printable_def no_predictions_def sample_client_def newSTMClient_def NewOverlayManager_def newNotificationEngien_def
      newPredictionEngine_def Let_def)

lemma blank_state_ok: "terminal_ok blank_state" "in_text (em_parser (cp_terminal blank_state))"
  using blank20x5_inv by (simp_all add: terminal_ok_def blank_state_fields blank20x5_fields in_text_NewParser)


lemma text_shown_witness:
  "\<exists>sc' sc''. outputNewFrame sample_front (5, 5, 5) (sample_client (fst (so_ApplyString (fe_host sample_front)
        (plain_host_marshal [host_none\<lparr>hi_hostbytes := Some ''make all''\<rparr>]) (so_Clone (fe_host sample_front) (Some blank_state)))))
      = Some (''make all'', sc') \<and> outputNewFrame sample_front (20005, 20005, 20005) sc' = Some ([], sc'')"
proof -
  have p: "list_all printable ''make all''" by (simp add: printable_def)
  show ?thesis
    using text_shown [OF _ plain_host_codec _ blank_state_ok p sample_client_ok(4,5), of sample_front "(5, 5, 5)" "(20005, 20005, 20005)"]
      byte_clusters_ascii sample_client_ok(1,3) sample_bar
    by (auto simp: sample_front_fields)
qed


text \<open>A shutdown that the user has asked for, as \<open>processUserInput\<close> leaves it.\<close>

definition quitting_client :: "(nat, nat) stmClient" where
  "quitting_client = on_network (StartShutdown 5) (on_notifications (SetNotificationString 5 ''Exiting on user request...'' True True)
     (sample_client (Some blank_state)))"

lemma shutdown_turn_ends_witness:
  "let tn = \<lparr>tn_frame = (10005, 10005, 10005), tn_wait = sample_clock, tn_event = Timer, tn_payload = (0, 0), tn_keys = (\<lambda>k. (0, 0, 0)),
        tn_now = 10005, tn_restored = (True, True), tn_size = None, tn_clock = sample_clock, tn_send = sample_env, tn_error = []\<rparr>
   in needCountup 10005 (om_notifications (sc_overlays quitting_client)) \<and>
      (\<exists>out sc'. client_turn sample_front tn no_signals quitting_client = Some (Break, out, [], no_signals, sc'))"
proof -
  have net: "sc_network quitting_client = Some (StartShutdown 5 (sample_net (Some blank_state)))" "client_ok quitting_client"
    using sample_client_ok(1) [of "Some blank_state"] by (auto simp: quitting_client_def sample_client_ok(4) client_ok_def)
  have bar: "bar_printable (om_notifications (sc_overlays quitting_client))" "needCountup 10005 (om_notifications (sc_overlays quitting_client))"
    using sample_bar [of "Some blank_state"]
    by (simp_all add: quitting_client_def on_notifications_def on_network_def SetNotificationString_def bar_printable_def printable_def
        needCountup_def serverLate_def sample_client_def newSTMClient_def NewOverlayManager_def newNotificationEngien_def Let_def)
  have "latest_state (StartShutdown 5 (sample_net (Some blank_state))) = Some (Some blank_state)"
    "sd_sentStates (tr_sender (StartShutdown 5 (sample_net (Some blank_state)))) \<noteq> []"
    "ShutdownInProgress (StartShutdown 5 (sample_net (Some blank_state)))"
    "sd_shutdownStart (tr_sender (StartShutdown 5 (sample_net (Some blank_state)))) = 5"
    using sample_client_ok(5-7) [of "Some blank_state"]
    by (auto simp: StartShutdown_def startShutdown_def ShutdownInProgress_def latest_state_def GetLatestRemoteState_def)
  then show ?thesis
    unfolding Let_def
    by (intro conjI [OF bar(2)] shutdown_turn_ends [OF net(1) _ blank_state_ok(1) net(2) _ bar(1)])
      (simp_all add: ACTIVE_RETRY_TIMEOUT_def byte_clusters_ascii sample_front_fields(2))
qed

end
