(* ===== verification/Serve.thy ===== *)
theory Serve
  imports FrontEnd
begin

text \<open>
  \<open>serve\<close> of \<open>frontend/server/server.go\<close>: the main loop of the process that serves one client, between the
  socket and the terminal of the shell.

  The state that is sent and the variable \<open>complete\<close> of the loop are the same object, so it is kept in one
  place, the current state of the sender. One turn of the loop takes the event that \<open>select\<close> receives,
  the readings of the clock and the results of system calls. What is written to the shell and to the
  socket is part of the result. The goroutines of \<open>ActLarge\<close> that wait to wake up the loop are a list.
  Records in utmp and syslog, and the names they keep, are left out. \<open>None\<close> is a panic.
\<close>

section \<open>State\<close>

datatype input_echo = Standby | InputReady | EchoDone

type_synonym ('sock, 'addr) server_net = "(complete option, 'sock, 'addr, user_stream) transport"

record ('sock, 'addr) serve_state =
  sv_server :: "('sock, 'addr) server_net"
  sv_lastRemoteNum :: "64 word"
  sv_timeSinceRemoteState :: int
  sv_childReleased :: bool
  sv_inputEcho :: input_echo
  sv_largeFeed :: "string list"

text \<open>An operation on the terminal of the loop.\<close>

definition on_complete ::
  "(complete \<Rightarrow> ('x \<times> complete) option) \<Rightarrow> ('sock, 'addr) server_net \<Rightarrow> ('x \<times> ('sock, 'addr) server_net) option" where
  "on_complete f net = do {
     c \<leftarrow> sd_currentState (tr_sender net);
     (x, c1) \<leftarrow> f c;
     Some (x, on_current (\<lambda>_. Some c1) net)
   }"

text \<open>The timeouts of the environment; a number out of range is reported, but kept.\<close>

definition ParseInt :: "string \<Rightarrow> int \<times> bool" where
  "ParseInt s =
     (let neg = has_prefix s ''-'';
          ds = (if neg \<or> has_prefix s ''+'' then drop 1 s else s);
          v = (if neg then - digits_value ds else digits_value ds)
      in if ds = [] \<or> \<not> list_all is_digit ds then (0, False)
         else if v < - (2 ^ 63) then (- (2 ^ 63), False)
         else if v \<ge> 2 ^ 63 then (2 ^ 63 - 1, False)
         else (v, True))"

definition getTimeFrom :: "string option \<Rightarrow> int \<Rightarrow> int" where
  "getTimeFrom env dflt =
     (case env of
        None \<Rightarrow> dflt
      | Some v \<Rightarrow> let (n, good) = ParseInt v in if good \<and> n < 0 then 0 else n)"

definition scale_timeout :: "int \<Rightarrow> int" where
  "scale_timeout seconds = sint (word_of_int (seconds * 1000) :: 64 word)"

definition serve_start :: "('sock, 'addr) server_net \<Rightarrow> ('sock, 'addr) serve_state option" where
  "serve_start server = do {
     num \<leftarrow> GetRemoteStateNum server;
     Some \<lparr>sv_server = server, sv_lastRemoteNum = num, sv_timeSinceRemoteState = 0, sv_childReleased = False,
           sv_inputEcho = Standby, sv_largeFeed = []\<rparr>
   }"

section \<open>How long to sleep\<close>

definition serve_timeout ::
  "complete option state_ops \<Rightarrow> int \<Rightarrow> int \<Rightarrow> clock \<Rightarrow> ('sock, 'addr) server_net
     \<Rightarrow> (int \<times> ('sock, 'addr) server_net) option" where
  "serve_timeout ops networkTimeoutMs now ck net = do {
     (w0, net1) \<leftarrow> WaitTime ops ck net;
     c \<leftarrow> sd_currentState (tr_sender net1);
     num \<leftarrow> GetRemoteStateNum net1;
     rs \<leftarrow> GetLatestRemoteState net1;
     let t1 = min (min 32767 w0) (Complete_WaitTime now c);
     let t2 = (if num > 0 \<or> ShutdownInProgress net1 then min t1 5000 else t1);
     let networkSleep = max 0 (min 32767 (networkTimeoutMs - (now - tm_timestamp rs)));
     Some (if networkTimeoutMs > 0 then min t2 networkSleep else t2, net1)
   }"

section \<open>Input of the user\<close>

text \<open>What is done to the outside: text for the shell, and the sizes that its terminal is given.\<close>

record effects =
  ef_host :: string
  ef_sizes :: "(64 word \<times> 64 word) list"

fun act_of :: "user_event \<Rightarrow> act_on" where
  "act_of (UserByteType chs) = UserByte chs"
| "act_of (ResizeType w h) = Resize w h"

definition is_resize :: "user_event \<Rightarrow> bool" where
  "is_resize e = (case e of ResizeType w h \<Rightarrow> True | UserByteType chs \<Rightarrow> False)"

text \<open>
  A change of the window size: the two system calls may fail, which starts a shutdown. Before the shell
  runs, the first sent state gets the size too. The fields of a size are 16 bits wide.
\<close>

definition serve_resize ::
  "complete option state_ops \<Rightarrow> int \<Rightarrow> bool \<times> bool \<Rightarrow> bool \<Rightarrow> int \<Rightarrow> int \<Rightarrow> ('sock, 'addr) server_net
     \<Rightarrow> ((64 word \<times> 64 word) list \<times> ('sock, 'addr) server_net) option" where
  "serve_resize ops now ioctl released w h net = do {
     let net1 = (if fst ioctl then net else StartShutdown now net);
     let net2 = (if snd ioctl then net1 else StartShutdown now net1);
     net3 \<leftarrow> (if released then Some net2 else transport_InitSize ops w h net2);
     Some (if snd ioctl then [(word_of_int (w mod 65536), word_of_int (h mod 65536))] else [], net3)
   }"

text \<open>The loop over the new events; of consecutive sizes only the last counts.\<close>

fun apply_events ::
  "complete option state_ops \<Rightarrow> int \<Rightarrow> bool \<times> bool \<Rightarrow> bool \<Rightarrow> user_stream \<Rightarrow> ('sock, 'addr) server_net
     \<Rightarrow> (effects \<times> ('sock, 'addr) server_net) option" where
  "apply_events ops now ioctl released [] net = Some (\<lparr>ef_host = [], ef_sizes = []\<rparr>, net)"
| "apply_events ops now ioctl released (e # es) net =
     (if is_resize e \<and> es \<noteq> [] \<and> is_resize (hd es) then apply_events ops now ioctl released es net
      else do {
        (sizes, net1) \<leftarrow> (case e of
            ResizeType w h \<Rightarrow> serve_resize ops now ioctl released w h net
          | UserByteType chs \<Rightarrow> Some ([], net));
        (out, net2) \<leftarrow> on_complete (ActOne (act_of e)) net1;
        (ef, net3) \<leftarrow> apply_events ops now ioctl released es net2;
        Some (\<lparr>ef_host = out @ ef_host ef, ef_sizes = sizes @ ef_sizes ef\<rparr>, net3)
      })"

record serve_env =
  se_host :: "complete option state_ops"
  se_user :: "user_stream state_ops"
  se_term :: term_env
  se_graphemes :: "string \<Rightarrow> (rune list \<times> nat) list"
  se_zread :: "bytes \<Rightarrow> (bytes \<times> read_err) option"
  se_unmarshal :: "bytes \<Rightarrow> instruction option"
  se_networkTimeoutMs :: int
  se_networkSignaledTimeoutMs :: int

text \<open>
  A datagram. When it brings a new state, the events that the state adds go to the terminal and the shell,
  and the frame is registered for its echo acknowledgement. A new state releases the shell.
\<close>

definition serve_network ::
  "serve_env \<Rightarrow> int \<times> int \<Rightarrow> int \<Rightarrow> bool \<times> bool \<Rightarrow> bytes \<Rightarrow> ('sock, 'addr) serve_state
     \<Rightarrow> (effects \<times> ('sock, 'addr) serve_state) option" where
  "serve_network env pck now ioctl s sv = do {
     (err, net1) \<leftarrow> ProcessPayload (se_zread env) (se_unmarshal env) (se_user env) (fst pck) (snd pck) s (sv_server sv);
     num \<leftarrow> GetRemoteStateNum net1;
     if num = sv_lastRemoteNum sv then Some (\<lparr>ef_host = [], ef_sizes = []\<rparr>, sv\<lparr>sv_server := net1\<rparr>)
     else do {
       (diff, net2) \<leftarrow> GetRemoteDiff (se_user env) net1;
       let us = fst (so_ApplyString (se_user env) diff []);
       (ef, net3) \<leftarrow> apply_events (se_host env) now ioctl (sv_childReleased sv) us net2;
       (_, net4) \<leftarrow> on_complete (\<lambda>c. Some ((), if us \<noteq> [] then RegisterInputFrame num now c else c)) net3;
       let net5 = (if ShutdownInProgress net4 then net4 else on_current (so_ResetInput (se_host env)) net4);
       Some (ef, sv\<lparr>sv_server := net5, sv_lastRemoteNum := num, sv_childReleased := True,
         sv_inputEcho := if ef_host ef \<noteq> [] \<and> sv_inputEcho sv = Standby then InputReady else sv_inputEcho sv\<rparr>)
     }
   }"

section \<open>Output of the shell\<close>

text \<open>\<open>echo\<close> is the next value of \<open>inputEcho\<close>.\<close>

definition serve_output ::
  "serve_env \<Rightarrow> string \<Rightarrow> input_echo \<Rightarrow> ('sock, 'addr) serve_state \<Rightarrow> (effects \<times> ('sock, 'addr) serve_state) option" where
  "serve_output env str echo sv = do {
     ((out, remains), net1) \<leftarrow> on_complete (\<lambda>c. do {
         (out, remains, c1) \<leftarrow> ActLarge (se_term env) (se_graphemes env) str c;
         Some ((out, remains), c1)
       }) (sv_server sv);
     Some (\<lparr>ef_host = out, ef_sizes = []\<rparr>,
       sv\<lparr>sv_server := on_current (so_ResetInput (se_host env)) net1, sv_inputEcho := echo,
         sv_largeFeed := sv_largeFeed sv @ (if remains then [[]] else [])\<rparr>)
   }"

section \<open>One turn\<close>

datatype serve_event =
  Serve_timer
| Serve_signal int
| Socket_error
| Socket_data bytes
| Large_feed
| Master_error
| Master_data string

record ('sock, 'addr) serve_turn =
  st_before :: int
  st_wait :: clock
  st_event :: serve_event
  st_now :: int
  st_payload :: "int \<times> int"
  st_ioctl :: "bool \<times> bool"
  st_written :: bool
  st_clock :: clock
  st_send :: "('sock, 'addr) send_env"

definition no_effects :: effects where
  "no_effects = \<lparr>ef_host = [], ef_sizes = []\<rparr>"

text \<open>The event; \<open>None\<close> inside starts the loop again. A feed waits only after a send to the channel.\<close>

definition serve_select ::
  "serve_env \<Rightarrow> ('sock, 'addr) serve_turn \<Rightarrow> signals \<Rightarrow> ('sock, 'addr) serve_state
     \<Rightarrow> (effects \<times> signals \<times> ('sock, 'addr) serve_state) option option" where
  "serve_select env tn sg sv = do {
     rs \<leftarrow> GetLatestRemoteState (sv_server sv);
     let sv1 = sv\<lparr>sv_timeSinceRemoteState := st_now tn - tm_timestamp rs\<rparr>;
     let busy = ShutdownInProgress (sv_server sv);
     (case st_event tn of
        Serve_timer \<Rightarrow> Some (Some (no_effects, sg, sv1))
      | Serve_signal s \<Rightarrow> Some (Some (no_effects, signal_Handler s sg, sv1))
      | Socket_error \<Rightarrow> Some None
      | Socket_data s \<Rightarrow> do {
          (ef, sv2) \<leftarrow> serve_network env (st_payload tn) (st_now tn) (st_ioctl tn) s sv1;
          Some (Some (ef, sg, sv2))
        }
      | Large_feed \<Rightarrow>
          (case sv_largeFeed sv1 of
             [] \<Rightarrow> Some None
           | remains # feeds \<Rightarrow>
               let sv2 = sv1\<lparr>sv_largeFeed := feeds\<rparr>
               in if busy then Some (Some (no_effects, sg, sv2))
                  else do { (ef, sv3) \<leftarrow> serve_output env remains EchoDone sv2; Some (Some (ef, sg, sv3)) })
      | Master_error \<Rightarrow> Some (Some (no_effects, sg,
          if \<not> busy \<and> \<not> AnySignal sg then sv1\<lparr>sv_server := StartShutdown (st_now tn) (sv_server sv1)\<rparr> else sv1))
      | Master_data str \<Rightarrow>
          if busy then Some (Some (no_effects, sg, sv1))
          else do {
            (ef, sv2) \<leftarrow> serve_output env str
              (if sv_inputEcho sv1 = InputReady then EchoDone else sv_inputEcho sv1) sv1;
            Some (Some (ef, sg, sv2))
          })
   }"

text \<open>Idle time, signals and shutdown. \<open>True\<close> leaves the loop.\<close>

definition serve_signals ::
  "serve_env \<Rightarrow> int \<Rightarrow> signals \<Rightarrow> ('sock, 'addr) serve_state \<Rightarrow> bool \<times> signals \<times> ('sock, 'addr) serve_state" where
  "serve_signals env now sg sv =
     (let idle1 = (se_networkTimeoutMs env > 0 \<and> se_networkTimeoutMs env \<le> sv_timeSinceRemoteState sv);
          (usr1, sg1) = GotSignal SIGUSR1 sg;
          idle2 = (idle1 \<or> usr1 \<and> (se_networkSignaledTimeoutMs env = 0 \<or>
                     se_networkSignaledTimeoutMs env \<le> sv_timeSinceRemoteState sv));
          net = sv_server sv
      in if AnySignal sg1 \<or> idle2 then
           (if HasRemoteAddr net \<and> \<not> ShutdownInProgress net
            then (False, signals_Clear sg1, sv\<lparr>sv_server := StartShutdown now net\<rparr>)
            else (True, signals_Clear sg1, sv))
         else (False, sg1, sv))"

definition serve_done :: "int \<Rightarrow> ('sock, 'addr) server_net \<Rightarrow> bool option" where
  "serve_done now net = do {
     acked \<leftarrow> (if ShutdownInProgress net then ShutdownAcknowledged net else Some False);
     Some (acked \<or> ShutdownInProgress net \<and> ShutdownAckTimedout now net \<or> CounterpartyShutdownAckSent net)
   }"

text \<open>The acknowledgement of echoes, the round of the sender, and whether the client is gone for good.\<close>

definition serve_tick ::
  "serve_env \<Rightarrow> ('sock, 'addr) serve_turn \<Rightarrow> ('sock, 'addr) serve_state
     \<Rightarrow> (bool \<times> bytes list \<times> ('sock, 'addr) serve_state) option" where
  "serve_tick env tn sv = do {
     (changed, net1) \<leftarrow> on_complete (\<lambda>c. Some (SetEchoAck (st_now tn) (sv_inputEcho sv = EchoDone) c)) (sv_server sv);
     let net2 = (if changed \<and> \<not> ShutdownInProgress net1 then on_current (so_ResetInput (se_host env)) net1 else net1);
     (sent, datagrams, net3) \<leftarrow> Tick (se_host env) (st_send tn) (st_clock tn) net2;
     num \<leftarrow> GetRemoteStateNum net3;
     gone \<leftarrow> (if num = 0 \<and> ShutdownInProgress net3 then Some True
             else if num \<noteq> 0 \<and> sv_timeSinceRemoteState sv \<ge> TimeoutIfNoResp
             then map_option Not (Awaken (st_now tn) net3) else Some False);
     Some (gone, datagrams, sv\<lparr>sv_server := net3, sv_inputEcho := if sv_inputEcho sv = EchoDone then Standby else sv_inputEcho sv\<rparr>)
   }"

text \<open>
  One turn: does the loop go on, what goes to the shell, the datagrams, the signals and the state. A
  write to the shell that fails starts a shutdown.
\<close>

definition serve_step ::
  "serve_env \<Rightarrow> ('sock, 'addr) serve_turn \<Rightarrow> signals \<Rightarrow> ('sock, 'addr) serve_state
     \<Rightarrow> (bool \<times> effects \<times> bytes list \<times> signals \<times> ('sock, 'addr) serve_state) option" where
  "serve_step env tn sg sv0 = do {
     (timeout, net0) \<leftarrow> serve_timeout (se_host env) (se_networkTimeoutMs env) (st_before tn) (st_wait tn) (sv_server sv0);
     r \<leftarrow> serve_select env tn sg (sv0\<lparr>sv_server := net0\<rparr>);
     (case r of
        None \<Rightarrow> Some (True, no_effects, [], sg, sv0\<lparr>sv_server := net0\<rparr>)
      | Some (ef, sg1, sv1) \<Rightarrow> do {
          let sv2 = (if ef_host ef \<noteq> [] \<and> \<not> st_written tn \<and> \<not> AnySignal sg1
            then sv1\<lparr>sv_server := StartShutdown (st_now tn) (sv_server sv1)\<rparr> else sv1);
          let (stop, sg2, sv3) = serve_signals env (st_now tn) sg1 sv2;
          fin \<leftarrow> (if stop then Some True else serve_done (st_now tn) (sv_server sv3));
          if fin then Some (False, ef, [], sg2, sv3)
          else do {
            (gone, datagrams, sv4) \<leftarrow> serve_tick env tn sv3;
            Some (\<not> gone, ef, datagrams, sg2, sv4)
          }
        })
   }"

fun serve ::
  "serve_env \<Rightarrow> ('sock, 'addr) serve_turn list \<Rightarrow> signals \<Rightarrow> ('sock, 'addr) serve_state
     \<Rightarrow> (bool \<times> effects \<times> bytes list \<times> signals \<times> ('sock, 'addr) serve_state) option" where
  "serve env [] sg sv = Some (True, no_effects, [], sg, sv)"
| "serve env (tn # tns) sg sv = do {
     (more, ef, datagrams, sg1, sv1) \<leftarrow> serve_step env tn sg sv;
     if \<not> more then Some (False, ef, datagrams, sg1, sv1)
     else do {
       (more2, ef2, datagrams2, sg2, sv2) \<leftarrow> serve env tns sg1 sv1;
       Some (more2, \<lparr>ef_host = ef_host ef @ ef_host ef2, ef_sizes = ef_sizes ef @ ef_sizes ef2\<rparr>,
         datagrams @ datagrams2, sg2, sv2)
     }
   }"

end
