(* ===== verification/ServeProps.thy ===== *)
theory ServeProps
  imports Serve CompleteProps SenderProps
begin

text \<open>
  Properties of the main loop of the server: what the user types reaches the shell, key by key and with the
  cursor keys in the mode of the application, but not what is composed of several runes; and a session that is
  asked to end does so.
\<close>

section \<open>Keys for the shell\<close>

text \<open>
  The contract: ESC O and the key after it are one cursor key, which the application gets in its own mode;
  everything else is passed on.
\<close>

fun shell_keys :: "cursorKeyMode \<Rightarrow> rune list \<Rightarrow> string" where
  "shell_keys m [] = []"
| "shell_keys m (r # rs) =
     (if r \<noteq> 0x1B then utf8 r @ shell_keys m rs
      else case rs of
        [] \<Rightarrow> utf8 r
      | s # ss \<Rightarrow>
          if s \<noteq> 79 then utf8 r @ utf8 s @ shell_keys m ss
          else case ss of
            [] \<Rightarrow> utf8 r
          | t # ts \<Rightarrow> utf8 r @ (if m = CursorKeyMode_ANSI \<and> 65 \<le> t \<and> t \<le> 68 then CHR ''['' else CHR ''O'') # utf8 t
              @ shell_keys m ts)"

text \<open>What an automaton that is not in its first state has taken before: the keys that it remembers.\<close>

fun pending_keys :: "userInput \<Rightarrow> rune list" where
  "pending_keys USER_INPUT_GROUND = []"
| "pending_keys USER_INPUT_ESC = [0x1B]"
| "pending_keys USER_INPUT_SS3 = [0x1B, 79]"

text \<open>The keys that count: clusters of a single rune.\<close>

definition single_runes :: "rune list list \<Rightarrow> rune list" where
  "single_runes kss = concat (filter (\<lambda>ks. length ks = 1) kss)"

text \<open>What the automaton of the code writes for clusters.\<close>

fun automaton_keys :: "cursorKeyMode \<Rightarrow> userInput \<Rightarrow> rune list list \<Rightarrow> string" where
  "automaton_keys m u [] = []"
| "automaton_keys m u (ks # kss) =
     (case UserInput_parse ks m u of
        Some (s, u1) \<Rightarrow> s @ automaton_keys m u1 kss | None \<Rightarrow> [])"

lemma parse_one:
  "UserInput_parse [r] m u = Some (case u of
     USER_INPUT_GROUND \<Rightarrow> (utf8 r, if r = 0x1B then USER_INPUT_ESC else u)
   | USER_INPUT_ESC \<Rightarrow> if r = 79 then ([], USER_INPUT_SS3) else (utf8 r, USER_INPUT_GROUND)
   | USER_INPUT_SS3 \<Rightarrow>
       (if m = CursorKeyMode_ANSI \<and> 65 \<le> r \<and> r \<le> 68 then CHR ''['' # utf8 r else CHR ''O'' # utf8 r, USER_INPUT_GROUND))"
  by (simp add: UserInput_parse_def list_at_def)

lemma parse_many: "length ks > 1 \<Longrightarrow> UserInput_parse ks m u = Some ([], u)"
  by (simp add: UserInput_parse_def)

lemma parse_cases:
  assumes "ks \<noteq> []"
  obtains r where "ks = [r]" | "length ks > 1"
  using assms by (cases ks; cases "tl ks") auto

lemma automaton_shell:
  "[] \<notin> set kss \<Longrightarrow> shell_keys m (pending_keys u @ single_runes kss) = shell_keys m (pending_keys u) @ automaton_keys m u kss"
proof (induction kss arbitrary: u)
  case (Cons ks kss)
  from Cons.prems have "ks \<noteq> []" by auto
  then show ?case
  proof (cases rule: parse_cases)
    case (1 r)
    then show ?thesis
      using Cons.IH [of "snd (the (UserInput_parse [r] m u))"] Cons.prems
      by (cases u) (auto simp: parse_one single_runes_def split: if_splits)
  next
    case 2
    then show ?thesis using Cons by (simp add: parse_many single_runes_def)
  qed
qed (simp add: single_runes_def)

lemma type_clusters:
  assumes "sd_currentState (tr_sender net) = Some c" "em_terminalToHost (cp_terminal c) = []" "[] \<notin> set kss"
  shows "\<exists>net'. apply_events ops now ioctl released (map UserByteType kss) net =
    Some (\<lparr>ef_host = automaton_keys (md_cursorKeyMode (em_md (cp_terminal c))) (em_user (cp_terminal c)) kss, ef_sizes = []\<rparr>, net')"
  using assms
proof (induction kss arbitrary: net c)
  case (Cons ks kss)
  let ?m = "md_cursorKeyMode (em_md (cp_terminal c))"
  from Cons.prems(3) have "ks \<noteq> []" by auto
  then obtain s u where p: "UserInput_parse ks ?m (em_user (cp_terminal c)) = Some (s, u)"
    by (cases rule: parse_cases) (use parse_one parse_many in \<open>metis prod.exhaust\<close>)+
  let ?c = "c\<lparr>cp_terminal := (cp_terminal c)\<lparr>em_user := u, em_terminalToHost := []\<rparr>\<rparr>"
  have one: "on_complete (ActOne (UserByte ks)) net = Some (s, on_current (\<lambda>_. Some ?c) net)"
    using Cons.prems p by (simp add: on_complete_def ActOne_def UserByte_Handle_def writePty_def ReadOctetsToHost_def)
  obtain net' where "apply_events ops now ioctl released (map UserByteType kss) (on_current (\<lambda>_. Some ?c) net) =
    Some (\<lparr>ef_host = automaton_keys ?m u kss, ef_sizes = []\<rparr>, net')"
    using Cons.IH [of "on_current (\<lambda>_. Some ?c) net" ?c] Cons.prems(3) by (auto simp: on_current_def)
  then show ?case using one p by (simp add: is_resize_def)
qed simp

text \<open>
  C3. What is typed reaches the shell, key by key. The keys that the client has appended to its stream, as the
  difference that it sends and the server applies to an empty stream, are written to the shell in order; the
  cursor keys (ESC O and a letter) are those of the mode of the application. The automaton of \<open>input.go\<close>, which
  sees one key at a time, so agrees with the contract \<open>shell_keys\<close>, which looks ahead. Two kinds of keys are not
  written: a key of several runes, which is dropped, and the O of an ESC O whose letter has not come yet, which is
  written together with the letter; the keys of earlier messages that the automaton still remembers count in front.
  The keys are the clusters that \<open>uniseg\<close> finds in their text, and no answer of the terminal waits for the shell.
\<close>

theorem keys_reach_shell:
  assumes "codec_law marshal unmarshal" and "map fst (graphemes (concat (map utf8 (concat kss)))) = kss" "[] \<notin> set kss"
    and "sd_currentState (tr_sender net) = Some c" "em_terminalToHost (cp_terminal c) = []"
  shows "\<exists>net' host. apply_events ops now ioctl released (fst (UserStream_ApplyString unmarshal graphemes
      (UserStream_DiffFrom marshal (u @ map UserByteType kss) u) [])) net
    = Some (\<lparr>ef_host = host, ef_sizes = []\<rparr>, net') \<and>
    shell_keys (md_cursorKeyMode (em_md (cp_terminal c))) (pending_keys (em_user (cp_terminal c)) @ single_runes kss) =
      shell_keys (md_cursorKeyMode (em_md (cp_terminal c))) (pending_keys (em_user (cp_terminal c))) @ host"
proof -
  have "stable_input graphemes (map UserByteType kss)"
    unfolding stable_input_def by (intro exI [of _ kss] exI [of _ "[]"]) (simp add: assms(2))
  then have "fst (UserStream_ApplyString unmarshal graphemes
      (UserStream_DiffFrom marshal (u @ map UserByteType kss) u) []) = map UserByteType kss"
    using net_state.apply_diff [OF user_net_state [OF assms(1)]] by (fastforce simp: user_ops_def)
  then show ?thesis using type_clusters [OF assms(4,5,3)] automaton_shell [OF assms(3)] by metis
qed

text \<open>
  C26. A key of several runes is lost. A cluster such as a letter with a combining accent, an emoji of several
  runes, or a pasted CR LF goes to the server as one event, and the shell gets nothing of it.
\<close>

theorem composed_key_lost:
  assumes "codec_law marshal unmarshal" and "map fst (graphemes (concat (map utf8 chs))) = [chs]" and "length chs > 1"
    and "sd_currentState (tr_sender net) = Some c" "em_terminalToHost (cp_terminal c) = []"
  shows "\<exists>net'. apply_events ops now ioctl released (fst (UserStream_ApplyString unmarshal graphemes
      (UserStream_DiffFrom marshal (u @ [UserByteType chs]) u) [])) net
    = Some (\<lparr>ef_host = [], ef_sizes = []\<rparr>, net')"
proof -
  have "stable_input graphemes [UserByteType chs]"
    unfolding stable_input_def
    by (intro exI [of _ "[chs]"] exI [of _ "[]"]) (simp add: assms(2))
  then have "fst (UserStream_ApplyString unmarshal graphemes
      (UserStream_DiffFrom marshal (u @ [UserByteType chs]) u) []) = [UserByteType chs]"
    using net_state.apply_diff [OF user_net_state [OF assms(1)]] by (fastforce simp: user_ops_def)
  then show ?thesis
    using assms(3-5)
    by (simp add: is_resize_def on_complete_def ActOne_def UserByte_Handle_def UserInput_parse_def writePty_def ReadOctetsToHost_def)
qed

section \<open>The end of a session\<close>

definition started :: "('sock, 'addr) server_net \<Rightarrow> int option" where
  "started net = (if ShutdownInProgress net then Some (sd_shutdownStart (tr_sender net)) else None)"

definition net_ok :: "('sock, 'addr) server_net \<Rightarrow> bool" where
  "net_ok net \<longleftrightarrow> sd_sentStates (tr_sender net) \<noteq> [] \<and> tr_receivedState net \<noteq> [] \<and> 128 < getMTU (tr_connection net) \<and>
     sd_currentState (tr_sender net) \<noteq> None"

text \<open>What the loop relies on: \<open>Connection.send\<close> returns and does not lower the MTU below a fragment.\<close>

definition sends_ok :: "('sock, 'addr) send_env \<Rightarrow> bool" where
  "sends_ok env \<longleftrightarrow> (\<forall>k s a c. \<exists>b c'. se_send env k s a c = Some (b, c') \<and> (128 < getMTU c \<longrightarrow> 128 < getMTU c'))"

text \<open>A session that is ending: only a datagram from the client can have an effect.\<close>

definition ending :: "int \<Rightarrow> ('sock, 'addr) serve_state \<Rightarrow> bool" where
  "ending t sv \<longleftrightarrow> net_ok (sv_server sv) \<and> started (sv_server sv) = Some t"

definition no_datagram :: "serve_event \<Rightarrow> bool" where
  "no_datagram e = (case e of Socket_data s \<Rightarrow> False | _ \<Rightarrow> True)"

definition restarts :: "serve_event \<Rightarrow> bool" where
  "restarts e = (case e of Socket_error \<Rightarrow> True | Large_feed \<Rightarrow> True | _ \<Rightarrow> False)"

lemma sends_ok: "sends_ok env \<Longrightarrow> \<exists>r. se_send env k s a c = Some r" "sends_ok env \<Longrightarrow> send_keeps env (\<lambda>c. 128 < getMTU c)"
  unfolding sends_ok_def send_keeps_def by (metis, metis option.inject prod.inject)

lemmas remote_num = GetRemoteStateNum_def GetLatestRemoteState_def

lemma remote_total:
  assumes "net_ok net"
  shows "\<exists>st. GetLatestRemoteState net = Some st" "\<exists>n. GetRemoteStateNum net = Some n"
    "\<exists>b. ShutdownAcknowledged net = Some b" "\<exists>b. Awaken now net = Some b"
  using assms awaken_total [of "tr_receivedState net" now] awaken_total [of "sd_sentStates (tr_sender net)" now]
  by (auto simp: net_ok_def remote_num ShutdownAcknowledged_def Awaken_def
      getShutdownAcknowledged_def list_at_last list_at_first)

lemma serve_done_ok:
  assumes "net_ok net"
  shows "\<exists>fin. serve_done now net = Some fin \<and> (\<forall>t. started net = Some t \<longrightarrow> now - t \<ge> ACTIVE_RETRY_TIMEOUT \<longrightarrow> fin)"
  using remote_total(3) [OF assms]
  by (cases "ShutdownInProgress net")
    (auto simp: serve_done_def started_def ShutdownAckTimedout_def shutdownAckTimedout_def ShutdownInProgress_def)

lemma serve_select_ending:
  assumes "ending t sv" "no_datagram (st_event tn)"
  shows "(serve_select env tn sg sv = Some None \<and> restarts (st_event tn)) \<or>
    (\<exists>sg1 sv1. serve_select env tn sg sv = Some (Some (no_effects, sg1, sv1)) \<and> sv_server sv1 = sv_server sv \<and>
      (sg1 = sg \<or> (\<exists>s. st_event tn = Serve_signal s \<and> sg1 = signal_Handler s sg)))"
proof -
  have "ShutdownInProgress (sv_server sv)" using assms(1) by (auto simp: ending_def started_def split: if_splits)
  moreover obtain rs where "GetLatestRemoteState (sv_server sv) = Some rs"
    using assms(1) remote_total(1) by (auto simp: ending_def)
  ultimately show ?thesis
    using assms(2)
    by (cases "st_event tn") (auto simp: serve_select_def no_datagram_def restarts_def Let_def split: list.split)
qed

lemma serve_signals_ending:
  assumes "started (sv_server sv) = Some t" "sg = no_signals \<or> (\<exists>s. sg = signal_Handler s no_signals)"
  shows "\<exists>stop sg1. serve_signals env now sg sv = (stop, sg1, sv) \<and> (stop \<or> sg1 = no_signals)"
proof -
  have busy: "ShutdownInProgress (sv_server sv)" using assms(1) by (auto simp: started_def split: if_splits)
  obtain usr1 sg1 where g: "GotSignal SIGUSR1 sg = (usr1, sg1)" by fastforce
  have "AnySignal sg1 \<or> sg1 = no_signals"
  proof (cases "sg = no_signals")
    case False
    then obtain s where s: "0 < s" "s < 64" "sg = no_signals[nat s := s]"
      using assms(2)
      by (auto simp: signal_Handler_def no_signals_def MAX_SIGNAL_NUMBER_def list_update_same_conv order_le_less split: if_splits)
    then have sg1: "sg1 = no_signals[nat s := s, 10 := 0]" using g by (simp add: GotSignal_def SIGUSR1_def MAX_SIGNAL_NUMBER_def)
    show ?thesis
    proof (cases "s = 10")
      case True
      then show ?thesis by (simp add: sg1 no_signals_def MAX_SIGNAL_NUMBER_def list_update_same_conv)
    next
      case False
      then have "sg1 ! nat s = s" "nat s < length sg1" using s by (simp_all add: sg1 no_signals_def MAX_SIGNAL_NUMBER_def nat_less_iff)
      then show ?thesis using s(1) by (metis AnySignal_def list_ex_iff nth_mem)
    qed
  qed (use g in simp)
  then show ?thesis using g busy by (auto simp: serve_signals_def Let_def)
qed

lemma sigterm_pending:
  "GotSignal SIGUSR1 (signal_Handler SIGTERM no_signals) = (False, signal_Handler SIGTERM no_signals)"
  "AnySignal (signal_Handler SIGTERM no_signals)" "signals_Clear (signal_Handler SIGTERM no_signals) = no_signals"
proof -
  have s: "signal_Handler SIGTERM no_signals = (replicate 64 0)[15 := 15]"
    by (simp add: signal_Handler_def SIGTERM_def no_signals_def MAX_SIGNAL_NUMBER_def)
  have "(replicate 64 0 :: int list)[10 := 0] = replicate 64 0" by (simp add: list_update_same_conv)
  then show "GotSignal SIGUSR1 (signal_Handler SIGTERM no_signals) = (False, signal_Handler SIGTERM no_signals)"
    by (simp add: s GotSignal_def SIGUSR1_def MAX_SIGNAL_NUMBER_def list_update_swap [of 15 10])
  show "AnySignal (signal_Handler SIGTERM no_signals)"
    unfolding s AnySignal_def list_ex_iff by (intro bexI [of _ 15] set_update_memI) simp_all
  show "signals_Clear (signal_Handler SIGTERM no_signals) = no_signals"
    unfolding s by (simp add: signals_Clear_def map_update map_replicate_const no_signals_def MAX_SIGNAL_NUMBER_def list_update_same_conv)
qed

text \<open>
  What the loop relies on in the state that it sends: cutting off a state that the client knows and forgetting the
  collected output leave a state.
\<close>

locale loop_state =
  fixes ops :: "complete option state_ops"
  assumes subtract: "so_Subtract ops a b = a"
    and reset: "so_Reset ops (Some c) \<noteq> None"
    and reset_input: "so_ResetInput ops (Some c) \<noteq> None"

context loop_state
begin

lemma serve_timeout_ok:
  assumes "net_ok net"
  obtains w net1 where "serve_timeout ops n now ck net = Some (w, net1)" "net_ok net1" "started net1 = started net"
    "HasRemoteAddr net1 = HasRemoteAddr net" "GetRemoteStateNum net1 = GetRemoteStateNum net"
proof -
  obtain ts where ts: "calculateTimers ops ck (tr_connection net) (tr_sender net) = Some ts" "sd_sentStates ts \<noteq> []"
    using calculateTimers_total assms by (fastforce simp: net_ok_def)
  have cur: "sd_currentState ts = sd_currentState (tr_sender net)"
    using calculateTimers_shutdown(3) [OF ts(1)] subtract by auto
  obtain w where w: "WaitTime ops ck net = Some (w, net\<lparr>tr_sender := ts\<rparr>)"
    using ts(1) by (auto simp: WaitTime_def waitTime_def Let_def)
  have ok: "net_ok (net\<lparr>tr_sender := ts\<rparr>)" using assms(1) ts(2) cur by (simp add: net_ok_def)
  moreover have "started (net\<lparr>tr_sender := ts\<rparr>) = started net"
    using calculateTimers_same(2) [OF ts(1)] calculateTimers_shutdown(1) [OF ts(1)]
    by (simp add: started_def ShutdownInProgress_def)
  moreover obtain c where "sd_currentState ts = Some c" using assms(1) cur by (auto simp: net_ok_def)
  ultimately show thesis
    using that w remote_total(1,2) [OF ok] by (fastforce simp: serve_timeout_def Let_def HasRemoteAddr_def remote_num)
qed

lemma Tick_ok:
  assumes "net_ok net" "sends_ok env"
  shows "\<exists>b out net1. Tick ops env ck net = Some (b, out, net1) \<and> net_ok net1 \<and> started net1 = started net \<and>
    GetRemoteStateNum net1 = GetRemoteStateNum net"
proof -
  obtain b out conn ts where t: "tick ops env ck (tr_connection net) (tr_sender net) = Some (b, out, conn, ts)"
    using tick_returns [of "tr_sender net" "tr_connection net" env ops ck] assms(1) sends_ok(1) [OF assms(2)]
    by (auto simp: net_ok_def)
  obtain ts1 where ts1: "calculateTimers ops ck (tr_connection net) (tr_sender net) = Some ts1"
    "same_session ts1 ts \<or> same_session (ts1\<lparr>sd_currentState := so_Reset ops (sd_currentState ts1)\<rparr>) ts"
    using tick_keeps(2) [OF t] by blast
  obtain k where cur: "sd_currentState ts1 = so_Subtract ops (sd_currentState (tr_sender net)) k"
    using calculateTimers_shutdown(3) [OF ts1(1)] by blast
  have "sd_sentStates ts1 \<noteq> []" using calculateTimers_total [of "tr_sender net" ops ck "tr_connection net"] assms(1) ts1(1) by (auto simp: net_ok_def)
  moreover have "128 < getMTU conn" using tick_keeps(1) [OF t sends_ok(2) [OF assms(2)]] assms(1) by (simp add: net_ok_def)
  ultimately have "net_ok (net\<lparr>tr_connection := conn, tr_sender := ts\<rparr>)"
    using ts1(2) assms(1) reset by (auto simp: net_ok_def same_session_def cur subtract)
  moreover have "started (net\<lparr>tr_connection := conn, tr_sender := ts\<rparr>) = started net"
    using ts1(2) calculateTimers_same(2) [OF ts1(1)] calculateTimers_shutdown(1) [OF ts1(1)]
    by (auto simp: started_def ShutdownInProgress_def same_session_def)
  ultimately show ?thesis using t by (simp add: Tick_def remote_num)
qed

lemma serve_tick_ok:
  assumes "net_ok (sv_server sv)" "sends_ok (st_send tn)" "se_host env = ops"
  shows "\<exists>gone out sv1. serve_tick env tn sv = Some (gone, out, sv1) \<and> net_ok (sv_server sv1) \<and>
    started (sv_server sv1) = started (sv_server sv) \<and>
    (GetRemoteStateNum (sv_server sv) = Some 0 \<and> ShutdownInProgress (sv_server sv) \<longrightarrow> gone)"
proof -
  obtain c where c: "sd_currentState (tr_sender (sv_server sv)) = Some c" using assms(1) by (auto simp: net_ok_def)
  obtain changed c1 where e: "SetEchoAck (st_now tn) (sv_inputEcho sv = EchoDone) c = (changed, c1)" by fastforce
  let ?net1 = "on_current (\<lambda>_. Some c1) (sv_server sv)"
  define net2 where "net2 = (if changed \<and> \<not> ShutdownInProgress ?net1 then on_current (so_ResetInput (se_host env)) ?net1 else ?net1)"
  have 2: "net_ok net2" "started net2 = started (sv_server sv)" "GetRemoteStateNum net2 = GetRemoteStateNum (sv_server sv)"
    using assms(1) reset_input assms(3)
    by (auto simp: net2_def net_ok_def on_current_def started_def ShutdownInProgress_def remote_num)
  obtain b out net3 where 3: "Tick (se_host env) (st_send tn) (st_clock tn) net2 = Some (b, out, net3)" "net_ok net3"
    "started net3 = started (sv_server sv)" "GetRemoteStateNum net3 = GetRemoteStateNum (sv_server sv)"
    using Tick_ok [OF 2(1) assms(2)] 2(2,3) assms(3) by metis
  have busy: "ShutdownInProgress net3 = ShutdownInProgress (sv_server sv)" using 3(3) by (auto simp: started_def split: if_splits)
  obtain num aw where "GetRemoteStateNum net3 = Some num" "Awaken (st_now tn) net3 = Some aw"
    using remote_total [OF 3(2)] by metis
  then show ?thesis
    using 3 busy c e by (auto simp: serve_tick_def on_complete_def Let_def net2_def)
qed

lemma serve_step_ending:
  assumes "ending t sv" "no_datagram (st_event tn)" "sends_ok (st_send tn)" "se_host env = ops"
  shows "\<exists>more out sg1 sv1. serve_step env tn no_signals sv = Some (more, no_effects, out, sg1, sv1) \<and>
    (more \<longrightarrow> ending t sv1 \<and> sg1 = no_signals \<and> (restarts (st_event tn) \<or> st_now tn - t < ACTIVE_RETRY_TIMEOUT))"
proof -
  obtain w net0 where 0: "serve_timeout (se_host env) (se_networkTimeoutMs env) (st_before tn) (st_wait tn) (sv_server sv) = Some (w, net0)"
    "net_ok net0" "started net0 = Some t"
    using serve_timeout_ok [of "sv_server sv"] assms(1,4) unfolding ending_def by metis
  let ?sv0 = "sv\<lparr>sv_server := net0\<rparr>"
  have e0: "ending t ?sv0" using 0 by (simp add: ending_def)
  consider (again) "serve_select env tn no_signals ?sv0 = Some None" "restarts (st_event tn)"
    | (on) sg1 sv1 where "serve_select env tn no_signals ?sv0 = Some (Some (no_effects, sg1, sv1))" "sv_server sv1 = sv_server ?sv0"
      "sg1 = no_signals \<or> (\<exists>s. sg1 = signal_Handler s no_signals)"
    using serve_select_ending [OF e0 assms(2), of env no_signals] by blast
  then show ?thesis
  proof cases
    case again
    then show ?thesis using 0(1) e0 by (simp add: serve_step_def ex_bool_eq)
  next
    case 1: on
    have ok1: "net_ok (sv_server sv1)" "started (sv_server sv1) = Some t" using 1(2) 0 by simp_all
    obtain stop sg2 where 2: "serve_signals env (st_now tn) sg1 sv1 = (stop, sg2, sv1)" "stop \<or> sg2 = no_signals"
      using serve_signals_ending [OF ok1(2), of sg1 env "st_now tn"] 1(3) by blast
    obtain fin where 3: "serve_done (st_now tn) (sv_server sv1) = Some fin"
      "st_now tn - t \<ge> ACTIVE_RETRY_TIMEOUT \<Longrightarrow> fin"
      using serve_done_ok [OF ok1(1), of "st_now tn"] ok1(2) by blast
    obtain gone out sv2 where 4: "serve_tick env tn sv1 = Some (gone, out, sv2)" "net_ok (sv_server sv2)"
      "started (sv_server sv2) = Some t"
      using serve_tick_ok [OF ok1(1) assms(3,4)] ok1(2) by metis
    show ?thesis
      using 0(1) 1(1) 2 3 4
      by (cases "stop \<or> fin") (auto simp: serve_step_def no_effects_def ending_def not_le)
  qed
qed

lemma serve_ending:
  assumes "ending t sv" "\<forall>tn \<in> set tns. no_datagram (st_event tn) \<and> sends_ok (st_send tn)" "se_host env = ops"
  shows "\<exists>more out sg1 sv1. serve env tns no_signals sv = Some (more, no_effects, out, sg1, sv1) \<and>
    (more \<longrightarrow> (\<forall>tn \<in> set tns. restarts (st_event tn) \<or> st_now tn - t < ACTIVE_RETRY_TIMEOUT))"
  using assms(1,2)
proof (induction tns arbitrary: sv)
  case (Cons tn tns)
  obtain more out sg1 sv1 where 1: "serve_step env tn no_signals sv = Some (more, no_effects, out, sg1, sv1)"
    "more \<Longrightarrow> ending t sv1 \<and> sg1 = no_signals \<and> (restarts (st_event tn) \<or> st_now tn - t < ACTIVE_RETRY_TIMEOUT)"
    using serve_step_ending [OF Cons.prems(1) _ _ assms(3)] Cons.prems(2) by (metis list.set_intros(1))
  show ?case
  proof (cases more)
    case True
    then obtain more2 out2 sg2 sv2 where "serve env tns no_signals sv1 = Some (more2, no_effects, out2, sg2, sv2)"
      "more2 \<Longrightarrow> \<forall>tn \<in> set tns. restarts (st_event tn) \<or> st_now tn - t < ACTIVE_RETRY_TIMEOUT"
      using Cons.IH [of sv1] 1(2) Cons.prems(2) by auto
    then show ?thesis using 1 True by (auto simp: no_effects_def)
  qed (use 1(1) in \<open>simp add: ex_bool_eq\<close>)
qed (simp add: ex_bool_eq)

text \<open>The turn that takes the signal: without a client it is the last one, otherwise the shutdown starts.\<close>

lemma serve_step_sigterm:
  assumes "net_ok (sv_server sv)" "\<not> ShutdownInProgress (sv_server sv)" "st_event tn = Serve_signal SIGTERM"
    "sends_ok (st_send tn)" "se_host env = ops"
  shows "\<exists>more out sg1 sv1. serve_step env tn no_signals sv = Some (more, no_effects, out, sg1, sv1) \<and>
    (more \<longrightarrow> ending (st_now tn) sv1 \<and> sg1 = no_signals) \<and> (\<not> HasRemoteAddr (sv_server sv) \<longrightarrow> \<not> more \<and> out = []) \<and>
    (GetRemoteStateNum (sv_server sv) = Some 0 \<longrightarrow> \<not> more)"
proof -
  obtain w net0 where 0: "serve_timeout (se_host env) (se_networkTimeoutMs env) (st_before tn) (st_wait tn) (sv_server sv) = Some (w, net0)"
    "net_ok net0" "started net0 = None" "HasRemoteAddr net0 = HasRemoteAddr (sv_server sv)"
    "GetRemoteStateNum net0 = GetRemoteStateNum (sv_server sv)"
    using serve_timeout_ok [OF assms(1)] assms(2,5) unfolding started_def by metis
  have idle0: "\<not> ShutdownInProgress net0" using 0(3) by (simp add: started_def split: if_splits)
  obtain rs where rs: "GetLatestRemoteState net0 = Some rs" using remote_total(1) [OF 0(2)] by blast
  define sv1 where "sv1 = sv\<lparr>sv_server := net0, sv_timeSinceRemoteState := st_now tn - tm_timestamp rs\<rparr>"
  have sel: "serve_select env tn no_signals (sv\<lparr>sv_server := net0\<rparr>) =
      Some (Some (no_effects, signal_Handler SIGTERM no_signals, sv1))"
    using rs assms(3) by (simp add: serve_select_def sv1_def Let_def)
  show ?thesis
  proof (cases "HasRemoteAddr (sv_server sv)")
    case False
    then have "serve_signals env (st_now tn) (signal_Handler SIGTERM no_signals) sv1 = (True, no_signals, sv1)"
      using 0(4) by (simp add: serve_signals_def sigterm_pending sv1_def)
    then show ?thesis using False 0(1) sel by (simp add: serve_step_def no_effects_def ex_bool_eq)
  next
    case True
    let ?sv2 = "sv1\<lparr>sv_server := StartShutdown (st_now tn) net0\<rparr>"
    have 2: "serve_signals env (st_now tn) (signal_Handler SIGTERM no_signals) sv1 = (False, no_signals, ?sv2)"
      using True 0(4) idle0 by (simp add: serve_signals_def sigterm_pending sv1_def)
    have ok: "net_ok (sv_server ?sv2)" "started (sv_server ?sv2) = Some (st_now tn)"
      using 0(2) idle0 by (simp_all add: net_ok_def started_def ShutdownInProgress_def StartShutdown_def startShutdown_def)
    obtain fin where 3: "serve_done (st_now tn) (sv_server ?sv2) = Some fin" using serve_done_ok [OF ok(1)] by blast
    obtain gone out sv3 where 4: "serve_tick env tn ?sv2 = Some (gone, out, sv3)" "net_ok (sv_server sv3)"
      "started (sv_server sv3) = Some (st_now tn)" "GetRemoteStateNum (sv_server sv) = Some 0 \<Longrightarrow> gone"
    proof -
      have "ShutdownInProgress (sv_server ?sv2)" using ok(2) by (simp add: started_def split: if_splits)
      moreover have "GetRemoteStateNum (sv_server ?sv2) = GetRemoteStateNum (sv_server sv)"
        using 0(5) by (simp add: remote_num StartShutdown_def)
      ultimately show ?thesis using that serve_tick_ok [OF ok(1) assms(4,5)] ok(2) by metis
    qed
    show ?thesis
      using True 0(1) sel 2 3 4
      by (cases fin) (auto simp: serve_step_def no_effects_def ending_def ex_bool_eq)
  qed
qed

end

interpretation host: loop_state "complete_ops marshal unmarshal env graphemes"
  by unfold_locales (simp_all add: complete_ops_def Let_def)

text \<open>
  C6. A SIGTERM ends the session, whatever turns follow. Without an address of a client it ends in the turn that takes
  the signal, and nothing is sent. With an address from which no state has come it ends in this turn too. Otherwise
  it has ended with the first turn at the latest that begins ten seconds later and has an event to handle, whatever
  the shell, timers and further signals do in the meantime, when no datagram comes from the client. In all cases
  nothing more is written to the shell and the loop does not panic. The queues of the
  transport are not empty at the start, and the connection's sending returns and keeps room for a fragment in its MTU.
\<close>

theorem sigterm_ends_session:
  assumes "net_ok (sv_server sv)" "\<not> ShutdownInProgress (sv_server sv)" "se_host env = complete_ops marshal unmarshal term graphemes"
    and "st_event tn = Serve_signal SIGTERM" "\<forall>x \<in> set (tn # tns). sends_ok (st_send x)"
    and "\<forall>x \<in> set tns. no_datagram (st_event x)"
  shows "\<exists>more out sg1 sv1. serve env (tn # tns) no_signals sv = Some (more, no_effects, out, sg1, sv1) \<and>
    (\<not> HasRemoteAddr (sv_server sv) \<or> GetRemoteStateNum (sv_server sv) = Some 0 \<longrightarrow>
      serve env [tn] no_signals sv = Some (False, no_effects, out, sg1, sv1) \<and> \<not> more) \<and>
    (\<not> HasRemoteAddr (sv_server sv) \<longrightarrow> out = []) \<and>
    ((\<exists>late \<in> set tns. \<not> restarts (st_event late) \<and> st_now late - st_now tn \<ge> ACTIVE_RETRY_TIMEOUT) \<longrightarrow> \<not> more)"
proof -
  obtain more out sg1 sv1 where 1: "serve_step env tn no_signals sv = Some (more, no_effects, out, sg1, sv1)"
    "more \<Longrightarrow> ending (st_now tn) sv1 \<and> sg1 = no_signals" "\<not> HasRemoteAddr (sv_server sv) \<Longrightarrow> \<not> more \<and> out = []"
    "GetRemoteStateNum (sv_server sv) = Some 0 \<Longrightarrow> \<not> more"
    using host.serve_step_sigterm [OF assms(1,2,4) _ assms(3)] assms(5) by (metis list.set_intros(1))
  show ?thesis
  proof (cases more)
    case True
    then obtain more2 out2 sg2 sv2 where "serve env tns no_signals sv1 = Some (more2, no_effects, out2, sg2, sv2)"
      "more2 \<Longrightarrow> \<forall>x \<in> set tns. restarts (st_event x) \<or> st_now x - st_now tn < ACTIVE_RETRY_TIMEOUT"
      using host.serve_ending [OF _ _ assms(3), of "st_now tn" sv1 tns] 1(2) assms(5,6) by auto
    moreover from this(2) have "(\<exists>late \<in> set tns. \<not> restarts (st_event late) \<and> st_now late - st_now tn \<ge> ACTIVE_RETRY_TIMEOUT) \<longrightarrow> \<not> more2"
      by (meson not_le)
    ultimately show ?thesis using 1 True by (auto simp: no_effects_def)
  qed (use 1 in auto)
qed

section \<open>Witnesses\<close>

definition sample_server :: "bool \<Rightarrow> (nat, nat) server_net" where
  "sample_server linked = new_transport
     (complete_ops plain_host_marshal plain_host_unmarshal plain_env byte_clusters)
     (user_ops plain_marshal plain_unmarshal byte_clusters) 0 0 (Some blank_state) []
     (sample_conn\<lparr>cn_hasRemoteAddr := linked\<rparr>) []"

definition sample_session :: serve_env where
  "sample_session = \<lparr>se_host = complete_ops plain_host_marshal plain_host_unmarshal plain_env byte_clusters,
     se_user = user_ops plain_marshal plain_unmarshal byte_clusters, se_term = plain_env, se_graphemes = byte_clusters,
     se_zread = (\<lambda>b. None), se_unmarshal = (\<lambda>b. None), se_networkTimeoutMs = 0, se_networkSignaledTimeoutMs = 0\<rparr>"

definition turn_at :: "int \<Rightarrow> serve_event \<Rightarrow> (nat, nat) serve_turn" where
  "turn_at now e = \<lparr>st_before = now, st_wait = sample_clock, st_event = e, st_now = now, st_payload = (0, 0),
     st_ioctl = (True, True), st_written = True, st_clock = sample_clock, st_send = sample_env\<rparr>"

text \<open>A server that has got a state from its client.\<close>

definition known_server :: "(nat, nat) server_net" where
  "known_server = (sample_server True)\<lparr>tr_receivedState := map (\<lambda>s. s\<lparr>tm_num := 1\<rparr>) (tr_receivedState (sample_server True))\<rparr>"

lemma sample_server_state:
  "sd_currentState (tr_sender (sample_server b)) = Some blank_state" "net_ok (sample_server b)"
  "\<not> ShutdownInProgress (sample_server b)"
  by (simp_all add: sample_server_def new_transport_def NewTransportSender_def net_ok_def ShutdownInProgress_def
      sample_conn_def connection_init_def getMTU_def Let_def)

lemma blank_keys: "em_terminalToHost (cp_terminal blank_state) = []" "em_user (cp_terminal blank_state) = USER_INPUT_GROUND"
  "md_cursorKeyMode (em_md (cp_terminal blank_state)) = CursorKeyMode_ANSI"
  by (simp_all add: blank_state_fields blank20x5_fields modes0_def blank20x5_def initial_def Emulator0_def)

text \<open>A splitter that joins \<open>e\<close> and the accent behind it, and takes everything else byte by byte.\<close>

fun accent_clusters :: "string \<Rightarrow> (rune list \<times> nat) list" where
  "accent_clusters (a # b # c # s) =
     (if a = CHR ''e'' \<and> b = CHR 0xCC \<and> c = CHR 0x81 then ([101, 0x301], 3) # accent_clusters s
      else ([of_char a], 1) # accent_clusters (b # c # s))"
| "accent_clusters s = map (\<lambda>a. ([of_char a], 1)) s"

lemma keys_reach_shell_witness:
  "\<exists>net'. apply_events (se_host sample_session) 5 (True, True) True (fst (UserStream_ApplyString plain_unmarshal accent_clusters
      (UserStream_DiffFrom plain_marshal ([UserByteType [120]] @ map UserByteType [[108], [101, 0x301], [0x1B], [79], [65], [0x1B], [79]])
        [UserByteType [120]]) []))
      (sample_server True)
    = Some (\<lparr>ef_host = [CHR ''l'', CHR 0x1B, CHR ''['', CHR ''A'', CHR 0x1B], ef_sizes = []\<rparr>, net')"
proof -
  let ?kss = "[[108], [101, 0x301], [0x1B], [79], [65], [0x1B], [79]] :: rune list list"
  have "utf8 108 = ''l''" "utf8 101 = ''e''" "utf8 0x301 = [CHR 0xCC, CHR 0x81]" "utf8 0x1B = [CHR 0x1B]" "utf8 79 = ''O''" "utf8 65 = ''A''"
    by (simp_all add: utf8_def char_of_def bit_Suc_0_iff)
  then have k: "map fst (accent_clusters (concat (map utf8 (concat ?kss)))) = ?kss"
    and out: "shell_keys CursorKeyMode_ANSI (single_runes ?kss) = [CHR ''l'', CHR 0x1B, CHR ''['', CHR ''A'', CHR 0x1B]"
    by (simp_all add: single_runes_def)
  show ?thesis
    using keys_reach_shell [where graphemes = accent_clusters and kss = ?kss and net = "sample_server True" and c = blank_state
        and u = "[UserByteType [120]]" and ops = "se_host sample_session" and now = 5 and ioctl = "(True, True)" and released = True,
        OF plain_codec k _ sample_server_state(1) blank_keys(1)]
    by (auto simp: blank_keys out)
qed

text \<open>A splitter that takes a whole input for one cluster, as \<open>uniseg\<close> does for CR LF.\<close>

definition one_cluster :: "string \<Rightarrow> (rune list \<times> nat) list" where
  "one_cluster s = [(map of_char s, length s)]"

lemma composed_key_lost_witness:
  "\<exists>net'. apply_events (se_host sample_session) 5 (True, True) True (fst (UserStream_ApplyString plain_unmarshal one_cluster
      (UserStream_DiffFrom plain_marshal ([] @ [UserByteType [13, 10]]) []) [])) (sample_server True)
    = Some (\<lparr>ef_host = [], ef_sizes = []\<rparr>, net')"
proof -
  have k: "map fst (one_cluster (concat (map utf8 [13, 10]))) = [[13, 10]]" by (simp add: one_cluster_def utf8_def)
  show ?thesis
    using composed_key_lost [where graphemes = one_cluster and chs = "[13, 10]" and net = "sample_server True" and c = blank_state
        and u = "[]" and ops = "se_host sample_session" and now = 5 and ioctl = "(True, True)" and released = True,
        OF plain_codec k _ sample_server_state(1) blank_keys(1)]
    by simp
qed

lemma known_server_state:
  "net_ok known_server" "\<not> ShutdownInProgress known_server" "HasRemoteAddr known_server" "GetRemoteStateNum known_server = Some 1"
  using sample_server_state(2,3) [of True]
  by (auto simp: known_server_def net_ok_def ShutdownInProgress_def HasRemoteAddr_def getHasRemoteAddr_def remote_num
      sample_server_def new_transport_def list_at_def Let_def)

lemma sample_turns:
  "se_host sample_session = complete_ops plain_host_marshal plain_host_unmarshal plain_env byte_clusters" "sends_ok sample_env"
  by (simp_all add: sample_session_def sends_ok_def sample_env_def ex_bool_eq)

lemma sigterm_ends_session_witness:
  "(\<exists>out sg1 sv sv1. serve_start known_server = Some sv \<and> HasRemoteAddr (sv_server sv) \<and> GetRemoteStateNum (sv_server sv) = Some 1 \<and>
     serve sample_session [turn_at 5 (Serve_signal SIGTERM), turn_at 9 (Master_data ''bye''), turn_at 20000 Serve_timer] no_signals sv
       = Some (False, no_effects, out, sg1, sv1)) \<and>
   (\<exists>out sg1 sv sv1. serve_start (sample_server True) = Some sv \<and> HasRemoteAddr (sv_server sv) \<and>
     serve sample_session [turn_at 5 (Serve_signal SIGTERM)] no_signals sv = Some (False, no_effects, out, sg1, sv1)) \<and>
   (\<exists>sg1 sv sv1. serve_start (sample_server False) = Some sv \<and> \<not> HasRemoteAddr (sv_server sv) \<and>
     serve sample_session [turn_at 5 (Serve_signal SIGTERM)] no_signals sv = Some (False, no_effects, [], sg1, sv1))"
proof -
  let ?sigterm = "turn_at 5 (Serve_signal SIGTERM)"
  have start: "\<exists>sv. serve_start net = Some sv \<and> sv_server sv = net" if "net_ok net" for net :: "(nat, nat) server_net"
    using remote_total(2) [OF that] by (auto simp: serve_start_def)
  have num: "GetRemoteStateNum (sample_server b) = Some 0" "HasRemoteAddr (sample_server b) = b" for b
    by (simp_all add: HasRemoteAddr_def getHasRemoteAddr_def sample_server_def new_transport_def Let_def remote_num list_at_def)
  obtain sv where sv: "serve_start known_server = Some sv" "sv_server sv = known_server" using start known_server_state(1) by blast
  obtain sv2 where sv2: "serve_start (sample_server True) = Some sv2" "sv_server sv2 = sample_server True"
    using start sample_server_state(2) by blast
  obtain sv3 where sv3: "serve_start (sample_server False) = Some sv3" "sv_server sv3 = sample_server False"
    using start sample_server_state(2) by blast
  note ends = sigterm_ends_session [where env = sample_session and tn = ?sigterm, OF _ _ sample_turns(1)]
  have "\<exists>out sg1 sv1. serve sample_session [?sigterm, turn_at 9 (Master_data ''bye''), turn_at 20000 Serve_timer] no_signals sv
      = Some (False, no_effects, out, sg1, sv1)"
    using ends [where sv = sv and tns = "[turn_at 9 (Master_data ''bye''), turn_at 20000 Serve_timer]"] known_server_state(1,2) sv(2) sample_turns(2)
    by (auto simp: turn_at_def no_datagram_def restarts_def ACTIVE_RETRY_TIMEOUT_def)
  moreover have "\<exists>out sg1 sv1. serve sample_session [?sigterm] no_signals sv2 = Some (False, no_effects, out, sg1, sv1)"
    using ends [where sv = sv2 and tns = "[]"] sample_server_state(2,3) sv2(2) sample_turns(2) num
    by (fastforce simp: turn_at_def)
  moreover have "\<exists>sg1 sv1. serve sample_session [?sigterm] no_signals sv3 = Some (False, no_effects, [], sg1, sv1)"
    using ends [where sv = sv3 and tns = "[]"] sample_server_state(2,3) sv3(2) sample_turns(2) num
    by (fastforce simp: turn_at_def)
  ultimately show ?thesis using sv sv2 sv3 known_server_state(3,4) num by metis
qed

end
