(* ===== verification/Terminfo.thy ===== *)
theory Terminfo
  imports Handlers
begin

text \<open>
  \<open>terminfo/dynamic.go\<close>: the capabilities of the terminal, which the display and the answer to XTGETTCAP look up.
  They are read from the text that \<open>infocmp\<close> prints. Running \<open>infocmp\<close> is left out: its text is an argument,
  and \<open>None\<close> when it fails. Strings are lists of bytes. \<open>None\<close> as a result is a panic.
\<close>

record terminfo =
  ti_bools :: "string \<Rightarrow> bool option"
  ti_nums :: "string \<Rightarrow> int option"
  ti_strs :: "string \<Rightarrow> string option"
  ti_name :: string
  ti_desc :: string
  ti_aliases :: "string list"

definition getnum :: "terminfo \<Rightarrow> string \<Rightarrow> int" where
  "getnum tc s = (case ti_nums tc s of Some n \<Rightarrow> n | None \<Rightarrow> 0)"

definition getflag :: "terminfo \<Rightarrow> string \<Rightarrow> bool" where
  "getflag tc s = (case ti_bools tc s of Some b \<Rightarrow> b | None \<Rightarrow> False)"

definition getstr :: "terminfo \<Rightarrow> string \<Rightarrow> string" where
  "getstr tc s = (case ti_strs tc s of Some v \<Rightarrow> v | None \<Rightarrow> [])"

section \<open>Escapes\<close>

definition octal :: "char \<Rightarrow> bool" where
  "octal c \<longleftrightarrow> 48 \<le> (of_char c :: nat) \<and> (of_char c :: nat) \<le> 55"

definition octal_value :: "char \<Rightarrow> nat" where
  "octal_value c = of_char c - 48"

text \<open>A letter behind a backslash.\<close>

definition escape_letter :: "char \<Rightarrow> char" where
  "escape_letter c =
     (if c = CHR ''E'' \<or> c = CHR ''e'' then CHR 0x1B
      else if c = CHR ''n'' then CHR 0x0A
      else if c = CHR ''r'' then CHR 0x0D
      else if c = CHR ''t'' then CHR 0x09
      else if c = CHR ''b'' then CHR 0x08
      else if c = CHR ''f'' then CHR 0x0C
      else if c = CHR ''s'' then CHR '' ''
      else c)"

text \<open>The three states of the loop are its three kinds of steps; an unfinished escape adds nothing.\<close>

fun unescape :: "string \<Rightarrow> string" where
  "unescape [] = []"
| "unescape (c # s) =
     (if c = CHR 0x5C then
        (case s of
           [] \<Rightarrow> []
         | d # s1 \<Rightarrow>
             if octal d then
               (case s1 of
                  e # f # s2 \<Rightarrow>
                    if octal e \<and> octal f
                    then char_of ((octal_value d * 64 + octal_value e * 8 + octal_value f) mod 256 :: nat) # unescape s2
                    else (if d = CHR ''0'' then [CHR 0x00] else []) @ unescape s1
                | _ \<Rightarrow> (if d = CHR ''0'' then [CHR 0x00] else []) @ unescape s1)
             else escape_letter d # unescape s1)
      else if c = CHR 0x5E then
        (case s of [] \<Rightarrow> [] | d # s1 \<Rightarrow> char_of (xor (of_char d) 64 :: nat) # unescape s1)
      else c # unescape s)"

section \<open>Numbers\<close>

text \<open>
  \<open>strconv.ParseUint(s, 0, 0)\<close>: the base comes from the prefix, and underscores may separate digits.
\<close>

definition digit_value :: "char \<Rightarrow> nat option" where
  "digit_value c =
     (let n = of_char c :: nat
      in if 48 \<le> n \<and> n \<le> 57 then Some (n - 48)
         else if 97 \<le> n \<and> n \<le> 122 then Some (n - 87)
         else if 65 \<le> n \<and> n \<le> 90 then Some (n - 55)
         else None)"

fun parse_digits :: "nat \<Rightarrow> nat \<Rightarrow> string \<Rightarrow> nat option" where
  "parse_digits base n [] = Some n"
| "parse_digits base n (c # s) =
     (if c = CHR ''_'' then parse_digits base n s
      else case digit_value c of
        None \<Rightarrow> None
      | Some d \<Rightarrow>
          if d \<ge> base \<or> n * base + d \<ge> 2 ^ 64 then None else parse_digits base (n * base + d) s)"

text \<open>An underscore has a digit or the prefix before it and a digit behind it; \<open>sep\<close> and \<open>digit\<close> tell what was last.\<close>

fun underscore_ok :: "bool \<Rightarrow> bool \<Rightarrow> string \<Rightarrow> bool" where
  "underscore_ok digit sep [] \<longleftrightarrow> \<not> sep"
| "underscore_ok digit sep (c # s) \<longleftrightarrow>
     (if c = CHR ''_'' then digit \<and> underscore_ok False True s else underscore_ok True False s)"

definition number_base :: "string \<Rightarrow> nat \<times> string \<times> bool" where
  "number_base s =
     (if has_prefix s ''0'' then
        (if length s \<ge> 3 \<and> s ! 1 \<in> {CHR ''b'', CHR ''B''} then (2, drop 2 s, True)
         else if length s \<ge> 3 \<and> s ! 1 \<in> {CHR ''o'', CHR ''O''} then (8, drop 2 s, True)
         else if length s \<ge> 3 \<and> s ! 1 \<in> {CHR ''x'', CHR ''X''} then (16, drop 2 s, True)
         else (8, drop 1 s, True))
      else (10, s, False))"

definition ParseUint :: "string \<Rightarrow> nat option" where
  "ParseUint s =
     (if s = [] then None
      else let (base, digits, pre) = number_base s
           in if underscore_ok pre False digits then parse_digits base 0 digits else None)"

section \<open>The text of infocmp\<close>

datatype terminfo_error = Infocmp_failed | Malformed string | Bad_number

text \<open>\<open>strings.SplitN(s, sep, 2)\<close> with two parts.\<close>

definition split_two :: "char \<Rightarrow> string \<Rightarrow> (string \<times> string) option" where
  "split_two c s =
     (if c \<in> set s then Some (takeWhile (\<lambda>x. x \<noteq> c) s, tl (dropWhile (\<lambda>x. x \<noteq> c) s)) else None)"

definition add_capability :: "string \<Rightarrow> terminfo \<Rightarrow> terminfo_error + terminfo" where
  "add_capability line tc =
     (if line = [] \<or> hd line \<noteq> CHR 0x09 \<or> last line \<noteq> CHR '','' then Inl (Malformed line)
      else
        let val = butlast (tl line)
        in case split_two CHR ''='' val of
             Some (k, v) \<Rightarrow> Inr (tc\<lparr>ti_strs := (ti_strs tc)(k \<mapsto> unescape v)\<rparr>)
           | None \<Rightarrow>
               (case split_two CHR ''#'' val of
                  Some (k, v) \<Rightarrow>
                    (case ParseUint v of
                       None \<Rightarrow> Inl Bad_number
                     | Some u \<Rightarrow> Inr (tc\<lparr>ti_nums := (ti_nums tc)(k \<mapsto> sint (word_of_nat u :: 64 word))\<rparr>))
                | None \<Rightarrow> Inr (tc\<lparr>ti_bools := (ti_bools tc)(val \<mapsto> True)\<rparr>)))"

fun add_capabilities :: "string list \<Rightarrow> terminfo \<Rightarrow> terminfo_error + terminfo" where
  "add_capabilities [] tc = Inr tc"
| "add_capabilities (l # ls) tc =
     (case add_capability l tc of Inl e \<Rightarrow> Inl e | Inr tc1 \<Rightarrow> add_capabilities ls tc1)"

text \<open>The header names the terminal: its name, aliases, and a description at the end.\<close>

definition read_header :: "string \<Rightarrow> terminfo" where
  "read_header line =
     (let header = (if line \<noteq> [] \<and> last line = CHR '','' then butlast line else line);
          names = split_on CHR ''|'' header
      in \<lparr>ti_bools = Map.empty, ti_nums = Map.empty, ti_strs = Map.empty, ti_name = hd names,
          ti_desc = (if tl names = [] then [] else last (tl names)),
          ti_aliases = butlast (tl names)\<rparr>)"

text \<open>An index out of range, when there is no line but comments, is a panic.\<close>

definition setupterm :: "string option \<Rightarrow> (terminfo_error + terminfo) option" where
  "setupterm infocmp =
     (case infocmp of
        None \<Rightarrow> Some (Inl Infocmp_failed)
      | Some text \<Rightarrow> do {
          let lines1 = dropWhile (\<lambda>l. has_prefix l ''#'') (split_on CHR 0x0A text);
          trailing \<leftarrow> list_at lines1 (int (length lines1) - 1);
          let lines2 = (if trailing = [] then butlast lines1 else lines1);
          header \<leftarrow> list_at lines2 0;
          Some (add_capabilities (tl lines2) (read_header header))
        })"

section \<open>Lookup\<close>

text \<open>The names that are made up; the two panics are \<open>TERM\<close> not set and an error of \<open>setupterm\<close>.\<close>

definition dynamicInit :: "string \<Rightarrow> string option \<Rightarrow> terminfo option" where
  "dynamicInit termName infocmp = do {
     _ \<leftarrow> (if termName = [] then None else Some ());
     r \<leftarrow> setupterm infocmp;
     (case r of
        Inl e \<Rightarrow> None
      | Inr tc \<Rightarrow>
          let tc1 = tc\<lparr>ti_nums := (ti_nums tc)(''Co'' \<mapsto> getnum tc ''colors''),
                       ti_strs := (ti_strs tc)(''TN'' \<mapsto> ti_name tc)\<rparr>
          in Some (if ti_nums tc1 ''RGB'' = None \<and> ti_bools tc1 ''RGB'' = None \<and> ti_strs tc1 ''RGB'' = None
                   then tc1\<lparr>ti_strs := (ti_strs tc1)(''RGB'' \<mapsto> ''8/8/8'')\<rparr> else tc1))
   }"

definition Lookup :: "string \<Rightarrow> terminfo \<Rightarrow> string option" where
  "Lookup capName tc =
     (case ti_nums tc capName of
        Some v \<Rightarrow> Some (fmt_d v)
      | None \<Rightarrow>
          (case ti_strs tc capName of
             Some v \<Rightarrow> Some v
           | None \<Rightarrow> (if ti_bools tc capName \<noteq> None then Some [] else None)))"

end
