(* ===== verification/TerminfoProps.thy ===== *)
theory TerminfoProps
  imports Terminfo
begin

text \<open>
  The capabilities that \<open>infocmp\<close> prints are found again: its notation for strings, numbers and flags, as
  terminfo(5) and infocmp(1) describe it, is read back by \<open>dynamic.go\<close>.
\<close>

section \<open>Strings\<close>

text \<open>
  The notations of terminfo(5): \<open>written v t\<close> tells that \<open>t\<close> is a way to write the bytes \<open>v\<close>. A letter behind
  a backslash names a control character, a quoted punctuation character stands for itself, a caret makes a
  control character of the character behind it, and three octal digits give any byte. A zero byte is
  \<open>\\0\<close> where no two octal digits follow.
\<close>

abbreviation backslash :: char where "backslash \<equiv> CHR 0x5C"

definition octal_char :: "nat \<Rightarrow> char" where
  "octal_char d = ''01234567'' ! d"

definition named_letters :: "(char \<times> char) list" where
  "named_letters =
     [(CHR ''E'', CHR 0x1B), (CHR ''e'', CHR 0x1B), (CHR ''n'', CHR 0x0A), (CHR ''r'', CHR 0x0D),
      (CHR ''t'', CHR 0x09), (CHR ''b'', CHR 0x08), (CHR ''f'', CHR 0x0C), (CHR ''s'', CHR '' '')]"

inductive written :: "string \<Rightarrow> string \<Rightarrow> bool" where
  nothing: "written [] []"
| plain: "written v t \<Longrightarrow> c \<notin> {backslash, CHR ''^'', CHR 0x0A} \<Longrightarrow> written (c # v) (c # t)"
| named: "written v t \<Longrightarrow> (l, c) \<in> set named_letters \<Longrightarrow> written (c # v) (backslash # l # t)"
| quoted: "written v t \<Longrightarrow> c \<in> {CHR '','', CHR '':'', CHR ''^'', backslash} \<Longrightarrow> written (c # v) (backslash # c # t)"
| control: "written v t \<Longrightarrow> n < 32 \<Longrightarrow> written (char_of (n :: nat) # v) (CHR ''^'' # char_of (64 + n) # t)"
| delete: "written v t \<Longrightarrow> written (CHR 0x7F # v) (CHR ''^'' # CHR ''?'' # t)"
| octal_digits: "written v t \<Longrightarrow> a < 4 \<Longrightarrow> b < 8 \<Longrightarrow> c < 8 \<Longrightarrow>
    written (char_of (64 * a + 8 * b + c :: nat) # v) (backslash # octal_char a # octal_char b # octal_char c # t)"
| zero: "written v t \<Longrightarrow> \<not> (length t \<ge> 2 \<and> set (take 2 t) \<subseteq> set ''01234567'') \<Longrightarrow>
    written (CHR 0x00 # v) (backslash # CHR ''0'' # t)"

lemma octal_char:
  assumes "d < 8"
  shows "octal (octal_char d) \<and> octal_value (octal_char d) = d \<and> octal_char d \<noteq> CHR 0x0A"
proof -
  have "d \<in> {0, 1, 2, 3, 4, 5, 6, 7}" using assms by auto
  then show ?thesis by (auto simp: octal_char_def octal_def octal_value_def)
qed

lemma octal_in_digits: "octal c \<Longrightarrow> c \<in> set ''01234567''"
proof -
  assume "octal c"
  then have "of_char c \<in> {48 :: nat, 49, 50, 51, 52, 53, 54, 55}" by (auto simp: octal_def)
  then have "(of_char c :: nat) \<in> of_char ` set ''01234567''" by simp
  then obtain d where "(of_char c :: nat) = of_char d" "d \<in> set ''01234567''" by blast
  then show ?thesis by (simp only: of_char_eq_iff)
qed

lemma unescape_octal:
  assumes "octal d" "octal e" "octal f"
  shows "unescape (backslash # d # e # f # s) =
    char_of ((octal_value d * 64 + octal_value e * 8 + octal_value f) mod 256) # unescape s"
  using assms by simp

lemma unescape_zero:
  assumes "\<not> (length t \<ge> 2 \<and> set (take 2 t) \<subseteq> set ''01234567'')"
  shows "unescape (backslash # CHR ''0'' # t) = CHR 0x00 # unescape t"
proof -
  have zero: "octal (CHR ''0'')" by (simp add: octal_def)
  show ?thesis
  proof (cases "\<exists>e f s. t = e # f # s")
    case True
    then obtain e f s where t: "t = e # f # s" by blast
    then have "\<not> (octal e \<and> octal f)" using assms octal_in_digits [of e] octal_in_digits [of f] by auto
    then show ?thesis using zero t by (simp only: unescape.simps(2) list.case if_True if_False append.simps) simp
  next
    case False
    then show ?thesis using zero by (auto split: list.split)
  qed
qed

lemma xor_64: "\<forall>n \<in> set [0..<32]. xor (64 + n) 64 = (n :: nat)"
  by code_simp

lemma unescape_control: "n < (32 :: nat) \<Longrightarrow> unescape (CHR ''^'' # char_of (64 + n) # t) = char_of n # unescape t"
proof -
  assume n: "n < (32 :: nat)"
  then have "take_bit 8 (64 + n) = 64 + n" by (simp add: take_bit_nat_eq_self)
  then have code: "(of_char (char_of (64 + n) :: char) :: nat) = 64 + n" by (simp add: take_bit_eq_mod)
  have "xor (64 + n) 64 = n" using xor_64 n by simp
  then show ?thesis using code by simp
qed

lemma unescape_named: "(l, c) \<in> set named_letters \<Longrightarrow> unescape (backslash # l # t) = c # unescape t"
proof -
  assume "(l, c) \<in> set named_letters"
  then have "octal l = False" "escape_letter l = c" by (auto simp: named_letters_def octal_def escape_letter_def)
  then show ?thesis by (simp only: unescape.simps(2) list.case if_False refl if_True)
qed

lemma unescape_quoted: "c \<in> {CHR '','', CHR '':'', CHR ''^'', backslash} \<Longrightarrow> unescape (backslash # c # t) = c # unescape t"
proof -
  assume "c \<in> {CHR '','', CHR '':'', CHR ''^'', backslash}"
  then have "octal c = False" "escape_letter c = c" by (auto simp: octal_def escape_letter_def)
  then show ?thesis by (simp only: unescape.simps(2) list.case if_False refl if_True)
qed

lemma unescape_delete: "unescape (CHR ''^'' # CHR ''?'' # t) = CHR 0x7F # unescape t"
proof -
  have "char_of (127 :: nat) = CHR 0x7F" by code_simp
  then show ?thesis by simp
qed

lemma unescape_plain: "c \<notin> {backslash, CHR ''^'', CHR 0x0A} \<Longrightarrow> unescape (c # t) = c # unescape t"
  by simp

lemma unescape_octal_chars:
  assumes "a < 4" "b < 8" "c < 8"
  shows "unescape (backslash # octal_char a # octal_char b # octal_char c # t) = char_of (64 * a + 8 * b + c) # unescape t"
proof -
  have "64 * a + 8 * b + c < 256" using assms by linarith
  moreover have "octal (octal_char a)" "octal_value (octal_char a) = a" "octal (octal_char b)" "octal_value (octal_char b) = b"
    "octal (octal_char c)" "octal_value (octal_char c) = c"
    using assms octal_char [of a] octal_char [of b] octal_char [of c] by auto
  ultimately show ?thesis by (simp only: unescape_octal mult.commute [of _ 64] mult.commute [of _ 8] mod_less)
qed

lemmas unescape_notations =
  unescape_plain unescape_named unescape_quoted unescape_control unescape_delete unescape_octal_chars unescape_zero

lemma unescape_written: "written v t \<Longrightarrow> unescape t = v"
proof (induction rule: written.induct)
  case nothing
  show ?case by simp
qed (simp_all only: unescape_notations not_False_eq_True)

lemma written_line: "written v t \<Longrightarrow> CHR 0x0A \<notin> set t"
proof (induction rule: written.induct)
  case (octal_digits v t a b c)
  then show ?case using octal_char [of a] octal_char [of b] octal_char [of c] by auto
next
  case (control v t n)
  have "char_of (64 + n) \<noteq> CHR 0x0A"
  proof
    assume "char_of (64 + n) = CHR 0x0A"
    then have "of_char (char_of (64 + n) :: char) = (10 :: nat)" by simp
    then show False using control.hyps(2) by simp
  qed
  then show ?case using control by auto
qed (auto simp: named_letters_def)

section \<open>Numbers\<close>

lemma parse_digits_append: "parse_digits b n (s @ t) = Option.bind (parse_digits b n s) (\<lambda>m. parse_digits b m t)"
  by (induction b n s rule: parse_digits.induct) (auto split: option.split)

lemma digit_char: "d < 10 \<Longrightarrow> of_char (char_of (48 + d) :: char) = (48 + d :: nat)"
  by simp

lemma digit_differs: "d < 10 \<Longrightarrow> of_char c \<noteq> (48 + d :: nat) \<Longrightarrow> char_of (48 + d) \<noteq> c"
  using digit_char by blast

lemma digit_value_decimal: "d < 10 \<Longrightarrow> digit_value (char_of (48 + d)) = Some d \<and> char_of (48 + d) \<noteq> CHR ''_''"
  using digit_differs [of d "CHR ''_''"] by (simp add: digit_value_def digit_char Let_def)

lemma parse_decimal: "n < 2 ^ 64 \<Longrightarrow> parse_digits 10 0 (decimal n) = Some n"
proof (induction n rule: decimal.induct)
  case (1 n)
  show ?case
  proof (cases "n < 10")
    case True
    then show ?thesis using 1(2) by (simp add: decimal.simps [of n] digit_value_decimal)
  next
    case False
    have "n div 10 * 10 + n mod 10 = n" by presburger
    then show ?thesis
      using 1(1) [OF False] 1(2) False
      by (simp add: decimal.simps [of n] parse_digits_append digit_value_decimal)
  qed
qed

lemma decimal_head: "0 < n \<Longrightarrow> \<not> has_prefix (decimal n) ''0''"
proof (induction n rule: decimal.induct)
  case (1 n)
  show ?case
  proof (cases "n < 10")
    case True
    have "char_of (48 + n) \<noteq> CHR ''0''" using digit_differs [OF True, of "CHR ''0''"] 1(2) by simp
    then show ?thesis using True by (simp add: decimal.simps [of n] has_prefix_def)
  next
    case False
    then have "\<not> has_prefix (decimal (n div 10)) ''0''" using 1(1) by simp
    then show ?thesis using False decimal_digits [of "n div 10"] by (cases "decimal (n div 10)") (auto simp: decimal.simps [of n] has_prefix_def)
  qed
qed

lemma decimal_no_char: "\<not> is_digit c \<Longrightarrow> c \<notin> set (decimal n)"
  using decimal_digits [of n] by (auto simp: list_all_iff)

lemma underscore_none: "CHR ''_'' \<notin> set s \<Longrightarrow> underscore_ok d False s"
  by (induction s arbitrary: d) auto

lemma ParseUint_decimal: "n < 2 ^ 64 \<Longrightarrow> ParseUint (decimal n) = Some n"
proof (cases "n = 0")
  case True
  have "of_char (char_of (48 :: nat) :: char) = (of_char (CHR ''0'') :: nat)" by simp
  then have "char_of (48 :: nat) = CHR ''0''" by (simp only: of_char_eq_iff)
  then show ?thesis using True by (simp add: decimal.simps [of 0] ParseUint_def number_base_def has_prefix_def)
next
  case False
  moreover assume "n < 2 ^ 64"
  moreover have "CHR ''_'' \<notin> set (decimal n)" by (rule decimal_no_char) (simp add: is_digit_def)
  ultimately show ?thesis
    using decimal_head [of n] decimal_digits [of n]
    by (simp add: ParseUint_def number_base_def underscore_none parse_decimal)
qed

text \<open>
  A number is written in decimal, or with a prefix in hexadecimal (as infocmp does for large numbers) or octal.
\<close>

definition digit :: "nat \<Rightarrow> char" where
  "digit d = ''0123456789abcdef'' ! d"

definition positional :: "nat \<Rightarrow> nat list \<Rightarrow> nat" where
  "positional base ds = foldl (\<lambda>n d. n * base + d) 0 ds"

inductive number_written :: "nat \<Rightarrow> string \<Rightarrow> bool" where
  in_decimal: "number_written n (decimal n)"
| in_hex: "ds \<noteq> [] \<Longrightarrow> list_all (\<lambda>d. d < 16) ds \<Longrightarrow> number_written (positional 16 ds) (''0x'' @ map digit ds)"
| in_octal: "ds \<noteq> [] \<Longrightarrow> list_all (\<lambda>d. d < 8) ds \<Longrightarrow> number_written (positional 8 ds) (CHR ''0'' # map digit ds)"

lemma digit:
  assumes "d < 16"
  shows "digit_value (digit d) = Some d \<and> digit d \<notin> {CHR ''_'', CHR 0x0A, CHR ''='', CHR ''#''} \<and> (d < 8 \<longrightarrow> digit d \<in> set ''01234567'')"
proof -
  have "\<forall>d \<in> set [0..<16]. digit_value (digit d) = Some d \<and> digit d \<notin> {CHR ''_'', CHR 0x0A, CHR ''='', CHR ''#''} \<and>
      (d < 8 \<longrightarrow> digit d \<in> set ''01234567'')"
    by code_simp
  then show ?thesis using assms by simp
qed

lemma value_grows: "n \<le> foldl (\<lambda>n d. n * b + d) n ds" if "0 < (b::nat)" for n
proof (induction ds arbitrary: n)
  case (Cons d ds)
  have "n * 1 \<le> n * b" using that by (intro mult_le_mono2) simp
  then have "n \<le> n * b + d" by linarith
  also have "\<dots> \<le> foldl (\<lambda>n d. n * b + d) (n * b + d) ds" by (rule Cons)
  finally show ?case by simp
qed simp

lemma parse_digits_text:
  assumes "0 < b" "b \<le> 16" "list_all (\<lambda>d. d < b) ds" "foldl (\<lambda>n d. n * b + d) n ds < 2 ^ 64"
  shows "parse_digits b n (map digit ds) = Some (foldl (\<lambda>n d. n * b + d) n ds)"
  using assms(3,4)
proof (induction ds arbitrary: n)
  case (Cons d ds)
  have "n * b + d \<le> foldl (\<lambda>n d. n * b + d) (n * b + d) ds" by (rule value_grows) (rule assms)
  then have "n * b + d < 2 ^ 64" using Cons.prems by simp
  then show ?case using Cons assms(2) digit [of d] by simp
qed simp

lemma digits_plain:
  assumes "list_all (\<lambda>d. d < b) ds" "b \<le> 16"
  shows "set (map digit ds) \<inter> {CHR ''_'', CHR 0x0A, CHR ''='', CHR ''#''} = {}"
  using assms(1)
proof (induction ds)
  case (Cons d ds)
  then show ?case using digit [of d] assms(2) by auto
qed simp

lemma number_written_plain: "number_written n s \<Longrightarrow> set s \<inter> {CHR ''_'', CHR 0x0A, CHR ''='', CHR ''#''} = {}"
proof (induction rule: number_written.induct)
  case (in_decimal n)
  then show ?case using decimal_no_char [of _ n] by (auto simp: is_digit_def)
next
  case (in_hex ds)
  then show ?case using digits_plain [of 16 ds] by simp
next
  case (in_octal ds)
  then show ?case using digits_plain [of 8 ds] by simp
qed

lemma ParseUint_written:
  assumes "number_written n s" "n < 2 ^ 64"
  shows "ParseUint s = Some n"
  using assms
proof (cases rule: number_written.cases)
  case in_decimal
  then show ?thesis using assms(2) by (simp add: ParseUint_decimal)
next
  case (in_hex ds)
  have "CHR ''_'' \<notin> set (map digit ds)" using digits_plain [of 16 ds] in_hex by simp
  then have "underscore_ok True False (map digit ds)" by (rule underscore_none)
  moreover have "length (''0x'' @ map digit ds) \<ge> 3" using in_hex by (cases ds) simp_all
  ultimately show ?thesis
    using in_hex assms(2) parse_digits_text [of 16 ds 0]
    by (simp add: ParseUint_def number_base_def has_prefix_def positional_def)
next
  case (in_octal ds)
  have "CHR ''_'' \<notin> set (map digit ds)" using digits_plain [of 8 ds] in_octal by simp
  then have "underscore_ok True False (map digit ds)" by (rule underscore_none)
  moreover obtain d ds' where ds: "ds = d # ds'" "d < 8" using in_octal by (cases ds) auto
  moreover have "digit d \<in> set ''01234567''" using digit [of d] ds by simp
  ultimately show ?thesis
    using in_octal assms(2) parse_digits_text [of 8 ds 0]
    by (auto simp: ParseUint_def number_base_def has_prefix_def positional_def)
qed

section \<open>The text of infocmp\<close>

datatype capability = Flag | Number nat | Text string

inductive cap_written :: "string \<times> capability \<Rightarrow> string \<Rightarrow> bool" where
  flag: "cap_written (k, Flag) (CHR 0x09 # k @ '','')"
| number: "number_written n s \<Longrightarrow> cap_written (k, Number n) (CHR 0x09 # k @ ''#'' @ s @ '','')"
| string: "written v t \<Longrightarrow> cap_written (k, Text v) (CHR 0x09 # k @ ''='' @ t @ '','')"

definition infocmp_text :: "string list \<Rightarrow> string \<Rightarrow> string \<Rightarrow> string list \<Rightarrow> string" where
  "infocmp_text comments name desc lines =
     concat (map (\<lambda>l. l @ [CHR 0x0A]) (map ((#) CHR ''#'') comments @ (name @ CHR ''|'' # desc @ '','') # lines))"

definition one_line :: "string \<Rightarrow> bool" where
  "one_line s \<longleftrightarrow> CHR 0x0A \<notin> set s"

definition cap_ok :: "string \<times> capability \<Rightarrow> bool" where
  "cap_ok p \<longleftrightarrow> one_line (fst p) \<and> CHR ''='' \<notin> set (fst p) \<and> CHR ''#'' \<notin> set (fst p) \<and>
     (case snd p of Number n \<Rightarrow> n < 2 ^ 63 | _ \<Rightarrow> True)"

fun cap_value :: "capability \<Rightarrow> string" where
  "cap_value Flag = []"
| "cap_value (Number n) = fmt_d (int n)"
| "cap_value (Text v) = v"

fun add_cap :: "string \<times> capability \<Rightarrow> terminfo \<Rightarrow> terminfo" where
  "add_cap (k, Flag) tc = tc\<lparr>ti_bools := (ti_bools tc)(k \<mapsto> True)\<rparr>"
| "add_cap (k, Number n) tc = tc\<lparr>ti_nums := (ti_nums tc)(k \<mapsto> int n)\<rparr>"
| "add_cap (k, Text v) tc = tc\<lparr>ti_strs := (ti_strs tc)(k \<mapsto> v)\<rparr>"

lemma split_two: "c \<notin> set k \<Longrightarrow> split_two c (k @ c # v) = Some (k, v)" "c \<notin> set s \<Longrightarrow> split_two c s = None"
  by (auto simp: split_two_def takeWhile_append dropWhile_append)

lemma add_capability_line:
  assumes "cap_written p line" "cap_ok p"
  shows "add_capability line tc = Inr (add_cap p tc)"
  using assms(1)
proof (cases rule: cap_written.cases)
  case (flag k)
  then show ?thesis using assms(2) by (simp add: add_capability_def cap_ok_def split_two butlast_append)
next
  case (number n s k)
  have "sint (word_of_nat n :: 64 word) = int n"
    using assms(2) number by (simp add: cap_ok_def signed_of_nat signed_take_bit_int_eq_self)
  moreover have "ParseUint s = Some n" using assms(2) number by (intro ParseUint_written) (simp_all add: cap_ok_def)
  ultimately show ?thesis
    using assms(2) number split_two(1) [of "CHR ''#''" k s] number_written_plain [OF number(3)]
    by (simp add: add_capability_def cap_ok_def split_two(2) butlast_append)
next
  case (string v t k)
  then show ?thesis
    using assms(2) split_two(1) [of "CHR ''=''" k t]
    by (simp add: add_capability_def cap_ok_def butlast_append unescape_written)
qed

lemma add_capabilities_lines:
  assumes "list_all2 cap_written caps lines" "list_all cap_ok caps"
  shows "add_capabilities lines tc = Inr (fold add_cap caps tc)"
  using assms by (induction arbitrary: tc rule: list_all2_induct) (simp_all add: add_capability_line)

lemma fold_add_cap:
  assumes "distinct (map fst caps)"
  shows "ti_nums (fold add_cap caps tc) k = (case map_of caps k of Some (Number n) \<Rightarrow> Some (int n) | _ \<Rightarrow> ti_nums tc k) \<and>
    ti_strs (fold add_cap caps tc) k = (case map_of caps k of Some (Text v) \<Rightarrow> Some v | _ \<Rightarrow> ti_strs tc k) \<and>
    ti_bools (fold add_cap caps tc) k = (case map_of caps k of Some Flag \<Rightarrow> Some True | _ \<Rightarrow> ti_bools tc k) \<and>
    ti_name (fold add_cap caps tc) = ti_name tc"
  using assms
proof (induction caps arbitrary: tc)
  case (Cons p caps)
  have none: "map_of caps (fst p) = None" using Cons.prems by (auto simp: map_of_eq_None_iff)
  obtain k v where "p = (k, v)" by force
  then show ?case
    using Cons none by (cases v) (auto split: option.split capability.split)
qed simp

lemma split_lines:
  assumes "list_all one_line ls"
  shows "split_on CHR 0x0A (concat (map (\<lambda>l. l @ [CHR 0x0A]) ls)) = ls @ [[]]"
  using assms by (induction ls) (simp_all add: one_line_def split_on_part)

lemma last_line: "list_at (ls @ [l]) (int (length (ls @ [l])) - 1) = Some l"
  by (simp add: list_at_def)

lemma cap_written_line:
  assumes "cap_written p line" "cap_ok p"
  shows "one_line line"
  using assms number_written_plain written_line by (cases rule: cap_written.cases) (auto simp: cap_ok_def one_line_def)

lemma cap_written_lines: "list_all2 cap_written caps lines \<Longrightarrow> list_all cap_ok caps \<Longrightarrow> list_all one_line lines"
  by (induction rule: list_all2_induct) (auto simp: cap_written_line)

abbreviation header :: "string \<Rightarrow> string \<Rightarrow> string" where
  "header name desc \<equiv> name @ CHR ''|'' # desc @ '',''"

lemma setup_written:
  assumes "list_all one_line comments" "one_line name" "\<not> has_prefix name ''#''"
    and "one_line desc" "list_all2 cap_written caps lines" "list_all cap_ok caps"
  shows "setupterm (Some (infocmp_text comments name desc lines)) = Some (Inr (fold add_cap caps (read_header (header name desc))))"
proof -
  let ?head = "header name desc"
  have lines: "split_on CHR 0x0A (infocmp_text comments name desc lines) =
      map ((#) CHR ''#'') comments @ (?head # lines) @ [[]]"
    using assms(1,2,4) cap_written_lines [OF assms(5,6)] unfolding infocmp_text_def
    by (subst split_lines) (auto simp: list_all_iff one_line_def)
  have "\<not> has_prefix ?head ''#''" using assms(3) by (cases name) (auto simp: has_prefix_def)
  moreover have "has_prefix (CHR ''#'' # l) ''#''" for l by (simp add: has_prefix_def)
  ultimately have "dropWhile (\<lambda>l. has_prefix l ''#'') (map ((#) CHR ''#'') comments @ (?head # lines) @ [[]]) =
      (?head # lines) @ [[]]"
    by (induction comments) auto
  note drop = this
  show ?thesis
    unfolding setupterm_def option.case Let_def lines drop last_line
    by (simp add: list_at_def add_capabilities_lines [OF assms(5,6)] butlast_append)
qed

lemma header_fields:
  assumes "CHR ''|'' \<notin> set name"
  shows "ti_name (read_header (header name desc)) = name" "ti_nums (read_header (header name desc)) = Map.empty"
    "ti_strs (read_header (header name desc)) = Map.empty" "ti_bools (read_header (header name desc)) = Map.empty"
  using assms by (simp_all add: read_header_def butlast_append split_on_part)

text \<open>The names that \<open>dynamicInit\<close> adds.\<close>

definition with_names :: "terminfo \<Rightarrow> terminfo" where
  "with_names tc = tc\<lparr>ti_nums := (ti_nums tc)(''Co'' \<mapsto> getnum tc ''colors''), ti_strs := (ti_strs tc)(''TN'' \<mapsto> ti_name tc)\<rparr>"

lemma Lookup_with_names:
  "k \<notin> {''Co'', ''TN''} \<Longrightarrow> Lookup k (with_names tc) = Lookup k tc"
  "Lookup ''Co'' (with_names tc) = Some (fmt_d (getnum tc ''colors''))"
  "ti_nums tc ''TN'' = None \<Longrightarrow> Lookup ''TN'' (with_names tc) = Some (ti_name tc)"
  by (simp_all add: Lookup_def with_names_def cong: option.case_cong)

lemma Lookup_none: "Lookup k tc = None \<longleftrightarrow> ti_nums tc k = None \<and> ti_bools tc k = None \<and> ti_strs tc k = None"
  by (auto simp: Lookup_def split: option.splits)

lemma dynamicInit_names:
  assumes "termName \<noteq> []" "setupterm t = Some (Inr tc)"
  shows "\<exists>tc'. dynamicInit termName t = Some tc' \<and> (\<forall>k. k \<noteq> ''RGB'' \<longrightarrow> Lookup k tc' = Lookup k (with_names tc)) \<and>
    Lookup ''RGB'' tc' = (if Lookup ''RGB'' tc = None then Some ''8/8/8'' else Lookup ''RGB'' tc)"
proof -
  let ?co = "with_names tc"
  let ?rgb = "if Lookup ''RGB'' ?co = None then ?co\<lparr>ti_strs := (ti_strs ?co)(''RGB'' \<mapsto> ''8/8/8'')\<rparr> else ?co"
  have "dynamicInit termName t = Some ?rgb"
    unfolding Lookup_none using assms by (simp add: dynamicInit_def Let_def with_names_def)
  moreover have "Lookup k ?rgb = Lookup k ?co" if "k \<noteq> ''RGB''" for k using that by (simp add: Lookup_def cong: option.case_cong)
  moreover have "Lookup ''RGB'' ?rgb = (if Lookup ''RGB'' ?co = None then Some ''8/8/8'' else Lookup ''RGB'' ?co)"
  proof (cases "Lookup ''RGB'' ?co = None")
    case True
    then have "ti_nums ?co ''RGB'' = None" by (simp add: Lookup_none)
    then show ?thesis using True by (simp add: Lookup_def)
  next
    case False
    then show ?thesis by auto
  qed
  moreover have "Lookup ''RGB'' ?co = Lookup ''RGB'' tc" by (rule Lookup_with_names) simp
  ultimately show ?thesis by (intro exI [of _ ?rgb]) simp
qed

text \<open>
  C28. What infocmp prints is looked up. For any comments, name, description and capabilities, however their strings
  are written in the notations of terminfo(5) (control characters as letters behind a backslash, with a caret
  or in octal, quoted punctuation, but not the letter \<open>l\<close>, which the code does not know) and their numbers
  below 2 to the 63 in decimal, hexadecimal or octal, each capability is found with its value, nothing else is
  found, and the special names are the ones that the comment of \<open>dynamicInit\<close> promises. The names of
  capabilities are distinct and hold no \<open>=\<close>, no \<open>#\<close> and no line feed, and \<open>Co\<close> and \<open>TN\<close> are not among them.
  \<open>TERM\<close> is set, and the name of the terminal holds no bar and does not begin as a comment.
\<close>

theorem capability_lookup:
  assumes "termName \<noteq> []" "list_all one_line comments" "one_line name" "CHR ''|'' \<notin> set name" "\<not> has_prefix name ''#''"
    and "one_line desc" "list_all2 cap_written caps lines" "list_all cap_ok caps" "distinct (map fst caps)"
    and "fst ` set caps \<inter> {''Co'', ''TN''} = {}"
  shows "\<exists>tc. dynamicInit termName (Some (infocmp_text comments name desc lines)) = Some tc \<and>
    (\<forall>k. k \<notin> {''Co'', ''TN'', ''RGB''} \<longrightarrow> Lookup k tc = map_option cap_value (map_of caps k)) \<and>
    Lookup ''TN'' tc = Some name \<and>
    Lookup ''RGB'' tc = Some (case map_of caps ''RGB'' of Some c \<Rightarrow> cap_value c | None \<Rightarrow> ''8/8/8'') \<and>
    Lookup ''Co'' tc = Some (fmt_d (case map_of caps ''colors'' of Some (Number n) \<Rightarrow> int n | _ \<Rightarrow> 0))"
proof -
  let ?tc = "fold add_cap caps (read_header (header name desc))"
  note f = fold_add_cap [OF assms(9), of "read_header (header name desc)", unfolded header_fields [OF assms(4)]]
  have "''TN'' \<notin> fst ` set caps" using assms(10) by blast
  then have "map_of caps ''TN'' = None" by (simp add: map_of_eq_None_iff)
  then have none: "ti_nums ?tc ''TN'' = None" "ti_name ?tc = name" using f [of "''TN''"] by simp_all
  have found: "Lookup k ?tc = map_option cap_value (map_of caps k)" for k
    using f [of k] by (cases "map_of caps k") (auto simp: Lookup_def split: capability.split)
  have colors: "getnum ?tc ''colors'' = (case map_of caps ''colors'' of Some (Number n) \<Rightarrow> int n | _ \<Rightarrow> 0)"
    using f [of "''colors''"] by (simp add: getnum_def split: option.split capability.split)
  obtain tc where tc: "dynamicInit termName (Some (infocmp_text comments name desc lines)) = Some tc"
    "\<forall>k. k \<noteq> ''RGB'' \<longrightarrow> Lookup k tc = Lookup k (with_names ?tc)"
    "Lookup ''RGB'' tc = (if Lookup ''RGB'' ?tc = None then Some ''8/8/8'' else Lookup ''RGB'' ?tc)"
    using dynamicInit_names [OF assms(1) setup_written [OF assms(2,3,5-8)]] by blast
  then show ?thesis
    using Lookup_with_names [where tc = ?tc] none found colors by (intro exI [of _ tc]) (simp split: option.split)
qed

text \<open>The comment of \<open>unescape\<close> promises that a backslash before \<open>l\<close> is a line feed; the code takes the letter itself.\<close>

lemma unescape_letter_l: "unescape [CHR 0x5C, CHR ''l''] = ''l''"
  by (simp add: octal_def escape_letter_def)

text \<open>Some lines as infocmp prints them for xterm-256color.\<close>

definition xterm_caps :: "(string \<times> capability) list" where
  "xterm_caps = [(''bce'', Flag), (''colors'', Number 256), (''cols'', Number 80), (''cr'', Text [CHR 0x0D]),
     (''cub1'', Text [CHR 0x08]), (''smcup'', Text (CHR 0x1B # ''[?1049h'')), (''acsc'', Text ''a,b'')]"

definition xterm_lines :: "string list" where
  "xterm_lines = map ((#) CHR 0x09)
     [''bce,'', ''colors#0x100,'', ''cols#80,'', ''cr='' @ backslash # ''r,'', ''cub1=^H,'',
      ''smcup='' @ backslash # ''E[?1049h,'', ''acsc=a'' @ backslash # '',b,'']"

lemma written_text: "list_all (\<lambda>c. c \<notin> {backslash, CHR ''^'', CHR 0x0A}) v \<Longrightarrow> written v v"
  by (induction v) (simp_all add: written.nothing written.plain)

lemma xterm_written: "list_all2 cap_written xterm_caps xterm_lines"
proof -
  have hex: "number_written 256 ''0x100''" using number_written.in_hex [of "[1, 0, 0]"] by (simp add: positional_def digit_def)
  have "decimal 80 = ''80''" by code_simp
  then have dec: "number_written 80 ''80''" using number_written.in_decimal [of 80] by simp
  have cr: "written [CHR 0x0D] (backslash # ''r'')"
    using written.named [OF written.nothing, of "CHR ''r''"] by (simp add: named_letters_def)
  have "char_of (8 :: nat) = CHR 0x08" "char_of (64 + 8 :: nat) = CHR ''H''" by code_simp+
  then have cub1: "written [CHR 0x08] ''^H''" using written.control [OF written.nothing, of 8] by (simp only:)
  have smcup: "written (CHR 0x1B # ''[?1049h'') (backslash # ''E[?1049h'')"
    using written.named [OF written_text [of "''[?1049h''"], of "CHR ''E''"] by (simp add: named_letters_def)
  have acsc: "written ''a,b'' (''a'' @ backslash # '',b'')"
    using written.plain [OF written.quoted [OF written_text [of "''b''"], of "CHR '',''"], of "CHR ''a''"] by simp
  show ?thesis
    using cap_written.flag [of "''bce''"] cap_written.number [OF hex, of "''colors''"] cap_written.number [OF dec, of "''cols''"]
      cap_written.string [OF cr, of "''cr''"] cap_written.string [OF cub1, of "''cub1''"]
      cap_written.string [OF smcup, of "''smcup''"] cap_written.string [OF acsc, of "''acsc''"]
    by (simp add: xterm_caps_def xterm_lines_def)
qed

lemma capability_lookup_witness:
  "\<exists>tc. dynamicInit ''xterm'' (Some (infocmp_text ['' reconstructed''] ''xterm'' ''a terminal'' xterm_lines)) = Some tc \<and>
    Lookup ''bce'' tc = Some [] \<and> Lookup ''smcup'' tc = Some (CHR 0x1B # ''[?1049h'') \<and> Lookup ''cr'' tc = Some [CHR 0x0D] \<and>
    Lookup ''cub1'' tc = Some [CHR 0x08] \<and> Lookup ''acsc'' tc = Some ''a,b'' \<and> Lookup ''ech'' tc = None \<and>
    Lookup ''TN'' tc = Some ''xterm'' \<and> Lookup ''RGB'' tc = Some ''8/8/8'' \<and> Lookup ''Co'' tc = Some (fmt_d 256)"
proof -
  obtain tc where tc: "dynamicInit ''xterm'' (Some (infocmp_text ['' reconstructed''] ''xterm'' ''a terminal'' xterm_lines)) = Some tc"
    "\<forall>k. k \<notin> {''Co'', ''TN'', ''RGB''} \<longrightarrow> Lookup k tc = map_option cap_value (map_of xterm_caps k)"
    "Lookup ''TN'' tc = Some ''xterm''"
    "Lookup ''RGB'' tc = Some (case map_of xterm_caps ''RGB'' of Some c \<Rightarrow> cap_value c | None \<Rightarrow> ''8/8/8'')"
    "Lookup ''Co'' tc = Some (fmt_d (case map_of xterm_caps ''colors'' of Some (Number n) \<Rightarrow> int n | _ \<Rightarrow> 0))"
    using capability_lookup [of "''xterm''" "['' reconstructed'']" "''xterm''" "''a terminal''" xterm_caps xterm_lines] xterm_written
    by (fastforce simp: one_line_def has_prefix_def cap_ok_def xterm_caps_def)
  then show ?thesis
    using spec [OF tc(2), of "''bce''"] spec [OF tc(2), of "''smcup''"] spec [OF tc(2), of "''cr''"]
      spec [OF tc(2), of "''cub1''"] spec [OF tc(2), of "''acsc''"] spec [OF tc(2), of "''ech''"]
    by (simp add: xterm_caps_def)
qed

end
